(* ===== verification/Rust_Strings.thy ===== *)
theory Rust_Strings
  imports Rust_Prelude
begin

text \<open>
  The \<open>str\<close> operations of the standard library the code calls, on UTF-8 bytes: ASCII case,
  searching, splitting, trimming (Unicode white space, by its UTF-8 encodings), debug
  formatting and integer parsing.
\<close>

abbreviation dquote :: char where "dquote \<equiv> CHR 0x22"
abbreviation squote :: char where "squote \<equiv> CHR 0x27"
abbreviation newline :: char where "newline \<equiv> CHR 0x0A"
abbreviation backtick :: char where "backtick \<equiv> CHR 0x60"
abbreviation backslash :: char where "backslash \<equiv> CHR 0x5C"

definition unlines :: "string list \<Rightarrow> string" where
  "unlines ls = concat (map (\<lambda>l. l @ [newline]) ls)"

text \<open>The environment variables of a process.\<close>

type_synonym env_vars = "string \<rightharpoonup> string"

section \<open>ASCII case\<close>

definition to_upper_char :: "char \<Rightarrow> char" where
  "to_upper_char c = (let n = (of_char c :: nat) in if 97 \<le> n \<and> n \<le> 122 then char_of (n - 32) else c)"

definition to_lower_char :: "char \<Rightarrow> char" where
  "to_lower_char c = (let n = (of_char c :: nat) in if 65 \<le> n \<and> n \<le> 90 then char_of (n + 32) else c)"

definition to_ascii_uppercase :: "string \<Rightarrow> string" where
  "to_ascii_uppercase s = map to_upper_char s"

definition to_ascii_lowercase :: "string \<Rightarrow> string" where
  "to_ascii_lowercase s = map to_lower_char s"

definition eq_ignore_ascii_case :: "string \<Rightarrow> string \<Rightarrow> bool" where
  "eq_ignore_ascii_case s t \<longleftrightarrow> to_ascii_lowercase s = to_ascii_lowercase t"

lemma length_to_ascii_uppercase [simp]: "length (to_ascii_uppercase s) = length s"
  by (simp add: to_ascii_uppercase_def)

lemma to_upper_char_idem [simp]: "to_upper_char (to_upper_char c) = to_upper_char c"
  by (auto simp: to_upper_char_def Let_def)

lemma to_ascii_uppercase_idem [simp]:
  "to_ascii_uppercase (to_ascii_uppercase s) = to_ascii_uppercase s"
  by (simp add: to_ascii_uppercase_def)

section \<open>Searching, splitting, joining\<close>

fun contains :: "string \<Rightarrow> string \<Rightarrow> bool" where
  "contains n [] = (n = [])"
| "contains n (c # s) = (prefix n (c # s) \<or> contains n s)"

text \<open>\<open>s.find(n)\<close>: the byte index of the first occurrence.\<close>

fun find_sub :: "string \<Rightarrow> string \<Rightarrow> nat option" where
  "find_sub n [] = (if n = [] then Some 0 else None)"
| "find_sub n (c # s) = (if prefix n (c # s) then Some 0 else map_option Suc (find_sub n s))"

fun split_on :: "char \<Rightarrow> string \<Rightarrow> string list" where
  "split_on c [] = [[]]"
| "split_on c (x # s) =
     (if x = c then [] # split_on c s
      else (case split_on c s of [] \<Rightarrow> [[x]] | p # ps \<Rightarrow> (x # p) # ps))"

fun str_join :: "string \<Rightarrow> string list \<Rightarrow> string" where
  "str_join sep [] = []"
| "str_join sep [x] = x"
| "str_join sep (x # y # xs) = x @ sep @ str_join sep (y # xs)"

definition replace_char :: "char \<Rightarrow> string \<Rightarrow> string \<Rightarrow> string" where
  "replace_char c r s = concat (map (\<lambda>x. if x = c then r else [x]) s)"

lemma contains_iff: "contains n s \<longleftrightarrow> sublist n s"
  by (induction s) (auto simp: sublist_Cons_right)

lemma find_sub_Some:
  "find_sub n s = Some i \<Longrightarrow> i \<le> length s \<and> prefix n (drop i s)"
  by (induction s arbitrary: i) (auto split: if_splits)

lemma find_sub_None: "find_sub n s = None \<longleftrightarrow> \<not> contains n s"
  by (induction s) auto

lemma split_on_nonempty [simp]: "split_on c s \<noteq> []"
  by (induction s) (auto split: list.splits)

lemma split_on_no_sep: "p \<in> set (split_on c s) \<Longrightarrow> c \<notin> set p"
  by (induction s arbitrary: p) (force split: list.splits if_splits)+

lemma str_join_split_on: "str_join [c] (split_on c s) = s"
proof (induction s)
  case Nil
  then show ?case by simp
next
  case (Cons x s)
  obtain p ps where "split_on c s = p # ps"
    by (cases "split_on c s") auto
  with Cons show ?case by (cases ps) auto
qed

lemma replace_char_simps [simp]:
  "replace_char c r [] = []"
  "replace_char c r (x # s) = (if x = c then r else [x]) @ replace_char c r s"
  by (simp_all add: replace_char_def)

lemma replace_char_absent: "c \<notin> set s \<Longrightarrow> replace_char c r s = s"
  by (induction s) auto

section \<open>Trimming\<close>

text \<open>\<open>char::is_whitespace\<close>, by the number of UTF-8 bytes of the character.\<close>

definition ws1 :: "char \<Rightarrow> bool" where
  "ws1 a \<longleftrightarrow> (let n = (of_char a :: nat) in (9 \<le> n \<and> n \<le> 13) \<or> n = 32)"

definition ws2 :: "char \<Rightarrow> char \<Rightarrow> bool" where
  "ws2 a b \<longleftrightarrow> a = CHR 0xC2 \<and> (b = CHR 0x85 \<or> b = CHR 0xA0)"

definition ws3 :: "char \<Rightarrow> char \<Rightarrow> char \<Rightarrow> bool" where
  "ws3 a b c \<longleftrightarrow>
     (a = CHR 0xE1 \<and> b = CHR 0x9A \<and> c = CHR 0x80)
   \<or> (a = CHR 0xE2 \<and> b = CHR 0x80 \<and>
        ((0x80 \<le> (of_char c :: nat) \<and> (of_char c :: nat) \<le> 0x8A)
         \<or> c = CHR 0xA8 \<or> c = CHR 0xA9 \<or> c = CHR 0xAF))
   \<or> (a = CHR 0xE2 \<and> b = CHR 0x81 \<and> c = CHR 0x9F)
   \<or> (a = CHR 0xE3 \<and> b = CHR 0x80 \<and> c = CHR 0x80)"

fun trim_by :: "(char \<Rightarrow> char \<Rightarrow> bool) \<Rightarrow> (char \<Rightarrow> char \<Rightarrow> char \<Rightarrow> bool) \<Rightarrow> string \<Rightarrow> string" where
  "trim_by w2 w3 [] = []"
| "trim_by w2 w3 [a] = (if ws1 a then [] else [a])"
| "trim_by w2 w3 [a, b] =
     (if ws1 a then trim_by w2 w3 [b] else if w2 a b then [] else [a, b])"
| "trim_by w2 w3 (a # b # c # s) =
     (if ws1 a then trim_by w2 w3 (b # c # s)
      else if w2 a b then trim_by w2 w3 (c # s)
      else if w3 a b c then trim_by w2 w3 s
      else a # b # c # s)"

definition trim_start :: "string \<Rightarrow> string" where
  "trim_start s = trim_by ws2 ws3 s"

definition trim_end :: "string \<Rightarrow> string" where
  "trim_end s = rev (trim_by (\<lambda>b a. ws2 a b) (\<lambda>c b a. ws3 a b c) (rev s))"

definition trim :: "string \<Rightarrow> string" where
  "trim s = trim_end (trim_start s)"

text \<open>Whether the string starts with a white-space character.\<close>

definition starts_ws :: "string \<Rightarrow> bool" where
  "starts_ws s \<longleftrightarrow> trim_start s \<noteq> s"

lemma trim_by_suffix: "suffix (trim_by w2 w3 s) s"
  by (induction w2 w3 s rule: trim_by.induct) (auto intro: suffix_ConsI)

lemma trim_start_suffix: "suffix (trim_start s) s"
  by (simp add: trim_start_def trim_by_suffix)

lemma trim_end_prefix: "prefix (trim_end s) s"
  using trim_by_suffix [of _ _ "rev s"] by (simp add: trim_end_def suffix_to_prefix)

lemma trim_sublist: "sublist (trim s) s"
proof -
  have "sublist (trim s) (trim_start s)"
    unfolding trim_def by (rule prefix_imp_sublist [OF trim_end_prefix])
  also have "sublist \<dots> s"
    by (rule suffix_imp_sublist [OF trim_start_suffix])
  finally show ?thesis .
qed

section \<open>Debug formatting\<close>

definition hex_digit :: "nat \<Rightarrow> char" where
  "hex_digit d = (if d < 10 then char_of (48 + d) else char_of (87 + d))"

definition debug_char :: "char \<Rightarrow> string" where
  "debug_char c = (let n = (of_char c :: nat) in
     if c = dquote then [backslash, dquote]
     else if c = backslash then [backslash, backslash]
     else if n = 0 then [backslash, CHR ''0'']
     else if n = 9 then [backslash, CHR ''t'']
     else if n = 10 then [backslash, CHR ''n'']
     else if n = 13 then [backslash, CHR ''r'']
     else if n < 16 then [backslash] @ ''u{'' @ [hex_digit n] @ ''}''
     else if n < 32 \<or> n = 127 then [backslash] @ ''u{'' @ [hex_digit (n div 16), hex_digit (n mod 16)] @ ''}''
     else [c])"

definition debug_str :: "string \<Rightarrow> string" where
  "debug_str s = [dquote] @ concat (map debug_char s) @ [dquote]"

section \<open>Integer parsing\<close>

text \<open>
  \<open>str::parse\<close> of an unsigned type with maximum \<open>mx\<close>: an optional \<open>+\<close>, then one or
  more digits; of a signed type, an optional \<open>+\<close> or \<open>-\<close>. Out of range is an error.
\<close>

definition parse_digits :: "string \<Rightarrow> nat option" where
  "parse_digits s = (if s \<noteq> [] \<and> list_all is_digit s then Some (digits_val s) else None)"

definition parse_uint :: "nat \<Rightarrow> string \<Rightarrow> nat option" where
  "parse_uint mx s =
     (case parse_digits (if s \<noteq> [] \<and> hd s = CHR ''+'' then tl s else s) of
        None \<Rightarrow> None
      | Some n \<Rightarrow> if n \<le> mx then Some n else None)"

definition parse_int :: "int \<Rightarrow> int \<Rightarrow> string \<Rightarrow> int option" where
  "parse_int lo hi s =
     (let neg = (s \<noteq> [] \<and> hd s = CHR ''-'');
          body = (if s \<noteq> [] \<and> (hd s = CHR ''+'' \<or> hd s = CHR ''-'') then tl s else s)
      in case parse_digits body of
           None \<Rightarrow> None
         | Some n \<Rightarrow> (let v = (if neg then - int n else int n)
                      in if lo \<le> v \<and> v \<le> hi then Some v else None))"

lemma parse_digits_nat_str [simp]: "parse_digits (nat_str n) = Some n"
  by (simp add: parse_digits_def nat_str_digits)

lemma is_digit_not_sign [simp]: "\<not> is_digit (CHR ''+'')" "\<not> is_digit (CHR ''-'')"
  by (simp_all add: is_digit_def)

lemma hd_nat_str_digit: "is_digit (hd (nat_str n))"
  using nat_str_digits [of n] by (cases "nat_str n") auto

lemma hd_nat_str_not_sign [simp]: "hd (nat_str n) \<noteq> CHR ''+''" "hd (nat_str n) \<noteq> CHR ''-''"
  using hd_nat_str_digit [of n] by (auto simp: is_digit_def)

lemma parse_uint_nat_str: "parse_uint mx (nat_str n) = (if n \<le> mx then Some n else None)"
  by (simp add: parse_uint_def)

lemma parse_int_int_str:
  "parse_int lo hi (int_str i) = (if lo \<le> i \<and> i \<le> hi then Some i else None)"
  by (simp add: parse_int_def int_str_def Let_def)

lemma int_str_inject: "int_str i = int_str j \<longleftrightarrow> i = j"
proof -
  have "parse_int (min i j) (max i j) (int_str i) = Some i"
    "parse_int (min i j) (max i j) (int_str j) = Some j"
    by (simp_all add: parse_int_int_str)
  then show ?thesis by (metis option.inject)
qed

lemma parse_uint_le: "parse_uint mx s = Some n \<Longrightarrow> n \<le> mx"
  by (auto simp: parse_uint_def split: option.splits if_splits)

lemma parse_int_range: "parse_int lo hi s = Some i \<Longrightarrow> lo \<le> i \<and> i \<le> hi"
  by (auto simp: parse_int_def Let_def split: option.splits if_splits)

lemma parse_digits_hd: "parse_digits s = Some n \<Longrightarrow> is_digit (hd s)"
  by (cases s) (auto simp: parse_digits_def split: if_splits)

lemma parse_uint_imp_int:
  assumes "parse_uint mx s = Some n" "lo \<le> 0" "int mx \<le> hi"
  shows "parse_int lo hi s = Some (int n)"
proof (cases "s \<noteq> [] \<and> hd s = CHR ''+''")
  case True
  with assms show ?thesis by (auto simp: parse_uint_def parse_int_def split: option.splits if_splits)
next
  case False
  with assms have "parse_digits s = Some n" "n \<le> mx"
    by (auto simp: parse_uint_def split: option.splits if_splits)
  moreover have "s \<noteq> []" "hd s \<noteq> CHR ''-''"
    using calculation(1) parse_digits_hd [of s] by (auto simp: parse_digits_def)
  ultimately show ?thesis using False assms(2,3) by (simp add: parse_int_def)
qed

end
