(* ===== verification/Filter_Ast.thy ===== *)
theory Filter_Ast
  imports Rust_Strings
begin

text \<open>
  \<open>core/src/filter.rs\<close>: the condition list of a \<open>filter\<close> parameter and its
  structural validation. The JSON decoder (\<open>serde_json::from_str\<close>, third-party) is the
  parameter \<open>de\<close>: the decoded conditions, or the text its error displays.
\<close>

definition MAX_FILTER_BYTES :: nat where "MAX_FILTER_BYTES = 8192"
definition MAX_CONDITIONS :: nat where "MAX_CONDITIONS = 10"

datatype logic = And | Or

datatype filter_op = Eq | Ne | Gt | Lt | Ge | Le | Like | Ilike | IsNull | IsNotNull

definition takes_value :: "filter_op \<Rightarrow> bool" where
  "takes_value op \<longleftrightarrow> \<not> (op = IsNull \<or> op = IsNotNull)"

fun as_wire :: "filter_op \<Rightarrow> string" where
  "as_wire Eq = ''=''"
| "as_wire Ne = ''!=''"
| "as_wire Gt = ''>''"
| "as_wire Lt = ''<''"
| "as_wire Ge = ''>=''"
| "as_wire Le = ''<=''"
| "as_wire Like = ''LIKE''"
| "as_wire Ilike = ''ILIKE''"
| "as_wire IsNull = ''IS NULL''"
| "as_wire IsNotNull = ''IS NOT NULL''"

record condition =
  c_logic :: "logic option"
  c_not :: bool
  c_column :: string
  c_op :: filter_op
  c_value :: "string option"
  c_join :: "nat option"

datatype filter_error = FilterError string

fun filter_error_text :: "filter_error \<Rightarrow> string" where
  "filter_error_text (FilterError s) = s"

section \<open>Validation\<close>

text \<open>One iteration of the loop over the conditions, \<open>i\<close> its index.\<close>

definition check_condition :: "bool \<Rightarrow> nat \<Rightarrow> condition \<Rightarrow> filter_error + unit" where
  "check_condition allow_join i c =
     (if c_join c \<noteq> None \<and> \<not> allow_join
      then Inl (FilterError ''join is only valid on the join route'')
      else if i = 0 \<and> c_logic c \<noteq> None
      then Inl (FilterError ''logic must be absent on the first condition'')
      else if 1 \<le> i \<and> c_logic c = None
      then Inl (FilterError (''condition '' @ nat_str i @ '' is missing logic (\"AND\" or \"OR\")''))
      else if takes_value (c_op c) \<and> c_value c = None
      then Inl (FilterError (''op '' @ debug_str (as_wire (c_op c)) @ '' requires a value''))
      else if \<not> takes_value (c_op c) \<and> c_value c \<noteq> None
      then Inl (FilterError (''op '' @ debug_str (as_wire (c_op c)) @ '' takes no value''))
      else Inr ())"

fun check_conditions :: "bool \<Rightarrow> nat \<Rightarrow> condition list \<Rightarrow> filter_error + unit" where
  "check_conditions allow_join i [] = Inr ()"
| "check_conditions allow_join i (c # cs) =
     and_then (check_condition allow_join i c) (\<lambda>_. check_conditions allow_join (Suc i) cs)"

definition parse_inner ::
  "(string \<Rightarrow> string + condition list) \<Rightarrow> string \<Rightarrow> bool \<Rightarrow> filter_error + condition list" where
  "parse_inner de raw allow_join =
     (if MAX_FILTER_BYTES < length raw
      then Inl (FilterError (''filter too long: '' @ nat_str (length raw) @ '' bytes (max ''
             @ nat_str MAX_FILTER_BYTES @ '')''))
      else and_then
        (map_err (\<lambda>e. FilterError (''filter must be a JSON array of conditions: '' @ e)) (de raw))
        (\<lambda>conditions.
           if MAX_CONDITIONS < length conditions
           then Inl (FilterError (''too many conditions: '' @ nat_str (length conditions) @ '' (max ''
                  @ nat_str MAX_CONDITIONS @ '')''))
           else and_then (check_conditions allow_join 0 conditions) (\<lambda>_. Inr conditions)))"

definition parse :: "(string \<Rightarrow> string + condition list) \<Rightarrow> string \<Rightarrow> filter_error + condition list" where
  "parse de raw = parse_inner de raw False"

definition parse_for_join ::
  "(string \<Rightarrow> string + condition list) \<Rightarrow> string \<Rightarrow> filter_error + condition list" where
  "parse_for_join de raw = parse_inner de raw True"

section \<open>What an accepted filter is\<close>

definition wf_condition :: "bool \<Rightarrow> nat \<Rightarrow> condition \<Rightarrow> bool" where
  "wf_condition allow_join i c \<longleftrightarrow>
     (c_join c = None \<or> allow_join) \<and> (c_logic c = None \<longleftrightarrow> i = 0)
     \<and> (takes_value (c_op c) \<longleftrightarrow> c_value c \<noteq> None)"

text \<open>The shape every accepted condition list has (\<open>spec/protocol.md\<close> 5.4.2).\<close>

definition wf_filter :: "bool \<Rightarrow> condition list \<Rightarrow> bool" where
  "wf_filter allow_join cs \<longleftrightarrow>
     length cs \<le> MAX_CONDITIONS \<and> (\<forall>i < length cs. wf_condition allow_join i (cs ! i))"

lemma check_condition_ok: "check_condition aj i c = Inr u \<longleftrightarrow> wf_condition aj i c"
  by (auto simp: check_condition_def wf_condition_def)

lemma check_conditions_ok:
  "check_conditions aj i cs = Inr u \<longleftrightarrow> (\<forall>k < length cs. wf_condition aj (i + k) (cs ! k))"
  by (induction cs arbitrary: i) (auto simp: check_condition_ok All_less_Suc2)

lemma check_conditions_cases: "check_conditions aj i cs = Inr () \<or> (\<exists>e. check_conditions aj i cs = Inl e)"
  by (cases "check_conditions aj i cs") auto

lemma wf_condition_mono: "wf_condition aj i c \<Longrightarrow> wf_condition True i c"
  by (auto simp: wf_condition_def)

lemma parse_inner_ok:
  "parse_inner de raw aj = Inr cs \<longleftrightarrow>
     length raw \<le> MAX_FILTER_BYTES \<and> de raw = Inr cs \<and> wf_filter aj cs"
  by (cases "de raw") (auto simp: parse_inner_def wf_filter_def check_conditions_ok)

lemma wf_filter_logic: "wf_filter aj cs \<Longrightarrow> 0 < i \<Longrightarrow> i < length cs \<Longrightarrow> c_logic (cs ! i) \<noteq> None"
  by (auto simp: wf_filter_def wf_condition_def)

lemma wf_filter_value: "wf_filter aj cs \<Longrightarrow> c \<in> set cs \<Longrightarrow> takes_value (c_op c) \<longleftrightarrow> c_value c \<noteq> None"
  by (auto simp: wf_filter_def wf_condition_def in_set_conv_nth)

lemma as_wire_inject: "as_wire a = as_wire b \<longleftrightarrow> a = b"
  by (cases a; cases b) simp_all

section \<open>Properties\<close>

text \<open>\<open>filter::parse\<close> accepts exactly the texts of at most 8192 bytes that decode to at
  most ten conditions of the documented shape without a \<open>join\<close> position, and returns the
  decoded conditions unchanged.\<close>

theorem parse_accepts_iff:
  "parse de raw = Inr cs \<longleftrightarrow>
     length raw \<le> MAX_FILTER_BYTES \<and> de raw = Inr cs \<and> wf_filter False cs"
  by (simp add: parse_def parse_inner_ok)

end
