(* ===== verification/Run_Grouping.thy ===== *)
theory Run_Grouping
  imports Rust_Prelude
begin

text \<open>
  The interface of the run-length grouping that turns ordered catalog rows (one per column)
  into one entry per index, constraint or referrer: \<open>same\<close> compares the last entry with a
  row, \<open>ext\<close> takes a row into it, \<open>mk\<close> starts a new entry. The laws say that both sides have
  a key and that entries collect the rows' columns in order. Every grouping of the three
  backends is an interpretation.
\<close>

locale run_grouping =
  fixes same :: "'b \<Rightarrow> 'a \<Rightarrow> bool"
    and ext :: "'b \<Rightarrow> 'a \<Rightarrow> 'b"
    and mk :: "'a \<Rightarrow> 'b"
    and gkey :: "'b \<Rightarrow> 'k"
    and rkey :: "'a \<Rightarrow> 'k"
    and gcols :: "'b \<Rightarrow> 'c list"
    and rcols :: "'a \<Rightarrow> 'c list"
  assumes same_iff: "same b a \<longleftrightarrow> gkey b = rkey a"
    and key_mk: "gkey (mk a) = rkey a"
    and key_ext: "gkey (ext b a) = gkey b"
    and cols_mk: "gcols (mk a) = rcols a"
    and cols_ext: "gcols (ext b a) = gcols b @ rcols a"
begin

lemma run_merge_snoc:
  "run_merge same ext mk (rows @ [r]) = push_or_merge same ext mk (run_merge same ext mk rows) r"
  by (simp add: run_merge_def)

lemma keys_push:
  "map gkey (push_or_merge same ext mk out r)
     = (if out \<noteq> [] \<and> gkey (last out) = rkey r then map gkey out else map gkey out @ [rkey r])"
proof (cases "out \<noteq> [] \<and> gkey (last out) = rkey r")
  case True
  then obtain xs x where "out = xs @ [x]" by (cases out rule: rev_cases) auto
  with True show ?thesis by (simp add: push_or_merge_def same_iff key_ext)
next
  case False
  then show ?thesis by (auto simp: push_or_merge_def same_iff key_mk)
qed

text \<open>The keys of the entries are the row keys with adjacent repetitions removed.\<close>

lemma keys: "map gkey (run_merge same ext mk rows) = remdups_adj (map rkey rows)"
proof (induction rows rule: rev_induct)
  case Nil
  then show ?case by (simp add: run_merge_def)
next
  case (snoc r rows)
  show ?case
  proof (cases rows rule: rev_cases)
    case Nil
    then show ?thesis
      using snoc by (simp only: run_merge_snoc keys_push) (simp add: run_merge_def)
  next
    case (snoc rows' r')
    let ?out = "run_merge same ext mk rows"
    have "remdups_adj (map rkey rows) \<noteq> []" using snoc by (simp del: map_append)
    then have "map gkey ?out \<noteq> []" unfolding snoc.IH .
    then have ne: "?out \<noteq> []" by simp
    have "gkey (last ?out) = rkey r'"
      using arg_cong [OF snoc.IH, of last] ne snoc by (simp add: last_map)
    then have "map gkey (run_merge same ext mk (rows @ [r]))
        = (if rkey r' = rkey r then map gkey ?out else map gkey ?out @ [rkey r])"
      using ne by (simp only: run_merge_snoc keys_push) simp
    also have "\<dots> = remdups_adj (map rkey (rows @ [r]))"
      unfolding snoc.IH by (simp add: snoc remdups_adj_append_two)
    finally show ?thesis .
  qed
qed

lemma adjacent_keys_differ:
  "successively (\<lambda>a b. gkey a \<noteq> gkey b) (run_merge same ext mk rows)"
proof -
  have "successively (\<noteq>) (map gkey (run_merge same ext mk rows))"
    unfolding keys by (metis distinct_adj_def distinct_adj_remdups_adj)
  then show ?thesis by (simp add: successively_map)
qed

text \<open>Nothing is lost, invented or reordered: reading the entries back gives the rows.\<close>

lemma flatten_push:
  "concat (map (\<lambda>b. map (Pair (gkey b)) (gcols b)) (push_or_merge same ext mk out r))
     = concat (map (\<lambda>b. map (Pair (gkey b)) (gcols b)) out) @ map (Pair (rkey r)) (rcols r)"
proof (cases "out \<noteq> [] \<and> gkey (last out) = rkey r")
  case True
  then obtain xs x where "out = xs @ [x]" by (cases out rule: rev_cases) auto
  with True show ?thesis by (simp add: push_or_merge_def same_iff key_ext cols_ext)
next
  case False
  then show ?thesis by (auto simp: push_or_merge_def same_iff key_mk cols_mk)
qed

lemma flatten:
  "concat (map (\<lambda>b. map (Pair (gkey b)) (gcols b)) (run_merge same ext mk rows))
     = concat (map (\<lambda>a. map (Pair (rkey a)) (rcols a)) rows)"
proof (induction rows rule: rev_induct)
  case Nil
  then show ?case by (simp add: run_merge_def)
next
  case (snoc r rows)
  then show ?case by (simp only: run_merge_snoc flatten_push) simp
qed

text \<open>
  When the query's \<open>order by\<close> puts the rows of a key next to each other, the entries have
  pairwise distinct keys, and each collects all the columns of its key.
\<close>

lemma distinct_keys:
  "distinct (remdups_adj (map rkey rows)) \<Longrightarrow> distinct (map gkey (run_merge same ext mk rows))"
  by (simp add: keys)

lemma pairs_of_key:
  "map snd (filter (\<lambda>p. fst p = k) (concat (map (\<lambda>b. map (Pair (kf b)) (cf b)) xs)))
     = concat (map cf (filter (\<lambda>b. kf b = k) xs))"
  by (induction xs) (auto simp: filter_map o_def)

lemma filter_distinct_key:
  "distinct (map gkey xs) \<Longrightarrow> b \<in> set xs \<Longrightarrow> filter (\<lambda>c. gkey c = gkey b) xs = [b]"
proof (induction xs)
  case Nil
  then show ?case by simp
next
  case (Cons x xs)
  show ?case
  proof (cases "b = x")
    case True
    with Cons.prems(1) show ?thesis by (auto simp: filter_empty_conv image_iff)
  next
    case False
    with Cons.prems have "b \<in> set xs" "gkey x \<noteq> gkey b" by (auto simp: image_iff)
    with Cons show ?thesis by simp
  qed
qed

lemma entry_columns:
  assumes "distinct (remdups_adj (map rkey rows))" "b \<in> set (run_merge same ext mk rows)"
  shows "gcols b = concat (map rcols (filter (\<lambda>a. rkey a = gkey b) rows))"
proof -
  let ?out = "run_merge same ext mk rows"
  have "gcols b = concat (map gcols (filter (\<lambda>c. gkey c = gkey b) ?out))"
    using filter_distinct_key [OF distinct_keys [OF assms(1)] assms(2)] by simp
  also have "\<dots> = concat (map rcols (filter (\<lambda>a. rkey a = gkey b) rows))"
    unfolding pairs_of_key [symmetric] flatten ..
  finally show ?thesis .
qed

end

end
