(* ===== verification/Sql_Lex.thy ===== *)
theory Sql_Lex
  imports Rust_Strings
begin

text \<open>
  The reader's side of the SQL text the backends build: a lexer for the two quoting rules the
  engines share (a quoted identifier or string literal ends at the first quote that is not
  doubled), the notion of a piece of text that lexes to identifiers of a given set and harmless
  characters only, and the interface of an identifier quoting function. It is the specification
  against which the backends' identifier escaping and statement building are proved.
\<close>

datatype tok = Quoted string | Literal string | Raw char | Broken

text \<open>The body of a quoted token and the text after it; \<^const>\<open>None\<close> when it is not closed.\<close>

fun scan :: "char \<Rightarrow> string \<Rightarrow> (string \<times> string) option" where
  "scan q [] = None"
| "scan q [c] = (if c = q then Some ([], []) else None)"
| "scan q (c # d # s) =
     (if c \<noteq> q then map_option (\<lambda>(x, r). (c # x, r)) (scan q (d # s))
      else if d = q then map_option (\<lambda>(x, r). (q # x, r)) (scan q s)
      else Some ([], d # s))"

lemma scan_shorter: "scan q s = Some (x, r) \<Longrightarrow> length r < length s"
  by (induction q s arbitrary: x r rule: scan.induct) (force split: if_splits)+

function lex :: "char \<Rightarrow> string \<Rightarrow> tok list" where
  "lex q [] = []"
| "lex q (c # s) =
     (if c = q \<or> c = squote
      then (case scan c s of
              None \<Rightarrow> [Broken]
            | Some (x, r) \<Rightarrow> (if c = q then Quoted x else Literal x) # lex q r)
      else Raw c # lex q s)"
  by pat_completeness auto
termination
  by (relation "measure (\<lambda>(q, s). length s)") (auto dest: scan_shorter)

definition not_first :: "char \<Rightarrow> string \<Rightarrow> bool" where
  "not_first q s \<longleftrightarrow> s = [] \<or> hd s \<noteq> q"

lemma not_first_simps [simp]:
  "not_first q []" "not_first q (c # s) \<longleftrightarrow> c \<noteq> q"
  by (auto simp: not_first_def)

lemma not_first_append: "not_first q s \<Longrightarrow> not_first q t \<Longrightarrow> not_first q (s @ t)"
  by (cases s) auto

lemma scan_escaped:
  "not_first q rest \<Longrightarrow> scan q (replace_char q [q, q] s @ q # rest) = Some (s, rest)"
proof (induction s)
  case Nil
  then show ?case by (cases rest) auto
next
  case (Cons c s)
  obtain d u where "replace_char q [q, q] s @ q # rest = d # u"
    by (cases "replace_char q [q, q] s @ q # rest") auto
  with Cons show ?case by auto
qed

section \<open>Harmless text\<close>

text \<open>
  The characters the builders write outside quotes: no statement separator, no comment opener,
  no escape.
\<close>

definition plain :: "char \<Rightarrow> bool" where
  "plain c \<longleftrightarrow> (let n = (of_char c :: nat) in
     (48 \<le> n \<and> n \<le> 57) \<or> (65 \<le> n \<and> n \<le> 90) \<or> (97 \<le> n \<and> n \<le> 122)
     \<or> c \<in> set '' (),.=!<>:$?_'')"

fun harmless :: "string set \<Rightarrow> tok \<Rightarrow> bool" where
  "harmless names (Quoted x) = (x \<in> names)"
| "harmless names (Literal _) = False"
| "harmless names (Raw c) = plain c"
| "harmless names Broken = False"

definition is_marker :: "char \<Rightarrow> bool" where
  "is_marker c \<longleftrightarrow> c = CHR ''?'' \<or> c = CHR ''$''"

text \<open>The bind placeholders of a text or token list: each is one \<open>?\<close> or \<open>$\<close> outside quotes.\<close>

definition markers :: "string \<Rightarrow> nat" where
  "markers s = length (filter is_marker s)"

definition tok_markers :: "tok list \<Rightarrow> nat" where
  "tok_markers toks = length (filter (\<lambda>t. case t of Raw c \<Rightarrow> is_marker c | _ \<Rightarrow> False) toks)"

lemma markers_simps [simp]:
  "markers [] = 0" "markers (c # s) = (if is_marker c then 1 else 0) + markers s"
  "markers (s @ t) = markers s + markers t"
  by (simp_all add: markers_def)

lemma tok_markers_simps [simp]:
  "tok_markers [] = 0" "tok_markers (a @ b) = tok_markers a + tok_markers b"
  "tok_markers (Quoted x # b) = tok_markers b"
  by (simp_all add: tok_markers_def)

lemma tok_markers_Raw [simp]: "tok_markers (map Raw s) = markers s"
  by (induction s) (auto simp: tok_markers_def markers_def)

text \<open>
  A text is safe when, whatever follows it (short of another quote, which would continue an
  identifier), it lexes to harmless tokens with the given number of placeholders and leaves the
  rest to lex on its own; it is a piece when it does not itself start with a quote. Pieces
  compose.
\<close>

definition safe :: "char \<Rightarrow> string set \<Rightarrow> nat \<Rightarrow> string \<Rightarrow> bool" where
  "safe q names n s \<longleftrightarrow>
     (\<forall>rest. not_first q rest \<longrightarrow>
        (\<exists>toks. lex q (s @ rest) = toks @ lex q rest \<and> list_all (harmless names) toks
           \<and> tok_markers toks = n))"

definition piece :: "char \<Rightarrow> string set \<Rightarrow> nat \<Rightarrow> string \<Rightarrow> bool" where
  "piece q names n s \<longleftrightarrow> safe q names n s \<and> not_first q s"

definition clean :: "char \<Rightarrow> string \<Rightarrow> bool" where
  "clean q s \<longleftrightarrow> list_all plain s \<and> \<not> plain q"

lemma squote_not_plain [simp]: "\<not> plain squote"
  by (simp add: plain_def Let_def)

lemma lex_clean: "clean q s \<Longrightarrow> lex q (s @ rest) = map Raw s @ lex q rest"
  by (induction s) (auto simp: clean_def)

lemma clean_not_first: "clean q s \<Longrightarrow> not_first q s"
  by (cases s) (auto simp: clean_def)

lemma clean_append [simp]: "clean q (s @ t) \<longleftrightarrow> clean q s \<and> clean q t"
  by (auto simp: clean_def)

lemma clean_safe: "clean q s \<Longrightarrow> markers s = n \<Longrightarrow> safe q names n s"
  unfolding safe_def
  by (intro allI impI exI [of _ "map Raw s"]) (auto simp: lex_clean clean_def list_all_iff)

lemma clean_piece: "clean q s \<Longrightarrow> markers s = n \<Longrightarrow> piece q names n s"
  by (simp add: piece_def clean_safe clean_not_first)

lemma safe_append:
  assumes "safe q names m s" "safe q names n t" "clean q s \<or> not_first q t"
  shows "safe q names (m + n) (s @ t)"
  unfolding safe_def
proof (intro allI impI)
  fix rest assume r: "not_first q rest"
  from assms(2) r obtain b where
    b: "lex q (t @ rest) = b @ lex q rest" "list_all (harmless names) b" "tok_markers b = n"
    unfolding safe_def by blast
  obtain a where
    a: "lex q (s @ t @ rest) = a @ lex q (t @ rest)" "list_all (harmless names) a" "tok_markers a = m"
  proof (cases "not_first q (t @ rest)")
    case True
    with assms(1) that show ?thesis unfolding safe_def by blast
  next
    case False
    with r assms(3) have c: "clean q s" using not_first_append by blast
    from assms(1) obtain a where "lex q (s @ []) = a @ lex q []" "tok_markers a = m"
      unfolding safe_def using not_first_simps(1) by blast
    with lex_clean [OF c, of "[]"] have "map Raw s = a" by simp
    with \<open>tok_markers a = m\<close> have "markers s = m" by (simp flip: tok_markers_Raw)
    with c that show ?thesis
      by (auto simp: lex_clean clean_def list_all_iff)
  qed
  from a b show "\<exists>toks. lex q ((s @ t) @ rest) = toks @ lex q rest \<and> list_all (harmless names) toks
      \<and> tok_markers toks = m + n"
    by (intro exI [of _ "a @ b"]) simp
qed

lemma piece_append: "piece q names m s \<Longrightarrow> piece q names n t \<Longrightarrow> piece q names (m + n) (s @ t)"
  by (auto simp: piece_def intro: safe_append not_first_append)

lemma piece_append0: "piece q names 0 s \<Longrightarrow> piece q names n t \<Longrightarrow> piece q names n (s @ t)"
  using piece_append [of q names 0 s n t] by simp

lemma piece_Nil [simp]: "piece q names 0 []"
  by (auto simp: piece_def safe_def intro!: exI [of _ "[]"])

lemma piece_concat: "(\<And>x. x \<in> set xs \<Longrightarrow> piece q names 0 x) \<Longrightarrow> piece q names 0 (concat xs)"
  by (induction xs) (auto intro: piece_append0)

lemma piece_join:
  assumes "\<And>x. x \<in> set xs \<Longrightarrow> piece q names 0 x" "clean q sep" "markers sep = 0"
  shows "piece q names 0 (str_join sep xs)"
  using assms(1)
proof (induction xs rule: induct_list012)
  case (3 x y xs)
  have "piece q names 0 (sep @ str_join sep (y # xs))"
    using 3 by (intro piece_append0 [OF clean_piece [OF assms(2,3)]]) auto
  then show ?case using piece_append0 [of q names x 0] 3(3) by simp
qed auto

lemma piece_mono:
  assumes "piece q names n s" "names \<subseteq> names'"
  shows "piece q names' n s"
proof -
  have "harmless names' t" if "harmless names t" for t
    using that assms(2) by (cases t) auto
  then show ?thesis
    using assms(1) unfolding piece_def safe_def list_all_iff by meson
qed

lemma piece_lex:
  assumes "piece q names n s"
  shows "list_all (harmless names) (lex q s) \<and> tok_markers (lex q s) = n"
  using assms unfolding piece_def safe_def
  by (metis append.right_neutral lex.simps(1) not_first_simps(1))

lemma plain_digit [simp]: "is_digit c \<Longrightarrow> plain c"
  by (auto simp: is_digit_def plain_def Let_def)

lemma digit_not_marker [simp]: "is_digit c \<Longrightarrow> \<not> is_marker c"
  by (auto simp: is_digit_def is_marker_def)

lemma plain_nat_str [simp]: "list_all plain (nat_str n)"
  using nat_str_digits [of n] by (auto simp: list_all_iff)

lemma markers_nat_str [simp]: "markers (nat_str n) = 0"
  using nat_str_digits [of n] by (auto simp: list_all_iff markers_def filter_empty_conv)

section \<open>The interface of identifier quoting\<close>

text \<open>
  What the statement builders rely on: a quoted name lexes to exactly that name, whatever it
  contains, so no catalog name (nor a hostile one) can end its identifier early.
\<close>

locale identifier_quoting =
  fixes q :: char
    and quote :: "string \<Rightarrow> string"
  assumes lex_quote: "not_first q rest \<Longrightarrow> lex q (quote name @ rest) = Quoted name # lex q rest"
    and quote_not_plain: "\<not> plain q"
begin

lemma lex_quote_alone: "lex q (quote name) = [Quoted name]"
  using lex_quote [of "[]" name] by simp

lemma quote_inject: "quote a = quote b \<longleftrightarrow> a = b"
  by (metis lex_quote_alone list.inject tok.inject(1))

lemma safe_quote: "name \<in> names \<Longrightarrow> safe q names 0 (quote name)"
  unfolding safe_def by (auto simp: lex_quote intro!: exI [of _ "[Quoted name]"])

lemma clean_literal: "list_all plain s \<Longrightarrow> clean q s"
  by (simp add: clean_def quote_not_plain)

lemma literal_piece: "list_all plain s \<Longrightarrow> markers s = n \<Longrightarrow> piece q names n s"
  by (simp add: clean_piece clean_literal)

text \<open>A quoted name after at least one harmless character is part of a piece.\<close>

lemma quote_piece:
  assumes "list_all plain s" "markers s = 0" "s \<noteq> []" "name \<in> names" "piece q names n t"
  shows "piece q names n (s @ quote name @ t)"
proof -
  have t: "safe q names n t" "not_first q t"
    using assms(5) by (simp_all add: piece_def)
  have "safe q names (0 + n) (quote name @ t)"
    by (rule safe_append [OF safe_quote [OF assms(4)] t(1)]) (simp add: t(2))
  then have "safe q names (0 + (0 + n)) (s @ quote name @ t)"
    by (rule safe_append [OF clean_safe [OF clean_literal [OF assms(1)] assms(2)]])
      (simp add: clean_literal assms(1))
  moreover have "not_first q (s @ quote name @ t)"
    using assms(1,3) quote_not_plain by (cases s) auto
  ultimately show ?thesis by (simp add: piece_def)
qed

end

lemma escape_quoting:
  assumes "\<not> plain q" "\<And>s. quote s = [q] @ replace_char q [q, q] s @ [q]"
  shows "identifier_quoting q quote"
  by unfold_locales (use assms in \<open>auto simp: scan_escaped\<close>)

end
