(* ===== verification/Db_Types.thy ===== *)
theory Db_Types
  imports Filter_Ast Run_Grouping Sql_Lex
begin

text \<open>
  \<open>core/src/db/mod.rs\<close>: the data every backend and route shares, the error type and its
  mapping to a problem response, source resolution, identifier quoting, the operator table and
  the run-length grouping of incoming foreign keys; and from \<open>core/src/join.rs\<close> the column
  classes these types carry. A \<open>sqlx::Error\<close> (third-party) is what the code reads of it: the
  driver and its code, number and message when it is a database error, and the text its own
  \<open>Display\<close> prints. All three backend features are enabled.
\<close>

section \<open>Column classes (join.rs)\<close>

datatype column_class =
    Number | Text | Uuid | Boolean | Temporal | Time | Binary
  | Enum string | Untyped | Float | Json | Array | Other

fun wire_name :: "column_class \<Rightarrow> string" where
  "wire_name Number = ''number''"
| "wire_name Text = ''text''"
| "wire_name Uuid = ''uuid''"
| "wire_name Boolean = ''boolean''"
| "wire_name Temporal = ''temporal''"
| "wire_name Time = ''time''"
| "wire_name Binary = ''binary''"
| "wire_name (Enum _) = ''enum''"
| "wire_name Untyped = ''untyped''"
| "wire_name Float = ''float''"
| "wire_name Json = ''json''"
| "wire_name Array = ''array''"
| "wire_name Other = ''other''"

definition wire_collation :: "column_class \<Rightarrow> string option \<Rightarrow> string option" where
  "wire_collation cls collation = (if cls = Text then collation else None)"

definition is_joinable :: "column_class \<Rightarrow> bool" where
  "is_joinable cls \<longleftrightarrow> \<not> (cls = Float \<or> cls = Json \<or> cls = Array \<or> cls = Other)"

fun enum_type :: "column_class \<Rightarrow> string option" where
  "enum_type (Enum identity) = Some identity"
| "enum_type _ = None"

section \<open>Catalog and response data\<close>

record query_opts =
  q_limit :: u32
  q_offset :: u32
  q_sort :: "string option"
  q_descending :: bool
  q_timeout_secs :: u32
  q_filter :: "condition list option"

datatype key_kind = Pk | Fk

record column_ref =
  r_table :: string
  r_column :: string
  r_schema :: "string option"

record column_info =
  ci_name :: string
  ci_type_name :: string
  ci_class :: column_class
  ci_enum_type :: "string option"
  ci_collation :: "string option"
  ci_key :: "key_kind option"
  ci_references :: "column_ref option"
  ci_comment :: "string option"

record table_info =
  ti_name :: string
  ti_comment :: "string option"

record schema_listing =
  sl_schemas :: "string list"
  sl_default :: "string option"

definition schema_listing_new :: "string list \<Rightarrow> string option \<Rightarrow> schema_listing" where
  "schema_listing_new schemas dflt =
     \<lparr>sl_schemas = schemas,
      sl_default = (case dflt of None \<Rightarrow> None | Some d \<Rightarrow> if d \<in> set schemas then Some d else None)\<rparr>"

text \<open>A JSON value of a row: every backend produces strings and nulls only.\<close>

datatype jvalue = JString string | JNull

record table_data =
  td_columns :: "column_info list"
  td_rows :: "(string \<rightharpoonup> jvalue) list"
  td_total_approx :: int

record column_pair =
  cp_from :: string
  cp_to :: string

record referenced_by =
  rb_table :: string
  rb_schema :: "string option"
  rb_constraint :: string
  rb_columns :: "column_pair list"

record index_info =
  ix_name :: string
  ix_columns :: "string list"
  ix_unique :: bool
  ix_method :: string
  ix_predicate :: "string option"

record constraint_pk =
  pk_name :: "string option"
  pk_columns :: "string list"

record constraint_unique =
  un_name :: string
  un_columns :: "string list"

record constraint_fk =
  fk_name :: string
  fk_table :: string
  fk_schema :: "string option"
  fk_columns :: "column_pair list"
  fk_on_delete :: string
  fk_on_update :: string

record constraint_check =
  ck_name :: string
  ck_expression :: "string option"

record constraints =
  k_primary_key :: "constraint_pk option"
  k_unique :: "constraint_unique list"
  k_foreign_keys :: "constraint_fk list"
  k_check :: "constraint_check list"

record structure_info =
  st_indexes :: "index_info list"
  st_constraints :: constraints

section \<open>Errors\<close>

datatype not_allowed_kind = Source | Schema | Table | Column | NotReadable

fun kind_code :: "not_allowed_kind \<Rightarrow> string" where
  "kind_code Source = ''unknown_source''"
| "kind_code Schema = ''unknown_schema''"
| "kind_code Table = ''unknown_table''"
| "kind_code Column = ''unknown_column''"
| "kind_code NotReadable = ''not_readable''"

record not_allowed_detail =
  na_kind :: not_allowed_kind
  na_what :: string

datatype driver = DrvPostgres | DrvMySql | DrvSqlite

record database_error =
  de_driver :: driver
  de_code :: "string option"
  de_number :: u16
  de_message :: string

datatype sqlx_error =
    Database database_error (sqlx_display: string)
  | OtherSqlx (sqlx_display: string)

datatype db_error =
    NotAllowed not_allowed_detail
  | FilterParse string
  | BadJoin string
  | BadParameter string
  | Unsortable string
  | QueryTimeout
  | Sqlx sqlx_error

definition not_allowed :: "not_allowed_kind \<Rightarrow> string \<Rightarrow> db_error" where
  "not_allowed kind what = NotAllowed \<lparr>na_kind = kind, na_what = what\<rparr>"

definition no_default_schema :: db_error where
  "no_default_schema =
     not_allowed Schema ''no schema given, and this connection has no default schema''"

fun db_error_text :: "db_error \<Rightarrow> string" where
  "db_error_text (NotAllowed d) = ''not allowed: '' @ na_what d"
| "db_error_text (FilterParse reason) = ''invalid filter: '' @ reason"
| "db_error_text (BadJoin reason) = ''invalid join: '' @ reason"
| "db_error_text (BadParameter reason) = ''invalid parameter: '' @ reason"
| "db_error_text (Unsortable column) = ''cannot sort by '' @ column @ '': its type has no ordering''"
| "db_error_text QueryTimeout = ''query timed out''"
| "db_error_text (Sqlx e) = ''database error: '' @ sqlx_display e"

fun status_code :: "db_error \<Rightarrow> u16 \<times> string" where
  "status_code (NotAllowed d) = (400, kind_code (na_kind d))"
| "status_code (FilterParse _) = (400, ''invalid_filter'')"
| "status_code (BadJoin _) = (400, ''invalid_join'')"
| "status_code (BadParameter _) = (400, ''invalid_parameter'')"
| "status_code (Unsortable _) = (400, ''unsortable_column'')"
| "status_code QueryTimeout = (500, ''query_timeout'')"
| "status_code (Sqlx _) = (500, ''database_error'')"

definition problem :: "db_error \<Rightarrow> u16 \<times> string \<times> string" where
  "problem e = (let (status, code) = status_code e in (status, code, db_error_text e))"

definition is_timeout :: "sqlx_error \<Rightarrow> bool" where
  "is_timeout e =
     (case e of
        OtherSqlx _ \<Rightarrow> False
      | Database db _ \<Rightarrow>
          (case de_driver db of
             DrvPostgres \<Rightarrow> de_code db = Some ''57014''
           | DrvMySql \<Rightarrow> de_number db = 3024 \<or> de_number db = 1969
           | DrvSqlite \<Rightarrow> de_code db = Some ''9''))"

definition from_sqlx :: "sqlx_error \<Rightarrow> db_error" where
  "from_sqlx e = (if is_timeout e then QueryTimeout else Sqlx e)"

record problem_details =
  pd_type :: string
  pd_title :: string
  pd_status :: u16
  pd_code :: string

definition problem_details_new :: "u16 \<Rightarrow> string \<Rightarrow> string \<Rightarrow> problem_details" where
  "problem_details_new status code title =
     \<lparr>pd_type = ''about:blank'', pd_title = title, pd_status = status, pd_code = code\<rparr>"

section \<open>Sources\<close>

text \<open>\<open>&sources[0]\<close> panics on an empty list; the router constructors assert it is not.\<close>

definition default_source :: "(string \<times> 's) list \<Rightarrow> (string \<times> 's) option" where
  "default_source sources = (case sources of [] \<Rightarrow> None | s # _ \<Rightarrow> Some s)"

datatype 'a outcome = Panic | Done "db_error + 'a"

fun outcome_then :: "'a outcome \<Rightarrow> ('a \<Rightarrow> 'b outcome) \<Rightarrow> 'b outcome" where
  "outcome_then Panic f = Panic"
| "outcome_then (Done (Inl e)) f = Done (Inl e)"
| "outcome_then (Done (Inr x)) f = f x"

fun outcome_traverse :: "('a \<Rightarrow> 'b outcome) \<Rightarrow> 'a list \<Rightarrow> 'b list outcome" where
  "outcome_traverse f [] = Done (Inr [])"
| "outcome_traverse f (x # xs) =
     outcome_then (f x) (\<lambda>y. outcome_then (outcome_traverse f xs) (\<lambda>ys. Done (Inr (y # ys))))"

definition resolve_source :: "(string \<times> 's) list \<Rightarrow> string option \<Rightarrow> 's outcome" where
  "resolve_source sources requested =
     (case requested of
        None \<Rightarrow> (case default_source sources of None \<Rightarrow> Panic | Some s \<Rightarrow> Done (Inr (snd s)))
      | Some name \<Rightarrow>
          Done (ok_or (not_allowed Source (''source '' @ debug_str name))
                 (map_option snd (find (\<lambda>s. fst s = name) sources))))"

section \<open>SQL pieces every backend uses\<close>

definition quote_ident :: "string \<Rightarrow> string" where
  "quote_ident ident = [dquote] @ replace_char dquote [dquote, dquote] ident @ [dquote]"

fun op_sql :: "filter_op \<Rightarrow> string" where
  "op_sql Eq = ''=''"
| "op_sql Ne = ''!=''"
| "op_sql Gt = ''>''"
| "op_sql Ge = ''>=''"
| "op_sql Lt = ''<''"
| "op_sql Le = ''<=''"
| "op_sql Like = ''LIKE''"
| "op_sql Ilike = ''ILIKE''"
| "op_sql IsNull = ''IS NULL''"
| "op_sql IsNotNull = ''IS NOT NULL''"

definition group_referenced_by :: "referenced_by list \<Rightarrow> referenced_by list" where
  "group_referenced_by rows =
     run_merge
       (\<lambda>l r. rb_table l = rb_table r \<and> rb_schema l = rb_schema r \<and> rb_constraint l = rb_constraint r)
       (\<lambda>l r. l\<lparr>rb_columns := rb_columns l @ rb_columns r\<rparr>)
       (\<lambda>r. r) rows"

lemma outcome_then_Inr [simp]:
  "outcome_then r f = Done (Inr y) \<longleftrightarrow> (\<exists>x. r = Done (Inr x) \<and> f x = Done (Inr y))"
proof (cases r)
  case (Done s)
  then show ?thesis by (cases s) auto
qed simp

lemma outcome_then_Panic [simp]:
  "outcome_then r f = Panic \<longleftrightarrow> r = Panic \<or> (\<exists>x. r = Done (Inr x) \<and> f x = Panic)"
proof (cases r)
  case (Done s)
  then show ?thesis by (cases s) auto
qed simp

lemma outcome_traverse_Inr:
  "outcome_traverse f xs = Done (Inr ys) \<longleftrightarrow> list_all2 (\<lambda>x y. f x = Done (Inr y)) xs ys"
proof (induction xs arbitrary: ys)
  case Nil
  then show ?case by auto
next
  case (Cons x xs)
  then show ?case by (cases ys) auto
qed

lemma outcome_traverse_mem:
  "outcome_traverse f xs = Done (Inr ys) \<Longrightarrow> y \<in> set ys \<Longrightarrow> \<exists>x \<in> set xs. f x = Done (Inr y)"
  by (auto simp: outcome_traverse_Inr list_all2_conv_all_nth in_set_conv_nth
      intro!: bexI [OF _ nth_mem])

lemma outcome_traverse_length: "outcome_traverse f xs = Done (Inr ys) \<Longrightarrow> length ys = length xs"
  by (auto simp: outcome_traverse_Inr dest: list_all2_lengthD)

lemma outcome_traverse_nth:
  "outcome_traverse f xs = Done (Inr ys) \<Longrightarrow> i < length ys \<Longrightarrow> f (xs ! i) = Done (Inr (ys ! i))"
  by (auto simp: outcome_traverse_Inr list_all2_conv_all_nth)

lemma outcome_traverse_Panic: "outcome_traverse f xs = Panic \<Longrightarrow> \<exists>x \<in> set xs. f x = Panic"
  by (induction xs) auto

lemma op_sql_as_wire: "op_sql op = as_wire op"
  by (cases op) simp_all

section \<open>The interfaces these operations implement\<close>

interpretation dq: identifier_quoting dquote quote_ident
  by (rule escape_quoting) (simp_all add: quote_ident_def plain_def)

definition rb_key :: "referenced_by \<Rightarrow> string \<times> string option \<times> string" where
  "rb_key r = (rb_table r, rb_schema r, rb_constraint r)"

interpretation rb: run_grouping
  "\<lambda>l r. rb_table l = rb_table r \<and> rb_schema l = rb_schema r \<and> rb_constraint l = rb_constraint r"
  "\<lambda>l r. l\<lparr>rb_columns := rb_columns l @ rb_columns r\<rparr>"
  "\<lambda>r. r" rb_key rb_key rb_columns rb_columns
  by unfold_locales (auto simp: rb_key_def)

lemma find_fst_map_of: "map_option snd (find (\<lambda>p. fst p = k) ps) = map_of ps k"
  by (induction ps) auto

lemma status_of_from_sqlx: "status_code (from_sqlx e) = (500, if is_timeout e then ''query_timeout'' else ''database_error'')"
  by (simp add: from_sqlx_def)

section \<open>Properties\<close>

text \<open>An identifier written by \<open>quote_ident\<close> is read back, by the double-quote rule of
  Postgres and SQLite, as exactly one identifier token with the original name, for every name
  (quotes, semicolons and comment openers included), and the text after it is untouched.\<close>

theorem quote_ident_reads_back:
  "not_first dquote rest \<Longrightarrow> lex dquote (quote_ident name @ rest) = Quoted name # lex dquote rest"
  by (rule dq.lex_quote)

lemma quote_ident_reads_back_witness:
  "not_first dquote ''.x'' \<and>
   lex dquote (quote_ident (''a'' @ [dquote] @ ''; drop table users; --'') @ ''.x'')
     = Quoted (''a'' @ [dquote] @ ''; drop table users; --'') # lex dquote ''.x''"
  using quote_ident_reads_back [of "''.x''" "''a'' @ [dquote] @ ''; drop table users; --''"] by simp

text \<open>A \<open>source\<close> parameter resolves to the first registered source of exactly that name, an
  absent one to the first registered source, and any other name is rejected with
  \<open>unknown_source\<close>; nothing panics while a source is registered.\<close>

theorem resolve_source_correct:
  assumes "sources \<noteq> []"
  shows "resolve_source sources requested =
    Done (case requested of
            None \<Rightarrow> Inr (snd (hd sources))
          | Some name \<Rightarrow>
              (case map_of sources name of
                 Some s \<Rightarrow> Inr s
               | None \<Rightarrow> Inl (NotAllowed \<lparr>na_kind = Source, na_what = ''source '' @ debug_str name\<rparr>)))"
  using assms
  by (cases sources)
    (auto simp: resolve_source_def default_source_def not_allowed_def find_fst_map_of
       split: option.splits)

lemma resolve_source_correct_witness:
  "[(''primary'', 1::nat), (''reporting'', 2)] \<noteq> [] \<and>
   resolve_source [(''primary'', 1::nat), (''reporting'', 2)] (Some ''reporting'') = Done (Inr 2)"
  using resolve_source_correct [of "[(''primary'', 1::nat), (''reporting'', 2)]" "Some ''reporting''"]
  by simp

text \<open>The problem response of an error: its status is 500 exactly for the engine's own
  failures, and its code names the allow-list that refused a name, so two refusals with the
  same code come from the same kind of check.\<close>

theorem problem_status_and_code:
  "fst (problem e) = (if e = QueryTimeout \<or> (\<exists>x. e = Sqlx x) then 500 else 400)
   \<and> snd (snd (problem e)) = db_error_text e
   \<and> (fst (snd (problem e)) = fst (snd (problem (NotAllowed d)))
        \<longleftrightarrow> (\<exists>d'. e = NotAllowed d' \<and> na_kind d' = na_kind d))"
  by (cases e; cases "na_kind d"; auto simp: problem_def elim!: kind_code.elims)

text \<open>Merging the incoming foreign-key rows loses, invents and reorders nothing: reading
  the merged entries back gives the rows, neighbouring entries differ in table, schema or
  constraint, and when the query's order puts the rows of a constraint next to each other there
  is exactly one entry per constraint, holding all its column pairs in order.\<close>

theorem group_referenced_by_correct:
  assumes "distinct (remdups_adj (map rb_key rows))"
  shows "concat (map (\<lambda>e. map (Pair (rb_key e)) (rb_columns e)) (group_referenced_by rows))
           = concat (map (\<lambda>r. map (Pair (rb_key r)) (rb_columns r)) rows)
    \<and> map rb_key (group_referenced_by rows) = remdups_adj (map rb_key rows)
    \<and> distinct (map rb_key (group_referenced_by rows))
    \<and> (\<forall>e \<in> set (group_referenced_by rows).
         rb_columns e = concat (map rb_columns (filter (\<lambda>r. rb_key r = rb_key e) rows)))"
  using rb.flatten [of rows] rb.keys [of rows] rb.distinct_keys [OF assms] rb.entry_columns [OF assms]
  unfolding group_referenced_by_def by blast

definition rb_row :: "string \<Rightarrow> string \<Rightarrow> string \<Rightarrow> string \<Rightarrow> referenced_by" where
  "rb_row t k a b = \<lparr>rb_table = t, rb_schema = None, rb_constraint = k,
     rb_columns = [\<lparr>cp_from = a, cp_to = b\<rparr>]\<rparr>"

lemma group_referenced_by_correct_witness:
  "distinct (remdups_adj (map rb_key [rb_row ''o'' ''fk'' ''a'' ''x'', rb_row ''o'' ''fk'' ''b'' ''y'', rb_row ''p'' ''fk'' ''c'' ''x'']))
   \<and> map rb_key (group_referenced_by [rb_row ''o'' ''fk'' ''a'' ''x'', rb_row ''o'' ''fk'' ''b'' ''y'', rb_row ''p'' ''fk'' ''c'' ''x''])
       = [(''o'', None, ''fk''), (''p'', None, ''fk'')]"
  using group_referenced_by_correct
    [of "[rb_row ''o'' ''fk'' ''a'' ''x'', rb_row ''o'' ''fk'' ''b'' ''y'', rb_row ''p'' ''fk'' ''c'' ''x'']"]
  by (simp add: rb_row_def rb_key_def)

end
