(* ===== verification/Join_Spec.thy ===== *)
theory Join_Spec
  imports Db_Types
begin

text \<open>
  The first half of \<open>core/src/join.rs\<close>: the decoded \<open>join\<close> parameter and its structural
  validation (\<open>JoinSpec::parse\<close>), the catalog's column and table metadata, the label
  assignment of the response columns. The JSON decoder is the parameter \<open>de\<close>.
\<close>

definition MAX_JOIN_BYTES :: nat where "MAX_JOIN_BYTES = 8192"
definition MAX_TABLES :: nat where "MAX_TABLES = 4"
definition MAX_PAIRS :: nat where "MAX_PAIRS = 3"

datatype join_type = Inner | Left

fun join_sql :: "join_type \<Rightarrow> string" where
  "join_sql Inner = ''inner join''"
| "join_sql Left = ''left join''"

record column_pos =
  pos_join :: nat
  pos_column :: string

record on_pair =
  on_left :: column_pos
  on_right :: string

record join_entry =
  je_kind :: join_type
  je_table :: string
  je_on :: "on_pair list"

record join_spec =
  js_table :: string
  js_joins :: "join_entry list"
  js_columns :: "column_pos list option"

datatype join_error = JoinError string

fun join_error_text :: "join_error \<Rightarrow> string" where
  "join_error_text (JoinError s) = s"

section \<open>Structural validation\<close>

fun check_on_pairs :: "nat \<Rightarrow> on_pair list \<Rightarrow> join_error + unit" where
  "check_on_pairs position [] = Inr ()"
| "check_on_pairs position (pair # pairs) =
     (if position \<le> pos_join (on_left pair)
      then Inl (JoinError (''join '' @ nat_str position @ '': on.left refers to position ''
             @ nat_str (pos_join (on_left pair)) @ '', which is not an earlier table''))
      else check_on_pairs position pairs)"

fun check_entries :: "nat \<Rightarrow> join_entry list \<Rightarrow> join_error + unit" where
  "check_entries i [] = Inr ()"
| "check_entries i (entry # entries) =
     (let position = i + 1
      in if je_on entry = [] \<or> MAX_PAIRS < length (je_on entry)
         then Inl (JoinError (''join '' @ nat_str position @ '': on needs 1 to ''
                @ nat_str MAX_PAIRS @ '' pairs, got '' @ nat_str (length (je_on entry))))
         else and_then (check_on_pairs position (je_on entry)) (\<lambda>_. check_entries (i + 1) entries))"

fun check_columns_distinct :: "(nat \<times> string) list \<Rightarrow> column_pos list \<Rightarrow> join_error + unit" where
  "check_columns_distinct seen [] = Inr ()"
| "check_columns_distinct seen (c # cs) =
     (if (pos_join c, pos_column c) \<in> set seen
      then Inl (JoinError (''columns lists ('' @ nat_str (pos_join c) @ '', ''
             @ debug_str (pos_column c) @ '') twice''))
      else check_columns_distinct ((pos_join c, pos_column c) # seen) cs)"

definition parse_join :: "(string \<Rightarrow> string + join_spec) \<Rightarrow> string \<Rightarrow> join_error + join_spec" where
  "parse_join de raw =
     (if MAX_JOIN_BYTES < length raw
      then Inl (JoinError (''join too long: '' @ nat_str (length raw) @ '' bytes (max ''
             @ nat_str MAX_JOIN_BYTES @ '')''))
      else and_then
        (map_err (\<lambda>e. JoinError (''join must be a JSON object of the documented shape: '' @ e)) (de raw))
        (\<lambda>spec.
           if js_joins spec = [] then Inl (JoinError ''join needs at least one entry in joins'')
           else if MAX_TABLES < length (js_joins spec) + 1
           then Inl (JoinError (''too many tables: '' @ nat_str (length (js_joins spec) + 1) @ '' (max ''
                  @ nat_str MAX_TABLES @ '')''))
           else and_then (check_entries 0 (js_joins spec)) (\<lambda>_.
             case js_columns spec of
               None \<Rightarrow> Inr spec
             | Some columns \<Rightarrow>
                 if columns = [] then Inl (JoinError ''columns must not be empty when present'')
                 else and_then (check_columns_distinct [] columns) (\<lambda>_. Inr spec))))"

definition table_names :: "join_spec \<Rightarrow> string list" where
  "table_names spec = js_table spec # map je_table (js_joins spec)"

section \<open>Catalog metadata\<close>

record col_meta =
  cm_name :: string
  cm_type_name :: string
  cm_class :: column_class
  cm_collation :: "string option"
  cm_key :: "key_kind option"
  cm_references :: "column_ref option"
  cm_comment :: "string option"

definition column_info_of :: "col_meta \<Rightarrow> column_info" where
  "column_info_of c =
     \<lparr>ci_name = cm_name c, ci_type_name = cm_type_name c, ci_class = cm_class c,
      ci_enum_type = enum_type (cm_class c),
      ci_collation = wire_collation (cm_class c) (cm_collation c),
      ci_key = cm_key c, ci_references = cm_references c, ci_comment = cm_comment c\<rparr>"

record table_meta =
  tm_name :: string
  tm_columns :: "col_meta list"

record join_column_info =
  jc_name :: string
  jc_type_name :: string
  jc_join :: nat
  jc_table :: string
  jc_column :: string
  jc_class :: column_class
  jc_enum_type :: "string option"
  jc_collation :: "string option"
  jc_key :: "key_kind option"
  jc_references :: "column_ref option"
  jc_comment :: "string option"

record join_data =
  jd_columns :: "join_column_info list"
  jd_rows :: "(string \<rightharpoonup> jvalue) list"
  jd_has_more :: bool

record join_opts =
  jo_limit :: u32
  jo_offset :: u32
  jo_sort :: "string option"
  jo_sort_join :: "nat option"
  jo_descending :: bool
  jo_timeout_secs :: u32
  jo_filter :: "condition list option"

section \<open>Labels\<close>

definition suffixed :: "string \<Rightarrow> nat \<Rightarrow> string" where
  "suffixed base n = base @ ''_'' @ nat_str n"

lemma suffixed_inject [simp]: "suffixed base m = suffixed base n \<longleftrightarrow> m = n"
  by (simp add: suffixed_def)

lemma finite_suffixed: "finite {k. suffixed base k \<in> set used}"
proof -
  have "inj (suffixed base)" by (rule injI) simp
  then have "finite (suffixed base -` set used)" by (intro finite_vimageI) auto
  then show ?thesis by (simp add: vimage_def)
qed

text \<open>\<open>while used.contains(&label)\<close>: the loop stops because \<open>used\<close> holds finitely many suffixes.\<close>

function fresh_label :: "string list \<Rightarrow> string \<Rightarrow> string \<Rightarrow> nat \<Rightarrow> string" where
  "fresh_label used base label n =
     (if label \<in> set used then fresh_label used base (suffixed base n) (n + 1) else label)"
  by pat_completeness auto
termination
proof (relation "measure (\<lambda>(used, base, label, n).
    2 * card {k. n \<le> k \<and> suffixed base k \<in> set used} + (if label \<in> set used then 1 else 0))")
  fix used base label n
  assume l: "(label :: string) \<in> set used"
  let ?S = "\<lambda>m. {k. m \<le> k \<and> suffixed base k \<in> set used}"
  have fin: "finite (?S m)" for m
    by (rule finite_subset [OF _ finite_suffixed [of base used]]) auto
  show "((used, base, suffixed base n, n + 1), used, base, label, n)
    \<in> measure (\<lambda>(used, base, label, n).
        2 * card {k. n \<le> k \<and> suffixed base k \<in> set used} + (if label \<in> set used then 1 else 0))"
  proof (cases "suffixed base n \<in> set used")
    case True
    then have "?S n = insert n (?S (n + 1))" by (auto simp: le_less Suc_le_eq)
    then have "card (?S n) = Suc (card (?S (n + 1)))" using fin by simp
    then show ?thesis using l True by simp
  next
    case False
    then have "?S (n + 1) \<subseteq> ?S n" by auto
    then have "card (?S (n + 1)) \<le> card (?S n)" using fin by (rule card_mono [rotated])
    then show ?thesis using l False by simp
  qed
qed simp

declare fresh_label.simps [simp del]

fun assign_loop :: "string list \<Rightarrow> string list \<Rightarrow> (nat \<times> string) list \<Rightarrow> string list" where
  "assign_loop all used [] = []"
| "assign_loop all used ((join, name) # rest) =
     (if count_list all name = 1 then name # assign_loop all used rest
      else (let base = suffixed name join;
                label = fresh_label used base base 2
            in label # assign_loop all (label # used) rest))"

definition assign_labels :: "(nat \<times> string) list \<Rightarrow> string list" where
  "assign_labels names =
     (let all = map snd names
      in assign_loop all (filter (\<lambda>n. count_list all n = 1) all) names)"

section \<open>What an accepted join is\<close>

definition wf_entry :: "nat \<Rightarrow> join_entry \<Rightarrow> bool" where
  "wf_entry i e \<longleftrightarrow>
     je_on e \<noteq> [] \<and> length (je_on e) \<le> MAX_PAIRS \<and> (\<forall>p \<in> set (je_on e). pos_join (on_left p) \<le> i)"

definition wf_spec :: "join_spec \<Rightarrow> bool" where
  "wf_spec spec \<longleftrightarrow>
     js_joins spec \<noteq> [] \<and> length (js_joins spec) + 1 \<le> MAX_TABLES
     \<and> (\<forall>i < length (js_joins spec). wf_entry i (js_joins spec ! i))
     \<and> (case js_columns spec of
          None \<Rightarrow> True
        | Some cs \<Rightarrow> cs \<noteq> [] \<and> distinct (map (\<lambda>c. (pos_join c, pos_column c)) cs))"

lemma check_on_pairs_ok:
  "check_on_pairs position pairs = Inr u \<longleftrightarrow> (\<forall>p \<in> set pairs. pos_join (on_left p) < position)"
  by (induction pairs) auto

lemma check_entries_ok:
  "check_entries i es = Inr u \<longleftrightarrow> (\<forall>k < length es. wf_entry (i + k) (es ! k))"
proof (induction es arbitrary: i)
  case Nil
  then show ?case by simp
next
  case (Cons e es)
  have "check_entries i (e # es) = Inr u \<longleftrightarrow> wf_entry i e \<and> check_entries (Suc i) es = Inr u"
    by (auto simp: check_on_pairs_ok wf_entry_def Let_def less_Suc_eq_le not_less)
  with Cons show ?case by (simp add: All_less_Suc2)
qed

lemma check_columns_distinct_ok:
  "check_columns_distinct seen cs = Inr u \<longleftrightarrow>
     distinct (map (\<lambda>c. (pos_join c, pos_column c)) cs)
     \<and> (\<forall>c \<in> set cs. (pos_join c, pos_column c) \<notin> set seen)"
  by (induction cs arbitrary: seen) (auto simp: image_iff)

lemma parse_join_ok:
  "parse_join de raw = Inr spec \<longleftrightarrow> length raw \<le> MAX_JOIN_BYTES \<and> de raw = Inr spec \<and> wf_spec spec"
  by (cases "de raw")
    (auto simp: parse_join_def wf_spec_def check_entries_ok check_columns_distinct_ok split: option.splits)

lemma length_table_names [simp]: "length (table_names spec) = length (js_joins spec) + 1"
  by (simp add: table_names_def)

section \<open>Labels are unique\<close>

lemma fresh_label_unused: "fresh_label used base label n \<notin> set used"
proof (induction used base label n rule: fresh_label.induct)
  case (1 used base label n)
  then show ?case by (subst fresh_label.simps) auto
qed

lemma fresh_label_first: "label \<notin> set used \<Longrightarrow> fresh_label used base label n = label"
  by (subst fresh_label.simps) simp

lemma fresh_label_prefix: "prefix base label \<Longrightarrow> prefix base (fresh_label used base label n)"
proof (induction used base label n rule: fresh_label.induct)
  case (1 used base label n)
  then show ?case by (subst fresh_label.simps) (auto simp: suffixed_def)
qed

lemma length_assign_loop [simp]: "length (assign_loop all used names) = length names"
  by (induction all used names rule: assign_loop.induct) (auto simp: Let_def)

lemma assign_loop_distinct:
  assumes "\<And>n. count_list all n = 1 \<Longrightarrow> n \<in> set used"
    and "\<And>n. count_list (map snd names) n \<le> count_list all n"
  shows "distinct (assign_loop all used names)
    \<and> (\<forall>l \<in> set (assign_loop all used names).
         l \<notin> set used \<or> l \<in> set (map snd names) \<and> count_list all l = 1)"
  using assms
proof (induction all used names rule: assign_loop.induct)
  case (1 all used)
  then show ?case by simp
next
  case (2 all used join name rest)
  have le: "count_list (map snd rest) n \<le> count_list all n" for n
    using 2(4) [of n] by (simp split: if_splits)
  show ?case
  proof (cases "count_list all name = 1")
    case True
    have "count_list (map snd rest) name = 0" using 2(4) [of name] True by simp
    then have "name \<notin> set (map snd rest)" by (metis count_list_0_iff)
    with 2(1) [OF True 2(3) le] True 2(3) show ?thesis by auto
  next
    case False
    let ?base = "suffixed name join"
    let ?label = "fresh_label used ?base ?base 2"
    have ih: "distinct (assign_loop all (?label # used) rest)
      \<and> (\<forall>l \<in> set (assign_loop all (?label # used) rest).
           l \<notin> set (?label # used) \<or> l \<in> set (map snd rest) \<and> count_list all l = 1)"
      by (rule 2(2) [OF False refl refl]) (use 2(3) le in auto)
    have "?label \<notin> set used" by (rule fresh_label_unused)
    with ih False 2(3) show ?thesis by (auto simp: Let_def)
  qed
qed

lemma assign_loop_nth:
  "i < length names \<Longrightarrow>
   (if count_list all (snd (names ! i)) = 1 then assign_loop all used names ! i = snd (names ! i)
    else prefix (suffixed (snd (names ! i)) (fst (names ! i))) (assign_loop all used names ! i))"
proof (induction all used names arbitrary: i rule: assign_loop.induct)
  case (1 all used)
  then show ?case by simp
next
  case (2 all used join name rest)
  then show ?case by (cases i) (auto simp: Let_def intro: fresh_label_prefix)
qed

lemma assign_labels_distinct: "distinct (assign_labels names)"
  unfolding assign_labels_def Let_def
  by (rule assign_loop_distinct [THEN conjunct1]) (auto intro: ccontr simp: count_list_0_iff)

lemma length_assign_labels [simp]: "length (assign_labels names) = length names"
  by (simp add: assign_labels_def Let_def)

text \<open>The loop takes the first suffix that is free.\<close>

lemma fresh_label_walk:
  assumes "label \<in> set used" "n \<le> k" "\<And>j. n \<le> j \<Longrightarrow> j < k \<Longrightarrow> suffixed base j \<in> set used"
    and "suffixed base k \<notin> set used"
  shows "fresh_label used base label n = suffixed base k"
  using assms(1-3)
proof (induction "k - n" arbitrary: n label)
  case 0
  then have "n = k" by simp
  with 0 assms(4) show ?case
    by (subst fresh_label.simps) (simp add: fresh_label_first)
next
  case (Suc d)
  then have "suffixed base n \<in> set used" by simp
  with Suc have "fresh_label used base (suffixed base n) (Suc n) = suffixed base k" by simp
  with Suc(3) show ?case by (subst fresh_label.simps) simp
qed

lemma fresh_suffix_exists: "\<exists>k \<ge> n. suffixed base k \<notin> set used"
proof (rule ccontr)
  assume "\<not> ?thesis"
  then have "{n..} \<subseteq> {k. suffixed base k \<in> set used}" by auto
  then show False
    using finite_subset [OF _ finite_suffixed [of base used]] infinite_Ici by blast
qed

lemma suffixed_run_bound:
  assumes "base \<in> set used" "\<And>j. 2 \<le> j \<Longrightarrow> j < k \<Longrightarrow> suffixed base j \<in> set used"
  shows "k \<le> length used + 1"
proof -
  have "insert base (suffixed base ` {2..<k}) \<subseteq> set used"
    using assms by auto
  then have "card (insert base (suffixed base ` {2..<k})) \<le> length used"
    by (meson card_length card_mono finite_set order_trans)
  moreover have "base \<notin> suffixed base ` {2..<k}"
    by (auto simp: suffixed_def)
  moreover have "card (suffixed base ` {2..<k}) = k - 2"
    by (simp add: card_image inj_on_def)
  ultimately show ?thesis by simp
qed

section \<open>Properties\<close>

text \<open>\<open>JoinSpec::parse\<close> accepts exactly the texts of at most 8192 bytes that decode to a
  join of two to four tables whose every entry has one to three pairs, each referring back to
  an earlier table, and whose \<open>columns\<close>, when given, is non-empty and repeats nothing; it
  returns the decoded join unchanged.\<close>

theorem parse_join_accepts_iff:
  "parse_join de raw = Inr spec \<longleftrightarrow> length raw \<le> MAX_JOIN_BYTES \<and> de raw = Inr spec \<and> wf_spec spec"
  by (rule parse_join_ok)

text \<open>C39: The label assignment terminates and gives every returned column a label of its own: the
  labels are pairwise distinct, one per column in order; a column whose name is unique keeps
  it, any other gets a label starting with \<open>name_join\<close>.\<close>

theorem assign_labels_correct:
  "distinct (assign_labels names) \<and> length (assign_labels names) = length names
   \<and> list_all2 (\<lambda>(join, name) label.
        if count_list (map snd names) name = 1 then label = name
        else prefix (name @ ''_'' @ nat_str join) label) names (assign_labels names)"
proof -
  have "list_all2 (\<lambda>(join, name) label.
        if count_list (map snd names) name = 1 then label = name
        else prefix (name @ ''_'' @ nat_str join) label) names (assign_labels names)"
    unfolding list_all2_conv_all_nth
  proof (intro conjI allI impI)
    fix i assume "i < length names"
    then show "(case names ! i of (join, name) \<Rightarrow> \<lambda>label.
        if count_list (map snd names) name = 1 then label = name
        else prefix (name @ ''_'' @ nat_str join) label) (assign_labels names ! i)"
      using assign_loop_nth [of i names "map snd names"
        "filter (\<lambda>n. count_list (map snd names) n = 1) (map snd names)"]
      by (cases "names ! i") (simp add: assign_labels_def Let_def suffixed_def split: if_split_asm)
  qed simp
  then show ?thesis by (simp add: assign_labels_distinct)
qed

text \<open>The search for a free label ends early: a taken base label is replaced by its first free
  suffix from 2 on, which is found within as many steps as there are labels in use.\<close>

theorem fresh_label_terminates_early:
  "fresh_label used base base 2 =
     (if base \<in> set used then suffixed base (LEAST k. 2 \<le> k \<and> suffixed base k \<notin> set used) else base)
   \<and> (base \<in> set used \<longrightarrow> (LEAST k. 2 \<le> k \<and> suffixed base k \<notin> set used) \<le> length used + 1)"
proof -
  let ?P = "\<lambda>k. 2 \<le> k \<and> suffixed base k \<notin> set used"
  have least: "?P (LEAST k. ?P k)"
    by (rule LeastI_ex) (use fresh_suffix_exists [of 2 base used] in blast)
  have below: "suffixed base j \<in> set used" if "2 \<le> j" "j < (LEAST k. ?P k)" for j
    using not_less_Least [OF that(2)] that(1) by blast
  show ?thesis
  proof (cases "base \<in> set used")
    case True
    have "fresh_label used base base 2 = suffixed base (LEAST k. ?P k)"
      by (rule fresh_label_walk) (use True least below in auto)
    moreover have "(LEAST k. ?P k) \<le> length used + 1"
      by (rule suffixed_run_bound [OF True below])
    ultimately show ?thesis using True by simp
  qed (simp add: fresh_label_first)
qed

lemma fresh_label_terminates_early_witness:
  "''id_0'' \<in> set [''id_0'', ''id_0_2''] \<and>
   fresh_label [''id_0'', ''id_0_2''] ''id_0'' ''id_0'' 2
     = suffixed ''id_0'' (LEAST k. 2 \<le> k \<and> suffixed ''id_0'' k \<notin> set [''id_0'', ''id_0_2''])"
  using fresh_label_terminates_early [of "[''id_0'', ''id_0_2'']" "''id_0''"] by simp

end
