(* ===== verification/Join_Plan.thy ===== *)
theory Join_Plan
  imports Join_Spec
begin

text \<open>
  The second half of \<open>core/src/join.rs\<close>: \<open>plan\<close> resolves a join request against the catalog,
  \<open>build_select\<close> writes the SQL text of a resolved plan in a backend's dialect. A slice index
  out of range is \<^const>\<open>Panic\<close>. The \<open>debug_assert_eq!\<close> of \<open>plan\<close> is not modelled: it is
  absent from release builds, and the callers build the table list from the spec.
\<close>

record resolved_condition =
  rc_logic :: "logic option"
  rc_not :: bool
  rc_op :: filter_op
  rc_value :: "string option"
  rc_pos :: nat
  rc_col :: nat

record plan =
  p_tables :: "table_meta list"
  p_kinds :: "join_type list"
  p_ons :: "(nat \<times> nat \<times> nat) list list"
  p_selection :: "(nat \<times> nat) list"
  p_labels :: "string list"
  p_filter :: "resolved_condition list"
  p_sort :: "(nat \<times> nat) option"
  p_descending :: bool

text \<open>\<open>plan.tables[pos]\<close> and \<open>plan.tables[pos].columns[col]\<close>; \<open>plan\<close> below only produces
  positions in range (\<open>plan_wf\<close>).\<close>

definition table_at :: "plan \<Rightarrow> nat \<Rightarrow> table_meta" where
  "table_at p pos = p_tables p ! pos"

definition column_at :: "plan \<Rightarrow> nat \<Rightarrow> nat \<Rightarrow> col_meta" where
  "column_at p pos col = tm_columns (table_at p pos) ! col"

definition plan_columns :: "plan \<Rightarrow> join_column_info list" where
  "plan_columns p =
     map (\<lambda>((pos, col), label).
        (let c = column_at p pos col
         in \<lparr>jc_name = label, jc_type_name = cm_type_name c, jc_join = pos,
             jc_table = tm_name (table_at p pos), jc_column = cm_name c, jc_class = cm_class c,
             jc_enum_type = enum_type (cm_class c),
             jc_collation = wire_collation (cm_class c) (cm_collation c),
             jc_key = cm_key c, jc_references = cm_references c, jc_comment = cm_comment c\<rparr>))
       (zip (p_selection p) (p_labels p))"

section \<open>Resolving names\<close>

definition column_index :: "table_meta \<Rightarrow> string \<Rightarrow> db_error + nat" where
  "column_index table column =
     ok_or (not_allowed Column (''column '' @ debug_str column))
       (find_position (\<lambda>c. cm_name c = column) (tm_columns table))"

definition join_column_index :: "table_meta \<Rightarrow> string \<Rightarrow> db_error + nat" where
  "join_column_index table column =
     map_err (\<lambda>_. BadJoin (tm_name table @ '' has no column '' @ debug_str column))
       (column_index table column)"

fun unknown_join_table :: "db_error \<Rightarrow> db_error" where
  "unknown_join_table (NotAllowed d) =
     (if na_kind d = Table then BadJoin (''unknown '' @ na_what d) else NotAllowed d)"
| "unknown_join_table e = e"

definition describe :: "table_meta \<Rightarrow> col_meta \<Rightarrow> string" where
  "describe table col = tm_name table @ ''.'' @ cm_name col @ '' ('' @ cm_type_name col @ '')''"

definition unjoinable :: "nat \<Rightarrow> table_meta \<Rightarrow> col_meta \<Rightarrow> db_error" where
  "unjoinable position table col =
     (let why = (if cm_class col = Float
                 then '': floating-point values are not compared exactly'' else '''')
      in BadJoin (''join '' @ nat_str position @ '' on: '' @ describe table col
           @ '' cannot be used in a join'' @ why))"

definition check_pair ::
  "nat \<Rightarrow> table_meta \<Rightarrow> col_meta \<Rightarrow> table_meta \<Rightarrow> col_meta \<Rightarrow> db_error + unit" where
  "check_pair position lt lc rt rc =
     (if \<not> is_joinable (cm_class lc) then Inl (unjoinable position lt lc)
      else if \<not> is_joinable (cm_class rc) then Inl (unjoinable position rt rc)
      else if cm_class lc \<noteq> cm_class rc
      then Inl (BadJoin (''join '' @ nat_str position @ '' on: '' @ describe lt lc
             @ '' cannot be joined to '' @ describe rt rc))
      else if cm_class lc = Text
      then (case (cm_collation lc, cm_collation rc) of
              (Some x, Some y) \<Rightarrow>
                if x \<noteq> y
                then Inl (BadJoin (''join '' @ nat_str position @ '' on: '' @ describe lt lc @ '' and ''
                       @ describe rt rc @ '' use different text collations ('' @ x @ '' and '' @ y @ '')''))
                else Inr ()
            | _ \<Rightarrow> Inr ())
      else Inr ())"

section \<open>plan\<close>

definition index_panic :: "'a list \<Rightarrow> nat \<Rightarrow> 'a outcome" where
  "index_panic xs i = (if i < length xs then Done (Inr (xs ! i)) else Panic)"

definition resolve_pair :: "table_meta list \<Rightarrow> nat \<Rightarrow> on_pair \<Rightarrow> (nat \<times> nat \<times> nat) outcome" where
  "resolve_pair tables position pair =
     outcome_then (index_panic tables (pos_join (on_left pair))) (\<lambda>left_table.
     outcome_then (Done (join_column_index left_table (pos_column (on_left pair)))) (\<lambda>lc.
     outcome_then (index_panic tables position) (\<lambda>right_table.
     outcome_then (Done (join_column_index right_table (on_right pair))) (\<lambda>rc.
     outcome_then (Done (check_pair position left_table (tm_columns left_table ! lc)
                           right_table (tm_columns right_table ! rc))) (\<lambda>_.
     Done (Inr (pos_join (on_left pair), lc, rc)))))))"

definition resolve_selection ::
  "table_meta list \<Rightarrow> column_pos list option \<Rightarrow> db_error + (nat \<times> nat) list" where
  "resolve_selection tables columns =
     (case columns of
        Some cs \<Rightarrow>
          traverse (\<lambda>c.
            and_then (ok_or (BadJoin (''columns: position '' @ nat_str (pos_join c) @ '' is not in the join''))
                        (get_at tables (pos_join c))) (\<lambda>table.
            and_then (join_column_index table (pos_column c)) (\<lambda>i. Inr (pos_join c, i)))) cs
      | None \<Rightarrow>
          Inr (concat (map (\<lambda>(p, t). map (Pair p) [0..<length (tm_columns t)]) (List.enumerate 0 tables))))"

definition resolve_condition :: "table_meta list \<Rightarrow> nat \<times> condition \<Rightarrow> db_error + resolved_condition" where
  "resolve_condition tables ic =
     (let i = fst ic; c = snd ic; pos = (case c_join c of None \<Rightarrow> 0 | Some p \<Rightarrow> p)
      in and_then (ok_or (FilterParse (''condition '' @ nat_str i @ '': join position '' @ nat_str pos
                            @ '' is not in the join'')) (get_at tables pos)) (\<lambda>table.
         if takes_value (c_op c) \<noteq> (c_value c \<noteq> None)
         then Inl (FilterParse (''condition '' @ nat_str i @ '': op '' @ debug_str (as_wire (c_op c)) @ '' ''
                @ (if takes_value (c_op c) then ''requires'' else ''takes no'') @ '' a value''))
         else and_then (column_index table (c_column c)) (\<lambda>col.
           Inr \<lparr>rc_logic = c_logic c, rc_not = c_not c, rc_op = c_op c, rc_value = c_value c,
                rc_pos = pos, rc_col = col\<rparr>)))"

definition resolve_sort ::
  "table_meta list \<Rightarrow> string option \<Rightarrow> nat option \<Rightarrow> db_error + (nat \<times> nat) option" where
  "resolve_sort tables sort_column sort_join =
     (case (sort_column, sort_join) of
        (None, None) \<Rightarrow> Inr None
      | (None, Some _) \<Rightarrow> Inl (BadParameter ''sort_join needs sort'')
      | (Some column, join) \<Rightarrow>
          (let pos = (case join of None \<Rightarrow> 0 | Some p \<Rightarrow> p)
           in and_then (ok_or (BadParameter (''sort_join: position '' @ nat_str pos @ '' is not in the join''))
                          (get_at tables pos)) (\<lambda>table.
              and_then (column_index table column) (\<lambda>col. Inr (Some (pos, col))))))"

definition make_plan :: "join_spec \<Rightarrow> table_meta list \<Rightarrow> join_opts \<Rightarrow> plan outcome" where
  "make_plan spec tables opts =
     outcome_then
       (outcome_traverse (\<lambda>(i, entry). outcome_traverse (resolve_pair tables (i + 1)) (je_on entry))
          (List.enumerate 0 (js_joins spec))) (\<lambda>ons.
     outcome_then (Done (resolve_selection tables (js_columns spec))) (\<lambda>selection.
     (let names = map (\<lambda>(p, c). (p, cm_name (tm_columns (tables ! p) ! c))) selection;
          labels = assign_labels names
      in outcome_then (Done (traverse (resolve_condition tables)
             (List.enumerate 0 (case jo_filter opts of None \<Rightarrow> [] | Some cs \<Rightarrow> cs)))) (\<lambda>conds.
         outcome_then (Done (resolve_sort tables (jo_sort opts) (jo_sort_join opts))) (\<lambda>order.
         Done (Inr \<lparr>p_tables = tables, p_kinds = map je_kind (js_joins spec), p_ons = ons,
                    p_selection = selection, p_labels = labels, p_filter = conds,
                    p_sort = order, p_descending = jo_descending opts\<rparr>))))))"

section \<open>SQL text\<close>

datatype ilike_style = Native | LikeStyle | LoweredLike

record dialect =
  d_quote :: "string \<Rightarrow> string"
  d_cast_text :: "string \<Rightarrow> string"
  d_numbered :: bool
  d_ilike :: ilike_style

definition alias_of :: "plan \<Rightarrow> dialect \<Rightarrow> nat \<Rightarrow> nat \<Rightarrow> string" where
  "alias_of p d pos col = ''t'' @ nat_str pos @ ''.'' @ d_quote d (cm_name (column_at p pos col))"

definition from_item :: "plan \<Rightarrow> dialect \<Rightarrow> string option \<Rightarrow> nat \<Rightarrow> string" where
  "from_item p d schema pos =
     (let name = d_quote d (tm_name (table_at p pos))
      in (case schema of
            Some s \<Rightarrow> d_quote d s @ ''.'' @ name @ '' t'' @ nat_str pos
          | None \<Rightarrow> name @ '' t'' @ nat_str pos))"

definition placeholder :: "dialect \<Rightarrow> nat \<Rightarrow> string" where
  "placeholder d next_param = (if d_numbered d then ''$'' @ nat_str next_param else ''?'')"

text \<open>One condition over a cast column: its text, and the values pushed (at most one, with one
  placeholder each).\<close>

definition condition_text ::
  "dialect \<Rightarrow> nat \<Rightarrow> string \<Rightarrow> filter_op \<Rightarrow> string option \<Rightarrow> string \<times> string list" where
  "condition_text d next_param cast op v =
     (case v of
        None \<Rightarrow> (cast @ '' '' @ op_sql op, [])
      | Some x \<Rightarrow>
          (if op = Ilike
           then (case d_ilike d of
                   Native \<Rightarrow> (cast @ '' ILIKE '' @ placeholder d next_param, [x])
                 | LikeStyle \<Rightarrow> (cast @ '' LIKE '' @ placeholder d next_param, [x])
                 | LoweredLike \<Rightarrow>
                     (''LOWER('' @ cast @ '') LIKE LOWER('' @ placeholder d next_param @ '')'', [x]))
           else (cast @ '' '' @ op_sql op @ '' '' @ placeholder d next_param, [x])))"

definition condition_sql ::
  "plan \<Rightarrow> dialect \<Rightarrow> nat \<Rightarrow> resolved_condition \<Rightarrow> string \<times> string list" where
  "condition_sql p d next_param c =
     condition_text d next_param (d_cast_text d (alias_of p d (rc_pos c) (rc_col c)))
       (rc_op c) (rc_value c)"

definition joiner :: "nat \<Rightarrow> logic option \<Rightarrow> string" where
  "joiner i logic = (if 0 < i then (if logic = Some Or then '' OR '' else '' AND '') else '''')"

definition wrap_not :: "bool \<Rightarrow> string \<Rightarrow> string" where
  "wrap_not neg inner = (if neg then ''(NOT ('' @ inner @ ''))'' else ''('' @ inner @ '')'')"

fun filter_sql ::
  "plan \<Rightarrow> dialect \<Rightarrow> nat \<Rightarrow> nat \<Rightarrow> resolved_condition list \<Rightarrow> string \<times> string list" where
  "filter_sql p d i next_param [] = ([], [])"
| "filter_sql p d i next_param (c # cs) =
     (let (inner, vs) = condition_sql p d next_param c;
          next_param' = (if d_numbered d then next_param + length vs else next_param);
          (rest, values) = filter_sql p d (i + 1) next_param' cs
      in (joiner i (rc_logic c) @ wrap_not (rc_not c) inner @ rest, vs @ values))"

definition select_list :: "plan \<Rightarrow> dialect \<Rightarrow> string" where
  "select_list p d =
     str_join '', '' (map (\<lambda>(i, (pos, col)). d_cast_text d (alias_of p d pos col) @ '' as c'' @ nat_str i)
       (List.enumerate 0 (p_selection p)))"

definition on_sql :: "plan \<Rightarrow> dialect \<Rightarrow> nat \<Rightarrow> (nat \<times> nat \<times> nat) list \<Rightarrow> string" where
  "on_sql p d position pairs =
     str_join '' and '' (map (\<lambda>(lp, lc, rc). alias_of p d position rc @ '' = '' @ alias_of p d lp lc) pairs)"

definition join_clause :: "plan \<Rightarrow> dialect \<Rightarrow> string option \<Rightarrow> nat \<times> join_type \<Rightarrow> string" where
  "join_clause p d schema ik =
     (let position = fst ik + 1
      in '' '' @ join_sql (snd ik) @ '' '' @ from_item p d schema position @ '' on ''
           @ on_sql p d position (p_ons p ! fst ik))"

definition where_sql :: "string \<Rightarrow> string" where
  "where_sql clause = (if clause \<noteq> [] then '' where '' @ clause else [])"

definition order_sql :: "plan \<Rightarrow> dialect \<Rightarrow> string" where
  "order_sql p d =
     (case p_sort p of
        Some (pos, c) \<Rightarrow>
          '' order by '' @ alias_of p d pos c @ '' '' @ (if p_descending p then ''desc'' else ''asc'')
      | None \<Rightarrow> [])"

definition build_select :: "plan \<Rightarrow> dialect \<Rightarrow> string option \<Rightarrow> string \<times> string list" where
  "build_select p d schema =
     (let (clause, values) = filter_sql p d 0 3 (p_filter p)
      in (select_list p d @ '' from '' @ from_item p d schema 0
            @ concat (map (join_clause p d schema) (List.enumerate 0 (p_kinds p)))
            @ where_sql clause @ order_sql p d
            @ (if d_numbered d then '' limit $1 offset $2'' else '' limit ? offset ?''),
          values))"

end
