(* ===== verification/Join_Correct.thy ===== *)
theory Join_Correct
  imports Join_Plan
begin

text \<open>
  What \<open>plan\<close> guarantees of its result, and what \<open>build_select\<close> writes: every index of a plan
  is in range and every pair joinable, so no slice access of the second half can panic; and the
  statement a plan is rendered to is made of catalog identifiers, fixed keywords and one bind
  placeholder per bound value, in every dialect whose quoting and text cast are well behaved.
\<close>

section \<open>Well-formed plans\<close>

definition in_range :: "table_meta list \<Rightarrow> nat \<times> nat \<Rightarrow> bool" where
  "in_range tables pc \<longleftrightarrow> fst pc < length tables \<and> snd pc < length (tm_columns (tables ! fst pc))"

definition pair_comparable :: "col_meta \<Rightarrow> col_meta \<Rightarrow> bool" where
  "pair_comparable lc rc \<longleftrightarrow>
     is_joinable (cm_class lc) \<and> cm_class lc = cm_class rc
     \<and> (cm_class lc = Text \<longrightarrow>
          cm_collation lc = None \<or> cm_collation rc = None \<or> cm_collation lc = cm_collation rc)"

definition pair_wf :: "table_meta list \<Rightarrow> nat \<Rightarrow> nat \<times> nat \<times> nat \<Rightarrow> bool" where
  "pair_wf tables i t \<longleftrightarrow>
     (case t of (lp, lc, rc) \<Rightarrow>
        lp \<le> i \<and> in_range tables (lp, lc) \<and> in_range tables (i + 1, rc)
        \<and> pair_comparable (tm_columns (tables ! lp) ! lc) (tm_columns (tables ! (i + 1)) ! rc))"

definition plan_wf :: "plan \<Rightarrow> bool" where
  "plan_wf p \<longleftrightarrow>
     length (p_tables p) = length (p_kinds p) + 1
     \<and> length (p_ons p) = length (p_kinds p)
     \<and> (\<forall>i < length (p_ons p). p_ons p ! i \<noteq> [] \<and> list_all (pair_wf (p_tables p) i) (p_ons p ! i))
     \<and> list_all (in_range (p_tables p)) (p_selection p)
     \<and> distinct (p_labels p) \<and> length (p_labels p) = length (p_selection p)
     \<and> list_all (\<lambda>c. in_range (p_tables p) (rc_pos c, rc_col c)
           \<and> (takes_value (rc_op c) \<longleftrightarrow> rc_value c \<noteq> None)) (p_filter p)
     \<and> (\<forall>pc. p_sort p = Some pc \<longrightarrow> in_range (p_tables p) pc)"

lemma column_index_Inr:
  "column_index t name = Inr i \<Longrightarrow> i < length (tm_columns t) \<and> cm_name (tm_columns t ! i) = name"
  by (auto simp: column_index_def dest: find_position_Some)

lemma join_column_index_Inr:
  "join_column_index t name = Inr i \<Longrightarrow> i < length (tm_columns t) \<and> cm_name (tm_columns t ! i) = name"
  by (auto simp: join_column_index_def dest: column_index_Inr)

lemma check_pair_ok: "check_pair position lt lc rt rc = Inr u \<longleftrightarrow> pair_comparable lc rc"
  by (auto simp: check_pair_def pair_comparable_def split: option.splits)

lemma index_panic_simps [simp]:
  "index_panic xs i = Panic \<longleftrightarrow> length xs \<le> i"
  "index_panic xs i = Done (Inr x) \<longleftrightarrow> i < length xs \<and> x = xs ! i"
  by (auto simp: index_panic_def)

lemma resolve_pair_wf:
  "resolve_pair tables (i + 1) pair = Done (Inr t) \<Longrightarrow> pos_join (on_left pair) \<le> i \<Longrightarrow> pair_wf tables i t"
  by (auto simp: resolve_pair_def pair_wf_def in_range_def check_pair_ok
      dest: join_column_index_Inr)

lemma resolve_pair_panic:
  "resolve_pair tables position pair = Panic \<Longrightarrow>
   length tables \<le> pos_join (on_left pair) \<or> length tables \<le> position"
  by (auto simp: resolve_pair_def)

lemma resolve_selection_wf:
  assumes "resolve_selection tables columns = Inr sel"
  shows "list_all (in_range tables) sel"
proof (cases columns)
  case None
  with assms show ?thesis
    by (auto simp: resolve_selection_def list_all_iff in_range_def in_set_enumerate_eq)
next
  case (Some cs)
  with assms show ?thesis
    by (auto simp: resolve_selection_def list_all_iff in_range_def
        dest!: traverse_mem join_column_index_Inr)
qed

lemma resolve_condition_wf:
  "resolve_condition tables ic = Inr c \<Longrightarrow>
     in_range tables (rc_pos c, rc_col c) \<and> (takes_value (rc_op c) \<longleftrightarrow> rc_value c \<noteq> None)"
  by (auto simp: resolve_condition_def in_range_def Let_def dest!: column_index_Inr split: if_splits)

lemma resolve_sort_wf: "resolve_sort tables s j = Inr (Some pc) \<Longrightarrow> in_range tables pc"
  by (auto simp: resolve_sort_def in_range_def Let_def dest!: column_index_Inr split: option.splits)

lemma resolve_ons_wf:
  assumes "outcome_traverse (\<lambda>(i, entry). outcome_traverse (resolve_pair tables (i + 1)) (je_on entry))
             (List.enumerate 0 entries) = Done (Inr ons)"
    and "\<forall>i < length entries. wf_entry i (entries ! i)"
  shows "length ons = length entries
    \<and> (\<forall>i < length ons. ons ! i \<noteq> [] \<and> list_all (pair_wf tables i) (ons ! i))"
proof -
  have len: "length ons = length entries"
    using outcome_traverse_length [OF assms(1)] by simp
  have "ons ! i \<noteq> [] \<and> list_all (pair_wf tables i) (ons ! i)" if i: "i < length ons" for i
  proof -
    from outcome_traverse_nth [OF assms(1) i] i len
    have o: "outcome_traverse (resolve_pair tables (i + 1)) (je_on (entries ! i)) = Done (Inr (ons ! i))"
      by (simp add: nth_enumerate_eq)
    have w: "wf_entry i (entries ! i)" using assms(2) i len by simp
    have "pair_wf tables i t" if "t \<in> set (ons ! i)" for t
      using outcome_traverse_mem [OF o that] w resolve_pair_wf unfolding wf_entry_def by blast
    with w outcome_traverse_length [OF o] show ?thesis
      by (auto simp: wf_entry_def list_all_iff)
  qed
  with len show ?thesis by blast
qed

lemma resolve_ons_total:
  assumes "\<forall>i < length entries. wf_entry i (entries ! i)" "length tables = length entries + 1"
  shows "outcome_traverse (\<lambda>(i, entry). outcome_traverse (resolve_pair tables (i + 1)) (je_on entry))
           (List.enumerate 0 entries) \<noteq> Panic"
proof
  assume "outcome_traverse (\<lambda>(i, entry). outcome_traverse (resolve_pair tables (i + 1)) (je_on entry))
           (List.enumerate 0 entries) = Panic"
  from outcome_traverse_Panic [OF this] obtain i where i: "i < length entries"
    "outcome_traverse (resolve_pair tables (i + 1)) (je_on (entries ! i)) = Panic"
    by (auto simp: in_set_enumerate_eq)
  from outcome_traverse_Panic [OF i(2)] obtain x where "x \<in> set (je_on (entries ! i))"
    "length tables \<le> pos_join (on_left x) \<or> length tables \<le> i + 1"
    using resolve_pair_panic by blast
  with assms i(1) show False by (fastforce simp: wf_entry_def)
qed

section \<open>Properties of plan\<close>

lemma make_plan_ok:
  assumes "wf_spec spec" "length tables = length (table_names spec)"
  shows "make_plan spec tables opts \<noteq> Panic
    \<and> (\<forall>p. make_plan spec tables opts = Done (Inr p) \<longrightarrow>
          plan_wf p \<and> p_tables p = tables \<and> p_kinds p = map je_kind (js_joins spec))"
proof -
  have es: "\<forall>i < length (js_joins spec). wf_entry i (js_joins spec ! i)"
    using assms(1) by (simp add: wf_spec_def)
  have "make_plan spec tables opts \<noteq> Panic"
    using resolve_ons_total [OF es] assms(2) by (auto simp: make_plan_def Let_def)
  moreover have "plan_wf p \<and> p_tables p = tables \<and> p_kinds p = map je_kind (js_joins spec)"
    if p: "make_plan spec tables opts = Done (Inr p)" for p
  proof -
    from p obtain ons sel conds ord where *:
      "outcome_traverse (\<lambda>(i, entry). outcome_traverse (resolve_pair tables (i + 1)) (je_on entry))
         (List.enumerate 0 (js_joins spec)) = Done (Inr ons)"
      "resolve_selection tables (js_columns spec) = Inr sel"
      "traverse (resolve_condition tables)
         (List.enumerate 0 (case jo_filter opts of None \<Rightarrow> [] | Some cs \<Rightarrow> cs)) = Inr conds"
      "resolve_sort tables (jo_sort opts) (jo_sort_join opts) = Inr ord"
      "p = \<lparr>p_tables = tables, p_kinds = map je_kind (js_joins spec), p_ons = ons, p_selection = sel,
         p_labels = assign_labels (map (\<lambda>(p, c). (p, cm_name (tm_columns (tables ! p) ! c))) sel),
         p_filter = conds, p_sort = ord, p_descending = jo_descending opts\<rparr>"
      by (auto simp: make_plan_def Let_def)
    have "list_all (\<lambda>c. in_range tables (rc_pos c, rc_col c)
        \<and> (takes_value (rc_op c) \<longleftrightarrow> rc_value c \<noteq> None)) conds"
      using traverse_mem [OF *(3)] resolve_condition_wf unfolding list_all_iff by blast
    with resolve_ons_wf [OF *(1) es] resolve_selection_wf [OF *(2)] *(4) assms(2) show ?thesis
      by (auto simp: *(5) plan_wf_def assign_labels_distinct intro: resolve_sort_wf)
  qed
  ultimately show ?thesis by blast
qed

text \<open>C8: for a validated join and one catalog table per position, \<open>plan\<close> never indexes a slice
  out of range, and the plan it returns is well formed: every resolved index is in range, every
  join pair refers back to an earlier table and compares two columns of one joinable class and,
  for text, of compatible collations, the labels are distinct and one per selected column, and
  a condition carries a value exactly when its operator takes one.\<close>

theorem make_plan_correct:
  assumes "wf_spec spec" "length tables = length (table_names spec)"
  shows "make_plan spec tables opts \<noteq> Panic
    \<and> (\<forall>p. make_plan spec tables opts = Done (Inr p) \<longrightarrow>
          plan_wf p \<and> p_tables p = tables \<and> p_kinds p = map je_kind (js_joins spec))"
  by (rule make_plan_ok [OF assms])

definition number_column :: "string \<Rightarrow> col_meta" where
  "number_column n = \<lparr>cm_name = n, cm_type_name = ''int4'', cm_class = Number, cm_collation = None,
     cm_key = None, cm_references = None, cm_comment = None\<rparr>"

definition sample_tables :: "table_meta list" where
  "sample_tables =
     [\<lparr>tm_name = ''users'', tm_columns = [number_column ''id'']\<rparr>,
      \<lparr>tm_name = ''orders'', tm_columns = [number_column ''id'', number_column ''user_id'']\<rparr>]"

definition sample_spec :: join_spec where
  "sample_spec = \<lparr>js_table = ''users'',
     js_joins = [\<lparr>je_kind = Left, je_table = ''orders'',
       je_on = [\<lparr>on_left = \<lparr>pos_join = 0, pos_column = ''id''\<rparr>, on_right = ''user_id''\<rparr>]\<rparr>],
     js_columns = None\<rparr>"

definition sample_opts :: join_opts where
  "sample_opts = \<lparr>jo_limit = 10, jo_offset = 0, jo_sort = Some ''user_id'', jo_sort_join = Some 1,
     jo_descending = False, jo_timeout_secs = 5,
     jo_filter = Some [\<lparr>c_logic = None, c_not = True, c_column = ''id'', c_op = Ge,
       c_value = Some ''7'', c_join = None\<rparr>]\<rparr>"

lemma make_plan_correct_witness:
  "wf_spec sample_spec \<and> length sample_tables = length (table_names sample_spec)
   \<and> (\<exists>p. make_plan sample_spec sample_tables sample_opts = Done (Inr p) \<and> plan_wf p
         \<and> p_ons p = [[(0, 0, 1)]] \<and> p_labels p = [''id_0'', ''id_1'', ''user_id''])"
proof -
  have w: "wf_spec sample_spec" "length sample_tables = length (table_names sample_spec)"
    by (simp_all add: wf_spec_def sample_spec_def sample_tables_def wf_entry_def MAX_TABLES_def MAX_PAIRS_def)
  have "case make_plan sample_spec sample_tables sample_opts of
      Done (Inr p) \<Rightarrow> p_ons p = [[(0, 0, 1)]] \<and> p_labels p = [''id_0'', ''id_1'', ''user_id'']
    | _ \<Rightarrow> False"
    by code_simp
  then obtain p where "make_plan sample_spec sample_tables sample_opts = Done (Inr p)"
    "p_ons p = [[(0, 0, 1)]]" "p_labels p = [''id_0'', ''id_1'', ''user_id'']"
    by (auto split: outcome.splits sum.splits)
  with make_plan_correct [OF w, of sample_opts] w show ?thesis by blast
qed

section \<open>The statement of a plan\<close>

text \<open>The identifiers a statement may mention: the catalog's own names and the schema.\<close>

definition plan_names :: "plan \<Rightarrow> string option \<Rightarrow> string set" where
  "plan_names p schema =
     tm_name ` set (p_tables p) \<union> (\<Union>t \<in> set (p_tables p). cm_name ` set (tm_columns t)) \<union> set_option schema"

definition replace_values :: "(string \<Rightarrow> string) \<Rightarrow> plan \<Rightarrow> plan" where
  "replace_values f p =
     p\<lparr>p_filter := map (\<lambda>c. c\<lparr>rc_value := map_option f (rc_value c)\<rparr>) (p_filter p)\<rparr>"

lemma plain_simps: "list_all plain s \<longleftrightarrow> (\<forall>c \<in> set s. plain c)"
  by (simp add: list_all_iff)

lemma plan_names_table: "pos < length (p_tables p) \<Longrightarrow> tm_name (table_at p pos) \<in> plan_names p schema"
  by (auto simp: plan_names_def table_at_def)

lemma plan_names_column:
  assumes "in_range (p_tables p) (pos, col)"
  shows "cm_name (column_at p pos col) \<in> plan_names p schema"
proof -
  have "p_tables p ! pos \<in> set (p_tables p)"
    "tm_columns (p_tables p ! pos) ! col \<in> set (tm_columns (p_tables p ! pos))"
    using assms by (simp_all add: in_range_def)
  then show ?thesis unfolding plan_names_def column_at_def table_at_def by blast
qed

lemma plan_names_schema: "s \<in> set_option schema \<Longrightarrow> s \<in> plan_names p schema"
  by (auto simp: plan_names_def)

text \<open>The interface of a dialect: well-behaved quoting, and a text cast that wraps its argument.\<close>

locale sql_dialect = identifier_quoting q "d_quote d" for q :: char and d :: dialect +
  fixes pre post :: string
  assumes cast_text: "d_cast_text d x = pre @ x @ post"
    and plain_cast: "list_all plain pre" "list_all plain post"
    and cast_markers: "markers pre = 0" "markers post = 0"
begin

lemma literal0: "list_all plain s \<Longrightarrow> markers s = 0 \<Longrightarrow> piece q names 0 s"
  by (rule literal_piece)

lemma alias_tail:
  assumes "list_all plain s" "markers s = 0" "in_range (p_tables p) (pos, col)"
    "piece q (plan_names p schema) n t"
  shows "piece q (plan_names p schema) n (s @ alias_of p d pos col @ t)"
proof -
  have "piece q (plan_names p schema) n ((s @ ''t'' @ nat_str pos @ ''.'')
      @ d_quote d (cm_name (column_at p pos col)) @ t)"
    by (rule quote_piece) (use assms plan_names_column in \<open>auto simp: plain_def is_marker_def\<close>)
  then show ?thesis by (simp add: alias_of_def)
qed

lemma cast_tail:
  assumes "list_all plain s" "markers s = 0" "in_range (p_tables p) (pos, col)"
    "piece q (plan_names p schema) n t"
  shows "piece q (plan_names p schema) n (s @ d_cast_text d (alias_of p d pos col) @ t)"
proof -
  have "piece q (plan_names p schema) n ((s @ pre) @ alias_of p d pos col @ (post @ t))"
    by (rule alias_tail)
      (use assms plain_cast cast_markers in \<open>auto intro: piece_append0 literal0\<close>)
  then show ?thesis by (simp add: cast_text)
qed

lemma from_tail:
  assumes "list_all plain s" "markers s = 0" "s \<noteq> []" "pos < length (p_tables p)"
    "piece q (plan_names p schema) n t"
  shows "piece q (plan_names p schema) n (s @ from_item p d schema pos @ t)"
proof -
  have t: "piece q (plan_names p schema) n ('' t'' @ nat_str pos @ t)"
    using piece_append0 [OF literal0 [of "'' t'' @ nat_str pos"] assms(5)]
    by (simp add: plain_def is_marker_def)
  show ?thesis
  proof (cases schema)
    case None
    with quote_piece [OF assms(1-3) plan_names_table [OF assms(4)] t] show ?thesis
      by (simp add: from_item_def)
  next
    case (Some x)
    have "piece q (plan_names p schema) n (''.'' @ d_quote d (tm_name (table_at p pos)) @ '' t'' @ nat_str pos @ t)"
      by (rule quote_piece [OF _ _ _ plan_names_table [OF assms(4)] t])
        (simp_all add: plain_def is_marker_def)
    from quote_piece [OF assms(1-3) plan_names_schema this] Some show ?thesis
      by (simp add: from_item_def)
  qed
qed

lemma condition_text_piece:
  assumes cast: "\<And>a m u. list_all plain a \<Longrightarrow> markers a = 0 \<Longrightarrow> a \<noteq> [] \<Longrightarrow> piece q names m u \<Longrightarrow>
      piece q names m (a @ cast @ u)"
    and v: "takes_value op \<longleftrightarrow> v \<noteq> None"
    and t: "piece q names n t" and s: "list_all plain s" "markers s = 0" "s \<noteq> []"
  shows "piece q names (length (snd (condition_text d k cast op v)) + n)
     (s @ fst (condition_text d k cast op v) @ t)"
proof -
  have ph: "piece q names (1 + m) (a @ placeholder d k @ u)"
    if "list_all plain a" "markers a = 0" "piece q names m u" for a u m
    using piece_append [OF literal_piece [of "a @ placeholder d k" 1] that(3)] that
    by (cases "d_numbered d") (simp_all add: placeholder_def plain_def is_marker_def)
  have op: "list_all plain (op_sql op)" "markers (op_sql op) = 0"
    by (cases op; simp add: plain_def is_marker_def)+
  show ?thesis
  proof (cases v)
    case None
    have "piece q names n ('' '' @ op_sql op @ t)"
      using piece_append0 [OF literal0 [of "'' '' @ op_sql op"] t] op
      by (simp add: plain_def is_marker_def)
    from cast [OF s this] None show ?thesis by (simp add: condition_text_def)
  next
    case (Some x)
    have plainop: "piece q names (1 + n) (('' '' @ op_sql op @ '' '') @ placeholder d k @ t)"
      by (rule ph [OF _ _ t]) (use op in \<open>simp_all add: plain_def is_marker_def\<close>)
    have native: "piece q names (1 + n) ('' ILIKE '' @ placeholder d k @ t)"
      and like: "piece q names (1 + n) ('' LIKE '' @ placeholder d k @ t)"
      by (rule ph [OF _ _ t]; simp add: plain_def is_marker_def)+
    have "piece q names n ('')'' @ t)"
      by (rule piece_append0 [OF literal0 t]) (simp_all add: plain_def is_marker_def)
    then have lowered: "piece q names (1 + n) ('') LIKE LOWER('' @ placeholder d k @ '')'' @ t)"
      by (intro ph) (simp_all add: plain_def is_marker_def)
    have lower: "piece q names (1 + n)
        ((s @ ''LOWER('') @ cast @ '') LIKE LOWER('' @ placeholder d k @ '')'' @ t)"
      by (rule cast [OF _ _ _ lowered]) (use s in \<open>simp_all add: plain_def is_marker_def\<close>)
    show ?thesis
      using cast [OF s plainop] cast [OF s native] cast [OF s like] lower Some
      by (cases "d_ilike d") (simp_all add: condition_text_def)
  qed
qed

lemma condition_piece:
  assumes "in_range (p_tables p) (rc_pos c, rc_col c)" "takes_value (rc_op c) \<longleftrightarrow> rc_value c \<noteq> None"
    "piece q (plan_names p schema) n t" "list_all plain s" "markers s = 0" "s \<noteq> []"
  shows "piece q (plan_names p schema) (length (snd (condition_sql p d k c)) + n)
     (s @ fst (condition_sql p d k c) @ t)"
  unfolding condition_sql_def
  by (rule condition_text_piece [OF _ assms(2-6)]) (rule cast_tail [OF _ _ assms(1)])

lemma filter_piece:
  assumes "list_all (\<lambda>c. in_range (p_tables p) (rc_pos c, rc_col c)
        \<and> (takes_value (rc_op c) \<longleftrightarrow> rc_value c \<noteq> None)) cs"
  shows "piece q (plan_names p schema) (length (snd (filter_sql p d i k cs))) (fst (filter_sql p d i k cs))"
  using assms
proof (induction cs arbitrary: i k)
  case Nil
  then show ?case by simp
next
  case (Cons c cs)
  define k' where "k' = (if d_numbered d then k + length (snd (condition_sql p d k c)) else k)"
  have rest: "piece q (plan_names p schema) (length (snd (filter_sql p d (i + 1) k' cs)))
      ((if rc_not c then ''))'' else '')'') @ fst (filter_sql p d (i + 1) k' cs))"
    by (rule piece_append0 [OF literal0 Cons.IH])
      (use Cons.prems in \<open>auto simp: plain_def is_marker_def\<close>)
  have "piece q (plan_names p schema)
      (length (snd (condition_sql p d k c)) + length (snd (filter_sql p d (i + 1) k' cs)))
      ((joiner i (rc_logic c) @ (if rc_not c then ''(NOT ('' else ''(''))
         @ fst (condition_sql p d k c)
         @ (if rc_not c then ''))'' else '')'') @ fst (filter_sql p d (i + 1) k' cs))"
    by (rule condition_piece [OF _ _ rest])
      (use Cons.prems in \<open>auto simp: joiner_def plain_def is_marker_def\<close>)
  then show ?case
    by (simp add: Let_def split_beta wrap_not_def k'_def split del: if_split cong: if_cong)
      (auto split: if_splits)
qed

lemma select_list_piece:
  assumes "list_all (in_range (p_tables p)) (p_selection p)"
  shows "piece q (plan_names p schema) 0 (select_list p d)"
  unfolding select_list_def
proof (rule piece_join)
  fix x
  assume "x \<in> set (map (\<lambda>(i, (pos, col)). d_cast_text d (alias_of p d pos col) @ '' as c'' @ nat_str i)
       (List.enumerate 0 (p_selection p)))"
  then obtain i pos col where x: "x = d_cast_text d (alias_of p d pos col) @ '' as c'' @ nat_str i"
    "(i, (pos, col)) \<in> set (List.enumerate 0 (p_selection p))"
    by auto
  from x(2) have "(pos, col) \<in> set (p_selection p)"
    by (metis enumerate_eq_zip set_zip_rightD)
  with assms have r: "in_range (p_tables p) (pos, col)" by (auto simp: list_all_iff)
  show "piece q (plan_names p schema) 0 x"
    using cast_tail [OF _ _ r literal0 [of "'' as c'' @ nat_str i"], of "[]"]
    by (simp add: x(1) plain_def is_marker_def)
qed (simp_all add: clean_literal plain_def is_marker_def)

lemma on_piece:
  assumes "list_all (pair_wf (p_tables p) i) pairs"
  shows "piece q (plan_names p schema) 0 (on_sql p d (i + 1) pairs)"
  unfolding on_sql_def
proof (rule piece_join)
  fix x
  assume "x \<in> set (map (\<lambda>(lp, lc, rc). alias_of p d (i + 1) rc @ '' = '' @ alias_of p d lp lc) pairs)"
  then obtain lp lc rc where x: "x = alias_of p d (i + 1) rc @ '' = '' @ alias_of p d lp lc"
    "(lp, lc, rc) \<in> set pairs"
    by auto
  with assms have r: "in_range (p_tables p) (lp, lc)" "in_range (p_tables p) (i + 1, rc)"
    by (auto simp: list_all_iff pair_wf_def)
  have "piece q (plan_names p schema) 0 ('' = '' @ alias_of p d lp lc @ [])"
    by (rule alias_tail [OF _ _ r(1)]) (simp_all add: plain_def is_marker_def)
  then show "piece q (plan_names p schema) 0 x"
    using alias_tail [OF _ _ r(2), of "[]"] by (simp add: x(1))
qed (simp_all add: clean_literal plain_def is_marker_def)

lemma join_clause_piece:
  assumes "plan_wf p" "ik \<in> set (List.enumerate 0 (p_kinds p))"
  shows "piece q (plan_names p schema) 0 (join_clause p d schema ik)"
proof -
  from assms have i: "fst ik < length (p_ons p)" "fst ik + 1 < length (p_tables p)"
    by (auto simp: plan_wf_def in_set_enumerate_eq)
  have "piece q (plan_names p schema) 0 ('' on '' @ on_sql p d (fst ik + 1) (p_ons p ! fst ik))"
    by (rule piece_append0 [OF literal0 on_piece])
      (use assms(1) i in \<open>simp_all add: plan_wf_def plain_def is_marker_def\<close>)
  from from_tail [OF _ _ _ i(2) this, of "'' '' @ join_sql (snd ik) @ '' ''"]
  show ?thesis
    by (cases "snd ik") (simp_all add: join_clause_def plain_def is_marker_def)
qed

lemma build_select_piece:
  assumes "plan_wf p"
  shows "piece q (plan_names p schema) (length (snd (build_select p d schema)) + 2)
           (fst (build_select p d schema))"
proof -
  let ?f = "filter_sql p d 0 3 (p_filter p)"
  have lim: "piece q (plan_names p schema) 2
      (if d_numbered d then '' limit $1 offset $2'' else '' limit ? offset ?'')"
    by (auto intro!: literal_piece simp: plain_def is_marker_def)
  have "piece q (plan_names p schema) 2 (order_sql p d
      @ (if d_numbered d then '' limit $1 offset $2'' else '' limit ? offset ?''))"
  proof (cases "p_sort p")
    case None
    with lim show ?thesis by (simp add: order_sql_def)
  next
    case (Some pc)
    then have "in_range (p_tables p) (fst pc, snd pc)" using assms by (simp add: plan_wf_def)
    moreover have "piece q (plan_names p schema) 2 (('' '' @ (if p_descending p then ''desc'' else ''asc''))
        @ (if d_numbered d then '' limit $1 offset $2'' else '' limit ? offset ?''))"
      by (rule piece_append0 [OF literal0 lim]) (simp_all add: plain_def is_marker_def)
    ultimately show ?thesis
      using alias_tail [of "'' order by ''" p "fst pc" "snd pc"] Some
      by (simp add: order_sql_def split_beta plain_def is_marker_def)
  qed
  moreover have "piece q (plan_names p schema) (length (snd ?f)) (where_sql (fst ?f))"
  proof -
    have f: "piece q (plan_names p schema) (length (snd ?f)) (fst ?f)"
      by (rule filter_piece) (use assms in \<open>simp add: plan_wf_def\<close>)
    have "piece q (plan_names p schema) (length (snd ?f)) ('' where '' @ fst ?f)"
      by (rule piece_append0 [OF literal0 f]) (simp_all add: plain_def is_marker_def)
    with f show ?thesis by (cases "fst ?f") (simp_all add: where_sql_def)
  qed
  moreover have "piece q (plan_names p schema) 0
      (concat (map (join_clause p d schema) (List.enumerate 0 (p_kinds p))))"
    by (rule piece_concat) (use join_clause_piece [OF assms] in auto)
  ultimately have tail: "piece q (plan_names p schema) (length (snd ?f) + 2)
      (concat (map (join_clause p d schema) (List.enumerate 0 (p_kinds p))) @ where_sql (fst ?f)
        @ order_sql p d @ (if d_numbered d then '' limit $1 offset $2'' else '' limit ? offset ?''))"
    by (metis piece_append0 piece_append)
  have "0 < length (p_tables p)" using assms by (simp add: plan_wf_def)
  from piece_append0 [OF select_list_piece from_tail [OF _ _ _ this tail, of "'' from ''"]] assms
  show ?thesis
    by (simp add: build_select_def split_beta plan_wf_def plain_def is_marker_def)
qed

end

section \<open>Bound values\<close>

lemma replace_values_simps [simp]:
  "p_tables (replace_values f p) = p_tables p" "p_kinds (replace_values f p) = p_kinds p"
  "p_ons (replace_values f p) = p_ons p" "p_selection (replace_values f p) = p_selection p"
  "p_sort (replace_values f p) = p_sort p" "p_descending (replace_values f p) = p_descending p"
  by (simp_all add: replace_values_def)

lemma alias_of_replace [simp]: "alias_of (replace_values f p) = alias_of p"
  by (intro ext) (simp add: alias_of_def column_at_def table_at_def)

lemma from_item_replace [simp]: "from_item (replace_values f p) = from_item p"
  by (intro ext) (simp add: from_item_def table_at_def)

lemma on_sql_replace [simp]: "on_sql (replace_values f p) = on_sql p"
  by (intro ext) (simp add: on_sql_def)

lemma join_clause_replace [simp]: "join_clause (replace_values f p) = join_clause p"
  by (intro ext) (simp add: join_clause_def)

lemma order_sql_replace [simp]: "order_sql (replace_values f p) = order_sql p"
  by (intro ext) (simp add: order_sql_def split: option.split)

lemma select_list_replace [simp]: "select_list (replace_values f p) = select_list p"
  by (intro ext) (simp add: select_list_def)

lemma condition_sql_replace:
  "condition_sql (replace_values f p) d k (c\<lparr>rc_value := map_option f (rc_value c)\<rparr>)
     = (fst (condition_sql p d k c), map f (snd (condition_sql p d k c)))"
  by (simp add: condition_sql_def condition_text_def split: option.split ilike_style.split)

lemma filter_sql_replace:
  "filter_sql (replace_values f p) d i k (map (\<lambda>c. c\<lparr>rc_value := map_option f (rc_value c)\<rparr>) cs)
     = (fst (filter_sql p d i k cs), map f (snd (filter_sql p d i k cs)))"
  by (induction cs arbitrary: i k) (simp_all add: condition_sql_replace split_beta Let_def)

lemma filter_sql_values: "snd (filter_sql p d i k cs) = List.map_filter rc_value cs"
proof (induction cs arbitrary: i k)
  case Nil
  then show ?case by (simp add: map_filter_simps)
next
  case (Cons c cs)
  have "snd (condition_sql p d k c) = (case rc_value c of None \<Rightarrow> [] | Some v \<Rightarrow> [v])"
    by (simp add: condition_sql_def condition_text_def split: option.split ilike_style.split)
  with Cons show ?case by (simp add: Let_def split_beta map_filter_simps split: option.split)
qed

text \<open>C9: the text of a join statement does not depend on what the request's filter compares
  with: replacing every filter value by any other leaves the SQL text unchanged and only changes
  the list of bound values, which holds the conditions' values in order.\<close>

theorem build_select_value_independent:
  "build_select (replace_values f p) d schema
     = (fst (build_select p d schema), map f (snd (build_select p d schema)))
   \<and> snd (build_select p d schema) = List.map_filter rc_value (p_filter p)"
proof -
  have "p_filter (replace_values f p) = map (\<lambda>c. c\<lparr>rc_value := map_option f (rc_value c)\<rparr>) (p_filter p)"
    by (simp add: replace_values_def)
  then show ?thesis
    by (simp add: build_select_def split_beta filter_sql_replace filter_sql_values)
qed

end
