(* ===== verification/Engine.thy ===== *)
theory Engine
  imports Join_Correct
begin

text \<open>
  The boundary between the backends and sqlx (third-party). An operation of a backend runs
  against a database that answers each request, given everything asked and answered before; it
  returns its outcome and the history of its requests. The database is a parameter: nothing is
  assumed of it but the \<open>contract\<close> below, the documented shape of sqlx's answers. Scope ends
  that sqlx acts on (a pooled connection going back, a transaction dropped uncommitted) are
  requests of the history too. A reply outside the contract is \<^const>\<open>Panic\<close>.
\<close>

section \<open>Requests and replies\<close>

text \<open>A value a driver decodes, and the Rust type it is asked to decode it to.\<close>

datatype cell = CNull | CText string | CInt int | CBool bool | CReal u32 | CUndecodable

datatype ctype = TText | TOptText | TInt | TOptInt | TBool | TReal

fun cell_fits :: "ctype \<Rightarrow> cell \<Rightarrow> bool" where
  "cell_fits TText c = (case c of CText _ \<Rightarrow> True | _ \<Rightarrow> False)"
| "cell_fits TOptText c = (case c of CText _ \<Rightarrow> True | CNull \<Rightarrow> True | _ \<Rightarrow> False)"
| "cell_fits TInt c = (case c of CInt _ \<Rightarrow> True | _ \<Rightarrow> False)"
| "cell_fits TOptInt c = (case c of CInt _ \<Rightarrow> True | CNull \<Rightarrow> True | _ \<Rightarrow> False)"
| "cell_fits TBool c = (case c of CBool _ \<Rightarrow> True | _ \<Rightarrow> False)"
| "cell_fits TReal c = (case c of CReal _ \<Rightarrow> True | _ \<Rightarrow> False)"

type_synonym row = "cell list"

datatype bind = BText string | BInt int

datatype fetch_mode = All | One | Opt

datatype variant = MySql | MariaDb

text \<open>
  \<open>Fetch\<close> carries the row type of \<open>query_as\<close> and \<open>query_scalar\<close>, none for \<open>query\<close>, whose cells
  are decoded one by one. \<open>CacheGet\<close> and \<open>CacheSet\<close> are the \<open>OnceLock\<close> a MySQL source shares
  between its requests.
\<close>

datatype request =
    Acquire
  | Release
  | LockHandle
  | ReadClock
  | SetProgress int "int option"
  | Begin
  | Commit
  | Rollback
  | Execute string
  | Fetch fetch_mode "ctype list option" string "bind list"
  | CacheGet
  | CacheSet variant

datatype reply = Ack | Clock int | Rows "row list" | Cached "variant option"

type_synonym response = "sqlx_error + reply"
type_synonym history = "(request \<times> response) list"
type_synonym database = "history \<Rightarrow> request \<Rightarrow> response"
type_synonym 'a io = "database \<Rightarrow> history \<Rightarrow> 'a outcome \<times> history"

fun mode_fits :: "fetch_mode \<Rightarrow> nat \<Rightarrow> bool" where
  "mode_fits All n = True"
| "mode_fits One n = (n = 1)"
| "mode_fits Opt n = (n \<le> 1)"

text \<open>What sqlx documents of a successful answer.\<close>

fun conforms :: "request \<Rightarrow> reply \<Rightarrow> bool" where
  "conforms (Fetch mode tys sql binds) r =
     (case r of
        Rows rs \<Rightarrow> mode_fits mode (length rs)
          \<and> (case tys of None \<Rightarrow> True | Some ts \<Rightarrow> list_all (list_all2 cell_fits ts) rs)
      | _ \<Rightarrow> False)"
| "conforms ReadClock r = (case r of Clock _ \<Rightarrow> True | _ \<Rightarrow> False)"
| "conforms CacheGet r = (case r of Cached _ \<Rightarrow> True | _ \<Rightarrow> False)"
| "conforms _ r = (r = Ack)"

text \<open>Reading the clock or the cache and leaving a scope cannot fail.\<close>

fun infallible :: "request \<Rightarrow> bool" where
  "infallible Release = True"
| "infallible Rollback = True"
| "infallible ReadClock = True"
| "infallible CacheGet = True"
| "infallible (CacheSet v) = True"
| "infallible (SetProgress n d) = True"
| "infallible _ = False"

definition contract :: "database \<Rightarrow> bool" where
  "contract db \<longleftrightarrow>
     (\<forall>h q. case db h q of Inr r \<Rightarrow> conforms q r | Inl e \<Rightarrow> \<not> infallible q)"

section \<open>Running operations\<close>

definition io_return :: "'a \<Rightarrow> 'a io" where
  "io_return x db h = (Done (Inr x), h)"

definition io_throw :: "db_error \<Rightarrow> 'a io" where
  "io_throw e db h = (Done (Inl e), h)"

definition io_panic :: "'a io" where
  "io_panic db h = (Panic, h)"

definition io_then :: "'a io \<Rightarrow> ('a \<Rightarrow> 'b io) \<Rightarrow> 'b io" where
  "io_then m f db h =
     (case m db h of
        (Done (Inr x), h') \<Rightarrow> f x db h'
      | (Done (Inl e), h') \<Rightarrow> (Done (Inl e), h')
      | (Panic, h') \<Rightarrow> (Panic, h'))"

text \<open>A \<open>Result\<close> value under \<open>?\<close>, and an outcome of pure code.\<close>

definition io_result :: "db_error + 'a \<Rightarrow> 'a io" where
  "io_result r db h = (Done r, h)"

definition io_outcome :: "'a outcome \<Rightarrow> 'a io" where
  "io_outcome r db h = (r, h)"

text \<open>One request; its error is converted by \<open>f\<close> (\<^const>\<open>from_sqlx\<close> for a plain \<open>?\<close>).\<close>

definition ask :: "(sqlx_error \<Rightarrow> db_error) \<Rightarrow> request \<Rightarrow> reply io" where
  "ask f q db h = (let r = db h q in (Done (map_err f r), h @ [(q, r)]))"

definition ask_clock :: "int io" where
  "ask_clock = io_then (ask from_sqlx ReadClock) (\<lambda>r. case r of Clock t \<Rightarrow> io_return t | _ \<Rightarrow> io_panic)"

definition fetch :: "(sqlx_error \<Rightarrow> db_error) \<Rightarrow> fetch_mode \<Rightarrow> ctype list option \<Rightarrow> string \<Rightarrow> bind list \<Rightarrow> row list io" where
  "fetch f mode tys sql binds =
     io_then (ask f (Fetch mode tys sql binds)) (\<lambda>r. case r of Rows rs \<Rightarrow> io_return rs | _ \<Rightarrow> io_panic)"

text \<open>Decoding typed rows: outside the row type there is nothing to decode.\<close>

definition decode_rows :: "(row \<Rightarrow> 'a option) \<Rightarrow> row list \<Rightarrow> 'a list io" where
  "decode_rows dec rs = (case those (map dec rs) of Some xs \<Rightarrow> io_return xs | None \<Rightarrow> io_panic)"

definition fetch_all :: "(row \<Rightarrow> 'a option) \<Rightarrow> ctype list \<Rightarrow> string \<Rightarrow> bind list \<Rightarrow> 'a list io" where
  "fetch_all dec tys sql binds =
     io_then (fetch from_sqlx All (Some tys) sql binds) (decode_rows dec)"

definition fetch_one :: "(row \<Rightarrow> 'a option) \<Rightarrow> ctype list \<Rightarrow> string \<Rightarrow> bind list \<Rightarrow> 'a io" where
  "fetch_one dec tys sql binds =
     io_then (io_then (fetch from_sqlx One (Some tys) sql binds) (decode_rows dec))
       (\<lambda>xs. case xs of x # _ \<Rightarrow> io_return x | [] \<Rightarrow> io_panic)"

definition fetch_optional :: "(row \<Rightarrow> 'a option) \<Rightarrow> ctype list \<Rightarrow> string \<Rightarrow> bind list \<Rightarrow> 'a option io" where
  "fetch_optional dec tys sql binds =
     io_then (io_then (fetch from_sqlx Opt (Some tys) sql binds) (decode_rows dec))
       (\<lambda>xs. io_return (case xs of x # _ \<Rightarrow> Some x | [] \<Rightarrow> None))"

text \<open>\<open>body\<close> with its result kept as a value: what runs before a scope ends.\<close>

definition io_finally :: "'a io \<Rightarrow> request \<Rightarrow> 'a io" where
  "io_finally m q db h =
     (case m db h of (r, h') \<Rightarrow> (r, h' @ [(q, db h' q)]))"

text \<open>\<open>let result = body.await; after; result\<close>: \<open>after\<close> runs whatever \<open>body\<close> gave, and its own
  error wins. A panic of \<open>body\<close> unwinds past it.\<close>

definition io_keep :: "'a io \<Rightarrow> unit io \<Rightarrow> 'a io" where
  "io_keep m after db h =
     (case m db h of
        (Panic, h') \<Rightarrow> (Panic, h')
      | (Done r, h') \<Rightarrow>
          (case after db h' of
             (Done (Inr _), h'') \<Rightarrow> (Done r, h'')
           | (Done (Inl e), h'') \<Rightarrow> (Done (Inl e), h'')
           | (Panic, h'') \<Rightarrow> (Panic, h'')))"

text \<open>\<open>.map_err(f)\<close> on an operation, and a drop handler that runs on the error path only.\<close>

definition io_map_err :: "(db_error \<Rightarrow> db_error) \<Rightarrow> 'a io \<Rightarrow> 'a io" where
  "io_map_err f m db h =
     (case m db h of
        (Done r, h') \<Rightarrow> (Done (map_err f r), h')
      | (Panic, h') \<Rightarrow> (Panic, h'))"

definition io_on_error :: "'a io \<Rightarrow> request \<Rightarrow> 'a io" where
  "io_on_error m q db h =
     (case m db h of
        (Done (Inr x), h') \<Rightarrow> (Done (Inr x), h')
      | (r, h') \<Rightarrow> (r, h' @ [(q, db h' q)]))"

fun io_map :: "('a \<Rightarrow> 'b io) \<Rightarrow> 'a list \<Rightarrow> 'b list io" where
  "io_map f [] = io_return []"
| "io_map f (x # xs) = io_then (f x) (\<lambda>y. io_then (io_map f xs) (\<lambda>ys. io_return (y # ys)))"

section \<open>Decoding\<close>

definition as_text :: "cell \<Rightarrow> string option" where
  "as_text c = (case c of CText s \<Rightarrow> Some s | _ \<Rightarrow> None)"

definition as_opt_text :: "cell \<Rightarrow> string option option" where
  "as_opt_text c = (case c of CText s \<Rightarrow> Some (Some s) | CNull \<Rightarrow> Some None | _ \<Rightarrow> None)"

definition as_int :: "cell \<Rightarrow> int option" where
  "as_int c = (case c of CInt i \<Rightarrow> Some i | _ \<Rightarrow> None)"

definition as_opt_int :: "cell \<Rightarrow> int option option" where
  "as_opt_int c = (case c of CInt i \<Rightarrow> Some (Some i) | CNull \<Rightarrow> Some None | _ \<Rightarrow> None)"

definition as_bool :: "cell \<Rightarrow> bool option" where
  "as_bool c = (case c of CBool b \<Rightarrow> Some b | _ \<Rightarrow> None)"

definition as_real :: "cell \<Rightarrow> u32 option" where
  "as_real c = (case c of CReal w \<Rightarrow> Some w | _ \<Rightarrow> None)"

text \<open>A tuple type is decoded column by column.\<close>

definition col :: "(cell \<Rightarrow> 'a option) \<Rightarrow> ('a \<Rightarrow> row \<Rightarrow> 'b option) \<Rightarrow> row \<Rightarrow> 'b option" where
  "col d k r = (case r of [] \<Rightarrow> None | c # cs \<Rightarrow> Option.bind (d c) (\<lambda>x. k x cs))"

definition row_end :: "'a \<Rightarrow> row \<Rightarrow> 'a option" where
  "row_end x r = (if r = [] then Some x else None)"

definition decodes :: "(row \<Rightarrow> 'a option) \<Rightarrow> ctype list \<Rightarrow> bool" where
  "decodes dec tys \<longleftrightarrow> (\<forall>r. list_all2 cell_fits tys r \<longrightarrow> dec r \<noteq> None)"

lemma decodes_end [simp]: "decodes (row_end x) []"
  by (simp add: decodes_def row_end_def)

lemma decodes_col:
  assumes "\<And>c. cell_fits t c \<Longrightarrow> d c \<noteq> None" "\<And>x. decodes (k x) ts"
  shows "decodes (col d k) (t # ts)"
  using assms unfolding decodes_def col_def by (fastforce simp: list_all2_Cons1)

lemma fits_decodes:
  "cell_fits TText c \<Longrightarrow> as_text c \<noteq> None"
  "cell_fits TOptText c \<Longrightarrow> as_opt_text c \<noteq> None"
  "cell_fits TInt c \<Longrightarrow> as_int c \<noteq> None"
  "cell_fits TOptInt c \<Longrightarrow> as_opt_int c \<noteq> None"
  "cell_fits TBool c \<Longrightarrow> as_bool c \<noteq> None"
  "cell_fits TReal c \<Longrightarrow> as_real c \<noteq> None"
  by (cases c; simp add: as_text_def as_opt_text_def as_int_def as_opt_int_def as_bool_def as_real_def)+

lemma decodes_cols [intro!]:
  "(\<And>x. decodes (k1 x) ts) \<Longrightarrow> decodes (col as_text k1) (TText # ts)"
  "(\<And>x. decodes (k2 x) ts) \<Longrightarrow> decodes (col as_opt_text k2) (TOptText # ts)"
  "(\<And>x. decodes (k3 x) ts) \<Longrightarrow> decodes (col as_int k3) (TInt # ts)"
  "(\<And>x. decodes (k4 x) ts) \<Longrightarrow> decodes (col as_opt_int k4) (TOptInt # ts)"
  "(\<And>x. decodes (k5 x) ts) \<Longrightarrow> decodes (col as_bool k5) (TBool # ts)"
  "(\<And>x. decodes (k6 x) ts) \<Longrightarrow> decodes (col as_real k6) (TReal # ts)"
  by (rule decodes_col, erule fits_decodes, simp)+

lemma decodes_those:
  assumes "decodes dec tys"
  shows "list_all (list_all2 cell_fits tys) rs \<Longrightarrow> \<exists>xs. those (map dec rs) = Some xs"
proof (induction rs)
  case Nil
  then show ?case by simp
next
  case (Cons r rs)
  then obtain x xs where "dec r = Some x" "those (map dec rs) = Some xs"
    using assms by (auto simp: decodes_def)
  then show ?case by simp
qed

lemma those_length: "those (map dec rs) = Some xs \<Longrightarrow> length xs = length rs"
  by (induction rs arbitrary: xs) (auto split: option.splits)

section \<open>Total correctness\<close>

text \<open>
  \<open>triple P m Q E\<close>: against every database within the contract, from a history satisfying \<open>P\<close>,
  \<open>m\<close> does not panic; a result \<open>x\<close> satisfies \<open>Q x\<close>, an error \<open>e\<close> satisfies \<open>E e\<close>, of the
  history then.
\<close>

text \<open>What a triple says of one answer.\<close>

definition meets ::
  "('a \<Rightarrow> history \<Rightarrow> bool) \<Rightarrow> (db_error \<Rightarrow> history \<Rightarrow> bool) \<Rightarrow> 'a outcome \<times> history \<Rightarrow> bool" where
  "meets Q E a =
     (case a of
        (Panic, _) \<Rightarrow> False
      | (Done (Inr x), h') \<Rightarrow> Q x h'
      | (Done (Inl e), h') \<Rightarrow> E e h')"

definition triple ::
  "(history \<Rightarrow> bool) \<Rightarrow> 'a io \<Rightarrow> ('a \<Rightarrow> history \<Rightarrow> bool) \<Rightarrow> (db_error \<Rightarrow> history \<Rightarrow> bool) \<Rightarrow> bool" where
  "triple P m Q E \<longleftrightarrow> (\<forall>db h. contract db \<longrightarrow> P h \<longrightarrow> meets Q E (m db h))"

lemma meets_simps [simp]:
  "meets Q E (Panic, h) = False"
  "meets Q E (Done (Inr x), h) = Q x h"
  "meets Q E (Done (Inl e), h) = E e h"
  by (simp_all add: meets_def)

lemma meets_cases:
  assumes "meets Q E a"
  obtains x h where "a = (Done (Inr x), h)" "Q x h" | e h where "a = (Done (Inl e), h)" "E e h"
  using assms by (auto simp: meets_def split: prod.splits outcome.splits sum.splits)

lemma meets_cases_outcome:
  obtains "r = Panic" | e where "r = Done (Inl e)" | x where "r = Done (Inr x)"
  by (cases r rule: outcome.exhaust) (metis sum.exhaust)+

lemma tripleI: "(\<And>db h. contract db \<Longrightarrow> P h \<Longrightarrow> meets Q E (m db h)) \<Longrightarrow> triple P m Q E"
  by (simp add: triple_def)

lemma tripleD: "triple P m Q E \<Longrightarrow> contract db \<Longrightarrow> P h \<Longrightarrow> meets Q E (m db h)"
  by (simp add: triple_def)

lemma meets_mono:
  "meets Q E a \<Longrightarrow> (\<And>x h. Q x h \<Longrightarrow> Q' x h) \<Longrightarrow> (\<And>e h. E e h \<Longrightarrow> E' e h) \<Longrightarrow> meets Q' E' a"
  by (erule meets_cases) auto

named_theorems triple_rules \<open>one rule per construct of the modelled operations\<close>

lemma triple_conseq:
  assumes "triple P m Q E" "\<And>h. P' h \<Longrightarrow> P h" "\<And>x h. Q x h \<Longrightarrow> Q' x h" "\<And>e h. E e h \<Longrightarrow> E' e h"
  shows "triple P' m Q' E'"
  by (rule tripleI) (use assms(2-4) in \<open>blast intro: meets_mono [OF tripleD [OF assms(1)]]\<close>)

lemma triple_False [triple_rules]: "triple (\<lambda>h. False) m Q E"
  by (simp add: triple_def)

lemma triple_return [triple_rules]: "(\<And>h. P h \<Longrightarrow> Q x h) \<Longrightarrow> triple P (io_return x) Q E"
  by (simp add: triple_def io_return_def)

lemma triple_throw [triple_rules]: "(\<And>h. P h \<Longrightarrow> E e h) \<Longrightarrow> triple P (io_throw e) Q E"
  by (simp add: triple_def io_throw_def)

lemma triple_result [triple_rules]:
  "(\<And>h x. P h \<Longrightarrow> r = Inr x \<Longrightarrow> Q x h) \<Longrightarrow> (\<And>h e. P h \<Longrightarrow> r = Inl e \<Longrightarrow> E e h) \<Longrightarrow>
   triple P (io_result r) Q E"
  by (cases r) (auto simp: triple_def io_result_def)

lemma triple_outcome [triple_rules]:
  "(\<And>h. P h \<Longrightarrow> r \<noteq> Panic) \<Longrightarrow> (\<And>h x. P h \<Longrightarrow> r = Done (Inr x) \<Longrightarrow> Q x h) \<Longrightarrow>
   (\<And>h e. P h \<Longrightarrow> r = Done (Inl e) \<Longrightarrow> E e h) \<Longrightarrow> triple P (io_outcome r) Q E"
  by (cases r) (auto simp: triple_def io_outcome_def meets_def split: sum.split)

lemma triple_then:
  assumes "triple P m R E" "\<And>x. triple (R x) (f x) Q E"
  shows "triple P (io_then m f) Q E"
proof (rule tripleI)
  fix db h assume c: "contract db" and "P h"
  from tripleD [OF assms(1) this] show "meets Q E (io_then m f db h)"
    by (cases rule: meets_cases) (auto simp: io_then_def intro: tripleD [OF assms(2) c])
qed

lemma triple_ask [triple_rules]:
  assumes "\<And>h r. P h \<Longrightarrow> conforms q r \<Longrightarrow> Q r (h @ [(q, Inr r)])"
    and "\<And>h e. P h \<Longrightarrow> \<not> infallible q \<Longrightarrow> E (f e) (h @ [(q, Inl e)])"
  shows "triple P (ask f q) Q E"
proof (rule tripleI)
  fix db h assume "contract db" "P h"
  moreover from this have "case db h q of Inr r \<Rightarrow> conforms q r | Inl e \<Rightarrow> \<not> infallible q"
    by (simp add: contract_def)
  ultimately show "meets Q E (ask f q db h)"
    using assms by (cases "db h q") (simp_all add: ask_def)
qed

lemma triple_clock [triple_rules]:
  assumes "\<And>h t. P h \<Longrightarrow> Q t (h @ [(ReadClock, Inr (Clock t))])"
  shows "triple P ask_clock Q E"
  unfolding ask_clock_def
  by (rule triple_then [where R = "\<lambda>r h. \<exists>t. r = Clock t \<and> Q t h"])
    (auto intro!: triple_rules simp: assms split: reply.splits)

lemma triple_fetch [triple_rules]:
  assumes "\<And>h rs. P h \<Longrightarrow> conforms (Fetch mode tys sql binds) (Rows rs) \<Longrightarrow>
      Q rs (h @ [(Fetch mode tys sql binds, Inr (Rows rs))])"
    and "\<And>h e. P h \<Longrightarrow> E (f e) (h @ [(Fetch mode tys sql binds, Inl e)])"
  shows "triple P (fetch f mode tys sql binds) Q E"
  unfolding fetch_def
  by (rule triple_then [where R = "\<lambda>r h. \<exists>rs. r = Rows rs \<and> Q rs h"])
    (auto intro!: triple_rules assms split: reply.splits)

lemma triple_decode:
  assumes "decodes dec tys" "\<And>h. P h \<Longrightarrow> list_all (list_all2 cell_fits tys) rs"
    "\<And>h xs. P h \<Longrightarrow> those (map dec rs) = Some xs \<Longrightarrow> Q xs h"
  shows "triple P (decode_rows dec rs) Q E"
proof (rule tripleI)
  fix db h assume "P h"
  with assms(2) decodes_those [OF assms(1)] obtain xs where "those (map dec rs) = Some xs" by blast
  with assms(3) \<open>P h\<close> show "meets Q E (decode_rows dec rs db h)"
    by (simp add: decode_rows_def io_return_def)
qed

lemma triple_fetch_all [triple_rules]:
  assumes "decodes dec tys"
    and "\<And>h rs xs. P h \<Longrightarrow> those (map dec rs) = Some xs \<Longrightarrow>
      Q xs (h @ [(Fetch All (Some tys) sql binds, Inr (Rows rs))])"
    and "\<And>h e. P h \<Longrightarrow> E (from_sqlx e) (h @ [(Fetch All (Some tys) sql binds, Inl e)])"
  shows "triple P (fetch_all dec tys sql binds) Q E"
  unfolding fetch_all_def
  by (rule triple_then [where R = "\<lambda>rs h. list_all (list_all2 cell_fits tys) rs \<and>
        (\<forall>xs. those (map dec rs) = Some xs \<longrightarrow> Q xs h)"])
    (auto intro!: triple_rules triple_decode [OF assms(1)] assms(2,3))

lemma triple_fetch_few:
  assumes "decodes dec tys"
    and "\<And>h rs xs. P h \<Longrightarrow> mode_fits mode (length rs) \<Longrightarrow> those (map dec rs) = Some xs \<Longrightarrow>
      Q xs (h @ [(Fetch mode (Some tys) sql binds, Inr (Rows rs))])"
    and "\<And>h e. P h \<Longrightarrow> E (from_sqlx e) (h @ [(Fetch mode (Some tys) sql binds, Inl e)])"
  shows "triple P (io_then (fetch from_sqlx mode (Some tys) sql binds) (decode_rows dec)) Q E"
  by (rule triple_then [where R = "\<lambda>rs h. list_all (list_all2 cell_fits tys) rs \<and>
        (\<forall>xs. those (map dec rs) = Some xs \<longrightarrow> Q xs h)"])
    (auto intro!: triple_rules triple_decode [OF assms(1)] assms(2,3))

lemma triple_fetch_one [triple_rules]:
  assumes "decodes dec tys"
    and "\<And>h r x. P h \<Longrightarrow> dec r = Some x \<Longrightarrow>
      Q x (h @ [(Fetch One (Some tys) sql binds, Inr (Rows [r]))])"
    and "\<And>h e. P h \<Longrightarrow> E (from_sqlx e) (h @ [(Fetch One (Some tys) sql binds, Inl e)])"
  shows "triple P (fetch_one dec tys sql binds) Q E"
  unfolding fetch_one_def
  by (rule triple_then [OF triple_fetch_few [OF assms(1), where Q = "\<lambda>xs h. \<exists>x. xs = [x] \<and> Q x h"]])
    (auto intro!: triple_rules assms(2,3) simp: length_Suc_conv split: option.splits list.split)

lemma triple_fetch_optional [triple_rules]:
  assumes "decodes dec tys"
    and "\<And>h r x. P h \<Longrightarrow> dec r = Some x \<Longrightarrow>
      Q (Some x) (h @ [(Fetch Opt (Some tys) sql binds, Inr (Rows [r]))])"
    and "\<And>h. P h \<Longrightarrow> Q None (h @ [(Fetch Opt (Some tys) sql binds, Inr (Rows []))])"
    and "\<And>h e. P h \<Longrightarrow> E (from_sqlx e) (h @ [(Fetch Opt (Some tys) sql binds, Inl e)])"
  shows "triple P (fetch_optional dec tys sql binds) Q E"
  unfolding fetch_optional_def
  by (rule triple_then [OF triple_fetch_few [OF assms(1),
        where Q = "\<lambda>xs h. xs = [] \<and> Q None h \<or> (\<exists>x. xs = [x] \<and> Q (Some x) h)"]])
    (auto intro!: triple_rules assms(2-4) simp: le_Suc_eq length_Suc_conv split: option.splits list.split)

lemma triple_keep:
  assumes "triple P m R F" "\<And>x. triple (R x) after (\<lambda>_. Q x) E" "\<And>e. triple (F e) after (\<lambda>_. E e) E"
  shows "triple P (io_keep m after) Q E"
proof (rule tripleI)
  fix db h assume c: "contract db" and "P h"
  from tripleD [OF assms(1) this] show "meets Q E (io_keep m after db h)"
  proof (cases rule: meets_cases)
    case (1 x h')
    with tripleD [OF assms(2) c] have "meets (\<lambda>_. Q x) E (after db h')" by blast
    then show ?thesis by (cases rule: meets_cases) (simp_all add: io_keep_def 1)
  next
    case (2 e h')
    with tripleD [OF assms(3) c] have "meets (\<lambda>_. E e) E (after db h')" by blast
    then show ?thesis by (cases rule: meets_cases) (simp_all add: io_keep_def 2)
  qed
qed

lemma contract_infallible:
  assumes "contract db" "infallible q"
  obtains r where "db h q = Inr r" "conforms q r"
proof -
  from assms(1) have "case db h q of Inr r \<Rightarrow> conforms q r | Inl e \<Rightarrow> \<not> infallible q"
    by (simp add: contract_def)
  with assms(2) that show ?thesis by (auto split: sum.splits)
qed

lemma triple_finally:
  assumes "infallible q"
    "triple P m (\<lambda>x h. \<forall>r. conforms q r \<longrightarrow> Q x (h @ [(q, Inr r)]))
       (\<lambda>e h. \<forall>r. conforms q r \<longrightarrow> E e (h @ [(q, Inr r)]))"
  shows "triple P (io_finally m q) Q E"
proof (rule tripleI)
  fix db h assume c: "contract db" and "P h"
  from tripleD [OF assms(2) this] show "meets Q E (io_finally m q db h)"
  proof (cases rule: meets_cases)
    case (1 x h')
    then show ?thesis by (cases rule: contract_infallible [OF c assms(1), of h']) (simp add: io_finally_def)
  next
    case (2 e h')
    then show ?thesis by (cases rule: contract_infallible [OF c assms(1), of h']) (simp add: io_finally_def)
  qed
qed

lemma triple_on_error:
  assumes "infallible q" "triple P m Q (\<lambda>e h. \<forall>r. conforms q r \<longrightarrow> E e (h @ [(q, Inr r)]))"
  shows "triple P (io_on_error m q) Q E"
proof (rule tripleI)
  fix db h assume c: "contract db" and "P h"
  from tripleD [OF assms(2) this] show "meets Q E (io_on_error m q db h)"
  proof (cases rule: meets_cases)
    case (1 x h')
    then show ?thesis by (cases rule: contract_infallible [OF c assms(1), of h']) (simp add: io_on_error_def)
  next
    case (2 e h')
    then show ?thesis by (cases rule: contract_infallible [OF c assms(1), of h']) (simp add: io_on_error_def)
  qed
qed

lemma triple_map_err: "triple P m Q (\<lambda>e. E (f e)) \<Longrightarrow> triple P (io_map_err f m) Q E"
  by (rule tripleI, drule (2) tripleD, erule meets_cases) (simp_all add: io_map_err_def)

lemma triple_frame: "triple P m Q E \<Longrightarrow> triple (\<lambda>h. A \<and> P h) m (\<lambda>x h. A \<and> Q x h) E"
  by (cases A) (simp_all add: triple_False)

lemma triple_map:
  assumes "\<And>x. x \<in> set xs \<Longrightarrow> triple I (f x) (\<lambda>y h. R x y \<and> I h) E"
  shows "triple I (io_map f xs) (\<lambda>ys h. list_all2 R xs ys \<and> I h) E"
  using assms
proof (induction xs)
  case Nil
  show ?case by (auto intro: triple_rules)
next
  case (Cons x xs)
  have "triple (\<lambda>h. R x y \<and> I h) (io_then (io_map f xs) (\<lambda>ys. io_return (y # ys)))
      (\<lambda>ys h. list_all2 R (x # xs) ys \<and> I h) E" for y
  proof (rule triple_then)
    show "triple (\<lambda>h. R x y \<and> I h) (io_map f xs) (\<lambda>ys h. R x y \<and> list_all2 R xs ys \<and> I h) E"
      by (rule triple_frame [OF Cons.IH]) (use Cons.prems in simp)
  qed (auto intro: triple_rules)
  then show ?case
    by (simp only: io_map.simps) (rule triple_then [OF Cons.prems], simp_all)
qed

section \<open>Guarded histories\<close>

text \<open>Every request satisfied a condition that may depend on what was answered before it.\<close>

definition guarded :: "(history \<Rightarrow> request \<Rightarrow> bool) \<Rightarrow> history \<Rightarrow> bool" where
  "guarded G h \<longleftrightarrow> (\<forall>i < length h. G (take i h) (fst (h ! i)))"

lemma guarded_Nil [simp]: "guarded G []"
  by (simp add: guarded_def)

lemma guarded_snoc [simp]: "guarded G (h @ [qr]) \<longleftrightarrow> guarded G h \<and> G h (fst qr)"
  by (auto simp: guarded_def nth_append less_Suc_eq)

text \<open>
  The text values a database has answered with so far, or confirmed: values bound to an optional
  lookup that found its row.
\<close>

definition texts :: "history \<Rightarrow> string set" where
  "texts h = {s. \<exists>q rs r. (q, Inr (Rows rs)) \<in> set h \<and> r \<in> set rs
     \<and> (CText s \<in> set r \<or> (\<exists>tys sql binds. q = Fetch Opt tys sql binds \<and> BText s \<in> set binds))}"

lemma texts_Nil [simp]: "texts [] = {}"
  by (simp add: texts_def)

lemma texts_append [simp]: "texts (h @ h') = texts h \<union> texts h'"
  unfolding texts_def set_append by blast

lemma texts_rows [simp]:
  "texts [(q, Inr (Rows rs))] = {s. \<exists>r \<in> set rs. CText s \<in> set r
     \<or> (\<exists>tys sql binds. q = Fetch Opt tys sql binds \<and> BText s \<in> set binds)}"
  by (auto simp: texts_def)

lemma texts_other [simp]:
  "texts [(q, Inl e)] = {}" "texts [(q, Inr Ack)] = {}" "texts [(q, Inr (Clock t))] = {}"
  "texts [(q, Inr (Cached c))] = {}"
  by (auto simp: texts_def)

lemma those_mem: "those (map dec rs) = Some xs \<Longrightarrow> x \<in> set xs \<Longrightarrow> \<exists>r \<in> set rs. dec r = Some x"
  by (induction rs arbitrary: xs) (auto split: option.splits)

lemma col_Some: "col d k r = Some y \<longleftrightarrow> (\<exists>c cs x. r = c # cs \<and> d c = Some x \<and> k x cs = Some y)"
  by (auto simp: col_def Option.bind_eq_Some_conv split: list.splits)

lemma row_end_Some: "row_end x r = Some y \<longleftrightarrow> r = [] \<and> x = y"
  by (auto simp: row_end_def)

lemma as_Some:
  "as_text c = Some s \<longleftrightarrow> c = CText s"
  "as_opt_text c = Some os \<longleftrightarrow> (case os of Some s \<Rightarrow> c = CText s | None \<Rightarrow> c = CNull)"
  "as_int c = Some i \<longleftrightarrow> c = CInt i"
  "as_bool c = Some b \<longleftrightarrow> c = CBool b"
  by (auto simp: as_text_def as_opt_text_def as_int_def as_bool_def split: cell.splits option.splits)

lemmas decode_Some = col_Some row_end_Some as_Some

section \<open>Operations that keep an invariant\<close>

text \<open>
  From any history that satisfies \<open>I\<close> and whose texts include \<open>A\<close>, \<open>m\<close> does not panic and
  keeps \<open>I\<close> (an error may leave \<open>E\<close> instead), and its result \<open>x\<close> satisfies \<open>Q x\<close> and only
  uses texts \<open>N x\<close> the database has answered with.
\<close>

definition keeps_or ::
  "(history \<Rightarrow> bool) \<Rightarrow> (history \<Rightarrow> bool) \<Rightarrow> string set \<Rightarrow> 'a io \<Rightarrow> ('a \<Rightarrow> string set) \<Rightarrow> ('a \<Rightarrow> bool) \<Rightarrow> bool" where
  "keeps_or I E A m N Q \<longleftrightarrow>
     (\<forall>K. A \<subseteq> K \<longrightarrow>
        triple (\<lambda>h. I h \<and> K \<subseteq> texts h) m (\<lambda>x h. I h \<and> K \<union> N x \<subseteq> texts h \<and> Q x) (\<lambda>_ h. I h \<or> E h))"

abbreviation keeps ::
  "(history \<Rightarrow> bool) \<Rightarrow> string set \<Rightarrow> 'a io \<Rightarrow> ('a \<Rightarrow> string set) \<Rightarrow> ('a \<Rightarrow> bool) \<Rightarrow> bool" where
  "keeps I \<equiv> keeps_or I (\<lambda>_. False)"

lemma keeps_orI:
  "(\<And>K. A \<subseteq> K \<Longrightarrow> triple (\<lambda>h. I h \<and> K \<subseteq> texts h) m (\<lambda>x h. I h \<and> K \<union> N x \<subseteq> texts h \<and> Q x) (\<lambda>_ h. I h \<or> E h)) \<Longrightarrow>
   keeps_or I E A m N Q"
  by (simp add: keeps_or_def)

lemma keeps_orD:
  "keeps_or I E A m N Q \<Longrightarrow> A \<subseteq> K \<Longrightarrow>
   triple (\<lambda>h. I h \<and> K \<subseteq> texts h) m (\<lambda>x h. I h \<and> K \<union> N x \<subseteq> texts h \<and> Q x) (\<lambda>_ h. I h \<or> E h)"
  by (simp add: keeps_or_def)

lemma keepsI:
  "(\<And>K. A \<subseteq> K \<Longrightarrow> triple (\<lambda>h. I h \<and> K \<subseteq> texts h) m (\<lambda>x h. I h \<and> K \<union> N x \<subseteq> texts h \<and> Q x) (\<lambda>_. I)) \<Longrightarrow>
   keeps I A m N Q"
  by (simp add: keeps_or_def)

lemma keepsD:
  "keeps I A m N Q \<Longrightarrow> A \<subseteq> K \<Longrightarrow>
   triple (\<lambda>h. I h \<and> K \<subseteq> texts h) m (\<lambda>x h. I h \<and> K \<union> N x \<subseteq> texts h \<and> Q x) (\<lambda>_. I)"
  by (simp add: keeps_or_def)

lemma keeps_weaken:
  assumes "keeps_or I E A m N Q" "A \<subseteq> B" "\<And>x. Q x \<Longrightarrow> Q' x \<and> N' x \<subseteq> N x"
  shows "keeps_or I E B m N' Q'"
proof (rule keeps_orI)
  fix K assume "B \<subseteq> K"
  then have "A \<subseteq> K" using assms(2) by blast
  from keeps_orD [OF assms(1) this]
  show "triple (\<lambda>h. I h \<and> K \<subseteq> texts h) m (\<lambda>x h. I h \<and> K \<union> N' x \<subseteq> texts h \<and> Q' x) (\<lambda>_ h. I h \<or> E h)"
    by (rule triple_conseq) (use assms(3) in blast)+
qed

named_theorems keeps_rules \<open>one rule per construct, for invariants\<close>

lemma keeps_return [keeps_rules]: "N x \<subseteq> A \<Longrightarrow> Q x \<Longrightarrow> keeps_or I E A (io_return x) N Q"
  by (rule keeps_orI) (auto intro!: triple_rules)

lemma keeps_throw [keeps_rules]: "keeps_or I E A (io_throw e) N Q"
  by (rule keeps_orI) (auto intro!: triple_rules)

lemma keeps_result [keeps_rules]:
  "(\<And>x. r = Inr x \<Longrightarrow> N x \<subseteq> A \<and> Q x) \<Longrightarrow> keeps_or I E A (io_result r) N Q"
  by (rule keeps_orI) (rule triple_rules; blast)

lemma keeps_outcome [keeps_rules]:
  "r \<noteq> Panic \<Longrightarrow> (\<And>x. r = Done (Inr x) \<Longrightarrow> N x \<subseteq> A \<and> Q x) \<Longrightarrow> keeps_or I E A (io_outcome r) N Q"
  by (rule keeps_orI) (rule triple_rules; blast)

lemma keeps_then:
  assumes "keeps_or I E A m M R" "\<And>x. R x \<Longrightarrow> keeps_or I E (A \<union> M x) (f x) N Q"
  shows "keeps_or I E A (io_then m f) N Q"
proof (rule keeps_orI)
  fix K assume K: "A \<subseteq> K"
  show "triple (\<lambda>h. I h \<and> K \<subseteq> texts h) (io_then m f)
      (\<lambda>x h. I h \<and> K \<union> N x \<subseteq> texts h \<and> Q x) (\<lambda>_ h. I h \<or> E h)"
  proof (rule triple_then [OF keeps_orD [OF assms(1) K]])
    fix x
    show "triple (\<lambda>h. I h \<and> K \<union> M x \<subseteq> texts h \<and> R x) (f x)
        (\<lambda>x h. I h \<and> K \<union> N x \<subseteq> texts h \<and> Q x) (\<lambda>_ h. I h \<or> E h)"
    proof (cases "R x")
      case True
      have "A \<union> M x \<subseteq> K \<union> M x" using K by blast
      from keeps_orD [OF assms(2) [OF True] this] show ?thesis
        by (rule triple_conseq) (auto simp: True)
    qed (simp add: triple_False)
  qed
qed

text \<open>Where the intermediate value carries no names or facts.\<close>

lemma keeps_then_plain:
  "keeps_or I E A m (\<lambda>_. {}) (\<lambda>_. True) \<Longrightarrow> (\<And>x. keeps_or I E A (f x) N Q) \<Longrightarrow>
   keeps_or I E A (io_then m f) N Q"
  by (rule keeps_then [where M = "\<lambda>_. {}" and R = "\<lambda>_. True"]) auto

lemma keeps_result_then:
  "(\<And>x. r = Inr x \<Longrightarrow> keeps_or I E A (f x) N Q) \<Longrightarrow> keeps_or I E A (io_then (io_result r) f) N Q"
  by (cases r) (simp_all add: keeps_or_def triple_def io_then_def io_result_def)

lemma keeps_outcome_then:
  "r \<noteq> Panic \<Longrightarrow> (\<And>x. r = Done (Inr x) \<Longrightarrow> keeps_or I E A (f x) N Q) \<Longrightarrow>
   keeps_or I E A (io_then (io_outcome r) f) N Q"
  by (cases r rule: meets_cases_outcome) (simp_all add: keeps_or_def triple_def io_then_def io_outcome_def)

lemma keeps_case_prod:
  "(\<And>a b. x = (a, b) \<Longrightarrow> keeps_or I E A (f a b) N Q) \<Longrightarrow> keeps_or I E A (case x of (a, b) \<Rightarrow> f a b) N Q"
  by (cases x) simp

text \<open>A request, answered or failed.\<close>

lemma keeps_or_fetch_all:
  assumes "decodes dec tys"
    and "\<And>h r. I h \<Longrightarrow> A \<subseteq> texts h \<Longrightarrow> I (h @ [(Fetch All (Some tys) sql binds, Inr r)])"
    and "\<And>h e. I h \<Longrightarrow> A \<subseteq> texts h \<Longrightarrow>
      I (h @ [(Fetch All (Some tys) sql binds, Inl e)]) \<or> E (h @ [(Fetch All (Some tys) sql binds, Inl e)])"
    and "\<And>rs xs. those (map dec rs) = Some xs \<Longrightarrow> N xs \<subseteq> {s. \<exists>r \<in> set rs. CText s \<in> set r} \<and> Q xs"
  shows "keeps_or I E A (fetch_all dec tys sql binds) N Q"
  by (rule keeps_orI, rule triple_fetch_all [OF assms(1)])
    ((auto dest!: assms(4) intro!: assms(2))[1], metis assms(3) order_trans)

lemma keeps_or_fetch_one:
  assumes "decodes dec tys"
    and "\<And>h r. I h \<Longrightarrow> A \<subseteq> texts h \<Longrightarrow> I (h @ [(Fetch One (Some tys) sql binds, Inr r)])"
    and "\<And>h e. I h \<Longrightarrow> A \<subseteq> texts h \<Longrightarrow>
      I (h @ [(Fetch One (Some tys) sql binds, Inl e)]) \<or> E (h @ [(Fetch One (Some tys) sql binds, Inl e)])"
    and "\<And>r x. dec r = Some x \<Longrightarrow> N x \<subseteq> {s. CText s \<in> set r} \<and> Q x"
  shows "keeps_or I E A (fetch_one dec tys sql binds) N Q"
  by (rule keeps_orI, rule triple_fetch_one [OF assms(1)])
    ((auto dest!: assms(4) intro!: assms(2))[1], metis assms(3) order_trans)

lemma keeps_or_fetch_optional:
  assumes "decodes dec tys"
    and "\<And>h r. I h \<Longrightarrow> A \<subseteq> texts h \<Longrightarrow> I (h @ [(Fetch Opt (Some tys) sql binds, Inr r)])"
    and "\<And>h e. I h \<Longrightarrow> A \<subseteq> texts h \<Longrightarrow>
      I (h @ [(Fetch Opt (Some tys) sql binds, Inl e)]) \<or> E (h @ [(Fetch Opt (Some tys) sql binds, Inl e)])"
    and "\<And>r x. dec r = Some x \<Longrightarrow> N (Some x) \<subseteq> {s. CText s \<in> set r \<or> BText s \<in> set binds} \<and> Q (Some x)"
    and "N None = {}" "Q None"
  shows "keeps_or I E A (fetch_optional dec tys sql binds) N Q"
  by (rule keeps_orI, rule triple_fetch_optional [OF assms(1)])
    ((auto dest!: assms(4) intro!: assms(2) simp: assms(5,6))[2], metis assms(3) order_trans)

lemma keeps_or_fetch:
  assumes "\<And>h r. I h \<Longrightarrow> A \<subseteq> texts h \<Longrightarrow> I (h @ [(Fetch mode tys sql binds, Inr r)])"
    and "\<And>h e. I h \<Longrightarrow> A \<subseteq> texts h \<Longrightarrow>
      I (h @ [(Fetch mode tys sql binds, Inl e)]) \<or> E (h @ [(Fetch mode tys sql binds, Inl e)])"
    and "\<And>rs. Q rs"
  shows "keeps_or I E A (fetch f mode tys sql binds) (\<lambda>_. {}) Q"
  by (rule keeps_orI, rule triple_fetch)
    ((auto intro!: assms(1) simp: assms(3))[1], metis assms(2) order_trans)

lemma keeps_fetch_all:
  assumes "decodes dec tys"
    and "\<And>h r. I h \<Longrightarrow> A \<subseteq> texts h \<Longrightarrow> I (h @ [(Fetch All (Some tys) sql binds, r)])"
    and "\<And>rs xs. those (map dec rs) = Some xs \<Longrightarrow> N xs \<subseteq> {s. \<exists>r \<in> set rs. CText s \<in> set r} \<and> Q xs"
  shows "keeps I A (fetch_all dec tys sql binds) N Q"
  by (rule keeps_or_fetch_all [OF assms(1)]) (auto dest!: assms(3) intro: assms(2))

lemma keeps_fetch:
  assumes "\<And>h r. I h \<Longrightarrow> A \<subseteq> texts h \<Longrightarrow> I (h @ [(Fetch mode tys sql binds, r)])"
    and "\<And>rs. Q rs"
  shows "keeps I A (fetch f mode tys sql binds) (\<lambda>_. {}) Q"
  by (rule keeps_or_fetch) (use assms in auto)

lemma keeps_ask:
  assumes "\<And>h r. I h \<Longrightarrow> A \<subseteq> texts h \<Longrightarrow> I (h @ [(q, r)])"
  shows "keeps I A (ask f q) (\<lambda>_. {}) (\<lambda>_. True)"
  by (rule keepsI, rule triple_ask) (auto intro!: assms)

lemma keeps_map_err: "keeps_or I E A m N Q \<Longrightarrow> keeps_or I E A (io_map_err f m) N Q"
  by (rule keeps_orI, rule triple_map_err, erule keeps_orD)

text \<open>What it says of an operation run from the start.\<close>

lemma keeps_run:
  assumes "keeps I {} m N Q" "I []" "contract db"
  shows "fst (m db []) \<noteq> Panic \<and> I (snd (m db []))
    \<and> (\<forall>x. fst (m db []) = Done (Inr x) \<longrightarrow> N x \<subseteq> texts (snd (m db [])) \<and> Q x)"
proof -
  have "meets (\<lambda>x h. I h \<and> {} \<union> N x \<subseteq> texts h \<and> Q x) (\<lambda>_. I) (m db [])"
    by (rule tripleD [OF keepsD [OF assms(1) subset_refl] assms(3)]) (simp add: assms(2))
  then show ?thesis by (cases rule: meets_cases) auto
qed

text \<open>The same as a property of one run: the outcome and the whole history.\<close>

definition safe_run ::
  "(history \<Rightarrow> bool) \<Rightarrow> ('a \<Rightarrow> string set) \<Rightarrow> ('a \<Rightarrow> bool) \<Rightarrow> 'a outcome \<times> history \<Rightarrow> bool" where
  "safe_run I N Q a \<longleftrightarrow>
     fst a \<noteq> Panic \<and> I (snd a) \<and> (\<forall>x. fst a = Done (Inr x) \<longrightarrow> N x \<subseteq> texts (snd a) \<and> Q x)"

lemma keeps_safe: "keeps I {} m N Q \<Longrightarrow> I [] \<Longrightarrow> contract db \<Longrightarrow> safe_run I N Q (m db [])"
  unfolding safe_run_def by (rule keeps_run)

section \<open>A database from a table of answers\<close>

text \<open>
  A database within the contract that answers each statement from a table, keeping the rows that
  fit the requested type. The witnesses run the operations against it.
\<close>

fun default_cell :: "ctype \<Rightarrow> cell" where
  "default_cell TText = CText []"
| "default_cell TOptText = CNull"
| "default_cell TInt = CInt 0"
| "default_cell TOptInt = CNull"
| "default_cell TBool = CBool False"
| "default_cell TReal = CReal 0"

definition fitting :: "ctype list option \<Rightarrow> row list \<Rightarrow> row list" where
  "fitting tys rs = (case tys of None \<Rightarrow> rs | Some ts \<Rightarrow> filter (list_all2 cell_fits ts) rs)"

definition default_row :: "ctype list option \<Rightarrow> row" where
  "default_row tys = (case tys of None \<Rightarrow> [] | Some ts \<Rightarrow> map default_cell ts)"

fun answer :: "(string \<Rightarrow> row list) \<Rightarrow> request \<Rightarrow> reply" where
  "answer f (Fetch All tys sql binds) = Rows (fitting tys (f sql))"
| "answer f (Fetch One tys sql binds) =
     Rows [case fitting tys (f sql) of r # _ \<Rightarrow> r | [] \<Rightarrow> default_row tys]"
| "answer f (Fetch Opt tys sql binds) = Rows (take 1 (fitting tys (f sql)))"
| "answer f ReadClock = Clock 0"
| "answer f CacheGet = Cached None"
| "answer f _ = Ack"

definition db_of :: "(string \<Rightarrow> row list) \<Rightarrow> database" where
  "db_of f h q = Inr (answer f q)"

lemma default_fits: "cell_fits t (default_cell t)"
  by (cases t) simp_all

lemma fitting_fits: "list_all (list_all2 cell_fits ts) (fitting (Some ts) rs)"
  by (simp add: fitting_def list_all_iff)

lemma fitting_conforms:
  "case tys of None \<Rightarrow> True | Some ts \<Rightarrow> list_all (list_all2 cell_fits ts) (fitting tys rs)"
  by (cases tys) (simp_all add: fitting_fits)

lemma default_row_fits: "list_all2 cell_fits ts (default_row (Some ts))"
  by (simp add: default_row_def list_all2_conv_all_nth default_fits)

lemma contract_db_of: "contract (db_of f)"
  unfolding contract_def db_of_def
proof (intro allI, unfold sum.case)
  fix h q
  show "conforms q (answer f q)"
  proof (cases q)
    case (Fetch mode tys sql binds)
    show ?thesis
    proof (cases mode)
      case All
      then show ?thesis using fitting_conforms [of tys "f sql"] by (simp add: Fetch)
    next
      case One
      have "list_all2 cell_fits ts (case fitting (Some ts) (f sql) of r # _ \<Rightarrow> r | [] \<Rightarrow> default_row (Some ts))" for ts
        using fitting_fits [of ts "f sql"] default_row_fits [of ts]
        by (cases "fitting (Some ts) (f sql)") auto
      with One show ?thesis by (cases tys) (simp_all add: Fetch)
    next
      case Opt
      have "list_all (list_all2 cell_fits ts) (take 1 (fitting (Some ts) (f sql)))" for ts
        using fitting_fits [of ts "f sql"] by (auto simp: list_all_iff dest: in_set_takeD)
      with Opt show ?thesis by (cases tys) (simp_all add: Fetch)
    qed
  qed simp_all
qed

end
