(* ===== verification/Backend.thy ===== *)
theory Backend
  imports Engine
begin

text \<open>
  What the three backends share without sharing code: the JSON rendering of a row, the hash map
  of lists keyed by constraint, the lookup of a name in an allow-list, the key columns of a
  column's metadata, and the condition text both the page route and the join route write.
\<close>

section \<open>Rows as JSON\<close>

text \<open>\<open>row.try_get::<Option<String>, _>(i)\<close>: a missing or undecodable cell has a fixed text.\<close>

definition json_cell :: "row \<Rightarrow> nat \<Rightarrow> jvalue" where
  "json_cell r i =
     (case get_at r i of
        Some (CText t) \<Rightarrow> JString t
      | Some CNull \<Rightarrow> JNull
      | _ \<Rightarrow> JString ''<undecodable>'')"

definition row_json :: "row \<Rightarrow> string list \<Rightarrow> string \<rightharpoonup> jvalue" where
  "row_json r names = foldl (\<lambda>m (i, name). m(name \<mapsto> json_cell r i)) Map.empty (List.enumerate 0 names)"

section \<open>Allow-lists\<close>

definition find_allowed :: "not_allowed_kind \<Rightarrow> string \<Rightarrow> string list \<Rightarrow> string \<Rightarrow> db_error + string" where
  "find_allowed kind what names requested =
     ok_or (not_allowed kind (what @ '' '' @ debug_str requested)) (find (\<lambda>t. t = requested) names)"

definition gate_table :: "string list \<Rightarrow> string \<Rightarrow> db_error + unit" where
  "gate_table allowed table =
     (if table \<notin> set allowed then Inl (not_allowed Table (''table '' @ debug_str table)) else Inr ())"

text \<open>\<open>sort\<close> of a page: the allow-listed column, if one is requested.\<close>

definition sort_column :: "string list \<Rightarrow> string option \<Rightarrow> db_error + string option" where
  "sort_column column_names requested =
     (case requested of
        None \<Rightarrow> Inr None
      | Some r \<Rightarrow> and_then (find_allowed Column ''column'' column_names r) (\<lambda>c. Inr (Some c)))"

section \<open>Hash maps of lists\<close>

text \<open>
  \<open>map.entry(k).or_default().push(v)\<close> on a \<open>HashMap\<close>, as an association list in insertion
  order. The order \<open>into_values\<close> yields is arbitrary: a parameter \<open>ord\<close> of its users.
\<close>

fun entry_push :: "'k \<Rightarrow> 'v \<Rightarrow> ('k \<times> 'v list) list \<Rightarrow> ('k \<times> 'v list) list" where
  "entry_push k v [] = [(k, [v])]"
| "entry_push k v ((k', vs) # m) = (if k' = k then (k', vs @ [v]) # m else (k', vs) # entry_push k v m)"

text \<open>\<open>references\<close> of a column: the key kind and the referenced column.\<close>

definition key_of ::
  "(string \<Rightarrow> bool) \<Rightarrow> (string \<rightharpoonup> column_ref) \<Rightarrow> string \<Rightarrow> key_kind option \<times> column_ref option" where
  "key_of is_pk fks name =
     (if is_pk name then (Some Pk, fks name)
      else (case fks name of Some r \<Rightarrow> (Some Fk, Some r) | None \<Rightarrow> (None, None)))"

section \<open>Joins\<close>

text \<open>\<open>names.iter().map(|n| metas[n].clone())\<close>: a missing key would panic.\<close>

definition tables_of :: "(string \<rightharpoonup> table_meta) \<Rightarrow> string list \<Rightarrow> table_meta list outcome" where
  "tables_of metas names =
     outcome_traverse (\<lambda>n. case metas n of Some t \<Rightarrow> Done (Inr t) | None \<Rightarrow> Panic) names"

definition join_result :: "(row \<Rightarrow> string list \<Rightarrow> string \<rightharpoonup> jvalue) \<Rightarrow> plan \<Rightarrow> u32 \<Rightarrow> row list \<Rightarrow> join_data" where
  "join_result row_to_json p limit rs =
     \<lparr>jd_columns = plan_columns p,
      jd_rows = map (\<lambda>r. row_to_json r (p_labels p)) (take (unat limit) rs),
      jd_has_more = (unat limit < length rs)\<rparr>"

section \<open>Reference text of a page filter\<close>

text \<open>
  A page filter rendered with the join route's condition text, unqualified. The backends'
  \<open>build_where_clause\<close> functions are proved equal to it.
\<close>

fun where_text :: "dialect \<Rightarrow> nat \<Rightarrow> nat \<Rightarrow> condition list \<Rightarrow> string \<times> string list" where
  "where_text d i next_param [] = ([], [])"
| "where_text d i next_param (c # cs) =
     (let (inner, vs) = condition_text d next_param (d_cast_text d (d_quote d (c_column c))) (c_op c) (c_value c);
          next_param' = (if d_numbered d then next_param + length vs else next_param);
          (rest, values) = where_text d (i + 1) next_param' cs
      in (joiner i (c_logic c) @ wrap_not (c_not c) inner @ rest, vs @ values))"

definition where_clause :: "dialect \<Rightarrow> condition list \<Rightarrow> string \<times> string list" where
  "where_clause d cs =
     (if cs = [] then ([], [])
      else (let (clause, values) = where_text d 0 3 cs in ('' where '' @ clause, values)))"

definition schema_prefix :: "(string \<Rightarrow> string) \<Rightarrow> string option \<Rightarrow> string" where
  "schema_prefix quote schema = (case schema of Some s \<Rightarrow> quote s @ ''.'' | None \<Rightarrow> [])"

text \<open>The \<open>order by\<close> of a page: its column qualified by the table, so that it is the column and not
  the text cast of the select list.\<close>

definition order_text :: "(string \<Rightarrow> string) \<Rightarrow> string \<Rightarrow> string option \<Rightarrow> bool \<Rightarrow> string" where
  "order_text quote table sort_col desc =
     (case sort_col of
        Some c \<Rightarrow> '' order by '' @ quote table @ ''.'' @ quote c @ '' '' @ (if desc then ''desc'' else ''asc'')
      | None \<Rightarrow> [])"

section \<open>Lemmas\<close>

lemma foldl_update_enumerate:
  "foldl (\<lambda>m (i, name). m(name \<mapsto> f i)) m0 (List.enumerate n names)
     = m0 ++ map_of (rev (map (\<lambda>(i, name). (name, f i)) (List.enumerate n names)))"
  by (induction names arbitrary: n m0) (auto simp: map_add_def split: option.split)

lemma map_fst_enumerate_names: "map fst (map (\<lambda>(i, name). (name, f i)) (List.enumerate n names)) = names"
  by (induction names arbitrary: n) auto

lemma row_json_dom: "dom (row_json r names) = set names"
  by (simp add: row_json_def foldl_update_enumerate dom_map_of_conv_image_fst rev_map [symmetric]
      flip: set_map) (simp add: map_fst_enumerate_names flip: map_map)

lemma row_json_nth:
  assumes "distinct names" "i < length names"
  shows "row_json r names (names ! i) = Some (json_cell r i)"
proof -
  let ?ps = "map (\<lambda>(i, name). (name, json_cell r i)) (List.enumerate 0 names)"
  have d: "distinct (map fst (rev ?ps))"
    using assms(1) by (simp only: rev_map [symmetric] distinct_rev map_fst_enumerate_names)
  have "(names ! i, json_cell r i) \<in> set (rev ?ps)"
    using assms(2) by (force simp: in_set_enumerate_eq)
  with d show ?thesis
    unfolding row_json_def foldl_update_enumerate by (simp add: map_of_is_SomeI)
qed

lemma find_allowed_eq:
  "find_allowed kind what names requested =
     (if requested \<in> set names then Inr requested
      else Inl (not_allowed kind (what @ '' '' @ debug_str requested)))"
  by (simp add: find_allowed_def find_eq_Some)

lemma find_allowed_Inr [simp]:
  "find_allowed kind what names requested = Inr t \<longleftrightarrow> t = requested \<and> requested \<in> set names"
  by (auto simp: find_allowed_def find_eq_Some split: if_splits)

lemma find_allowed_Inl:
  "find_allowed kind what names requested = Inl e \<longleftrightarrow>
     requested \<notin> set names \<and> e = not_allowed kind (what @ '' '' @ debug_str requested)"
  by (auto simp: find_allowed_def find_eq_Some split: if_splits)

lemma set_entry_push: "fst ` set (entry_push k v m) = insert k (fst ` set m)"
  by (induction k v m rule: entry_push.induct) auto

lemma distinct_entry_push: "distinct (map fst m) \<Longrightarrow> distinct (map fst (entry_push k v m))"
proof (induction k v m rule: entry_push.induct)
  case (2 k v k' vs m)
  have "fst ` set (entry_push k v m) = insert k (fst ` set m)" by (rule set_entry_push)
  with 2 show ?case by auto
qed simp

lemma map_of_entry_push:
  "map_of (entry_push k v m) =
     (map_of m)(k \<mapsto> (case map_of m k of None \<Rightarrow> [v] | Some vs \<Rightarrow> vs @ [v]))"
  by (induction k v m rule: entry_push.induct) (auto simp: fun_eq_iff)

context sql_dialect begin

lemma quoted_cast_tail:
  assumes "list_all plain s" "markers s = 0" "s @ pre \<noteq> []" "name \<in> names" "piece q names n t"
  shows "piece q names n (s @ d_cast_text d (d_quote d name) @ t)"
proof -
  have "piece q names n ((s @ pre) @ d_quote d name @ (post @ t))"
    by (rule quote_piece)
      (use assms plain_cast cast_markers in \<open>auto intro: piece_append0 literal0\<close>)
  then show ?thesis by (simp add: cast_text)
qed

lemma where_text_piece:
  assumes "list_all (\<lambda>c. c_column c \<in> names \<and> (takes_value (c_op c) \<longleftrightarrow> c_value c \<noteq> None)) cs"
  shows "piece q names (length (snd (where_text d i k cs))) (fst (where_text d i k cs))"
  using assms
proof (induction cs arbitrary: i k)
  case Nil
  then show ?case by simp
next
  case (Cons c cs)
  define cond where
    "cond = condition_text d k (d_cast_text d (d_quote d (c_column c))) (c_op c) (c_value c)"
  define k' where "k' = (if d_numbered d then k + length (snd cond) else k)"
  have rest: "piece q names (length (snd (where_text d (i + 1) k' cs)))
      ((if c_not c then ''))'' else '')'') @ fst (where_text d (i + 1) k' cs))"
    by (rule piece_append0 [OF literal0 Cons.IH])
      (use Cons.prems in \<open>auto simp: plain_def is_marker_def\<close>)
  have "piece q names
      (length (snd cond) + length (snd (where_text d (i + 1) k' cs)))
      ((joiner i (c_logic c) @ (if c_not c then ''(NOT ('' else ''(''))
         @ fst cond @ (if c_not c then ''))'' else '')'') @ fst (where_text d (i + 1) k' cs))"
    unfolding cond_def
    by (rule condition_text_piece [OF quoted_cast_tail _ rest])
      (use Cons.prems in \<open>auto simp: joiner_def plain_def is_marker_def\<close>)
  then show ?case
    by (simp add: Let_def split_beta wrap_not_def k'_def cond_def split del: if_split cong: if_cong)
      (auto split: if_splits)
qed

lemma where_clause_piece:
  assumes "list_all (\<lambda>c. c_column c \<in> names \<and> (takes_value (c_op c) \<longleftrightarrow> c_value c \<noteq> None)) cs"
  shows "piece q names (length (snd (where_clause d cs))) (fst (where_clause d cs))"
  using piece_append0 [OF literal0 where_text_piece [OF assms], of "'' where ''"]
  by (simp add: where_clause_def split_beta plain_def is_marker_def)

text \<open>The cast columns of a page, and the end of a page statement.\<close>

lemma cast_list_tail:
  assumes "list_all plain s" "markers s = 0" "s @ pre \<noteq> []" "set xs \<subseteq> names" "piece q names n t"
  shows "piece q names n (s @ str_join '', '' (map (\<lambda>x. d_cast_text d (d_quote d x)) xs) @ t)"
  using assms
proof (induction xs arbitrary: s rule: induct_list012)
  case 1
  then show ?case using piece_append0 [OF literal0] by simp
next
  case (2 x)
  then show ?case by (simp add: quoted_cast_tail)
next
  case (3 x y zs)
  have "piece q names n ('', '' @ str_join '', '' (map (\<lambda>x. d_cast_text d (d_quote d x)) (y # zs)) @ t)"
    using 3(7,6) by (intro 3(2)) (auto simp: plain_def is_marker_def)
  from quoted_cast_tail [OF 3(3-5) _ this, of x] 3(6) show ?case by simp
qed

lemma order_tail:
  assumes "set_option sort_col \<union> {table} \<subseteq> names" "piece q names n t"
  shows "piece q names n (order_text (d_quote d) table sort_col desc @ t)"
proof (cases sort_col)
  case None
  with assms show ?thesis by (simp add: order_text_def)
next
  case (Some c)
  have "piece q names n (('' '' @ (if desc then ''desc'' else ''asc'')) @ t)"
    by (rule piece_append0 [OF literal0 assms(2)]) (simp_all add: plain_def is_marker_def)
  then have "piece q names n (''.'' @ d_quote d c @ ('' '' @ (if desc then ''desc'' else ''asc'')) @ t)"
    using assms(1) Some by (intro quote_piece) (simp_all add: plain_def is_marker_def)
  from quote_piece [OF _ _ _ _ this, of "'' order by ''" table] assms(1) Some show ?thesis
    by (simp add: order_text_def plain_def is_marker_def)
qed

lemma from_tail_page:
  assumes "insert table (set_option schema) \<subseteq> names" "piece q names n t"
  shows "piece q names n ('' from '' @ schema_prefix (d_quote d) schema @ d_quote d table @ t)"
proof (cases schema)
  case None
  with quote_piece [of "'' from ''", OF _ _ _ _ assms(2)] assms(1) show ?thesis
    by (simp add: schema_prefix_def plain_def is_marker_def)
next
  case (Some s)
  have "piece q names n (''.'' @ d_quote d table @ t)"
    using assms by (intro quote_piece) (simp_all add: plain_def is_marker_def)
  from quote_piece [OF _ _ _ _ this, of "'' from ''" s] Some assms(1) show ?thesis
    by (simp add: schema_prefix_def plain_def is_marker_def)
qed

text \<open>The whole of a page statement, whatever its filter clause.\<close>

lemma page_piece:
  assumes cols: "list_all plain s" "markers s = 0" "s @ pre \<noteq> []"
    and names: "insert table (set xs) \<union> set_option sort_col \<union> set_option schema \<subseteq> names"
    and clause: "piece q names n clause" and limit: "list_all plain t" "markers t = 2"
  shows "piece q names (n + 2)
    (s @ str_join '', '' (map (\<lambda>x. d_cast_text d (d_quote d x)) xs)
       @ '' from '' @ schema_prefix (d_quote d) schema @ d_quote d table @ clause
       @ order_text (d_quote d) table sort_col desc @ t)"
proof -
  have "piece q names 2 t" by (rule literal_piece) (use limit in auto)
  then have "piece q names 2 (order_text (d_quote d) table sort_col desc @ t)"
    using names by (intro order_tail) auto
  from piece_append [OF clause this] have "piece q names (n + 2)
      ('' from '' @ schema_prefix (d_quote d) schema @ d_quote d table @ clause
         @ order_text (d_quote d) table sort_col desc @ t)"
    using names by (intro from_tail_page) auto
  from cast_list_tail [OF cols _ this, of xs] names show ?thesis by simp
qed

end

text \<open>The result of a backend's \<open>build_where_clause\<close> on an accepted filter.\<close>

definition where_result :: "dialect \<Rightarrow> condition list \<Rightarrow> string list \<Rightarrow> db_error + (string \<times> string list)" where
  "where_result d cs cols =
     (case find (\<lambda>c. c_column c \<notin> set cols) cs of
        None \<Rightarrow> Inr (where_clause d cs)
      | Some c \<Rightarrow> Inl (not_allowed Column (''column '' @ debug_str (c_column c))))"

definition condition_result ::
  "dialect \<Rightarrow> string list \<Rightarrow> nat \<Rightarrow> nat \<Rightarrow> condition \<Rightarrow> db_error + (string \<times> string list)" where
  "condition_result d cols i k c =
     (if c_column c \<in> set cols
      then (let (inner, vs) = condition_text d k (d_cast_text d (d_quote d (c_column c))) (c_op c) (c_value c)
            in Inr (joiner i (c_logic c) @ wrap_not (c_not c) inner, vs))
      else Inl (not_allowed Column (''column '' @ debug_str (c_column c))))"

text \<open>A backend's condition is the reference one for every condition an accepted filter can hold.\<close>

definition shaped :: "nat \<Rightarrow> condition \<Rightarrow> bool" where
  "shaped i c \<longleftrightarrow> (takes_value (c_op c) \<longleftrightarrow> c_value c \<noteq> None) \<and> (0 < i \<longrightarrow> c_logic c \<noteq> None)"

lemma shaped_logic: "shaped i c \<Longrightarrow> 0 < i \<Longrightarrow> c_logic c = Some And \<or> c_logic c = Some Or"
  by (cases "the (c_logic c)") (auto simp: shaped_def)

text \<open>A value an operator does not take is ignored.\<close>

definition normal :: "condition \<Rightarrow> condition" where
  "normal c = c\<lparr>c_value := (if takes_value (c_op c) then c_value c else None)\<rparr>"

lemma normal_simps [simp]:
  "c_column (normal c) = c_column c" "c_op (normal c) = c_op c" "c_logic (normal c) = c_logic c"
  "c_not (normal c) = c_not c" "takes_value (c_op c) \<Longrightarrow> c_value (normal c) = c_value c"
  "\<not> takes_value (c_op c) \<Longrightarrow> c_value (normal c) = None"
  by (simp_all add: normal_def)

lemma normal_id: "takes_value (c_op c) \<Longrightarrow> normal c = c"
  by (simp add: normal_def)

lemma wf_filter_shaped: "wf_filter aj cs \<Longrightarrow> \<forall>i < length cs. shaped i (cs ! i)"
  by (auto simp: wf_filter_def wf_condition_def shaped_def)

lemma where_text_values: "snd (where_text d i k cs) = List.map_filter c_value cs"
proof (induction cs arbitrary: i k)
  case Nil
  then show ?case by (simp add: map_filter_simps)
next
  case (Cons c cs)
  have "snd (condition_text d k cast op v) = (case v of None \<Rightarrow> [] | Some x \<Rightarrow> [x])" for cast op v
    by (simp add: condition_text_def split: option.split ilike_style.split)
  with Cons show ?case by (simp add: Let_def split_beta map_filter_simps split: option.split)
qed

lemma where_result_Inr:
  assumes "where_result d cs cols = Inr (clause, values)"
  shows "set (map c_column cs) \<subseteq> set cols" "where_clause d cs = (clause, values)"
  using assms by (auto simp: where_result_def find_None_iff split: option.splits)

section \<open>What pages and joins look like\<close>

definition meta_names :: "table_meta \<Rightarrow> string set" where
  "meta_names t = insert (tm_name t) (cm_name ` set (tm_columns t))"

lemma ci_name_of [simp]: "ci_name (column_info_of c) = cm_name c"
  by (simp add: column_info_of_def)

lemma ci_name_o [simp]: "ci_name \<circ> column_info_of = cm_name"
  by (simp add: o_def)

text \<open>What a page of any backend looks like: one JSON object per row, one entry per column.\<close>

definition page_wf :: "table_data \<Rightarrow> bool" where
  "page_wf t \<longleftrightarrow> (\<forall>r \<in> set (td_rows t). dom r = set (map ci_name (td_columns t)))"

definition metas_good :: "(string \<rightharpoonup> table_meta) \<Rightarrow> bool" where
  "metas_good m \<longleftrightarrow> (\<forall>n t. m n = Some t \<longrightarrow> tm_name t = n)"

definition metas_names :: "(string \<rightharpoonup> table_meta) \<Rightarrow> string set" where
  "metas_names m = (\<Union>t \<in> ran m. meta_names t)"

lemma metas_simps [simp]: "metas_good Map.empty" "metas_names Map.empty = {}"
  by (simp_all add: metas_good_def metas_names_def)

lemma metas_update:
  "metas_good m \<Longrightarrow> tm_name t = n \<Longrightarrow> metas_good (m(n \<mapsto> t))"
  "m n = None \<Longrightarrow> metas_names (m(n \<mapsto> t)) = meta_names t \<union> metas_names m"
  by (auto simp: metas_good_def metas_names_def)

lemma tables_of_total:
  assumes "set names \<subseteq> dom m"
  shows "tables_of m names = Done (Inr (map (the \<circ> m) names))"
  using assms by (induction names) (auto simp: tables_of_def)

text \<open>What a join result of any backend looks like.\<close>

definition join_wf :: "u32 \<Rightarrow> join_data \<Rightarrow> bool" where
  "join_wf limit j \<longleftrightarrow>
     distinct (map jc_name (jd_columns j)) \<and> length (jd_rows j) \<le> unat limit
     \<and> (\<forall>r \<in> set (jd_rows j). dom r = set (map jc_name (jd_columns j)))
     \<and> (jd_has_more j \<longrightarrow> length (jd_rows j) = unat limit)"

lemma plan_columns_names: "plan_wf p \<Longrightarrow> map jc_name (plan_columns p) = p_labels p"
  by (rule nth_equalityI) (auto simp: plan_columns_def plan_wf_def Let_def split_beta)

lemma join_result_wf:
  assumes "plan_wf p" "\<And>r names. row_to_json r names = row_json r names"
  shows "join_wf limit (join_result row_to_json p limit rs)"
  using assms plan_columns_names [OF assms(1)]
  by (auto simp: join_wf_def join_result_def row_json_dom plan_wf_def)

lemma plan_names_metas:
  assumes "p_tables p = map (the \<circ> m) names" "set names \<subseteq> dom m"
  shows "plan_names p schema \<subseteq> metas_names m \<union> set_option schema"
proof -
  have "the (m n) \<in> ran m" if "n \<in> set names" for n
    using that assms(2) by (metis domIff option.collapse ranI subsetD)
  then show ?thesis
    unfolding plan_names_def metas_names_def assms(1) meta_names_def by fastforce
qed

text \<open>Planning over the loaded tables of an accepted join.\<close>

lemma make_plan_metas:
  assumes "wf_spec spec" "set (table_names spec) \<subseteq> dom m"
  shows "make_plan spec (map (the \<circ> m) (table_names spec)) opts \<noteq> Panic"
    "make_plan spec (map (the \<circ> m) (table_names spec)) opts = Done (Inr p) \<Longrightarrow>
       plan_wf p \<and> plan_names p schema \<subseteq> metas_names m \<union> set_option schema"
  using make_plan_ok [OF assms(1), of "map (the \<circ> m) (table_names spec)" opts]
    plan_names_metas [OF _ assms(2)] by auto

section \<open>The tables of a join\<close>

text \<open>
  The loop over the join's table names: each table is looked up once. \<open>lookup\<close> is the body a
  backend runs for a name it has not met yet.
\<close>

fun load_metas ::
  "(string \<Rightarrow> table_meta io) \<Rightarrow> (string \<rightharpoonup> table_meta) \<Rightarrow> string list \<Rightarrow> (string \<rightharpoonup> table_meta) io" where
  "load_metas lookup metas [] = io_return metas"
| "load_metas lookup metas (name # names) =
     (if metas name \<noteq> None then load_metas lookup metas names
      else io_then (lookup name) (\<lambda>meta. load_metas lookup (metas(name \<mapsto> meta)) names))"

lemma keeps_load_metas:
  assumes "\<And>B name. A \<subseteq> B \<Longrightarrow> keeps_or I E B (lookup name) meta_names (\<lambda>t. tm_name t = name)"
  shows "A \<union> metas_names metas \<subseteq> B \<Longrightarrow> metas_good metas \<Longrightarrow>
    keeps_or I E B (load_metas lookup metas names) metas_names
      (\<lambda>m. metas_good m \<and> dom metas \<union> set names \<subseteq> dom m)"
proof (induction names arbitrary: metas B)
  case Nil
  then show ?case by (auto intro!: keeps_return)
next
  case (Cons name names)
  show ?case
  proof (cases "metas name")
    case None
    have "keeps_or I E B (io_then (lookup name) (\<lambda>meta. load_metas lookup (metas(name \<mapsto> meta)) names))
        metas_names (\<lambda>m. metas_good m \<and> dom metas \<union> set (name # names) \<subseteq> dom m)"
    proof (rule keeps_then [OF assms])
      show "A \<subseteq> B" using Cons.prems(1) by blast
    next
      fix meta :: table_meta
      assume m: "tm_name meta = name"
      have "A \<union> metas_names (metas(name \<mapsto> meta)) \<subseteq> B \<union> meta_names meta"
        unfolding metas_update(2) [where m = metas and n = name and t = meta, OF None]
        using Cons.prems(1) by blast
      from Cons.IH [OF this metas_update(1) [OF Cons.prems(2) m]]
      show "keeps_or I E (B \<union> meta_names meta) (load_metas lookup (metas(name \<mapsto> meta)) names)
          metas_names (\<lambda>m. metas_good m \<and> dom metas \<union> set (name # names) \<subseteq> dom m)"
        by (rule keeps_weaken) (simp_all only: dom_fun_upd, auto)
    qed
    with None show ?thesis by simp
  next
    case (Some t)
    have "keeps_or I E B (load_metas lookup metas names) metas_names
        (\<lambda>m. metas_good m \<and> dom metas \<union> set (name # names) \<subseteq> dom m)"
      by (rule keeps_weaken [OF Cons.IH [OF Cons.prems] subset_refl]) (use Some in auto)
    with Some show ?thesis by simp
  qed
qed

text \<open>The column list of a page: the names of the loaded table.\<close>

lemma sort_column_names:
  "sort_column (map ci_name (map column_info_of (tm_columns meta))) requested = Inr sort_col \<Longrightarrow>
   set_option sort_col \<subseteq> meta_names meta"
  by (auto simp: sort_column_def meta_names_def split: option.splits)

text \<open>A page request the witnesses use.\<close>

definition page_opts :: query_opts where
  "page_opts = \<lparr>q_limit = 2, q_offset = 0, q_sort = Some ''id'', q_descending = True, q_timeout_secs = 7,
     q_filter = None\<rparr>"

end
