(* ===== verification/Tx_Protocol.thy ===== *)
theory Tx_Protocol
  imports Backend
begin

text \<open>
  The transactions of the two server backends: what sqlx does when a transaction is begun,
  committed or dropped, the discipline their requests follow as a state machine over the history,
  and the interface of a backend whose operations run in a transaction.
\<close>

section \<open>Transactions\<close>

text \<open>
  An operation begins a transaction, sets it up, runs its body and commits. A transaction dropped
  on an error path, or whose commit failed, is rolled back by its destructor.
\<close>

definition in_tx :: "unit io \<Rightarrow> 'a io \<Rightarrow> 'a io" where
  "in_tx conf body =
     io_then (ask from_sqlx Begin) (\<lambda>_.
       io_on_error
         (io_then conf (\<lambda>_. io_then body (\<lambda>x. io_then (ask from_sqlx Commit) (\<lambda>_. io_return x))))
         Rollback)"

section \<open>The discipline\<close>

text \<open>
  \<open>S\<close> are the statements that set a transaction up (none for MySQL), \<open>U\<close> the statements a
  backend may send outside one. Inside, no statement follows a failed one: only the rollback does.
\<close>

datatype tx = Closed | Fresh | Ready | Failed

inductive tx_step :: "string set \<Rightarrow> string set \<Rightarrow> tx \<Rightarrow> request \<times> response \<Rightarrow> tx \<Rightarrow> bool" for S U where
  begin_ready: "S = {} \<Longrightarrow> tx_step S U Closed (Begin, Inr r) Ready"
| begin_fresh: "S \<noteq> {} \<Longrightarrow> tx_step S U Closed (Begin, Inr r) Fresh"
| begin_failed: "tx_step S U Closed (Begin, Inl e) Closed"
| configure: "sql \<in> S \<Longrightarrow> tx_step S U Fresh (Execute sql, Inr r) Ready"
| configure_failed: "sql \<in> S \<Longrightarrow> tx_step S U Fresh (Execute sql, Inl e) Failed"
| query: "tx_step S U Ready (Fetch mode tys sql binds, Inr r) Ready"
| query_failed: "tx_step S U Ready (Fetch mode tys sql binds, Inl e) Failed"
| commit: "tx_step S U Ready (Commit, Inr r) Closed"
| commit_failed: "tx_step S U Ready (Commit, Inl e) Failed"
| abandon: "tx_step S U Ready (Rollback, r) Closed"
| rollback: "tx_step S U Failed (Rollback, r) Closed"
| outside: "sql \<in> U \<Longrightarrow> tx_step S U Closed (Fetch mode tys sql binds, r) Closed"
| cache_get: "tx_step S U Closed (CacheGet, r) Closed"
| cache_set: "tx_step S U Closed (CacheSet v, r) Closed"

inductive_cases tx_step_cases: "tx_step S U c qr c'"

inductive_simps tx_step_simps:
  "tx_step S U c (Begin, r) c'" "tx_step S U c (Execute sql, r) c'"
  "tx_step S U c (Fetch mode tys sql binds, r) c'" "tx_step S U c (Commit, r) c'"
  "tx_step S U c (Rollback, r) c'"

inductive tx_run :: "string set \<Rightarrow> string set \<Rightarrow> history \<Rightarrow> tx \<Rightarrow> bool" for S U where
  start: "tx_run S U [] Closed"
| step: "tx_run S U h c \<Longrightarrow> tx_step S U c qr c' \<Longrightarrow> tx_run S U (h @ [qr]) c'"

lemma tx_step_fun: "tx_step S U c qr c1 \<Longrightarrow> tx_step S U c qr c2 \<Longrightarrow> c1 = c2"
  by (induction rule: tx_step.induct) (auto elim: tx_step_cases)

lemma tx_run_fun: "tx_run S U h c1 \<Longrightarrow> tx_run S U h c2 \<Longrightarrow> c1 = c2"
proof (induction arbitrary: c2 rule: tx_run.induct)
  case start
  then show ?case by (auto elim: tx_run.cases)
next
  case (step h c qr c')
  from step.prems obtain c0 where "tx_run S U h c0" "tx_step S U c0 qr c2"
    by (auto elim: tx_run.cases)
  with step show ?case by (metis tx_step_fun)
qed

text \<open>What the discipline is for: the request right after a failed statement is the rollback.\<close>

lemma tx_run_snocD: "tx_run S U (h @ [qr]) c' \<Longrightarrow> \<exists>c. tx_run S U h c \<and> tx_step S U c qr c'"
  by (auto elim: tx_run.cases)

lemma failed_then_rollback:
  assumes "tx_run S U (h @ [(q, Inl e), (q', r)]) c" "\<And>mode tys sql binds. q = Fetch mode tys sql binds \<Longrightarrow> sql \<notin> U"
    "q \<noteq> Begin" "q \<noteq> Rollback" "q \<noteq> CacheGet" "\<And>v. q \<noteq> CacheSet v"
  shows "q' = Rollback \<and> c = Closed"
proof -
  obtain c1 where 1: "tx_run S U (h @ [(q, Inl e)]) c1" "tx_step S U c1 (q', r) c"
    using tx_run_snocD [of S U "h @ [(q, Inl e)]" "(q', r)" c] assms(1) by auto
  from tx_run_snocD [OF 1(1)] obtain c0 where "tx_step S U c0 (q, Inl e) c1" by blast
  then have "c1 = Failed" by (cases rule: tx_step.cases) (use assms(2-6) in auto)
  with 1(2) show ?thesis by (auto elim: tx_step_cases)
qed

section \<open>The interface of a transactional backend\<close>

definition stmt_guard :: "(string set \<Rightarrow> string \<Rightarrow> bind list \<Rightarrow> bool) \<Rightarrow> history \<Rightarrow> request \<Rightarrow> bool" where
  "stmt_guard stmt h q \<longleftrightarrow> (case q of Fetch mode tys sql binds \<Rightarrow> stmt (texts h) sql binds | _ \<Rightarrow> True)"

lemma stmt_guard_simps [simp]:
  "stmt_guard stmt h (Fetch mode tys sql binds) \<longleftrightarrow> stmt (texts h) sql binds"
  "stmt_guard stmt h Begin" "stmt_guard stmt h Commit" "stmt_guard stmt h Rollback"
  "stmt_guard stmt h (Execute sql)" "stmt_guard stmt h CacheGet" "stmt_guard stmt h (CacheSet v)"
  by (simp_all add: stmt_guard_def)

definition tx_sane ::
  "string set \<Rightarrow> string set \<Rightarrow> (string set \<Rightarrow> string \<Rightarrow> bind list \<Rightarrow> bool) \<Rightarrow> tx \<Rightarrow> history \<Rightarrow> bool" where
  "tx_sane S U stmt c h \<longleftrightarrow> tx_run S U h c \<and> guarded (stmt_guard stmt) h"

lemma tx_sane_start [simp]: "tx_sane S U stmt Closed []"
  by (simp add: tx_sane_def tx_run.start)

lemma tx_sane_step:
  "tx_sane S U stmt c h \<Longrightarrow> tx_step S U c (q, r) c' \<Longrightarrow> stmt_guard stmt h q \<Longrightarrow>
   tx_sane S U stmt c' (h @ [(q, r)])"
  by (auto simp: tx_sane_def intro: tx_run.step)

definition begun :: "string set \<Rightarrow> tx" where
  "begun setups = (if setups = {} then Ready else Fresh)"

lemma tx_safe:
  "keeps (tx_sane S U stmt Closed) {} m N Q \<Longrightarrow> contract db \<Longrightarrow>
   safe_run (tx_sane S U stmt Closed) N Q (m db [])"
  by (rule keeps_safe) simp_all

text \<open>
  The statements a backend may send grow with the names it has been told; then queries in a ready
  transaction keep it ready or fail it, and whole transactions keep the connection closed.
\<close>

locale transactional =
  fixes setups outsides :: "string set" and stmt :: "string set \<Rightarrow> string \<Rightarrow> bind list \<Rightarrow> bool"
  assumes stmt_mono: "stmt A sql binds \<Longrightarrow> A \<subseteq> B \<Longrightarrow> stmt B sql binds"
begin

abbreviation state :: "tx \<Rightarrow> history \<Rightarrow> bool" where
  "state \<equiv> tx_sane setups outsides stmt"

abbreviation ready :: "string set \<Rightarrow> 'a io \<Rightarrow> ('a \<Rightarrow> string set) \<Rightarrow> ('a \<Rightarrow> bool) \<Rightarrow> bool" where
  "ready \<equiv> keeps_or (state Ready) (state Failed)"

lemma ready_query:
  assumes "stmt A sql binds" "state Ready h" "A \<subseteq> texts h"
  shows "state Ready (h @ [(Fetch mode tys sql binds, Inr r)])"
    "state Failed (h @ [(Fetch mode tys sql binds, Inl e)])"
  using stmt_mono [OF assms(1,3)]
  by (auto intro: tx_sane_step [OF assms(2)] tx_step.query tx_step.query_failed)

lemma ready_fetch_all:
  assumes "decodes dec tys" "stmt A sql binds"
    "\<And>rs xs. those (map dec rs) = Some xs \<Longrightarrow> N xs \<subseteq> {s. \<exists>r \<in> set rs. CText s \<in> set r} \<and> Q xs"
  shows "ready A (fetch_all dec tys sql binds) N Q"
  by (rule keeps_or_fetch_all [OF assms(1)]) (use assms(3) ready_query [OF assms(2)] in auto)

lemma ready_fetch_one:
  assumes "decodes dec tys" "stmt A sql binds"
    "\<And>r x. dec r = Some x \<Longrightarrow> N x \<subseteq> {s. CText s \<in> set r} \<and> Q x"
  shows "ready A (fetch_one dec tys sql binds) N Q"
  by (rule keeps_or_fetch_one [OF assms(1)]) (use assms(3) ready_query [OF assms(2)] in auto)

lemma ready_fetch_optional:
  assumes "decodes dec tys" "stmt A sql binds"
    "\<And>r x. dec r = Some x \<Longrightarrow> N (Some x) \<subseteq> {s. CText s \<in> set r \<or> BText s \<in> set binds} \<and> Q (Some x)"
    "N None = {}" "Q None"
  shows "ready A (fetch_optional dec tys sql binds) N Q"
  by (rule keeps_or_fetch_optional [OF assms(1)]) (use assms(3-5) ready_query [OF assms(2)] in auto)

lemma ready_fetch:
  assumes "stmt A sql binds" "\<And>rs. Q rs"
  shows "ready A (fetch f mode tys sql binds) (\<lambda>_. {}) Q"
  by (rule keeps_or_fetch) (use assms(2) ready_query [OF assms(1)] in auto)

text \<open>Rows whose content is not needed again.\<close>

lemma ready_rows:
  assumes "decodes dec tys" "stmt A sql binds" "\<And>xs. ready A (f xs) N Q"
  shows "ready A (io_then (fetch_all dec tys sql binds) f) N Q"
  by (rule keeps_then_plain [OF ready_fetch_all [OF assms(1,2)] assms(3)]) simp

lemma ready_row:
  assumes "decodes dec tys" "stmt A sql binds" "\<And>x. ready A (f x) N Q"
  shows "ready A (io_then (fetch_one dec tys sql binds) f) N Q"
  by (rule keeps_then_plain [OF ready_fetch_one [OF assms(1,2)] assms(3)]) simp

lemma keeps_in_tx:
  assumes conf: "\<And>K. triple (\<lambda>h. state (begun setups) h \<and> K \<subseteq> texts h) m
      (\<lambda>_ h. state Ready h \<and> K \<subseteq> texts h) (\<lambda>_ h. state Ready h \<or> state Failed h)"
    and body: "ready A b N Q"
  shows "keeps (state Closed) A (in_tx m b) N Q"
proof (rule keepsI)
  fix K assume K: "A \<subseteq> K"
  let ?over = "\<lambda>h. state Ready h \<or> state Failed h"
  have commit: "triple (\<lambda>h. state Ready h \<and> K \<union> N x \<subseteq> texts h \<and> Q x)
      (io_then (ask from_sqlx Commit) (\<lambda>_. io_return x))
      (\<lambda>x h. state Closed h \<and> K \<union> N x \<subseteq> texts h \<and> Q x) (\<lambda>_. ?over)" for x
    by (rule triple_then [where R = "\<lambda>_ h. state Closed h \<and> K \<union> N x \<subseteq> texts h \<and> Q x"])
      (auto intro!: triple_rules intro: tx_sane_step tx_step.commit tx_step.commit_failed)
  have inner: "triple (\<lambda>h. state (begun setups) h \<and> K \<subseteq> texts h)
      (io_then m (\<lambda>_. io_then b (\<lambda>x. io_then (ask from_sqlx Commit) (\<lambda>_. io_return x))))
      (\<lambda>x h. state Closed h \<and> K \<union> N x \<subseteq> texts h \<and> Q x) (\<lambda>_. ?over)"
    by (rule triple_then [OF conf], rule triple_then [OF keeps_orD [OF body K] commit])
  show "triple (\<lambda>h. state Closed h \<and> K \<subseteq> texts h) (in_tx m b)
      (\<lambda>x h. state Closed h \<and> K \<union> N x \<subseteq> texts h \<and> Q x) (\<lambda>_. state Closed)"
    unfolding in_tx_def
  proof (rule triple_then [where R = "\<lambda>_ h. state (begun setups) h \<and> K \<subseteq> texts h"])
    show "triple (\<lambda>h. state Closed h \<and> K \<subseteq> texts h) (ask from_sqlx Begin)
        (\<lambda>_ h. state (begun setups) h \<and> K \<subseteq> texts h) (\<lambda>_. state Closed)"
      by (rule triple_ask)
        (auto simp: begun_def intro: tx_sane_step tx_step.begin_ready tx_step.begin_fresh tx_step.begin_failed)
  next
    show "triple (\<lambda>h. state (begun setups) h \<and> K \<subseteq> texts h)
        (io_on_error (io_then m (\<lambda>_. io_then b (\<lambda>x. io_then (ask from_sqlx Commit) (\<lambda>_. io_return x)))) Rollback)
        (\<lambda>x h. state Closed h \<and> K \<union> N x \<subseteq> texts h \<and> Q x) (\<lambda>_. state Closed)"
      by (rule triple_on_error, simp, rule triple_conseq [OF inner])
        (auto intro: tx_sane_step tx_step.abandon tx_step.rollback)
  qed
qed

end

end
