(* ===== verification/Server_Catalog.thy ===== *)
theory Server_Catalog
  imports Tx_Protocol "HOL-Library.Multiset"
begin

text \<open>
  What \<open>core/src/db/postgres.rs\<close> and \<open>core/src/db/mysql.rs\<close> do alike with the catalog rows they
  read: the single-column foreign keys and primary-key columns of a table's key metadata, the
  primary-key and unique constraints, and the foreign keys with their actions. Each is written in
  both files; the model has it once, with what differs as an argument.
\<close>

section \<open>Key metadata\<close>

text \<open>Constraint name, constraint type, column, and the referenced schema, table and column.\<close>

type_synonym key_row =
  "string \<times> string \<times> string \<times> string option \<times> string option \<times> string option"
type_synonym fk_candidate = "string \<times> string option \<times> string option \<times> string option"
type_synonym fk_candidates = "(string \<times> fk_candidate list) list"

definition pk_columns_of :: "key_row list \<Rightarrow> string list" where
  "pk_columns_of rows =
     List.map_filter (\<lambda>(con, ty, column, s, t, c). if ty = ''PRIMARY KEY'' then Some column else None) rows"

definition candidate_step :: "fk_candidates \<Rightarrow> key_row \<Rightarrow> fk_candidates" where
  "candidate_step m row =
     (case row of (con, ty, column, s, t, c) \<Rightarrow>
        if ty = ''PRIMARY KEY'' then m
        else if ty = ''FOREIGN KEY'' then entry_push con (column, s, t, c) m
        else m)"

definition fk_candidates_of :: "key_row list \<Rightarrow> fk_candidates" where
  "fk_candidates_of rows = foldl candidate_step [] rows"

text \<open>One constraint: skipped unless it has one column, and its first row names what it refers to.\<close>

definition fk_of_candidate ::
  "string \<Rightarrow> (string \<rightharpoonup> column_ref) \<Rightarrow> string \<times> fk_candidate list \<Rightarrow> string \<rightharpoonup> column_ref" where
  "fk_of_candidate schema m g =
     (if length (remdups (map fst (snd g))) \<noteq> 1 then m
      else (case snd g of
              (column, Some ref_schema, Some ref_table, Some ref_column) # _ \<Rightarrow>
                m(column \<mapsto> \<lparr>r_table = ref_table, r_column = ref_column,
                             r_schema = (if ref_schema \<noteq> schema then Some ref_schema else None)\<rparr>)
            | _ \<Rightarrow> m))"

text \<open>The constraints in the order \<open>ord\<close> the hash map yields them.\<close>

definition key_metadata_of ::
  "(fk_candidates \<Rightarrow> fk_candidates) \<Rightarrow> string \<Rightarrow> key_row list \<Rightarrow> string list \<times> (string \<rightharpoonup> column_ref)" where
  "key_metadata_of ord schema rows =
     (pk_columns_of rows, foldl (fk_of_candidate schema) Map.empty (ord (fk_candidates_of rows)))"

section \<open>Constraints\<close>

text \<open>Constraint kind, constraint name and column, primary key first.\<close>

type_synonym key_part = "string \<times> string \<times> string"

definition add_pk :: "constraint_pk option \<Rightarrow> string \<Rightarrow> string \<Rightarrow> constraint_pk option" where
  "add_pk pk name column =
     Some (case pk of
             Some p \<Rightarrow> p\<lparr>pk_columns := pk_columns p @ [column]\<rparr>
           | None \<Rightarrow> \<lparr>pk_name = Some name, pk_columns = [column]\<rparr>)"

definition add_unique :: "constraint_unique list \<Rightarrow> string \<times> string \<Rightarrow> constraint_unique list" where
  "add_unique out part =
     (case part of (name, column) \<Rightarrow>
        if out \<noteq> [] \<and> un_name (last out) = name
        then butlast out @ [(last out)\<lparr>un_columns := un_columns (last out) @ [column]\<rparr>]
        else out @ [\<lparr>un_name = name, un_columns = [column]\<rparr>])"

definition key_step ::
  "string \<Rightarrow> constraint_pk option \<times> constraint_unique list \<Rightarrow> key_part \<Rightarrow>
   constraint_pk option \<times> constraint_unique list" where
  "key_step pk_kind st part =
     (case st of (pk, uniq) \<Rightarrow> case part of (kind, name, column) \<Rightarrow>
        if kind = pk_kind then (add_pk pk name column, uniq)
        else (pk, add_unique uniq (name, column)))"

definition read_keys :: "string \<Rightarrow> key_part list \<Rightarrow> constraint_pk option \<times> constraint_unique list" where
  "read_keys pk_kind parts = foldl (key_step pk_kind) (None, []) parts"

text \<open>Constraint name, referenced schema and table, column pair, and the two actions.\<close>

type_synonym fk_part = "string \<times> string \<times> string \<times> string \<times> string \<times> string \<times> string"

definition new_fk :: "(string \<Rightarrow> string) \<Rightarrow> string \<Rightarrow> fk_part \<Rightarrow> constraint_fk" where
  "new_fk action schema part =
     (case part of (name, ref_schema, ref_table, from_col, to_col, del, upd) \<Rightarrow>
        \<lparr>fk_name = name, fk_table = ref_table,
         fk_schema = (if ref_schema \<noteq> schema then Some ref_schema else None),
         fk_columns = [\<lparr>cp_from = from_col, cp_to = to_col\<rparr>],
         fk_on_delete = action del, fk_on_update = action upd\<rparr>)"

definition fk_step :: "(string \<Rightarrow> string) \<Rightarrow> string \<Rightarrow> constraint_fk list \<Rightarrow> fk_part \<Rightarrow> constraint_fk list" where
  "fk_step action schema out part =
     (case part of (name, ref_schema, ref_table, from_col, to_col, del, upd) \<Rightarrow>
        if out \<noteq> [] \<and> fk_name (last out) = name
        then butlast out @ [(last out)\<lparr>fk_columns := fk_columns (last out) @ [\<lparr>cp_from = from_col, cp_to = to_col\<rparr>]\<rparr>]
        else out @ [new_fk action schema part])"

definition read_fks :: "(string \<Rightarrow> string) \<Rightarrow> string \<Rightarrow> fk_part list \<Rightarrow> constraint_fk list" where
  "read_fks action schema parts = foldl (fk_step action schema) [] parts"

text \<open>The schema an operation runs in: the requested one, or the session's, if it is listed.\<close>

definition pick_schema :: "string list io \<Rightarrow> string option io \<Rightarrow> string option \<Rightarrow> string io" where
  "pick_schema list_schemas default_schema requested =
     io_then list_schemas (\<lambda>schemas.
     io_then (case requested of
                Some name \<Rightarrow> io_return name
              | None \<Rightarrow> io_then default_schema (\<lambda>d. io_result (ok_or no_default_schema d))) (\<lambda>resolved.
     io_result (find_allowed Schema ''schema'' schemas resolved)))"

section \<open>The sources' answers\<close>

definition non_empty :: "string \<Rightarrow> string option" where
  "non_empty comment = (if comment \<noteq> [] then Some comment else None)"

end
