(* ===== verification/Postgres.thy ===== *)
theory Postgres
  imports Server_Catalog
begin

text \<open>
  \<open>core/src/db/postgres.rs\<close>, definition by definition. Every operation runs in one transaction
  whose statements the server bounds (\<open>bounded_tx\<close>); schemas, tables and columns are looked up in
  the catalog before a name is spliced into a statement. A row type is a list of decoders, and the
  SQL texts are the source's.
\<close>

definition CATALOG_TIMEOUT_SECS_pg :: u32 where "CATALOG_TIMEOUT_SECS_pg = 5"

section \<open>Filters and the dialect\<close>

definition where_condition_pg ::
  "string list \<Rightarrow> nat \<Rightarrow> nat \<Rightarrow> condition \<Rightarrow> db_error + (string \<times> string list \<times> nat)" where
  "where_condition_pg column_names i next_param c =
     and_then (find_allowed Column ''column'' column_names (c_column c)) (\<lambda>column.
     and_then
       (if takes_value (c_op c)
        then and_then (ok_or (FilterParse (''op '' @ debug_str (as_wire (c_op c)) @ '' requires a value''))
                         (c_value c)) (\<lambda>v.
               Inr (quote_ident column @ ''::text '' @ op_sql (c_op c) @ '' $'' @ nat_str next_param,
                    [v], next_param + 1))
        else Inr (quote_ident column @ ''::text '' @ op_sql (c_op c), [], next_param)) (\<lambda>(inner, vs, next_param).
     (let wrapped = (if c_not c then ''(NOT ('' @ inner @ ''))'' else ''('' @ inner @ '')'')
      in if 0 < i
         then and_then (ok_or (FilterParse (''condition '' @ nat_str i @ '' is missing logic'')) (c_logic c)) (\<lambda>logic.
                Inr ((case logic of And \<Rightarrow> '' AND '' | Or \<Rightarrow> '' OR '') @ wrapped, vs, next_param))
         else Inr (wrapped, vs, next_param))))"

fun where_loop_pg ::
  "string list \<Rightarrow> nat \<Rightarrow> nat \<Rightarrow> condition list \<Rightarrow> db_error + (string \<times> string list)" where
  "where_loop_pg column_names i next_param [] = Inr ([], [])"
| "where_loop_pg column_names i next_param (c # cs) =
     and_then (where_condition_pg column_names i next_param c) (\<lambda>(frag, vs, next_param).
     and_then (where_loop_pg column_names (i + 1) next_param cs) (\<lambda>(clause, values).
     Inr (frag @ clause, vs @ values)))"

definition build_where_clause_pg ::
  "condition list \<Rightarrow> string list \<Rightarrow> db_error + (string \<times> string list)" where
  "build_where_clause_pg conditions column_names =
     (if conditions = [] then Inr ([], [])
      else and_then (where_loop_pg column_names 0 3 conditions) (\<lambda>(clause, values).
             Inr ('' where '' @ clause, values)))"

definition cast_text_pg :: "string \<Rightarrow> string" where
  "cast_text_pg column = column @ ''::text''"

definition JOIN_DIALECT_pg :: dialect where
  "JOIN_DIALECT_pg =
     \<lparr>d_quote = quote_ident, d_cast_text = cast_text_pg, d_numbered = True, d_ilike = Native\<rparr>"

definition column_class_pg :: "string \<Rightarrow> string \<Rightarrow> string \<Rightarrow> bool \<Rightarrow> column_class" where
  "column_class_pg data_type udt_schema udt_name is_enum =
     (if data_type \<in> {''smallint'', ''integer'', ''bigint'', ''numeric''} then Number
      else if data_type \<in> {''character varying'', ''character'', ''text''} then Text
      else if data_type = ''uuid'' then Uuid
      else if data_type = ''boolean'' then Boolean
      else if data_type = ''bytea'' then Binary
      else if data_type \<in> {''date'', ''timestamp without time zone'', ''timestamp with time zone''} then Temporal
      else if data_type \<in> {''time without time zone'', ''time with time zone''} then Time
      else if data_type \<in> {''real'', ''double precision''} then Float
      else if data_type \<in> {''json'', ''jsonb''} then Json
      else if data_type = ''ARRAY'' then Array
      else if data_type = ''USER-DEFINED'' \<and> is_enum then Enum (udt_schema @ ''.'' @ udt_name)
      else if data_type = ''USER-DEFINED'' \<and> udt_name = ''citext'' then Text
      else Other)"

section \<open>The transaction\<close>

definition set_timeout_sql :: "u32 \<Rightarrow> string" where
  "set_timeout_sql timeout_secs =
     ''set local statement_timeout = '' @ [squote] @ nat_str (unat timeout_secs) @ ''s'' @ [squote]"

definition set_timeout :: "u32 \<Rightarrow> unit io" where
  "set_timeout timeout_secs =
     io_then (ask from_sqlx (Execute (set_timeout_sql timeout_secs))) (\<lambda>_. io_return ())"

definition bounded_tx :: "u32 \<Rightarrow> 'a io \<Rightarrow> 'a io" where
  "bounded_tx timeout_secs body = in_tx (set_timeout timeout_secs) body"

section \<open>Catalog\<close>

definition LIST_SCHEMAS_SQL_pg :: "string" where
  "LIST_SCHEMAS_SQL_pg =
     ''select nspname from pg_namespace ''
   @ ''where nspname not in ('pg_catalog', 'information_schema') ''
   @ ''and nspname not like 'pg_toast%' ''
   @ ''and nspname not like 'pg_temp'' @ [backslash] @ ''_%' escape '' @ [squote] @ [backslash] @ [squote] @ '' ''
   @ ''and has_schema_privilege(nspname, 'USAGE') ''
   @ ''order by nspname''"

definition list_schemas_in_tx_pg :: "string list io" where
  "list_schemas_in_tx_pg = fetch_all (col as_text row_end) [TText] LIST_SCHEMAS_SQL_pg []"

definition default_schema_in_tx_pg :: "string option io" where
  "default_schema_in_tx_pg = fetch_one (col as_opt_text row_end) [TOptText] ''select current_schema()'' []"

definition resolve_schema_in_tx_pg :: "string option \<Rightarrow> string io" where
  "resolve_schema_in_tx_pg requested = pick_schema list_schemas_in_tx_pg default_schema_in_tx_pg requested"

definition OID_SQL :: "string" where
  "OID_SQL =
     ''select c.oid::int4 from pg_class c ''
   @ ''join pg_namespace n on n.oid = c.relnamespace ''
   @ ''where n.nspname = $1 and c.relname = $2 and c.relkind = 'r' ''
   @ ''and has_table_privilege(c.oid, 'SELECT')''"

text \<open>A table is readable when the catalog has it as an ordinary table this role may select from.\<close>

definition readable_table_oid :: "string \<Rightarrow> string \<Rightarrow> int io" where
  "readable_table_oid schema table =
     (if CHR 0x00 \<in> set table then io_throw (not_allowed Table (''table '' @ debug_str table))
      else io_then (fetch_optional (col as_int row_end) [TInt] OID_SQL [BText schema, BText table]) (\<lambda>found.
             io_result (ok_or (not_allowed Table (''table '' @ debug_str table)) found)))"

definition INDEXES_SQL :: "string" where
  "INDEXES_SQL =
     ''select ic.relname::text, am.amname::text, ix.indisunique, ''
   @ ''pg_get_expr(ix.indpred, ix.indrelid), ''
   @ ''coalesce(a.attname::text, pg_get_indexdef(ix.indexrelid, k.n::int, true)) ''
   @ ''from pg_index ix ''
   @ ''join pg_class ic on ic.oid = ix.indexrelid ''
   @ ''join pg_am am on am.oid = ic.relam ''
   @ ''join lateral unnest(ix.indkey::int2[]) with ordinality as k(attnum, n) on true ''
   @ ''left join pg_attribute a on a.attrelid = ix.indrelid and a.attnum = k.attnum ''
   @ ''where ix.indrelid = $1 and k.n <= ix.indnkeyatts ''
   @ ''order by ic.relname, k.n''"

type_synonym index_row_pg = "string \<times> string \<times> bool \<times> string option \<times> string"

definition new_index_pg :: "index_row_pg \<Rightarrow> index_info" where
  "new_index_pg row =
     (case row of (name, meth, unq, predicate, column) \<Rightarrow>
        \<lparr>ix_name = name, ix_columns = [column], ix_unique = unq, ix_method = meth, ix_predicate = predicate\<rparr>)"

definition index_step_pg :: "index_info list \<Rightarrow> index_row_pg \<Rightarrow> index_info list" where
  "index_step_pg out row =
     (case row of (name, meth, unq, predicate, column) \<Rightarrow>
        if out \<noteq> [] \<and> ix_name (last out) = name
        then butlast out @ [(last out)\<lparr>ix_columns := ix_columns (last out) @ [column]\<rparr>]
        else out @ [new_index_pg row])"

definition read_indexes_pg :: "index_row_pg list \<Rightarrow> index_info list" where
  "read_indexes_pg rows = foldl index_step_pg [] rows"

definition indexes_in_tx :: "int \<Rightarrow> index_info list io" where
  "indexes_in_tx oid =
     io_then (fetch_all (col as_text (\<lambda>n. col as_text (\<lambda>m. col as_bool (\<lambda>u. col as_opt_text (\<lambda>p.
                col as_text (\<lambda>c. row_end (n, m, u, p, c)))))))
                [TText, TText, TBool, TOptText, TText] INDEXES_SQL [BInt oid]) (\<lambda>rows.
     io_return (read_indexes_pg rows))"

definition fk_action :: "string \<Rightarrow> string" where
  "fk_action code =
     (if code = ''c'' then ''CASCADE''
      else if code = ''r'' then ''RESTRICT''
      else if code = ''n'' then ''SET NULL''
      else if code = ''d'' then ''SET DEFAULT''
      else ''NO ACTION'')"

definition KEYS_SQL :: "string" where
  "KEYS_SQL =
     ''select con.contype::text, con.conname::text, a.attname::text ''
   @ ''from pg_constraint con ''
   @ ''join lateral unnest(con.conkey) with ordinality as k(attnum, n) on true ''
   @ ''join pg_attribute a on a.attrelid = con.conrelid and a.attnum = k.attnum ''
   @ ''where con.conrelid = $1 and con.contype in ('p', 'u') ''
   @ ''order by con.contype desc, con.conname, k.n''"

definition FKS_SQL :: "string" where
  "FKS_SQL =
     ''select con.conname::text, rn.nspname::text, rc.relname::text, ''
   @ ''fa.attname::text, ta.attname::text, ''
   @ ''con.confdeltype::text, con.confupdtype::text ''
   @ ''from pg_constraint con ''
   @ ''join pg_class rc on rc.oid = con.confrelid ''
   @ ''join pg_namespace rn on rn.oid = rc.relnamespace ''
   @ ''join lateral unnest(con.conkey, con.confkey) with ordinality ''
   @ ''as k(from_attnum, to_attnum, n) on true ''
   @ ''join pg_attribute fa on fa.attrelid = con.conrelid and fa.attnum = k.from_attnum ''
   @ ''join pg_attribute ta on ta.attrelid = con.confrelid and ta.attnum = k.to_attnum ''
   @ ''where con.conrelid = $1 and con.contype = 'f' ''
   @ ''and not exists (select 1 from pg_constraint par where par.oid = con.conparentid and par.conrelid = con.conrelid) ''
   @ ''order by con.conname, k.n''"

definition CHECKS_SQL :: "string" where
  "CHECKS_SQL =
     ''select con.conname::text, pg_get_expr(con.conbin, con.conrelid) ''
   @ ''from pg_constraint con ''
   @ ''where con.conrelid = $1 and con.contype = 'c' ''
   @ ''order by con.conname''"

definition constraints_in_tx :: "string \<Rightarrow> int \<Rightarrow> constraints io" where
  "constraints_in_tx schema oid =
     io_then (fetch_all (col as_text (\<lambda>k. col as_text (\<lambda>n. col as_text (\<lambda>c. row_end (k, n, c)))))
                [TText, TText, TText] KEYS_SQL [BInt oid]) (\<lambda>key_rows.
     (let (primary_key, uniq) = read_keys ''p'' key_rows
      in io_then (fetch_all (col as_text (\<lambda>n. col as_text (\<lambda>s. col as_text (\<lambda>t. col as_text (\<lambda>f. col as_text (\<lambda>u.
                    col as_text (\<lambda>d. col as_text (\<lambda>up. row_end (n, s, t, f, u, d, up)))))))))
                    [TText, TText, TText, TText, TText, TText, TText] FKS_SQL [BInt oid]) (\<lambda>fk_rows.
         io_then (fetch_all (col as_text (\<lambda>n. col as_text (\<lambda>e. row_end (n, e)))) [TText, TText]
                    CHECKS_SQL [BInt oid]) (\<lambda>check_rows.
         io_return
           \<lparr>k_primary_key = primary_key, k_unique = uniq, k_foreign_keys = read_fks fk_action schema fk_rows,
            k_check = map (\<lambda>(name, expr). \<lparr>ck_name = name, ck_expression = Some expr\<rparr>) check_rows\<rparr>))))"

definition ALLOWED_COLUMNS_SQL_pg :: "string" where
  "ALLOWED_COLUMNS_SQL_pg =
     ''select column_name from information_schema.columns ''
   @ ''where table_schema = $1 and table_name = $2 ''
   @ ''order by ordinal_position''"

definition allowed_columns_in_tx_pg :: "string \<Rightarrow> string \<Rightarrow> string list io" where
  "allowed_columns_in_tx_pg schema table =
     fetch_all (col as_text row_end) [TText] ALLOWED_COLUMNS_SQL_pg [BText schema, BText table]"

definition KEY_METADATA_SQL_pg :: "string" where
  "KEY_METADATA_SQL_pg =
     ''select tc.constraint_name, tc.constraint_type, kcu.column_name, ''
   @ ''ccu.table_schema as ref_schema, ccu.table_name as ref_table, ''
   @ ''ccu.column_name as ref_column ''
   @ ''from information_schema.table_constraints tc ''
   @ ''join information_schema.key_column_usage kcu ''
   @ ''on kcu.constraint_name = tc.constraint_name ''
   @ ''and kcu.table_schema = tc.table_schema ''
   @ ''left join information_schema.constraint_column_usage ccu ''
   @ ''on ccu.constraint_name = tc.constraint_name ''
   @ ''and ccu.constraint_schema = tc.table_schema ''
   @ ''and tc.constraint_type = 'FOREIGN KEY' ''
   @ ''where tc.table_schema = $1 ''
   @ ''and tc.table_name = $2 ''
   @ ''and tc.constraint_type in ('PRIMARY KEY', 'FOREIGN KEY')''"

definition key_metadata_in_tx_pg ::
  "(fk_candidates \<Rightarrow> fk_candidates) \<Rightarrow> string \<Rightarrow> string \<Rightarrow> (string list \<times> (string \<rightharpoonup> column_ref)) io" where
  "key_metadata_in_tx_pg ord schema table =
     io_then (fetch_all (col as_text (\<lambda>n. col as_text (\<lambda>k. col as_text (\<lambda>c. col as_opt_text (\<lambda>rs. col as_opt_text (\<lambda>rt.
                col as_opt_text (\<lambda>rc. row_end (n, k, c, rs, rt, rc))))))))
                [TText, TText, TText, TOptText, TOptText, TOptText] KEY_METADATA_SQL_pg
                [BText schema, BText table]) (\<lambda>rows.
     io_return (key_metadata_of ord schema rows))"

definition TABLE_META_SQL_pg :: "string" where
  "TABLE_META_SQL_pg =
     ''select c.column_name, c.data_type, c.udt_schema, c.udt_name, ''
   @ ''exists (select 1 from pg_type t ''
   @ ''join pg_namespace n on n.oid = t.typnamespace ''
   @ ''where n.nspname = c.udt_schema and t.typname = c.udt_name ''
   @ ''and t.typtype = 'e'), ''
   @ ''format_type(a.atttypid, a.atttypmod), ''
   @ ''col_description(a.attrelid, a.attnum::int), ''
   @ ''(select case when n.nspname = 'pg_catalog' then co.collname ''
   @ ''else n.nspname || '.' || co.collname end ''
   @ ''from pg_collation co ''
   @ ''join pg_namespace n on n.oid = co.collnamespace ''
   @ ''where co.oid = a.attcollation and a.attcollation not in (0, 100)) ''
   @ ''from information_schema.columns c ''
   @ ''join pg_attribute a on a.attrelid = $3 and a.attname = c.column_name ''
   @ ''where c.table_schema = $1 and c.table_name = $2 ''
   @ ''order by c.ordinal_position''"

type_synonym meta_row_pg =
  "string \<times> string \<times> string \<times> string \<times> bool \<times> string \<times> string option \<times> string option"

definition col_meta_pg :: "string list \<Rightarrow> (string \<rightharpoonup> column_ref) \<Rightarrow> meta_row_pg \<Rightarrow> col_meta" where
  "col_meta_pg pks fks row =
     (case row of (name, data_type, udt_schema, udt_name, is_enum, ty, comment, collation) \<Rightarrow>
        (let (key, refs) = key_of (\<lambda>n. n \<in> set pks) fks name
         in \<lparr>cm_name = name, cm_type_name = ty,
             cm_class = column_class_pg data_type udt_schema udt_name is_enum,
             cm_collation = collation, cm_key = key, cm_references = refs, cm_comment = comment\<rparr>))"

definition table_meta_in_tx_pg ::
  "(fk_candidates \<Rightarrow> fk_candidates) \<Rightarrow> string \<Rightarrow> string \<Rightarrow> int \<Rightarrow> table_meta io" where
  "table_meta_in_tx_pg ord schema table oid =
     io_then (fetch_all (col as_text (\<lambda>n. col as_text (\<lambda>d. col as_text (\<lambda>us. col as_text (\<lambda>un. col as_bool (\<lambda>e.
                col as_text (\<lambda>t. col as_opt_text (\<lambda>c. col as_opt_text (\<lambda>l. row_end (n, d, us, un, e, t, c, l))))))))))
                [TText, TText, TText, TText, TBool, TText, TOptText, TOptText] TABLE_META_SQL_pg
                [BText schema, BText table, BInt oid]) (\<lambda>columns.
     io_then (key_metadata_in_tx_pg ord schema table) (\<lambda>(pks, fks).
     io_return \<lparr>tm_name = table, tm_columns = map (col_meta_pg pks fks) columns\<rparr>))"

section \<open>Errors and rows\<close>

definition map_select_denied_pg :: "string \<Rightarrow> string option \<Rightarrow> sqlx_error \<Rightarrow> db_error" where
  "map_select_denied_pg table sort_col e =
     (case e of
        OtherSqlx _ \<Rightarrow> Sqlx e
      | Database db _ \<Rightarrow>
          (if de_code db = Some ''42501'' then not_allowed NotReadable (''table '' @ debug_str table)
           else if de_code db = Some ''57014'' then QueryTimeout
           else if de_code db = Some ''42883''
           then (case sort_col of Some column \<Rightarrow> Unsortable column | None \<Rightarrow> Sqlx e)
           else if de_code db = Some ''22021'' \<or> de_code db = Some ''22P05''
           then FilterParse (''value invalid for this backend: '' @ de_message db)
           else Sqlx e))"

definition row_to_json_pg :: "row \<Rightarrow> string list \<Rightarrow> string \<rightharpoonup> jvalue" where
  "row_to_json_pg r names = row_json r names"

section \<open>Operations\<close>

definition list_schemas_pg :: "schema_listing io" where
  "list_schemas_pg =
     io_then (bounded_tx CATALOG_TIMEOUT_SECS_pg
       (io_then list_schemas_in_tx_pg (\<lambda>schemas.
        io_then default_schema_in_tx_pg (\<lambda>dflt. io_return (schemas, dflt))))) (\<lambda>(schemas, dflt).
     io_return (schema_listing_new schemas dflt))"

definition LIST_TABLES_SQL_pg :: "string" where
  "LIST_TABLES_SQL_pg =
     ''select c.relname::text, obj_description(c.oid, 'pg_class') ''
   @ ''from pg_class c ''
   @ ''join pg_namespace n on n.oid = c.relnamespace ''
   @ ''where n.nspname = $1 and c.relkind = 'r' ''
   @ ''and has_table_privilege(c.oid, 'SELECT') ''
   @ ''order by c.relname''"

definition list_tables_pg :: "string option \<Rightarrow> table_info list io" where
  "list_tables_pg schema =
     io_then (bounded_tx CATALOG_TIMEOUT_SECS_pg
       (io_then (resolve_schema_in_tx_pg schema) (\<lambda>schema.
        fetch_all (col as_text (\<lambda>n. col as_opt_text (\<lambda>c. row_end (n, c)))) [TText, TOptText]
          LIST_TABLES_SQL_pg [BText schema]))) (\<lambda>rows.
     io_return (map (\<lambda>(name, comment). \<lparr>ti_name = name, ti_comment = comment\<rparr>) rows))"

definition TABLE_COUNTS_SQL_pg :: "string" where
  "TABLE_COUNTS_SQL_pg =
     ''select c.relname::text, c.reltuples::bigint ''
   @ ''from pg_class c ''
   @ ''join pg_namespace n on n.oid = c.relnamespace ''
   @ ''where n.nspname = $1 and c.relkind = 'r' ''
   @ ''and has_table_privilege(c.oid, 'SELECT') ''
   @ ''order by c.relname''"

definition table_counts_pg :: "string option \<Rightarrow> (string \<times> int) list io" where
  "table_counts_pg schema =
     bounded_tx CATALOG_TIMEOUT_SECS_pg
       (io_then (resolve_schema_in_tx_pg schema) (\<lambda>schema.
        fetch_all (col as_text (\<lambda>n. col as_int (\<lambda>c. row_end (n, c)))) [TText, TInt]
          TABLE_COUNTS_SQL_pg [BText schema]))"

definition page_sql_pg ::
  "string \<Rightarrow> string \<Rightarrow> column_info list \<Rightarrow> string \<Rightarrow> string option \<Rightarrow> bool \<Rightarrow> string" where
  "page_sql_pg schema table columns clause sort_col desc =
     ''select '' @ str_join '', '' (map (\<lambda>c. quote_ident (ci_name c) @ ''::text'') columns)
       @ '' from '' @ quote_ident schema @ ''.'' @ quote_ident table @ clause
       @ order_text quote_ident table sort_col desc @ '' limit $1 offset $2''"

definition TOTAL_SQL :: "string" where
  "TOTAL_SQL =
     ''select reltuples::bigint from pg_class c ''
   @ ''join pg_namespace n on n.oid = c.relnamespace ''
   @ ''where n.nspname = $1 and c.relname = $2''"

definition query_table_pg ::
  "(fk_candidates \<Rightarrow> fk_candidates) \<Rightarrow> string option \<Rightarrow> string \<Rightarrow> query_opts \<Rightarrow> table_data io" where
  "query_table_pg ord schema table opts =
     bounded_tx (q_timeout_secs opts)
       (io_then (resolve_schema_in_tx_pg schema) (\<lambda>schema.
        io_then (readable_table_oid schema table) (\<lambda>oid.
        io_then (table_meta_in_tx_pg ord schema table oid) (\<lambda>meta.
        (let columns = map column_info_of (tm_columns meta);
             column_names = map ci_name columns
         in io_then (io_result (sort_column column_names (q_sort opts))) (\<lambda>sort_col.
            io_then (io_result (case q_filter opts of
                                  Some f \<Rightarrow> build_where_clause_pg f column_names
                                | None \<Rightarrow> Inr ([], []))) (\<lambda>(clause, filter_values).
            io_then (fetch (map_select_denied_pg table (q_sort opts)) All None
                       (page_sql_pg schema table columns clause sort_col (q_descending opts))
                       ([BInt (uint (q_limit opts)), BInt (uint (q_offset opts))] @ map BText filter_values)) (\<lambda>rows.
            io_then (fetch_one (col as_int row_end) [TInt] TOTAL_SQL [BText schema, BText table]) (\<lambda>total.
            io_return
              \<lparr>td_columns = columns, td_rows = map (\<lambda>r. row_to_json_pg r (map ci_name columns)) rows,
               td_total_approx = total\<rparr>)))))))))"

text \<open>A table of a join: what makes it unavailable to a page makes it unknown to a join.\<close>

definition lookup_pg :: "(fk_candidates \<Rightarrow> fk_candidates) \<Rightarrow> string \<Rightarrow> string \<Rightarrow> table_meta io" where
  "lookup_pg ord schema name =
     io_then (io_map_err unknown_join_table (readable_table_oid schema name)) (\<lambda>oid.
     io_map_err unknown_join_table (table_meta_in_tx_pg ord schema name oid))"

definition query_join_pg ::
  "(fk_candidates \<Rightarrow> fk_candidates) \<Rightarrow> string option \<Rightarrow> join_spec \<Rightarrow> join_opts \<Rightarrow> join_data io" where
  "query_join_pg ord schema spec opts =
     io_then (bounded_tx (jo_timeout_secs opts)
       (io_then (resolve_schema_in_tx_pg schema) (\<lambda>schema.
        (let names = table_names spec
         in io_then (load_metas (lookup_pg ord schema) Map.empty names) (\<lambda>metas.
            io_then (io_outcome (tables_of metas names)) (\<lambda>tables.
            io_then (io_outcome (make_plan spec tables opts)) (\<lambda>p.
            (let (body, values) = build_select p JOIN_DIALECT_pg (Some schema)
             in io_then (fetch (map_select_denied_pg (js_table spec) (jo_sort opts)) All None (''select '' @ body)
                           ([BInt (uint (jo_limit opts) + 1), BInt (uint (jo_offset opts))] @ map BText values)) (\<lambda>rows.
                io_return (p, rows)))))))))) (\<lambda>(p, rows).
     io_return (join_result row_to_json_pg p (jo_limit opts) rows))"

definition STATS_SQL :: "string" where
  "STATS_SQL =
     ''select t.val, t.freq ''
   @ ''from pg_stats, ''
   @ ''lateral unnest(most_common_vals::text::text[], most_common_freqs) as t(val, freq) ''
   @ ''where schemaname = $1 and tablename = $2 and attname = $3 ''
   @ ''order by t.freq desc''"

definition DATA_TYPE_SQL :: "string" where
  "DATA_TYPE_SQL =
     ''select data_type from information_schema.columns ''
   @ ''where table_schema = $1 and table_name = $2 and column_name = $3''"

definition bool_text :: "string \<Rightarrow> string" where
  "bool_text val = (if val = ''t'' then ''true'' else if val = ''f'' then ''false'' else val)"

definition common_values_pg :: "string option \<Rightarrow> string \<Rightarrow> string \<Rightarrow> (string \<times> u32) list io" where
  "common_values_pg schema table column =
     io_then (bounded_tx CATALOG_TIMEOUT_SECS_pg
       (io_then (resolve_schema_in_tx_pg schema) (\<lambda>schema.
        io_then (readable_table_oid schema table) (\<lambda>_.
        io_then (allowed_columns_in_tx_pg schema table) (\<lambda>columns.
        io_then (io_result (find_allowed Column ''column'' columns column)) (\<lambda>column.
        io_then (fetch_all (col as_text (\<lambda>v. col as_real (\<lambda>f. row_end (v, f)))) [TText, TReal]
                   STATS_SQL [BText schema, BText table, BText column]) (\<lambda>rows.
        io_then (fetch_optional (col as_text row_end) [TText] DATA_TYPE_SQL
                   [BText schema, BText table, BText column]) (\<lambda>data_type.
        io_return (rows, data_type))))))))) (\<lambda>(rows, data_type).
     io_return (if data_type = Some ''boolean'' then map (\<lambda>(val, freq). (bool_text val, freq)) rows else rows))"

definition REFERENCED_BY_SQL_pg :: "string" where
  "REFERENCED_BY_SQL_pg =
     ''select rn.nspname, rc.relname, con.conname, fa.attname, ta.attname ''
   @ ''from pg_constraint con ''
   @ ''join pg_class rc on rc.oid = con.conrelid ''
   @ ''join pg_namespace rn on rn.oid = rc.relnamespace ''
   @ ''join lateral unnest(con.conkey, con.confkey) with ordinality ''
   @ ''as k(from_attnum, to_attnum, n) on true ''
   @ ''join pg_attribute fa on fa.attrelid = con.conrelid and fa.attnum = k.from_attnum ''
   @ ''join pg_attribute ta on ta.attrelid = con.confrelid and ta.attnum = k.to_attnum ''
   @ ''where con.contype = 'f' ''
   @ ''and con.conparentid = 0 ''
   @ ''and con.confrelid = $1 ''
   @ ''and rc.relkind = 'r' ''
   @ ''and has_table_privilege(con.conrelid, 'SELECT') ''
   @ ''order by rn.nspname, rc.relname, con.conname, k.n''"

definition referrer_pg :: "string \<Rightarrow> string \<times> string \<times> string \<times> string \<times> string \<Rightarrow> referenced_by" where
  "referrer_pg schema row =
     (case row of (ref_schema, ref_table, con, from_col, to_col) \<Rightarrow>
        \<lparr>rb_table = ref_table, rb_schema = (if ref_schema \<noteq> schema then Some ref_schema else None),
         rb_constraint = con, rb_columns = [\<lparr>cp_from = from_col, cp_to = to_col\<rparr>]\<rparr>)"

definition referenced_by_pg :: "string option \<Rightarrow> string \<Rightarrow> referenced_by list io" where
  "referenced_by_pg schema table =
     io_then (bounded_tx CATALOG_TIMEOUT_SECS_pg
       (io_then (resolve_schema_in_tx_pg schema) (\<lambda>schema.
        io_then (readable_table_oid schema table) (\<lambda>target_oid.
        io_then (fetch_all (col as_text (\<lambda>s. col as_text (\<lambda>t. col as_text (\<lambda>c. col as_text (\<lambda>f. col as_text (\<lambda>u.
                   row_end (s, t, c, f, u))))))) [TText, TText, TText, TText, TText]
                   REFERENCED_BY_SQL_pg [BInt target_oid]) (\<lambda>rows.
        io_return (schema, rows)))))) (\<lambda>(schema, rows).
     io_return (group_referenced_by (map (referrer_pg schema) rows)))"

definition structure_pg :: "string option \<Rightarrow> string \<Rightarrow> structure_info io" where
  "structure_pg schema table =
     bounded_tx CATALOG_TIMEOUT_SECS_pg
       (io_then (resolve_schema_in_tx_pg schema) (\<lambda>schema.
        io_then (readable_table_oid schema table) (\<lambda>table_oid.
        io_then (indexes_in_tx table_oid) (\<lambda>indexes.
        io_then (constraints_in_tx schema table_oid) (\<lambda>cons.
        io_return \<lparr>st_indexes = indexes, st_constraints = cons\<rparr>)))))"

end
