(* ===== verification/Mysql.thy ===== *)
theory Mysql
  imports Server_Catalog
begin

text \<open>
  \<open>core/src/db/mysql.rs\<close>, definition by definition. Every operation first knows which fork it talks
  to (\<open>variant\<close>, detected once and cached), because each statement carries its own timeout in the
  fork's syntax (\<open>timed_select\<close>), and runs in one transaction, pinned to one connection.
\<close>

definition CATALOG_TIMEOUT_SECS_my :: u32 where "CATALOG_TIMEOUT_SECS_my = 5"

section \<open>Text\<close>

definition timed_select :: "variant \<Rightarrow> u32 \<Rightarrow> string \<Rightarrow> string" where
  "timed_select variant timeout_secs body =
     (case variant of
        MySql \<Rightarrow> ''select /*+ MAX_EXECUTION_TIME('' @ nat_str (unat timeout_secs * 1000) @ '') */ '' @ body
      | MariaDb \<Rightarrow>
          ''set statement max_statement_time='' @ nat_str (unat timeout_secs) @ '' for select '' @ body)"

definition quote_ident_mysql :: "string \<Rightarrow> string" where
  "quote_ident_mysql ident = [backtick] @ replace_char backtick [backtick, backtick] ident @ [backtick]"

definition where_condition_my ::
  "string list \<Rightarrow> nat \<Rightarrow> condition \<Rightarrow> db_error + (string \<times> string list)" where
  "where_condition_my column_names i c =
     and_then (find_allowed Column ''column'' column_names (c_column c)) (\<lambda>column.
     (let cast = ''CAST('' @ quote_ident_mysql column @ '' AS CHAR)'';
          needed = ok_or (FilterParse (''op '' @ debug_str (as_wire (c_op c)) @ '' requires a value'')) (c_value c)
      in and_then
           (if c_op c = Ilike
            then and_then needed (\<lambda>v. Inr (''LOWER('' @ cast @ '') LIKE LOWER(?)'', [v]))
            else if takes_value (c_op c)
            then and_then needed (\<lambda>v. Inr (cast @ '' '' @ op_sql (c_op c) @ '' ?'', [v]))
            else Inr (cast @ '' '' @ op_sql (c_op c), [])) (\<lambda>(inner, vs).
         (let wrapped = (if c_not c then ''(NOT ('' @ inner @ ''))'' else ''('' @ inner @ '')'')
          in if 0 < i
             then and_then (ok_or (FilterParse (''condition '' @ nat_str i @ '' is missing logic'')) (c_logic c)) (\<lambda>logic.
                    Inr ((case logic of And \<Rightarrow> '' AND '' | Or \<Rightarrow> '' OR '') @ wrapped, vs))
             else Inr (wrapped, vs)))))"

fun where_loop_my ::
  "string list \<Rightarrow> nat \<Rightarrow> condition list \<Rightarrow> db_error + (string \<times> string list)" where
  "where_loop_my column_names i [] = Inr ([], [])"
| "where_loop_my column_names i (c # cs) =
     and_then (where_condition_my column_names i c) (\<lambda>(frag, vs).
     and_then (where_loop_my column_names (i + 1) cs) (\<lambda>(clause, values).
     Inr (frag @ clause, vs @ values)))"

definition build_where_clause_my ::
  "condition list \<Rightarrow> string list \<Rightarrow> db_error + (string \<times> string list)" where
  "build_where_clause_my conditions column_names =
     (if conditions = [] then Inr ([], [])
      else and_then (where_loop_my column_names 0 conditions) (\<lambda>(clause, values).
             Inr ('' where '' @ clause, values)))"

definition cast_text_my :: "string \<Rightarrow> string" where
  "cast_text_my column = ''CAST('' @ column @ '' AS CHAR)''"

definition JOIN_DIALECT_my :: dialect where
  "JOIN_DIALECT_my =
     \<lparr>d_quote = quote_ident_mysql, d_cast_text = cast_text_my, d_numbered = False, d_ilike = LoweredLike\<rparr>"

definition MARIADB_JSON_COLUMNS_SQL :: "string" where
  "MARIADB_JSON_COLUMNS_SQL =
     ''constraint_name from information_schema.check_constraints ''
   @ ''where constraint_schema = ? and table_name = ? ''
   @ ''and check_clause = concat('json_valid(`', replace(constraint_name, '`', '``'), '`)')''"

definition column_class_my :: "string \<Rightarrow> string \<Rightarrow> column_class" where
  "column_class_my data_type column_type =
     (let ty = to_ascii_lowercase data_type
      in if ty \<in> {''tinyint'', ''smallint'', ''mediumint'', ''int'', ''integer'', ''bigint'', ''decimal'', ''numeric''}
         then Number
         else if ty \<in> {''char'', ''varchar'', ''tinytext'', ''text'', ''mediumtext'', ''longtext''} then Text
         else if ty \<in> {''date'', ''datetime'', ''timestamp''} then Temporal
         else if ty = ''time'' then Time
         else if ty \<in> {''binary'', ''varbinary'', ''tinyblob'', ''blob'', ''mediumblob'', ''longblob''} then Binary
         else if ty = ''uuid'' then Uuid
         else if ty = ''enum'' then Enum column_type
         else if ty \<in> {''float'', ''double''} then Float
         else if ty = ''json'' then Json
         else Other)"

section \<open>The fork and the transaction\<close>

definition detected :: "string \<Rightarrow> variant" where
  "detected version = (if contains ''mariadb'' (to_ascii_lowercase version) then MariaDb else MySql)"

definition VERSION_SQL :: string where "VERSION_SQL = ''select version()''"

definition variant_of :: "variant io" where
  "variant_of =
     io_then (ask from_sqlx CacheGet) (\<lambda>r.
       case r of
         Cached (Some v) \<Rightarrow> io_return v
       | Cached None \<Rightarrow>
           io_then (fetch_one (col as_text row_end) [TText] VERSION_SQL []) (\<lambda>version.
           io_then (ask from_sqlx (CacheSet (detected version))) (\<lambda>_. io_return (detected version)))
       | _ \<Rightarrow> io_panic)"

definition pinned_tx :: "'a io \<Rightarrow> 'a io" where
  "pinned_tx body = in_tx (io_return ()) body"

section \<open>Catalog\<close>

text \<open>The bodies of the catalog statements; \<open>timed_select\<close> wraps each.\<close>

definition LIST_SCHEMAS_SQL_my :: "string" where
  "LIST_SCHEMAS_SQL_my =
     ''schema_name from information_schema.schemata ''
   @ ''where schema_name not in ('mysql', 'information_schema', 'performance_schema', 'sys') ''
   @ ''order by cast(schema_name as binary)''"

definition ALLOWED_TABLES_SQL_my :: "string" where
  "ALLOWED_TABLES_SQL_my =
     ''table_name from information_schema.tables ''
   @ ''where table_schema = ? and table_type = 'BASE TABLE' ''
   @ ''order by cast(table_name as binary)''"

definition ALLOWED_COLUMNS_SQL_my :: "string" where
  "ALLOWED_COLUMNS_SQL_my =
     ''column_name from information_schema.columns ''
   @ ''where table_schema = ? and table_name = ? ''
   @ ''order by ordinal_position''"

definition TABLE_META_SQL_my :: "string" where
  "TABLE_META_SQL_my =
     ''column_name, data_type, column_comment, collation_name, column_type ''
   @ ''from information_schema.columns ''
   @ ''where table_schema = ? and table_name = ? ''
   @ ''order by ordinal_position''"

definition KEY_METADATA_SQL_my :: "string" where
  "KEY_METADATA_SQL_my =
     ''tc.constraint_name, tc.constraint_type, kcu.column_name, ''
   @ ''kcu.referenced_table_schema, kcu.referenced_table_name, ''
   @ ''kcu.referenced_column_name ''
   @ ''from information_schema.table_constraints tc ''
   @ ''join information_schema.key_column_usage kcu ''
   @ ''on kcu.constraint_name = tc.constraint_name ''
   @ ''and kcu.table_schema = tc.table_schema ''
   @ ''and kcu.table_name = tc.table_name ''
   @ ''where tc.table_schema = ? ''
   @ ''and tc.table_name = ? ''
   @ ''and tc.constraint_type in ('PRIMARY KEY', 'FOREIGN KEY')''"

definition LIST_TABLES_SQL_my :: "string" where
  "LIST_TABLES_SQL_my =
     ''table_name, table_comment from information_schema.tables ''
   @ ''where table_schema = ? and table_type = 'BASE TABLE' ''
   @ ''order by cast(table_name as binary)''"

definition TABLE_COUNTS_SQL_my :: "string" where
  "TABLE_COUNTS_SQL_my =
     ''table_name, cast(table_rows as signed) from information_schema.tables ''
   @ ''where table_schema = ? and table_type = 'BASE TABLE' ''
   @ ''order by cast(table_name as binary)''"

definition TOTAL_SQL_my :: "string" where
  "TOTAL_SQL_my =
     ''cast(table_rows as signed) from information_schema.tables ''
   @ ''where table_schema = ? and table_name = ?''"

definition REFERENCED_BY_SQL_my :: "string" where
  "REFERENCED_BY_SQL_my =
     ''kcu.table_name, kcu.constraint_name, kcu.column_name, ''
   @ ''kcu.referenced_column_name ''
   @ ''from information_schema.key_column_usage kcu ''
   @ ''where kcu.referenced_table_schema = ? and kcu.referenced_table_name = ? ''
   @ ''and kcu.table_schema = ? ''
   @ ''order by kcu.table_name, kcu.constraint_name, kcu.ordinal_position''"

definition index_sql_my :: "string \<Rightarrow> string" where
  "index_sql_my key_part =
     ''s.index_name, cast(s.non_unique as signed), s.index_type, '' @ key_part @ '' ''
   @ ''from information_schema.statistics s ''
   @ ''where s.table_schema = ? and s.table_name = ? ''
   @ ''order by s.index_name, s.seq_in_index''"

definition KEYS_SQL_my :: "string" where
  "KEYS_SQL_my =
     ''tc.constraint_type, tc.constraint_name, kcu.column_name ''
   @ ''from information_schema.table_constraints tc ''
   @ ''join information_schema.key_column_usage kcu ''
   @ ''on kcu.constraint_schema = tc.constraint_schema ''
   @ ''and kcu.constraint_name = tc.constraint_name ''
   @ ''and kcu.table_schema = tc.table_schema ''
   @ ''and kcu.table_name = tc.table_name ''
   @ ''where tc.table_schema = ? and tc.table_name = ? ''
   @ ''and tc.constraint_type in ('PRIMARY KEY', 'UNIQUE') ''
   @ ''order by tc.constraint_type desc, tc.constraint_name, kcu.ordinal_position''"

definition FKS_SQL_my :: "string" where
  "FKS_SQL_my =
     ''kcu.constraint_name, kcu.referenced_table_schema, kcu.referenced_table_name, ''
   @ ''kcu.column_name, kcu.referenced_column_name, rc.delete_rule, rc.update_rule ''
   @ ''from information_schema.key_column_usage kcu ''
   @ ''join information_schema.referential_constraints rc ''
   @ ''on rc.constraint_schema = kcu.constraint_schema ''
   @ ''and rc.constraint_name = kcu.constraint_name ''
   @ ''and rc.table_name = kcu.table_name ''
   @ ''where kcu.table_schema = ? and kcu.table_name = ? ''
   @ ''and kcu.referenced_table_name is not null ''
   @ ''order by kcu.constraint_name, kcu.ordinal_position''"

definition HAS_CHECKS_SQL :: "string" where
  "HAS_CHECKS_SQL =
     ''count(*) from information_schema.tables ''
   @ ''where table_schema = 'information_schema' and table_name = 'CHECK_CONSTRAINTS'' @ [squote]"

definition checks_sql_my :: "string \<Rightarrow> string" where
  "checks_sql_my cc_table =
     ''tc.constraint_name, cc.check_clause ''
   @ ''from information_schema.table_constraints tc ''
   @ ''join information_schema.check_constraints cc ''
   @ ''on cc.constraint_schema = tc.constraint_schema ''
   @ ''and cc.constraint_name = tc.constraint_name '' @ cc_table
   @ ''where tc.table_schema = ? and tc.table_name = ? ''
   @ ''and tc.constraint_type = 'CHECK' ''
   @ ''order by tc.constraint_name''"

definition timed :: "variant \<Rightarrow> u32 \<Rightarrow> (row \<Rightarrow> 'a option) \<Rightarrow> ctype list \<Rightarrow> string \<Rightarrow> bind list \<Rightarrow> 'a list io" where
  "timed variant timeout_secs dec tys body binds =
     fetch_all dec tys (timed_select variant timeout_secs body) binds"

definition list_schemas_in_tx_my :: "variant \<Rightarrow> u32 \<Rightarrow> string list io" where
  "list_schemas_in_tx_my variant timeout_secs =
     timed variant timeout_secs (col as_text row_end) [TText] LIST_SCHEMAS_SQL_my []"

definition default_schema_in_tx_my :: "variant \<Rightarrow> u32 \<Rightarrow> string option io" where
  "default_schema_in_tx_my variant timeout_secs =
     fetch_one (col as_opt_text row_end) [TOptText] (timed_select variant timeout_secs ''database()'') []"

definition resolve_schema_in_tx_my :: "variant \<Rightarrow> string option \<Rightarrow> u32 \<Rightarrow> string io" where
  "resolve_schema_in_tx_my variant requested timeout_secs =
     pick_schema (list_schemas_in_tx_my variant timeout_secs) (default_schema_in_tx_my variant timeout_secs) requested"

definition allowed_tables_in_tx :: "variant \<Rightarrow> string \<Rightarrow> u32 \<Rightarrow> string list io" where
  "allowed_tables_in_tx variant schema timeout_secs =
     timed variant timeout_secs (col as_text row_end) [TText] ALLOWED_TABLES_SQL_my [BText schema]"

definition allowed_columns_in_tx_my :: "variant \<Rightarrow> string \<Rightarrow> string \<Rightarrow> u32 \<Rightarrow> string list io" where
  "allowed_columns_in_tx_my variant schema table timeout_secs =
     timed variant timeout_secs (col as_text row_end) [TText] ALLOWED_COLUMNS_SQL_my [BText schema, BText table]"

definition mariadb_json_columns_in_tx :: "variant \<Rightarrow> string \<Rightarrow> string \<Rightarrow> u32 \<Rightarrow> string list io" where
  "mariadb_json_columns_in_tx variant schema table timeout_secs =
     (if variant \<noteq> MariaDb then io_return []
      else timed variant timeout_secs (col as_text row_end) [TText] MARIADB_JSON_COLUMNS_SQL
             [BText schema, BText table])"

definition key_metadata_in_tx_my ::
  "(fk_candidates \<Rightarrow> fk_candidates) \<Rightarrow> variant \<Rightarrow> string \<Rightarrow> string \<Rightarrow> u32 \<Rightarrow>
   (string list \<times> (string \<rightharpoonup> column_ref)) io" where
  "key_metadata_in_tx_my ord variant schema table timeout_secs =
     io_then (timed variant timeout_secs
                (col as_text (\<lambda>n. col as_text (\<lambda>k. col as_text (\<lambda>c. col as_opt_text (\<lambda>rs. col as_opt_text (\<lambda>rt.
                   col as_opt_text (\<lambda>rc. row_end (n, k, c, rs, rt, rc))))))))
                [TText, TText, TText, TOptText, TOptText, TOptText] KEY_METADATA_SQL_my
                [BText schema, BText table]) (\<lambda>rows.
     io_return (key_metadata_of ord schema rows))"

type_synonym meta_row_my = "string \<times> string \<times> string \<times> string option \<times> string"

definition col_meta_my ::
  "string list \<Rightarrow> (string \<rightharpoonup> column_ref) \<Rightarrow> string list \<Rightarrow> meta_row_my \<Rightarrow> col_meta" where
  "col_meta_my pks fks json_columns row =
     (case row of (name, data_type, comment, collation, column_type) \<Rightarrow>
        (let (ty, cls) = (if name \<in> set json_columns then (''json'', Json)
                          else (column_type, column_class_my data_type column_type));
             (key, refs) = key_of (\<lambda>n. n \<in> set pks) fks name
         in \<lparr>cm_name = name, cm_type_name = ty, cm_class = cls, cm_collation = collation,
             cm_key = key, cm_references = refs, cm_comment = non_empty comment\<rparr>))"

definition table_meta_in_tx_my ::
  "(fk_candidates \<Rightarrow> fk_candidates) \<Rightarrow> variant \<Rightarrow> string \<Rightarrow> string \<Rightarrow> u32 \<Rightarrow> table_meta io" where
  "table_meta_in_tx_my ord variant schema table timeout_secs =
     io_then (timed variant timeout_secs
                (col as_text (\<lambda>n. col as_text (\<lambda>d. col as_text (\<lambda>c. col as_opt_text (\<lambda>l. col as_text (\<lambda>t.
                   row_end (n, d, c, l, t))))))) [TText, TText, TText, TOptText, TText] TABLE_META_SQL_my
                [BText schema, BText table]) (\<lambda>columns.
     io_then (key_metadata_in_tx_my ord variant schema table timeout_secs) (\<lambda>(pks, fks).
     io_then (mariadb_json_columns_in_tx variant schema table timeout_secs) (\<lambda>json_columns.
     io_return \<lparr>tm_name = table, tm_columns = map (col_meta_my pks fks json_columns) columns\<rparr>)))"

definition map_select_denied_my :: "string \<Rightarrow> sqlx_error \<Rightarrow> db_error" where
  "map_select_denied_my table e =
     (case e of
        Database db _ \<Rightarrow>
          (if de_driver db = DrvMySql \<and> de_number db = 1142
           then not_allowed NotReadable (''table '' @ debug_str table)
           else from_sqlx e)
      | OtherSqlx _ \<Rightarrow> from_sqlx e)"

definition row_to_json_my :: "row \<Rightarrow> string list \<Rightarrow> string \<rightharpoonup> jvalue" where
  "row_to_json_my r names = row_json r names"

section \<open>Operations\<close>

definition list_schemas_my :: "schema_listing io" where
  "list_schemas_my =
     io_then variant_of (\<lambda>v.
     io_then (pinned_tx
       (io_then (list_schemas_in_tx_my v CATALOG_TIMEOUT_SECS_my) (\<lambda>schemas.
        io_then (default_schema_in_tx_my v CATALOG_TIMEOUT_SECS_my) (\<lambda>dflt. io_return (schemas, dflt))))) (\<lambda>(schemas, dflt).
     io_return (schema_listing_new schemas dflt)))"

definition list_tables_my :: "string option \<Rightarrow> table_info list io" where
  "list_tables_my schema =
     io_then variant_of (\<lambda>v.
     io_then (pinned_tx
       (io_then (resolve_schema_in_tx_my v schema CATALOG_TIMEOUT_SECS_my) (\<lambda>schema.
        timed v CATALOG_TIMEOUT_SECS_my (col as_text (\<lambda>n. col as_text (\<lambda>c. row_end (n, c)))) [TText, TText]
          LIST_TABLES_SQL_my [BText schema]))) (\<lambda>rows.
     io_return (map (\<lambda>(name, comment). \<lparr>ti_name = name, ti_comment = non_empty comment\<rparr>) rows)))"

definition table_counts_my :: "string option \<Rightarrow> (string \<times> int) list io" where
  "table_counts_my schema =
     io_then variant_of (\<lambda>v.
     io_then (pinned_tx
       (io_then (resolve_schema_in_tx_my v schema CATALOG_TIMEOUT_SECS_my) (\<lambda>schema.
        timed v CATALOG_TIMEOUT_SECS_my (col as_text (\<lambda>n. col as_opt_int (\<lambda>c. row_end (n, c)))) [TText, TOptInt]
          TABLE_COUNTS_SQL_my [BText schema]))) (\<lambda>rows.
     io_return (map (\<lambda>(name, count). (name, case count of Some n \<Rightarrow> n | None \<Rightarrow> -1)) rows)))"

definition page_body_my ::
  "string \<Rightarrow> string \<Rightarrow> column_info list \<Rightarrow> string \<Rightarrow> string option \<Rightarrow> bool \<Rightarrow> string" where
  "page_body_my schema table columns clause sort_col desc =
     str_join '', '' (map (\<lambda>c. ''CAST('' @ quote_ident_mysql (ci_name c) @ '' AS CHAR)'') columns)
       @ '' from '' @ quote_ident_mysql schema @ ''.'' @ quote_ident_mysql table @ clause
       @ order_text quote_ident_mysql table sort_col desc @ '' limit ? offset ?''"

definition query_table_my ::
  "(fk_candidates \<Rightarrow> fk_candidates) \<Rightarrow> string option \<Rightarrow> string \<Rightarrow> query_opts \<Rightarrow> table_data io" where
  "query_table_my ord schema table opts =
     io_then variant_of (\<lambda>v.
     pinned_tx
       (let timeout = q_timeout_secs opts in
        io_then (resolve_schema_in_tx_my v schema timeout) (\<lambda>schema.
        io_then (allowed_tables_in_tx v schema timeout) (\<lambda>tables.
        io_then (io_result (find_allowed Table ''table'' tables table)) (\<lambda>table.
        io_then (table_meta_in_tx_my ord v schema table timeout) (\<lambda>meta.
        (let columns = map column_info_of (tm_columns meta);
             column_names = map ci_name columns
         in io_then (io_result (sort_column column_names (q_sort opts))) (\<lambda>sort_col.
            io_then (io_result (case q_filter opts of
                                  Some f \<Rightarrow> build_where_clause_my f column_names
                                | None \<Rightarrow> Inr ([], []))) (\<lambda>(clause, filter_values).
            io_then (fetch (map_select_denied_my table) All None
                       (timed_select v timeout (page_body_my schema table columns clause sort_col (q_descending opts)))
                       (map BText filter_values @ [BInt (uint (q_limit opts)), BInt (uint (q_offset opts))])) (\<lambda>rows.
            io_then (fetch_one (col as_opt_int row_end) [TOptInt] (timed_select v timeout TOTAL_SQL_my)
                       [BText schema, BText table]) (\<lambda>total.
            io_return
              \<lparr>td_columns = columns, td_rows = map (\<lambda>r. row_to_json_my r (map ci_name columns)) rows,
               td_total_approx = (case total of Some n \<Rightarrow> n | None \<Rightarrow> -1)\<rparr>)))))))))))"

definition lookup_my ::
  "(fk_candidates \<Rightarrow> fk_candidates) \<Rightarrow> variant \<Rightarrow> string \<Rightarrow> u32 \<Rightarrow> string list \<Rightarrow> string \<Rightarrow> table_meta io" where
  "lookup_my ord v schema timeout allowed name =
     (if name \<notin> set allowed then io_throw (BadJoin (''unknown table '' @ debug_str name))
      else table_meta_in_tx_my ord v schema name timeout)"

definition query_join_my ::
  "(fk_candidates \<Rightarrow> fk_candidates) \<Rightarrow> string option \<Rightarrow> join_spec \<Rightarrow> join_opts \<Rightarrow> join_data io" where
  "query_join_my ord schema spec opts =
     io_then variant_of (\<lambda>v.
     io_then (pinned_tx
       (let timeout = jo_timeout_secs opts in
        io_then (resolve_schema_in_tx_my v schema timeout) (\<lambda>schema.
        io_then (allowed_tables_in_tx v schema timeout) (\<lambda>allowed.
        (let names = table_names spec
         in io_then (load_metas (lookup_my ord v schema timeout allowed) Map.empty names) (\<lambda>metas.
            io_then (io_outcome (tables_of metas names)) (\<lambda>tables.
            io_then (io_outcome (make_plan spec tables opts)) (\<lambda>p.
            (let (body, values) = build_select p JOIN_DIALECT_my (Some schema)
             in io_then (fetch (map_select_denied_my (js_table spec)) All None (timed_select v timeout body)
                           (map BText values @ [BInt (uint (jo_limit opts) + 1), BInt (uint (jo_offset opts))])) (\<lambda>rows.
                io_return (p, rows))))))))))) (\<lambda>(p, rows).
     io_return (join_result row_to_json_my p (jo_limit opts) rows)))"

definition common_values_my :: "string option \<Rightarrow> string \<Rightarrow> string \<Rightarrow> (string \<times> u32) list io" where
  "common_values_my schema table column =
     io_then variant_of (\<lambda>v.
     io_then (pinned_tx
       (io_then (resolve_schema_in_tx_my v schema CATALOG_TIMEOUT_SECS_my) (\<lambda>schema.
        io_then (allowed_tables_in_tx v schema CATALOG_TIMEOUT_SECS_my) (\<lambda>tables.
        io_then (io_result (find_allowed Table ''table'' tables table)) (\<lambda>table.
        io_then (allowed_columns_in_tx_my v schema table CATALOG_TIMEOUT_SECS_my) (\<lambda>columns.
        io_result (find_allowed Column ''column'' columns column))))))) (\<lambda>_.
     io_return []))"

definition referrer_my :: "string \<times> string \<times> string \<times> string \<Rightarrow> referenced_by" where
  "referrer_my row =
     (case row of (ref_table, con, from_col, to_col) \<Rightarrow>
        \<lparr>rb_table = ref_table, rb_schema = None, rb_constraint = con,
         rb_columns = [\<lparr>cp_from = from_col, cp_to = to_col\<rparr>]\<rparr>)"

definition referenced_by_my :: "string option \<Rightarrow> string \<Rightarrow> referenced_by list io" where
  "referenced_by_my schema table =
     io_then variant_of (\<lambda>v.
     io_then (pinned_tx
       (io_then (resolve_schema_in_tx_my v schema CATALOG_TIMEOUT_SECS_my) (\<lambda>schema.
        io_then (allowed_tables_in_tx v schema CATALOG_TIMEOUT_SECS_my) (\<lambda>allowed.
        io_then (io_result (gate_table allowed table)) (\<lambda>_.
        io_then (timed v CATALOG_TIMEOUT_SECS_my
                   (col as_text (\<lambda>t. col as_text (\<lambda>c. col as_text (\<lambda>f. col as_text (\<lambda>u. row_end (t, c, f, u))))))
                   [TText, TText, TText, TText] REFERENCED_BY_SQL_my [BText schema, BText table, BText schema]) (\<lambda>rows.
        io_return (allowed, rows))))))) (\<lambda>(allowed, rows).
     io_return (group_referenced_by (map referrer_my (filter (\<lambda>row. fst row \<in> set allowed) rows)))))"

section \<open>structure\<close>

definition key_part_of :: "variant \<Rightarrow> string" where
  "key_part_of v = (case v of MySql \<Rightarrow> ''coalesce(s.column_name, s.expression)'' | MariaDb \<Rightarrow> ''s.column_name'')"

definition cc_table_of :: "variant \<Rightarrow> string" where
  "cc_table_of v = (case v of MariaDb \<Rightarrow> ''and cc.table_name = tc.table_name '' | MySql \<Rightarrow> [])"

type_synonym index_row_my = "string \<times> int \<times> string \<times> string option"

definition index_column_my :: "string option \<Rightarrow> string" where
  "index_column_my column = (case column of Some c \<Rightarrow> c | None \<Rightarrow> [])"

definition new_index_my :: "index_row_my \<Rightarrow> index_info" where
  "new_index_my row =
     (case row of (name, non_unique, meth, column) \<Rightarrow>
        \<lparr>ix_name = name, ix_columns = [index_column_my column], ix_unique = (non_unique = 0),
         ix_method = to_ascii_lowercase meth, ix_predicate = None\<rparr>)"

definition index_step_my :: "index_info list \<Rightarrow> index_row_my \<Rightarrow> index_info list" where
  "index_step_my out row =
     (case row of (name, non_unique, meth, column) \<Rightarrow>
        if out \<noteq> [] \<and> ix_name (last out) = name
        then butlast out @ [(last out)\<lparr>ix_columns := ix_columns (last out) @ [index_column_my column]\<rparr>]
        else out @ [new_index_my row])"

definition read_indexes_my :: "index_row_my list \<Rightarrow> index_info list" where
  "read_indexes_my rows = foldl index_step_my [] rows"

definition structure_my :: "string option \<Rightarrow> string \<Rightarrow> structure_info io" where
  "structure_my schema table =
     io_then variant_of (\<lambda>v.
     pinned_tx
       (io_then (resolve_schema_in_tx_my v schema CATALOG_TIMEOUT_SECS_my) (\<lambda>schema.
        io_then (allowed_tables_in_tx v schema CATALOG_TIMEOUT_SECS_my) (\<lambda>allowed.
        io_then (io_result (gate_table allowed table)) (\<lambda>_.
        io_then (timed v CATALOG_TIMEOUT_SECS_my
                   (col as_text (\<lambda>n. col as_int (\<lambda>u. col as_text (\<lambda>m. col as_opt_text (\<lambda>c. row_end (n, u, m, c))))))
                   [TText, TInt, TText, TOptText] (index_sql_my (key_part_of v)) [BText schema, BText table]) (\<lambda>index_rows.
        io_then (timed v CATALOG_TIMEOUT_SECS_my
                   (col as_text (\<lambda>k. col as_text (\<lambda>n. col as_text (\<lambda>c. row_end (k, n, c)))))
                   [TText, TText, TText] KEYS_SQL_my [BText schema, BText table]) (\<lambda>key_rows.
        (let (primary_key, uniq) = read_keys ''PRIMARY KEY'' key_rows
         in io_then (timed v CATALOG_TIMEOUT_SECS_my
                      (col as_text (\<lambda>n. col as_text (\<lambda>s. col as_text (\<lambda>t. col as_text (\<lambda>f. col as_text (\<lambda>u.
                         col as_text (\<lambda>d. col as_text (\<lambda>up. row_end (n, s, t, f, u, d, up)))))))))
                      [TText, TText, TText, TText, TText, TText, TText] FKS_SQL_my [BText schema, BText table]) (\<lambda>fk_rows.
            io_then (fetch_one (col as_int row_end) [TInt]
                       (timed_select v CATALOG_TIMEOUT_SECS_my HAS_CHECKS_SQL) []) (\<lambda>has_checks.
            io_then (if 0 < has_checks
                     then timed v CATALOG_TIMEOUT_SECS_my (col as_text (\<lambda>n. col as_opt_text (\<lambda>e. row_end (n, e))))
                            [TText, TOptText] (checks_sql_my (cc_table_of v)) [BText schema, BText table]
                     else io_return []) (\<lambda>check_rows.
            io_return
              \<lparr>st_indexes = read_indexes_my index_rows,
               st_constraints =
                 \<lparr>k_primary_key = primary_key, k_unique = uniq,
                  k_foreign_keys = read_fks to_ascii_uppercase schema fk_rows,
                  k_check = map (\<lambda>(name, expr). \<lparr>ck_name = name, ck_expression = expr\<rparr>) check_rows\<rparr>\<rparr>)))))))))))"

end
