(* ===== verification/Server_Correct.thy ===== *)
theory Server_Correct
  imports Postgres Mysql
begin

text \<open>
  What the two server backends read out of their catalog rows, and how they name the server's
  errors: interpretations of the grouping interface for their index, unique and foreign-key rows,
  the single-column foreign keys of the key metadata whatever order the hash map yields them in,
  and the errors of a page or join statement.
\<close>

section \<open>Groupings\<close>

definition part_name :: "fk_part \<Rightarrow> string" where
  "part_name part = fst part"

definition part_pair :: "fk_part \<Rightarrow> column_pair list" where
  "part_pair part = (case part of (n, s, t, f, u, d, up) \<Rightarrow> [\<lparr>cp_from = f, cp_to = u\<rparr>])"

interpretation fkg: run_grouping
  "\<lambda>k part. fk_name k = part_name part"
  "\<lambda>k part. k\<lparr>fk_columns := fk_columns k @ part_pair part\<rparr>"
  "new_fk action schema" fk_name part_name fk_columns part_pair
  for action schema
  by unfold_locales (auto simp: new_fk_def part_name_def part_pair_def)

lemma read_fks_runs:
  "read_fks action schema parts =
     run_merge (\<lambda>k part. fk_name k = part_name part)
       (\<lambda>k part. k\<lparr>fk_columns := fk_columns k @ part_pair part\<rparr>) (new_fk action schema) parts"
proof -
  have "fk_step action schema = push_or_merge (\<lambda>k part. fk_name k = part_name part)
       (\<lambda>k part. k\<lparr>fk_columns := fk_columns k @ part_pair part\<rparr>) (new_fk action schema)"
    by (intro ext) (auto simp: fk_step_def push_or_merge_def part_name_def part_pair_def)
  then show ?thesis by (simp add: read_fks_def run_merge_def)
qed

definition new_unique :: "string \<times> string \<Rightarrow> constraint_unique" where
  "new_unique p = \<lparr>un_name = fst p, un_columns = [snd p]\<rparr>"

interpretation uqg: run_grouping
  "\<lambda>u p. un_name u = fst p" "\<lambda>u p. u\<lparr>un_columns := un_columns u @ [snd p]\<rparr>" new_unique
  un_name fst un_columns "\<lambda>p. [snd p]"
  by unfold_locales (auto simp: new_unique_def)

lemma add_unique_push:
  "add_unique = push_or_merge (\<lambda>u p. un_name u = fst p) (\<lambda>u p. u\<lparr>un_columns := un_columns u @ [snd p]\<rparr>) new_unique"
  by (intro ext) (auto simp: add_unique_def push_or_merge_def new_unique_def)

interpretation pgi: run_grouping
  "\<lambda>i row. ix_name i = fst row" "\<lambda>i row. i\<lparr>ix_columns := ix_columns i @ [snd (snd (snd (snd row)))]\<rparr>"
  new_index_pg ix_name fst ix_columns "\<lambda>row. [snd (snd (snd (snd row)))]"
  by unfold_locales (auto simp: new_index_pg_def)

lemma read_indexes_pg_merge:
  "read_indexes_pg rows = run_merge (\<lambda>i row. ix_name i = fst row)
     (\<lambda>i row. i\<lparr>ix_columns := ix_columns i @ [snd (snd (snd (snd row)))]\<rparr>) new_index_pg rows"
proof -
  have "index_step_pg = push_or_merge (\<lambda>i row. ix_name i = fst row)
     (\<lambda>i row. i\<lparr>ix_columns := ix_columns i @ [snd (snd (snd (snd row)))]\<rparr>) new_index_pg"
    by (intro ext) (auto simp: index_step_pg_def push_or_merge_def)
  then show ?thesis by (simp add: read_indexes_pg_def run_merge_def)
qed

interpretation myi: run_grouping
  "\<lambda>i row. ix_name i = fst row"
  "\<lambda>i row. i\<lparr>ix_columns := ix_columns i @ [index_column_my (snd (snd (snd row)))]\<rparr>"
  new_index_my ix_name fst ix_columns "\<lambda>row. [index_column_my (snd (snd (snd row)))]"
  by unfold_locales (auto simp: new_index_my_def)

lemma read_indexes_my_merge:
  "read_indexes_my rows = run_merge (\<lambda>i row. ix_name i = fst row)
     (\<lambda>i row. i\<lparr>ix_columns := ix_columns i @ [index_column_my (snd (snd (snd row)))]\<rparr>) new_index_my rows"
proof -
  have "index_step_my = push_or_merge (\<lambda>i row. ix_name i = fst row)
     (\<lambda>i row. i\<lparr>ix_columns := ix_columns i @ [index_column_my (snd (snd (snd row)))]\<rparr>) new_index_my"
    by (intro ext) (auto simp: index_step_my_def push_or_merge_def)
  then show ?thesis by (simp add: read_indexes_my_def run_merge_def)
qed

lemma pairs_concat: "concat (map (\<lambda>a. map (Pair (f a)) [g a]) xs) = map (\<lambda>a. (f a, g a)) xs"
  by (induction xs) auto

text \<open>PostgreSQL and MySQL index rows are grouped by index name: reading the reported indexes
  back gives the catalog's rows in order, and neighbouring indexes have different names; a MySQL key
  part without a name is an empty column.\<close>

theorem read_indexes_servers_correct:
  "concat (map (\<lambda>i. map (Pair (ix_name i)) (ix_columns i)) (read_indexes_pg rows))
     = map (\<lambda>(name, meth, unq, predicate, column). (name, column)) rows
   \<and> map ix_name (read_indexes_pg rows) = remdups_adj (map fst rows)
   \<and> concat (map (\<lambda>i. map (Pair (ix_name i)) (ix_columns i)) (read_indexes_my rows'))
     = map (\<lambda>(name, non_unique, meth, column). (name, index_column_my column)) rows'
   \<and> map ix_name (read_indexes_my rows') = remdups_adj (map fst rows')"
  using pgi.flatten [of rows] pgi.keys [of rows] myi.flatten [of rows'] myi.keys [of rows']
  unfolding read_indexes_pg_merge read_indexes_my_merge pairs_concat
  by (simp add: split_beta)

text \<open>the foreign keys of a table, on both servers: no column pair is lost, invented or
  reordered, neighbouring entries have different constraint names, and everything else an entry
  says (table, schema when it is another one, actions) is what the code reads out of a row.\<close>

theorem read_fks_correct:
  "concat (map (\<lambda>k. map (Pair (fk_name k)) (fk_columns k)) (read_fks action schema parts))
     = map (\<lambda>(n, s, t, f, u, d, up). (n, \<lparr>cp_from = f, cp_to = u\<rparr>)) parts
   \<and> map fk_name (read_fks action schema parts) = remdups_adj (map fst parts)
   \<and> (\<lambda>k. k\<lparr>fk_columns := []\<rparr>) ` set (read_fks action schema parts)
       \<subseteq> (\<lambda>part. (new_fk action schema part)\<lparr>fk_columns := []\<rparr>) ` set parts"
proof -
  have flat: "concat (map (\<lambda>a. map (Pair (part_name a)) (part_pair a)) parts)
      = map (\<lambda>(n, s, t, f, u, d, up). (n, \<lparr>cp_from = f, cp_to = u\<rparr>)) parts"
    by (induction parts) (auto simp: part_name_def part_pair_def)
  have names: "part_name = fst" by (rule ext) (simp add: part_name_def)
  have "(\<lambda>k. k\<lparr>fk_columns := []\<rparr>) ` set (read_fks action schema parts)
      \<subseteq> (\<lambda>part. (new_fk action schema part)\<lparr>fk_columns := []\<rparr>) ` set parts"
  proof (induction parts rule: rev_induct)
    case (snoc part parts)
    have step: "(\<lambda>k. k\<lparr>fk_columns := []\<rparr>) ` set (fk_step action schema out part)
        \<subseteq> insert ((new_fk action schema part)\<lparr>fk_columns := []\<rparr>) ((\<lambda>k. k\<lparr>fk_columns := []\<rparr>) ` set out)" for out
    proof (cases out rule: rev_cases)
      case (snoc ys y)
      then show ?thesis by (cases part) (auto simp: fk_step_def split: if_splits)
    qed (cases part; simp add: fk_step_def)
    have "read_fks action schema (parts @ [part]) = fk_step action schema (read_fks action schema parts) part"
      by (simp add: read_fks_def)
    with step [of "read_fks action schema parts"] snoc.IH show ?case by auto
  qed (simp add: read_fks_def)
  with fkg.flatten [of action schema parts, unfolded flat] fkg.keys [of action schema parts]
  show ?thesis unfolding read_fks_runs names by blast
qed

lemma snd_read_keys: "snd (read_keys k parts) = foldl add_unique [] (map snd (filter (\<lambda>p. fst p \<noteq> k) parts))"
proof -
  have "snd (foldl (key_step k) st parts) = foldl add_unique (snd st) (map snd (filter (\<lambda>p. fst p \<noteq> k) parts))" for st
    by (induction parts arbitrary: st) (auto simp: key_step_def split_beta)
  then show ?thesis by (simp add: read_keys_def)
qed

lemma fst_read_keys:
  "fst (read_keys k parts) =
     (case filter (\<lambda>p. fst p = k) parts of
        [] \<Rightarrow> None
      | p # ps \<Rightarrow> Some \<lparr>pk_name = Some (fst (snd p)), pk_columns = map (snd \<circ> snd) (p # ps)\<rparr>)"
proof -
  have s: "fst (foldl (key_step k) (Some pk, uq) parts) =
      Some (pk\<lparr>pk_columns := pk_columns pk @ map (snd \<circ> snd) (filter (\<lambda>p. fst p = k) parts)\<rparr>)" for pk uq parts
    by (induction parts arbitrary: pk uq) (auto simp: key_step_def add_pk_def)
  have "fst (foldl (key_step k) (None, uq) parts) =
     (case filter (\<lambda>p. fst p = k) parts of
        [] \<Rightarrow> None
      | p # ps \<Rightarrow> Some \<lparr>pk_name = Some (fst (snd p)), pk_columns = map (snd \<circ> snd) (p # ps)\<rparr>)" for uq
    by (induction parts arbitrary: uq) (auto simp: key_step_def add_pk_def s)
  then show ?thesis by (simp add: read_keys_def)
qed

text \<open>The primary key and the unique constraints of a table, on both servers: the primary key
  is the name of the first primary-key row and the columns of all of them, in order, absent when
  there is none; the other rows, in order, are exactly the reported unique constraints and their
  columns.\<close>

theorem read_keys_correct:
  "fst (read_keys k parts) =
     (case filter (\<lambda>p. fst p = k) parts of
        [] \<Rightarrow> None
      | p # ps \<Rightarrow> Some \<lparr>pk_name = Some (fst (snd p)), pk_columns = map (snd \<circ> snd) (p # ps)\<rparr>)
   \<and> concat (map (\<lambda>u. map (Pair (un_name u)) (un_columns u)) (snd (read_keys k parts)))
       = map snd (filter (\<lambda>p. fst p \<noteq> k) parts)
   \<and> map un_name (snd (read_keys k parts)) = remdups_adj (map (fst \<circ> snd) (filter (\<lambda>p. fst p \<noteq> k) parts))"
  using uqg.flatten [of "map snd (filter (\<lambda>p. fst p \<noteq> k) parts)"]
    uqg.keys [of "map snd (filter (\<lambda>p. fst p \<noteq> k) parts)"]
  unfolding pairs_concat by (simp add: fst_read_keys snd_read_keys add_unique_push run_merge_def)

section \<open>Key metadata\<close>

text \<open>The rows of one foreign-key constraint, and the reference they stand for if it has one column.\<close>

definition candidates :: "key_row list \<Rightarrow> string \<Rightarrow> fk_candidate list" where
  "candidates rows con =
     map (snd \<circ> snd) (filter (\<lambda>row. fst row = con \<and> fst (snd row) = ''FOREIGN KEY'') rows)"

definition ref_of :: "string \<Rightarrow> fk_candidate list \<Rightarrow> (string \<times> column_ref) option" where
  "ref_of schema ms =
     (case ms of
        (column, Some s, Some t, Some c) # rest \<Rightarrow>
          if fst ` set rest \<subseteq> {column}
          then Some (column, \<lparr>r_table = t, r_column = c, r_schema = (if s \<noteq> schema then Some s else None)\<rparr>)
          else None
      | _ \<Rightarrow> None)"

lemma one_distinct: "length (remdups (x # xs)) = 1 \<longleftrightarrow> set xs \<subseteq> {x}"
proof -
  have "length (remdups (x # xs)) = card (insert x (set xs))"
    unfolding length_remdups_card_conv by (simp only: list.set)
  moreover have "card (insert x (set xs)) = 1 \<longleftrightarrow> insert x (set xs) = {x}"
    unfolding card_1_singleton_iff One_nat_def by blast
  ultimately show ?thesis by (simp only:) blast
qed

lemma fk_of_candidate_ref:
  "fk_of_candidate schema m (con, ms) = (case ref_of schema ms of None \<Rightarrow> m | Some (c, r) \<Rightarrow> m(c \<mapsto> r))"
proof (cases ms)
  case (Cons x xs)
  have "length (remdups (map fst (x # xs))) = 1 \<longleftrightarrow> fst ` set xs \<subseteq> {fst x}"
    using one_distinct [of "fst x" "map fst xs"] by simp
  with Cons show ?thesis
    by (cases x) (auto simp: fk_of_candidate_def ref_of_def split: option.splits)
qed (simp add: fk_of_candidate_def ref_of_def)

lemma candidate_fold_sound:
  "foldl (fk_of_candidate schema) m gs c = Some r \<Longrightarrow>
   m c = Some r \<or> (\<exists>g \<in> set gs. ref_of schema (snd g) = Some (c, r))"
proof (induction gs arbitrary: m)
  case (Cons g gs)
  then show ?case
    by (cases g) (fastforce simp: fk_of_candidate_ref split: option.splits if_splits)
qed simp

lemma candidate_fold_mono: "m c \<noteq> None \<Longrightarrow> foldl (fk_of_candidate schema) m gs c \<noteq> None"
proof (induction gs arbitrary: m)
  case (Cons g gs)
  have "fk_of_candidate schema m g c \<noteq> None"
    using Cons.prems by (cases g) (auto simp: fk_of_candidate_ref split: option.splits)
  then show ?case by (simp only: foldl.simps) (rule Cons.IH)
qed simp

lemma candidate_fold_complete:
  "g \<in> set gs \<Longrightarrow> ref_of schema (snd g) = Some (c, r) \<Longrightarrow> foldl (fk_of_candidate schema) m gs c \<noteq> None"
proof (induction gs arbitrary: m)
  case (Cons g' gs)
  show ?case
  proof (cases "g = g'")
    case True
    then have "fk_of_candidate schema m g' c \<noteq> None"
      using Cons.prems(2) by (cases g') (simp add: fk_of_candidate_ref)
    then show ?thesis by (simp only: foldl.simps) (rule candidate_fold_mono)
  qed (use Cons in simp)
qed simp

lemma candidates_snoc:
  "candidates (rows @ [row]) con =
     (if fst row = con \<and> fst (snd row) = ''FOREIGN KEY'' then candidates rows con @ [snd (snd row)]
      else candidates rows con)"
  by (simp add: candidates_def)

lemma fk_candidates_snoc: "fk_candidates_of (rows @ [row]) = candidate_step (fk_candidates_of rows) row"
  by (simp add: fk_candidates_of_def)

lemma map_of_candidates:
  "map_of (fk_candidates_of rows) con = (if candidates rows con = [] then None else Some (candidates rows con))"
proof (induction rows rule: rev_induct)
  case (snoc row rows)
  then show ?case
    by (cases row) (auto simp: fk_candidates_snoc candidates_snoc candidate_step_def map_of_entry_push)
qed (simp add: fk_candidates_of_def candidates_def)

lemma distinct_candidates: "distinct (map fst (fk_candidates_of rows))"
proof (induction rows rule: rev_induct)
  case (snoc row rows)
  then show ?case
    by (cases row) (simp add: fk_candidates_snoc candidate_step_def distinct_entry_push)
qed (simp add: fk_candidates_of_def)

lemma candidates_mem: "(con, ms) \<in> set (fk_candidates_of rows) \<longleftrightarrow> ms \<noteq> [] \<and> ms = candidates rows con"
  using map_of_candidates [of rows con] map_of_eq_Some_iff [OF distinct_candidates, of rows con ms]
  by (auto split: if_splits)

text \<open>C33: the key metadata both servers report: the primary-key columns are those of the
  primary-key rows, and, when no column carries two single-column foreign keys, a column's
  reference is that of its single-column foreign key, whatever order the hash map yields the
  constraints in; a constraint over several columns, or without a named target, contributes
  nothing; the schema is left out exactly when it is the table's own.\<close>

theorem key_metadata_correct:
  assumes ord: "mset (ord (fk_candidates_of rows)) = mset (fk_candidates_of rows)"
    and one: "\<And>con con' c r r'. ref_of schema (candidates rows con) = Some (c, r) \<Longrightarrow>
      ref_of schema (candidates rows con') = Some (c, r') \<Longrightarrow> con = con'"
  shows "set (fst (key_metadata_of ord schema rows))
      = {column. \<exists>con s t c. (con, ''PRIMARY KEY'', column, s, t, c) \<in> set rows}
    \<and> (snd (key_metadata_of ord schema rows) c = Some r \<longleftrightarrow>
        (\<exists>con. ref_of schema (candidates rows con) = Some (c, r)))"
proof
  show "set (fst (key_metadata_of ord schema rows))
      = {column. \<exists>con s t c. (con, ''PRIMARY KEY'', column, s, t, c) \<in> set rows}"
    by (force simp: key_metadata_of_def pk_columns_of_def List.map_filter_def split: if_splits)
  have g: "set (ord (fk_candidates_of rows)) = set (fk_candidates_of rows)"
    using ord by (metis set_mset_mset)
  have ne: "ref_of schema [] = None" by (simp add: ref_of_def)
  let ?m = "foldl (fk_of_candidate schema) Map.empty (ord (fk_candidates_of rows))"
  have sound: "\<exists>con. ref_of schema (candidates rows con) = Some (c, r)" if "?m c = Some r" for r
    using candidate_fold_sound [OF that] by (auto simp: g candidates_mem)
  show "snd (key_metadata_of ord schema rows) c = Some r \<longleftrightarrow>
      (\<exists>con. ref_of schema (candidates rows con) = Some (c, r))"
  proof
    assume "snd (key_metadata_of ord schema rows) c = Some r"
    then show "\<exists>con. ref_of schema (candidates rows con) = Some (c, r)"
      by (intro sound) (simp add: key_metadata_of_def)
  next
    assume "\<exists>con. ref_of schema (candidates rows con) = Some (c, r)"
    then obtain con where con: "ref_of schema (candidates rows con) = Some (c, r)" by blast
    then have "candidates rows con \<noteq> []" using ne by auto
    then have "(con, candidates rows con) \<in> set (ord (fk_candidates_of rows))"
      by (simp add: g candidates_mem)
    from candidate_fold_complete [OF this, of schema c r Map.empty] con
    obtain r' where r': "?m c = Some r'" by (metis not_None_eq snd_conv)
    from sound [OF r'] obtain con' where con': "ref_of schema (candidates rows con') = Some (c, r')" by blast
    from one [OF con con'] con con' have "r' = r" by simp
    with r' show "snd (key_metadata_of ord schema rows) c = Some r" by (simp add: key_metadata_of_def)
  qed
qed

definition sample_keys :: "key_row list" where
  "sample_keys =
     [(''posts_pkey'', ''PRIMARY KEY'', ''id'', None, None, None),
      (''posts_user'', ''FOREIGN KEY'', ''owner'', Some ''public'', Some ''users'', Some ''id'')]"

lemma key_metadata_correct_witness:
  "snd (key_metadata_of rev ''public'' sample_keys) ''owner''
     = Some \<lparr>r_table = ''users'', r_column = ''id'', r_schema = None\<rparr>"
proof -
  have c: "candidates sample_keys con =
      (if con = ''posts_user'' then [(''owner'', Some ''public'', Some ''users'', Some ''id'')] else [])" for con
    by (auto simp: candidates_def sample_keys_def)
  have one: "con = con'" if "ref_of ''public'' (candidates sample_keys con) = Some (d, r)"
    "ref_of ''public'' (candidates sample_keys con') = Some (d, r')" for con con' d r r'
    using that by (simp add: c ref_of_def split: if_splits)
  have "mset (rev (fk_candidates_of sample_keys)) = mset (fk_candidates_of sample_keys)" by simp
  from key_metadata_correct [where ord = rev and rows = sample_keys and schema = "''public''", OF this,
      where c = "''owner''" and r = "\<lparr>r_table = ''users'', r_column = ''id'', r_schema = None\<rparr>"] one
  have "snd (key_metadata_of rev ''public'' sample_keys) ''owner''
      = Some \<lparr>r_table = ''users'', r_column = ''id'', r_schema = None\<rparr> \<longleftrightarrow>
    (\<exists>con. ref_of ''public'' (candidates sample_keys con)
      = Some (''owner'', \<lparr>r_table = ''users'', r_column = ''id'', r_schema = None\<rparr>))"
    by blast
  then show ?thesis by (simp add: c ref_of_def) 
qed

section \<open>Errors\<close>

text \<open>C35: the error of a page or join statement: a PostgreSQL error is a timeout exactly when the
  generic conversion says so, is the client's (400) exactly for a denied select, an unorderable
  sort column or a value the encoding rejects, and is a server error (500) otherwise; MySQL's
  conversion differs from the generic one on error 1142 only.\<close>

theorem select_errors_classified:
  "(map_select_denied_pg table sort_col (Database (db\<lparr>de_driver := DrvPostgres\<rparr>) txt) = QueryTimeout
      \<longleftrightarrow> from_sqlx (Database (db\<lparr>de_driver := DrvPostgres\<rparr>) txt) = QueryTimeout)
   \<and> fst (status_code (map_select_denied_pg table sort_col (Database db txt))) =
       (if de_code db \<in> {Some ''42501'', Some ''22021'', Some ''22P05''}
          \<or> (de_code db = Some ''42883'' \<and> sort_col \<noteq> None) then 400 else 500)
   \<and> map_select_denied_pg table sort_col (OtherSqlx txt) = from_sqlx (OtherSqlx txt)
   \<and> map_select_denied_my table e =
       (if (\<exists>d t. e = Database d t \<and> de_driver d = DrvMySql \<and> de_number d = 1142)
        then not_allowed NotReadable (''table '' @ debug_str table) else from_sqlx e)"
proof (intro conjI)
  show "fst (status_code (map_select_denied_pg table sort_col (Database db txt))) =
       (if de_code db \<in> {Some ''42501'', Some ''22021'', Some ''22P05''}
          \<or> (de_code db = Some ''42883'' \<and> sort_col \<noteq> None) then 400 else 500)"
    by (auto simp: map_select_denied_pg_def not_allowed_def split: option.split)
qed (auto simp: map_select_denied_pg_def map_select_denied_my_def from_sqlx_def is_timeout_def
    not_allowed_def split: option.split sqlx_error.split)

text \<open>A PostgreSQL table name with a NUL byte is refused before anything is sent: the lookup
  reports an unknown table, and a join over it an invalid join, with the history as it was.\<close>

theorem nul_table_refused:
  "readable_table_oid schema (a @ CHR 0x00 # b) db h
     = (Done (Inl (not_allowed Table (''table '' @ debug_str (a @ CHR 0x00 # b)))), h)
   \<and> lookup_pg ord schema (a @ CHR 0x00 # b) db h
     = (Done (Inl (BadJoin (''unknown table '' @ debug_str (a @ CHR 0x00 # b)))), h)"
  by (simp add: readable_table_oid_def lookup_pg_def io_throw_def io_then_def io_map_err_def not_allowed_def)

end
