(* ===== verification/Sqlite.thy ===== *)
theory Sqlite
  imports Backend
begin

text \<open>
  \<open>core/src/db/sqlite.rs\<close>, definition by definition. SQLite has one schema, no statistics and no
  server: every operation runs its queries on a pooled connection whose progress handler is
  armed with a deadline (\<open>bounded\<close>). A row type \<open>(i64, String)\<close> is a list of decoders; the SQL
  texts are the source's, with the quoted table name spliced in where the source splices it.
  \<open>Instant\<close> is a nanosecond count.
\<close>

definition CATALOG_TIMEOUT_SECS :: u32 where "CATALOG_TIMEOUT_SECS = 5"
definition ONLY_SCHEMA :: string where "ONLY_SCHEMA = ''main''"

definition check_schema :: "string option \<Rightarrow> db_error + unit" where
  "check_schema schema =
     (case schema of
        None \<Rightarrow> Inr ()
      | Some other \<Rightarrow>
          if other = ONLY_SCHEMA then Inr ()
          else Inl (not_allowed Schema (''schema '' @ debug_str other)))"

section \<open>Bounded queries\<close>

definition arm :: "u32 \<Rightarrow> reply io" where
  "arm timeout_secs =
     io_then ask_clock (\<lambda>now.
     io_then (ask from_sqlx LockHandle) (\<lambda>_.
     ask from_sqlx (SetProgress 1000 (Some (now + uint timeout_secs * 1000000000)))))"

definition disarm :: "unit io" where
  "disarm =
     io_then (ask from_sqlx LockHandle) (\<lambda>_.
     io_then (ask from_sqlx (SetProgress 0 None)) (\<lambda>_. io_return ()))"

text \<open>The connection goes back to the pool when it leaves scope, on every path.\<close>

definition bounded :: "u32 \<Rightarrow> 'a io \<Rightarrow> 'a io" where
  "bounded timeout_secs query =
     io_then (ask from_sqlx Acquire) (\<lambda>_.
       io_finally (io_then (arm timeout_secs) (\<lambda>_. io_keep query disarm)) Release)"

section \<open>Catalog\<close>

definition ALLOWED_TABLES_SQL :: "string" where
  "ALLOWED_TABLES_SQL =
     ''select name from sqlite_master ''
   @ ''where type = 'table' and name not like 'sqlite'' @ [backslash] @ ''_%' escape '' @ [squote] @ [backslash] @ [squote] @ '' ''
   @ ''order by name''"

definition allowed_tables_on :: "string list io" where
  "allowed_tables_on = fetch_all (col as_text row_end) [TText] ALLOWED_TABLES_SQL []"

definition allowed_tables :: "string list io" where
  "allowed_tables = bounded CATALOG_TIMEOUT_SECS allowed_tables_on"

definition allowed_columns_sql :: "string \<Rightarrow> string" where
  "allowed_columns_sql table =
     ''select cid, name from pragma_table_info('' @ table @ '') order by cid''"

definition allowed_columns :: "string \<Rightarrow> string list io" where
  "allowed_columns table =
     bounded CATALOG_TIMEOUT_SECS
       (io_then
          (fetch_all (col as_int (\<lambda>cid. col as_text (\<lambda>name. row_end (cid, name)))) [TInt, TText]
             (allowed_columns_sql (quote_ident table)) [])
          (\<lambda>rows. io_return (map snd rows)))"

definition key_columns_sql :: "string \<Rightarrow> string" where
  "key_columns_sql table =
     ''select cid, name, pk from pragma_table_info('' @ table @ '') order by cid''"

definition key_fks_sql :: "string \<Rightarrow> string" where
  "key_fks_sql table =
     ''select fkl.id, fkl.seq, fkl.\"table\", fkl.\"from\", ''
   @ ''coalesce(fkl.\"to\", ppk.name, 'rowid') ''
   @ ''from pragma_foreign_key_list('' @ table @ '') fkl ''
   @ ''left join pragma_table_info(fkl.\"table\") ppk on ppk.pk = fkl.seq + 1''"

type_synonym fk_row = "int \<times> int \<times> string \<times> string \<times> string"
type_synonym fk_groups = "(int \<times> (string \<times> string \<times> string) list) list"

definition fk_groups_of :: "fk_row list \<Rightarrow> fk_groups" where
  "fk_groups_of fks =
     foldl (\<lambda>m (id, seq, ref_table, from_col, to_col). entry_push id (from_col, ref_table, to_col) m) [] fks"

text \<open>The loop over \<open>by_constraint.into_values()\<close>: a constraint of several columns is skipped.\<close>

definition single_fk ::
  "(string \<rightharpoonup> column_ref) \<Rightarrow> int \<times> (string \<times> string \<times> string) list \<Rightarrow> string \<rightharpoonup> column_ref" where
  "single_fk m g =
     (case snd g of
        [(from_col, ref_table, to_col)] \<Rightarrow>
          m(from_col \<mapsto> \<lparr>r_table = ref_table, r_column = to_col, r_schema = None\<rparr>)
      | _ \<Rightarrow> m)"

definition fk_column_map :: "(fk_groups \<Rightarrow> fk_groups) \<Rightarrow> fk_row list \<Rightarrow> string \<rightharpoonup> column_ref" where
  "fk_column_map ord fks = foldl single_fk Map.empty (ord (fk_groups_of fks))"

definition key_metadata_on ::
  "(fk_groups \<Rightarrow> fk_groups) \<Rightarrow> string \<Rightarrow> (string list \<times> (string \<rightharpoonup> column_ref)) io" where
  "key_metadata_on ord table =
     io_then
       (fetch_all (col as_int (\<lambda>cid. col as_text (\<lambda>name. col as_int (\<lambda>pk. row_end (cid, name, pk)))))
          [TInt, TText, TInt] (key_columns_sql (quote_ident table)) []) (\<lambda>cols.
     (let pks = map (\<lambda>(cid, name, pk). name) (filter (\<lambda>(cid, name, pk). 0 < pk) cols)
      in io_then
           (fetch_all
              (col as_int (\<lambda>id. col as_int (\<lambda>seq. col as_text (\<lambda>ref_table. col as_text (\<lambda>from_col.
                 col as_text (\<lambda>to_col. row_end (id, seq, ref_table, from_col, to_col)))))))
              [TInt, TInt, TText, TText, TText] (key_fks_sql (quote_ident table)) []) (\<lambda>fks.
         io_return (pks, fk_column_map ord fks))))"

section \<open>Partial index predicates\<close>

definition is_ascii_whitespace :: "char \<Rightarrow> bool" where
  "is_ascii_whitespace c \<longleftrightarrow> (let n = (of_char c :: nat) in n = 32 \<or> n = 9 \<or> n = 10 \<or> n = 12 \<or> n = 13)"

definition is_where :: "string \<Rightarrow> bool" where
  "is_where rest \<longleftrightarrow>
     5 \<le> length rest \<and> eq_ignore_ascii_case (take 5 rest) ''where''
     \<and> drop 5 rest \<noteq> [] \<and> (starts_ws (drop 5 rest) \<or> hd (drop 5 rest) = CHR ''('')"

fun predicate_scan :: "char option \<Rightarrow> int \<Rightarrow> string \<Rightarrow> string option" where
  "predicate_scan quote depth [] = None"
| "predicate_scan (Some q) depth (b # s) = predicate_scan (if b = q then None else Some q) depth s"
| "predicate_scan None depth (b # s) =
     (if b = squote \<or> b = dquote \<or> b = backtick then predicate_scan (Some b) depth s
      else if b = CHR ''['' then predicate_scan (Some (CHR '']'')) depth s
      else if b = CHR ''('' then predicate_scan None (depth + 1) s
      else if b = CHR '')'' then predicate_scan None (depth - 1) s
      else if depth = 0 \<and> is_ascii_whitespace b
      then (if is_where s then Some (trim (drop 5 s)) else predicate_scan None depth s)
      else predicate_scan None depth s)"

definition partial_index_predicate :: "string \<Rightarrow> string option" where
  "partial_index_predicate sql = predicate_scan None 0 sql"

section \<open>Column classes\<close>

definition column_class_sqlite :: "string \<Rightarrow> column_class" where
  "column_class_sqlite declared =
     (let upper = to_ascii_uppercase (trim declared)
      in if upper = [] then Untyped
         else
           (let base = trim (hd (split_on (CHR ''('') upper))
            in if base = ''UUID'' then Uuid
               else if base = ''BOOLEAN'' \<or> base = ''BOOL'' then Boolean
               else if base = ''DATE'' \<or> base = ''DATETIME'' then Temporal
               else if base = ''TIME'' then Time
               else if base = ''JSON'' \<or> base = ''JSONB'' then Json
               else if prefix ''TIMESTAMP'' base then Temporal
               else if contains ''INT'' upper then Number
               else if contains ''CHAR'' upper \<or> contains ''CLOB'' upper \<or> contains ''TEXT'' upper then Text
               else if contains ''BLOB'' upper then Binary
               else if contains ''REAL'' upper \<or> contains ''FLOA'' upper \<or> contains ''DOUB'' upper then Float
               else Number))"

definition cast_text_sqlite :: "string \<Rightarrow> string" where
  "cast_text_sqlite column = ''CAST('' @ column @ '' AS TEXT)''"

definition JOIN_DIALECT_sqlite :: dialect where
  "JOIN_DIALECT_sqlite =
     \<lparr>d_quote = quote_ident, d_cast_text = cast_text_sqlite, d_numbered = False, d_ilike = LikeStyle\<rparr>"

definition table_meta_sql :: "string \<Rightarrow> string" where
  "table_meta_sql quoted =
     ''select cid, name, type from pragma_table_info('' @ quoted @ '') order by cid''"

definition col_meta_sqlite ::
  "string list \<Rightarrow> (string \<rightharpoonup> column_ref) \<Rightarrow> int \<times> string \<times> string \<Rightarrow> col_meta" where
  "col_meta_sqlite pks fks c =
     (case c of (cid, name, declared) \<Rightarrow>
        (let (key, references) = key_of (\<lambda>n. n \<in> set pks) fks name
         in \<lparr>cm_name = name, cm_type_name = (if declared = [] then ''unknown'' else declared),
             cm_class = column_class_sqlite declared, cm_collation = None, cm_key = key,
             cm_references = references, cm_comment = None\<rparr>))"

definition table_meta_on :: "(fk_groups \<Rightarrow> fk_groups) \<Rightarrow> string \<Rightarrow> table_meta io" where
  "table_meta_on ord table =
     io_then
       (fetch_all (col as_int (\<lambda>cid. col as_text (\<lambda>name. col as_text (\<lambda>ty. row_end (cid, name, ty)))))
          [TInt, TText, TText] (table_meta_sql (quote_ident table)) []) (\<lambda>columns.
     io_then (key_metadata_on ord table) (\<lambda>(pks, fks).
     io_return \<lparr>tm_name = table, tm_columns = map (col_meta_sqlite pks fks) columns\<rparr>))"

definition row_to_json_sqlite :: "row \<Rightarrow> string list \<Rightarrow> string \<rightharpoonup> jvalue" where
  "row_to_json_sqlite r names = row_json r names"

section \<open>Filters\<close>

definition where_condition_sqlite ::
  "string list \<Rightarrow> nat \<Rightarrow> condition \<Rightarrow> db_error + (string \<times> string list)" where
  "where_condition_sqlite column_names i c =
     and_then (find_allowed Column ''column'' column_names (c_column c)) (\<lambda>column.
       (let keyword = (if c_op c = Ilike then ''LIKE'' else op_sql (c_op c));
            quoted_column = quote_ident column
        in and_then
             (if takes_value (c_op c)
              then and_then
                     (ok_or (FilterParse (''op '' @ debug_str (as_wire (c_op c)) @ '' requires a value''))
                        (c_value c))
                     (\<lambda>v. Inr (''CAST('' @ quoted_column @ '' AS TEXT) '' @ keyword @ '' ?'', [v]))
              else Inr (''CAST('' @ quoted_column @ '' AS TEXT) '' @ keyword, []))
             (\<lambda>(inner, vs).
                (let wrapped = (if c_not c then ''(NOT ('' @ inner @ ''))'' else ''('' @ inner @ '')'')
                 in if 0 < i
                    then and_then
                           (ok_or (FilterParse (''condition '' @ nat_str i @ '' is missing logic'')) (c_logic c))
                           (\<lambda>logic. Inr ((case logic of And \<Rightarrow> '' AND '' | Or \<Rightarrow> '' OR '') @ wrapped, vs))
                    else Inr (wrapped, vs)))))"

fun where_loop_sqlite ::
  "string list \<Rightarrow> nat \<Rightarrow> condition list \<Rightarrow> db_error + (string \<times> string list)" where
  "where_loop_sqlite column_names i [] = Inr ([], [])"
| "where_loop_sqlite column_names i (c # cs) =
     and_then (where_condition_sqlite column_names i c) (\<lambda>(frag, vs).
     and_then (where_loop_sqlite column_names (i + 1) cs) (\<lambda>(clause, values).
     Inr (frag @ clause, vs @ values)))"

definition build_where_clause_sqlite ::
  "condition list \<Rightarrow> string list \<Rightarrow> db_error + (string \<times> string list)" where
  "build_where_clause_sqlite conditions column_names =
     (if conditions = [] then Inr ([], [])
      else and_then (where_loop_sqlite column_names 0 conditions) (\<lambda>(clause, values).
             Inr ('' where '' @ clause, values)))"

section \<open>Operations\<close>

definition list_schemas_sqlite :: "schema_listing io" where
  "list_schemas_sqlite = io_return (schema_listing_new [ONLY_SCHEMA] (Some ONLY_SCHEMA))"

definition list_tables_sqlite :: "string option \<Rightarrow> table_info list io" where
  "list_tables_sqlite schema =
     io_then (io_result (check_schema schema)) (\<lambda>_.
     io_then allowed_tables (\<lambda>names.
     io_return (map (\<lambda>name. \<lparr>ti_name = name, ti_comment = None\<rparr>) names)))"

definition table_counts_sqlite :: "string option \<Rightarrow> (string \<times> int) list io" where
  "table_counts_sqlite schema =
     io_then (io_result (check_schema schema)) (\<lambda>_.
     io_then allowed_tables (\<lambda>tables.
     io_return (map (\<lambda>table. (table, -1)) tables)))"

definition select_list_sqlite :: "column_info list \<Rightarrow> string" where
  "select_list_sqlite columns =
     str_join '', '' (map (\<lambda>c. ''CAST('' @ quote_ident (ci_name c) @ '' AS TEXT)'') columns)"

definition page_sql_sqlite ::
  "string \<Rightarrow> column_info list \<Rightarrow> string \<Rightarrow> string option \<Rightarrow> bool \<Rightarrow> string" where
  "page_sql_sqlite table columns clause sort_col desc =
     ''select '' @ select_list_sqlite columns @ '' from '' @ quote_ident table @ clause
       @ order_text quote_ident table sort_col desc @ '' limit ? offset ?''"

definition query_table_sqlite ::
  "(fk_groups \<Rightarrow> fk_groups) \<Rightarrow> string option \<Rightarrow> string \<Rightarrow> query_opts \<Rightarrow> table_data io" where
  "query_table_sqlite ord schema table opts =
     io_then (io_result (check_schema schema)) (\<lambda>_.
     io_then allowed_tables (\<lambda>tables.
     io_then (io_result (find_allowed Table ''table'' tables table)) (\<lambda>table.
     io_then (bounded CATALOG_TIMEOUT_SECS (table_meta_on ord table)) (\<lambda>meta.
     (let columns = map column_info_of (tm_columns meta);
          column_names = map ci_name columns
      in io_then (io_result (sort_column column_names (q_sort opts))) (\<lambda>sort_col.
         io_then (io_result (case q_filter opts of
                               Some f \<Rightarrow> build_where_clause_sqlite f column_names
                             | None \<Rightarrow> Inr ([], []))) (\<lambda>(clause, filter_values).
         io_then (bounded (q_timeout_secs opts)
             (io_then (fetch from_sqlx All None
                         (page_sql_sqlite table columns clause sort_col (q_descending opts))
                         (map BText filter_values @ [BInt (uint (q_limit opts)), BInt (uint (q_offset opts))]))
                (\<lambda>rs. io_return (map (\<lambda>r. row_to_json_sqlite r (map ci_name columns)) rs)))) (\<lambda>rows.
         io_return \<lparr>td_columns = columns, td_rows = rows, td_total_approx = -1\<rparr>))))))))"

text \<open>A table of a join: none outside the allow-list.\<close>

definition lookup_sqlite ::
  "(fk_groups \<Rightarrow> fk_groups) \<Rightarrow> string list \<Rightarrow> string \<Rightarrow> table_meta io" where
  "lookup_sqlite ord allowed name =
     (if name \<notin> set allowed then io_throw (BadJoin (''unknown table '' @ debug_str name))
      else table_meta_on ord name)"

definition query_join_sqlite ::
  "(fk_groups \<Rightarrow> fk_groups) \<Rightarrow> string option \<Rightarrow> join_spec \<Rightarrow> join_opts \<Rightarrow> join_data io" where
  "query_join_sqlite ord schema spec opts =
     io_then (io_result (check_schema schema)) (\<lambda>_.
     (let names = table_names spec
      in bounded (jo_timeout_secs opts)
        (io_then allowed_tables_on (\<lambda>allowed.
         io_then (load_metas (lookup_sqlite ord allowed) Map.empty names) (\<lambda>metas.
         io_then (io_outcome (tables_of metas names)) (\<lambda>tables.
         io_then (io_outcome (make_plan spec tables opts)) (\<lambda>p.
         (let (body, values) = build_select p JOIN_DIALECT_sqlite None
          in io_then (fetch from_sqlx All None (''select '' @ body)
                        (map BText values @ [BInt (uint (jo_limit opts) + 1), BInt (uint (jo_offset opts))]))
               (\<lambda>rs. io_return (join_result row_to_json_sqlite p (jo_limit opts) rs))))))))))"

definition common_values_sqlite :: "string option \<Rightarrow> string \<Rightarrow> string \<Rightarrow> (string \<times> u32) list io" where
  "common_values_sqlite schema table column =
     io_then (io_result (check_schema schema)) (\<lambda>_.
     io_then allowed_tables (\<lambda>tables.
     io_then (io_result (find_allowed Table ''table'' tables table)) (\<lambda>table.
     io_then (allowed_columns table) (\<lambda>columns.
     io_then (io_result (find_allowed Column ''column'' columns column)) (\<lambda>_.
     io_return [])))))"

definition REFERENCED_BY_SQL :: "string" where
  "REFERENCED_BY_SQL =
     ''select m.name, fkl.id, fkl.\"from\", ''
   @ ''coalesce(fkl.\"to\", ppk.name, 'rowid') ''
   @ ''from sqlite_master m ''
   @ ''join pragma_foreign_key_list(m.name) fkl ''
   @ ''left join pragma_table_info(?) ppk on ppk.pk = fkl.seq + 1 ''
   @ ''where m.type = 'table' ''
   @ ''and m.name not like 'sqlite'' @ [backslash] @ ''_%' escape '' @ [squote] @ [backslash] @ [squote] @ '' ''
   @ ''and fkl.\"table\" = ? collate nocase ''
   @ ''order by m.name, fkl.id, fkl.seq''"

definition referrer_sqlite :: "string \<times> int \<times> string \<times> string \<Rightarrow> referenced_by" where
  "referrer_sqlite row =
     (case row of (ref_table, fk_id, from_col, to_col) \<Rightarrow>
        \<lparr>rb_table = ref_table, rb_schema = None, rb_constraint = ''fk_'' @ int_str fk_id,
         rb_columns = [\<lparr>cp_from = from_col, cp_to = to_col\<rparr>]\<rparr>)"

definition referenced_by_sqlite :: "string option \<Rightarrow> string \<Rightarrow> referenced_by list io" where
  "referenced_by_sqlite schema table =
     io_then (io_result (check_schema schema)) (\<lambda>_.
     io_then allowed_tables (\<lambda>allowed.
     io_then (io_result (gate_table allowed table)) (\<lambda>_.
     io_then (bounded CATALOG_TIMEOUT_SECS
       (fetch_all (col as_text (\<lambda>t. col as_int (\<lambda>id. col as_text (\<lambda>f. col as_text (\<lambda>u. row_end (t, id, f, u))))))
          [TText, TInt, TText, TText] REFERENCED_BY_SQL [BText table, BText table])) (\<lambda>rows.
     io_return (group_referenced_by (map referrer_sqlite rows))))))"

section \<open>structure\<close>

definition index_sql :: "string \<Rightarrow> string" where
  "index_sql quoted =
     ''select il.name, il.\"unique\", il.origin, il.partial, ix.name ''
   @ ''from pragma_index_list('' @ quoted @ '') il ''
   @ ''join pragma_index_xinfo(il.name) ix ''
   @ ''where ix.key = 1 ''
   @ ''order by il.name, ix.seqno''"

definition INDEX_TEXT_SQL :: "string" where
  "INDEX_TEXT_SQL =
     ''select name, sql from sqlite_master where type = 'index' and tbl_name = ?''"

definition pk_sql :: "string \<Rightarrow> string" where
  "pk_sql quoted =
     ''select name from pragma_table_info('' @ quoted @ '') where pk > 0 order by pk''"

definition structure_fks_sql :: "string \<Rightarrow> string" where
  "structure_fks_sql quoted =
     ''select fkl.id, fkl.\"table\", fkl.\"from\", ''
   @ ''coalesce(fkl.\"to\", ppk.name, 'rowid'), ''
   @ ''fkl.on_delete, fkl.on_update ''
   @ ''from pragma_foreign_key_list('' @ quoted @ '') fkl ''
   @ ''left join pragma_table_info(fkl.\"table\") ppk on ppk.pk = fkl.seq + 1 ''
   @ ''order by fkl.id, fkl.seq''"

type_synonym index_row = "string \<times> int \<times> string \<times> int \<times> string option"

text \<open>\<open>filter_map\<close> then \<open>collect\<close> into a \<open>HashMap\<close>: the last row of a name wins.\<close>

definition sql_of_rows :: "(string \<times> string option) list \<Rightarrow> string \<rightharpoonup> string" where
  "sql_of_rows rows =
     foldl (\<lambda>m (name, sql). case sql of Some s \<Rightarrow> m(name \<mapsto> s) | None \<Rightarrow> m) Map.empty rows"

definition index_column :: "string option \<Rightarrow> string" where
  "index_column column = (case column of Some c \<Rightarrow> c | None \<Rightarrow> ''<expression>'')"

definition new_index :: "(string \<rightharpoonup> string) \<Rightarrow> index_row \<Rightarrow> index_info" where
  "new_index sql_of row =
     (case row of (name, unq, origin, partial, column) \<Rightarrow>
        \<lparr>ix_name = name, ix_columns = [index_column column], ix_unique = (unq \<noteq> 0), ix_method = ''btree'',
         ix_predicate = (if partial \<noteq> 0 then Option.bind (sql_of name) partial_index_predicate else None)\<rparr>)"

definition index_step ::
  "(string \<rightharpoonup> string) \<Rightarrow> index_info list \<times> string list \<Rightarrow> index_row \<Rightarrow> index_info list \<times> string list" where
  "index_step sql_of st row =
     (case st of (indexes, unique_origin) \<Rightarrow> case row of (name, unq, origin, partial, column) \<Rightarrow>
        if indexes \<noteq> [] \<and> ix_name (last indexes) = name
        then (butlast indexes @ [(last indexes)\<lparr>ix_columns := ix_columns (last indexes) @ [index_column column]\<rparr>],
              unique_origin)
        else (indexes @ [new_index sql_of row],
              if origin = ''u'' then unique_origin @ [name] else unique_origin))"

definition read_indexes :: "(string \<rightharpoonup> string) \<Rightarrow> index_row list \<Rightarrow> index_info list \<times> string list" where
  "read_indexes sql_of rows = foldl (index_step sql_of) ([], []) rows"

definition unique_of :: "index_info list \<Rightarrow> string list \<Rightarrow> constraint_unique list" where
  "unique_of indexes unique_origin =
     List.map_filter (\<lambda>name. map_option (\<lambda>i. \<lparr>un_name = name, un_columns = ix_columns i\<rparr>)
       (find (\<lambda>i. ix_name i = name) indexes)) unique_origin"

type_synonym sfk_row = "int \<times> string \<times> string \<times> string \<times> string \<times> string"

definition new_fk_sqlite :: "sfk_row \<Rightarrow> constraint_fk" where
  "new_fk_sqlite row =
     (case row of (fid, ref_table, from_col, to_col, on_delete, on_update) \<Rightarrow>
        \<lparr>fk_name = ''fk_'' @ int_str fid, fk_table = ref_table, fk_schema = None,
         fk_columns = [\<lparr>cp_from = from_col, cp_to = to_col\<rparr>],
         fk_on_delete = to_ascii_uppercase on_delete, fk_on_update = to_ascii_uppercase on_update\<rparr>)"

definition fk_step_sqlite ::
  "constraint_fk list \<times> int option \<Rightarrow> sfk_row \<Rightarrow> constraint_fk list \<times> int option" where
  "fk_step_sqlite st row =
     (case st of (out, last_id) \<Rightarrow> case row of (fid, ref_table, from_col, to_col, on_delete, on_update) \<Rightarrow>
        (if out \<noteq> [] \<and> last_id = Some fid
         then butlast out @ [(last out)\<lparr>fk_columns := fk_columns (last out) @ [\<lparr>cp_from = from_col, cp_to = to_col\<rparr>]\<rparr>]
         else out @ [new_fk_sqlite row],
         Some fid))"

definition read_fks_sqlite :: "sfk_row list \<Rightarrow> constraint_fk list" where
  "read_fks_sqlite rows = fst (foldl fk_step_sqlite ([], None) rows)"

definition structure_sqlite :: "string option \<Rightarrow> string \<Rightarrow> structure_info io" where
  "structure_sqlite schema table =
     io_then (io_result (check_schema schema)) (\<lambda>_.
     io_then allowed_tables (\<lambda>allowed.
     io_then (io_result (gate_table allowed table)) (\<lambda>_.
     (let quoted = quote_ident table
      in bounded CATALOG_TIMEOUT_SECS
        (io_then (fetch_all (col as_text (\<lambda>n. col as_int (\<lambda>u. col as_text (\<lambda>o'. col as_int (\<lambda>p.
                    col as_opt_text (\<lambda>c. row_end (n, u, o', p, c)))))))
                    [TText, TInt, TText, TInt, TOptText] (index_sql quoted) []) (\<lambda>index_rows.
         io_then (fetch_all (col as_text (\<lambda>n. col as_opt_text (\<lambda>s. row_end (n, s))))
                    [TText, TOptText] INDEX_TEXT_SQL [BText table]) (\<lambda>sql_rows.
         (let (indexes, unique_origin) = read_indexes (sql_of_rows sql_rows) index_rows;
              uniques = unique_of indexes unique_origin
          in io_then (fetch_all (col as_text row_end) [TText] (pk_sql quoted) []) (\<lambda>pks.
             (let primary_key = (if pks \<noteq> [] then Some \<lparr>pk_name = None, pk_columns = pks\<rparr> else None)
              in io_then (fetch_all (col as_int (\<lambda>id. col as_text (\<lambda>t. col as_text (\<lambda>f. col as_text (\<lambda>u.
                            col as_text (\<lambda>d. col as_text (\<lambda>up. row_end (id, t, f, u, d, up))))))))
                            [TInt, TText, TText, TText, TText, TText] (structure_fks_sql quoted) []) (\<lambda>fk_rows.
                 io_return
                   \<lparr>st_indexes = indexes,
                    st_constraints =
                      \<lparr>k_primary_key = primary_key, k_unique = uniques,
                       k_foreign_keys = read_fks_sqlite fk_rows, k_check = []\<rparr>\<rparr>)))))))))))"

end
