(* ===== verification/Sqlite_Catalog.thy ===== *)
theory Sqlite_Catalog
  imports Sqlite "HOL-Library.Multiset"
begin

text \<open>
  What the SQLite backend reads out of its catalog rows: the grouping of index rows and
  foreign-key rows (interpretations of the grouping interface), the predicate of a partial index,
  and the single-column foreign keys of the key metadata.
\<close>

section \<open>Grouping\<close>

text \<open>Index rows are grouped by name, whatever the stored \<open>CREATE INDEX\<close> texts.\<close>

definition index_row_name :: "index_row \<Rightarrow> string" where
  "index_row_name row = fst row"

definition index_row_columns :: "index_row \<Rightarrow> string list" where
  "index_row_columns row = [index_column (snd (snd (snd (snd row))))]"

interpretation ix: run_grouping
  "\<lambda>i row. ix_name i = index_row_name row"
  "\<lambda>i row. i\<lparr>ix_columns := ix_columns i @ index_row_columns row\<rparr>"
  "new_index sql_of" ix_name index_row_name ix_columns index_row_columns
  for sql_of
  by unfold_locales (auto simp: new_index_def index_row_name_def index_row_columns_def)

lemma index_row_name_fst: "index_row_name = fst"
  by (rule ext) (simp add: index_row_name_def)

lemma index_step_push:
  "fst (index_step sql_of (out, org) row) =
     push_or_merge (\<lambda>i row. ix_name i = index_row_name row)
       (\<lambda>i row. i\<lparr>ix_columns := ix_columns i @ index_row_columns row\<rparr>) (new_index sql_of) out row"
  by (cases row) (auto simp: index_step_def push_or_merge_def index_row_name_def index_row_columns_def)

lemma read_indexes_merge:
  "fst (read_indexes sql_of rows) =
     run_merge (\<lambda>i row. ix_name i = index_row_name row)
       (\<lambda>i row. i\<lparr>ix_columns := ix_columns i @ index_row_columns row\<rparr>) (new_index sql_of) rows"
proof -
  have "fst (foldl (index_step sql_of) st rows) =
    foldl (push_or_merge (\<lambda>i row. ix_name i = index_row_name row)
       (\<lambda>i row. i\<lparr>ix_columns := ix_columns i @ index_row_columns row\<rparr>) (new_index sql_of)) (fst st) rows" for st
  proof (induction rows arbitrary: st)
    case (Cons row rows)
    show ?case
      using index_step_push [of sql_of "fst st" "snd st" row] by (simp add: Cons del: split_paired_All)
  qed simp
  then show ?thesis by (simp add: read_indexes_def run_merge_def)
qed

text \<open>\<open>structure\<close> loses, invents and reorders no index column: reading the reported indexes
  back gives the catalog's rows (an expression part as \<open><expression>\<close>), neighbouring indexes have
  different names, and when the rows of an index are adjacent, as the query orders them, each
  index is reported once with all its columns in order.\<close>

theorem read_indexes_correct:
  assumes "distinct (remdups_adj (map fst rows))"
  shows "concat (map (\<lambda>i. map (Pair (ix_name i)) (ix_columns i)) (fst (read_indexes sql_of rows)))
           = map (\<lambda>(n, u, o', p, c). (n, index_column c)) rows
    \<and> map ix_name (fst (read_indexes sql_of rows)) = remdups_adj (map fst rows)
    \<and> distinct (map ix_name (fst (read_indexes sql_of rows)))
    \<and> (\<forall>i \<in> set (fst (read_indexes sql_of rows)).
         ix_columns i = map (\<lambda>(n, u, o', p, c). index_column c) (filter (\<lambda>row. fst row = ix_name i) rows))"
proof -
  have f: "concat (map (\<lambda>a. map (Pair (fst a)) (index_row_columns a)) rows)
      = map (\<lambda>(n, u, o', p, c). (n, index_column c)) rows"
    by (induction rows) (auto simp: index_row_columns_def)
  have c: "concat (map index_row_columns rs) = map (\<lambda>(n, u, o', p, c). index_column c) rs" for rs
    by (induction rs) (auto simp: index_row_columns_def)
  show ?thesis
    using ix.flatten [of sql_of rows] ix.keys [of sql_of rows]
      ix.distinct_keys [of rows sql_of] ix.entry_columns [of rows _ sql_of] assms
    unfolding read_indexes_merge index_row_name_fst f c by blast
qed

lemma read_indexes_correct_witness:
  "distinct (remdups_adj (map fst
      [(''i'', 1 :: int, ''c'', 0 :: int, Some ''a''), (''i'', 1, ''c'', 0, None), (''j'', 0, ''c'', 0, Some ''b'')]))
   \<and> map ix_name (fst (read_indexes Map.empty
      [(''i'', 1, ''c'', 0, Some ''a''), (''i'', 1, ''c'', 0, None), (''j'', 0, ''c'', 0, Some ''b'')])) = [''i'', ''j'']"
proof -
  let ?rows = "[(''i'', 1 :: int, ''c'', 0 :: int, Some ''a''), (''i'', 1, ''c'', 0, None), (''j'', 0, ''c'', 0, Some ''b'')]"
  have r: "remdups_adj (map fst ?rows) = [''i'', ''j'']" by simp
  then have d: "distinct (remdups_adj (map fst ?rows))" by simp
  from read_indexes_correct [OF d, of Map.empty] d show ?thesis unfolding r by blast
qed

text \<open>Foreign-key rows are grouped by id, which the synthetic constraint name keeps apart.\<close>

declare int_str_inject [simp]

definition sfk_pair :: "sfk_row \<Rightarrow> column_pair list" where
  "sfk_pair row = (case row of (i, t, f, u, d, up) \<Rightarrow> [\<lparr>cp_from = f, cp_to = u\<rparr>])"

definition sfk_name :: "sfk_row \<Rightarrow> string" where
  "sfk_name row = ''fk_'' @ int_str (fst row)"

interpretation sfk: run_grouping
  "\<lambda>k row. fk_name k = sfk_name row"
  "\<lambda>k row. k\<lparr>fk_columns := fk_columns k @ sfk_pair row\<rparr>"
  new_fk_sqlite fk_name sfk_name fk_columns sfk_pair
  by unfold_locales (auto simp: new_fk_sqlite_def sfk_name_def sfk_pair_def)

lemma fk_step_push:
  assumes "out \<noteq> [] \<Longrightarrow> \<exists>i. last_id = Some i \<and> fk_name (last out) = ''fk_'' @ int_str i"
  shows "fk_step_sqlite (out, last_id) row =
    (push_or_merge (\<lambda>k row. fk_name k = sfk_name row)
       (\<lambda>k row. k\<lparr>fk_columns := fk_columns k @ sfk_pair row\<rparr>) new_fk_sqlite out row, Some (fst row))"
  using assms
  by (cases row; cases "out = []")
    (auto simp: fk_step_sqlite_def push_or_merge_def sfk_name_def sfk_pair_def)

lemma read_fks_merge:
  "read_fks_sqlite rows =
     run_merge (\<lambda>k row. fk_name k = sfk_name row)
       (\<lambda>k row. k\<lparr>fk_columns := fk_columns k @ sfk_pair row\<rparr>) new_fk_sqlite rows"
proof -
  let ?push = "push_or_merge (\<lambda>k row. fk_name k = sfk_name row)
       (\<lambda>k row. k\<lparr>fk_columns := fk_columns k @ sfk_pair row\<rparr>) new_fk_sqlite"
  have "fst (foldl fk_step_sqlite (out, last_id) rows) = foldl ?push out rows"
    if "out \<noteq> [] \<Longrightarrow> \<exists>i. last_id = Some i \<and> fk_name (last out) = ''fk_'' @ int_str i" for out last_id
    using that
  proof (induction rows arbitrary: out last_id)
    case (Cons row rows)
    have "fst (foldl fk_step_sqlite (?push out row, Some (fst row)) rows) = foldl ?push (?push out row) rows"
      by (rule Cons.IH)
        (cases row; auto simp: push_or_merge_def sfk_name_def new_fk_sqlite_def)
    then show ?case by (simp add: fk_step_push [OF Cons.prems])
  qed simp
  then show ?thesis by (simp add: read_fks_sqlite_def run_merge_def)
qed

text \<open>The reported foreign keys of a table are its pragma rows grouped by constraint: no
  column pair is lost, invented or reordered, and with the rows of a constraint adjacent each
  constraint is one entry with all its pairs.\<close>

theorem read_fks_sqlite_correct:
  assumes "distinct (remdups_adj (map fst rows))"
  shows "concat (map (\<lambda>k. map (Pair (fk_name k)) (fk_columns k)) (read_fks_sqlite rows))
           = map (\<lambda>(i, t, f, u, d, up). (''fk_'' @ int_str i, \<lparr>cp_from = f, cp_to = u\<rparr>)) rows
    \<and> distinct (map fk_name (read_fks_sqlite rows))
    \<and> map fk_name (read_fks_sqlite rows) = map (\<lambda>i. ''fk_'' @ int_str i) (remdups_adj (map fst rows))"
proof -
  have names: "map sfk_name rows = map (\<lambda>i. ''fk_'' @ int_str i) (map fst rows)"
    by (simp add: sfk_name_def)
  have inj: "inj (\<lambda>i. ''fk_'' @ int_str i)" by (rule injI) simp
  have adj: "remdups_adj (map sfk_name rows) = map (\<lambda>i. ''fk_'' @ int_str i) (remdups_adj (map fst rows))"
    unfolding names by (rule remdups_adj_map_injective [OF inj])
  have "distinct (remdups_adj (map sfk_name rows))"
    unfolding adj distinct_map using assms inj inj_on_subset by blast
  from sfk.distinct_keys [OF this] sfk.keys [of rows] sfk.flatten [of rows] adj
  have "distinct (map fk_name (read_fks_sqlite rows))"
    "map fk_name (read_fks_sqlite rows) = map (\<lambda>i. ''fk_'' @ int_str i) (remdups_adj (map fst rows))"
    "concat (map (\<lambda>k. map (Pair (fk_name k)) (fk_columns k)) (read_fks_sqlite rows))
       = concat (map (\<lambda>a. map (Pair (sfk_name a)) (sfk_pair a)) rows)"
    unfolding read_fks_merge by simp_all
  moreover have "concat (map (\<lambda>a. map (Pair (sfk_name a)) (sfk_pair a)) rows)
      = map (\<lambda>(i, t, f, u, d, up). (''fk_'' @ int_str i, \<lparr>cp_from = f, cp_to = u\<rparr>)) rows"
    by (induction rows) (auto simp: sfk_name_def sfk_pair_def)
  ultimately show ?thesis by simp
qed

lemma read_fks_sqlite_correct_witness:
  "distinct (remdups_adj (map fst [(0 :: int, ''p'', ''a'', ''x'', ''cascade'', ''no action''), (0, ''p'', ''b'', ''y'', ''cascade'', ''no action'')]))
   \<and> map fk_name (read_fks_sqlite [(0, ''p'', ''a'', ''x'', ''cascade'', ''no action''), (0, ''p'', ''b'', ''y'', ''cascade'', ''no action'')])
       = [''fk_'' @ int_str 0]"
  using read_fks_sqlite_correct
    [of "[(0, ''p'', ''a'', ''x'', ''cascade'', ''no action''), (0, ''p'', ''b'', ''y'', ''cascade'', ''no action'')]"]
  by simp

section \<open>Partial index predicates\<close>

text \<open>
  The specification: reading a statement left to right, whether the reader is inside quotes and
  how many parentheses are open; a \<open>where\<close> counts after a white-space character outside both.
\<close>

fun reader :: "char option \<times> int \<Rightarrow> char \<Rightarrow> char option \<times> int" where
  "reader (Some q, d) b = (if b = q then None else Some q, d)"
| "reader (None, d) b =
     (if b = squote \<or> b = dquote \<or> b = backtick then (Some b, d)
      else if b = CHR ''['' then (Some (CHR '']''), d)
      else if b = CHR ''('' then (None, d + 1)
      else if b = CHR '')'' then (None, d - 1)
      else (None, d))"

definition where_at :: "char option \<times> int \<Rightarrow> string \<Rightarrow> nat \<Rightarrow> bool" where
  "where_at st s i \<longleftrightarrow>
     i < length s \<and> foldl reader st (take i s) = (None, 0) \<and> is_ascii_whitespace (s ! i)
     \<and> is_where (drop (i + 1) s)"

definition first_where :: "char option \<times> int \<Rightarrow> string \<Rightarrow> string \<Rightarrow> bool" where
  "first_where st s p \<longleftrightarrow>
     (\<exists>i. where_at st s i \<and> (\<forall>j < i. \<not> where_at st s j) \<and> p = trim (drop (i + 6) s))"

lemma where_at_Cons [simp]:
  "where_at st (b # s) 0 \<longleftrightarrow> st = (None, 0) \<and> is_ascii_whitespace b \<and> is_where s"
  "where_at st (b # s) (Suc i) \<longleftrightarrow> where_at (reader st b) s i"
  by (auto simp: where_at_def)

lemma first_where_Cons:
  "first_where st (b # s) p \<longleftrightarrow>
     (if where_at st (b # s) 0 then p = trim (drop 5 s) else first_where (reader st b) s p)"
proof (cases "where_at st (b # s) 0")
  case True
  then have "first_where st (b # s) p \<longleftrightarrow> p = trim (drop 6 (b # s))"
    unfolding first_where_def by (metis add_0 gr0I not_less_zero)
  with True show ?thesis by simp
next
  case False
  have "first_where st (b # s) p \<longleftrightarrow>
      (\<exists>i. where_at (reader st b) s i \<and> (\<forall>j < i. \<not> where_at (reader st b) s j) \<and> p = trim (drop (i + 6) s))"
    unfolding first_where_def
  proof
    assume "\<exists>i. where_at st (b # s) i \<and> (\<forall>j < i. \<not> where_at st (b # s) j) \<and> p = trim (drop (i + 6) (b # s))"
    then obtain i where i: "where_at st (b # s) i" "\<forall>j < i. \<not> where_at st (b # s) j"
      "p = trim (drop (i + 6) (b # s))" by blast
    with False obtain k where k: "i = Suc k" by (cases i) auto
    with i have "where_at (reader st b) s k" "\<forall>j < k. \<not> where_at (reader st b) s j" "p = trim (drop (k + 6) s)"
      by (auto simp: drop_Cons' add.commute)
    then show "\<exists>i. where_at (reader st b) s i \<and> (\<forall>j < i. \<not> where_at (reader st b) s j) \<and> p = trim (drop (i + 6) s)"
      by blast
  next
    assume "\<exists>i. where_at (reader st b) s i \<and> (\<forall>j < i. \<not> where_at (reader st b) s j) \<and> p = trim (drop (i + 6) s)"
    then obtain k where k: "where_at (reader st b) s k" "\<forall>j < k. \<not> where_at (reader st b) s j"
      "p = trim (drop (k + 6) s)" by blast
    then have "where_at st (b # s) (Suc k)" "p = trim (drop (Suc k + 6) (b # s))"
      by (simp_all add: drop_Cons' add.commute)
    moreover have "\<forall>j < Suc k. \<not> where_at st (b # s) j"
      using k(2) False by (auto simp: less_Suc_eq_0_disj)
    ultimately show "\<exists>i. where_at st (b # s) i \<and> (\<forall>j < i. \<not> where_at st (b # s) j) \<and> p = trim (drop (i + 6) (b # s))"
      by blast
  qed
  then show ?thesis by (simp only: first_where_def False if_False)
qed

lemma predicate_scan_first: "predicate_scan q d s = Some p \<longleftrightarrow> first_where (q, d) s p"
proof (induction q d s rule: predicate_scan.induct)
  case (1 q d)
  then show ?case by (simp add: first_where_def where_at_def)
next
  case (2 q d b s)
  then show ?case by (simp add: first_where_Cons)
next
  case (3 d b s)
  have ws: "\<not> is_ascii_whitespace b"
    if "b = squote \<or> b = dquote \<or> b = backtick \<or> b = CHR ''['' \<or> b = CHR ''('' \<or> b = CHR '')''"
    using that by (auto simp: is_ascii_whitespace_def)
  have eq: "first_where (None, d) (b # s) p \<longleftrightarrow>
      (if d = 0 \<and> is_ascii_whitespace b \<and> is_where s then p = trim (drop 5 s)
       else first_where (reader (None, d) b) s p)"
    by (simp add: first_where_Cons)
  consider (quote) "b = squote \<or> b = dquote \<or> b = backtick"
    | (bracket) "\<not> (b = squote \<or> b = dquote \<or> b = backtick)" "b = CHR ''[''"
    | (left) "\<not> (b = squote \<or> b = dquote \<or> b = backtick)" "b \<noteq> CHR ''[''" "b = CHR ''(''"
    | (right) "\<not> (b = squote \<or> b = dquote \<or> b = backtick)" "b \<noteq> CHR ''[''" "b \<noteq> CHR ''(''" "b = CHR '')''"
    | (other) "\<not> (b = squote \<or> b = dquote \<or> b = backtick)" "b \<noteq> CHR ''[''" "b \<noteq> CHR ''(''" "b \<noteq> CHR '')''"
    by blast
  then show ?case
  proof cases
    case quote
    then have "\<not> is_ascii_whitespace b" by (intro ws) blast
    with quote show ?thesis using 3(1) [OF quote] unfolding eq by simp
  next
    case bracket
    then have "\<not> is_ascii_whitespace b" by (intro ws) blast
    with bracket show ?thesis using 3(2) [OF bracket] unfolding eq by simp
  next
    case left
    then have "\<not> is_ascii_whitespace b" by (intro ws) blast
    with left show ?thesis using 3(3) [OF left] unfolding eq by simp
  next
    case right
    then have "\<not> is_ascii_whitespace b" by (intro ws) blast
    with right show ?thesis using 3(4) [OF right] unfolding eq by simp
  next
    case other
    show ?thesis
    proof (cases "d = 0 \<and> is_ascii_whitespace b")
      case True
      with other show ?thesis
        using 3(5) [OF other True] unfolding eq by (cases "is_where s") auto
    next
      case False
      with other show ?thesis using 3(6) [OF other False] unfolding eq by auto
    qed
  qed
qed

text \<open>The predicate reported for a partial index is exactly the trimmed text after the first
  \<open>where\<close> of its stored statement that follows a white-space character outside quotes and
  parentheses and is followed by white space or a parenthesis; without one there is none.\<close>

theorem partial_index_predicate_correct:
  "partial_index_predicate sql = Some p \<longleftrightarrow> first_where (None, 0) sql p"
  by (simp add: partial_index_predicate_def predicate_scan_first)

text \<open>SQLite accepts a \<open>where\<close> directly after the column list; its predicate is not reported.\<close>

lemma predicate_after_parenthesis_lost:
  "partial_index_predicate ''create index i on t(a) where a > 0'' = Some ''a > 0''
   \<and> partial_index_predicate ''create index i on t(a)where a > 0'' = None"
  by code_simp

section \<open>Foreign keys of the key metadata\<close>

text \<open>The rows of one constraint, and the single-column constraints.\<close>

definition fk_members :: "fk_row list \<Rightarrow> int \<Rightarrow> (string \<times> string \<times> string) list" where
  "fk_members fks i = map (\<lambda>(_, _, t, f, u). (f, t, u)) (filter (\<lambda>r. fst r = i) fks)"

lemma map_of_groups: "map_of (fk_groups_of fks) i = (if fk_members fks i = [] then None else Some (fk_members fks i))"
proof (induction fks rule: rev_induct)
  case Nil
  then show ?case by (simp add: fk_groups_of_def fk_members_def)
next
  case (snoc r fks)
  obtain j q t f u where r: "r = (j, q, t, f, u)" by (cases r) auto
  have "fk_groups_of (fks @ [r]) = entry_push j (f, t, u) (fk_groups_of fks)"
    by (simp add: fk_groups_of_def r)
  with snoc show ?case
    by (auto simp: map_of_entry_push fk_members_def r filter_empty_conv)
qed

lemma distinct_groups: "distinct (map fst (fk_groups_of fks))"
proof (induction fks rule: rev_induct)
  case (snoc r fks)
  then show ?case by (cases r) (simp add: fk_groups_of_def distinct_entry_push)
qed (simp add: fk_groups_of_def)

lemma groups_mem: "(i, ms) \<in> set (fk_groups_of fks) \<longleftrightarrow> ms \<noteq> [] \<and> ms = fk_members fks i"
  using map_of_groups [of fks i] distinct_groups [of fks]
  by (auto simp: map_of_eq_Some_iff split: if_splits) (metis map_of_eq_Some_iff option.distinct(1) option.inject)+

text \<open>No column belongs to two single-column foreign keys.\<close>

definition one_fk_per_column :: "fk_row list \<Rightarrow> bool" where
  "one_fk_per_column fks \<longleftrightarrow>
     (\<forall>i j c t u t' u'. fk_members fks i = [(c, t, u)] \<longrightarrow> fk_members fks j = [(c, t', u')] \<longrightarrow> i = j)"

definition local_ref :: "string \<Rightarrow> string \<Rightarrow> column_ref" where
  "local_ref t u = \<lparr>r_table = t, r_column = u, r_schema = None\<rparr>"

lemma single_fk_step:
  "single_fk m g c = (case snd g of [(f, t, u)] \<Rightarrow> if f = c then Some (local_ref t u) else m c | _ \<Rightarrow> m c)"
  by (auto simp: single_fk_def local_ref_def split: list.split)

lemma single_fk_sound:
  "foldl single_fk Map.empty gs c = Some r \<Longrightarrow> \<exists>i t u. (i, [(c, t, u)]) \<in> set gs \<and> r = local_ref t u"
proof (induction gs rule: rev_induct)
  case (snoc g gs)
  have step: "single_fk (foldl single_fk Map.empty gs) g c = Some r" using snoc.prems by simp
  show ?case
  proof (cases "\<exists>t u. snd g = [(c, t, u)]")
    case True
    then obtain t u where g: "g = (fst g, [(c, t, u)])" by (metis prod.collapse)
    from step True have "r = local_ref t u" by (subst (asm) g) (simp add: single_fk_step)
    with g show ?thesis by (metis in_set_conv_decomp)
  next
    case False
    with step have "foldl single_fk Map.empty gs c = Some r"
      by (auto simp: single_fk_step split: list.splits if_splits)
    from snoc.IH [OF this] show ?thesis by auto
  qed
qed simp

lemma single_fk_complete:
  "(i, [(c, t, u)]) \<in> set gs \<Longrightarrow> \<exists>r. foldl single_fk Map.empty gs c = Some r"
proof (induction gs rule: rev_induct)
  case (snoc g gs)
  then show ?case
    by (cases g) (auto simp: single_fk_step split: list.split)
qed simp

text \<open>In whatever order the hash map yields the constraints, as long as no column carries two
  single-column foreign keys, a column's \<open>references\<close> is the target of its single-column
  foreign key, and a column that only takes part in composite ones has none.\<close>

theorem fk_column_map_correct:
  assumes "mset (ord (fk_groups_of fks)) = mset (fk_groups_of fks)" "one_fk_per_column fks"
  shows "fk_column_map ord fks c = Some r \<longleftrightarrow>
    (\<exists>i t u. fk_members fks i = [(c, t, u)] \<and> r = local_ref t u)"
proof -
  have mem: "(i, ms) \<in> set (ord (fk_groups_of fks)) \<longleftrightarrow> ms \<noteq> [] \<and> ms = fk_members fks i" for i ms
    using mset_eq_setD [OF assms(1)] groups_mem by simp
  show ?thesis
  proof
    assume "fk_column_map ord fks c = Some r"
    then obtain i t u where "(i, [(c, t, u)]) \<in> set (ord (fk_groups_of fks))" "r = local_ref t u"
      unfolding fk_column_map_def using single_fk_sound by blast
    then show "\<exists>i t u. fk_members fks i = [(c, t, u)] \<and> r = local_ref t u"
      unfolding mem by metis
  next
    assume "\<exists>i t u. fk_members fks i = [(c, t, u)] \<and> r = local_ref t u"
    then obtain i t u where i: "fk_members fks i = [(c, t, u)]" "r = local_ref t u" by blast
    then have "(i, [(c, t, u)]) \<in> set (ord (fk_groups_of fks))" unfolding mem by simp
    from single_fk_complete [OF this] obtain r' where r': "fk_column_map ord fks c = Some r'"
      unfolding fk_column_map_def by blast
    then obtain j t' u' where "(j, [(c, t', u')]) \<in> set (ord (fk_groups_of fks))" "r' = local_ref t' u'"
      unfolding fk_column_map_def using single_fk_sound by blast
    with i assms(2) have "r' = r" unfolding mem one_fk_per_column_def by (metis list.inject prod.inject)
    with r' show "fk_column_map ord fks c = Some r" by simp
  qed
qed

definition two_fks :: "fk_row list" where
  "two_fks = [(0, 0, ''users'', ''owner'', ''id''), (1, 0, ''teams'', ''owner'', ''id'')]"

lemma fk_column_map_correct_witness:
  "fk_column_map rev [(0, 0, ''users'', ''owner'', ''id''), (1, 0, ''a'', ''x'', ''p''), (1, 1, ''a'', ''y'', ''q'')] ''owner''
     = Some (local_ref ''users'' ''id'')"
proof -
  let ?fks = "[(0, 0, ''users'', ''owner'', ''id''), (1, 0, ''a'', ''x'', ''p''), (1, 1, ''a'', ''y'', ''q'')] :: fk_row list"
  have "one_fk_per_column ?fks"
    by (auto simp: one_fk_per_column_def fk_members_def split: if_splits)
  from fk_column_map_correct [where ord = rev, OF _ this, of "''owner''" "local_ref ''users'' ''id''"]
  have "fk_column_map rev ?fks ''owner'' = Some (local_ref ''users'' ''id'') \<longleftrightarrow>
    (\<exists>i t u. fk_members ?fks i = [(''owner'', t, u)] \<and> local_ref ''users'' ''id'' = local_ref t u)"
    by simp
  moreover have "fk_members ?fks 0 = [(''owner'', ''users'', ''id'')]" by (simp add: fk_members_def)
  ultimately show ?thesis by blast
qed

text \<open>With two single-column foreign keys on one column the answer depends on the hash order.\<close>

lemma two_fks_depend_on_hash_order:
  "fk_column_map id two_fks ''owner'' = Some (local_ref ''teams'' ''id'')
   \<and> fk_column_map rev two_fks ''owner'' = Some (local_ref ''users'' ''id'')"
  by (simp add: fk_column_map_def fk_groups_of_def two_fks_def single_fk_def local_ref_def)

end
