(* ===== verification/Sqlite_Protocol.thy ===== *)
theory Sqlite_Protocol
  imports Sqlite
begin

text \<open>
  The connection discipline of the SQLite backend as a state machine over the history, and the
  statements it may send: a query runs only while a progress handler is armed with the deadline
  of its timeout, a connection goes back to the pool disarmed, and a statement mentions only
  names the database itself reported earlier.
\<close>

section \<open>The life of a pooled connection\<close>

text \<open>
  \<open>Wedged\<close> is an armed connection whose handle could not be locked to disarm it (sqlx reports
  that when the connection's worker has gone).
\<close>

datatype conn = Idle | Held | Clocked int | Armed int | Wedged

inductive conn_step :: "u32 set \<Rightarrow> conn \<Rightarrow> request \<times> response \<Rightarrow> conn \<Rightarrow> bool" for T where
  acquire: "conn_step T Idle (Acquire, Inr r) Held"
| acquire_failed: "conn_step T Idle (Acquire, Inl e) Idle"
| clock: "conn_step T Held (ReadClock, Inr (Clock t)) (Clocked t)"
| lock_to_arm: "conn_step T (Clocked t) (LockHandle, Inr r) (Clocked t)"
| lock_failed: "conn_step T (Clocked t) (LockHandle, Inl e) Held"
| arm: "s \<in> T \<Longrightarrow> 1 \<le> n \<Longrightarrow>
    conn_step T (Clocked t) (SetProgress n (Some (t + uint s * 1000000000)), r)
      (Armed (t + uint s * 1000000000))"
| query: "conn_step T (Armed d) (Fetch mode tys sql binds, r) (Armed d)"
| lock_to_disarm: "conn_step T (Armed d) (LockHandle, Inr r) (Armed d)"
| wedge: "conn_step T (Armed d) (LockHandle, Inl e) Wedged"
| disarm: "n < 1 \<Longrightarrow> conn_step T (Armed d) (SetProgress n None, r) Held"
| release: "conn_step T Held (Release, r) Idle"
| release_wedged: "conn_step T Wedged (Release, r) Idle"

inductive_simps conn_step_simps:
  "conn_step T c (Acquire, r) c'" "conn_step T c (Release, r) c'" "conn_step T c (LockHandle, r) c'"
  "conn_step T c (ReadClock, r) c'" "conn_step T c (SetProgress n d, r) c'"
  "conn_step T c (Fetch mode tys sql binds, r) c'"

inductive_cases conn_step_cases: "conn_step T c qr c'"

inductive conn_run :: "u32 set \<Rightarrow> history \<Rightarrow> conn \<Rightarrow> bool" for T where
  start: "conn_run T [] Idle"
| step: "conn_run T h c \<Longrightarrow> conn_step T c qr c' \<Longrightarrow> conn_run T (h @ [qr]) c'"

lemmas conn_run_intros = conn_run.step conn_step.intros

lemma conn_run_appendI: "conn_run T h c \<Longrightarrow> conn_step T c (q, r) c' \<Longrightarrow> conn_run T (h @ [(q, r)]) c'"
  by (rule conn_run.step)

text \<open>Runs are deterministic, so a history has one connection state.\<close>

lemma conn_step_fun: "conn_step T c qr c1 \<Longrightarrow> conn_step T c qr c2 \<Longrightarrow> c1 = c2"
  by (induction rule: conn_step.induct) (auto elim: conn_step_cases)

lemma conn_run_fun: "conn_run T h c1 \<Longrightarrow> conn_run T h c2 \<Longrightarrow> c1 = c2"
proof (induction arbitrary: c2 rule: conn_run.induct)
  case start
  then show ?case by (auto elim: conn_run.cases)
next
  case (step h c qr c')
  from step.prems obtain c0 where "conn_run T h c0" "conn_step T c0 qr c2"
    by (auto elim: conn_run.cases)
  with step show ?case by (metis conn_step_fun)
qed

lemma conn_run_prefix: "conn_run T (h @ h') c \<Longrightarrow> \<exists>c0. conn_run T h c0"
proof (induction h' arbitrary: c rule: rev_induct)
  case (snoc qr h')
  then obtain c0 where "conn_run T (h @ h') c0"
    by (auto elim: conn_run.cases simp flip: append_assoc)
  with snoc show ?case by blast
qed auto

section \<open>Statements\<close>

definition sqlite_statement :: "string set \<Rightarrow> string \<Rightarrow> bind list \<Rightarrow> bool" where
  "sqlite_statement known sql binds \<longleftrightarrow>
     sql \<in> {ALLOWED_TABLES_SQL, REFERENCED_BY_SQL, INDEX_TEXT_SQL}
     \<or> (\<exists>t \<in> known. sql \<in> {allowed_columns_sql (quote_ident t), key_columns_sql (quote_ident t),
            key_fks_sql (quote_ident t), table_meta_sql (quote_ident t), index_sql (quote_ident t),
            pk_sql (quote_ident t), structure_fks_sql (quote_ident t)})
     \<or> piece dquote known (length binds) sql"

definition sqlite_guard :: "history \<Rightarrow> request \<Rightarrow> bool" where
  "sqlite_guard h q \<longleftrightarrow>
     (case q of Fetch mode tys sql binds \<Rightarrow> sqlite_statement (texts h) sql binds | _ \<Rightarrow> True)"

lemma sqlite_guard_simps [simp]:
  "sqlite_guard h (Fetch mode tys sql binds) \<longleftrightarrow> sqlite_statement (texts h) sql binds"
  "sqlite_guard h Acquire" "sqlite_guard h Release" "sqlite_guard h LockHandle"
  "sqlite_guard h ReadClock" "sqlite_guard h (SetProgress n d)"
  by (simp_all add: sqlite_guard_def)

text \<open>The invariant of every operation.\<close>

definition sane :: "u32 set \<Rightarrow> conn \<Rightarrow> history \<Rightarrow> bool" where
  "sane T c h \<longleftrightarrow> conn_run T h c \<and> guarded sqlite_guard h"

lemma sane_start [simp]: "sane T Idle []"
  by (simp add: sane_def conn_run.start)

lemma sane_step: "sane T c h \<Longrightarrow> conn_step T c (q, r) c' \<Longrightarrow> sqlite_guard h q \<Longrightarrow> sane T c' (h @ [(q, r)])"
  by (auto simp: sane_def intro: conn_run.step)

lemma sqlite_statement_mono: "sqlite_statement A sql binds \<Longrightarrow> A \<subseteq> B \<Longrightarrow> sqlite_statement B sql binds"
  unfolding sqlite_statement_def using piece_mono by blast

lemma sane_query:
  assumes "sqlite_statement A sql binds" "sane T (Armed d) h" "A \<subseteq> texts h"
  shows "sane T (Armed d) (h @ [(Fetch mode tys sql binds, r)])"
  by (rule sane_step [OF assms(2) conn_step.query]) (use assms sqlite_statement_mono in auto)

section \<open>Bounded operations keep it\<close>

lemma arm_triple:
  assumes "s \<in> T"
  shows "triple (\<lambda>h. sane T Held h \<and> K \<subseteq> texts h) (arm s)
    (\<lambda>_ h. \<exists>d. sane T (Armed d) h \<and> K \<subseteq> texts h) (\<lambda>_. sane T Held)"
  unfolding arm_def
proof (rule triple_then [where R = "\<lambda>now h. sane T (Clocked now) h \<and> K \<subseteq> texts h"])
  show "triple (\<lambda>h. sane T Held h \<and> K \<subseteq> texts h) ask_clock
      (\<lambda>now h. sane T (Clocked now) h \<and> K \<subseteq> texts h) (\<lambda>_. sane T Held)"
    by (rule triple_clock) (auto intro: sane_step conn_step.clock)
next
  fix now
  show "triple (\<lambda>h. sane T (Clocked now) h \<and> K \<subseteq> texts h)
      (io_then (ask from_sqlx LockHandle)
        (\<lambda>_. ask from_sqlx (SetProgress 1000 (Some (now + uint s * 1000000000)))))
      (\<lambda>_ h. \<exists>d. sane T (Armed d) h \<and> K \<subseteq> texts h) (\<lambda>_. sane T Held)"
  proof (rule triple_then [where R = "\<lambda>_ h. sane T (Clocked now) h \<and> K \<subseteq> texts h"])
    show "triple (\<lambda>h. sane T (Clocked now) h \<and> K \<subseteq> texts h) (ask from_sqlx LockHandle)
        (\<lambda>_ h. sane T (Clocked now) h \<and> K \<subseteq> texts h) (\<lambda>_. sane T Held)"
      by (rule triple_ask) (auto intro: sane_step conn_step.lock_to_arm conn_step.lock_failed)
  next
    show "triple (\<lambda>h. sane T (Clocked now) h \<and> K \<subseteq> texts h)
        (ask from_sqlx (SetProgress 1000 (Some (now + uint s * 1000000000))))
        (\<lambda>_ h. \<exists>d. sane T (Armed d) h \<and> K \<subseteq> texts h) (\<lambda>_. sane T Held)"
    proof (rule triple_ask)
      fix h r assume "sane T (Clocked now) h \<and> K \<subseteq> texts h"
      then show "\<exists>d. sane T (Armed d) (h @ [(SetProgress 1000 (Some (now + uint s * 1000000000)), Inr r)])
          \<and> K \<subseteq> texts (h @ [(SetProgress 1000 (Some (now + uint s * 1000000000)), Inr r)])"
        by (intro exI [of _ "now + uint s * 1000000000"] conjI)
          (auto intro: sane_step [OF _ conn_step.arm [OF assms]])
    qed simp
  qed
qed

lemma disarm_triple:
  "triple (\<lambda>h. sane T (Armed d) h \<and> K \<subseteq> texts h) disarm (\<lambda>_ h. sane T Held h \<and> K \<subseteq> texts h) (\<lambda>_. sane T Wedged)"
  unfolding disarm_def
proof (rule triple_then [where R = "\<lambda>_ h. sane T (Armed d) h \<and> K \<subseteq> texts h"])
  show "triple (\<lambda>h. sane T (Armed d) h \<and> K \<subseteq> texts h) (ask from_sqlx LockHandle)
      (\<lambda>_ h. sane T (Armed d) h \<and> K \<subseteq> texts h) (\<lambda>_. sane T Wedged)"
    by (rule triple_ask) (auto intro: sane_step conn_step.lock_to_disarm conn_step.wedge)
next
  show "triple (\<lambda>h. sane T (Armed d) h \<and> K \<subseteq> texts h)
      (io_then (ask from_sqlx (SetProgress 0 None)) (\<lambda>_. io_return ()))
      (\<lambda>_ h. sane T Held h \<and> K \<subseteq> texts h) (\<lambda>_. sane T Wedged)"
  proof (rule triple_then [where R = "\<lambda>_ h. sane T Held h \<and> K \<subseteq> texts h"])
    show "triple (\<lambda>h. sane T (Armed d) h \<and> K \<subseteq> texts h) (ask from_sqlx (SetProgress 0 None))
        (\<lambda>_ h. sane T Held h \<and> K \<subseteq> texts h) (\<lambda>_. sane T Wedged)"
      by (rule triple_ask) (auto intro!: sane_step [OF _ conn_step.disarm])
  qed (auto intro!: triple_rules)
qed

lemma triple_exists:
  "(\<And>y. triple (P y) m Q E) \<Longrightarrow> triple (\<lambda>h. \<exists>y. P y h) m Q E"
  by (auto simp: triple_def)

lemma triple_disj_error: "triple P m Q E \<Longrightarrow> (\<And>e h. E e h \<Longrightarrow> E' e h) \<Longrightarrow> triple P m Q E'"
  by (erule triple_conseq) auto

lemma keeps_bounded:
  assumes m: "\<And>d. keeps (sane T (Armed d)) A m N Q" and s: "s \<in> T"
  shows "keeps (sane T Idle) A (bounded s m) N Q"
proof (rule keepsI)
  fix K assume K: "A \<subseteq> K"
  let ?home = "\<lambda>h. sane T Held h \<or> sane T Wedged h"
  have inner: "triple (\<lambda>h. sane T Held h \<and> K \<subseteq> texts h) (io_then (arm s) (\<lambda>_. io_keep m disarm))
      (\<lambda>x h. sane T Held h \<and> K \<union> N x \<subseteq> texts h \<and> Q x) (\<lambda>_. ?home)"
  proof (rule triple_then [OF triple_disj_error [OF arm_triple [OF s]]])
    show "triple (\<lambda>h. \<exists>d. sane T (Armed d) h \<and> K \<subseteq> texts h) (io_keep m disarm)
        (\<lambda>x h. sane T Held h \<and> K \<union> N x \<subseteq> texts h \<and> Q x) (\<lambda>_. ?home)"
    proof (rule triple_exists)
      fix d
      show "triple (\<lambda>h. sane T (Armed d) h \<and> K \<subseteq> texts h) (io_keep m disarm)
          (\<lambda>x h. sane T Held h \<and> K \<union> N x \<subseteq> texts h \<and> Q x) (\<lambda>_. ?home)"
      proof (rule triple_keep [OF keepsD [OF m K]])
        fix x
        show "triple (\<lambda>h. sane T (Armed d) h \<and> K \<union> N x \<subseteq> texts h \<and> Q x) disarm
            (\<lambda>_ h. sane T Held h \<and> K \<union> N x \<subseteq> texts h \<and> Q x) (\<lambda>_. ?home)"
          by (rule triple_conseq [OF triple_frame [OF disarm_triple [where K = "K \<union> N x"], where A = "Q x"]])
            auto
      next
        show "triple (sane T (Armed d)) disarm (\<lambda>_. ?home) (\<lambda>_. ?home)"
          by (rule triple_conseq [OF disarm_triple [where K = "{}"]]) auto
      qed
    qed
  qed simp
  show "triple (\<lambda>h. sane T Idle h \<and> K \<subseteq> texts h) (bounded s m)
      (\<lambda>x h. sane T Idle h \<and> K \<union> N x \<subseteq> texts h \<and> Q x) (\<lambda>_. sane T Idle)"
    unfolding bounded_def
  proof (rule triple_then [where R = "\<lambda>_ h. sane T Held h \<and> K \<subseteq> texts h"])
    show "triple (\<lambda>h. sane T Idle h \<and> K \<subseteq> texts h) (ask from_sqlx Acquire)
        (\<lambda>_ h. sane T Held h \<and> K \<subseteq> texts h) (\<lambda>_. sane T Idle)"
      by (rule triple_ask) (auto intro: sane_step conn_step.acquire conn_step.acquire_failed)
  next
    show "triple (\<lambda>h. sane T Held h \<and> K \<subseteq> texts h)
        (io_finally (io_then (arm s) (\<lambda>_. io_keep m disarm)) Release)
        (\<lambda>x h. sane T Idle h \<and> K \<union> N x \<subseteq> texts h \<and> Q x) (\<lambda>_. sane T Idle)"
      by (rule triple_finally, simp, rule triple_conseq [OF inner])
        (auto intro: sane_step conn_step.release conn_step.release_wedged)
  qed
qed

end
