(* ===== verification/Where_Builder.thy ===== *)
theory Where_Builder
  imports Backend
begin

text \<open>
  The interface of a backend's \<open>build_where_clause\<close>: how it renders one condition, how it loops,
  and what the three laws are that make it the reference text of \<open>Backend\<close>. Every backend
  interprets it on its own function.
\<close>

locale where_builder = sql_dialect q d pre post for q :: char and d :: dialect and pre post :: string +
  fixes cond :: "string list \<Rightarrow> nat \<Rightarrow> nat \<Rightarrow> condition \<Rightarrow> db_error + (string \<times> string list)"
    and loop :: "string list \<Rightarrow> nat \<Rightarrow> nat \<Rightarrow> condition list \<Rightarrow> db_error + (string \<times> string list)"
    and build :: "condition list \<Rightarrow> string list \<Rightarrow> db_error + (string \<times> string list)"
  assumes cond_ok: "shaped i c \<Longrightarrow> cond cols i k c = condition_result d cols i k c"
    and cond_normal: "cond cols i k (normal c) = cond cols i k c"
    and cond_shaped: "cond cols i k c = Inr fv \<Longrightarrow> shaped i (normal c)"
    and loop_Nil: "loop cols i k [] = Inr ([], [])"
    and loop_Cons: "loop cols i k (c # cs) =
      and_then (cond cols i k c) (\<lambda>(frag, vs).
      and_then (loop cols (i + 1) (if d_numbered d then k + length vs else k) cs) (\<lambda>(clause, values).
      Inr (frag @ clause, vs @ values)))"
    and build_loop: "build cs cols =
      (if cs = [] then Inr ([], [])
       else and_then (loop cols 0 3 cs) (\<lambda>(clause, values). Inr ('' where '' @ clause, values)))"
begin

lemma loop_ok:
  assumes "\<forall>j < length cs. shaped (i + j) (cs ! j)"
  shows "loop cols i k cs =
    (case find (\<lambda>c. c_column c \<notin> set cols) cs of
       None \<Rightarrow> Inr (where_text d i k cs)
     | Some c \<Rightarrow> Inl (not_allowed Column (''column '' @ debug_str (c_column c))))"
  using assms
proof (induction cs arbitrary: i k)
  case Nil
  then show ?case by (simp add: loop_Nil)
next
  case (Cons c cs)
  have c: "shaped i c" using Cons.prems by fastforce
  have "\<forall>j < length cs. shaped (i + 1 + j) (cs ! j)" using Cons.prems by fastforce
  note ih = Cons.IH [OF this]
  show ?case
    by (simp only: loop_Cons cond_ok [OF c, of cols k] ih)
      (auto simp: condition_result_def split_beta Let_def split: option.split)
qed

lemma build_ok:
  assumes "\<forall>j < length cs. shaped j (cs ! j)"
  shows "build cs cols = where_result d cs cols"
  using loop_ok [of cs 0 cols 3] assms
  by (auto simp: build_loop where_result_def where_clause_def split_beta split: option.split)

lemma loop_shaped:
  "loop cols i k cs = Inr r \<Longrightarrow>
   loop cols i k (map normal cs) = Inr r \<and> (\<forall>j < length cs. shaped (i + j) (map normal cs ! j))"
proof (induction cs arbitrary: i k r)
  case (Cons c cs)
  then show ?case
    using cond_shaped [of cols i k c]
    by (auto simp: All_less_Suc2 loop_Cons cond_normal split: prod.splits) fastforce+
qed (simp add: loop_Nil)

text \<open>Whatever filter is built, its clause is a safe piece over the given columns.\<close>

lemma build_piece:
  assumes "build cs cols = Inr (clause, values)" "set cols \<subseteq> names"
  shows "piece q names (length values) clause"
proof (cases "cs = []")
  case True
  with assms(1) show ?thesis by (simp add: build_loop)
next
  case False
  with assms(1) obtain body where loop: "loop cols 0 3 cs = Inr (body, values)"
    and clause: "clause = '' where '' @ body"
    by (auto simp: build_loop)
  let ?cs = "map normal cs"
  note n = loop_shaped [OF loop]
  then have sh: "\<forall>j < length ?cs. shaped (0 + j) (?cs ! j)" by simp
  from n loop_ok [OF sh, of cols 3]
  have "where_result d ?cs cols = Inr (clause, values)"
    by (simp add: where_result_def where_clause_def clause False split: option.splits)
  from where_result_Inr [OF this]
  have c: "set (map c_column ?cs) \<subseteq> set cols" "where_clause d ?cs = (clause, values)" .
  have "list_all (\<lambda>c. c_column c \<in> names \<and> (takes_value (c_op c) \<longleftrightarrow> c_value c \<noteq> None)) ?cs"
    unfolding list_all_length
  proof (intro allI impI)
    fix j assume j: "j < length ?cs"
    from nth_mem [OF j] c(1) have "c_column (?cs ! j) \<in> set cols" by (simp only: set_map) blast
    moreover from sh j have "shaped (0 + j) (?cs ! j)" by blast
    ultimately show "c_column (?cs ! j) \<in> names
        \<and> (takes_value (c_op (?cs ! j)) \<longleftrightarrow> c_value (?cs ! j) \<noteq> None)"
      using assms(2) unfolding shaped_def by blast
  qed
  from where_clause_piece [OF this] c(2) show ?thesis by simp
qed

text \<open>The filter of a page request, present or not.\<close>

lemma page_filter_piece:
  assumes "(case flt of
      Some f \<Rightarrow> build f (map ci_name (map column_info_of (tm_columns meta)))
    | None \<Rightarrow> Inr ([], [])) = Inr (clause, vs)"
    "meta_names meta \<subseteq> names"
  shows "piece q names (length vs) clause"
proof (cases flt)
  case None
  with assms(1) show ?thesis by simp
next
  case (Some f)
  with assms show ?thesis by (auto intro!: build_piece simp: meta_names_def)
qed

end

end
