(* ===== verification/Sqlite_Correct.thy ===== *)
theory Sqlite_Correct
  imports Sqlite_Protocol Where_Builder
begin

text \<open>
  The SQLite backend's correctness: its dialect implements the dialect interface, its filter
  clause is the reference text, its groupings implement the grouping interface, and every
  operation keeps the connection discipline, sends only statements over reported names and never
  panics.
\<close>

section \<open>The dialect\<close>

interpretation sq: sql_dialect dquote JOIN_DIALECT_sqlite "''CAST(''" "'' AS TEXT)''"
  by unfold_locales
    (simp_all add: JOIN_DIALECT_sqlite_def cast_text_sqlite_def dq.lex_quote plain_def is_marker_def)

lemma dialect_sqlite_simps [simp]:
  "d_quote JOIN_DIALECT_sqlite = quote_ident" "d_numbered JOIN_DIALECT_sqlite = False"
  "d_ilike JOIN_DIALECT_sqlite = LikeStyle" "d_cast_text JOIN_DIALECT_sqlite = cast_text_sqlite"
  by (simp_all add: JOIN_DIALECT_sqlite_def)

section \<open>Filters\<close>

lemma where_condition_sqlite_ok:
  assumes "shaped i c"
  shows "where_condition_sqlite cols i c = condition_result JOIN_DIALECT_sqlite cols i k c"
proof (cases "c_column c \<in> set cols")
  case True
  from assms True shaped_logic [OF assms] show ?thesis
    by (cases "c_value c"; cases "c_op c")
      (auto simp: shaped_def where_condition_sqlite_def condition_result_def condition_text_def
        takes_value_def cast_text_sqlite_def placeholder_def joiner_def wrap_not_def Let_def
        find_allowed_eq)
qed (simp add: where_condition_sqlite_def condition_result_def find_allowed_eq)

lemma where_condition_sqlite_normal:
  "where_condition_sqlite cols i (normal c) = where_condition_sqlite cols i c"
proof (cases "takes_value (c_op c)")
  case False
  then show ?thesis unfolding where_condition_sqlite_def normal_simps(1-4) by (simp only: if_False)
qed (simp add: normal_id)

lemma where_condition_sqlite_shaped:
  "where_condition_sqlite cols i c = Inr fv \<Longrightarrow> shaped i (normal c)"
  by (cases "takes_value (c_op c)")
    (auto simp: where_condition_sqlite_def shaped_def Let_def split: if_splits prod.splits)

interpretation sqw: where_builder dquote JOIN_DIALECT_sqlite "''CAST(''" "'' AS TEXT)''"
  "\<lambda>cols i k. where_condition_sqlite cols i" "\<lambda>cols i k. where_loop_sqlite cols i" build_where_clause_sqlite
  by unfold_locales
    (auto simp: where_condition_sqlite_ok where_condition_sqlite_normal build_where_clause_sqlite_def
      dest: where_condition_sqlite_shaped)

text \<open>C28: on every filter \<open>filter::parse\<close> accepts, SQLite's \<open>build_where_clause\<close> fails exactly when
  a condition names a column outside the catalog's, naming the first such column, and otherwise
  writes the very condition text of the join route (unqualified), with the values in order.\<close>

theorem build_where_clause_sqlite_correct:
  assumes "wf_filter aj cs"
  shows "build_where_clause_sqlite cs cols = where_result JOIN_DIALECT_sqlite cs cols"
  by (rule sqw.build_ok [OF wf_filter_shaped [OF assms]])

definition two_conditions :: "condition list" where
  "two_conditions =
     [\<lparr>c_logic = None, c_not = True, c_column = ''id'', c_op = Ge, c_value = Some ''7'', c_join = None\<rparr>,
      \<lparr>c_logic = Some Or, c_not = False, c_column = ''a'', c_op = IsNull, c_value = None, c_join = None\<rparr>]"

lemma two_conditions_wf: "wf_filter False two_conditions"
  by (simp add: two_conditions_def wf_filter_def wf_condition_def takes_value_def MAX_CONDITIONS_def
      All_less_Suc2)

lemma build_where_clause_sqlite_correct_witness:
  "wf_filter False two_conditions
   \<and> build_where_clause_sqlite two_conditions [''id'', ''a''] = Inr (
       '' where (NOT (CAST('' @ quote_ident ''id'' @ '' AS TEXT) >= ?)) OR (CAST('' @ quote_ident ''a'' @ '' AS TEXT) IS NULL)'',
       [''7''])"
proof -
  have "where_result JOIN_DIALECT_sqlite two_conditions [''id'', ''a''] = Inr (
       '' where (NOT (CAST('' @ quote_ident ''id'' @ '' AS TEXT) >= ?)) OR (CAST('' @ quote_ident ''a'' @ '' AS TEXT) IS NULL)'',
       [''7''])"
    by code_simp
  with build_where_clause_sqlite_correct [OF two_conditions_wf, of "[''id'', ''a'']"] two_conditions_wf
  show ?thesis by simp
qed

section \<open>Statements\<close>

lemma page_sql_piece:
  assumes "insert table (set (map ci_name columns)) \<union> set_option sort_col \<subseteq> names"
    "piece dquote names n clause"
  shows "piece dquote names (n + 2) (page_sql_sqlite table columns clause sort_col desc)"
  using sq.page_piece [of "''select ''" table "map ci_name columns" sort_col None names n clause
      "'' limit ? offset ?''" desc] assms
  by (simp add: page_sql_sqlite_def select_list_sqlite_def cast_text_sqlite_def schema_prefix_def o_def
      plain_def is_marker_def)

lemma join_sql_piece:
  assumes "plan_wf p" "plan_names p None \<subseteq> names" "build_select p JOIN_DIALECT_sqlite None = (body, values)"
  shows "piece dquote names (length values + 2) (''select '' @ body)"
proof -
  have "piece dquote (plan_names p None) (length values + 2) body"
    using sq.build_select_piece [OF assms(1), of None] assms(3) by simp
  from piece_append0 [OF sq.literal0 [of "''select ''"] piece_mono [OF this assms(2)]]
  show ?thesis by (simp add: plain_def is_marker_def)
qed

section \<open>Catalog operations\<close>

lemma armed_query:
  "sqlite_statement A sql binds \<Longrightarrow> sane T (Armed d) h \<Longrightarrow> A \<subseteq> texts h \<Longrightarrow>
   sane T (Armed d) (h @ [(Fetch mode tys sql binds, r)])"
  by (rule sane_query)

lemma fixed_statement:
  "sqlite_statement A ALLOWED_TABLES_SQL binds" "sqlite_statement A REFERENCED_BY_SQL binds"
  "sqlite_statement A INDEX_TEXT_SQL binds"
  by (simp_all add: sqlite_statement_def)

lemma table_statement:
  assumes "t \<in> A"
  shows "sqlite_statement A (allowed_columns_sql (quote_ident t)) binds"
    "sqlite_statement A (key_columns_sql (quote_ident t)) binds"
    "sqlite_statement A (key_fks_sql (quote_ident t)) binds"
    "sqlite_statement A (table_meta_sql (quote_ident t)) binds"
    "sqlite_statement A (index_sql (quote_ident t)) binds"
    "sqlite_statement A (pk_sql (quote_ident t)) binds"
    "sqlite_statement A (structure_fks_sql (quote_ident t)) binds"
  using assms by (auto simp: sqlite_statement_def)

lemma piece_statement: "piece dquote A (length binds) sql \<Longrightarrow> sqlite_statement A sql binds"
  by (simp add: sqlite_statement_def)

lemma keeps_allowed_tables_on: "keeps (sane T (Armed d)) {} allowed_tables_on set (\<lambda>_. True)"
  unfolding allowed_tables_on_def
  by (rule keeps_fetch_all)
    (auto intro!: armed_query [OF fixed_statement(1)] bexI [rotated] dest!: those_mem simp: decode_Some)

lemma keeps_allowed_tables:
  "CATALOG_TIMEOUT_SECS \<in> T \<Longrightarrow> keeps (sane T Idle) {} allowed_tables set (\<lambda>_. True)"
  unfolding allowed_tables_def by (rule keeps_bounded [OF keeps_allowed_tables_on])

lemma keeps_key_metadata:
  "table \<in> A \<Longrightarrow> keeps (sane T (Armed d)) A (key_metadata_on ord table) (\<lambda>_. {}) (\<lambda>_. True)"
  unfolding key_metadata_on_def Let_def
  by (intro keeps_then_plain keeps_fetch_all keeps_return)
    (auto intro: armed_query table_statement)

lemma keeps_table_meta:
  assumes "table \<in> A"
  shows "keeps (sane T (Armed d)) A (table_meta_on ord table) meta_names (\<lambda>t. tm_name t = table)"
  unfolding table_meta_on_def
proof (rule keeps_then [where M = "\<lambda>cols. {n. \<exists>a b. (a, n, b) \<in> set cols}" and R = "\<lambda>_. True"])
  show "keeps (sane T (Armed d)) A
      (fetch_all (col as_int (\<lambda>cid. col as_text (\<lambda>name. col as_text (\<lambda>ty. row_end (cid, name, ty)))))
        [TInt, TText, TText] (table_meta_sql (quote_ident table)) [])
      (\<lambda>cols. {n. \<exists>a b. (a, n, b) \<in> set cols}) (\<lambda>_. True)"
    by (rule keeps_fetch_all)
      (use assms in \<open>auto intro!: armed_query [OF table_statement(4)] bexI [rotated]
        dest!: those_mem simp: decode_Some\<close>)
next
  fix cols :: "(int \<times> string \<times> string) list"
  show "keeps (sane T (Armed d)) (A \<union> {n. \<exists>a b. (a, n, b) \<in> set cols})
      (io_then (key_metadata_on ord table) (\<lambda>(pks, fks).
        io_return \<lparr>tm_name = table, tm_columns = map (col_meta_sqlite pks fks) cols\<rparr>))
      meta_names (\<lambda>t. tm_name t = table)"
    apply (rule keeps_then_plain [OF keeps_key_metadata], simp add: assms)
    apply (rule keeps_case_prod, rule keeps_return)
     apply (use assms in \<open>auto simp: meta_names_def col_meta_sqlite_def split: prod.splits; blast\<close>)
    apply simp
    done
qed

section \<open>Pages and joins\<close>

lemma page_statement:
  assumes "sort_column (map ci_name (map column_info_of (tm_columns meta))) requested = Inr sort_col"
    "(case flt of
        Some f \<Rightarrow> build_where_clause_sqlite f (map ci_name (map column_info_of (tm_columns meta)))
      | None \<Rightarrow> Inr ([], [])) = Inr (clause, vs)"
    "tm_name meta = t"
  shows "sqlite_statement (meta_names meta)
    (page_sql_sqlite t (map column_info_of (tm_columns meta)) clause sort_col desc)
    (map BText vs @ [l, off])"
proof -
  from sort_column_names [OF assms(1)] have "set_option sort_col \<subseteq> meta_names meta" .
  moreover have "piece dquote (meta_names meta) (length vs) clause"
    by (rule sqw.page_filter_piece [OF assms(2) subset_refl])
  ultimately have "piece dquote (meta_names meta) (length vs + 2)
      (page_sql_sqlite t (map column_info_of (tm_columns meta)) clause sort_col desc)"
    using assms(3) by (intro page_sql_piece) (auto simp: meta_names_def)
  then show ?thesis by (intro piece_statement) simp
qed

lemma keeps_query_table_sqlite:
  assumes "CATALOG_TIMEOUT_SECS \<in> T" "q_timeout_secs opts \<in> T"
  shows "keeps (sane T Idle) {} (query_table_sqlite ord schema table opts) (\<lambda>_. {})
    (\<lambda>t. page_wf t \<and> td_total_approx t = -1)"
  unfolding query_table_sqlite_def Let_def
  apply (rule keeps_result_then)
  apply (rule keeps_then [OF keeps_allowed_tables [OF assms(1)]])
  apply (rule keeps_result_then)
  subgoal for _ tables t
    apply (rule keeps_then [OF keeps_bounded [OF keeps_table_meta assms(1)]], simp)
    apply (rule keeps_result_then)+
    apply (rule keeps_case_prod)
    subgoal for meta sort_col cv clause vs
      apply (rule keeps_then [where M = "\<lambda>_. {}" and
            R = "\<lambda>rows. \<forall>r \<in> set rows. dom r = cm_name ` set (tm_columns meta)"])
       apply (rule keeps_bounded [OF _ assms(2)], rule keeps_then_plain, rule keeps_fetch)
          apply (rule armed_query [OF page_statement], assumption)
              apply (simp only:)
             apply (simp; blast)+
       apply (rule keeps_return; simp add: row_to_json_sqlite_def row_json_dom)
      apply (rule keeps_return; simp add: page_wf_def)
      done
    done
  done

lemma keeps_lookup_sqlite:
  "set allowed \<subseteq> B \<Longrightarrow>
   keeps (sane T (Armed d)) B (lookup_sqlite ord allowed name) meta_names (\<lambda>t. tm_name t = name)"
  by (auto simp: lookup_sqlite_def intro!: keeps_throw keeps_table_meta)

lemma join_statement:
  assumes "plan_wf p" "plan_names p None \<subseteq> names" "build_select p JOIN_DIALECT_sqlite None = (body, values)"
  shows "sqlite_statement names (''select '' @ body) (map BText values @ [l, off])"
  by (rule piece_statement) (use join_sql_piece [OF assms] in simp)

lemma keeps_join_select:
  assumes "plan_wf p" "plan_names p None \<subseteq> A"
  shows "keeps (sane T (Armed d)) A
    (case build_select p JOIN_DIALECT_sqlite None of (body, values) \<Rightarrow>
       io_then (fetch from_sqlx All None (''select '' @ body) (map BText values @ [BInt l, BInt off]))
         (\<lambda>rs. io_return (join_result row_to_json_sqlite p limit rs)))
    (\<lambda>_. {}) (join_wf limit)"
  apply (rule keeps_case_prod, rule keeps_then_plain, rule keeps_fetch)
    apply (rule armed_query [OF join_statement [OF assms]]; assumption)
   apply simp
  apply (rule keeps_return; simp add: join_result_wf assms row_to_json_sqlite_def)
  done

lemma keeps_query_join_sqlite:
  assumes "jo_timeout_secs opts \<in> T" "wf_spec spec"
  shows "keeps (sane T Idle) {} (query_join_sqlite ord schema spec opts) (\<lambda>_. {}) (join_wf (jo_limit opts))"
  unfolding query_join_sqlite_def Let_def
  apply (rule keeps_result_then, rule keeps_bounded [OF _ assms(1)])
  apply (rule keeps_then [OF keeps_allowed_tables_on])
  apply (rule keeps_then [OF keeps_load_metas [OF keeps_lookup_sqlite]], assumption, simp, simp)
  subgoal for _ d allowed metas
    apply (subst tables_of_total, simp)
    apply (rule keeps_outcome_then, simp)
    apply (rule keeps_outcome_then)
    subgoal using make_plan_metas(1) [OF assms(2)] by auto
    subgoal for ts p
      using make_plan_metas(2) [OF assms(2), of metas opts p None]
      by (intro keeps_join_select) auto
    done
  done

section \<open>The other operations\<close>

lemma keeps_list_tables_sqlite:
  "CATALOG_TIMEOUT_SECS \<in> T \<Longrightarrow> keeps (sane T Idle) {} (list_tables_sqlite schema) (\<lambda>ts. ti_name ` set ts) (\<lambda>_. True)"
  unfolding list_tables_sqlite_def
  by (rule keeps_result_then, rule keeps_then [OF keeps_allowed_tables]) (auto intro!: keeps_return)

lemma keeps_table_counts_sqlite:
  "CATALOG_TIMEOUT_SECS \<in> T \<Longrightarrow>
   keeps (sane T Idle) {} (table_counts_sqlite schema) (\<lambda>ts. fst ` set ts) (\<lambda>ts. \<forall>t \<in> set ts. snd t = -1)"
  unfolding table_counts_sqlite_def
  by (rule keeps_result_then, rule keeps_then [OF keeps_allowed_tables]) (auto intro!: keeps_return)

lemma keeps_allowed_columns:
  "CATALOG_TIMEOUT_SECS \<in> T \<Longrightarrow> table \<in> A \<Longrightarrow> keeps (sane T Idle) A (allowed_columns table) set (\<lambda>_. True)"
  unfolding allowed_columns_def
  apply (rule keeps_bounded)
   apply (rule keeps_then [where M = "\<lambda>rows. snd ` set rows" and R = "\<lambda>_. True"])
    apply (rule keeps_fetch_all)
      apply (auto intro!: armed_query [OF table_statement(1)] keeps_return bexI [rotated]
        dest!: those_mem simp: decode_Some)
  done

lemma keeps_common_values_sqlite:
  "CATALOG_TIMEOUT_SECS \<in> T \<Longrightarrow>
   keeps (sane T Idle) {} (common_values_sqlite schema table column) (\<lambda>_. {}) (\<lambda>vs. vs = [])"
  unfolding common_values_sqlite_def
  apply (rule keeps_result_then, rule keeps_then [OF keeps_allowed_tables], assumption)
  apply (rule keeps_result_then, rule keeps_then [OF keeps_allowed_columns], assumption)
   apply simp
  apply (rule keeps_result_then, rule keeps_return; simp)
  done

lemma keeps_referenced_by_sqlite:
  "CATALOG_TIMEOUT_SECS \<in> T \<Longrightarrow>
   keeps (sane T Idle) {} (referenced_by_sqlite schema table) (\<lambda>_. {}) (\<lambda>_. True)"
  unfolding referenced_by_sqlite_def
  apply (rule keeps_result_then, rule keeps_then [OF keeps_allowed_tables], assumption)
  apply (rule keeps_result_then, rule keeps_then_plain [OF keeps_bounded], rule keeps_fetch_all)
      apply (auto intro!: armed_query [OF fixed_statement(2)] keeps_return)
  done

lemma gate_table_Inr [simp]: "gate_table allowed table = Inr u \<longleftrightarrow> table \<in> set allowed"
  by (simp add: gate_table_def)

lemma keeps_armed_rows:
  assumes "decodes dec tys" "sqlite_statement A sql binds"
    "\<And>xs. keeps (sane T (Armed d)) A (f xs) N Q"
  shows "keeps (sane T (Armed d)) A (io_then (fetch_all dec tys sql binds) f) N Q"
  by (rule keeps_then_plain, rule keeps_fetch_all [OF assms(1)])
    (auto intro: armed_query [OF assms(2)] assms(3))

lemma keeps_structure_sqlite:
  "CATALOG_TIMEOUT_SECS \<in> T \<Longrightarrow>
   keeps (sane T Idle) {} (structure_sqlite schema table) (\<lambda>_. {}) (\<lambda>s. k_check (st_constraints s) = [])"
  unfolding structure_sqlite_def Let_def
  apply (rule keeps_result_then, rule keeps_then [OF keeps_allowed_tables], assumption)
  apply (rule keeps_result_then, rule keeps_bounded)
   apply (rule keeps_armed_rows, intro decodes_cols decodes_end, rule table_statement(5), simp)
   apply (rule keeps_armed_rows, intro decodes_cols decodes_end, rule fixed_statement(3))
   apply (rule keeps_case_prod)
   apply (rule keeps_armed_rows, intro decodes_cols decodes_end, rule table_statement(6), simp)
   apply (rule keeps_armed_rows, intro decodes_cols decodes_end, rule table_statement(7), simp)
   apply (rule keeps_return; simp)
  apply assumption
  done

section \<open>Properties of the operations\<close>

text \<open>C2: a page query of the SQLite backend, whatever the request and whatever the database
  answers: it does not panic; every statement runs while a progress handler is armed with the
  deadline of its timeout, counted from the acquisition of the connection, and every connection
  goes back to the pool disarmed (a connection whose handle cannot be locked any more excepted);
  every statement is one of the fixed catalog texts over a table name the database itself
  reported, or lexes to identifiers it reported, plain characters and one placeholder per bound
  value; and each returned row has exactly one entry per reported column.\<close>

theorem query_table_sqlite_safe:
  assumes "contract db"
  shows "fst (query_table_sqlite ord schema table opts db []) \<noteq> Panic
    \<and> conn_run {CATALOG_TIMEOUT_SECS, q_timeout_secs opts} (snd (query_table_sqlite ord schema table opts db [])) Idle
    \<and> guarded sqlite_guard (snd (query_table_sqlite ord schema table opts db []))
    \<and> (\<forall>t. fst (query_table_sqlite ord schema table opts db []) = Done (Inr t) \<longrightarrow>
          page_wf t \<and> td_total_approx t = -1)"
  using keeps_run [OF keeps_query_table_sqlite
      [where T = "{CATALOG_TIMEOUT_SECS, q_timeout_secs opts}" and opts = opts] sane_start assms, of ord schema table]
  by (auto simp: sane_def)

definition users_db :: database where
  "users_db = db_of (\<lambda>sql.
     if sql = ALLOWED_TABLES_SQL then [[CText ''users'']]
     else if sql = table_meta_sql (quote_ident ''users'') then [[CInt 0, CText ''id'', CText ''INTEGER'']]
     else if sql = key_columns_sql (quote_ident ''users'') then [[CInt 0, CText ''id'', CInt 1]]
     else if prefix ''select CAST('' sql then [[CText ''7''], [CNull]]
     else [])"

lemma query_table_sqlite_safe_witness:
  "contract users_db
   \<and> fst (query_table_sqlite id None ''users'' page_opts users_db []) \<noteq> Panic
   \<and> (\<exists>t. fst (query_table_sqlite id None ''users'' page_opts users_db []) = Done (Inr t)
         \<and> page_wf t \<and> length (td_rows t) = 2)"
proof -
  have c: "contract users_db" by (simp add: users_db_def contract_db_of)
  have "case fst (query_table_sqlite id None ''users'' page_opts users_db []) of
      Done (Inr t) \<Rightarrow> length (td_rows t) = 2 | _ \<Rightarrow> False"
    by code_simp
  then obtain t where "fst (query_table_sqlite id None ''users'' page_opts users_db []) = Done (Inr t)"
    "length (td_rows t) = 2"
    by (auto split: outcome.splits sum.splits)
  with query_table_sqlite_safe [OF c, of id None "''users''" page_opts] c show ?thesis by blast
qed

text \<open>C5: a join query of the SQLite backend, for every accepted join and whatever the database
  answers: no panic (so the table map has every table of the join and the planner stays in
  range); the same connection discipline under the request's one deadline and the same statement
  safety; and the result has pairwise distinct labels, at most \<open>limit\<close> rows, exactly one entry
  per label in each row, and reports more rows only when the page is full.\<close>

theorem query_join_sqlite_safe:
  assumes "contract db" "wf_spec spec"
  shows "fst (query_join_sqlite ord schema spec opts db []) \<noteq> Panic
    \<and> conn_run {jo_timeout_secs opts} (snd (query_join_sqlite ord schema spec opts db [])) Idle
    \<and> guarded sqlite_guard (snd (query_join_sqlite ord schema spec opts db []))
    \<and> (\<forall>j. fst (query_join_sqlite ord schema spec opts db []) = Done (Inr j) \<longrightarrow> join_wf (jo_limit opts) j)"
  using keeps_run [OF keeps_query_join_sqlite
      [where T = "{jo_timeout_secs opts}" and opts = opts, OF _ assms(2)] sane_start assms(1), of ord schema]
  by (auto simp: sane_def)

lemma query_join_sqlite_safe_witness:
  "contract users_db \<and> wf_spec sample_spec
   \<and> fst (query_join_sqlite id None sample_spec sample_opts users_db []) \<noteq> Panic
   \<and> conn_run {5} (snd (query_join_sqlite id None sample_spec sample_opts users_db [])) Idle"
proof -
  have "contract users_db" "wf_spec sample_spec"
    by (simp_all add: users_db_def contract_db_of wf_spec_def sample_spec_def wf_entry_def MAX_TABLES_def MAX_PAIRS_def)
  with query_join_sqlite_safe [of users_db sample_spec id None sample_opts] show ?thesis
    by (simp add: sample_opts_def)
qed

text \<open>C30: the catalog operations of the SQLite backend do not panic, keep the connection
  discipline under the catalog timeout and send safe statements only; the tables they list are
  the database's own, no count is ever estimated, no common value is ever reported, and no check
  constraint is.\<close>

theorem catalog_sqlite_safe:
  assumes "contract db"
  shows "fst (list_tables_sqlite schema db []) \<noteq> Panic
      \<and> sane {CATALOG_TIMEOUT_SECS} Idle (snd (list_tables_sqlite schema db []))
      \<and> (\<forall>ts. fst (list_tables_sqlite schema db []) = Done (Inr ts) \<longrightarrow>
            ti_name ` set ts \<subseteq> texts (snd (list_tables_sqlite schema db [])))
    \<and> fst (table_counts_sqlite schema db []) \<noteq> Panic
      \<and> sane {CATALOG_TIMEOUT_SECS} Idle (snd (table_counts_sqlite schema db []))
      \<and> (\<forall>ts. fst (table_counts_sqlite schema db []) = Done (Inr ts) \<longrightarrow> (\<forall>t \<in> set ts. snd t = -1))
    \<and> fst (common_values_sqlite schema table column db []) \<noteq> Panic
      \<and> sane {CATALOG_TIMEOUT_SECS} Idle (snd (common_values_sqlite schema table column db []))
      \<and> (\<forall>vs. fst (common_values_sqlite schema table column db []) = Done (Inr vs) \<longrightarrow> vs = [])
    \<and> fst (referenced_by_sqlite schema table db []) \<noteq> Panic
      \<and> sane {CATALOG_TIMEOUT_SECS} Idle (snd (referenced_by_sqlite schema table db []))
    \<and> fst (structure_sqlite schema table db []) \<noteq> Panic
      \<and> sane {CATALOG_TIMEOUT_SECS} Idle (snd (structure_sqlite schema table db []))
      \<and> (\<forall>s. fst (structure_sqlite schema table db []) = Done (Inr s) \<longrightarrow> k_check (st_constraints s) = [])"
  using keeps_run [OF keeps_list_tables_sqlite sane_start assms, of "{CATALOG_TIMEOUT_SECS}" schema]
    keeps_run [OF keeps_table_counts_sqlite sane_start assms, of "{CATALOG_TIMEOUT_SECS}" schema]
    keeps_run [OF keeps_common_values_sqlite sane_start assms, of "{CATALOG_TIMEOUT_SECS}" schema table column]
    keeps_run [OF keeps_referenced_by_sqlite sane_start assms, of "{CATALOG_TIMEOUT_SECS}" schema table]
    keeps_run [OF keeps_structure_sqlite sane_start assms, of "{CATALOG_TIMEOUT_SECS}" schema table]
  by simp

lemma catalog_sqlite_safe_witness:
  "contract users_db
   \<and> fst (list_tables_sqlite None users_db []) = Done (Inr [\<lparr>ti_name = ''users'', ti_comment = None\<rparr>])
   \<and> sane {CATALOG_TIMEOUT_SECS} Idle (snd (list_tables_sqlite None users_db []))"
proof -
  have c: "contract users_db" by (simp add: users_db_def contract_db_of)
  have "fst (list_tables_sqlite None users_db []) = Done (Inr [\<lparr>ti_name = ''users'', ti_comment = None\<rparr>])"
    by code_simp
  with catalog_sqlite_safe [OF c] c show ?thesis by blast
qed

text \<open>
  Cancellation: dropping an operation's future at the await point of its query returns the
  connection to the pool with the progress handler still armed; the history up to there, followed
  by the release, is not a run of the discipline.
\<close>

lemma bounded_cancelled_armed:
  "\<exists>h. prefix h (snd (allowed_tables users_db [])) \<and> conn_run {CATALOG_TIMEOUT_SECS} h (Armed 5000000000)
     \<and> \<not> (\<exists>c. conn_run {CATALOG_TIMEOUT_SECS} (h @ [(Release, Inr Ack)]) c)"
proof -
  let ?h = "[(Acquire, Inr Ack), (ReadClock, Inr (Clock 0)), (LockHandle, Inr Ack),
    (SetProgress 1000 (Some 5000000000), Inr Ack)] :: history"
  have p: "prefix ?h (snd (allowed_tables users_db []))" by code_simp
  have "conn_step {CATALOG_TIMEOUT_SECS} (Clocked 0)
      (SetProgress 1000 (Some (0 + uint (5 :: u32) * 1000000000)), Inr Ack)
      (Armed (0 + uint (5 :: u32) * 1000000000))"
    by (rule conn_step.arm) (simp_all add: CATALOG_TIMEOUT_SECS_def)
  then have "conn_step {CATALOG_TIMEOUT_SECS} (Clocked 0) (SetProgress 1000 (Some 5000000000), Inr Ack)
      (Armed 5000000000)"
    by simp
  then have r: "conn_run {CATALOG_TIMEOUT_SECS} ?h (Armed 5000000000)"
    using conn_run.step [OF conn_run.step [OF conn_run.step [OF conn_run.step [OF conn_run.start
      conn_step.acquire] conn_step.clock] conn_step.lock_to_arm]]
    by force
  have "\<not> conn_run {CATALOG_TIMEOUT_SECS} (?h @ [(Release, Inr Ack)]) c" for c
  proof
    assume "conn_run {CATALOG_TIMEOUT_SECS} (?h @ [(Release, Inr Ack)]) c"
    then obtain c0 where "conn_run {CATALOG_TIMEOUT_SECS} ?h c0"
      "conn_step {CATALOG_TIMEOUT_SECS} c0 (Release, Inr Ack) c"
      by (cases rule: conn_run.cases) auto
    with conn_run_fun [OF r] show False by (auto simp: conn_step_simps)
  qed
  with p r show ?thesis by blast
qed

end
