(* ===== verification/Request_Log.thy ===== *)
theory Request_Log
  imports Tx_Protocol
begin

text \<open>
  Which requests an operation adds to the history: a calculus \<open>sends\<close> with one rule per construct,
  the number of transactions a history begins, the rows a statement was answered with, and what a
  result of an operation says of its parts.
\<close>

section \<open>Requests an operation may send\<close>

definition sends :: "(request \<Rightarrow> bool) \<Rightarrow> 'a io \<Rightarrow> bool" where
  "sends P m \<longleftrightarrow> (\<forall>db h. \<exists>t. snd (m db h) = h @ t \<and> (\<forall>(q, r) \<in> set t. P q))"

named_theorems sends_rules \<open>one rule per construct of the modelled operations\<close>

lemma sendsE:
  assumes "sends P m"
  obtains t where "snd (m db h) = h @ t" "\<forall>(q, r) \<in> set t. P q"
  using assms unfolding sends_def by blast

lemma sends_mono: "sends P m \<Longrightarrow> (\<And>q. P q \<Longrightarrow> P' q) \<Longrightarrow> sends P' m"
  unfolding sends_def by fast

lemma sends_pure [sends_rules]:
  "sends P (io_return x)" "sends P (io_throw e)" "sends P io_panic" "sends P (io_result s)" "sends P (io_outcome r)"
  by (simp_all add: sends_def io_return_def io_throw_def io_panic_def io_result_def io_outcome_def)

lemma sends_ask [sends_rules]: "P q \<Longrightarrow> sends P (ask f q)"
  by (simp add: sends_def ask_def Let_def)

lemma sends_then [sends_rules]:
  assumes "sends P m" "\<And>x. sends P (f x)"
  shows "sends P (io_then m f)"
  unfolding sends_def
proof (intro allI)
  fix db h
  obtain r h1 where m: "m db h = (r, h1)" by force
  with assms(1) obtain t where t: "h1 = h @ t" "\<forall>(q, r) \<in> set t. P q" by (metis sendsE snd_conv)
  show "\<exists>t. snd (io_then m f db h) = h @ t \<and> (\<forall>(q, r) \<in> set t. P q)"
  proof (cases r rule: meets_cases_outcome)
    case (3 x)
    obtain t' where t': "snd (f x db h1) = h1 @ t'" "\<forall>(q, r) \<in> set t'. P q" using sendsE [OF assms(2)] .
    show ?thesis
      by (rule exI [of _ "t @ t'"]) (use m t t' 3 in \<open>auto simp: io_then_def\<close>)
  qed (use m t in \<open>auto simp: io_then_def\<close>)
qed

lemma sends_map_err [sends_rules]: "sends P m \<Longrightarrow> sends P (io_map_err f m)"
proof -
  have "snd (io_map_err f m db h) = snd (m db h)" for db h
    by (simp add: io_map_err_def split: prod.split outcome.split)
  then show "sends P m \<Longrightarrow> sends P (io_map_err f m)" by (simp add: sends_def)
qed

lemma sends_on_error [sends_rules]:
  assumes "sends P m" "P q"
  shows "sends P (io_on_error m q)"
  unfolding sends_def
proof (intro allI)
  fix db h
  obtain r h1 where m: "m db h = (r, h1)" by force
  with assms(1) obtain t where t: "h1 = h @ t" "\<forall>(q, r) \<in> set t. P q" by (metis sendsE snd_conv)
  show "\<exists>t. snd (io_on_error m q db h) = h @ t \<and> (\<forall>(q, r) \<in> set t. P q)"
    using m t assms(2) by (cases r rule: meets_cases_outcome) (auto simp: io_on_error_def)
qed

lemma sends_fetch [sends_rules]: "P (Fetch mode tys sql binds) \<Longrightarrow> sends P (fetch f mode tys sql binds)"
  unfolding fetch_def by (rule sends_then [OF sends_ask]) (auto intro: sends_pure split: reply.split)

lemma sends_decode [sends_rules]: "sends P (decode_rows dec rs)"
  unfolding decode_rows_def by (auto intro: sends_pure split: option.split)

lemma sends_fetch_rows [sends_rules]:
  "P (Fetch All (Some tys) sql binds) \<Longrightarrow> sends P (fetch_all dec tys sql binds)"
  "P (Fetch One (Some tys) sql binds) \<Longrightarrow> sends P (fetch_one dec tys sql binds)"
  "P (Fetch Opt (Some tys) sql binds) \<Longrightarrow> sends P (fetch_optional dec tys sql binds)"
  unfolding fetch_all_def fetch_one_def fetch_optional_def
  by (auto intro!: sends_rules split: list.split)

lemma sends_branches [sends_rules]:
  "(b \<Longrightarrow> sends P m) \<Longrightarrow> (\<not> b \<Longrightarrow> sends P m') \<Longrightarrow> sends P (if b then m else m')"
  "(\<And>x y. sends P (f x y)) \<Longrightarrow> sends P (case p of (x, y) \<Rightarrow> f x y)"
  "sends P n \<Longrightarrow> (\<And>x. sends P (g x)) \<Longrightarrow> sends P (case opt of None \<Rightarrow> n | Some x \<Rightarrow> g x)"
  by (simp_all split: prod.split option.split)

lemma sends_load_metas [sends_rules]: "(\<And>name. sends P (lookup name)) \<Longrightarrow> sends P (load_metas lookup metas names)"
  by (induction names arbitrary: metas) (auto intro!: sends_rules)

definition not_asking :: "string \<Rightarrow> request \<Rightarrow> bool" where
  "not_asking sql q \<longleftrightarrow> (case q of Fetch mode tys sql' binds \<Rightarrow> sql' \<noteq> sql | _ \<Rightarrow> True)"

lemma not_asking_simps [simp]:
  "not_asking sql (Fetch mode tys sql' binds) \<longleftrightarrow> sql' \<noteq> sql"
  "not_asking sql (Execute s)" "not_asking sql CacheGet" "not_asking sql (CacheSet v)"
  "not_asking sql Begin" "not_asking sql Commit" "not_asking sql Rollback"
  by (simp_all add: not_asking_def)

text \<open>\<open>P\<close> allows the statements in \<open>S\<close>.\<close>

definition allows :: "string set \<Rightarrow> (request \<Rightarrow> bool) \<Rightarrow> bool" where
  "allows S P \<longleftrightarrow> (\<forall>mode tys sql binds. sql \<in> S \<longrightarrow> P (Fetch mode tys sql binds))"

lemma allowsD: "allows S P \<Longrightarrow> sql \<in> S \<Longrightarrow> P (Fetch mode tys sql binds)"
  by (simp add: allows_def)

lemma allows_simps [simp]:
  "allows S (\<lambda>q. q \<noteq> Begin)" "allows S (not_asking sql) \<longleftrightarrow> sql \<notin> S"
  by (auto simp: allows_def not_asking_def)

text \<open>The statements sent are in \<open>S\<close>, beside those that open, set up and close a transaction.\<close>

definition only_statements :: "string set \<Rightarrow> history \<Rightarrow> bool" where
  "only_statements S h \<longleftrightarrow> list_all (\<lambda>(q, r). case q of Fetch mode tys sql binds \<Rightarrow> sql \<in> S | _ \<Rightarrow> True) h"

definition in_statements :: "string set \<Rightarrow> request \<Rightarrow> bool" where
  "in_statements S q \<longleftrightarrow> (case q of Fetch mode tys sql binds \<Rightarrow> sql \<in> S | _ \<Rightarrow> True)"

lemma in_statements_simps [simp]:
  "in_statements S (Fetch mode tys sql binds) \<longleftrightarrow> sql \<in> S"
  "in_statements S (Execute s)" "in_statements S CacheGet" "in_statements S (CacheSet v)"
  "in_statements S Begin" "in_statements S Commit" "in_statements S Rollback"
  "allows S' (in_statements S) \<longleftrightarrow> S' \<subseteq> S"
  by (auto simp: in_statements_def allows_def)

lemma sends_only: "sends (in_statements S) m \<Longrightarrow> only_statements S (snd (m db []))"
  by (erule sendsE [where db = db and h = "[]"]) (auto simp: only_statements_def in_statements_def list_all_iff)

section \<open>Transactions\<close>

definition begins :: "history \<Rightarrow> nat" where
  "begins h = length (filter (\<lambda>(q, r). q = Begin) h)"

lemma begins_Nil [simp]: "begins [] = 0"
  by (simp add: begins_def)

lemma begins_append [simp]: "begins (h @ t) = begins h + begins t"
  by (simp add: begins_def)

lemma begins_none: "\<forall>(q, r) \<in> set t. q \<noteq> Begin \<Longrightarrow> begins t = 0"
  unfolding begins_def by (induction t) auto

lemma sends_begins: "sends (\<lambda>q. q \<noteq> Begin) m \<Longrightarrow> begins (snd (m db h)) = begins h"
  by (erule sendsE [where db = db and h = h]) (simp add: begins_none)

text \<open>A transaction is one request to begin it and the requests of its parts.\<close>

definition in_one_tx :: "(request \<Rightarrow> bool) \<Rightarrow> 'a io \<Rightarrow> bool" where
  "in_one_tx P m \<longleftrightarrow> (\<forall>db h. \<exists>r t. snd (m db h) = h @ (Begin, r) # t \<and> (\<forall>(q, r) \<in> set t. P q))"

lemma in_one_tx_in_tx:
  assumes "sends P conf" "sends P body" "P Commit" "P Rollback"
  shows "in_one_tx P (in_tx conf body)"
  unfolding in_one_tx_def
proof (intro allI)
  fix db h
  let ?rest = "io_on_error
    (io_then conf (\<lambda>_. io_then body (\<lambda>x. io_then (ask from_sqlx Commit) (\<lambda>_. io_return x)))) Rollback"
  have rest: "sends P ?rest" by (intro sends_rules assms)
  show "\<exists>r t. snd (in_tx conf body db h) = h @ (Begin, r) # t \<and> (\<forall>(q, r) \<in> set t. P q)"
  proof (cases "db h Begin")
    case (Inr r)
    obtain t where "snd (?rest db (h @ [(Begin, Inr r)])) = (h @ [(Begin, Inr r)]) @ t" "\<forall>(q, r) \<in> set t. P q"
      using sendsE [OF rest] .
    with Inr show ?thesis by (auto simp: in_tx_def io_then_def ask_def Let_def)
  qed (auto simp: in_tx_def io_then_def ask_def Let_def)
qed

lemma in_one_tx_then:
  assumes "in_one_tx P m" "\<And>x. sends P (f x)"
  shows "in_one_tx P (io_then m f)"
  unfolding in_one_tx_def
proof (intro allI)
  fix db h
  obtain o' h1 where m: "m db h = (o', h1)" by force
  with assms(1) obtain r t where t: "h1 = h @ (Begin, r) # t" "\<forall>(q, r) \<in> set t. P q"
    unfolding in_one_tx_def by (metis snd_conv)
  show "\<exists>r t. snd (io_then m f db h) = h @ (Begin, r) # t \<and> (\<forall>(q, r) \<in> set t. P q)"
  proof (cases o' rule: meets_cases_outcome)
    case (3 x)
    obtain t' where "snd (f x db h1) = h1 @ t'" "\<forall>(q, r) \<in> set t'. P q" using sendsE [OF assms(2)] .
    with m t 3 have "snd (io_then m f db h) = h @ (Begin, r) # (t @ t') \<and> (\<forall>(q, r) \<in> set (t @ t'). P q)"
      by (auto simp: io_then_def)
    then show ?thesis by blast
  qed (use m t in \<open>auto simp: io_then_def\<close>)
qed

lemma in_one_tx_begins: "in_one_tx (\<lambda>q. q \<noteq> Begin) m \<Longrightarrow> begins (snd (m db h)) = Suc (begins h)"
proof -
  assume "in_one_tx (\<lambda>q. q \<noteq> Begin) m"
  then obtain r t where "snd (m db h) = h @ (Begin, r) # t" "\<forall>(q, r) \<in> set t. q \<noteq> Begin"
    unfolding in_one_tx_def by blast
  then show ?thesis using begins_none [of t] by (simp add: begins_def)
qed

lemma sends_in_tx:
  "P Begin \<Longrightarrow> P Commit \<Longrightarrow> P Rollback \<Longrightarrow> sends P conf \<Longrightarrow> sends P body \<Longrightarrow> sends P (in_tx conf body)"
  unfolding in_tx_def by (intro sends_rules)

section \<open>Results and the parts they come from\<close>

lemma io_then_Inr:
  "io_then m f db h = (Done (Inr y), h') \<longleftrightarrow>
     (\<exists>x h1. m db h = (Done (Inr x), h1) \<and> f x db h1 = (Done (Inr y), h'))"
proof -
  obtain r h1 where m: "m db h = (r, h1)" by force
  then show ?thesis by (cases r rule: meets_cases_outcome) (auto simp: io_then_def)
qed

lemma io_pure_Inr:
  "io_return x db h = (Done (Inr y), h') \<longleftrightarrow> y = x \<and> h' = h"
  "io_result s db h = (Done (Inr y), h') \<longleftrightarrow> s = Inr y \<and> h' = h"
  by (auto simp: io_return_def io_result_def)

lemma fetch_all_Inr:
  "fetch_all dec tys sql binds db h = (Done (Inr xs), h') \<longleftrightarrow>
     (\<exists>rs. db h (Fetch All (Some tys) sql binds) = Inr (Rows rs) \<and> those (map dec rs) = Some xs
        \<and> h' = h @ [(Fetch All (Some tys) sql binds, Inr (Rows rs))])"
  by (cases "db h (Fetch All (Some tys) sql binds)")
    (auto simp: fetch_all_def fetch_def decode_rows_def io_then_def ask_def io_return_def io_panic_def Let_def
      split: reply.splits option.splits)

lemma in_tx_Inr:
  assumes "in_tx conf body db h = (Done (Inr x), h')"
  obtains r h1 h2 r' where "body db h1 = (Done (Inr x), h2)" "conf db (h @ [(Begin, Inr r)]) = (Done (Inr ()), h1)"
    "h' = h2 @ [(Commit, Inr r')]"
proof -
  let ?rest = "io_then conf (\<lambda>_. io_then body (\<lambda>x. io_then (ask from_sqlx Commit) (\<lambda>_. io_return x)))"
  obtain r h0 where b: "ask from_sqlx Begin db h = (Done (Inr r), h0)"
    "io_on_error ?rest Rollback db h0 = (Done (Inr x), h')"
    using assms unfolding in_tx_def io_then_Inr by blast
  have h0: "h0 = h @ [(Begin, Inr r)]"
    using b(1) by (cases "db h Begin") (auto simp: ask_def Let_def)
  obtain o' h3 where rest: "?rest db h0 = (o', h3)" by force
  with b(2) have "?rest db h0 = (Done (Inr x), h')"
    by (cases o' rule: meets_cases_outcome) (auto simp: io_on_error_def)
  then obtain h1 h2 r' where "conf db h0 = (Done (Inr ()), h1)" "body db h1 = (Done (Inr x), h2)"
    "ask from_sqlx Commit db h2 = (Done (Inr r'), h')"
    by (auto simp: io_then_Inr io_pure_Inr)
  then show thesis
    using that [of h1 h2 r r'] h0 by (cases "db h2 Commit") (auto simp: ask_def Let_def)
qed

section \<open>The rows a statement was answered with\<close>

definition rows_for :: "string \<Rightarrow> history \<Rightarrow> row list" where
  "rows_for sql h = concat (map (\<lambda>(q, r).
     case q of
       Fetch mode tys sql' binds \<Rightarrow> (case r of Inr (Rows rs) \<Rightarrow> if sql' = sql then rs else [] | _ \<Rightarrow> [])
     | _ \<Rightarrow> []) h)"

lemma rows_for_append [simp]: "rows_for sql (h @ t) = rows_for sql h @ rows_for sql t"
  by (simp add: rows_for_def)

lemma rows_for_simps [simp]:
  "rows_for sql [] = []"
  "rows_for sql [(Fetch mode tys sql' binds, Inr (Rows rs))] = (if sql' = sql then rs else [])"
  "rows_for sql [(Begin, r)] = []" "rows_for sql [(Commit, r)] = []"
  by (simp_all add: rows_for_def)

lemma rows_for_none: "\<forall>(q, r) \<in> set t. not_asking sql q \<Longrightarrow> rows_for sql t = []"
  by (auto simp: rows_for_def not_asking_def split: request.splits sum.splits reply.splits)

lemma sends_rows_for: "sends (not_asking sql) m \<Longrightarrow> m db h = (r, h') \<Longrightarrow> rows_for sql h' = rows_for sql h"
  by (erule sendsE [where db = db and h = h]) (simp add: rows_for_none)

text \<open>The names a statement was answered with: the text of the first column.\<close>

definition names_for :: "string \<Rightarrow> history \<Rightarrow> string list" where
  "names_for sql h = List.map_filter (\<lambda>r. case r of c # _ \<Rightarrow> as_text c | [] \<Rightarrow> None) (rows_for sql h)"

lemma names_for_decoded:
  assumes "those (map (col as_text k) rs) = Some xs" "\<And>n r x. k n r = Some x \<Longrightarrow> name x = n"
  shows "List.map_filter (\<lambda>r. case r of c # _ \<Rightarrow> as_text c | [] \<Rightarrow> None) rs = map name xs"
  using assms(1)
proof (induction rs arbitrary: xs)
  case (Cons r rs)
  then obtain x ys where x: "col as_text k r = Some x" "those (map (col as_text k) rs) = Some ys" "xs = x # ys"
    by (auto split: option.splits)
  from x(1) obtain c cs n where "r = c # cs" "as_text c = Some n" "k n cs = Some x"
    by (auto simp: col_def split: list.splits option.splits simp: bind_eq_Some_conv)
  with Cons.IH [OF x(2)] x(3) assms(2) show ?case by (simp add: map_filter_def)
qed (simp add: map_filter_def)

lemma names_for_append [simp]: "names_for sql (h @ t) = names_for sql h @ names_for sql t"
  by (simp add: names_for_def map_filter_def)

lemma sends_names_for:
  assumes "sends P m" "m db h = (r, h')"
  shows "set (names_for sql h) \<subseteq> set (names_for sql h')"
  using assms by (auto elim!: sendsE [where db = db and h = h])

text \<open>A transaction that ends in one listing statement returns the names it was answered with.\<close>

lemma listing_names:
  assumes "fetch_all (col as_text k) tys sql binds db h1 = (Done (Inr rows), h2)" "rows_for sql h1 = []"
    and name: "\<And>n r x. k n r = Some x \<Longrightarrow> name x = n"
  shows "names_for sql h2 = map name rows"
  using assms(1,2) names_for_decoded [OF _ name] by (auto simp: fetch_all_Inr names_for_def)

lemma in_tx_listing_names:
  assumes run: "in_tx conf (io_then pick (\<lambda>x. fetch_all (col as_text k) tys sql (g x))) db h = (Done (Inr rows), h')"
    and "sends (not_asking sql) conf" "sends (not_asking sql) pick" "rows_for sql h = []"
    and "\<And>n r x. k n r = Some x \<Longrightarrow> name x = n"
  shows "names_for sql h' = map name rows"
proof -
  from run obtain r h1 h2 r' where 1: "conf db (h @ [(Begin, Inr r)]) = (Done (Inr ()), h1)"
    "h' = h2 @ [(Commit, Inr r')]"
    and body: "io_then pick (\<lambda>x. fetch_all (col as_text k) tys sql (g x)) db h1 = (Done (Inr rows), h2)"
    by (rule in_tx_Inr)
  from body obtain x h3 where 2: "pick db h1 = (Done (Inr x), h3)"
    and rows: "fetch_all (col as_text k) tys sql (g x) db h3 = (Done (Inr rows), h2)"
    unfolding io_then_Inr by blast
  have "rows_for sql h3 = []"
    using sends_rows_for [OF assms(2) 1(1)] sends_rows_for [OF assms(3) 2] assms(4) by simp
  from listing_names [OF rows this assms(5)] show ?thesis by (simp add: 1(2) names_for_def)
qed

lemma in_tx_first_listing_names:
  assumes run: "in_tx conf (io_then (fetch_all (col as_text k) tys sql binds) (\<lambda>xs. io_then rest (\<lambda>d. io_return (xs, d)))) db h
      = (Done (Inr (rows, d)), h')"
    and "sends (not_asking sql) conf" "sends (not_asking sql) rest" "rows_for sql h = []"
    and "\<And>n r x. k n r = Some x \<Longrightarrow> name x = n"
  shows "names_for sql h' = map name rows"
proof -
  from run obtain r h1 h2 r' where 1: "conf db (h @ [(Begin, Inr r)]) = (Done (Inr ()), h1)"
    "h' = h2 @ [(Commit, Inr r')]"
    and body: "io_then (fetch_all (col as_text k) tys sql binds) (\<lambda>xs. io_then rest (\<lambda>d. io_return (xs, d))) db h1
      = (Done (Inr (rows, d)), h2)"
    by (rule in_tx_Inr)
  from body obtain h3 where rows: "fetch_all (col as_text k) tys sql binds db h1 = (Done (Inr rows), h3)"
    and 2: "rest db h3 = (Done (Inr d), h2)"
    by (auto simp: io_then_Inr io_pure_Inr)
  have "rows_for sql h1 = []" using sends_rows_for [OF assms(2) 1(1)] assms(4) by simp
  from listing_names [OF rows this assms(5)] show ?thesis
    using sends_rows_for [OF assms(3) 2] by (simp add: 1(2) names_for_def)
qed

lemma safe_run_log:
  "safe_run I N Q a \<Longrightarrow> (I (snd a) \<Longrightarrow> J (snd a)) \<Longrightarrow> safe_run J N Q a"
  by (simp add: safe_run_def)

text \<open>The rows of a type that starts with a name.\<close>

lemma decoded_simps:
  "row_end x r = Some y \<longleftrightarrow> r = [] \<and> y = x"
  "col d k r = Some y \<longleftrightarrow> (\<exists>c cs x. r = c # cs \<and> d c = Some x \<and> k x cs = Some y)"
  by (auto simp: row_end_def col_def bind_eq_Some_conv split: list.split)

section \<open>One question, then one transaction\<close>

text \<open>
  Up to the first transaction at most one statement is sent, one of \<open>U\<close>; from there on, none of \<open>U\<close>
  is, and no second transaction is begun.
\<close>

definition asks_rows :: "request \<Rightarrow> bool" where
  "asks_rows q \<longleftrightarrow> (case q of Fetch mode tys sql binds \<Rightarrow> True | _ \<Rightarrow> False)"

definition before_tx :: "history \<Rightarrow> history" where
  "before_tx h = takeWhile (\<lambda>(q, r). q \<noteq> Begin) h"

definition from_tx :: "history \<Rightarrow> history" where
  "from_tx h = dropWhile (\<lambda>(q, r). q \<noteq> Begin) h"

definition one_tx_after :: "string \<Rightarrow> history \<Rightarrow> bool" where
  "one_tx_after u h \<longleftrightarrow>
     only_statements {u} (before_tx h) \<and> length (filter (\<lambda>(q, r). asks_rows q) (before_tx h)) \<le> 1
     \<and> list_all (\<lambda>(q, r). not_asking u q) (from_tx h) \<and> begins (from_tx h) \<le> 1"

lemma asks_rows_simps [simp]:
  "asks_rows (Fetch mode tys sql binds)" "\<not> asks_rows CacheGet" "\<not> asks_rows (CacheSet v)"
  by (simp_all add: asks_rows_def)

lemma one_tx_after_pre:
  assumes "\<forall>(q, r) \<in> set h. q \<noteq> Begin" "only_statements {u} h" "length (filter (\<lambda>(q, r). asks_rows q) h) \<le> 1"
  shows "one_tx_after u h"
proof -
  have "before_tx h = h" "from_tx h = []"
    using assms(1) by (auto simp: before_tx_def from_tx_def takeWhile_eq_all_conv dropWhile_eq_Nil_conv)
  with assms(2,3) show ?thesis by (simp add: one_tx_after_def)
qed

lemma one_tx_after_tx:
  assumes "\<forall>(q, r) \<in> set h. q \<noteq> Begin" "only_statements {u} h" "length (filter (\<lambda>(q, r). asks_rows q) h) \<le> 1"
    and "\<forall>(q, r) \<in> set t. q \<noteq> Begin \<and> not_asking u q"
  shows "one_tx_after u (h @ (Begin, r) # t)"
proof -
  have "before_tx (h @ (Begin, r) # t) = h" "from_tx (h @ (Begin, r) # t) = (Begin, r) # t"
    using assms(1) by (induction h) (auto simp: before_tx_def from_tx_def)
  moreover have "begins ((Begin, r) # t) = 1"
    using begins_none [of t] assms(4) by (auto simp: begins_def)
  ultimately show ?thesis using assms(2-4) by (auto simp: one_tx_after_def list_all_iff)
qed

end
