(* ===== verification/Postgres_Correct.thy ===== *)
theory Postgres_Correct
  imports Postgres Where_Builder Request_Log
begin

text \<open>
  The PostgreSQL backend's correctness: its dialect, filter builder and transactions implement the
  shared interfaces, and every operation keeps the transaction discipline under its timeout, sends
  only statements over names the database reported or confirmed, and never panics.
\<close>

section \<open>The dialect and the filter builder\<close>

interpretation pg: sql_dialect dquote JOIN_DIALECT_pg "[]" "''::text''"
  by unfold_locales
    (simp_all add: JOIN_DIALECT_pg_def cast_text_pg_def dq.lex_quote plain_def is_marker_def)

lemma dialect_pg_simps [simp]:
  "d_quote JOIN_DIALECT_pg = quote_ident" "d_numbered JOIN_DIALECT_pg = True"
  "d_ilike JOIN_DIALECT_pg = Native" "d_cast_text JOIN_DIALECT_pg = cast_text_pg"
  by (simp_all add: JOIN_DIALECT_pg_def)

definition cond_pg :: "string list \<Rightarrow> nat \<Rightarrow> nat \<Rightarrow> condition \<Rightarrow> db_error + (string \<times> string list)" where
  "cond_pg cols i k c = and_then (where_condition_pg cols i k c) (\<lambda>(frag, vs, _). Inr (frag, vs))"

lemma where_condition_pg_param:
  "where_condition_pg cols i k c = Inr (frag, vs, k') \<Longrightarrow> k' = k + length vs"
  by (auto simp: where_condition_pg_def Let_def split: if_splits)

lemma cond_pg_ok:
  assumes "shaped i c"
  shows "cond_pg cols i k c = condition_result JOIN_DIALECT_pg cols i k c"
proof (cases "c_column c \<in> set cols")
  case True
  from assms True shaped_logic [OF assms] show ?thesis
    by (cases "c_value c"; cases "c_op c")
      (auto simp: shaped_def cond_pg_def where_condition_pg_def condition_result_def condition_text_def
        takes_value_def cast_text_pg_def placeholder_def joiner_def wrap_not_def Let_def find_allowed_eq)
qed (simp add: cond_pg_def where_condition_pg_def condition_result_def find_allowed_eq)

lemma cond_pg_normal: "cond_pg cols i k (normal c) = cond_pg cols i k c"
proof (cases "takes_value (c_op c)")
  case False
  then show ?thesis unfolding cond_pg_def where_condition_pg_def normal_simps(1-4) by (simp only: if_False)
qed (simp add: normal_id)

lemma cond_pg_shaped: "cond_pg cols i k c = Inr fv \<Longrightarrow> shaped i (normal c)"
  by (cases "takes_value (c_op c)")
    (auto simp: cond_pg_def where_condition_pg_def shaped_def Let_def split: if_splits prod.splits)

interpretation pgw: where_builder dquote JOIN_DIALECT_pg "[]" "''::text''"
  cond_pg where_loop_pg build_where_clause_pg
proof
  show "where_loop_pg cols i k (c # cs) =
      and_then (cond_pg cols i k c) (\<lambda>(frag, vs).
      and_then (where_loop_pg cols (i + 1) (if d_numbered JOIN_DIALECT_pg then k + length vs else k) cs)
        (\<lambda>(clause, values). Inr (frag @ clause, vs @ values)))" for cols i k c cs
    by (cases "where_condition_pg cols i k c")
      (auto simp: cond_pg_def dest: where_condition_pg_param split: prod.splits)
qed (auto simp: cond_pg_ok cond_pg_normal build_where_clause_pg_def dest: cond_pg_shaped)

section \<open>Statements\<close>

definition pg_fixed :: "string set" where
  "pg_fixed = {LIST_SCHEMAS_SQL_pg, ''select current_schema()'', OID_SQL, INDEXES_SQL, KEYS_SQL, FKS_SQL,
     CHECKS_SQL, ALLOWED_COLUMNS_SQL_pg, KEY_METADATA_SQL_pg, TABLE_META_SQL_pg, LIST_TABLES_SQL_pg,
     TABLE_COUNTS_SQL_pg, TOTAL_SQL, STATS_SQL, DATA_TYPE_SQL, REFERENCED_BY_SQL_pg}"

definition pg_statement :: "string set \<Rightarrow> string \<Rightarrow> bind list \<Rightarrow> bool" where
  "pg_statement known sql binds \<longleftrightarrow> sql \<in> pg_fixed \<or> piece dquote known (length binds) sql"

lemma pg_fixed_statement [intro]: "sql \<in> pg_fixed \<Longrightarrow> pg_statement A sql binds"
  by (simp add: pg_statement_def)

lemma pg_fixed_members [simp]:
  "LIST_SCHEMAS_SQL_pg \<in> pg_fixed" "''select current_schema()'' \<in> pg_fixed" "OID_SQL \<in> pg_fixed"
  "INDEXES_SQL \<in> pg_fixed" "KEYS_SQL \<in> pg_fixed" "FKS_SQL \<in> pg_fixed" "CHECKS_SQL \<in> pg_fixed"
  "ALLOWED_COLUMNS_SQL_pg \<in> pg_fixed" "KEY_METADATA_SQL_pg \<in> pg_fixed" "TABLE_META_SQL_pg \<in> pg_fixed"
  "LIST_TABLES_SQL_pg \<in> pg_fixed" "TABLE_COUNTS_SQL_pg \<in> pg_fixed" "TOTAL_SQL \<in> pg_fixed"
  "STATS_SQL \<in> pg_fixed" "DATA_TYPE_SQL \<in> pg_fixed" "REFERENCED_BY_SQL_pg \<in> pg_fixed"
  unfolding pg_fixed_def by blast+

interpretation pgt: transactional "set_timeout_sql ` T" "{}" pg_statement for T
  by unfold_locales (auto simp: pg_statement_def intro: piece_mono)

abbreviation pg_state :: "u32 set \<Rightarrow> tx \<Rightarrow> history \<Rightarrow> bool" where
  "pg_state T \<equiv> tx_sane (set_timeout_sql ` T) {} pg_statement"

abbreviation pg_ready :: "u32 set \<Rightarrow> string set \<Rightarrow> 'a io \<Rightarrow> ('a \<Rightarrow> string set) \<Rightarrow> ('a \<Rightarrow> bool) \<Rightarrow> bool" where
  "pg_ready T \<equiv> keeps_or (pg_state T Ready) (pg_state T Failed)"

lemma set_timeout_triple:
  assumes "s \<in> T"
  shows "triple (\<lambda>h. pg_state T (begun (set_timeout_sql ` T)) h \<and> K \<subseteq> texts h) (set_timeout s)
    (\<lambda>_ h. pg_state T Ready h \<and> K \<subseteq> texts h) (\<lambda>_ h. pg_state T Ready h \<or> pg_state T Failed h)"
  unfolding set_timeout_def
proof (rule triple_then [where R = "\<lambda>_ h. pg_state T Ready h \<and> K \<subseteq> texts h"])
  have m: "set_timeout_sql s \<in> set_timeout_sql ` T" using assms by blast
  have b: "begun (set_timeout_sql ` T) = Fresh" using assms by (auto simp: begun_def)
  show "triple (\<lambda>h. pg_state T (begun (set_timeout_sql ` T)) h \<and> K \<subseteq> texts h)
      (ask from_sqlx (Execute (set_timeout_sql s)))
      (\<lambda>_ h. pg_state T Ready h \<and> K \<subseteq> texts h) (\<lambda>_ h. pg_state T Ready h \<or> pg_state T Failed h)"
    unfolding b
    by (rule triple_ask)
      (auto intro: tx_sane_step [OF _ tx_step.configure [OF m]] tx_sane_step [OF _ tx_step.configure_failed [OF m]])
qed (auto intro!: triple_rules)

lemma keeps_bounded_tx:
  "s \<in> T \<Longrightarrow> pg_ready T A b N Q \<Longrightarrow> keeps (pg_state T Closed) A (bounded_tx s b) N Q"
  unfolding bounded_tx_def by (rule pgt.keeps_in_tx [OF set_timeout_triple])

section \<open>Catalog lookups\<close>

lemma ready_resolve_schema_pg:
  "pg_ready T A (resolve_schema_in_tx_pg requested) (\<lambda>s. {s}) (\<lambda>_. True)"
  unfolding resolve_schema_in_tx_pg_def pick_schema_def list_schemas_in_tx_pg_def default_schema_in_tx_pg_def
proof (rule keeps_then [where M = set and R = "\<lambda>_. True"])
  show "pg_ready T A (fetch_all (col as_text row_end) [TText] LIST_SCHEMAS_SQL_pg []) set (\<lambda>_. True)"
    by (rule pgt.ready_fetch_all)
      (auto intro!: pg_fixed_statement bexI [rotated] dest!: those_mem simp: decode_Some)
next
  fix schemas
  show "pg_ready T (A \<union> set schemas)
      (io_then (case requested of
          None \<Rightarrow> io_then (fetch_one (col as_opt_text row_end) [TOptText] ''select current_schema()'' [])
            (\<lambda>d. io_result (ok_or no_default_schema d))
        | Some name \<Rightarrow> io_return name)
        (\<lambda>resolved. io_result (find_allowed Schema ''schema'' schemas resolved))) (\<lambda>s. {s}) (\<lambda>_. True)"
  proof (rule keeps_then_plain)
    show "pg_ready T (A \<union> set schemas)
        (case requested of
          None \<Rightarrow> io_then (fetch_one (col as_opt_text row_end) [TOptText] ''select current_schema()'' [])
            (\<lambda>d. io_result (ok_or no_default_schema d))
        | Some name \<Rightarrow> io_return name) (\<lambda>_. {}) (\<lambda>_. True)"
      by (cases requested)
        (auto intro!: pgt.ready_row keeps_result keeps_return)
  qed (auto intro!: keeps_result)
qed

lemma ready_readable_oid:
  "pg_ready T A (readable_table_oid schema table) (\<lambda>_. {table}) (\<lambda>_. True)"
proof -
  have "pg_ready T A
      (io_then (fetch_optional (col as_int row_end) [TInt] OID_SQL [BText schema, BText table]) (\<lambda>found.
        io_result (ok_or (not_allowed Table (''table '' @ debug_str table)) found))) (\<lambda>_. {table}) (\<lambda>_. True)"
  proof (rule keeps_then [where M = "\<lambda>found. if found = None then {} else {table}" and R = "\<lambda>_. True"])
    show "pg_ready T A (fetch_optional (col as_int row_end) [TInt] OID_SQL [BText schema, BText table])
        (\<lambda>found. if found = None then {} else {table}) (\<lambda>_. True)"
      by (rule pgt.ready_fetch_optional) auto
  next
    fix found :: "int option"
    show "pg_ready T (A \<union> (if found = None then {} else {table}))
        (io_result (ok_or (not_allowed Table (''table '' @ debug_str table)) found)) (\<lambda>_. {table}) (\<lambda>_. True)"
      by (rule keeps_result) auto
  qed
  then show ?thesis by (simp add: readable_table_oid_def keeps_throw)
qed

lemma ready_key_metadata_pg:
  "pg_ready T A (key_metadata_in_tx_pg ord schema table) (\<lambda>_. {}) (\<lambda>_. True)"
  unfolding key_metadata_in_tx_pg_def by (auto intro!: pgt.ready_rows keeps_return)

lemma ready_table_meta_pg:
  assumes "table \<in> A"
  shows "pg_ready T A (table_meta_in_tx_pg ord schema table oid) meta_names (\<lambda>t. tm_name t = table)"
  unfolding table_meta_in_tx_pg_def
proof (rule keeps_then [where M = "\<lambda>cols. fst ` set cols" and R = "\<lambda>_. True"])
  show "pg_ready T A
      (fetch_all (col as_text (\<lambda>n. col as_text (\<lambda>d. col as_text (\<lambda>us. col as_text (\<lambda>un. col as_bool (\<lambda>e.
         col as_text (\<lambda>t. col as_opt_text (\<lambda>c. col as_opt_text (\<lambda>l. row_end (n, d, us, un, e, t, c, l))))))))))
        [TText, TText, TText, TText, TBool, TText, TOptText, TOptText] TABLE_META_SQL_pg
        [BText schema, BText table, BInt oid]) (\<lambda>cols. fst ` set cols) (\<lambda>_. True)"
    by (rule pgt.ready_fetch_all)
      (auto intro!: pg_fixed_statement bexI [rotated] dest!: those_mem simp: decode_Some)
next
  fix cols :: "meta_row_pg list"
  show "pg_ready T (A \<union> fst ` set cols)
      (io_then (key_metadata_in_tx_pg ord schema table) (\<lambda>(pks, fks).
        io_return \<lparr>tm_name = table, tm_columns = map (col_meta_pg pks fks) cols\<rparr>))
      meta_names (\<lambda>t. tm_name t = table)"
    apply (rule keeps_then_plain [OF ready_key_metadata_pg], rule keeps_case_prod, rule keeps_return)
     apply (use assms in \<open>force simp: meta_names_def col_meta_pg_def split: prod.splits\<close>)
    apply simp
    done
qed

section \<open>Pages and joins\<close>

lemma page_statement_pg:
  assumes "sort_column (map ci_name (map column_info_of (tm_columns meta))) requested = Inr sort_col"
    "(case flt of
        Some f \<Rightarrow> build_where_clause_pg f (map ci_name (map column_info_of (tm_columns meta)))
      | None \<Rightarrow> Inr ([], [])) = Inr (clause, vs)"
    "tm_name meta = table" "insert schema (meta_names meta) \<subseteq> A"
  shows "pg_statement A
    (page_sql_pg schema table (map column_info_of (tm_columns meta)) clause sort_col desc)
    ([l, off] @ map BText vs)"
proof -
  have "piece dquote A (length vs) clause"
    by (rule pgw.page_filter_piece [OF assms(2)]) (use assms(4) in blast)
  moreover have "insert table (set (map cm_name (tm_columns meta))) \<union> set_option sort_col \<union> {schema} \<subseteq> A"
    using assms(3,4) sort_column_names [OF assms(1)] by (auto simp: meta_names_def)
  ultimately show ?thesis
    using pg.page_piece [of "''select ''" table "map cm_name (tm_columns meta)" sort_col "Some schema" A "length vs"
        clause "'' limit $1 offset $2''" desc]
    by (simp add: pg_statement_def page_sql_pg_def schema_prefix_def cast_text_pg_def o_def plain_def
        is_marker_def)
qed

lemma keeps_query_table_pg:
  assumes "q_timeout_secs opts \<in> T"
  shows "keeps (pg_state T Closed) {} (query_table_pg ord schema table opts) (\<lambda>_. {}) page_wf"
  unfolding query_table_pg_def Let_def
  apply (rule keeps_bounded_tx [OF assms])
  apply (rule keeps_then [OF ready_resolve_schema_pg])
  subgoal for schema'
    apply (rule keeps_then [OF ready_readable_oid])
    apply (rule keeps_then [OF ready_table_meta_pg], simp)
    apply (rule keeps_result_then)+
    apply (rule keeps_case_prod)
    apply (rule keeps_then_plain, rule pgt.ready_fetch, rule page_statement_pg, assumption)
        apply (simp only:)
       apply simp
      apply blast
     apply simp
    apply (rule pgt.ready_row, intro decodes_cols decodes_end, simp add: pg_fixed_statement)
    apply (rule keeps_return; simp add: page_wf_def row_to_json_pg_def row_json_dom)
    done
  done

lemma ready_lookup_pg: "pg_ready T A (lookup_pg ord schema name) meta_names (\<lambda>t. tm_name t = name)"
  unfolding lookup_pg_def
  by (rule keeps_then [OF keeps_map_err [OF ready_readable_oid] keeps_map_err [OF ready_table_meta_pg]]) simp

lemma join_statement_pg:
  assumes "plan_wf p" "plan_names p (Some schema) \<subseteq> A"
    "build_select p JOIN_DIALECT_pg (Some schema) = (body, values)"
  shows "pg_statement A (''select '' @ body) ([l, off] @ map BText values)"
proof -
  have "piece dquote (plan_names p (Some schema)) (length values + 2) body"
    using pg.build_select_piece [OF assms(1), of "Some schema"] assms(3) by simp
  from piece_append0 [OF pg.literal0 [of "''select ''"] piece_mono [OF this assms(2)]]
  show ?thesis by (simp add: pg_statement_def plain_def is_marker_def)
qed

lemma keeps_query_join_pg:
  assumes "jo_timeout_secs opts \<in> T" "wf_spec spec"
  shows "keeps (pg_state T Closed) {} (query_join_pg ord schema spec opts) (\<lambda>_. {}) (join_wf (jo_limit opts))"
  unfolding query_join_pg_def Let_def
proof (rule keeps_then [where M = "\<lambda>_. {}" and R = "\<lambda>(p, rs). plan_wf p"], rule keeps_bounded_tx [OF assms(1)],
    rule keeps_then [OF ready_resolve_schema_pg], rule keeps_then [OF keeps_load_metas [where A = "{}", OF ready_lookup_pg]])
  fix schema' metas
  assume m: "metas_good metas \<and> dom Map.empty \<union> set (table_names spec) \<subseteq> dom metas"
  show "pg_ready T ({} \<union> {schema'} \<union> metas_names metas)
    (io_then (io_outcome (tables_of metas (table_names spec))) (\<lambda>tables.
       io_then (io_outcome (make_plan spec tables opts)) (\<lambda>p.
         case build_select p JOIN_DIALECT_pg (Some schema') of (body, values) \<Rightarrow>
           io_then (fetch (map_select_denied_pg (js_table spec) (jo_sort opts)) All None (''select '' @ body)
             ([BInt (uint (jo_limit opts) + 1), BInt (uint (jo_offset opts))] @ map BText values))
           (\<lambda>rs. io_return (p, rs))))) (\<lambda>_. {}) (\<lambda>(p, rs). plan_wf p)"
    apply (subst tables_of_total, use m in simp)
    apply (rule keeps_outcome_then, simp)
    apply (rule keeps_outcome_then)
    subgoal using make_plan_metas(1) [OF assms(2)] m by auto
    subgoal for ts p
      using make_plan_metas(2) [OF assms(2), of metas opts p "Some schema'"] m
      by (intro keeps_case_prod keeps_then_plain [OF pgt.ready_fetch [OF join_statement_pg]] keeps_return)
        auto
    done
next
  fix x :: "plan \<times> row list"
  assume "case x of (p, rs) \<Rightarrow> plan_wf p"
  then show "keeps (pg_state T Closed) ({} \<union> {})
      (case x of (p, rs) \<Rightarrow> io_return (join_result row_to_json_pg p (jo_limit opts) rs)) (\<lambda>_. {}) (join_wf (jo_limit opts))"
    by (auto intro!: keeps_return simp: join_result_wf row_to_json_pg_def split: prod.splits)
qed simp_all

section \<open>The other operations\<close>

lemma ready_names_pg:
  assumes "sql \<in> pg_fixed"
  shows "pg_ready T A (fetch_all (col as_text row_end) [TText] sql binds) set (\<lambda>_. True)"
  by (rule pgt.ready_fetch_all)
    (use assms in \<open>auto intro!: bexI [rotated] dest!: those_mem simp: decode_Some\<close>)

lemma keeps_list_schemas_pg:
  assumes "CATALOG_TIMEOUT_SECS_pg \<in> T"
  shows "keeps (pg_state T Closed) {} list_schemas_pg (\<lambda>l. set (sl_schemas l))
    (\<lambda>l. set_option (sl_default l) \<subseteq> set (sl_schemas l))"
  unfolding list_schemas_pg_def list_schemas_in_tx_pg_def default_schema_in_tx_pg_def
proof (rule keeps_then [where M = "\<lambda>x. set (fst x)" and R = "\<lambda>_. True"], rule keeps_bounded_tx [OF assms],
    rule keeps_then [OF ready_names_pg])
  fix schemas
  show "pg_ready T ({} \<union> set schemas)
      (io_then (fetch_one (col as_opt_text row_end) [TOptText] ''select current_schema()'' [])
        (\<lambda>dflt. io_return (schemas, dflt))) (\<lambda>x. set (fst x)) (\<lambda>_. True)"
    by (auto intro!: pgt.ready_row keeps_return)
next
  fix x :: "string list \<times> string option"
  show "keeps (pg_state T Closed) ({} \<union> set (fst x))
      (case x of (schemas, dflt) \<Rightarrow> io_return (schema_listing_new schemas dflt)) (\<lambda>l. set (sl_schemas l))
      (\<lambda>l. set_option (sl_default l) \<subseteq> set (sl_schemas l))"
    by (auto intro!: keeps_return simp: schema_listing_new_def split: prod.splits option.splits)
qed simp

lemma keeps_list_tables_pg:
  assumes "CATALOG_TIMEOUT_SECS_pg \<in> T"
  shows "keeps (pg_state T Closed) {} (list_tables_pg schema) (\<lambda>ts. ti_name ` set ts) (\<lambda>_. True)"
  unfolding list_tables_pg_def
proof (rule keeps_then [where M = "\<lambda>rows. fst ` set rows" and R = "\<lambda>_. True"], rule keeps_bounded_tx [OF assms],
    rule keeps_then [OF ready_resolve_schema_pg])
  fix schema'
  show "pg_ready T ({} \<union> {schema'})
      (fetch_all (col as_text (\<lambda>n. col as_opt_text (\<lambda>c. row_end (n, c)))) [TText, TOptText] LIST_TABLES_SQL_pg
        [BText schema']) (\<lambda>rows. fst ` set rows) (\<lambda>_. True)"
    by (rule pgt.ready_fetch_all)
      (auto intro!: bexI [rotated] dest!: those_mem simp: decode_Some)
next
  fix rows :: "(string \<times> string option) list"
  show "keeps (pg_state T Closed) ({} \<union> fst ` set rows)
      (io_return (map (\<lambda>(name, comment). \<lparr>ti_name = name, ti_comment = comment\<rparr>) rows))
      (\<lambda>ts. ti_name ` set ts) (\<lambda>_. True)"
    by (rule keeps_return) force+
qed

lemma keeps_table_counts_pg:
  assumes "CATALOG_TIMEOUT_SECS_pg \<in> T"
  shows "keeps (pg_state T Closed) {} (table_counts_pg schema) (\<lambda>ts. fst ` set ts) (\<lambda>_. True)"
  unfolding table_counts_pg_def
  by (rule keeps_bounded_tx [OF assms], rule keeps_then [OF ready_resolve_schema_pg], rule pgt.ready_fetch_all)
    (auto intro!: bexI [rotated] dest!: those_mem simp: decode_Some)

lemma keeps_common_values_pg:
  assumes "CATALOG_TIMEOUT_SECS_pg \<in> T"
  shows "keeps (pg_state T Closed) {} (common_values_pg schema table column) (\<lambda>_. {}) (\<lambda>_. True)"
  unfolding common_values_pg_def allowed_columns_in_tx_pg_def
proof (rule keeps_then_plain, rule keeps_bounded_tx [OF assms], rule keeps_then [OF ready_resolve_schema_pg],
    rule keeps_then [OF ready_readable_oid], rule keeps_then [OF ready_names_pg])
  fix schema' cols
  show "pg_ready T ({} \<union> {schema'} \<union> {table} \<union> set cols)
      (io_then (io_result (find_allowed Column ''column'' cols column)) (\<lambda>column.
       io_then (fetch_all (col as_text (\<lambda>v. col as_real (\<lambda>f. row_end (v, f)))) [TText, TReal]
                   STATS_SQL [BText schema', BText table, BText column]) (\<lambda>rows.
       io_then (fetch_optional (col as_text row_end) [TText] DATA_TYPE_SQL
                   [BText schema', BText table, BText column]) (\<lambda>data_type.
       io_return (rows, data_type))))) (\<lambda>_. {}) (\<lambda>_. True)"
    apply (rule keeps_result_then, rule pgt.ready_rows, intro decodes_cols decodes_end, simp add: pg_fixed_statement)
    apply (rule keeps_then_plain, rule pgt.ready_fetch_optional)
         apply (auto intro!: keeps_return)
    done
next
  fix x :: "(string \<times> u32) list \<times> string option"
  show "keeps (pg_state T Closed) {}
      (case x of (rows, data_type) \<Rightarrow>
         io_return (if data_type = Some ''boolean'' then map (\<lambda>(val, freq). (bool_text val, freq)) rows else rows))
      (\<lambda>_. {}) (\<lambda>_. True)"
    by (rule keeps_case_prod) (rule keeps_return; simp)
qed simp

lemma keeps_referenced_by_pg:
  assumes "CATALOG_TIMEOUT_SECS_pg \<in> T"
  shows "keeps (pg_state T Closed) {} (referenced_by_pg schema table) (\<lambda>_. {}) (\<lambda>_. True)"
  unfolding referenced_by_pg_def
  apply (rule keeps_then_plain, rule keeps_bounded_tx [OF assms], rule keeps_then [OF ready_resolve_schema_pg],
      rule keeps_then [OF ready_readable_oid], rule pgt.ready_rows)
      apply (auto intro!: keeps_return)
  done

lemma ready_indexes: "pg_ready T A (indexes_in_tx oid) (\<lambda>_. {}) (\<lambda>_. True)"
  unfolding indexes_in_tx_def by (auto intro!: pgt.ready_rows keeps_return)

lemma ready_constraints: "pg_ready T A (constraints_in_tx schema oid) (\<lambda>_. {}) (\<lambda>_. True)"
  unfolding constraints_in_tx_def Let_def
  apply (rule pgt.ready_rows, intro decodes_cols decodes_end, simp add: pg_fixed_statement)
  apply (rule keeps_case_prod)
  apply (rule pgt.ready_rows, intro decodes_cols decodes_end, simp add: pg_fixed_statement)
  apply (rule pgt.ready_rows, intro decodes_cols decodes_end, simp add: pg_fixed_statement)
  apply (rule keeps_return; simp)
  done

lemma keeps_structure_pg:
  assumes "CATALOG_TIMEOUT_SECS_pg \<in> T"
  shows "keeps (pg_state T Closed) {} (structure_pg schema table) (\<lambda>_. {}) (\<lambda>_. True)"
  unfolding structure_pg_def
  by (rule keeps_bounded_tx [OF assms], rule keeps_then [OF ready_resolve_schema_pg],
      rule keeps_then [OF ready_readable_oid], rule keeps_then_plain [OF ready_indexes],
      rule keeps_then_plain [OF ready_constraints], rule keeps_return) simp_all

section \<open>The requests of an operation\<close>

lemma set_timeout_sends [sends_rules]: "P (Execute (set_timeout_sql s)) \<Longrightarrow> sends P (set_timeout s)"
  unfolding set_timeout_def by (intro sends_rules)

lemma bounded_tx_sends [sends_rules]:
  "P Begin \<Longrightarrow> P Commit \<Longrightarrow> P Rollback \<Longrightarrow> P (Execute (set_timeout_sql s)) \<Longrightarrow> sends P body \<Longrightarrow>
   sends P (bounded_tx s body)"
  unfolding bounded_tx_def by (intro sends_in_tx sends_rules)

lemma bounded_tx_one:
  "P Commit \<Longrightarrow> P Rollback \<Longrightarrow> P (Execute (set_timeout_sql s)) \<Longrightarrow> sends P body \<Longrightarrow> in_one_tx P (bounded_tx s body)"
  unfolding bounded_tx_def by (intro in_one_tx_in_tx sends_rules)

definition schema_statements_pg :: "string set" where
  "schema_statements_pg = {LIST_SCHEMAS_SQL_pg, ''select current_schema()''}"

lemma schema_statements_fixed: "schema_statements_pg \<subseteq> pg_fixed"
  by (simp add: schema_statements_pg_def)

lemma allows_mono: "allows S P \<Longrightarrow> S' \<subseteq> S \<Longrightarrow> allows S' P"
  by (auto simp: allows_def)

lemma resolve_schema_sends:
  "allows schema_statements_pg P \<Longrightarrow> sends P list_schemas_in_tx_pg"
  "allows schema_statements_pg P \<Longrightarrow> sends P default_schema_in_tx_pg"
  "allows schema_statements_pg P \<Longrightarrow> sends P (resolve_schema_in_tx_pg requested)"
  unfolding resolve_schema_in_tx_pg_def pick_schema_def list_schemas_in_tx_pg_def default_schema_in_tx_pg_def
  by (auto intro!: sends_rules simp: allows_def schema_statements_pg_def)

lemma catalog_sends_pg:
  assumes P: "allows pg_fixed P"
  shows "sends P (resolve_schema_in_tx_pg requested)" "sends P (readable_table_oid schema table)"
    "sends P (key_metadata_in_tx_pg ord schema table)" "sends P (table_meta_in_tx_pg ord schema table oid)"
    "sends P (allowed_columns_in_tx_pg schema table)" "sends P (indexes_in_tx oid)"
    "sends P (constraints_in_tx schema oid)"
proof -
  note f = allowsD [OF P]
  show "sends P (resolve_schema_in_tx_pg requested)"
    by (rule resolve_schema_sends, rule allows_mono [OF P schema_statements_fixed])
  show "sends P (readable_table_oid schema table)"
    unfolding readable_table_oid_def by (intro sends_rules f) simp_all
  show meta: "sends P (key_metadata_in_tx_pg ord schema table)" for ord schema table
    unfolding key_metadata_in_tx_pg_def by (intro sends_rules f) simp_all
  show "sends P (table_meta_in_tx_pg ord schema table oid)"
    unfolding table_meta_in_tx_pg_def by (intro sends_rules meta f) simp_all
  show "sends P (allowed_columns_in_tx_pg schema table)"
    unfolding allowed_columns_in_tx_pg_def by (intro sends_rules f) simp_all
  show "sends P (indexes_in_tx oid)"
    unfolding indexes_in_tx_def by (intro sends_rules f) simp_all
  show "sends P (constraints_in_tx schema oid)"
    unfolding constraints_in_tx_def Let_def by (intro sends_rules f) simp_all
qed

lemma query_table_pg_begins: "begins (snd (query_table_pg ord schema table opts db [])) = 1"
proof -
  have "in_one_tx (\<lambda>q. q \<noteq> Begin) (query_table_pg ord schema table opts)"
    unfolding query_table_pg_def Let_def
    by (intro bounded_tx_one sends_rules catalog_sends_pg allows_simps; simp)
  then show ?thesis by (simp add: in_one_tx_begins)
qed

text \<open>The statements of the catalog operations, and their transaction.\<close>

lemma catalog_ops_send_pg:
  assumes P: "allows pg_fixed P" "P Begin" "P Commit" "P Rollback" "\<And>s. P (Execute s)"
  shows "sends P list_schemas_pg" "sends P (list_tables_pg schema)" "sends P (table_counts_pg schema)"
    "sends P (common_values_pg schema table column)" "sends P (referenced_by_pg schema table)"
    "sends P (structure_pg schema table)"
  unfolding list_schemas_pg_def list_tables_pg_def table_counts_pg_def common_values_pg_def referenced_by_pg_def
    structure_pg_def
  by (intro sends_rules catalog_sends_pg allowsD [OF P(1)] resolve_schema_sends allows_mono [OF P(1) schema_statements_fixed] P;
      simp)+

lemma catalog_ops_fixed_pg:
  "sends (in_statements pg_fixed) list_schemas_pg" "sends (in_statements pg_fixed) (list_tables_pg schema)"
  "sends (in_statements pg_fixed) (table_counts_pg schema)"
  "sends (in_statements pg_fixed) (common_values_pg schema table column)"
  "sends (in_statements pg_fixed) (referenced_by_pg schema table)"
  "sends (in_statements pg_fixed) (structure_pg schema table)"
  by (rule catalog_ops_send_pg; simp)+

lemma catalog_ops_one_pg:
  "in_one_tx (\<lambda>q. q \<noteq> Begin) list_schemas_pg" "in_one_tx (\<lambda>q. q \<noteq> Begin) (list_tables_pg schema)"
  "in_one_tx (\<lambda>q. q \<noteq> Begin) (table_counts_pg schema)"
  "in_one_tx (\<lambda>q. q \<noteq> Begin) (common_values_pg schema table column)"
  "in_one_tx (\<lambda>q. q \<noteq> Begin) (referenced_by_pg schema table)"
  "in_one_tx (\<lambda>q. q \<noteq> Begin) (structure_pg schema table)"
  unfolding list_schemas_pg_def list_tables_pg_def table_counts_pg_def common_values_pg_def referenced_by_pg_def
    structure_pg_def
  by (intro in_one_tx_then bounded_tx_one sends_rules catalog_sends_pg resolve_schema_sends allows_simps; simp)+

text \<open>The names listed are those of the rows that the listing statement was answered with, in order.\<close>

lemma listing_statements_pg [simp]:
  "LIST_TABLES_SQL_pg \<notin> schema_statements_pg" "TABLE_COUNTS_SQL_pg \<notin> schema_statements_pg"
  "''select current_schema()'' \<noteq> LIST_SCHEMAS_SQL_pg"
  by (simp_all add: schema_statements_pg_def LIST_TABLES_SQL_pg_def TABLE_COUNTS_SQL_pg_def LIST_SCHEMAS_SQL_pg_def)

lemma list_tables_pg_names:
  assumes "list_tables_pg schema db [] = (Done (Inr ts), h)"
  shows "map ti_name ts = names_for LIST_TABLES_SQL_pg h"
proof -
  obtain rows where run: "bounded_tx CATALOG_TIMEOUT_SECS_pg (io_then (resolve_schema_in_tx_pg schema) (\<lambda>schema.
      fetch_all (col as_text (\<lambda>n. col as_opt_text (\<lambda>c. row_end (n, c)))) [TText, TOptText] LIST_TABLES_SQL_pg
        [BText schema])) db [] = (Done (Inr rows), h)"
    and ts: "ts = map (\<lambda>(name, comment). \<lparr>ti_name = name, ti_comment = comment\<rparr>) rows"
    using assms unfolding list_tables_pg_def io_then_Inr io_pure_Inr by blast
  have "names_for LIST_TABLES_SQL_pg h = map fst rows"
    by (rule in_tx_listing_names [OF run [unfolded bounded_tx_def]])
      (auto intro: sends_rules resolve_schema_sends simp: decoded_simps)
  then show ?thesis by (simp add: ts case_prod_beta o_def)
qed

lemma table_counts_pg_names:
  assumes "table_counts_pg schema db [] = (Done (Inr counts), h)"
  shows "map fst counts = names_for TABLE_COUNTS_SQL_pg h"
proof -
  have "names_for TABLE_COUNTS_SQL_pg h = map fst counts"
    by (rule in_tx_listing_names [OF assms [unfolded table_counts_pg_def bounded_tx_def]])
      (auto intro: sends_rules resolve_schema_sends simp: decoded_simps)
  then show ?thesis by simp
qed

lemma list_schemas_pg_names:
  assumes "list_schemas_pg db [] = (Done (Inr l), h)"
  shows "sl_schemas l = names_for LIST_SCHEMAS_SQL_pg h"
proof -
  obtain schemas dflt where run: "in_tx (set_timeout CATALOG_TIMEOUT_SECS_pg) (io_then list_schemas_in_tx_pg (\<lambda>schemas.
      io_then default_schema_in_tx_pg (\<lambda>dflt. io_return (schemas, dflt)))) db [] = (Done (Inr (schemas, dflt)), h)"
    and l: "l = schema_listing_new schemas dflt"
    using assms unfolding list_schemas_pg_def bounded_tx_def io_then_Inr by (auto simp: io_pure_Inr)
  have "names_for LIST_SCHEMAS_SQL_pg h = map id schemas"
    by (rule in_tx_first_listing_names [OF run [unfolded list_schemas_in_tx_pg_def]])
      (auto intro!: sends_rules simp: default_schema_in_tx_pg_def decoded_simps)
  then show ?thesis by (simp add: l schema_listing_new_def)
qed

section \<open>Properties of the operations\<close>

definition pg_users_db :: database where
  "pg_users_db = db_of (\<lambda>sql.
     if sql = LIST_SCHEMAS_SQL_pg then [[CText ''public'']]
     else if sql = ''select current_schema()'' then [[CText ''public'']]
     else if sql = OID_SQL then [[CInt 16384]]
     else if sql = LIST_TABLES_SQL_pg then [[CText ''users'', CNull]]
     else if sql = TABLE_META_SQL_pg
     then [[CText ''id'', CText ''integer'', CText ''pg_catalog'', CText ''int4'', CBool False, CText ''integer'',
            CNull, CNull]]
     else if sql = TOTAL_SQL then [[CInt 2]]
     else if prefix (''select '' @ quote_ident ''id'') sql then [[CText ''7''], [CNull]]
     else [])"

lemma pg_users_db_contract: "contract pg_users_db"
  by (simp add: pg_users_db_def contract_db_of)

text \<open>C3: a page query of the PostgreSQL backend, whatever the request and whatever the server
  answers: it does not panic; its requests are exactly one transaction, which first bounds its
  statements by the request's timeout and is committed, or rolled back as soon as one of its
  statements fails, and nothing is sent outside it; every statement is one of the fixed catalog
  texts, or lexes to identifiers the server reported or confirmed, plain characters and one
  placeholder per bound value; and each returned row has exactly one entry per reported column.\<close>

theorem query_table_pg_safe:
  assumes "contract db"
  shows "safe_run (\<lambda>h. tx_run {set_timeout_sql (q_timeout_secs opts)} {} h Closed \<and> begins h = 1
      \<and> guarded (stmt_guard pg_statement) h) (\<lambda>_. {}) page_wf
    (query_table_pg ord schema table opts db [])"
proof -
  have "safe_run (pg_state {q_timeout_secs opts} Closed) (\<lambda>_. {}) page_wf (query_table_pg ord schema table opts db [])"
    by (rule tx_safe [OF keeps_query_table_pg assms]) simp
  then show ?thesis by (rule safe_run_log) (simp add: tx_sane_def query_table_pg_begins)
qed

lemma query_table_pg_safe_witness:
  "contract pg_users_db
   \<and> (\<exists>t. fst (query_table_pg id None ''users'' page_opts pg_users_db []) = Done (Inr t)
         \<and> page_wf t \<and> length (td_rows t) = 2)
   \<and> tx_run {set_timeout_sql 7} {} (snd (query_table_pg id None ''users'' page_opts pg_users_db [])) Closed
   \<and> begins (snd (query_table_pg id None ''users'' page_opts pg_users_db [])) = 1"
proof -
  have "case fst (query_table_pg id None ''users'' page_opts pg_users_db []) of
      Done (Inr t) \<Rightarrow> length (td_rows t) = 2 | _ \<Rightarrow> False"
    by code_simp
  then obtain t where "fst (query_table_pg id None ''users'' page_opts pg_users_db []) = Done (Inr t)"
    "length (td_rows t) = 2"
    by (auto split: outcome.splits sum.splits)
  with query_table_pg_safe [OF pg_users_db_contract, of page_opts id None "''users''"] pg_users_db_contract
  show ?thesis by (simp add: safe_run_def) (simp add: page_opts_def)
qed

text \<open>C6: a join query of the PostgreSQL backend, for every accepted join and whatever the server
  answers: no panic, the same transaction discipline under the request's timeout, the same
  statement safety, and a result with pairwise distinct labels, at most \<open>limit\<close> rows with exactly
  one entry per label, that reports more rows only when the page is full.\<close>

theorem query_join_pg_safe:
  assumes "contract db" "wf_spec spec"
  shows "safe_run (\<lambda>h. tx_run {set_timeout_sql (jo_timeout_secs opts)} {} h Closed
      \<and> guarded (stmt_guard pg_statement) h) (\<lambda>_. {}) (join_wf (jo_limit opts))
    (query_join_pg ord schema spec opts db [])"
  using keeps_safe [OF keeps_query_join_pg
      [where T = "{jo_timeout_secs opts}" and opts = opts, OF _ assms(2)] tx_sane_start assms(1), of ord schema]
  by (simp add: tx_sane_def [abs_def])

lemma query_join_pg_safe_witness:
  "contract pg_users_db \<and> wf_spec sample_spec
   \<and> fst (query_join_pg id None sample_spec sample_opts pg_users_db []) \<noteq> Panic"
proof -
  have "wf_spec sample_spec"
    by (simp add: wf_spec_def sample_spec_def wf_entry_def MAX_TABLES_def MAX_PAIRS_def)
  with query_join_pg_safe [OF pg_users_db_contract this, of sample_opts id None] pg_users_db_contract
  show ?thesis by (simp add: safe_run_def)
qed

text \<open>What a catalog operation may leave: one transaction under the catalog timeout, of fixed statements.\<close>

definition pg_catalog_log :: "history \<Rightarrow> bool" where
  "pg_catalog_log h \<longleftrightarrow>
     tx_run {set_timeout_sql CATALOG_TIMEOUT_SECS_pg} {} h Closed \<and> begins h = 1 \<and> only_statements pg_fixed h"

lemma pg_catalog_run:
  assumes "contract db" "\<And>T. CATALOG_TIMEOUT_SECS_pg \<in> T \<Longrightarrow> keeps (pg_state T Closed) {} m N Q"
    and "in_one_tx (\<lambda>q. q \<noteq> Begin) m" "sends (in_statements pg_fixed) m"
  shows "safe_run pg_catalog_log N Q (m db [])"
  by (rule safe_run_log [OF tx_safe [OF assms(2) [OF singletonI] assms(1)]])
    (simp add: pg_catalog_log_def tx_sane_def in_one_tx_begins [OF assms(3)] sends_only [OF assms(4)])

text \<open>C31: the catalog operations of the PostgreSQL backend do not panic; the requests of each are
  exactly one transaction under the catalog timeout, whose statements are fixed texts, none composed
  from a name; the schemas and tables a listing returns are the rows its listing statement was
  answered with, all of them and in their order, and the default schema is one of those listed.\<close>

theorem catalog_pg_safe:
  assumes "contract db"
  shows "safe_run pg_catalog_log (\<lambda>l. set (sl_schemas l)) (\<lambda>l. set_option (sl_default l) \<subseteq> set (sl_schemas l))
        (list_schemas_pg db [])
    \<and> safe_run pg_catalog_log (\<lambda>ts. ti_name ` set ts) (\<lambda>_. True) (list_tables_pg schema db [])
    \<and> safe_run pg_catalog_log (\<lambda>ts. fst ` set ts) (\<lambda>_. True) (table_counts_pg schema db [])
    \<and> safe_run pg_catalog_log (\<lambda>_. {}) (\<lambda>_. True) (common_values_pg schema table column db [])
    \<and> safe_run pg_catalog_log (\<lambda>_. {}) (\<lambda>_. True) (referenced_by_pg schema table db [])
    \<and> safe_run pg_catalog_log (\<lambda>_. {}) (\<lambda>_. True) (structure_pg schema table db [])
    \<and> (\<forall>l h. list_schemas_pg db [] = (Done (Inr l), h) \<longrightarrow> sl_schemas l = names_for LIST_SCHEMAS_SQL_pg h)
    \<and> (\<forall>ts h. list_tables_pg schema db [] = (Done (Inr ts), h) \<longrightarrow> map ti_name ts = names_for LIST_TABLES_SQL_pg h)
    \<and> (\<forall>cs h. table_counts_pg schema db [] = (Done (Inr cs), h) \<longrightarrow> map fst cs = names_for TABLE_COUNTS_SQL_pg h)"
proof -
  note run = pg_catalog_run [OF assms]
  show ?thesis
    by (intro conjI allI impI; (rule list_schemas_pg_names list_tables_pg_names table_counts_pg_names; assumption)?)
      (rule run [OF keeps_list_schemas_pg catalog_ops_one_pg(1) catalog_ops_fixed_pg(1)]
          run [OF keeps_list_tables_pg catalog_ops_one_pg(2) catalog_ops_fixed_pg(2)]
          run [OF keeps_table_counts_pg catalog_ops_one_pg(3) catalog_ops_fixed_pg(3)]
          run [OF keeps_common_values_pg catalog_ops_one_pg(4) catalog_ops_fixed_pg(4)]
          run [OF keeps_referenced_by_pg catalog_ops_one_pg(5) catalog_ops_fixed_pg(5)]
          run [OF keeps_structure_pg catalog_ops_one_pg(6) catalog_ops_fixed_pg(6)]; assumption)+
qed

lemma catalog_pg_safe_witness:
  "contract pg_users_db
   \<and> fst (list_tables_pg None pg_users_db []) = Done (Inr [\<lparr>ti_name = ''users'', ti_comment = None\<rparr>])
   \<and> ''users'' \<in> texts (snd (list_tables_pg None pg_users_db []))
   \<and> names_for LIST_TABLES_SQL_pg (snd (list_tables_pg None pg_users_db [])) = [''users'']"
proof -
  have "fst (list_tables_pg None pg_users_db []) = Done (Inr [\<lparr>ti_name = ''users'', ti_comment = None\<rparr>])"
    by code_simp
  with catalog_pg_safe [OF pg_users_db_contract, of None] pg_users_db_contract show ?thesis
    by (cases "list_tables_pg None pg_users_db []") (auto simp: safe_run_def)
qed

end
