(* ===== verification/Mysql_Correct.thy ===== *)
theory Mysql_Correct
  imports Mysql Where_Builder Request_Log
begin

text \<open>
  The MySQL and MariaDB backend's correctness: its dialect, filter builder and transactions
  implement the shared interfaces, and every operation keeps the transaction discipline, sends
  only statements that carry a timeout and mention names the database reported, and never panics.
\<close>

section \<open>The dialect and the filter builder\<close>

interpretation mq: identifier_quoting backtick quote_ident_mysql
  by (rule escape_quoting) (simp_all add: quote_ident_mysql_def plain_def)

interpretation my: sql_dialect backtick JOIN_DIALECT_my "''CAST(''" "'' AS CHAR)''"
  by unfold_locales
    (simp_all add: JOIN_DIALECT_my_def cast_text_my_def mq.lex_quote plain_def is_marker_def)

lemma dialect_my_simps [simp]:
  "d_quote JOIN_DIALECT_my = quote_ident_mysql" "d_numbered JOIN_DIALECT_my = False"
  "d_ilike JOIN_DIALECT_my = LoweredLike" "d_cast_text JOIN_DIALECT_my = cast_text_my"
  by (simp_all add: JOIN_DIALECT_my_def)

lemma where_condition_my_ok:
  assumes "shaped i c"
  shows "where_condition_my cols i c = condition_result JOIN_DIALECT_my cols i k c"
proof (cases "c_column c \<in> set cols")
  case True
  from assms True shaped_logic [OF assms] show ?thesis
    by (cases "c_value c"; cases "c_op c")
      (auto simp: shaped_def where_condition_my_def condition_result_def condition_text_def
        takes_value_def cast_text_my_def placeholder_def joiner_def wrap_not_def Let_def find_allowed_eq)
qed (simp add: where_condition_my_def condition_result_def find_allowed_eq)

lemma where_condition_my_normal:
  "where_condition_my cols i (normal c) = where_condition_my cols i c"
proof (cases "takes_value (c_op c)")
  case False
  then have "c_op c \<noteq> Ilike" by (auto simp: takes_value_def)
  with False show ?thesis
    unfolding where_condition_my_def normal_simps(1-4) Let_def by (simp only: if_False)
qed (simp add: normal_id)

lemma where_condition_my_shaped: "where_condition_my cols i c = Inr fv \<Longrightarrow> shaped i (normal c)"
  by (cases "takes_value (c_op c)"; cases "c_op c = Ilike")
    (auto simp: where_condition_my_def shaped_def Let_def takes_value_def split: if_splits prod.splits)

interpretation myw: where_builder backtick JOIN_DIALECT_my "''CAST(''" "'' AS CHAR)''"
  "\<lambda>cols i k. where_condition_my cols i" "\<lambda>cols i k. where_loop_my cols i" build_where_clause_my
  by unfold_locales
    (auto simp: where_condition_my_ok where_condition_my_normal build_where_clause_my_def
      dest: where_condition_my_shaped)

section \<open>Statements\<close>

definition my_fixed :: "string set" where
  "my_fixed = {LIST_SCHEMAS_SQL_my, ''database()'', ALLOWED_TABLES_SQL_my, ALLOWED_COLUMNS_SQL_my,
     TABLE_META_SQL_my, KEY_METADATA_SQL_my, MARIADB_JSON_COLUMNS_SQL, LIST_TABLES_SQL_my,
     TABLE_COUNTS_SQL_my, TOTAL_SQL_my, REFERENCED_BY_SQL_my, index_sql_my (key_part_of MySql),
     index_sql_my (key_part_of MariaDb), KEYS_SQL_my, FKS_SQL_my, HAS_CHECKS_SQL,
     checks_sql_my (cc_table_of MySql), checks_sql_my (cc_table_of MariaDb)}"

text \<open>A statement carries one of the timeouts \<open>T\<close>; only the version query runs without one.\<close>

definition my_statement :: "u32 set \<Rightarrow> string set \<Rightarrow> string \<Rightarrow> bind list \<Rightarrow> bool" where
  "my_statement T known sql binds \<longleftrightarrow>
     sql = VERSION_SQL
     \<or> (\<exists>v s body. s \<in> T \<and> sql = timed_select v s body
          \<and> (body \<in> my_fixed \<or> piece backtick known (length binds) body))"

lemma my_fixed_statement: "s \<in> T \<Longrightarrow> body \<in> my_fixed \<Longrightarrow> my_statement T A (timed_select v s body) binds"
  unfolding my_statement_def by blast

lemma my_piece_statement:
  "s \<in> T \<Longrightarrow> piece backtick A (length binds) body \<Longrightarrow> my_statement T A (timed_select v s body) binds"
  unfolding my_statement_def by blast

lemma my_fixed_members [simp]:
  "LIST_SCHEMAS_SQL_my \<in> my_fixed" "''database()'' \<in> my_fixed" "ALLOWED_TABLES_SQL_my \<in> my_fixed"
  "ALLOWED_COLUMNS_SQL_my \<in> my_fixed" "TABLE_META_SQL_my \<in> my_fixed" "KEY_METADATA_SQL_my \<in> my_fixed"
  "MARIADB_JSON_COLUMNS_SQL \<in> my_fixed" "LIST_TABLES_SQL_my \<in> my_fixed" "TABLE_COUNTS_SQL_my \<in> my_fixed"
  "TOTAL_SQL_my \<in> my_fixed" "REFERENCED_BY_SQL_my \<in> my_fixed" "KEYS_SQL_my \<in> my_fixed"
  "FKS_SQL_my \<in> my_fixed" "HAS_CHECKS_SQL \<in> my_fixed"
  "index_sql_my (key_part_of v) \<in> my_fixed" "checks_sql_my (cc_table_of v) \<in> my_fixed"
  unfolding my_fixed_def by (blast, blast, blast, blast, blast, blast, blast, blast, blast, blast, blast,
      blast, blast, blast, (cases v; blast), (cases v; blast))

interpretation myt: transactional "{}" "{VERSION_SQL}" "my_statement T" for T
proof
  show "my_statement T B sql binds" if "my_statement T A sql binds" "A \<subseteq> B" for A B sql binds
    using that piece_mono unfolding my_statement_def by blast
qed

abbreviation my_state :: "u32 set \<Rightarrow> tx \<Rightarrow> history \<Rightarrow> bool" where
  "my_state T \<equiv> tx_sane {} {VERSION_SQL} (my_statement T)"

abbreviation my_ready :: "u32 set \<Rightarrow> string set \<Rightarrow> 'a io \<Rightarrow> ('a \<Rightarrow> string set) \<Rightarrow> ('a \<Rightarrow> bool) \<Rightarrow> bool" where
  "my_ready T \<equiv> keeps_or (my_state T Ready) (my_state T Failed)"

lemma keeps_pinned_tx: "my_ready T A b N Q \<Longrightarrow> keeps (my_state T Closed) A (pinned_tx b) N Q"
  unfolding pinned_tx_def
  by (rule myt.keeps_in_tx) (auto intro!: triple_rules simp: begun_def)

lemma keeps_variant_of: "keeps (my_state T Closed) A variant_of (\<lambda>_. {}) (\<lambda>_. True)"
proof -
  have step: "my_state T Closed (h @ [(q, r)])"
    if "my_state T Closed h" "q = CacheGet \<or> q = CacheSet v \<or> q = Fetch mode tys VERSION_SQL binds"
    for h q r v mode tys binds
    using that(2) by (auto intro: tx_sane_step [OF that(1)] tx_step.intros simp: my_statement_def)
  have cached: "keeps (my_state T Closed) A (ask from_sqlx CacheGet) (\<lambda>_. {}) (\<lambda>r. \<exists>c. r = Cached c)"
    by (rule keepsI, rule triple_ask) (auto intro: step split: reply.splits)
  show ?thesis
    unfolding variant_of_def
  proof (rule keeps_then [OF cached])
    fix r assume "\<exists>c. r = Cached c"
    then obtain c where r: "r = Cached c" by blast
    have "keeps (my_state T Closed) A
        (io_then (fetch_one (col as_text row_end) [TText] VERSION_SQL []) (\<lambda>version.
          io_then (ask from_sqlx (CacheSet (detected version))) (\<lambda>_. io_return (detected version))))
        (\<lambda>_. {}) (\<lambda>_. True)"
      by (intro keeps_then_plain keeps_or_fetch_one keeps_ask keeps_return) (auto intro: step)
    then show "keeps (my_state T Closed) (A \<union> {})
        (case r of
           Cached None \<Rightarrow> io_then (fetch_one (col as_text row_end) [TText] VERSION_SQL []) (\<lambda>version.
             io_then (ask from_sqlx (CacheSet (detected version))) (\<lambda>_. io_return (detected version)))
         | Cached (Some v) \<Rightarrow> io_return v | _ \<Rightarrow> io_panic) (\<lambda>_. {}) (\<lambda>_. True)"
      by (cases c) (simp_all add: r keeps_return)
  qed
qed

text \<open>An operation: the fork first, then a transaction.\<close>

lemma keeps_operation:
  assumes "\<And>v. keeps (my_state T Closed) {} (f v) N Q"
  shows "keeps (my_state T Closed) {} (io_then variant_of f) N Q"
  by (rule keeps_then_plain [OF keeps_variant_of assms])

section \<open>Catalog lookups\<close>

lemma ready_timed:
  assumes "decodes dec tys" "s \<in> T" "body \<in> my_fixed"
    "\<And>rs xs. those (map dec rs) = Some xs \<Longrightarrow> N xs \<subseteq> {s. \<exists>r \<in> set rs. CText s \<in> set r} \<and> Q xs"
  shows "my_ready T A (timed v s dec tys body binds) N Q"
  unfolding timed_def by (rule myt.ready_fetch_all [OF assms(1) my_fixed_statement [OF assms(2,3)] assms(4)])

lemma ready_timed_rows:
  assumes "decodes dec tys" "s \<in> T" "body \<in> my_fixed" "\<And>xs. my_ready T A (f xs) N Q"
  shows "my_ready T A (io_then (timed v s dec tys body binds) f) N Q"
  by (rule keeps_then_plain [OF ready_timed [OF assms(1-3)] assms(4)]) simp

lemma ready_timed_names:
  "s \<in> T \<Longrightarrow> body \<in> my_fixed \<Longrightarrow>
   my_ready T A (timed v s (col as_text row_end) [TText] body binds) set (\<lambda>_. True)"
  by (rule ready_timed) (auto intro!: bexI [rotated] dest!: those_mem simp: decode_Some)

lemma ready_resolve_schema_my:
  assumes "s \<in> T"
  shows "my_ready T A (resolve_schema_in_tx_my v requested s) (\<lambda>n. {n}) (\<lambda>_. True)"
  unfolding resolve_schema_in_tx_my_def pick_schema_def list_schemas_in_tx_my_def default_schema_in_tx_my_def
proof (rule keeps_then [OF ready_timed_names [OF assms]])
  fix schemas
  show "my_ready T (A \<union> set schemas)
      (io_then (case requested of
          None \<Rightarrow> io_then (fetch_one (col as_opt_text row_end) [TOptText] (timed_select v s ''database()'') [])
            (\<lambda>d. io_result (ok_or no_default_schema d))
        | Some name \<Rightarrow> io_return name)
        (\<lambda>resolved. io_result (find_allowed Schema ''schema'' schemas resolved))) (\<lambda>n. {n}) (\<lambda>_. True)"
  proof (rule keeps_then_plain)
    show "my_ready T (A \<union> set schemas)
        (case requested of
          None \<Rightarrow> io_then (fetch_one (col as_opt_text row_end) [TOptText] (timed_select v s ''database()'') [])
            (\<lambda>d. io_result (ok_or no_default_schema d))
        | Some name \<Rightarrow> io_return name) (\<lambda>_. {}) (\<lambda>_. True)"
      by (cases requested)
        (auto intro!: myt.ready_row my_fixed_statement keeps_result keeps_return simp: assms)
  qed (auto intro!: keeps_result)
qed simp

lemma ready_allowed_tables_in_tx:
  "s \<in> T \<Longrightarrow> my_ready T A (allowed_tables_in_tx v schema s) set (\<lambda>_. True)"
  unfolding allowed_tables_in_tx_def by (rule ready_timed_names) simp_all

lemma ready_allowed_columns_my:
  "s \<in> T \<Longrightarrow> my_ready T A (allowed_columns_in_tx_my v schema table s) set (\<lambda>_. True)"
  unfolding allowed_columns_in_tx_my_def by (rule ready_timed_names) simp_all

lemma ready_key_metadata_my:
  "s \<in> T \<Longrightarrow> my_ready T A (key_metadata_in_tx_my ord v schema table s) (\<lambda>_. {}) (\<lambda>_. True)"
  unfolding key_metadata_in_tx_my_def by (auto intro!: ready_timed_rows keeps_return)

lemma ready_json_columns:
  "s \<in> T \<Longrightarrow> my_ready T A (mariadb_json_columns_in_tx v schema table s) (\<lambda>_. {}) (\<lambda>_. True)"
  unfolding mariadb_json_columns_in_tx_def
  by (auto intro!: keeps_return keeps_weaken [OF ready_timed_names])

lemma ready_table_meta_my:
  assumes "s \<in> T" "table \<in> A"
  shows "my_ready T A (table_meta_in_tx_my ord v schema table s) meta_names (\<lambda>t. tm_name t = table)"
  unfolding table_meta_in_tx_my_def
proof (rule keeps_then [where M = "\<lambda>cols. fst ` set cols" and R = "\<lambda>_. True"])
  show "my_ready T A
      (timed v s (col as_text (\<lambda>n. col as_text (\<lambda>d. col as_text (\<lambda>c. col as_opt_text (\<lambda>l. col as_text (\<lambda>t.
         row_end (n, d, c, l, t))))))) [TText, TText, TText, TOptText, TText] TABLE_META_SQL_my
        [BText schema, BText table]) (\<lambda>cols. fst ` set cols) (\<lambda>_. True)"
    by (rule ready_timed)
      (auto intro!: bexI [rotated] dest!: those_mem simp: decode_Some assms(1))
next
  fix cols :: "meta_row_my list"
  show "my_ready T (A \<union> fst ` set cols)
      (io_then (key_metadata_in_tx_my ord v schema table s) (\<lambda>(pks, fks).
        io_then (mariadb_json_columns_in_tx v schema table s) (\<lambda>json_columns.
        io_return \<lparr>tm_name = table, tm_columns = map (col_meta_my pks fks json_columns) cols\<rparr>)))
      meta_names (\<lambda>t. tm_name t = table)"
    apply (rule keeps_then_plain [OF ready_key_metadata_my [OF assms(1)]], rule keeps_case_prod)
    apply (rule keeps_then_plain [OF ready_json_columns [OF assms(1)]], rule keeps_return)
     apply (use assms(2) in \<open>force simp: meta_names_def col_meta_my_def split: prod.splits\<close>)
    apply simp
    done
qed

section \<open>Pages and joins\<close>

lemma page_statement_my:
  assumes "s \<in> T" "sort_column (map ci_name (map column_info_of (tm_columns meta))) requested = Inr sort_col"
    "(case flt of
        Some f \<Rightarrow> build_where_clause_my f (map ci_name (map column_info_of (tm_columns meta)))
      | None \<Rightarrow> Inr ([], [])) = Inr (clause, vs)"
    "tm_name meta = table" "insert schema (meta_names meta) \<subseteq> A"
  shows "my_statement T A
    (timed_select v s (page_body_my schema table (map column_info_of (tm_columns meta)) clause sort_col desc))
    (map BText vs @ [l, off])"
proof -
  have "piece backtick A (length vs) clause"
    by (rule myw.page_filter_piece [OF assms(3)]) (use assms(5) in blast)
  moreover have "insert table (set (map cm_name (tm_columns meta))) \<union> set_option sort_col \<union> {schema} \<subseteq> A"
    using assms(4,5) sort_column_names [OF assms(2)] by (auto simp: meta_names_def)
  ultimately have "piece backtick A (length vs + 2)
      (page_body_my schema table (map column_info_of (tm_columns meta)) clause sort_col desc)"
    using my.page_piece [of "[]" table "map cm_name (tm_columns meta)" sort_col "Some schema" A "length vs"
        clause "'' limit ? offset ?''" desc]
    by (simp add: page_body_my_def schema_prefix_def cast_text_my_def o_def plain_def is_marker_def)
  then show ?thesis by (intro my_piece_statement [OF assms(1)]) simp
qed

lemma keeps_query_table_my:
  assumes "q_timeout_secs opts \<in> T"
  shows "keeps (my_state T Closed) {} (query_table_my ord schema table opts) (\<lambda>_. {}) page_wf"
  unfolding query_table_my_def Let_def
  apply (rule keeps_operation, rule keeps_pinned_tx)
  apply (rule keeps_then [OF ready_resolve_schema_my [OF assms]])
  apply (rule keeps_then [OF ready_allowed_tables_in_tx [OF assms]])
  apply (rule keeps_result_then)
  apply (rule keeps_then [OF ready_table_meta_my [OF assms]], simp)
  apply (rule keeps_result_then)+
  apply (rule keeps_case_prod)
  apply (rule keeps_then_plain, rule myt.ready_fetch, rule page_statement_my [OF assms], assumption)
      apply (simp only:)
     apply simp
    apply blast
   apply simp
  apply (rule myt.ready_row, intro decodes_cols decodes_end, simp add: my_fixed_statement assms)
  apply (rule keeps_return; simp add: page_wf_def row_to_json_my_def row_json_dom)
  done

lemma ready_lookup_my:
  "s \<in> T \<Longrightarrow> set allowed \<subseteq> A \<Longrightarrow>
   my_ready T A (lookup_my ord v schema s allowed name) meta_names (\<lambda>t. tm_name t = name)"
  by (auto simp: lookup_my_def intro!: keeps_throw ready_table_meta_my)

lemma join_statement_my:
  assumes "s \<in> T" "plan_wf p" "plan_names p (Some schema) \<subseteq> A"
    "build_select p JOIN_DIALECT_my (Some schema) = (body, values)"
  shows "my_statement T A (timed_select v s body) (map BText values @ [l, off])"
proof -
  have "piece backtick (plan_names p (Some schema)) (length values + 2) body"
    using my.build_select_piece [OF assms(2), of "Some schema"] assms(4) by simp
  from piece_mono [OF this assms(3)] show ?thesis by (intro my_piece_statement [OF assms(1)]) simp
qed

lemma keeps_query_join_my:
  assumes "jo_timeout_secs opts \<in> T" "wf_spec spec"
  shows "keeps (my_state T Closed) {} (query_join_my ord schema spec opts) (\<lambda>_. {}) (join_wf (jo_limit opts))"
  unfolding query_join_my_def Let_def
proof (rule keeps_operation, rule keeps_then [where M = "\<lambda>_. {}" and R = "\<lambda>(p, rs). plan_wf p"],
    rule keeps_pinned_tx, rule keeps_then [OF ready_resolve_schema_my [OF assms(1)]],
    rule keeps_then [OF ready_allowed_tables_in_tx [OF assms(1)]])
  fix v schema' allowed
  show "my_ready T ({} \<union> {schema'} \<union> set allowed)
    (io_then (load_metas (lookup_my ord v schema' (jo_timeout_secs opts) allowed) Map.empty (table_names spec)) (\<lambda>metas.
       io_then (io_outcome (tables_of metas (table_names spec))) (\<lambda>tables.
       io_then (io_outcome (make_plan spec tables opts)) (\<lambda>p.
         case build_select p JOIN_DIALECT_my (Some schema') of (body, values) \<Rightarrow>
           io_then (fetch (map_select_denied_my (js_table spec)) All None (timed_select v (jo_timeout_secs opts) body)
             (map BText values @ [BInt (uint (jo_limit opts) + 1), BInt (uint (jo_offset opts))]))
           (\<lambda>rs. io_return (p, rs)))))) (\<lambda>_. {}) (\<lambda>(p, rs). plan_wf p)"
  proof (rule keeps_then [OF keeps_load_metas [where A = "set allowed", OF ready_lookup_my [OF assms(1)]]])
    fix metas
    assume m: "metas_good metas \<and> dom Map.empty \<union> set (table_names spec) \<subseteq> dom metas"
    show "my_ready T ({} \<union> {schema'} \<union> set allowed \<union> metas_names metas)
      (io_then (io_outcome (tables_of metas (table_names spec))) (\<lambda>tables.
         io_then (io_outcome (make_plan spec tables opts)) (\<lambda>p.
           case build_select p JOIN_DIALECT_my (Some schema') of (body, values) \<Rightarrow>
             io_then (fetch (map_select_denied_my (js_table spec)) All None (timed_select v (jo_timeout_secs opts) body)
               (map BText values @ [BInt (uint (jo_limit opts) + 1), BInt (uint (jo_offset opts))]))
             (\<lambda>rs. io_return (p, rs))))) (\<lambda>_. {}) (\<lambda>(p, rs). plan_wf p)"
      apply (subst tables_of_total, use m in simp)
      apply (rule keeps_outcome_then, simp)
      apply (rule keeps_outcome_then)
      subgoal using make_plan_metas(1) [OF assms(2)] m by auto
      subgoal for ts p
        using make_plan_metas(2) [OF assms(2), of metas opts p "Some schema'"] m
        by (intro keeps_case_prod keeps_then_plain [OF myt.ready_fetch [OF join_statement_my [OF assms(1)]]] keeps_return)
          auto
      done
  qed auto
next
  fix x :: "plan \<times> row list"
  assume "case x of (p, rs) \<Rightarrow> plan_wf p"
  then show "keeps (my_state T Closed) ({} \<union> {})
      (case x of (p, rs) \<Rightarrow> io_return (join_result row_to_json_my p (jo_limit opts) rs)) (\<lambda>_. {}) (join_wf (jo_limit opts))"
    by (auto intro!: keeps_return simp: join_result_wf row_to_json_my_def split: prod.splits)
qed

section \<open>The other operations\<close>

lemma keeps_list_schemas_my:
  assumes "CATALOG_TIMEOUT_SECS_my \<in> T"
  shows "keeps (my_state T Closed) {} list_schemas_my (\<lambda>l. set (sl_schemas l))
    (\<lambda>l. set_option (sl_default l) \<subseteq> set (sl_schemas l))"
  unfolding list_schemas_my_def list_schemas_in_tx_my_def default_schema_in_tx_my_def
proof (rule keeps_operation, rule keeps_then [where M = "\<lambda>x. set (fst x)" and R = "\<lambda>_. True"],
    rule keeps_pinned_tx, rule keeps_then [OF ready_timed_names [OF assms]])
  fix v schemas
  show "my_ready T ({} \<union> set schemas)
      (io_then (fetch_one (col as_opt_text row_end) [TOptText]
          (timed_select v CATALOG_TIMEOUT_SECS_my ''database()'') [])
        (\<lambda>dflt. io_return (schemas, dflt))) (\<lambda>x. set (fst x)) (\<lambda>_. True)"
    by (auto intro!: myt.ready_row my_fixed_statement assms keeps_return)
next
  fix x :: "string list \<times> string option"
  show "keeps (my_state T Closed) ({} \<union> set (fst x))
      (case x of (schemas, dflt) \<Rightarrow> io_return (schema_listing_new schemas dflt)) (\<lambda>l. set (sl_schemas l))
      (\<lambda>l. set_option (sl_default l) \<subseteq> set (sl_schemas l))"
    by (auto intro!: keeps_return simp: schema_listing_new_def split: prod.splits option.splits)
qed simp

lemma keeps_list_tables_my:
  assumes "CATALOG_TIMEOUT_SECS_my \<in> T"
  shows "keeps (my_state T Closed) {} (list_tables_my schema) (\<lambda>ts. ti_name ` set ts) (\<lambda>_. True)"
  unfolding list_tables_my_def
proof (rule keeps_operation, rule keeps_then [where M = "\<lambda>rows. fst ` set rows" and R = "\<lambda>_. True"],
    rule keeps_pinned_tx, rule keeps_then [OF ready_resolve_schema_my [OF assms]])
  fix v schema'
  show "my_ready T ({} \<union> {schema'})
      (timed v CATALOG_TIMEOUT_SECS_my (col as_text (\<lambda>n. col as_text (\<lambda>c. row_end (n, c)))) [TText, TText]
        LIST_TABLES_SQL_my [BText schema']) (\<lambda>rows. fst ` set rows) (\<lambda>_. True)"
    by (rule ready_timed)
      (auto intro!: bexI [rotated] dest!: those_mem simp: decode_Some assms)
next
  fix rows :: "(string \<times> string) list"
  show "keeps (my_state T Closed) ({} \<union> fst ` set rows)
      (io_return (map (\<lambda>(name, comment). \<lparr>ti_name = name, ti_comment = non_empty comment\<rparr>) rows))
      (\<lambda>ts. ti_name ` set ts) (\<lambda>_. True)"
    by (rule keeps_return) force+
qed

lemma keeps_table_counts_my:
  assumes "CATALOG_TIMEOUT_SECS_my \<in> T"
  shows "keeps (my_state T Closed) {} (table_counts_my schema) (\<lambda>ts. fst ` set ts) (\<lambda>_. True)"
  unfolding table_counts_my_def
proof (rule keeps_operation, rule keeps_then [where M = "\<lambda>rows. fst ` set rows" and R = "\<lambda>_. True"],
    rule keeps_pinned_tx, rule keeps_then [OF ready_resolve_schema_my [OF assms]])
  fix v schema'
  show "my_ready T ({} \<union> {schema'})
      (timed v CATALOG_TIMEOUT_SECS_my (col as_text (\<lambda>n. col as_opt_int (\<lambda>c. row_end (n, c)))) [TText, TOptInt]
        TABLE_COUNTS_SQL_my [BText schema']) (\<lambda>rows. fst ` set rows) (\<lambda>_. True)"
    by (rule ready_timed)
      (auto intro!: bexI [rotated] dest!: those_mem simp: decode_Some assms)
next
  fix rows :: "(string \<times> int option) list"
  show "keeps (my_state T Closed) ({} \<union> fst ` set rows)
      (io_return (map (\<lambda>(name, count). (name, case count of None \<Rightarrow> -1 | Some n \<Rightarrow> n)) rows))
      (\<lambda>ts. fst ` set ts) (\<lambda>_. True)"
    by (rule keeps_return) force+
qed

lemma keeps_common_values_my:
  assumes "CATALOG_TIMEOUT_SECS_my \<in> T"
  shows "keeps (my_state T Closed) {} (common_values_my schema table column) (\<lambda>_. {}) (\<lambda>vs. vs = [])"
  unfolding common_values_my_def
  apply (rule keeps_operation, rule keeps_then_plain, rule keeps_pinned_tx,
      rule keeps_then [OF ready_resolve_schema_my [OF assms]],
      rule keeps_then [OF ready_allowed_tables_in_tx [OF assms]], rule keeps_result_then,
      rule keeps_then [OF ready_allowed_columns_my [OF assms]])
   apply (auto intro!: keeps_result keeps_return)
  done

lemma group_tables: "rb_table ` set (group_referenced_by rs) \<subseteq> rb_table ` set rs"
proof -
  have "set (map rb_key (group_referenced_by rs)) = set (map rb_key rs)"
    unfolding group_referenced_by_def rb.keys remdups_adj_set ..
  then have "fst ` rb_key ` set (group_referenced_by rs) = fst ` rb_key ` set rs" by simp
  then show ?thesis by (simp add: image_image rb_key_def)
qed

lemma keeps_referenced_by_my:
  assumes "CATALOG_TIMEOUT_SECS_my \<in> T"
  shows "keeps (my_state T Closed) {} (referenced_by_my schema table) (\<lambda>rs. rb_table ` set rs) (\<lambda>_. True)"
  unfolding referenced_by_my_def
proof (rule keeps_operation, rule keeps_then [where M = "\<lambda>x. set (fst x)" and R = "\<lambda>_. True"],
    rule keeps_pinned_tx, rule keeps_then [OF ready_resolve_schema_my [OF assms]],
    rule keeps_then [OF ready_allowed_tables_in_tx [OF assms]], rule keeps_result_then)
  fix v schema' allowed
  show "my_ready T ({} \<union> {schema'} \<union> set allowed)
      (io_then (timed v CATALOG_TIMEOUT_SECS_my
         (col as_text (\<lambda>t. col as_text (\<lambda>c. col as_text (\<lambda>f. col as_text (\<lambda>u. row_end (t, c, f, u))))))
         [TText, TText, TText, TText] REFERENCED_BY_SQL_my [BText schema', BText table, BText schema'])
        (\<lambda>rows. io_return (allowed, rows))) (\<lambda>x. set (fst x)) (\<lambda>_. True)"
    by (auto intro!: ready_timed_rows assms keeps_return)
next
  fix x :: "string list \<times> (string \<times> string \<times> string \<times> string) list"
  show "keeps (my_state T Closed) ({} \<union> set (fst x))
      (case x of (allowed, rows) \<Rightarrow>
         io_return (group_referenced_by (map referrer_my (filter (\<lambda>row. fst row \<in> set allowed) rows))))
      (\<lambda>rs. rb_table ` set rs) (\<lambda>_. True)"
  proof (rule keeps_case_prod)
    fix allowed rows
    assume x: "x = (allowed, rows)"
    have "rb_table ` set (map referrer_my (filter (\<lambda>row. fst row \<in> set allowed) rows)) \<subseteq> set allowed"
      by (auto simp: referrer_my_def)
    with group_tables have "rb_table ` set (group_referenced_by
        (map referrer_my (filter (\<lambda>row. fst row \<in> set allowed) rows))) \<subseteq> set allowed"
      by (rule subset_trans)
    with x show "keeps (my_state T Closed) ({} \<union> set (fst x))
        (io_return (group_referenced_by (map referrer_my (filter (\<lambda>row. fst row \<in> set allowed) rows))))
        (\<lambda>rs. rb_table ` set rs) (\<lambda>_. True)"
      by (intro keeps_return) simp_all
  qed
qed

lemma keeps_structure_my:
  assumes "CATALOG_TIMEOUT_SECS_my \<in> T"
  shows "keeps (my_state T Closed) {} (structure_my schema table) (\<lambda>_. {}) (\<lambda>_. True)"
  unfolding structure_my_def Let_def
  apply (rule keeps_operation, rule keeps_pinned_tx,
      rule keeps_then [OF ready_resolve_schema_my [OF assms]],
      rule keeps_then [OF ready_allowed_tables_in_tx [OF assms]], rule keeps_result_then)
  apply (rule ready_timed_rows [OF _ assms], intro decodes_cols decodes_end, simp)
  apply (rule ready_timed_rows [OF _ assms], intro decodes_cols decodes_end, simp)
  apply (rule keeps_case_prod)
  apply (rule ready_timed_rows [OF _ assms], intro decodes_cols decodes_end, simp)
  apply (rule myt.ready_row, intro decodes_cols decodes_end, simp add: my_fixed_statement assms)
  subgoal for v s allowed u index_rows key_rows pk uq fk_rows has_checks
    apply (rule keeps_then_plain)
     apply (cases "0 < has_checks"; simp only: if_True if_False)
      apply (rule ready_timed [OF _ assms], intro decodes_cols decodes_end, simp, simp)
     apply (rule keeps_return; simp)
    apply (rule keeps_return; simp)
    done
  done

section \<open>The requests of an operation\<close>

lemma timed_sends [sends_rules]:
  "P (Fetch All (Some tys) (timed_select v s body) binds) \<Longrightarrow> sends P (timed v s dec tys body binds)"
  unfolding timed_def by (rule sends_fetch_rows)

text \<open>What the version query adds to the history: itself at most, unless the fork is cached.\<close>

lemma variant_log:
  obtains t where "snd (variant_of db h) = h @ t" "\<forall>(q, r) \<in> set t. q \<noteq> Begin"
    "only_statements {VERSION_SQL} t" "length (filter (\<lambda>(q, r). asks_rows q) t) \<le> 1"
proof -
  have "\<exists>t. snd (variant_of db h) = h @ t \<and> (\<forall>(q, r) \<in> set t. q \<noteq> Begin)
      \<and> only_statements {VERSION_SQL} t \<and> length (filter (\<lambda>(q, r). asks_rows q) t) \<le> 1"
    by (simp add: variant_of_def io_then_def ask_def fetch_one_def fetch_def decode_rows_def io_return_def
        io_panic_def only_statements_def Let_def split: sum.split reply.split option.split list.split)
  with that show thesis by blast
qed

text \<open>An operation: the version query, then one transaction, which never asks for the version.\<close>

definition quiet :: "request \<Rightarrow> bool" where
  "quiet q \<longleftrightarrow> q \<noteq> Begin \<and> not_asking VERSION_SQL q"

lemma timed_not_version [simp]: "timed_select v s body \<noteq> VERSION_SQL"
  by (cases v) (simp_all add: timed_select_def VERSION_SQL_def)

lemma quiet_simps [simp]:
  "quiet Commit" "quiet Rollback" "quiet (Fetch mode tys (timed_select v s body) binds)"
  by (simp_all add: quiet_def)

lemma operation_log:
  assumes "\<And>v. in_one_tx quiet (f v)"
  shows "one_tx_after VERSION_SQL (snd (io_then variant_of f db []))"
proof -
  obtain t where t: "snd (variant_of db []) = t" "\<forall>(q, r) \<in> set t. q \<noteq> Begin"
    "only_statements {VERSION_SQL} t" "length (filter (\<lambda>(q, r). asks_rows q) t) \<le> 1"
    by (rule variant_log [of db "[]"]) simp
  obtain o' where run: "variant_of db [] = (o', t)" using t(1) by (cases "variant_of db []") simp
  show ?thesis
  proof (cases o' rule: meets_cases_outcome)
    case (3 v)
    obtain r t' where "snd (f v db t) = t @ (Begin, r) # t'" "\<forall>(q, r) \<in> set t'. quiet q"
      using assms unfolding in_one_tx_def by blast
    with 3 run show ?thesis
      using one_tx_after_tx [OF t(2-4), of t' r] by (simp add: io_then_def quiet_def)
  qed (use run one_tx_after_pre [OF t(2-4)] in \<open>simp_all add: io_then_def\<close>)
qed

lemma operation_sends [sends_rules]: "allows {VERSION_SQL} P \<Longrightarrow> P CacheGet \<Longrightarrow> (\<And>v. P (CacheSet v)) \<Longrightarrow> sends P variant_of"
  unfolding variant_of_def by (auto intro!: sends_rules intro: allowsD split: reply.split option.split)

lemma pinned_tx_sends [sends_rules]: "P Begin \<Longrightarrow> P Commit \<Longrightarrow> P Rollback \<Longrightarrow> sends P body \<Longrightarrow> sends P (pinned_tx body)"
  unfolding pinned_tx_def by (intro sends_in_tx sends_rules)

lemma pinned_tx_one: "P Commit \<Longrightarrow> P Rollback \<Longrightarrow> sends P body \<Longrightarrow> in_one_tx P (pinned_tx body)"
  unfolding pinned_tx_def by (intro in_one_tx_in_tx sends_rules)

text \<open>The fixed statements under the timeout \<open>s\<close>.\<close>

definition my_timed :: "u32 \<Rightarrow> string set" where
  "my_timed s = {timed_select v s body |v body. body \<in> my_fixed}"

lemma my_timed_member [simp]: "body \<in> my_fixed \<Longrightarrow> timed_select v s body \<in> my_timed s"
  unfolding my_timed_def by blast

lemma allows_my_timed [simp]: "allows (my_timed s) quiet"
  by (auto simp: allows_def my_timed_def)

lemma catalog_sends_my:
  assumes P: "allows (my_timed s) P"
  shows "sends P (list_schemas_in_tx_my v s)" "sends P (default_schema_in_tx_my v s)"
    "sends P (resolve_schema_in_tx_my v requested s)" "sends P (allowed_tables_in_tx v schema s)"
    "sends P (allowed_columns_in_tx_my v schema table s)" "sends P (key_metadata_in_tx_my ord v schema table s)"
    "sends P (table_meta_in_tx_my ord v schema table s)"
proof -
  note f = allowsD [OF P]
  show 1: "sends P (list_schemas_in_tx_my v s)" "sends P (default_schema_in_tx_my v s)"
    unfolding list_schemas_in_tx_my_def default_schema_in_tx_my_def by (intro sends_rules f; simp)+
  show "sends P (resolve_schema_in_tx_my v requested s)"
    unfolding resolve_schema_in_tx_my_def pick_schema_def by (intro sends_rules 1)
  show "sends P (allowed_tables_in_tx v schema s)" "sends P (allowed_columns_in_tx_my v schema table s)"
    unfolding allowed_tables_in_tx_def allowed_columns_in_tx_my_def by (intro sends_rules f; simp)+
  show 2: "sends P (key_metadata_in_tx_my ord v schema table s)"
    unfolding key_metadata_in_tx_my_def by (intro sends_rules f) simp
  show "sends P (table_meta_in_tx_my ord v schema table s)"
    unfolding table_meta_in_tx_my_def mariadb_json_columns_in_tx_def by (intro sends_rules f 2; simp)
qed

lemma query_table_my_log: "one_tx_after VERSION_SQL (snd (query_table_my ord schema table opts db []))"
  unfolding query_table_my_def Let_def
  by (intro operation_log pinned_tx_one sends_rules catalog_sends_my allows_my_timed; simp)

lemma catalog_ops_log_my:
  "one_tx_after VERSION_SQL (snd (list_schemas_my db []))" "one_tx_after VERSION_SQL (snd (list_tables_my schema db []))"
  "one_tx_after VERSION_SQL (snd (table_counts_my schema db []))"
  "one_tx_after VERSION_SQL (snd (common_values_my schema table column db []))"
  "one_tx_after VERSION_SQL (snd (referenced_by_my schema table db []))"
  "one_tx_after VERSION_SQL (snd (structure_my schema table db []))"
  unfolding list_schemas_my_def list_tables_my_def table_counts_my_def common_values_my_def referenced_by_my_def
    structure_my_def Let_def
  by (intro operation_log in_one_tx_then pinned_tx_one sends_rules catalog_sends_my allows_my_timed; simp)+

definition my_catalog_statements :: "string set" where
  "my_catalog_statements = insert VERSION_SQL (my_timed CATALOG_TIMEOUT_SECS_my)"

lemma catalog_ops_fixed_my:
  "sends (in_statements my_catalog_statements) list_schemas_my"
  "sends (in_statements my_catalog_statements) (list_tables_my schema)"
  "sends (in_statements my_catalog_statements) (table_counts_my schema)"
  "sends (in_statements my_catalog_statements) (common_values_my schema table column)"
  "sends (in_statements my_catalog_statements) (referenced_by_my schema table)"
  "sends (in_statements my_catalog_statements) (structure_my schema table)"
  unfolding list_schemas_my_def list_tables_my_def table_counts_my_def common_values_my_def referenced_by_my_def
    structure_my_def Let_def
  by (intro sends_rules catalog_sends_my; auto simp: my_catalog_statements_def)+

text \<open>The names listed are those of the rows that the listing statement was answered with, in order.\<close>

lemma timed_inject [simp]: "timed_select v s body = timed_select v s body' \<longleftrightarrow> body = body'"
  by (cases v) (simp_all add: timed_select_def)

lemma listing_statements_my [simp]:
  "LIST_TABLES_SQL_my \<noteq> LIST_SCHEMAS_SQL_my" "LIST_TABLES_SQL_my \<noteq> ''database()''"
  "TABLE_COUNTS_SQL_my \<noteq> LIST_SCHEMAS_SQL_my" "TABLE_COUNTS_SQL_my \<noteq> ''database()''"
  "''database()'' \<noteq> LIST_SCHEMAS_SQL_my"
  by (simp_all add: LIST_TABLES_SQL_my_def TABLE_COUNTS_SQL_my_def LIST_SCHEMAS_SQL_my_def)

lemma resolve_not_asking:
  "body \<noteq> LIST_SCHEMAS_SQL_my \<Longrightarrow> body \<noteq> ''database()'' \<Longrightarrow>
   sends (not_asking (timed_select v s body)) (resolve_schema_in_tx_my v requested s)"
  unfolding resolve_schema_in_tx_my_def pick_schema_def list_schemas_in_tx_my_def default_schema_in_tx_my_def
  by (auto intro!: sends_rules)

lemma variant_rows:
  assumes "variant_of db [] = (r, h)"
  shows "rows_for (timed_select v s body) h = []"
proof -
  have "sends (not_asking (timed_select v s body)) variant_of"
    by (rule operation_sends) (simp_all add: timed_not_version [symmetric])
  from sends_rows_for [where m = variant_of, OF this assms] show ?thesis by simp
qed

lemma list_tables_my_names:
  assumes "list_tables_my schema db [] = (Done (Inr ts), h)"
  shows "\<exists>v. map ti_name ts = names_for (timed_select v CATALOG_TIMEOUT_SECS_my LIST_TABLES_SQL_my) h"
proof -
  obtain v h0 rows where v: "variant_of db [] = (Done (Inr v), h0)"
    and run: "pinned_tx (io_then (resolve_schema_in_tx_my v schema CATALOG_TIMEOUT_SECS_my) (\<lambda>schema.
      timed v CATALOG_TIMEOUT_SECS_my (col as_text (\<lambda>n. col as_text (\<lambda>c. row_end (n, c)))) [TText, TText]
        LIST_TABLES_SQL_my [BText schema])) db h0 = (Done (Inr rows), h)"
    and ts: "ts = map (\<lambda>(name, comment). \<lparr>ti_name = name, ti_comment = non_empty comment\<rparr>) rows"
    using assms unfolding list_tables_my_def io_then_Inr io_pure_Inr by blast
  have "names_for (timed_select v CATALOG_TIMEOUT_SECS_my LIST_TABLES_SQL_my) h = map fst rows"
    by (rule in_tx_listing_names [OF run [unfolded pinned_tx_def timed_def]])
      (auto intro: sends_rules resolve_not_asking variant_rows [OF v] simp: decoded_simps)
  then show ?thesis by (intro exI [of _ v]) (simp add: ts case_prod_beta o_def)
qed

lemma table_counts_my_names:
  assumes "table_counts_my schema db [] = (Done (Inr cs), h)"
  shows "\<exists>v. map fst cs = names_for (timed_select v CATALOG_TIMEOUT_SECS_my TABLE_COUNTS_SQL_my) h"
proof -
  obtain v h0 rows where v: "variant_of db [] = (Done (Inr v), h0)"
    and run: "pinned_tx (io_then (resolve_schema_in_tx_my v schema CATALOG_TIMEOUT_SECS_my) (\<lambda>schema.
      timed v CATALOG_TIMEOUT_SECS_my (col as_text (\<lambda>n. col as_opt_int (\<lambda>c. row_end (n, c)))) [TText, TOptInt]
        TABLE_COUNTS_SQL_my [BText schema])) db h0 = (Done (Inr rows), h)"
    and cs: "cs = map (\<lambda>(name, count). (name, case count of Some n \<Rightarrow> n | None \<Rightarrow> -1)) rows"
    using assms unfolding table_counts_my_def io_then_Inr io_pure_Inr by blast
  have "names_for (timed_select v CATALOG_TIMEOUT_SECS_my TABLE_COUNTS_SQL_my) h = map fst rows"
    by (rule in_tx_listing_names [OF run [unfolded pinned_tx_def timed_def]])
      (auto intro: sends_rules resolve_not_asking variant_rows [OF v] simp: decoded_simps)
  then show ?thesis by (intro exI [of _ v]) (simp add: cs case_prod_beta o_def)
qed

lemma list_schemas_my_names:
  assumes "list_schemas_my db [] = (Done (Inr l), h)"
  shows "\<exists>v. sl_schemas l = names_for (timed_select v CATALOG_TIMEOUT_SECS_my LIST_SCHEMAS_SQL_my) h"
proof -
  obtain v h0 schemas dflt where v: "variant_of db [] = (Done (Inr v), h0)"
    and run: "in_tx (io_return ()) (io_then (list_schemas_in_tx_my v CATALOG_TIMEOUT_SECS_my) (\<lambda>schemas.
      io_then (default_schema_in_tx_my v CATALOG_TIMEOUT_SECS_my) (\<lambda>dflt. io_return (schemas, dflt)))) db h0
        = (Done (Inr (schemas, dflt)), h)"
    and l: "l = schema_listing_new schemas dflt"
    using assms unfolding list_schemas_my_def pinned_tx_def io_then_Inr by (auto simp: io_pure_Inr)
  have "names_for (timed_select v CATALOG_TIMEOUT_SECS_my LIST_SCHEMAS_SQL_my) h = map id schemas"
    by (rule in_tx_first_listing_names [OF run [unfolded list_schemas_in_tx_my_def timed_def]])
      (auto intro!: sends_rules variant_rows [OF v] simp: default_schema_in_tx_my_def decoded_simps)
  then show ?thesis by (intro exI [of _ v]) (simp add: l schema_listing_new_def)
qed

text \<open>A table that refers to another is one of the tables the server listed in the same transaction.\<close>

lemma referenced_by_my_tables:
  assumes "referenced_by_my schema table db [] = (Done (Inr rs), h)"
  shows "\<exists>v. rb_table ` set rs \<subseteq> set (names_for (timed_select v CATALOG_TIMEOUT_SECS_my ALLOWED_TABLES_SQL_my) h)"
proof -
  let ?rest = "\<lambda>v schema allowed. io_then (io_result (gate_table allowed table)) (\<lambda>_.
    io_then (timed v CATALOG_TIMEOUT_SECS_my
       (col as_text (\<lambda>t. col as_text (\<lambda>c. col as_text (\<lambda>f. col as_text (\<lambda>u. row_end (t, c, f, u))))))
       [TText, TText, TText, TText] REFERENCED_BY_SQL_my [BText schema, BText table, BText schema]) (\<lambda>rows.
    io_return (allowed, rows)))"
  obtain v h0 allowed rows where run: "pinned_tx (io_then (resolve_schema_in_tx_my v schema CATALOG_TIMEOUT_SECS_my) (\<lambda>schema.
      io_then (allowed_tables_in_tx v schema CATALOG_TIMEOUT_SECS_my) (?rest v schema))) db h0
        = (Done (Inr (allowed, rows)), h)"
    and rs: "rs = group_referenced_by (map referrer_my (filter (\<lambda>row. fst row \<in> set allowed) rows))"
    using assms unfolding referenced_by_my_def io_then_Inr [of variant_of] io_then_Inr [of "pinned_tx m" for m]
    by (auto simp: io_pure_Inr)
  let ?sql = "timed_select v CATALOG_TIMEOUT_SECS_my ALLOWED_TABLES_SQL_my"
  from run [unfolded pinned_tx_def] obtain h1 h2 r' where
    body: "io_then (resolve_schema_in_tx_my v schema CATALOG_TIMEOUT_SECS_my) (\<lambda>schema.
      io_then (allowed_tables_in_tx v schema CATALOG_TIMEOUT_SECS_my) (?rest v schema)) db h1
        = (Done (Inr (allowed, rows)), h2)"
    and h: "h = h2 @ [(Commit, Inr r')]"
    by (rule in_tx_Inr)
  from body obtain schema' a h3 h4 where a: "allowed_tables_in_tx v schema' CATALOG_TIMEOUT_SECS_my db h3 = (Done (Inr a), h4)"
    and rest: "?rest v schema' a db h4 = (Done (Inr (allowed, rows)), h2)"
    unfolding io_then_Inr [of "resolve_schema_in_tx_my v schema s" for s] io_then_Inr [of "allowed_tables_in_tx v x s" for x s]
    by blast
  have "a = allowed" using rest by (auto simp: io_then_Inr io_pure_Inr)
  moreover have "names_for ?sql h4 = names_for ?sql h3 @ a"
    using a names_for_decoded [of row_end _ a id]
    by (auto simp: allowed_tables_in_tx_def timed_def fetch_all_Inr names_for_def decoded_simps map_filter_def)
  moreover have "set (names_for ?sql h4) \<subseteq> set (names_for ?sql h2)"
    by (rule sends_names_for [where m = "?rest v schema' a" and P = "\<lambda>_. True", OF _ rest])
      (auto intro!: sends_rules)
  ultimately have "set allowed \<subseteq> set (names_for ?sql h)" by (auto simp: h)
  moreover have "rb_table ` set rs \<subseteq> set allowed"
    using group_tables [of "map referrer_my (filter (\<lambda>row. fst row \<in> set allowed) rows)"]
    by (auto simp: rs referrer_my_def)
  ultimately show ?thesis by blast
qed

section \<open>Properties of the operations\<close>

definition maria_users_db :: database where
  "maria_users_db = db_of (\<lambda>sql.
     let is = (\<lambda>body. sql = timed_select MariaDb 7 body \<or> sql = timed_select MariaDb 5 body)
     in if sql = VERSION_SQL then [[CText ''10.11.6-MariaDB-log'']]
        else if is LIST_SCHEMAS_SQL_my then [[CText ''app'']]
        else if is ''database()'' then [[CText ''app'']]
        else if is LIST_TABLES_SQL_my then [[CText ''users'', CText []]]
        else if is ALLOWED_TABLES_SQL_my then [[CText ''users'']]
        else if is TABLE_META_SQL_my then [[CText ''id'', CText ''int'', CText [], CNull, CText ''int(11)'']]
        else if is TOTAL_SQL_my then [[CInt 2]]
        else if prefix (timed_select MariaDb 7 (''CAST('' @ quote_ident_mysql ''id'')) sql then [[CText ''7''], [CNull]]
        else [])"

lemma maria_users_db_contract: "contract maria_users_db"
  by (simp add: maria_users_db_def contract_db_of)

text \<open>C4: a page query of the MySQL and MariaDB backend, whatever the request and whatever the
  server answers: it does not panic; before the first transaction it sends the version query at most
  once and nothing else, then at most one transaction, which is committed, or rolled back as soon as
  one of its statements fails, and in which the version is not asked for again; every statement but
  the version query, which runs without one, carries the request's timeout in a fork's syntax, and
  its body is one of the fixed catalog texts or lexes, by the backtick rule, to identifiers the
  server reported, plain characters and one placeholder per bound value; and each returned row has
  exactly one entry per reported column.\<close>

theorem query_table_my_safe:
  assumes "contract db"
  shows "safe_run (\<lambda>h. tx_run {} {VERSION_SQL} h Closed \<and> one_tx_after VERSION_SQL h
      \<and> guarded (stmt_guard (my_statement {q_timeout_secs opts})) h) (\<lambda>_. {}) page_wf
    (query_table_my ord schema table opts db [])"
proof -
  have "safe_run (my_state {q_timeout_secs opts} Closed) (\<lambda>_. {}) page_wf (query_table_my ord schema table opts db [])"
    by (rule tx_safe [OF keeps_query_table_my assms]) simp
  then show ?thesis by (rule safe_run_log) (simp add: tx_sane_def query_table_my_log)
qed

lemma query_table_my_safe_witness:
  "contract maria_users_db
   \<and> (\<exists>t. fst (query_table_my id None ''users'' page_opts maria_users_db []) = Done (Inr t)
         \<and> page_wf t \<and> length (td_rows t) = 2)
   \<and> tx_run {} {VERSION_SQL} (snd (query_table_my id None ''users'' page_opts maria_users_db [])) Closed
   \<and> one_tx_after VERSION_SQL (snd (query_table_my id None ''users'' page_opts maria_users_db []))"
proof -
  have "case fst (query_table_my id None ''users'' page_opts maria_users_db []) of
      Done (Inr t) \<Rightarrow> length (td_rows t) = 2 | _ \<Rightarrow> False"
    by code_simp
  then obtain t where "fst (query_table_my id None ''users'' page_opts maria_users_db []) = Done (Inr t)"
    "length (td_rows t) = 2"
    by (auto split: outcome.splits sum.splits)
  with query_table_my_safe [OF maria_users_db_contract, of page_opts id None "''users''"] maria_users_db_contract
  show ?thesis by (simp add: safe_run_def)
qed

text \<open>C7: a join query of the MySQL and MariaDB backend, for every accepted join and whatever the
  server answers: no panic, the same transaction discipline and statement safety under the
  request's timeout, and a result with pairwise distinct labels, at most \<open>limit\<close> rows with exactly
  one entry per label, that reports more rows only when the page is full.\<close>

theorem query_join_my_safe:
  assumes "contract db" "wf_spec spec"
  shows "safe_run (\<lambda>h. tx_run {} {VERSION_SQL} h Closed
      \<and> guarded (stmt_guard (my_statement {jo_timeout_secs opts})) h) (\<lambda>_. {}) (join_wf (jo_limit opts))
    (query_join_my ord schema spec opts db [])"
  using tx_safe [OF keeps_query_join_my [where T = "{jo_timeout_secs opts}" and opts = opts, OF singletonI assms(2)]
      assms(1), of ord schema]
  by (simp add: tx_sane_def [abs_def])

lemma query_join_my_safe_witness:
  "contract maria_users_db \<and> wf_spec sample_spec
   \<and> fst (query_join_my id None sample_spec sample_opts maria_users_db []) \<noteq> Panic"
proof -
  have "wf_spec sample_spec"
    by (simp add: wf_spec_def sample_spec_def wf_entry_def MAX_TABLES_def MAX_PAIRS_def)
  with query_join_my_safe [OF maria_users_db_contract this, of sample_opts id None] maria_users_db_contract
  show ?thesis by (simp add: safe_run_def)
qed

text \<open>What a catalog operation may leave: the version query at most, then at most one transaction, of
  fixed statements under the catalog timeout.\<close>

definition my_catalog_log :: "history \<Rightarrow> bool" where
  "my_catalog_log h \<longleftrightarrow> tx_run {} {VERSION_SQL} h Closed \<and> one_tx_after VERSION_SQL h
     \<and> only_statements my_catalog_statements h"

lemma my_catalog_run:
  assumes "contract db" "\<And>T. CATALOG_TIMEOUT_SECS_my \<in> T \<Longrightarrow> keeps (my_state T Closed) {} m N Q"
    and "one_tx_after VERSION_SQL (snd (m db []))" "sends (in_statements my_catalog_statements) m"
  shows "safe_run my_catalog_log N Q (m db [])"
  by (rule safe_run_log [OF tx_safe [OF assms(2) [OF singletonI] assms(1)]])
    (simp add: my_catalog_log_def tx_sane_def assms(3) sends_only [OF assms(4)])



end
