(* ===== verification/Sources.thy ===== *)
theory Sources
  imports Sqlite_Correct Postgres_Correct Mysql_Correct
begin

text \<open>
  The \<open>DbSource\<close> trait of \<open>core/src/db/mod.rs\<close> as a record of its operations, its three
  implementations, and \<open>core/src/db/source.rs\<close>: \<open>Source\<close>, any of them behind one type. What the
  trait promises its callers is the locale \<open>safe_source\<close>, interpreted on each backend: every
  operation, from any history the invariant holds of, returns without a panic and keeps it.
\<close>

section \<open>The trait and its implementations\<close>

record db_source =
  ds_list_schemas :: "schema_listing io"
  ds_list_tables :: "string option \<Rightarrow> table_info list io"
  ds_table_counts :: "string option \<Rightarrow> (string \<times> int) list io"
  ds_query_table :: "string option \<Rightarrow> string \<Rightarrow> query_opts \<Rightarrow> table_data io"
  ds_common_values :: "string option \<Rightarrow> string \<Rightarrow> string \<Rightarrow> (string \<times> u32) list io"
  ds_referenced_by :: "string option \<Rightarrow> string \<Rightarrow> referenced_by list io"
  ds_query_join :: "string option \<Rightarrow> join_spec \<Rightarrow> join_opts \<Rightarrow> join_data io"
  ds_structure :: "string option \<Rightarrow> string \<Rightarrow> structure_info io"

definition sqlite_source :: "(fk_groups \<Rightarrow> fk_groups) \<Rightarrow> db_source" where
  "sqlite_source ord = \<lparr>
     ds_list_schemas = list_schemas_sqlite, ds_list_tables = list_tables_sqlite,
     ds_table_counts = table_counts_sqlite, ds_query_table = query_table_sqlite ord,
     ds_common_values = common_values_sqlite, ds_referenced_by = referenced_by_sqlite,
     ds_query_join = query_join_sqlite ord, ds_structure = structure_sqlite\<rparr>"

definition pg_source :: "(fk_candidates \<Rightarrow> fk_candidates) \<Rightarrow> db_source" where
  "pg_source ord = \<lparr>
     ds_list_schemas = list_schemas_pg, ds_list_tables = list_tables_pg,
     ds_table_counts = table_counts_pg, ds_query_table = query_table_pg ord,
     ds_common_values = common_values_pg, ds_referenced_by = referenced_by_pg,
     ds_query_join = query_join_pg ord, ds_structure = structure_pg\<rparr>"

definition my_source :: "(fk_candidates \<Rightarrow> fk_candidates) \<Rightarrow> db_source" where
  "my_source ord = \<lparr>
     ds_list_schemas = list_schemas_my, ds_list_tables = list_tables_my,
     ds_table_counts = table_counts_my, ds_query_table = query_table_my ord,
     ds_common_values = common_values_my, ds_referenced_by = referenced_by_my,
     ds_query_join = query_join_my ord, ds_structure = structure_my\<rparr>"

section \<open>Any source behind one type (source.rs)\<close>

text \<open>\<open>BoxFut\<close> is a future of the same result, so an erased operation is an \<open>io\<close> as well.\<close>

record erased_source =
  er_list_schemas :: "schema_listing io"
  er_list_tables :: "string option \<Rightarrow> table_info list io"
  er_table_counts :: "string option \<Rightarrow> (string \<times> int) list io"
  er_query_table :: "string option \<Rightarrow> string \<Rightarrow> query_opts \<Rightarrow> table_data io"
  er_common_values :: "string option \<Rightarrow> string \<Rightarrow> string \<Rightarrow> (string \<times> u32) list io"
  er_referenced_by :: "string option \<Rightarrow> string \<Rightarrow> referenced_by list io"
  er_query_join :: "string option \<Rightarrow> join_spec \<Rightarrow> join_opts \<Rightarrow> join_data io"
  er_structure :: "string option \<Rightarrow> string \<Rightarrow> structure_info io"

definition erase :: "db_source \<Rightarrow> erased_source" where
  "erase s = \<lparr>
     er_list_schemas = ds_list_schemas s,
     er_list_tables = (\<lambda>schema. ds_list_tables s schema),
     er_table_counts = (\<lambda>schema. ds_table_counts s schema),
     er_query_table = (\<lambda>schema table opts. ds_query_table s schema table opts),
     er_common_values = (\<lambda>schema table column. ds_common_values s schema table column),
     er_referenced_by = (\<lambda>schema table. ds_referenced_by s schema table),
     er_query_join = (\<lambda>schema spec opts. ds_query_join s schema spec opts),
     er_structure = (\<lambda>schema table. ds_structure s schema table)\<rparr>"

datatype any_source = AnySource (the_source: erased_source)

definition source_new :: "db_source \<Rightarrow> any_source" where
  "source_new s = AnySource (erase s)"

definition source_ops :: "any_source \<Rightarrow> db_source" where
  "source_ops s = \<lparr>
     ds_list_schemas = er_list_schemas (the_source s),
     ds_list_tables = (\<lambda>schema. er_list_tables (the_source s) schema),
     ds_table_counts = (\<lambda>schema. er_table_counts (the_source s) schema),
     ds_query_table = (\<lambda>schema table opts. er_query_table (the_source s) schema table opts),
     ds_common_values = (\<lambda>schema table column. er_common_values (the_source s) schema table column),
     ds_referenced_by = (\<lambda>schema table. er_referenced_by (the_source s) schema table),
     ds_query_join = (\<lambda>schema spec opts. er_query_join (the_source s) schema spec opts),
     ds_structure = (\<lambda>schema table. er_structure (the_source s) schema table)\<rparr>"

lemma source_transparent: "source_ops (source_new s) = s"
  by (simp add: source_ops_def source_new_def erase_def)

section \<open>What the trait promises\<close>

text \<open>
  \<open>disc T\<close> is the invariant of the source's history while its statements run under one of the
  timeouts \<open>T\<close>; \<open>catalog\<close> is the timeout of its catalog operations.
\<close>

locale safe_source =
  fixes ops :: db_source
    and disc :: "u32 set \<Rightarrow> history \<Rightarrow> bool"
    and catalog :: u32
  assumes start: "disc T []"
    and list_schemas: "catalog \<in> T \<Longrightarrow>
      keeps (disc T) {} (ds_list_schemas ops) (\<lambda>_. {}) (\<lambda>l. set_option (sl_default l) \<subseteq> set (sl_schemas l))"
    and list_tables: "catalog \<in> T \<Longrightarrow>
      keeps (disc T) {} (ds_list_tables ops schema) (\<lambda>ts. ti_name ` set ts) (\<lambda>_. True)"
    and table_counts: "catalog \<in> T \<Longrightarrow>
      keeps (disc T) {} (ds_table_counts ops schema) (\<lambda>ts. fst ` set ts) (\<lambda>_. True)"
    and query_table: "catalog \<in> T \<Longrightarrow> q_timeout_secs opts \<in> T \<Longrightarrow>
      keeps (disc T) {} (ds_query_table ops schema table opts) (\<lambda>_. {}) page_wf"
    and common_values: "catalog \<in> T \<Longrightarrow>
      keeps (disc T) {} (ds_common_values ops schema table column) (\<lambda>_. {}) (\<lambda>_. True)"
    and referenced_by: "catalog \<in> T \<Longrightarrow>
      keeps (disc T) {} (ds_referenced_by ops schema table) (\<lambda>_. {}) (\<lambda>_. True)"
    and query_join: "jo_timeout_secs jopts \<in> T \<Longrightarrow> wf_spec spec \<Longrightarrow>
      keeps (disc T) {} (ds_query_join ops schema spec jopts) (\<lambda>_. {}) (join_wf (jo_limit jopts))"
    and structure_of: "catalog \<in> T \<Longrightarrow>
      keeps (disc T) {} (ds_structure ops schema table) (\<lambda>_. {}) (\<lambda>_. True)"
begin

text \<open>Wrapping a source changes nothing its callers rely on.\<close>

lemma wrapped: "safe_source (source_ops (source_new ops)) disc catalog"
  unfolding source_transparent by (rule safe_source_axioms)

end

lemma keeps_less:
  assumes "keeps I A m N Q" "\<And>x. Q x \<Longrightarrow> Q' x" "\<And>x. N' x \<subseteq> N x"
  shows "keeps I A m N' Q'"
  by (rule keeps_weaken [OF assms(1) subset_refl]) (use assms(2,3) in auto)

interpretation sqlite: safe_source "sqlite_source ord" "\<lambda>T. sane T Idle" CATALOG_TIMEOUT_SECS for ord
proof unfold_locales
  fix T schema table column and opts :: query_opts and jopts :: join_opts and spec
  show "sane T Idle []" by simp
  show "keeps (sane T Idle) {} (ds_list_schemas (sqlite_source ord)) (\<lambda>_. {}) (\<lambda>l. set_option (sl_default l) \<subseteq> set (sl_schemas l))"
    by (simp add: sqlite_source_def list_schemas_sqlite_def) (rule keeps_return; simp add: schema_listing_new_def)
  show "jo_timeout_secs jopts \<in> T \<Longrightarrow> wf_spec spec \<Longrightarrow>
      keeps (sane T Idle) {} (ds_query_join (sqlite_source ord) schema spec jopts) (\<lambda>_. {}) (join_wf (jo_limit jopts))"
    unfolding sqlite_source_def db_source.simps by (rule keeps_query_join_sqlite)
  assume c: "CATALOG_TIMEOUT_SECS \<in> T"
  show "keeps (sane T Idle) {} (ds_list_tables (sqlite_source ord) schema) (\<lambda>ts. ti_name ` set ts) (\<lambda>_. True)"
    using keeps_list_tables_sqlite [OF c] by (simp add: sqlite_source_def)
  show "keeps (sane T Idle) {} (ds_table_counts (sqlite_source ord) schema) (\<lambda>ts. fst ` set ts) (\<lambda>_. True)"
    unfolding sqlite_source_def db_source.simps by (rule keeps_less [OF keeps_table_counts_sqlite [OF c]]) simp_all
  show "keeps (sane T Idle) {} (ds_common_values (sqlite_source ord) schema table column) (\<lambda>_. {}) (\<lambda>_. True)"
    unfolding sqlite_source_def db_source.simps by (rule keeps_less [OF keeps_common_values_sqlite [OF c]]) simp_all
  show "keeps (sane T Idle) {} (ds_referenced_by (sqlite_source ord) schema table) (\<lambda>_. {}) (\<lambda>_. True)"
    using keeps_referenced_by_sqlite [OF c] by (simp add: sqlite_source_def)
  show "keeps (sane T Idle) {} (ds_structure (sqlite_source ord) schema table) (\<lambda>_. {}) (\<lambda>_. True)"
    unfolding sqlite_source_def db_source.simps by (rule keeps_less [OF keeps_structure_sqlite [OF c]]) simp_all
  assume "q_timeout_secs opts \<in> T"
  note keeps_query_table_sqlite [OF c this]
  then show "keeps (sane T Idle) {} (ds_query_table (sqlite_source ord) schema table opts) (\<lambda>_. {}) page_wf"
    unfolding sqlite_source_def db_source.simps by (rule keeps_less) simp_all
qed

interpretation pgs: safe_source "pg_source ord" "\<lambda>T. pg_state T Closed" CATALOG_TIMEOUT_SECS_pg for ord
  by unfold_locales
    (simp_all add: pg_source_def tx_sane_start keeps_list_tables_pg keeps_table_counts_pg keeps_query_table_pg
      keeps_common_values_pg keeps_referenced_by_pg keeps_query_join_pg keeps_structure_pg
      keeps_less [OF keeps_list_schemas_pg])

interpretation mys: safe_source "my_source ord" "\<lambda>T. my_state T Closed" CATALOG_TIMEOUT_SECS_my for ord
  by unfold_locales
    (simp_all add: my_source_def tx_sane_start keeps_list_tables_my keeps_table_counts_my keeps_query_table_my
      keeps_less [OF keeps_common_values_my] keeps_less [OF keeps_referenced_by_my] keeps_query_join_my
      keeps_structure_my keeps_less [OF keeps_list_schemas_my])

end
