(* ===== verification/Wire.thy ===== *)
theory Wire
  imports Engine
begin

text \<open>
  \<open>core/src/protocol_wire.rs\<close>: the request parameters and response bodies of the routes, and
  their validation. The query string arrives as the key/value pairs the form decoder yields
  (third-party, with the percent-decoding); what the derived \<open>Deserialize\<close> of a parameter struct
  does with them is \<open>decode_fields\<close>: unknown keys are skipped, a known key may occur once, every
  value is read by its field's reader, and a required field must be there. The JSON decoders of
  \<open>filter\<close> and \<open>join\<close> are the parameters \<open>de_filter\<close> and \<open>de_join\<close>. Serialisation of a
  response value to JSON text is derived code as well, so a response is its value.
\<close>

section \<open>Limits (config.rs)\<close>

record limits =
  l_default_page_size :: u32
  l_max_page_size :: u32
  l_query_timeout_secs :: u32

definition limits_default :: limits where
  "limits_default = \<lparr>l_default_page_size = 50, l_max_page_size = 100, l_query_timeout_secs = 5\<rparr>"

section \<open>Responses\<close>

record source_entry =
  se_name :: string

record sources_response =
  sr_sources :: "source_entry list"
  sr_default :: string

definition from_sources :: "(string \<times> 's) list \<Rightarrow> sources_response outcome" where
  "from_sources sources =
     (case default_source sources of
        None \<Rightarrow> Panic
      | Some d \<Rightarrow> Done (Inr \<lparr>sr_sources = map (\<lambda>(name, _). \<lparr>se_name = name\<rparr>) sources,
                        sr_default = fst d\<rparr>))"

record schema_entry =
  sc_name :: string

record schemas_response =
  sx_schemas :: "schema_entry list"
  sx_default :: "string option"

definition from_schema_listing :: "schema_listing \<Rightarrow> schemas_response" where
  "from_schema_listing listing =
     \<lparr>sx_schemas = map (\<lambda>name. \<lparr>sc_name = name\<rparr>) (sl_schemas listing), sx_default = sl_default listing\<rparr>"

record tables_response =
  tr_tables :: "table_info list"

record count_entry =
  ce_table :: string
  ce_approx_rows :: int

record counts_response =
  cr_counts :: "count_entry list"

definition from_counts :: "(string \<times> int) list \<Rightarrow> counts_response" where
  "from_counts counts = \<lparr>cr_counts = map (\<lambda>(table, rows). \<lparr>ce_table = table, ce_approx_rows = rows\<rparr>) counts\<rparr>"

text \<open>A frequency is an \<open>f32\<close>, kept as its bits.\<close>

record common_value_entry =
  cv_value :: string
  cv_freq :: u32

record common_values_response =
  cx_values :: "common_value_entry list"

definition from_common_values :: "(string \<times> u32) list \<Rightarrow> common_values_response" where
  "from_common_values vs = \<lparr>cx_values = map (\<lambda>(v, freq). \<lparr>cv_value = v, cv_freq = freq\<rparr>) vs\<rparr>"

record referenced_by_response =
  rx_referenced_by :: "referenced_by list"

section \<open>Reading parameters\<close>

datatype rejection = DuplicateField string | MissingField string | BadValue string

text \<open>\<open>deserialize_saturating_u32\<close>: out of the range of \<open>u32\<close> saturates, out of that of
  \<open>i128\<close>, or not a number, is rejected.\<close>

definition saturating_u32 :: "string \<Rightarrow> u32 option" where
  "saturating_u32 raw =
     (case parse_uint (2 ^ 32 - 1) raw of
        Some v \<Rightarrow> Some (of_nat v)
      | None \<Rightarrow>
          (case parse_int (- (2 ^ 127)) (2 ^ 127 - 1) raw of
             Some v \<Rightarrow> Some (of_int (max 0 (min (2 ^ 32 - 1) v)))
           | None \<Rightarrow> None))"

fun decode_fields ::
  "string list \<Rightarrow> string list \<Rightarrow> (string \<rightharpoonup> string) \<Rightarrow> (string \<times> string) list \<Rightarrow> rejection + (string \<rightharpoonup> string)" where
  "decode_fields known numeric seen [] = Inr seen"
| "decode_fields known numeric seen ((k, v) # ps) =
     (if k \<notin> set known then decode_fields known numeric seen ps
      else if seen k \<noteq> None then Inl (DuplicateField k)
      else if k \<in> set numeric \<and> saturating_u32 v = None then Inl (BadValue k)
      else decode_fields known numeric (seen(k \<mapsto> v)) ps)"

definition required :: "string \<Rightarrow> (string \<rightharpoonup> string) \<Rightarrow> rejection + string" where
  "required k m = ok_or (MissingField k) (m k)"

definition numeric_field :: "string \<Rightarrow> (string \<rightharpoonup> string) \<Rightarrow> u32 option" where
  "numeric_field k m = Option.bind (m k) saturating_u32"

record source_params =
  sp_source :: "string option"

definition decode_source_params :: "(string \<times> string) list \<Rightarrow> rejection + source_params" where
  "decode_source_params ps =
     and_then (decode_fields [''source''] [] Map.empty ps) (\<lambda>m. Inr \<lparr>sp_source = m ''source''\<rparr>)"

record schema_params =
  cp_schema :: "string option"
  cp_source :: "string option"

definition decode_schema_params :: "(string \<times> string) list \<Rightarrow> rejection + schema_params" where
  "decode_schema_params ps =
     and_then (decode_fields [''schema'', ''source''] [] Map.empty ps) (\<lambda>m.
     Inr \<lparr>cp_schema = m ''schema'', cp_source = m ''source''\<rparr>)"

record table_params =
  tp_schema :: "string option"
  tp_source :: "string option"
  tp_table :: string

definition decode_table_params :: "(string \<times> string) list \<Rightarrow> rejection + table_params" where
  "decode_table_params ps =
     and_then (decode_fields [''schema'', ''source'', ''table''] [] Map.empty ps) (\<lambda>m.
     and_then (required ''table'' m) (\<lambda>table.
     Inr \<lparr>tp_schema = m ''schema'', tp_source = m ''source'', tp_table = table\<rparr>))"

record common_values_params =
  vp_schema :: "string option"
  vp_source :: "string option"
  vp_table :: string
  vp_column :: string

definition decode_common_values_params :: "(string \<times> string) list \<Rightarrow> rejection + common_values_params" where
  "decode_common_values_params ps =
     and_then (decode_fields [''schema'', ''source'', ''table'', ''column''] [] Map.empty ps) (\<lambda>m.
     and_then (required ''table'' m) (\<lambda>table.
     and_then (required ''column'' m) (\<lambda>column.
     Inr \<lparr>vp_schema = m ''schema'', vp_source = m ''source'', vp_table = table, vp_column = column\<rparr>)))"

record data_params =
  dp_schema :: "string option"
  dp_source :: "string option"
  dp_table :: string
  dp_filter :: "string option"
  dp_limit :: "u32 option"
  dp_offset :: "u32 option"
  dp_sort :: "string option"
  dp_order :: "string option"

definition data_fields :: "string list" where
  "data_fields = [''schema'', ''source'', ''table'', ''filter'', ''limit'', ''offset'', ''sort'', ''order'']"

definition decode_data_params :: "(string \<times> string) list \<Rightarrow> rejection + data_params" where
  "decode_data_params ps =
     and_then (decode_fields data_fields [''limit'', ''offset''] Map.empty ps) (\<lambda>m.
     and_then (required ''table'' m) (\<lambda>table.
     Inr \<lparr>dp_schema = m ''schema'', dp_source = m ''source'', dp_table = table,
          dp_filter = m ''filter'', dp_limit = numeric_field ''limit'' m,
          dp_offset = numeric_field ''offset'' m, dp_sort = m ''sort'', dp_order = m ''order''\<rparr>))"

record join_params =
  jp_schema :: "string option"
  jp_source :: "string option"
  jp_join :: string
  jp_filter :: "string option"
  jp_limit :: "u32 option"
  jp_offset :: "u32 option"
  jp_sort :: "string option"
  jp_sort_join :: "string option"
  jp_order :: "string option"

definition decode_join_params :: "(string \<times> string) list \<Rightarrow> rejection + join_params" where
  "decode_join_params ps =
     and_then (decode_fields
         [''schema'', ''source'', ''join'', ''filter'', ''limit'', ''offset'', ''sort'', ''sort_join'', ''order'']
         [''limit'', ''offset''] Map.empty ps) (\<lambda>m.
     and_then (required ''join'' m) (\<lambda>join.
     Inr \<lparr>jp_schema = m ''schema'', jp_source = m ''source'', jp_join = join,
          jp_filter = m ''filter'', jp_limit = numeric_field ''limit'' m,
          jp_offset = numeric_field ''offset'' m, jp_sort = m ''sort'',
          jp_sort_join = m ''sort_join'', jp_order = m ''order''\<rparr>))"

section \<open>Validation\<close>

text \<open>\<open>u32::clamp(1, max)\<close> asserts that its bounds are in order.\<close>

definition clamp_u32 :: "u32 \<Rightarrow> u32 \<Rightarrow> u32 \<Rightarrow> u32 outcome" where
  "clamp_u32 x lo hi =
     (if \<not> lo \<le> hi then Panic
      else Done (Inr (if x < lo then lo else if hi < x then hi else x)))"

definition unwrap_or :: "'a option \<Rightarrow> 'a \<Rightarrow> 'a" where
  "unwrap_or x d = (case x of Some y \<Rightarrow> y | None \<Rightarrow> d)"

definition clamp_limit :: "u32 option \<Rightarrow> limits \<Rightarrow> u32 outcome" where
  "clamp_limit limit lim = clamp_u32 (unwrap_or limit (l_default_page_size lim)) 1 (l_max_page_size lim)"

definition is_descending :: "string option \<Rightarrow> db_error + bool" where
  "is_descending order =
     (case order of
        None \<Rightarrow> Inr False
      | Some other \<Rightarrow>
          if other = ''asc'' then Inr False
          else if other = ''desc'' then Inr True
          else Inl (BadParameter (''invalid order '' @ debug_str other @ '' (expected ''
                 @ [dquote] @ ''asc'' @ [dquote] @ '' or '' @ [dquote] @ ''desc'' @ [dquote] @ '')'')))"

definition parse_filter ::
  "string option \<Rightarrow> (string \<Rightarrow> filter_error + condition list) \<Rightarrow> db_error + condition list option" where
  "parse_filter raw parser =
     (case raw of
        None \<Rightarrow> Inr None
      | Some r \<Rightarrow>
          if trim r = [] then Inr None
          else (case parser r of
                  Inr conditions \<Rightarrow> if conditions = [] then Inr None else Inr (Some conditions)
                | Inl e \<Rightarrow> Inl (FilterParse (filter_error_text e))))"

definition query_opts_of ::
  "(string \<Rightarrow> string + condition list) \<Rightarrow> data_params \<Rightarrow> limits \<Rightarrow> query_opts outcome" where
  "query_opts_of de_filter p lim =
     outcome_then (Done (parse_filter (dp_filter p) (parse de_filter))) (\<lambda>filter.
     outcome_then (clamp_limit (dp_limit p) lim) (\<lambda>limit.
     outcome_then (Done (is_descending (dp_order p))) (\<lambda>descending.
     Done (Inr \<lparr>q_limit = limit, q_offset = unwrap_or (dp_offset p) 0, q_sort = dp_sort p,
                q_descending = descending, q_timeout_secs = l_query_timeout_secs lim,
                q_filter = filter\<rparr>))))"

definition parse_sort_join :: "string option \<Rightarrow> db_error + nat option" where
  "parse_sort_join raw =
     (case raw of
        None \<Rightarrow> Inr None
      | Some r \<Rightarrow>
          (case parse_uint (2 ^ 64 - 1) r of
             Some n \<Rightarrow> Inr (Some n)
           | None \<Rightarrow> Inl (BadParameter
               (''invalid sort_join '' @ debug_str r @ '' (expected a table position)''))))"

definition join_request ::
  "(string \<Rightarrow> string + join_spec) \<Rightarrow> (string \<Rightarrow> string + condition list) \<Rightarrow> join_params \<Rightarrow> limits
   \<Rightarrow> (join_spec \<times> join_opts) outcome" where
  "join_request de_join de_filter p lim =
     outcome_then (Done (map_err (\<lambda>e. BadJoin (join_error_text e)) (parse_join de_join (jp_join p)))) (\<lambda>spec.
     outcome_then (Done (parse_filter (jp_filter p) (parse_for_join de_filter))) (\<lambda>filter.
     outcome_then (Done (is_descending (jp_order p))) (\<lambda>descending.
     outcome_then (Done (parse_sort_join (jp_sort_join p))) (\<lambda>sort_join.
     outcome_then (clamp_limit (jp_limit p) lim) (\<lambda>limit.
     Done (Inr (spec,
       \<lparr>jo_limit = limit, jo_offset = unwrap_or (jp_offset p) 0, jo_sort = jp_sort p,
        jo_sort_join = sort_join, jo_descending = descending,
        jo_timeout_secs = l_query_timeout_secs lim, jo_filter = filter\<rparr>)))))))"

section \<open>Lemmas\<close>

text \<open>What an accepted filter parameter is.\<close>

definition filter_ok :: "bool \<Rightarrow> condition list option \<Rightarrow> bool" where
  "filter_ok allow_join f = (case f of None \<Rightarrow> True | Some cs \<Rightarrow> cs \<noteq> [] \<and> wf_filter allow_join cs)"

lemma parse_filter_ok: "parse_filter raw (\<lambda>r. parse_inner de r aj) = Inr f \<Longrightarrow> filter_ok aj f"
  by (auto simp: parse_filter_def filter_ok_def parse_inner_ok split: option.splits if_splits sum.splits)

lemma parse_filter_plain: "parse_filter raw (parse de) = Inr f \<Longrightarrow> filter_ok False f"
  by (rule parse_filter_ok [where de = de and raw = raw]) (simp add: parse_def [abs_def])

lemma parse_filter_join: "parse_filter raw (parse_for_join de) = Inr f \<Longrightarrow> filter_ok True f"
  by (rule parse_filter_ok [where de = de and raw = raw]) (simp add: parse_for_join_def [abs_def])

lemma parse_filter_error: "parse_filter raw p = Inl e \<Longrightarrow> \<exists>r. e = FilterParse r"
  by (auto simp: parse_filter_def split: option.splits if_splits sum.splits)

lemma is_descending_error: "is_descending order = Inl e \<Longrightarrow> \<exists>r. e = BadParameter r"
  by (auto simp: is_descending_def split: option.splits if_splits)

lemma is_descending_ok: "is_descending order = Inr d \<longleftrightarrow> (if d then order = Some ''desc'' else order = None \<or> order = Some ''asc'')"
  by (auto simp: is_descending_def split: option.splits if_splits)

lemma parse_sort_join_error: "parse_sort_join raw = Inl e \<Longrightarrow> \<exists>r. e = BadParameter r"
  by (auto simp: parse_sort_join_def split: option.splits)

lemma one_le_word: "(1 :: u32) \<le> w \<longleftrightarrow> w \<noteq> 0"
  by (metis word_coorder.not_eq_extremum word_less_1 linorder_not_less)

lemma clamp_limit_cases:
  "clamp_limit l lim =
     (if l_max_page_size lim = 0 then Panic
      else Done (Inr (max 1 (min (l_max_page_size lim) (unwrap_or l (l_default_page_size lim))))))"
  by (auto simp: clamp_limit_def clamp_u32_def one_le_word max_def min_def not_le)

lemma clamp_limit_range:
  "clamp_limit l lim = Done (Inr n) \<Longrightarrow> 1 \<le> n \<and> n \<le> l_max_page_size lim"
  by (auto simp: clamp_limit_def clamp_u32_def one_le_word not_less split: if_splits)

lemma clamp_limit_error: "clamp_limit l lim \<noteq> Done (Inl e)"
  by (simp add: clamp_limit_cases)

lemma outcome_then_Inl:
  "outcome_then r f = Done (Inl e) \<longleftrightarrow> r = Done (Inl e) \<or> (\<exists>x. r = Done (Inr x) \<and> f x = Done (Inl e))"
proof (cases r)
  case (Done s)
  then show ?thesis by (cases s) auto
qed simp

lemma uint_of_int_u32: "0 \<le> i \<Longrightarrow> i < 2 ^ 32 \<Longrightarrow> uint (of_int i :: u32) = i"
  by (simp add: uint_word_of_int)

lemma parse_uint_bound_int: "n \<le> 2 ^ 32 - 1 \<Longrightarrow> int n < 2 ^ 32"
  by simp

text \<open>Decoding: what the accepted fields hold.\<close>

lemma decode_fields_step:
  "decode_fields known numeric seen ((k, v) # ps) = Inr m \<longleftrightarrow>
     (if k \<in> set known
      then seen k = None \<and> (k \<in> set numeric \<longrightarrow> saturating_u32 v \<noteq> None)
           \<and> decode_fields known numeric (seen(k \<mapsto> v)) ps = Inr m
      else decode_fields known numeric seen ps = Inr m)"
  by auto

lemma decode_fields_duplicate:
  "decode_fields known numeric seen ps = Inl (DuplicateField k) \<Longrightarrow> k \<in> set known"
  by (induction known numeric seen ps rule: decode_fields.induct) (auto split: if_splits)

declare decode_fields.simps(2) [simp del]

lemma decode_fields_keeps:
  "decode_fields known numeric seen ps = Inr m \<Longrightarrow> seen k = Some v \<Longrightarrow> m k = Some v"
proof (induction ps arbitrary: seen)
  case (Cons p ps)
  obtain k' v' where p: "p = (k', v')" by force
  define seen' where "seen' = seen(k' \<mapsto> v')"
  have upd: "seen' x = (if x = k' then Some v' else seen x)" for x by (simp add: seen'_def)
  show ?case
    using Cons.prems Cons.IH [of seen] Cons.IH [of seen']
    by (cases "k = k'") (auto simp: p decode_fields_step upd [of k] upd [of k'] simp flip: seen'_def split: if_split_asm)
qed simp

lemma decode_fields_reads:
  "decode_fields known numeric seen ps = Inr m \<Longrightarrow> k \<in> set known \<Longrightarrow> seen k = None \<Longrightarrow> m k = map_of ps k"
proof (induction ps arbitrary: seen)
  case (Cons p ps)
  obtain k' v' where p: "p = (k', v')" by force
  define seen' where "seen' = seen(k' \<mapsto> v')"
  have upd: "seen' x = (if x = k' then Some v' else seen x)" for x by (simp add: seen'_def)
  show ?case
    using Cons.prems Cons.IH [of seen] Cons.IH [of seen']
      decode_fields_keeps [of known numeric seen' ps m k v']
    by (cases "k = k'") (auto simp: p decode_fields_step upd [of k] upd [of k'] simp flip: seen'_def split: if_split_asm)
qed simp

lemma decode_fields_distinct:
  "decode_fields known numeric seen ps = Inr m \<Longrightarrow>
     distinct (map fst (filter (\<lambda>p. fst p \<in> set known) ps))
     \<and> (\<forall>p \<in> set ps. fst p \<in> set known \<longrightarrow> seen (fst p) = None)"
proof (induction ps arbitrary: seen)
  case (Cons p ps)
  obtain k v where p: "p = (k, v)" by force
  show ?case
  proof (cases "k \<in> set known")
    case False
    with Cons show ?thesis by (auto simp: p decode_fields_step)
  next
    case True
    then have s: "seen k = None" "decode_fields known numeric (seen(k \<mapsto> v)) ps = Inr m"
      using Cons.prems by (auto simp: p decode_fields_step simp del: fun_upd_apply)
    note ih = Cons.IH [OF s(2)]
    have "fst q \<noteq> k \<and> seen (fst q) = None" if "q \<in> set ps" "fst q \<in> set known" for q
      using ih that by (auto split: if_split_asm)
    then show ?thesis using ih True s(1) by (auto simp: p)
  qed
qed simp

lemma decode_fields_numeric:
  "decode_fields known numeric seen ps = Inr m \<Longrightarrow> k \<in> set numeric \<Longrightarrow> k \<in> set known \<Longrightarrow>
     (k, v) \<in> set ps \<Longrightarrow> saturating_u32 v \<noteq> None"
proof (induction ps arbitrary: seen)
  case (Cons p ps)
  obtain k' v' where p: "p = (k', v')" by force
  show ?case
    using Cons.prems Cons.IH [of seen] Cons.IH [of "seen(k' \<mapsto> v')"]
    by (auto simp: p decode_fields_step simp del: fun_upd_apply split: if_split_asm)
qed simp

lemma decode_data_params_ok:
  assumes "decode_data_params ps = Inr p"
  shows "distinct (map fst (filter (\<lambda>q. fst q \<in> set data_fields) ps))"
    and "map_of ps ''table'' = Some (dp_table p)"
    and "dp_limit p = Option.bind (map_of ps ''limit'') saturating_u32"
    and "dp_offset p = Option.bind (map_of ps ''offset'') saturating_u32"
    and "\<forall>v. (''limit'', v) \<in> set ps \<or> (''offset'', v) \<in> set ps \<longrightarrow> saturating_u32 v \<noteq> None"
proof -
  obtain m where m: "decode_fields data_fields [''limit'', ''offset''] Map.empty ps = Inr m"
    and p: "m ''table'' = Some (dp_table p)" "dp_limit p = numeric_field ''limit'' m"
      "dp_offset p = numeric_field ''offset'' m"
    using assms by (auto simp: decode_data_params_def required_def)
  have known: "''table'' \<in> set data_fields" "''limit'' \<in> set data_fields" "''offset'' \<in> set data_fields"
    by (simp_all add: data_fields_def)
  note reads = decode_fields_reads [OF m]
  have "m ''table'' = map_of ps ''table''" "m ''limit'' = map_of ps ''limit''"
    "m ''offset'' = map_of ps ''offset''"
    by (rule reads; simp add: known)+
  then show "map_of ps ''table'' = Some (dp_table p)"
    "dp_limit p = Option.bind (map_of ps ''limit'') saturating_u32"
    "dp_offset p = Option.bind (map_of ps ''offset'') saturating_u32"
    using p by (simp_all add: numeric_field_def)
  show "distinct (map fst (filter (\<lambda>q. fst q \<in> set data_fields) ps))"
    using decode_fields_distinct [OF m] by simp
  show "\<forall>v. (''limit'', v) \<in> set ps \<or> (''offset'', v) \<in> set ps \<longrightarrow> saturating_u32 v \<noteq> None"
    using decode_fields_numeric [OF m _ known(2)] decode_fields_numeric [OF m _ known(3)] by auto
qed

lemma saturating_iff:
  "saturating_u32 raw = Some n \<longleftrightarrow>
     (\<exists>v. parse_int (- (2 ^ 127)) (2 ^ 127 - 1) raw = Some v
        \<and> uint n = max 0 (min (2 ^ 32 - 1) v))"
proof (cases "parse_uint (2 ^ 32 - 1) raw")
  case (Some k)
  have "parse_int (- (2 ^ 127)) (2 ^ 127 - 1) raw = Some (int k)"
    by (rule parse_uint_imp_int [OF Some]) simp_all
  moreover have "k \<le> 2 ^ 32 - 1" by (rule parse_uint_le [OF Some])
  then have "int k < 2 ^ 32" by (rule parse_uint_bound_int)
  then have "uint (of_nat k :: u32) = int k" by (simp add: unsigned_of_nat take_bit_nat_eq_self)
  ultimately show ?thesis
    using Some \<open>int k < 2 ^ 32\<close> by (auto simp: saturating_u32_def word_uint_eq_iff)
next
  case None
  have "uint (of_int (max 0 (min (2 ^ 32 - 1) v)) :: u32) = max 0 (min (2 ^ 32 - 1) v)" for v :: int
    by (rule uint_of_int_u32) auto
  with None show ?thesis
    by (auto simp: saturating_u32_def word_uint_eq_iff split: option.splits)
qed

section \<open>Properties\<close>

text \<open>\<open>deserialize_saturating_u32\<close>: a \<open>limit\<close> or \<open>offset\<close> is accepted exactly when it reads as
  an \<open>i128\<close>, and its value is then the nearest \<open>u32\<close>: negative values become 0 and values
  past \<open>u32::MAX\<close> become \<open>u32::MAX\<close>, never wrapping around.\<close>

theorem saturating_u32_correct:
  "saturating_u32 raw = Some n \<longleftrightarrow>
     (\<exists>v. parse_int (- (2 ^ 127)) (2 ^ 127 - 1) raw = Some v
        \<and> uint n = max 0 (min (2 ^ 32 - 1) v))"
  by (rule saturating_iff)

text \<open>A number of more digits than an \<open>i128\<close> holds is rejected instead of clamped, although it
  is as much out of range as any other.\<close>

theorem saturating_u32_rejects_past_i128:
  assumes "v < - (2 ^ 127) \<or> 2 ^ 127 \<le> v"
  shows "saturating_u32 (int_str v) = None"
proof (rule ccontr)
  assume "saturating_u32 (int_str v) \<noteq> None"
  then obtain n where "saturating_u32 (int_str v) = Some n" by auto
  then obtain w where "parse_int (- (2 ^ 127)) (2 ^ 127 - 1) (int_str v) = Some w"
    unfolding saturating_iff by blast
  then show False using assms unfolding parse_int_int_str by (auto split: if_splits)
qed

lemma saturating_u32_rejects_past_i128_witness:
  "((10 :: int) ^ 39 < - (2 ^ 127) \<or> 2 ^ 127 \<le> (10 :: int) ^ 39) \<and> saturating_u32 (int_str (10 ^ 39)) = None"
  using saturating_u32_rejects_past_i128 [of "10 ^ 39"] by simp

text \<open>C26: the options a page runs with: the page size lies between 1 and the configured maximum,
  the offset is the requested one, the timeout is the configured one, and the filter is absent
  or a non-empty list of the documented shape without a \<open>join\<close> position. A refusal is an
  \<open>invalid_filter\<close> or an \<open>invalid_parameter\<close>, both status 400. The only panic is the clamp's,
  when the configured maximum is 0.\<close>

theorem query_opts_validated:
  "case query_opts_of de p lim of
     Panic \<Rightarrow> l_max_page_size lim = 0
   | Done (Inr opts) \<Rightarrow>
       1 \<le> q_limit opts \<and> q_limit opts \<le> l_max_page_size lim
       \<and> q_limit opts = max 1 (min (l_max_page_size lim) (unwrap_or (dp_limit p) (l_default_page_size lim)))
       \<and> q_offset opts = unwrap_or (dp_offset p) 0 \<and> q_sort opts = dp_sort p
       \<and> (q_descending opts \<longleftrightarrow> dp_order p = Some ''desc'')
       \<and> q_timeout_secs opts = l_query_timeout_secs lim \<and> filter_ok False (q_filter opts)
   | Done (Inl e) \<Rightarrow> (\<exists>r. e = FilterParse r \<or> e = BadParameter r) \<and> fst (status_code e) = 400"
proof (cases "query_opts_of de p lim" rule: meets_cases_outcome)
  case 1
  then have "l_max_page_size lim = 0" by (auto simp: query_opts_of_def clamp_limit_cases split: if_splits)
  with 1 show ?thesis by simp
next
  case (2 e)
  then have "\<exists>r. e = FilterParse r \<or> e = BadParameter r"
    by (auto simp: query_opts_of_def outcome_then_Inl clamp_limit_error
        dest: parse_filter_error is_descending_error)
  with 2 show ?thesis by auto
next
  case (3 opts)
  then obtain f n d where f: "parse_filter (dp_filter p) (parse de) = Inr f"
    and n: "clamp_limit (dp_limit p) lim = Done (Inr n)" and d: "is_descending (dp_order p) = Inr d"
    and opts: "opts = \<lparr>q_limit = n, q_offset = unwrap_or (dp_offset p) 0, q_sort = dp_sort p,
                q_descending = d, q_timeout_secs = l_query_timeout_secs lim, q_filter = f\<rparr>"
    by (auto simp: query_opts_of_def)
  show ?thesis
    using 3 clamp_limit_range [OF n] parse_filter_plain [OF f] n d
    by (auto simp: opts clamp_limit_cases is_descending_ok split: if_splits)
qed

text \<open>C27: the same of a join request: the join has the documented shape, and \<open>sort_join\<close> is a
  \<open>usize\<close>; the filter's conditions may name a table position.\<close>

theorem join_request_validated:
  "case join_request de_join de_filter p lim of
     Panic \<Rightarrow> l_max_page_size lim = 0
   | Done (Inr (spec, opts)) \<Rightarrow>
       de_join (jp_join p) = Inr spec \<and> length (jp_join p) \<le> MAX_JOIN_BYTES \<and> wf_spec spec
       \<and> jo_limit opts = max 1 (min (l_max_page_size lim) (unwrap_or (jp_limit p) (l_default_page_size lim)))
       \<and> 1 \<le> jo_limit opts \<and> jo_limit opts \<le> l_max_page_size lim
       \<and> jo_offset opts = unwrap_or (jp_offset p) 0 \<and> jo_sort opts = jp_sort p
       \<and> (jo_descending opts \<longleftrightarrow> jp_order p = Some ''desc'')
       \<and> (case jo_sort_join opts of None \<Rightarrow> jp_sort_join p = None | Some n \<Rightarrow> n < 2 ^ 64)
       \<and> jo_timeout_secs opts = l_query_timeout_secs lim \<and> filter_ok True (jo_filter opts)
   | Done (Inl e) \<Rightarrow> (\<exists>r. e = BadJoin r \<or> e = FilterParse r \<or> e = BadParameter r) \<and> fst (status_code e) = 400"
proof (cases "join_request de_join de_filter p lim" rule: meets_cases_outcome)
  case 1
  then have "l_max_page_size lim = 0" by (auto simp: join_request_def clamp_limit_cases split: if_splits)
  with 1 show ?thesis by simp
next
  case (2 e)
  then have "\<exists>r. e = BadJoin r \<or> e = FilterParse r \<or> e = BadParameter r"
    by (auto simp: join_request_def outcome_then_Inl clamp_limit_error map_err_Inl
        dest: parse_filter_error is_descending_error parse_sort_join_error)
  with 2 show ?thesis by auto
next
  case (3 so)
  then obtain spec f d sj n where s: "parse_join de_join (jp_join p) = Inr spec"
    and f: "parse_filter (jp_filter p) (parse_for_join de_filter) = Inr f"
    and d: "is_descending (jp_order p) = Inr d" and sj: "parse_sort_join (jp_sort_join p) = Inr sj"
    and n: "clamp_limit (jp_limit p) lim = Done (Inr n)"
    and so: "so = (spec, \<lparr>jo_limit = n, jo_offset = unwrap_or (jp_offset p) 0, jo_sort = jp_sort p,
        jo_sort_join = sj, jo_descending = d, jo_timeout_secs = l_query_timeout_secs lim, jo_filter = f\<rparr>)"
    by (auto simp: join_request_def)
  have sj': "case sj of None \<Rightarrow> jp_sort_join p = None | Some n \<Rightarrow> n < 2 ^ 64"
  proof (cases sj)
    case None
    with sj show ?thesis by (auto simp: parse_sort_join_def split: option.splits)
  next
    case (Some k)
    with sj obtain r where "parse_uint (2 ^ 64 - 1) r = Some k"
      by (auto simp: parse_sort_join_def split: option.splits)
    then have "k \<le> 2 ^ 64 - 1" by (rule parse_uint_le)
    with Some show ?thesis by simp
  qed
  show ?thesis
    using 3 s clamp_limit_range [OF n] parse_filter_join [OF f] n d sj'
    by (auto simp: so clamp_limit_cases is_descending_ok parse_join_ok split: if_splits)
qed

text \<open>With a configured maximum page size of 0 every valid page request panics in the clamp.\<close>

theorem zero_max_page_size_panics:
  assumes "l_max_page_size lim = 0" "parse_filter (dp_filter p) (parse de) = Inr f"
  shows "query_opts_of de p lim = Panic"
  using assms by (simp add: query_opts_of_def clamp_limit_cases)

definition plain_params :: data_params where
  "plain_params = \<lparr>dp_schema = None, dp_source = None, dp_table = ''users'', dp_filter = None,
     dp_limit = None, dp_offset = None, dp_sort = None, dp_order = None\<rparr>"

lemma zero_max_page_size_panics_witness:
  "query_opts_of (\<lambda>_. Inr []) plain_params \<lparr>l_default_page_size = 50, l_max_page_size = 0, l_query_timeout_secs = 5\<rparr>
     = Panic"
  by (rule zero_max_page_size_panics [where f = None]) (simp_all add: plain_params_def parse_filter_def)

text \<open>Reading a page's query string: the parameters are those of the pairs with the documented
  keys, no documented key occurs twice, the table is given, and a \<open>limit\<close> or \<open>offset\<close> that is
  given is a number.\<close>

theorem decode_data_params_correct:
  assumes "decode_data_params ps = Inr p"
  shows "distinct (map fst (filter (\<lambda>q. fst q \<in> set data_fields) ps))
    \<and> map_of ps ''table'' = Some (dp_table p)
    \<and> dp_limit p = Option.bind (map_of ps ''limit'') saturating_u32
    \<and> dp_offset p = Option.bind (map_of ps ''offset'') saturating_u32
    \<and> (\<forall>v. (''limit'', v) \<in> set ps \<or> (''offset'', v) \<in> set ps \<longrightarrow> saturating_u32 v \<noteq> None)"
  using decode_data_params_ok [OF assms] by blast

lemma decode_data_params_correct_witness:
  "\<exists>p. decode_data_params [(''table'', ''users''), (''x'', ''1''), (''limit'', ''7'')] = Inr p
     \<and> dp_table p = ''users'' \<and> dp_limit p = Some 7"
proof -
  have "saturating_u32 ''7'' = Some 7"
    by (simp add: saturating_u32_def parse_uint_def parse_digits_def is_digit_def digits_val_def digit_val_def)
  then obtain p where p: "decode_data_params [(''table'', ''users''), (''x'', ''1''), (''limit'', ''7'')] = Inr p"
    by (auto simp: decode_data_params_def data_fields_def decode_fields.simps required_def)
  show ?thesis
    using decode_data_params_correct [OF p] p \<open>saturating_u32 ''7'' = Some 7\<close> by simp
qed

end
