(* ===== verification/Siblings.thy ===== *)
theory Siblings
  imports Wire
begin

text \<open>
  \<open>core/src/config.rs\<close>, \<open>core/src/siblings.rs\<close>: the host's configuration, the corrections
  \<open>siblings_view\<close> makes to it, and the health checks of the sibling instances. The TOML decoder
  (\<open>toml::from_str\<close>, third-party) is the parameter \<open>de\<close>; the HTTP client (\<open>reqwest\<close>) is the
  parameter \<open>http\<close>: whether the \<open>i\<close>-th check's GET of a URL came back with a 2xx status. The
  checks run concurrently and \<open>join_all\<close> returns their results in the order of the entries, so a
  check is a function of its own request alone.
\<close>

section \<open>Configuration\<close>

record instance_info =
  in_name :: string
  in_label :: string

record sibling =
  sb_name :: string
  sb_base_url :: string
  sb_health_path :: string
  sb_label :: "string option"

record config =
  cfg_enabled :: bool
  cfg_limits :: limits
  cfg_instance :: "instance_info option"
  cfg_siblings :: "sibling list"

definition config_default :: config where
  "config_default = \<lparr>cfg_enabled = False, cfg_limits = limits_default, cfg_instance = None, cfg_siblings = []\<rparr>"

datatype config_error = Toml string

fun config_error_text :: "config_error \<Rightarrow> string" where
  "config_error_text (Toml e) = ''invalid ashurbanipal config: '' @ e"

definition from_toml :: "(string \<Rightarrow> string + config) \<Rightarrow> string \<Rightarrow> config_error + config" where
  "from_toml de s = map_err Toml (de s)"

definition is_enabled :: "config \<Rightarrow> bool" where
  "is_enabled cfg = cfg_enabled cfg"

definition sibling_is :: "sibling \<Rightarrow> instance_info \<Rightarrow> bool" where
  "sibling_is s i \<longleftrightarrow> sb_name s = in_name i \<and> sb_label s = Some (in_label i)"

section \<open>The corrected view\<close>

record view =
  v_instance :: "instance_info option"
  v_siblings :: "sibling list"
  v_warnings :: "string list"

definition duplicate_warning :: "sibling \<Rightarrow> string" where
  "duplicate_warning s =
     (case sb_label s of
        Some label \<Rightarrow> ''two siblings share the name '' @ debug_str (sb_name s) @ '' and the label '' @ debug_str label
      | None \<Rightarrow> ''two siblings share the name '' @ debug_str (sb_name s) @ '' and no label'')"

text \<open>
  The closure of \<open>iter().map(...)\<close>, with the warnings and the map of counts it captures; the
  counter is a \<open>nat\<close>, as no configuration has \<open>i32::MAX\<close> entries.
\<close>

definition view_step ::
  "string list \<times> (string \<times> string option \<rightharpoonup> nat) \<Rightarrow> sibling \<Rightarrow>
   (string list \<times> (string \<times> string option \<rightharpoonup> nat)) \<times> sibling" where
  "view_step st sibling =
     (let (warnings, seen) = st;
          empty = (sb_label sibling = Some []);
          warnings = (if empty
                      then warnings @ [''sibling '' @ debug_str (sb_name sibling)
                             @ '' has an empty label; treated as unlabelled'']
                      else warnings);
          sibling = (if empty then sibling\<lparr>sb_label := None\<rparr> else sibling);
          key = (sb_name sibling, sb_label sibling);
          copies = unwrap_or (seen key) 0 + 1;
          seen = seen(key \<mapsto> copies);
          warnings = (if copies = 2 then warnings @ [duplicate_warning sibling] else warnings)
      in ((warnings, seen), sibling))"

fun view_loop ::
  "string list \<times> (string \<times> string option \<rightharpoonup> nat) \<Rightarrow> sibling list \<Rightarrow> string list \<times> sibling list" where
  "view_loop st [] = (fst st, [])"
| "view_loop st (s # ss) =
     (let (st', s') = view_step st s;
          (warnings, rest) = view_loop st' ss
      in (warnings, s' # rest))"

definition siblings_view :: "config \<Rightarrow> view" where
  "siblings_view cfg =
     (let bad = (case cfg_instance cfg of Some i \<Rightarrow> in_name i = [] \<or> in_label i = [] | None \<Rightarrow> False);
          warnings = (if bad then [''instance needs a non-empty name and label; ignored''] else []);
          instance_info = (if bad then None else cfg_instance cfg);
          (warnings, siblings) = view_loop (warnings, Map.empty) (cfg_siblings cfg)
      in \<lparr>v_instance = instance_info, v_siblings = siblings, v_warnings = warnings\<rparr>)"

definition is_instance :: "view \<Rightarrow> sibling \<Rightarrow> bool" where
  "is_instance v s = (case v_instance v of Some i \<Rightarrow> sibling_is s i | None \<Rightarrow> False)"

section \<open>Health checks\<close>

record sibling_status =
  ss_name :: string
  ss_label :: "string option"
  ss_base_url :: string
  ss_healthy :: bool

record siblings_response =
  sg_instance :: "instance_info option"
  sg_siblings :: "sibling_status list"
  sg_warnings :: "string list"

definition health_url :: "string \<Rightarrow> string \<Rightarrow> string option" where
  "health_url base_url health_path =
     (case find_sub ''://'' base_url of
        None \<Rightarrow> None
      | Some i \<Rightarrow>
          (let scheme_end = i + 3;
               host_end = (case find_sub ''/'' (drop scheme_end base_url) of
                             Some k \<Rightarrow> scheme_end + k | None \<Rightarrow> length base_url)
           in Some (take host_end base_url @ health_path)))"

text \<open>One check: its status, and the URL it fetches, if any.\<close>

definition check_one :: "(nat \<Rightarrow> string \<Rightarrow> bool) \<Rightarrow> view \<Rightarrow> nat \<Rightarrow> sibling \<Rightarrow> sibling_status \<times> string option" where
  "check_one http v i s =
     (let (healthy, url) =
            (if is_instance v s then (True, None)
             else (case health_url (sb_base_url s) (sb_health_path s) of
                     Some url \<Rightarrow> (http i url, Some url)
                   | None \<Rightarrow> (False, None)))
      in (\<lparr>ss_name = sb_name s, ss_label = sb_label s, ss_base_url = sb_base_url s, ss_healthy = healthy\<rparr>, url))"

definition check_siblings :: "(nat \<Rightarrow> string \<Rightarrow> bool) \<Rightarrow> view \<Rightarrow> siblings_response \<times> string option list" where
  "check_siblings http v =
     (let checks = map (\<lambda>(i, s). check_one http v i s) (List.enumerate 0 (v_siblings v))
      in (\<lparr>sg_instance = v_instance v, sg_siblings = map fst checks, sg_warnings = v_warnings v\<rparr>,
          map snd checks))"

section \<open>Reference: the view without state\<close>

definition corrected :: "sibling \<Rightarrow> sibling" where
  "corrected s = (if sb_label s = Some [] then s\<lparr>sb_label := None\<rparr> else s)"

definition sibling_key :: "sibling \<Rightarrow> string \<times> string option" where
  "sibling_key s = (sb_name s, sb_label s)"

text \<open>What the \<open>i\<close>-th entry warns of: an empty label, and being the second of its name and label.\<close>

definition warnings_at :: "sibling list \<Rightarrow> nat \<Rightarrow> string list" where
  "warnings_at ss i =
     (if sb_label (ss ! i) = Some []
      then [''sibling '' @ debug_str (sb_name (ss ! i)) @ '' has an empty label; treated as unlabelled'']
      else [])
   @ (if count_list (map (sibling_key \<circ> corrected) (take i ss)) (sibling_key (corrected (ss ! i))) = 1
      then [duplicate_warning (corrected (ss ! i))] else [])"

fun warnings_from :: "(string \<times> string option) list \<Rightarrow> sibling list \<Rightarrow> string list" where
  "warnings_from before [] = []"
| "warnings_from before (s # ss) =
     (if sb_label s = Some []
      then [''sibling '' @ debug_str (sb_name s) @ '' has an empty label; treated as unlabelled''] else [])
   @ (if count_list before (sibling_key (corrected s)) = 1 then [duplicate_warning (corrected s)] else [])
   @ warnings_from (before @ [sibling_key (corrected s)]) ss"

section \<open>Lemmas\<close>

text \<open>The map of counts is the multiplicity of each key so far.\<close>

definition counts :: "(string \<times> string option \<rightharpoonup> nat) \<Rightarrow> (string \<times> string option) list \<Rightarrow> bool" where
  "counts seen before \<longleftrightarrow> (\<forall>k. unwrap_or (seen k) 0 = count_list before k)"

lemma counts_push: "counts seen before \<Longrightarrow> counts (seen(k \<mapsto> count_list before k + 1)) (before @ [k])"
  by (auto simp: counts_def unwrap_or_def)

lemma view_step_eq:
  assumes "counts seen before"
  shows "view_step (warnings, seen) s =
    ((warnings
      @ (if sb_label s = Some [] then [''sibling '' @ debug_str (sb_name s) @ '' has an empty label; treated as unlabelled''] else [])
      @ (if count_list before (sibling_key (corrected s)) = 1 then [duplicate_warning (corrected s)] else []),
      seen(sibling_key (corrected s) \<mapsto> count_list before (sibling_key (corrected s)) + 1)), corrected s)"
proof -
  have c: "unwrap_or (seen k) 0 = count_list before k" for k
    using assms unfolding counts_def by blast
  have two: "(n + 1 = 2) = (n = (1 :: nat))" for n by arith
  show ?thesis
    unfolding view_step_def Let_def prod.case
    by (cases "sb_label s = Some []") (simp_all add: c two corrected_def sibling_key_def)
qed

lemma view_loop_eq:
  "counts seen before \<Longrightarrow>
   view_loop (warnings, seen) ss = (warnings @ warnings_from before ss, map corrected ss)"
proof (induction ss arbitrary: warnings seen before)
  case Nil
  then show ?case by simp
next
  case (Cons s ss)
  show ?case
    by (simp add: view_step_eq [OF Cons.prems] Cons.IH [OF counts_push [OF Cons.prems, simplified]])
qed

lemma warnings_from_eq:
  "warnings_from (map (sibling_key \<circ> corrected) bs) ss =
     concat (map (warnings_at (bs @ ss)) [length bs ..< length (bs @ ss)])"
proof (induction ss arbitrary: bs)
  case Nil
  then show ?case by simp
next
  case (Cons s ss)
  have idx: "[length bs ..< length (bs @ s # ss)] = length bs # [length (bs @ [s]) ..< length ((bs @ [s]) @ ss)]"
    by (subst upt_conv_Cons) simp_all
  have here: "warnings_at (bs @ s # ss) (length bs) =
      (if sb_label s = Some []
       then [''sibling '' @ debug_str (sb_name s) @ '' has an empty label; treated as unlabelled''] else [])
      @ (if count_list (map (sibling_key \<circ> corrected) bs) (sibling_key (corrected s)) = 1
         then [duplicate_warning (corrected s)] else [])"
    by (simp add: warnings_at_def)
  have rest: "warnings_from (map (sibling_key \<circ> corrected) bs @ [sibling_key (corrected s)]) ss =
      concat (map (warnings_at (bs @ s # ss)) [length (bs @ [s]) ..< length ((bs @ [s]) @ ss)])"
    using Cons.IH [of "bs @ [s]"] by (simp only: append_assoc append.simps list.map map_append comp_def)
  show ?case
    unfolding idx warnings_from.simps rest list.map concat.simps here by (simp only: append_assoc)
qed

lemma find_sub_first:
  "prefix n (drop i s) \<Longrightarrow> i \<le> length s \<Longrightarrow> \<forall>j<i. \<not> prefix n (drop j s) \<Longrightarrow> find_sub n s = Some i"
proof (induction s arbitrary: i)
  case Nil
  then show ?case by simp
next
  case (Cons c s)
  show ?case
  proof (cases i)
    case 0
    with Cons.prems show ?thesis by simp
  next
    case (Suc k)
    with Cons.prems have "\<not> prefix n (c # s)" "\<forall>j<k. \<not> prefix n (drop j s)" by force+
    with Suc Cons show ?thesis by simp
  qed
qed

lemma find_slash:
  "CHR ''/'' \<notin> set host \<Longrightarrow> find_sub ''/'' (host @ CHR ''/'' # rest) = Some (length host)"
  by (induction host) auto

section \<open>Properties\<close>

text \<open>C38: \<open>siblings_view\<close>, which threads a list of warnings and a map of counts through the
  entries, is the stateless function of the configuration: every entry is kept, in order, with
  at most its empty label dropped; the instance is kept unless its name or label is empty; and
  the warnings are those of the instance and then of each entry in order, one for an empty label
  and one for the second entry of a name and label, none for the first or the third.\<close>

theorem siblings_view_correct:
  "siblings_view cfg =
     (let bad = (\<exists>i. cfg_instance cfg = Some i \<and> (in_name i = [] \<or> in_label i = []))
      in \<lparr>v_instance = (if bad then None else cfg_instance cfg),
          v_siblings = map corrected (cfg_siblings cfg),
          v_warnings = (if bad then [''instance needs a non-empty name and label; ignored''] else [])
            @ concat (map (warnings_at (cfg_siblings cfg)) [0 ..< length (cfg_siblings cfg)])\<rparr>)"
proof -
  have "counts Map.empty []" by (simp add: counts_def unwrap_or_def)
  note loop = view_loop_eq [OF this]
  have bad: "(case cfg_instance cfg of Some i \<Rightarrow> in_name i = [] \<or> in_label i = [] | None \<Rightarrow> False)
      = (\<exists>i. cfg_instance cfg = Some i \<and> (in_name i = [] \<or> in_label i = []))"
    by (auto split: option.splits)
  show ?thesis
    using warnings_from_eq [of "[]" "cfg_siblings cfg"]
    by (simp add: siblings_view_def Let_def loop bad)
qed

text \<open>The health URL of a sibling resolves its path against the origin of its base URL: scheme
  and host are kept and whatever path follows the host is dropped.\<close>

theorem health_url_origin:
  assumes "\<not> contains ''://'' (scheme @ '':/'')" "CHR ''/'' \<notin> set host"
    and "rest = [] \<or> hd rest = CHR ''/''"
  shows "health_url (scheme @ ''://'' @ host @ rest) path = Some (scheme @ ''://'' @ host @ path)"
proof -
  let ?u = "scheme @ ''://'' @ host @ rest"
  have "\<not> prefix ''://'' (drop j ?u)" if "j < length scheme" for j
  proof
    assume p: "prefix ''://'' (drop j ?u)"
    have "drop j ?u = drop j (scheme @ '':/'') @ ''/'' @ host @ rest"
      using that by simp
    with p have "prefix ''://'' (drop j (scheme @ '':/''))"
      using that by (auto intro: prefix_length_prefix [where xs = "drop j ?u"])
    then have "sublist ''://'' (scheme @ '':/'')"
      by (meson prefix_imp_sublist sublist_drop sublist_order.order.trans)
    with assms(1) show False by (simp add: contains_iff)
  qed
  then have f: "find_sub ''://'' ?u = Some (length scheme)"
    by (intro find_sub_first) auto
  show ?thesis
  proof (cases "rest = []")
    case True
    with assms(2) have "find_sub ''/'' host = None"
      by (auto simp: find_sub_None contains_iff sublist_def)
    with f True show ?thesis by (simp add: health_url_def)
  next
    case False
    with assms obtain tail where "rest = CHR ''/'' # tail" by (cases rest) auto
    with f find_slash [OF assms(2), of tail] show ?thesis
      by (simp add: health_url_def numeral_3_eq_3)
  qed
qed

lemma health_url_origin_witness:
  "health_url (''https'' @ ''://'' @ ''billing.internal.vpn'' @ ''/__ashurbanipal'') ''/health''
     = Some (''https'' @ ''://'' @ ''billing.internal.vpn'' @ ''/health'')"
  by (rule health_url_origin) simp_all

text \<open>a check answers with one status per configured sibling, in order; the entry that is this
  instance is healthy and fetches nothing, an entry without an origin is unhealthy and fetches
  nothing, and any other is as healthy as the one GET of its health URL says.\<close>

theorem check_siblings_correct:
  "sg_instance (fst (check_siblings http v)) = v_instance v
   \<and> sg_warnings (fst (check_siblings http v)) = v_warnings v
   \<and> length (sg_siblings (fst (check_siblings http v))) = length (v_siblings v)
   \<and> (\<forall>i < length (v_siblings v).
        let s = v_siblings v ! i; status = sg_siblings (fst (check_siblings http v)) ! i;
            url = snd (check_siblings http v) ! i
        in ss_name status = sb_name s \<and> ss_label status = sb_label s \<and> ss_base_url status = sb_base_url s
         \<and> url = (if is_instance v s then None else health_url (sb_base_url s) (sb_health_path s))
         \<and> ss_healthy status = (is_instance v s \<or> (case url of Some u \<Rightarrow> http i u | None \<Rightarrow> False)))"
proof -
  have nth: "sg_siblings (fst (check_siblings http v)) ! i = fst (check_one http v i (v_siblings v ! i))"
    "snd (check_siblings http v) ! i = snd (check_one http v i (v_siblings v ! i))"
    if "i < length (v_siblings v)" for i
    using that by (simp_all add: check_siblings_def Let_def nth_enumerate_eq)
  have one: "check_one http v i s =
      (\<lparr>ss_name = sb_name s, ss_label = sb_label s, ss_base_url = sb_base_url s,
        ss_healthy = (is_instance v s \<or> (case (if is_instance v s then None else health_url (sb_base_url s) (sb_health_path s)) of Some u \<Rightarrow> http i u | None \<Rightarrow> False))\<rparr>,
       if is_instance v s then None else health_url (sb_base_url s) (sb_health_path s))" for i s
    by (simp add: check_one_def split: option.split)
  show ?thesis by (simp add: nth one Let_def) (simp add: check_siblings_def Let_def)
qed

definition example_view :: view where
  "example_view = \<lparr>v_instance = None, v_siblings =
     [\<lparr>sb_name = ''billing'', sb_base_url = ''http://b/x'', sb_health_path = ''/h'', sb_label = None\<rparr>], v_warnings = []\<rparr>"

lemma check_siblings_correct_witness:
  "0 < length (v_siblings example_view)
   \<and> snd (check_siblings (\<lambda>i url. True) example_view) ! 0 = Some ''http://b/h''"
  using check_siblings_correct [where http = "\<lambda>i url. True" and v = example_view]
  by (simp add: Let_def is_instance_def health_url_def example_view_def)

end
