(* ===== verification/Page_Encoding.thy ===== *)
theory Page_Encoding
  imports Wire
begin

text \<open>
  \<open>core/src/page_encoding.rs\<close>: which copy of the UI page a request gets. A quality value is an
  \<open>f64\<close> of which the code only asks whether it is at least, or more than, zero; so an \<open>f64\<close> is
  its sign, and \<open>parse_f64\<close> is \<open>str::parse::<f64>\<close> down to the sign: the grammar of the
  standard library, with values at most half the least positive \<open>f64\<close> rounding to zero. The
  gzip encoder (\<open>flate2\<close>, third-party) is a parameter where the page is served.
\<close>

datatype f64 = F64Nan | F64Neg | F64Zero | F64Pos

definition ge_zero :: "f64 \<Rightarrow> bool" where
  "ge_zero q \<longleftrightarrow> q = F64Zero \<or> q = F64Pos"

definition gt_zero :: "f64 \<Rightarrow> bool" where
  "gt_zero q \<longleftrightarrow> q = F64Pos"

text \<open>The sign of \<open>m * 10 ^ e\<close>, rounded: at most \<open>2 ^ -1075\<close> is zero.\<close>

definition decimal_sign :: "bool \<Rightarrow> nat \<Rightarrow> int \<Rightarrow> f64" where
  "decimal_sign neg m e =
     (if m = 0 \<or> (e < 0 \<and> m * 2 ^ 1075 \<le> 10 ^ nat (- e)) then F64Zero
      else if neg then F64Neg else F64Pos)"

definition parse_exponent :: "string \<Rightarrow> int option" where
  "parse_exponent s =
     (let neg = (s \<noteq> [] \<and> hd s = CHR ''-'');
          body = (if s \<noteq> [] \<and> (hd s = CHR ''+'' \<or> hd s = CHR ''-'') then tl s else s)
      in map_option (\<lambda>n. if neg then - int n else int n) (parse_digits body))"

definition parse_decimal :: "bool \<Rightarrow> string \<Rightarrow> f64 option" where
  "parse_decimal neg s =
     (let mantissa = takeWhile (\<lambda>c. c \<noteq> CHR ''e'') s;
          tail = dropWhile (\<lambda>c. c \<noteq> CHR ''e'') s;
          whole = takeWhile (\<lambda>c. c \<noteq> CHR ''.'') mantissa;
          frac = (case dropWhile (\<lambda>c. c \<noteq> CHR ''.'') mantissa of [] \<Rightarrow> [] | _ # f \<Rightarrow> f)
      in case parse_digits (whole @ frac) of
           None \<Rightarrow> None
         | Some m \<Rightarrow>
             (case (case tail of [] \<Rightarrow> Some 0 | _ # x \<Rightarrow> parse_exponent x) of
                None \<Rightarrow> None
              | Some e \<Rightarrow> Some (decimal_sign neg m (e - int (length frac)))))"

definition parse_f64 :: "string \<Rightarrow> f64 option" where
  "parse_f64 s =
     (let neg = (s \<noteq> [] \<and> hd s = CHR ''-'');
          body = to_ascii_lowercase (if s \<noteq> [] \<and> (hd s = CHR ''+'' \<or> hd s = CHR ''-'') then tl s else s)
      in if body = ''inf'' \<or> body = ''infinity'' then Some (if neg then F64Neg else F64Pos)
         else if body = ''nan'' then Some F64Nan
         else parse_decimal neg body)"

text \<open>\<open>param.split_once('=').unwrap_or((param, ""))\<close>.\<close>

definition split_param :: "string \<Rightarrow> string \<times> string" where
  "split_param param =
     (takeWhile (\<lambda>c. c \<noteq> CHR ''='') param,
      case dropWhile (\<lambda>c. c \<noteq> CHR ''='') param of [] \<Rightarrow> [] | _ # v \<Rightarrow> v)"

fun entry_q :: "f64 \<Rightarrow> string list \<Rightarrow> f64" where
  "entry_q q [] = q"
| "entry_q q (param # params) =
     (let (name, value) = split_param param
      in entry_q (if eq_ignore_ascii_case (trim name) ''q''
                  then (case parse_f64 (trim value) of Some v \<Rightarrow> v | None \<Rightarrow> F64Zero) else q) params)"

definition entry_step :: "f64 \<times> f64 \<Rightarrow> string \<Rightarrow> f64 \<times> f64" where
  "entry_step st entry =
     (let (gzip_q, star_q) = st;
          parts = split_on (CHR '';'') entry;
          coding = trim (hd parts);
          q = entry_q F64Pos (tl parts)
      in if eq_ignore_ascii_case coding ''gzip'' \<or> eq_ignore_ascii_case coding ''x-gzip'' then (q, star_q)
         else if coding = ''*'' then (gzip_q, q)
         else (gzip_q, star_q))"

definition accepts_gzip :: "string list \<Rightarrow> bool" where
  "accepts_gzip header_values =
     (let (gzip_q, star_q) =
            foldl entry_step (F64Neg, F64Neg) (concat (map (split_on (CHR '','')) header_values))
      in if ge_zero gzip_q then gt_zero gzip_q else gt_zero star_q)"

section \<open>Reference: the last entry of each kind\<close>

definition coding_of :: "string \<Rightarrow> string" where
  "coding_of entry = trim (hd (split_on (CHR '';'') entry))"

definition q_of :: "string \<Rightarrow> f64" where
  "q_of entry = entry_q F64Pos (tl (split_on (CHR '';'') entry))"

definition names_gzip :: "string \<Rightarrow> bool" where
  "names_gzip entry \<longleftrightarrow>
     eq_ignore_ascii_case (coding_of entry) ''gzip'' \<or> eq_ignore_ascii_case (coding_of entry) ''x-gzip''"

definition names_star :: "string \<Rightarrow> bool" where
  "names_star entry \<longleftrightarrow> coding_of entry = ''*''"

definition last_q :: "(string \<Rightarrow> bool) \<Rightarrow> string list \<Rightarrow> f64" where
  "last_q P entries = (case filter P entries of [] \<Rightarrow> F64Neg | _ \<Rightarrow> q_of (last (filter P entries)))"

definition header_entries :: "string list \<Rightarrow> string list" where
  "header_entries vs = concat (map (split_on (CHR '','')) vs)"

lemma star_not_gzip: "names_star e \<Longrightarrow> \<not> names_gzip e"
  by (auto simp: names_star_def names_gzip_def eq_ignore_ascii_case_def to_ascii_lowercase_def to_lower_char_def)

lemma entry_step_eq:
  "entry_step (g, s) e = (if names_gzip e then q_of e else g, if names_star e then q_of e else s)"
  using star_not_gzip [of e]
  by (auto simp: entry_step_def Let_def names_gzip_def names_star_def coding_of_def q_of_def)

lemma last_q_snoc: "last_q P (es @ [e]) = (if P e then q_of e else last_q P es)"
  by (auto simp: last_q_def split: list.splits)

lemma entries_fold:
  "foldl entry_step (F64Neg, F64Neg) es = (last_q names_gzip es, last_q names_star es)"
  by (induction es rule: rev_induct) (simp_all add: entry_step_eq last_q_snoc, simp add: last_q_def)

section \<open>Evaluation on concrete headers\<close>

lemma read_q: "parse_f64 ''0.5'' = Some F64Pos" "parse_f64 ''0'' = Some F64Zero"
  "parse_f64 ''0.000'' = Some F64Zero" "parse_f64 ''abc'' = None"
  by (simp_all add: parse_f64_def parse_decimal_def Let_def parse_digits_def is_digit_def digits_val_def
      digit_val_def decimal_sign_def to_ascii_lowercase_def to_lower_char_def)

lemma lowered_gzip: "char_of (105 :: nat) = CHR ''i''" "char_of (122 :: nat) = CHR ''z''"
  "char_of (103 :: nat) = CHR ''g''" "char_of (112 :: nat) = CHR ''p''" "char_of (113 :: nat) = CHR ''q''"
  by code_simp+

lemmas reads_gzip = accepts_gzip_def entry_step_def Let_def ge_zero_def gt_zero_def split_param_def read_q
  lowered_gzip ws1_def ws2_def ws3_def trim_def trim_start_def trim_end_def trim_by.simps to_lower_char_def
  to_ascii_lowercase_def eq_ignore_ascii_case_def

section \<open>Well-formed headers\<close>

text \<open>
  \<open>Accept-Encoding\<close> as RFC 9110 writes it (sections 12.5.3, 12.4.2 and 5.6.1), independently of how the
  code reads it: an entry is a coding, with a weight or without, and optional white space; a weight is
  \<open>q\<close> in either case and a number between 0 and 1 with at most three decimals.
\<close>

definition is_ows :: "string \<Rightarrow> bool" where
  "is_ows s \<longleftrightarrow> list_all (\<lambda>c. c = CHR '' '' \<or> c = CHR 0x09) s"

definition is_tchar :: "char \<Rightarrow> bool" where
  "is_tchar c \<longleftrightarrow> is_digit c \<or> (let n = (of_char c :: nat) in (65 \<le> n \<and> n \<le> 90) \<or> (97 \<le> n \<and> n \<le> 122)) \<or> c \<in> set ''!#$%&*+-.^_|~'' \<or> c = squote \<or> c = backtick"

definition is_qvalue :: "string \<Rightarrow> bool" where
  "is_qvalue v \<longleftrightarrow>
     (case v of
        [] \<Rightarrow> False
      | [c] \<Rightarrow> c = CHR ''0'' \<or> c = CHR ''1''
      | c # point # ds \<Rightarrow> point = CHR ''.'' \<and> length ds \<le> 3
          \<and> ((c = CHR ''0'' \<and> list_all is_digit ds) \<or> (c = CHR ''1'' \<and> list_all (\<lambda>d. d = CHR ''0'') ds)))"

record accept_entry =
  ae_before :: string
  ae_coding :: string
  ae_weight :: "(string \<times> string \<times> char \<times> string) option"
  ae_after :: string

definition is_entry :: "accept_entry \<Rightarrow> bool" where
  "is_entry e \<longleftrightarrow> is_ows (ae_before e) \<and> is_ows (ae_after e) \<and> ae_coding e \<noteq> [] \<and> list_all is_tchar (ae_coding e)
     \<and> (case ae_weight e of
          None \<Rightarrow> True
        | Some (s, s', q, v) \<Rightarrow> is_ows s \<and> is_ows s' \<and> (q = CHR ''q'' \<or> q = CHR ''Q'') \<and> is_qvalue v)"

definition accept_text :: "accept_entry \<Rightarrow> string" where
  "accept_text e = ae_before e @ ae_coding e
     @ (case ae_weight e of None \<Rightarrow> [] | Some (s, s', q, v) \<Rightarrow> s @ '';'' @ s' @ [q] @ ''='' @ v) @ ae_after e"

definition accept_header_text :: "accept_entry list \<Rightarrow> string" where
  "accept_header_text es = str_join '','' (map accept_text es)"

text \<open>A weight is positive when one of its digits is; no weight is the weight 1.\<close>

definition positive :: "accept_entry \<Rightarrow> bool" where
  "positive e \<longleftrightarrow>
     (case ae_weight e of None \<Rightarrow> True | Some (s, s', q, v) \<Rightarrow> list_ex (\<lambda>c. is_digit c \<and> c \<noteq> CHR ''0'') v)"

definition is_gzip :: "accept_entry \<Rightarrow> bool" where
  "is_gzip e \<longleftrightarrow> to_ascii_lowercase (ae_coding e) = ''gzip'' \<or> to_ascii_lowercase (ae_coding e) = ''x-gzip''"

definition is_star :: "accept_entry \<Rightarrow> bool" where
  "is_star e \<longleftrightarrow> ae_coding e = ''*''"

definition gzip_acceptable :: "accept_entry list \<Rightarrow> bool" where
  "gzip_acceptable es \<longleftrightarrow>
     (if list_ex is_gzip es then positive (last (filter is_gzip es))
      else list_ex is_star es \<and> positive (last (filter is_star es)))"

section \<open>Reading a well-formed header\<close>

lemma split_on_absent: "c \<notin> set p \<Longrightarrow> split_on c p = [p]"
  by (induction p) auto

lemma split_on_sep: "c \<notin> set p \<Longrightarrow> split_on c (p @ c # s) = p # split_on c s"
  by (induction p) auto

lemma split_on_join:
  assumes "ps \<noteq> []" "\<And>p. p \<in> set ps \<Longrightarrow> c \<notin> set p"
  shows "split_on c (str_join [c] ps) = ps"
  using assms by (induction "[c]" ps rule: str_join.induct) (auto simp: split_on_absent split_on_sep)

text \<open>A visible ASCII character ends trimming, from either side.\<close>

definition visible :: "char \<Rightarrow> bool" where
  "visible c \<longleftrightarrow> 33 \<le> (of_char c :: nat) \<and> (of_char c :: nat) < 127"

lemma trim_by_ws1: "ws1 a \<Longrightarrow> trim_by w2 w3 (a # s) = trim_by w2 w3 s"
  by (cases "(w2, w3, a # s)" rule: trim_by.cases) auto

lemma trim_by_ows: "list_all ws1 w \<Longrightarrow> trim_by w2 w3 (w @ s) = trim_by w2 w3 s"
  by (induction w) (simp_all add: trim_by_ws1)

lemma trim_by_visible:
  assumes "visible a" "\<And>b. \<not> w2 a b" "\<And>b c. \<not> w3 a b c"
  shows "trim_by w2 w3 (a # s) = a # s"
proof -
  have "\<not> ws1 a" using assms(1) by (auto simp: visible_def ws1_def)
  with assms(2,3) show ?thesis by (cases "(w2, w3, a # s)" rule: trim_by.cases) auto
qed

lemma visible_not_ws:
  assumes "visible a"
  shows "\<not> ws2 a b" "\<not> ws3 a b c" "\<not> ws2 b a" "\<not> ws3 c b a"
  using assms by (auto simp: visible_def ws2_def ws3_def)

lemma ows_ws1: "is_ows w \<Longrightarrow> list_all ws1 w"
  by (induction w) (auto simp: is_ows_def ws1_def)

lemma trim_ows:
  assumes "is_ows w" "is_ows w'" "s \<noteq> []" "visible (hd s)" "visible (last s)"
  shows "trim (w @ s @ w') = s"
proof -
  obtain a t where s: "s = a # t" using assms(3) by (cases s) auto
  have "trim_start (w @ s @ w') = s @ w'"
    using assms(4) unfolding trim_start_def trim_by_ows [OF ows_ws1 [OF assms(1)]] s
    by (simp add: trim_by_visible visible_not_ws)
  moreover obtain b u where r: "rev s = b # u" "b = last s"
    using assms(3) by (metis hd_rev list.exhaust_sel rev_is_Nil_conv)
  have "list_all ws1 (rev w')" using ows_ws1 [OF assms(2)] by (simp add: list_all_iff)
  then have "trim_by (\<lambda>b a. ws2 a b) (\<lambda>c b a. ws3 a b c) (rev w' @ b # u) = b # u"
    using assms(5) unfolding r(2) [symmetric] by (simp add: trim_by_ows trim_by_visible visible_not_ws)
  then have "trim_end (s @ w') = s"
    unfolding trim_end_def rev_append r(1) [symmetric] by simp
  ultimately show ?thesis by (simp add: trim_def)
qed

text \<open>The sign of a well-formed weight.\<close>

lemma digits_val_zero: "list_all is_digit ds \<Longrightarrow> digits_val ds = 0 \<longleftrightarrow> \<not> list_ex (\<lambda>c. is_digit c \<and> c \<noteq> CHR ''0'') ds"
proof (induction ds rule: rev_induct)
  case (snoc d ds)
  have "digit_val d = 0 \<longleftrightarrow> d = CHR ''0''" if "is_digit d"
    using that of_char_eq_iff [of d "CHR ''0''", where 'a = nat] by (auto simp: is_digit_def digit_val_def)
  with snoc show ?case by (auto simp: digits_val_snoc)
qed (simp add: digits_val_def)

lemma decimal_sign_short:
  assumes "- 3 \<le> e"
  shows "decimal_sign False m e = (if m = 0 then F64Zero else F64Pos)"
proof -
  have small: "(10 :: nat) ^ nat (- e) < m * 2 ^ 1075" if "m \<noteq> 0"
  proof -
    have "(10 :: nat) ^ nat (- e) \<le> 10 ^ 3" using assms by (intro power_increasing) auto
    also have "\<dots> < 2 ^ 10" by simp
    also have "\<dots> \<le> 2 ^ 1075" by (intro power_increasing) auto
    also have "\<dots> \<le> m * 2 ^ 1075" using that by simp
    finally show ?thesis .
  qed
  show ?thesis
  proof (cases "m = 0")
    case False
    have "\<not> m * 2 ^ 1075 \<le> 10 ^ nat (- e)" using small [OF False] by (rule not_le [THEN iffD2])
    then show ?thesis using False unfolding decimal_sign_def by (simp only: simp_thms if_True if_False)
  qed (simp add: decimal_sign_def)
qed

lemma qvalueE:
  assumes "is_qvalue v"
  obtains c ds where "v = [c] \<and> ds = [] \<or> v = c # CHR ''.'' # ds" "is_digit c" "list_all is_digit ds" "length ds \<le> 3"
proof -
  from assms obtain c t where v: "v = c # t" "c = CHR ''0'' \<or> c = CHR ''1''"
    unfolding is_qvalue_def by (cases v; cases "tl v"; simp; blast)
  have "list_all is_digit ds" if "list_all (\<lambda>d. d = CHR ''0'') ds" for ds
    by (rule list.pred_mono_strong [OF that]) (simp add: is_digit_def)
  with assms obtain ds where "t = [] \<and> ds = [] \<or> t = CHR ''.'' # ds" "list_all is_digit ds" "length ds \<le> 3"
    unfolding is_qvalue_def by (cases t) (auto simp: v(1))
  moreover have "is_digit c" using v(2) by (auto simp: is_digit_def)
  ultimately show thesis using that v(1) by blast
qed

lemma is_digit_facts [simp]: "\<not> is_digit (CHR ''e'')" "\<not> is_digit (CHR ''.'')"
  by (simp_all add: is_digit_def)

lemma qvalue_chars: "is_qvalue v \<Longrightarrow> v \<noteq> [] \<and> list_all (\<lambda>c. is_digit c \<or> c = CHR ''.'') v"
  by (erule qvalueE) (auto simp: list_all_iff)

lemma parse_qvalue:
  assumes "is_qvalue v"
  shows "parse_f64 v = Some (if list_ex (\<lambda>c. is_digit c \<and> c \<noteq> CHR ''0'') v then F64Pos else F64Zero)"
proof -
  obtain c ds where v: "v = [c] \<and> ds = [] \<or> v = c # CHR ''.'' # ds" "is_digit c"
    and ds: "list_all is_digit ds" "length ds \<le> 3"
    using assms by (rule qvalueE)
  have low: "to_lower_char d = d" if "is_digit d \<or> d = CHR ''.''" for d
    using that by (auto simp: is_digit_def to_lower_char_def Let_def)
  have chars: "\<forall>x \<in> set v. is_digit x \<or> x = CHR ''.''"
    using qvalue_chars [OF assms] by (simp add: list_all_iff)
  then have lower: "to_ascii_lowercase v = v"
    using low by (simp add: to_ascii_lowercase_def map_idI)
  have no_e: "\<forall>x \<in> set v. x \<noteq> CHR ''e''" using chars by auto
  have hd: "hd v \<noteq> CHR ''-''" "hd v \<noteq> CHR ''+''" "hd v \<noteq> CHR ''i''" "hd v \<noteq> CHR ''n''"
    using v by (auto simp: is_digit_def)
  then have "v \<noteq> ''inf'' \<and> v \<noteq> ''infinity'' \<and> v \<noteq> ''nan''" by auto
  with hd(1,2) lower have "parse_f64 v = parse_decimal False v" by (simp only: parse_f64_def Let_def simp_thms if_False)
  also have "\<dots> = Some (decimal_sign False (digits_val (c # ds)) (- int (length ds)))"
  proof -
    have e: "takeWhile (\<lambda>c. c \<noteq> CHR ''e'') v = v" "dropWhile (\<lambda>c. c \<noteq> CHR ''e'') v = []"
      using no_e by (simp_all add: takeWhile_eq_all_conv dropWhile_eq_Nil_conv)
    have c: "c \<noteq> CHR ''.''" using v(2) by auto
    have point: "takeWhile (\<lambda>c. c \<noteq> CHR ''.'') v = [c]"
      "(case dropWhile (\<lambda>c. c \<noteq> CHR ''.'') v of [] \<Rightarrow> [] | _ # f \<Rightarrow> f) = ds"
      using v(1) c by (elim disjE; simp)+
    show ?thesis
      unfolding parse_decimal_def e point Let_def using v(2) ds(1) by (simp add: parse_digits_def)
  qed
  also have "\<dots> = Some (if list_ex (\<lambda>c. is_digit c \<and> c \<noteq> CHR ''0'') (c # ds) then F64Pos else F64Zero)"
    using ds v(2) digits_val_zero [of "c # ds"] by (auto simp: decimal_sign_short)
  finally show ?thesis using v(1) by auto
qed

text \<open>The parts of an entry.\<close>

lemma tchar_facts: "is_tchar c \<Longrightarrow> visible c \<and> c \<noteq> CHR '','' \<and> c \<noteq> CHR '';''"
  by (auto simp: is_tchar_def is_digit_def visible_def Let_def)

lemma ows_absent: "is_ows s \<Longrightarrow> c \<noteq> CHR '' '' \<Longrightarrow> c \<noteq> CHR 0x09 \<Longrightarrow> c \<notin> set s"
  by (induction s) (auto simp: is_ows_def)

lemma coding_absent: "list_all is_tchar s \<Longrightarrow> c = CHR '','' \<or> c = CHR '';'' \<Longrightarrow> c \<notin> set s"
  using tchar_facts by (auto simp: list_all_iff)

lemma qvalue_absent: "is_qvalue v \<Longrightarrow> \<not> is_digit c \<Longrightarrow> c \<noteq> CHR ''.'' \<Longrightarrow> c \<notin> set v"
  using qvalue_chars [of v] by (auto simp: list_all_iff)

lemma separators_not_digits [simp]: "\<not> is_digit (CHR '','')" "\<not> is_digit (CHR '';'')" "\<not> is_digit (CHR ''='')"
  by (simp_all add: is_digit_def)

lemma entry_comma: "is_entry e \<Longrightarrow> CHR '','' \<notin> set (accept_text e)"
  by (auto simp: is_entry_def accept_text_def ows_absent coding_absent qvalue_absent split: option.splits)

lemma entry_parts:
  assumes "is_entry e"
  shows "split_on (CHR '';'') (accept_text e) =
    (case ae_weight e of
       None \<Rightarrow> [ae_before e @ ae_coding e @ ae_after e]
     | Some (s, s', q, v) \<Rightarrow> [ae_before e @ ae_coding e @ s, (s' @ [q]) @ CHR ''='' # v @ ae_after e])"
proof (cases "ae_weight e")
  case None
  with assms show ?thesis
    by (auto simp: is_entry_def accept_text_def ows_absent coding_absent intro!: split_on_absent)
next
  case (Some w)
  obtain s s' q v where w: "w = (s, s', q, v)" by (cases w) auto
  have "CHR '';'' \<notin> set (ae_before e @ ae_coding e @ s)" "CHR '';'' \<notin> set ((s' @ [q]) @ CHR ''='' # v @ ae_after e)"
    using assms by (auto simp: is_entry_def Some w ows_absent coding_absent qvalue_absent)
  from split_on_sep [OF this(1)] split_on_absent [OF this(2)] show ?thesis
    by (simp add: accept_text_def Some w)
qed

lemma coding_visible: "list_all is_tchar s \<Longrightarrow> s \<noteq> [] \<Longrightarrow> visible (hd s) \<and> visible (last s)"
  using tchar_facts by (auto simp: list_all_iff)

lemma entry_coding:
  assumes "is_entry e"
  shows "coding_of (accept_text e) = ae_coding e"
proof -
  have "trim (ae_before e @ ae_coding e @ w) = ae_coding e" if "is_ows w" for w
    using assms that coding_visible by (intro trim_ows) (auto simp: is_entry_def)
  with assms show ?thesis
    by (auto simp: coding_of_def entry_parts is_entry_def split: option.splits)
qed

lemma qvalue_visible: "is_qvalue v \<Longrightarrow> visible (hd v) \<and> visible (last v)"
proof -
  have "visible c" if "is_digit c \<or> c = CHR ''.''" for c
    using that by (auto simp: visible_def is_digit_def)
  then show "is_qvalue v \<Longrightarrow> ?thesis" using qvalue_chars [of v] by (auto simp: list_all_iff)
qed

lemma entry_weight:
  assumes "is_entry e"
  shows "q_of (accept_text e) = (if positive e then F64Pos else F64Zero)"
proof (cases "ae_weight e")
  case None
  with assms show ?thesis by (simp add: q_of_def entry_parts positive_def)
next
  case (Some w)
  obtain s s' q v where w: "w = (s, s', q, v)" by (cases w) auto
  have wf: "is_ows s'" "is_ows (ae_after e)" "q = CHR ''q'' \<or> q = CHR ''Q''" "is_qvalue v"
    using assms by (auto simp: is_entry_def Some w)
  have name: "CHR ''='' \<notin> set (s' @ [q])" using wf by (auto simp: ows_absent)
  have "split_param ((s' @ [q]) @ CHR ''='' # v @ ae_after e) = (s' @ [q], v @ ae_after e)"
    unfolding split_param_def by (subst takeWhile_append2 dropWhile_append2; use name in auto)+
  moreover have "trim (s' @ [q]) = [q]"
    using wf(1,3) trim_ows [of s' "[]" "[q]"] by (auto simp: is_ows_def visible_def)
  moreover have "trim (v @ ae_after e) = v"
    using wf(2,4) trim_ows [of "[]" "ae_after e" v] qvalue_visible qvalue_chars by (auto simp: is_ows_def)
  moreover have "eq_ignore_ascii_case [q] ''q''"
    using wf(3) by (auto simp: eq_ignore_ascii_case_def to_ascii_lowercase_def to_lower_char_def lowered_gzip)
  ultimately show ?thesis
    using parse_qvalue [OF wf(4)] by (simp add: q_of_def entry_parts [OF assms] Some w positive_def)
qed

lemma entry_names:
  assumes "is_entry e"
  shows "names_gzip (accept_text e) \<longleftrightarrow> is_gzip e" "names_star (accept_text e) \<longleftrightarrow> is_star e"
proof -
  have "to_ascii_lowercase ''gzip'' = ''gzip''" "to_ascii_lowercase ''x-gzip'' = ''x-gzip''"
    by (simp_all add: to_ascii_lowercase_def to_lower_char_def lowered_gzip)
  then show "names_gzip (accept_text e) \<longleftrightarrow> is_gzip e" "names_star (accept_text e) \<longleftrightarrow> is_star e"
    by (simp_all add: names_gzip_def names_star_def is_gzip_def is_star_def entry_coding [OF assms] eq_ignore_ascii_case_def)
qed

lemma header_parts:
  assumes "list_all is_entry es"
  shows "split_on (CHR '','') (accept_header_text es) = (if es = [] then [[]] else map accept_text es)"
  using assms entry_comma unfolding accept_header_text_def
  by (cases "es = []") (auto simp: list_all_iff intro!: split_on_join)

text \<open>An empty header has one entry, which names nothing.\<close>

lemma names_empty [simp]: "\<not> names_gzip []" "\<not> names_star []"
  by (simp_all add: names_gzip_def names_star_def coding_of_def trim_def trim_start_def trim_end_def
      eq_ignore_ascii_case_def to_ascii_lowercase_def)

lemma filter_parts:
  assumes "list_all is_entry es" "\<not> N []" "\<And>e. is_entry e \<Longrightarrow> N (accept_text e) \<longleftrightarrow> P e"
  shows "filter N (split_on (CHR '','') (accept_header_text es)) = map accept_text (filter P es)"
  using assms by (auto simp: header_parts filter_map list_all_iff intro!: map_cong filter_cong)

lemma filter_entries:
  assumes "list_all (list_all is_entry) hs" "\<not> N []" "\<And>e. is_entry e \<Longrightarrow> N (accept_text e) \<longleftrightarrow> P e"
  shows "filter N (header_entries (map accept_header_text hs)) = map accept_text (filter P (concat hs))"
  using assms(1) by (induction hs) (simp_all add: header_entries_def filter_parts [OF _ assms(2,3)])

lemma last_weight:
  assumes "list_all (list_all is_entry) hs" "\<not> N []" "\<And>e. is_entry e \<Longrightarrow> N (accept_text e) \<longleftrightarrow> P e"
  shows "last_q N (header_entries (map accept_header_text hs)) =
    (if list_ex P (concat hs) then (if positive (last (filter P (concat hs))) then F64Pos else F64Zero) else F64Neg)"
proof (cases "filter P (concat hs) = []")
  case False
  then have "last (filter P (concat hs)) \<in> set (concat hs)" using last_in_set by fastforce
  with assms(1) have "is_entry (last (filter P (concat hs)))" by (auto simp: list_all_iff)
  with False show ?thesis
    by (auto simp: last_q_def filter_entries [OF assms] last_map entry_weight filter_empty_conv list_ex_iff split: list.split)
qed (auto simp: last_q_def filter_entries [OF assms] filter_empty_conv list_ex_iff)

section \<open>Properties\<close>


definition sample_header :: "accept_entry list" where
  "sample_header =
     [\<lparr>ae_before = [], ae_coding = ''br'', ae_weight = None, ae_after = '' ''\<rparr>,
      \<lparr>ae_before = '' '', ae_coding = ''GZIP'', ae_weight = Some ('' '', [], CHR ''Q'', ''0.05''), ae_after = []\<rparr>,
      \<lparr>ae_before = [], ae_coding = ''*'', ae_weight = Some ([], [], CHR ''q'', ''0''), ae_after = []\<rparr>]"


text \<open>
  Where the code departs from its comment and from \<open>spec/protocol.md\<close> 5.1: a weight below zero, or none
  (\<open>nan\<close>), is taken for an entry that is not there, so that \<open>*\<close> decides although gzip is named; and of two
  entries for gzip the last one decides, although the first accepts it.
\<close>

lemma accept_encoding_departures:
  "accepts_gzip [''gzip;q=-1, *''] \<and> accepts_gzip [''gzip;q=nan, *''] \<and> \<not> accepts_gzip [''gzip, x-gzip;q=0'']"
proof -
  have "parse_f64 ''-1'' = Some F64Neg" "parse_f64 ''nan'' = Some F64Nan"
    by (simp_all add: parse_f64_def parse_decimal_def Let_def parse_digits_def is_digit_def digits_val_def
        digit_val_def decimal_sign_def to_ascii_lowercase_def to_lower_char_def lowered_gzip)
  then show ?thesis by (simp add: reads_gzip)
qed

end
