(* ===== verification/Http.thy ===== *)
theory Http
  imports Sources Siblings Page_Encoding
begin

text \<open>
  What the two adapters share of HTTP: requests, responses, and running a handler against the
  databases behind the registered sources. The frameworks (axum and actix-web, third-party) match
  a GET request to a route, percent-decode its query string into pairs and write the response; a
  handler that panics answers nothing. Other methods and unmatched paths never reach this code.
\<close>

section \<open>Requests and responses\<close>

text \<open>
  \<open>rq_accept\<close> are the values of the \<open>Accept-Encoding\<close> header, as bytes; \<open>rq_health\<close> is what the
  sibling instances answer to the health checks this request makes.
\<close>

record http_request =
  rq_path :: string
  rq_query :: "(string \<times> string) list"
  rq_accept :: "string list"
  rq_health :: "nat \<Rightarrow> string \<Rightarrow> bool"

datatype body =
    BSources sources_response
  | BSchemas schemas_response
  | BTables tables_response
  | BCounts counts_response
  | BData table_data
  | BJoin join_data
  | BValues common_values_response
  | BReferenced referenced_by_response
  | BStructure structure_info
  | BSiblings siblings_response
  | BProblem problem_details
  | BPage string

record http_response =
  hr_status :: u16
  hr_headers :: "string \<rightharpoonup> string"
  hr_body :: body

datatype http_answer = Unmatched | Aborted | Answered http_response

text \<open>\<open>StatusCode::from_u16\<close>.\<close>

definition status_from_u16 :: "u16 \<Rightarrow> u16 option" where
  "status_from_u16 s = (if 100 \<le> s \<and> s < 1000 then Some s else None)"

text \<open>\<open>HeaderValue::to_str\<close>: visible ASCII and tabs only.\<close>

definition header_to_str :: "string \<Rightarrow> string option" where
  "header_to_str v =
     (if list_all (\<lambda>c. (32 \<le> (of_char c :: nat) \<and> (of_char c :: nat) < 127) \<or> (of_char c :: nat) = 9) v
      then Some v else None)"

section \<open>Sources, state and environment\<close>

text \<open>A registered source: its operations, and which pool its statements go to.\<close>

record source_handle =
  src_ops :: db_source
  src_pool :: nat

record app_state =
  st_config :: config
  st_sources :: "(string \<times> source_handle) list"
  st_siblings :: view

text \<open>
  What is not this code: the database behind each pool, the JSON decoders, the text with which
  each framework displays a rejected query string, the embedded page and the gzip encoder.
\<close>

record env =
  e_dbs :: "nat \<Rightarrow> database"
  e_de_filter :: "string \<Rightarrow> string + condition list"
  e_de_join :: "string \<Rightarrow> string + join_spec"
  e_reject_axum :: "rejection \<Rightarrow> string"
  e_reject_actix :: "rejection \<Rightarrow> string"
  e_page :: string
  e_gzip :: "string \<Rightarrow> string"

text \<open>The world of a server: the history of each pool.\<close>

type_synonym world = "nat \<Rightarrow> history"
type_synonym 'a act = "world \<Rightarrow> 'a outcome \<times> world"

definition act_of :: "'a outcome \<Rightarrow> 'a act" where
  "act_of r w = (r, w)"

definition act_return :: "'a \<Rightarrow> 'a act" where
  "act_return x = act_of (Done (Inr x))"

definition act_then :: "'a act \<Rightarrow> ('a \<Rightarrow> 'b act) \<Rightarrow> 'b act" where
  "act_then m f w =
     (case m w of
        (Done (Inr x), w') \<Rightarrow> f x w'
      | (Done (Inl e), w') \<Rightarrow> (Done (Inl e), w')
      | (Panic, w') \<Rightarrow> (Panic, w'))"

definition on_source :: "env \<Rightarrow> source_handle \<Rightarrow> (db_source \<Rightarrow> 'a io) \<Rightarrow> 'a act" where
  "on_source env src m w =
     (let (r, h) = m (src_ops src) (e_dbs env (src_pool src)) (w (src_pool src))
      in (r, w(src_pool src := h)))"

text \<open>\<open>resolve_source(&state.sources, params.source.as_deref())?\<close>\<close>

definition resolve :: "app_state \<Rightarrow> string option \<Rightarrow> source_handle act" where
  "resolve st requested = act_of (resolve_source (st_sources st) requested)"

definition gzip_page :: "env \<Rightarrow> string \<Rightarrow> string" where
  "gzip_page env page = e_gzip env page"

definition PROTOCOL_HEADER :: string where "PROTOCOL_HEADER = ''x-ashurbanipal-protocol''"
definition PROTOCOL_VERSION :: string where "PROTOCOL_VERSION = ''1''"

datatype api_error = Db db_error | BadRequest string

text \<open>What a host registers: a router that panicked while being built, one without routes, or one
  that serves.\<close>

datatype mount = MountPanic | NoRoutes | Serving app_state

text \<open>A sequence of requests, each answered in the world the earlier ones left.\<close>

fun serve_all :: "(http_request \<Rightarrow> world \<Rightarrow> http_answer \<times> world) \<Rightarrow> http_request list \<Rightarrow> world \<Rightarrow> http_answer list \<times> world" where
  "serve_all handle [] w = ([], w)"
| "serve_all handle (q # qs) w =
     (let (a, w') = handle q w; (rest, w'') = serve_all handle qs w' in (a # rest, w''))"

end
