(* ===== verification/Seed_Rng.thy ===== *)
theory Seed_Rng
  imports Sql_Lex
begin

text \<open>
  The libraries the seed generator calls (\<^verbatim>\<open>rand\<close>, \<^verbatim>\<open>fake\<close>, \<^verbatim>\<open>uuid\<close>: third-party) as a parameter,
  and the computations that draw from them. A computation takes the state of the generator
  \<open>StdRng\<close> to a value and the next state; \<^const>\<open>None\<close> is a run that does not return, because
  it panics or because its loop does not end. \<open>lib_ok\<close> is what the libraries document of their
  draws; \<open>yields\<close> is total correctness: from every state the run returns, and with a value that
  satisfies the condition.
\<close>

section \<open>Computations\<close>

type_synonym ('s, 'a) gen = "'s \<Rightarrow> ('a \<times> 's) option"

definition gret :: "'a \<Rightarrow> ('s, 'a) gen" where
  "gret x = (\<lambda>s. Some (x, s))"

definition gfail :: "('s, 'a) gen" where
  "gfail = (\<lambda>s. None)"

definition gbind :: "('s, 'a) gen \<Rightarrow> ('a \<Rightarrow> ('s, 'b) gen) \<Rightarrow> ('s, 'b) gen" where
  "gbind m f = (\<lambda>s. case m s of None \<Rightarrow> None | Some (x, s') \<Rightarrow> f x s')"

definition gmap :: "('a \<Rightarrow> 'b) \<Rightarrow> ('s, 'a) gen \<Rightarrow> ('s, 'b) gen" where
  "gmap f m = gbind m (\<lambda>x. gret (f x))"

text \<open>\<open>for x in xs\<close> with one value pushed per round; with a state the rounds share; and with the
  state alone.\<close>

fun gtraverse :: "('a \<Rightarrow> ('s, 'b) gen) \<Rightarrow> 'a list \<Rightarrow> ('s, 'b list) gen" where
  "gtraverse f [] = gret []"
| "gtraverse f (x # xs) = gbind (f x) (\<lambda>y. gmap (Cons y) (gtraverse f xs))"

fun gscan :: "('c \<Rightarrow> 'a \<Rightarrow> ('s, 'b \<times> 'c) gen) \<Rightarrow> 'c \<Rightarrow> 'a list \<Rightarrow> ('s, 'b list) gen" where
  "gscan f c [] = gret []"
| "gscan f c (x # xs) = gbind (f c x) (\<lambda>(y, c'). gmap (Cons y) (gscan f c' xs))"

fun gfold :: "('c \<Rightarrow> 'a \<Rightarrow> ('s, 'c) gen) \<Rightarrow> 'c \<Rightarrow> 'a list \<Rightarrow> ('s, 'c) gen" where
  "gfold f c [] = gret c"
| "gfold f c (x # xs) = gbind (f c x) (\<lambda>c'. gfold f c' xs)"

text \<open>A loop whose rounds push any number of rows (\<open>continue\<close>, or a second \<open>push\<close>).\<close>

definition gcollect :: "('a \<Rightarrow> ('s, 'b list) gen) \<Rightarrow> 'a list \<Rightarrow> ('s, 'b list) gen" where
  "gcollect f xs = gmap concat (gtraverse f xs)"

subsection \<open>Laws\<close>

lemma gbind_gret [simp]: "gbind (gret x) f = f x"
  by (simp add: gbind_def gret_def)

lemma gbind_ret [simp]: "gbind m gret = m"
  by (rule ext) (auto simp: gbind_def gret_def split: option.splits)

lemma gbind_assoc [simp]: "gbind (gbind m f) g = gbind m (\<lambda>x. gbind (f x) g)"
  by (rule ext) (auto simp: gbind_def split: option.splits)

lemma gbind_gmap [simp]: "gbind (gmap f m) g = gbind m (\<lambda>x. g (f x))"
  by (simp add: gmap_def)

lemma gmap_gbind [simp]: "gmap f (gbind m g) = gbind m (\<lambda>x. gmap f (g x))"
  by (simp add: gmap_def)

lemma gmap_gret [simp]: "gmap f (gret x) = gret (f x)"
  by (simp add: gmap_def)

lemma gmap_gmap [simp]: "gmap f (gmap g m) = gmap (\<lambda>x. f (g x)) m"
  by (simp add: gmap_def)

lemma gmap_id [simp]: "gmap (\<lambda>x. x) m = m"
  by (simp add: gmap_def)

lemma gbind_Some:
  "gbind m f s = Some (y, s2) \<longleftrightarrow> (\<exists>x s1. m s = Some (x, s1) \<and> f x s1 = Some (y, s2))"
  by (auto simp: gbind_def split: option.splits)

lemma gmap_Some: "gmap f m s = Some (y, s1) \<longleftrightarrow> (\<exists>x. m s = Some (x, s1) \<and> y = f x)"
  by (auto simp: gmap_def gbind_Some gret_def)

lemma gtraverse_length: "gtraverse f xs s = Some (ys, s') \<Longrightarrow> length ys = length xs"
  by (induction xs arbitrary: s ys) (auto simp: gret_def gbind_Some gmap_Some)

section \<open>The libraries\<close>

text \<open>
  A range of \<open>random_range\<close>: \<open>a..b\<close> or \<open>a..=b\<close>; the integer type it is drawn at; the fakers the
  generator uses.
\<close>

datatype span = Until int int | Upto int int

datatype int_ty = U8 | I32 | U32 | I64 | U64 | Usize

datatype faker = Name | SafeEmail | IPv4 | Buzzword | Paragraph nat nat

fun in_span :: "span \<Rightarrow> int \<Rightarrow> bool" where
  "in_span (Until a b) i = (a \<le> i \<and> i < b)"
| "in_span (Upto a b) i = (a \<le> i \<and> i \<le> b)"

fun span_empty :: "span \<Rightarrow> bool" where
  "span_empty (Until a b) = (b \<le> a)"
| "span_empty (Upto a b) = (b < a)"

text \<open>
  \<open>lib_bool\<close> takes the probability in percent; \<open>lib_index n\<close> is the index \<open>choose\<close> draws in a
  slice of \<open>n\<close> elements, \<open>lib_sample n k\<close> the indices \<open>sample\<close> draws. A \<open>Uuid\<close> is its \<open>Display\<close> text,
  which determines it; \<open>lib_uuid\<close> is \<open>Builder::from_random_bytes(..).into_uuid()\<close>.
\<close>

type_synonym uuid = string

record 's lib =
  lib_bool :: "nat \<Rightarrow> 's \<Rightarrow> bool \<times> 's"
  lib_range :: "int_ty \<Rightarrow> span \<Rightarrow> 's \<Rightarrow> int \<times> 's"
  lib_index :: "nat \<Rightarrow> 's \<Rightarrow> nat \<times> 's"
  lib_sample :: "nat \<Rightarrow> nat \<Rightarrow> 's \<Rightarrow> nat list \<times> 's"
  lib_fill :: "nat \<Rightarrow> 's \<Rightarrow> 8 word list \<times> 's"
  lib_uuid :: "8 word list \<Rightarrow> uuid"
  lib_fake :: "faker \<Rightarrow> 's \<Rightarrow> string \<times> 's"
  lib_paragraphs :: "nat \<Rightarrow> nat \<Rightarrow> 's \<Rightarrow> string list \<times> 's"

text \<open>What the libraries document: draws stay in their range, and a UUID prints as hexadecimal
  digits and hyphens. Nothing is said of the text a faker returns.\<close>

definition uuid_char :: "char \<Rightarrow> bool" where
  "uuid_char c \<longleftrightarrow> is_digit c \<or> c \<in> set ''abcdef-''"

definition lib_ok :: "'s lib \<Rightarrow> bool" where
  "lib_ok L \<longleftrightarrow>
     (\<forall>ty sp s. \<not> span_empty sp \<longrightarrow> in_span sp (fst (lib_range L ty sp s)))
     \<and> (\<forall>n s. 0 < n \<longrightarrow> fst (lib_index L n s) < n)
     \<and> (\<forall>n k s. distinct (fst (lib_sample L n k s)) \<and> length (fst (lib_sample L n k s)) = min k n
          \<and> (\<forall>i \<in> set (fst (lib_sample L n k s)). i < n))
     \<and> (\<forall>n s. length (fst (lib_fill L n s)) = n)
     \<and> (\<forall>bs. length bs = 16 \<longrightarrow> list_all uuid_char (lib_uuid L bs))"

subsection \<open>Draws\<close>

text \<open>
  \<open>random_range\<close> panics on an empty range, and \<open>choose(..).unwrap()\<close> on an empty slice. An
  index outside the slice, which the libraries never draw, would panic too.
\<close>

definition random_bool :: "'s lib \<Rightarrow> nat \<Rightarrow> ('s, bool) gen" where
  "random_bool L p = (\<lambda>s. Some (lib_bool L p s))"

definition random_range :: "'s lib \<Rightarrow> int_ty \<Rightarrow> span \<Rightarrow> ('s, int) gen" where
  "random_range L ty sp = (\<lambda>s. if span_empty sp then None else Some (lib_range L ty sp s))"

definition choose_from :: "'s lib \<Rightarrow> 'a list \<Rightarrow> ('s, 'a) gen" where
  "choose_from L xs =
     (\<lambda>s. if xs = [] then None
          else (case lib_index L (length xs) s of
                  (i, s') \<Rightarrow> map_option (\<lambda>x. (x, s')) (get_at xs i)))"

definition sample :: "'s lib \<Rightarrow> 'a list \<Rightarrow> nat \<Rightarrow> ('s, 'a list) gen" where
  "sample L xs k =
     (\<lambda>s. case lib_sample L (length xs) k s of
            (js, s') \<Rightarrow> if list_all (\<lambda>i. i < length xs) js then Some (map ((!) xs) js, s') else None)"

definition fill :: "'s lib \<Rightarrow> nat \<Rightarrow> ('s, 8 word list) gen" where
  "fill L n = (\<lambda>s. Some (lib_fill L n s))"

definition fake :: "'s lib \<Rightarrow> faker \<Rightarrow> ('s, string) gen" where
  "fake L k = (\<lambda>s. Some (lib_fake L k s))"

definition fake_paragraphs :: "'s lib \<Rightarrow> nat \<Rightarrow> nat \<Rightarrow> ('s, string list) gen" where
  "fake_paragraphs L a b = (\<lambda>s. Some (lib_paragraphs L a b s))"

text \<open>Subtraction and addition of \<open>u32\<close> panic where the result does not fit.\<close>

definition u32_sub :: "int \<Rightarrow> int \<Rightarrow> ('s, int) gen" where
  "u32_sub a b = (if 0 \<le> a - b then gret (a - b) else gfail)"

definition u32_add :: "int \<Rightarrow> int \<Rightarrow> ('s, int) gen" where
  "u32_add a b = (if a + b < 2 ^ 32 then gret (a + b) else gfail)"

section \<open>Total correctness\<close>

definition yields :: "('s, 'a) gen \<Rightarrow> ('a \<Rightarrow> bool) \<Rightarrow> bool" where
  "yields m P \<longleftrightarrow> (\<forall>s. \<exists>x s'. m s = Some (x, s') \<and> P x)"

named_theorems draws \<open>introduction rules of yields, one per construct\<close>

lemma yieldsD: "yields m P \<Longrightarrow> \<exists>x s'. m s = Some (x, s') \<and> P x"
  by (simp add: yields_def)

lemma yields_mono: "yields m P \<Longrightarrow> (\<And>x. P x \<Longrightarrow> Q x) \<Longrightarrow> yields m Q"
  unfolding yields_def by meson

lemma yields_gret [draws]: "P x \<Longrightarrow> yields (gret x) P"
  by (simp add: yields_def gret_def)

lemma yields_gbind [draws]: "yields m (\<lambda>x. yields (f x) P) \<Longrightarrow> yields (gbind m f) P"
  unfolding yields_def gbind_def by (metis (mono_tags, lifting) case_prod_conv option.simps(5))

lemma yields_cut: "yields m P \<Longrightarrow> (\<And>x. P x \<Longrightarrow> yields (f x) Q) \<Longrightarrow> yields (gbind m f) Q"
  by (rule yields_gbind) (rule yields_mono)

lemma yields_gmap [draws]: "yields m (\<lambda>x. P (f x)) \<Longrightarrow> yields (gmap f m) P"
  unfolding gmap_def by (intro yields_gbind) (simp add: yields_def gret_def)

lemma yields_if [draws]:
  "(b \<Longrightarrow> yields m P) \<Longrightarrow> (\<not> b \<Longrightarrow> yields n P) \<Longrightarrow> yields (if b then m else n) P"
  by simp

lemma yields_option [draws]:
  "(x = None \<Longrightarrow> yields m P) \<Longrightarrow> (\<And>y. x = Some y \<Longrightarrow> yields (f y) P)
   \<Longrightarrow> yields (case x of None \<Rightarrow> m | Some y \<Rightarrow> f y) P"
  by (cases x) auto

lemma yields_bool [draws]: "(\<And>b. P b) \<Longrightarrow> yields (random_bool L p) P"
  by (auto simp: yields_def random_bool_def intro: prod.exhaust)

lemma yields_range [draws]:
  assumes "lib_ok L" "\<not> span_empty sp" "\<And>i. in_span sp i \<Longrightarrow> P i"
  shows "yields (random_range L ty sp) P"
  using assms unfolding yields_def random_range_def lib_ok_def by (metis prod.collapse)

lemma yields_choose [draws]:
  assumes "lib_ok L" "xs \<noteq> []" "\<And>x. x \<in> set xs \<Longrightarrow> P x"
  shows "yields (choose_from L xs) P"
  unfolding yields_def
proof
  fix s
  obtain i s' where i: "lib_index L (length xs) s = (i, s')" by fastforce
  moreover have "i < length xs"
    using assms(1,2) i unfolding lib_ok_def by (metis fst_conv length_greater_0_conv)
  ultimately show "\<exists>x s'. choose_from L xs s = Some (x, s') \<and> P x"
    using assms(2,3) by (simp add: choose_from_def get_at_def)
qed

lemma yields_sample [draws]:
  assumes "lib_ok L" "\<And>ys. set ys \<subseteq> set xs \<Longrightarrow> length ys = min k (length xs) \<Longrightarrow> P ys"
  shows "yields (sample L xs k) P"
  unfolding yields_def
proof
  fix s
  obtain js s' where i: "lib_sample L (length xs) k s = (js, s')" by fastforce
  then have js: "\<forall>i \<in> set js. i < length xs" "length js = min k (length xs)"
    using assms(1) unfolding lib_ok_def by (metis fst_conv)+
  then have "P (map ((!) xs) js)" by (intro assms(2)) auto
  with i js show "\<exists>x s'. sample L xs k s = Some (x, s') \<and> P x"
    by (simp add: sample_def list_all_iff)
qed

lemma yields_fill [draws]:
  "lib_ok L \<Longrightarrow> (\<And>bs. length bs = n \<Longrightarrow> P bs) \<Longrightarrow> yields (fill L n) P"
  unfolding yields_def fill_def lib_ok_def by (metis prod.collapse)

lemma yields_fake [draws]: "(\<And>t. P t) \<Longrightarrow> yields (fake L k) P"
  unfolding yields_def fake_def by (metis prod.collapse)

lemma yields_paragraphs [draws]: "(\<And>t. P t) \<Longrightarrow> yields (fake_paragraphs L a b) P"
  unfolding yields_def fake_paragraphs_def by (metis prod.collapse)

lemma yields_u32_sub [draws]: "b \<le> a \<Longrightarrow> P (a - b) \<Longrightarrow> yields (u32_sub a b) P"
  by (simp add: u32_sub_def yields_gret)

lemma yields_u32_add [draws]: "a + b < 2 ^ 32 \<Longrightarrow> P (a + b) \<Longrightarrow> yields (u32_add a b) P"
  by (simp add: u32_add_def yields_gret)

text \<open>Loops: a condition of each round's value, or an invariant of the shared state.\<close>

lemma yields_traverse:
  assumes "\<And>x. x \<in> set xs \<Longrightarrow> yields (f x) (P x)"
  shows "yields (gtraverse f xs) (list_all2 P xs)"
  using assms
proof (induction xs)
  case Nil
  then show ?case by (simp add: yields_gret)
next
  case (Cons x xs)
  have "yields (gtraverse f xs) (list_all2 P xs)" using Cons by simp
  then show ?case
    by (auto intro!: yields_cut [OF Cons.prems] yields_gmap elim: yields_mono)
qed

lemma yields_traverse_all:
  assumes "\<And>x. x \<in> set xs \<Longrightarrow> yields (f x) P"
  shows "yields (gtraverse f xs) (\<lambda>ys. length ys = length xs \<and> (\<forall>y \<in> set ys. P y))"
proof (rule yields_mono [OF yields_traverse [where P = "\<lambda>_. P", OF assms]])
  fix ys assume "list_all2 (\<lambda>_. P) xs ys"
  then show "length ys = length xs \<and> (\<forall>y \<in> set ys. P y)"
    by (induction rule: list_all2_induct) auto
qed

lemma yields_scan_from:
  assumes step: "\<And>c ys x. I c ys \<Longrightarrow> x \<in> X \<Longrightarrow> length ys < n \<Longrightarrow>
      yields (f c x) (\<lambda>(y, c'). I c' (ys @ [y]))"
  shows "I c ys \<Longrightarrow> set xs \<subseteq> X \<Longrightarrow> length ys + length xs \<le> n \<Longrightarrow>
    yields (gscan f c xs) (\<lambda>zs. \<exists>d. I d (ys @ zs) \<and> length zs = length xs)"
proof (induction xs arbitrary: c ys)
  case Nil
  then show ?case by (auto intro!: yields_gret)
next
  case (Cons x xs)
  have "yields (gmap (Cons (fst p)) (gscan f (snd p) xs))
      (\<lambda>zs. \<exists>d. I d (ys @ zs) \<and> length zs = length (x # xs))" if "I (snd p) (ys @ [fst p])" for p
  proof -
    from that have "yields (gscan f (snd p) xs)
        (\<lambda>zs. \<exists>d. I d ((ys @ [fst p]) @ zs) \<and> length zs = length xs)"
      using Cons.prems by (intro Cons.IH) auto
    then show ?thesis by (auto intro!: yields_gmap elim: yields_mono)
  qed
  moreover have "yields (f c x) (\<lambda>(y, c'). I c' (ys @ [y]))"
    using Cons.prems by (intro step) auto
  ultimately show ?case
    by (auto simp: split_beta intro: yields_cut)
qed

lemma yields_scan:
  assumes "I c []"
    and "\<And>c ys x. I c ys \<Longrightarrow> x \<in> set xs \<Longrightarrow> length ys < length xs \<Longrightarrow>
      yields (f c x) (\<lambda>(y, c'). I c' (ys @ [y]))"
  shows "yields (gscan f c xs) (\<lambda>ys. \<exists>d. I d ys \<and> length ys = length xs)"
proof -
  have "yields (gscan f c xs) (\<lambda>zs. \<exists>d. I d ([] @ zs) \<and> length zs = length xs)"
    by (rule yields_scan_from [where X = "set xs" and n = "length xs"]) (use assms in auto)
  then show ?thesis by simp
qed

lemma yields_collect:
  assumes "\<And>x. x \<in> set xs \<Longrightarrow> yields (f x) (\<lambda>ys. \<forall>y \<in> set ys. P y)"
  shows "yields (gcollect f xs) (\<lambda>ys. \<forall>y \<in> set ys. P y)"
  unfolding gcollect_def
  by (rule yields_gmap, rule yields_mono [OF yields_traverse_all [OF assms]]) auto

end
