(* ===== verification/Conf_Harness.thy ===== *)
theory Conf_Harness
  imports Http Seed_Rng
begin

text \<open>
  The harness of the conformance suite (\<^verbatim>\<open>conformance/runner\<close>: \<^verbatim>\<open>assert.rs\<close>, \<^verbatim>\<open>backend.rs\<close>,
  \<^verbatim>\<open>common.rs\<close>), which tests a server over HTTP. A test is a computation over the world of the
  server it talks to; \<^const>\<open>None\<close> is a test that fails, by a panic of an assertion or of an
  \<open>unwrap\<close>. The HTTP client (\<^verbatim>\<open>reqwest\<close>) sends a GET with its query pairs and returns the answer; an
  unmatched path is the framework's 404, a handler that panicked a closed connection.
\<close>

section \<open>JSON values\<close>

text \<open>\<open>serde_json::Value\<close>: an object is a map. Floating-point numbers are left out; no test modelled
  here reads one.\<close>

datatype json = JsNull | JsBool bool | JsInt int | JsStr string | JsArr "json list" | JsObj "string \<rightharpoonup> json"

text \<open>\<open>value[key]\<close> and \<open>value[i]\<close> are null where there is no such entry.\<close>

fun index_key :: "json \<Rightarrow> string \<Rightarrow> json" where
  "index_key (JsObj m) k = (case m k of Some v \<Rightarrow> v | None \<Rightarrow> JsNull)"
| "index_key _ k = JsNull"

fun index_at :: "json \<Rightarrow> nat \<Rightarrow> json" where
  "index_at (JsArr vs) i = (case get_at vs i of Some v \<Rightarrow> v | None \<Rightarrow> JsNull)"
| "index_at _ i = JsNull"

fun json_get :: "json \<Rightarrow> string \<Rightarrow> json option" where
  "json_get (JsObj m) k = m k"
| "json_get _ k = None"

fun as_str :: "json \<Rightarrow> string option" where
  "as_str (JsStr s) = Some s"
| "as_str _ = None"

fun as_array :: "json \<Rightarrow> json list option" where
  "as_array (JsArr vs) = Some vs"
| "as_array _ = None"

fun as_i64 :: "json \<Rightarrow> int option" where
  "as_i64 (JsInt n) = (if - (2 ^ 63) \<le> n \<and> n < 2 ^ 63 then Some n else None)"
| "as_i64 _ = None"

text \<open>What the derived \<open>Serialize\<close> writes: fields by name, those skipped when empty left out.\<close>

definition opt_field :: "string \<Rightarrow> json option \<Rightarrow> (string \<rightharpoonup> json) \<Rightarrow> string \<rightharpoonup> json" where
  "opt_field k v m = (case v of None \<Rightarrow> m | Some x \<Rightarrow> m(k \<mapsto> x))"

definition sources_json :: "sources_response \<Rightarrow> json" where
  "sources_json r =
     JsObj [''sources'' \<mapsto> JsArr (map (\<lambda>e. JsObj [''name'' \<mapsto> JsStr (se_name e)]) (sr_sources r)),
            ''default'' \<mapsto> JsStr (sr_default r)]"

definition instance_json :: "instance_info \<Rightarrow> json" where
  "instance_json i = JsObj [''name'' \<mapsto> JsStr (in_name i), ''label'' \<mapsto> JsStr (in_label i)]"

definition status_json :: "sibling_status \<Rightarrow> json" where
  "status_json s =
     JsObj (opt_field ''label'' (map_option JsStr (ss_label s))
       [''name'' \<mapsto> JsStr (ss_name s), ''base_url'' \<mapsto> JsStr (ss_base_url s),
        ''healthy'' \<mapsto> JsBool (ss_healthy s)])"

definition siblings_json :: "siblings_response \<Rightarrow> json" where
  "siblings_json r =
     JsObj (opt_field ''instance'' (map_option instance_json (sg_instance r))
       (opt_field ''warnings'' (if sg_warnings r = [] then None else Some (JsArr (map JsStr (sg_warnings r))))
         [''siblings'' \<mapsto> JsArr (map status_json (sg_siblings r))]))"

definition problem_json :: "problem_details \<Rightarrow> json" where
  "problem_json p =
     JsObj [''type'' \<mapsto> JsStr (pd_type p), ''title'' \<mapsto> JsStr (pd_title p),
            ''status'' \<mapsto> JsInt (uint (pd_status p)), ''code'' \<mapsto> JsStr (pd_code p)]"

section \<open>The target and the client\<close>

text \<open>
  The server under test: how it answers, the scheme, host and port it listens on, the path it is
  mounted at, what its siblings answer to health checks, and the JSON it writes of the bodies
  whose serialisation is not written out above. \<open>mount_root\<close> is the origin and the path together.
\<close>

record target =
  tg_send :: "http_request \<Rightarrow> world \<Rightarrow> http_answer \<times> world"
  tg_origin :: string
  tg_mount :: string
  tg_health :: "nat \<Rightarrow> string \<Rightarrow> bool"
  tg_json :: "body \<Rightarrow> json"

record http_reply =
  rp_status :: u16
  rp_headers :: "string \<rightharpoonup> string"
  rp_body :: "body option"

type_synonym 'a probe = "(world, 'a) gen"

definition mount_root :: "target \<Rightarrow> string" where
  "mount_root T = tg_origin T @ tg_mount T"

definition url :: "target \<Rightarrow> string \<Rightarrow> string" where
  "url T path = mount_root T @ path"

text \<open>The client sends the path of the URL; the origin is where it connects to.\<close>

definition probe_request :: "target \<Rightarrow> string \<Rightarrow> (string \<times> string) list \<Rightarrow> string option \<Rightarrow> http_request" where
  "probe_request T path query accept =
     \<lparr>rq_path = tg_mount T @ path, rq_query = query,
      rq_accept = (case accept of None \<Rightarrow> [] | Some v \<Rightarrow> [v]), rq_health = tg_health T\<rparr>"

definition send :: "target \<Rightarrow> http_request \<Rightarrow> http_reply probe" where
  "send T req =
     (\<lambda>w. case tg_send T req w of
            (Answered r, w') \<Rightarrow>
              Some (\<lparr>rp_status = hr_status r, rp_headers = hr_headers r, rp_body = Some (hr_body r)\<rparr>, w')
          | (Unmatched, w') \<Rightarrow> Some (\<lparr>rp_status = 404, rp_headers = Map.empty, rp_body = None\<rparr>, w')
          | (Aborted, w') \<Rightarrow> None)"

definition get_path :: "target \<Rightarrow> string \<Rightarrow> (string \<times> string) list \<Rightarrow> http_reply probe" where
  "get_path T path query = send T (probe_request T path query None)"

definition body_json :: "target \<Rightarrow> body \<Rightarrow> json option" where
  "body_json T b =
     (case b of
        BSources r \<Rightarrow> Some (sources_json r)
      | BSiblings r \<Rightarrow> Some (siblings_json r)
      | BProblem p \<Rightarrow> Some (problem_json p)
      | BPage page \<Rightarrow> None
      | _ \<Rightarrow> Some (tg_json T b))"

text \<open>\<open>resp.json().await.unwrap()\<close>; the bytes of the page.\<close>

definition unwrap_gen :: "'a option \<Rightarrow> ('s, 'a) gen" where
  "unwrap_gen o' = (case o' of Some x \<Rightarrow> gret x | None \<Rightarrow> gfail)"

definition reply_json :: "target \<Rightarrow> http_reply \<Rightarrow> ('s, json) gen" where
  "reply_json T r = unwrap_gen (Option.bind (rp_body r) (body_json T))"

definition page_bytes :: "http_reply \<Rightarrow> ('s, string) gen" where
  "page_bytes r = (case rp_body r of Some (BPage page) \<Rightarrow> gret page | _ \<Rightarrow> gfail)"

section \<open>Assertions\<close>

definition require :: "bool \<Rightarrow> ('s, unit) gen" where
  "require b = (if b then gret () else gfail)"

definition assert_exact :: "'a \<Rightarrow> 'a \<Rightarrow> ('s, unit) gen" where
  "assert_exact actual expected = require (actual = expected)"

definition assert_row_estimate :: "json \<Rightarrow> ('s, unit) gen" where
  "assert_row_estimate v = gbind (unwrap_gen (as_i64 v)) (\<lambda>n. require (n = -1 \<or> 0 \<le> n))"

definition assert_status :: "http_reply \<Rightarrow> u16 \<Rightarrow> ('s, unit) gen" where
  "assert_status r expected = require (rp_status r = expected)"

definition header_text_of :: "http_reply \<Rightarrow> string \<Rightarrow> string option" where
  "header_text_of r name = Option.bind (rp_headers r name) header_to_str"

definition assert_problem_code :: "target \<Rightarrow> http_reply \<Rightarrow> u16 \<Rightarrow> string \<Rightarrow> ('s, unit) gen" where
  "assert_problem_code T r expected_status expected_code =
     gbind (require (rp_status r = expected_status)) (\<lambda>_.
     gbind (require (prefix ''application/problem+json''
       (unwrap_or (header_text_of r ''content-type'') []))) (\<lambda>_.
     gbind (reply_json T r) (\<lambda>body.
     require (Option.bind (json_get body ''code'') as_str = Some expected_code))))"

section \<open>Which engine the target runs\<close>

datatype engine = OnPostgres | OnMysql | OnSqlite

datatype schema_model = Namespaced | SingleSchema
datatype comment_support = CommentsSupported | CommentsUnsupported
datatype common_values_model = Sampled | ValuesAlwaysEmpty
datatype cross_schema = Reported | ScopedToResolvedSchema
datatype unanalyzed_count = ExactlyMinusOne | AnyValidEstimate
datatype partial_indexes = PartialReported | NeverEmitted
datatype check_constraints = Introspected | ChecksAlwaysEmpty
datatype expression_indexes = ExpressionSeeded | ExpressionNotSeeded
datatype not_joinable = JsonSeeded | JsonNotSeeded

definition parse_engine :: "string \<Rightarrow> engine option" where
  "parse_engine raw =
     (let s = to_ascii_lowercase (trim raw)
      in if s = ''postgres'' \<or> s = ''postgresql'' then Some OnPostgres
         else if s = ''mysql'' \<or> s = ''mariadb'' then Some OnMysql
         else if s = ''sqlite'' then Some OnSqlite
         else None)"

definition default_schema :: "env_vars \<Rightarrow> engine \<Rightarrow> string" where
  "default_schema vars e =
     (case e of
        OnPostgres \<Rightarrow> ''public''
      | OnSqlite \<Rightarrow> ''main''
      | OnMysql \<Rightarrow> unwrap_or (vars ''ASHURBANIPAL_CONFORMANCE_DEFAULT_SCHEMA'') ''ashurbanipal'')"

fun schema_model_of :: "engine \<Rightarrow> schema_model" where
  "schema_model_of OnSqlite = SingleSchema"
| "schema_model_of _ = Namespaced"

fun cross_schema_referrers :: "engine \<Rightarrow> cross_schema" where
  "cross_schema_referrers OnPostgres = Reported"
| "cross_schema_referrers _ = ScopedToResolvedSchema"

fun partial_indexes_of :: "engine \<Rightarrow> partial_indexes" where
  "partial_indexes_of OnMysql = NeverEmitted"
| "partial_indexes_of _ = PartialReported"

fun not_joinable_columns :: "engine \<Rightarrow> not_joinable" where
  "not_joinable_columns OnSqlite = JsonNotSeeded"
| "not_joinable_columns _ = JsonSeeded"

fun check_constraints_of :: "engine \<Rightarrow> check_constraints" where
  "check_constraints_of OnSqlite = ChecksAlwaysEmpty"
| "check_constraints_of _ = Introspected"

fun expression_indexes_of :: "engine \<Rightarrow> expression_indexes" where
  "expression_indexes_of OnPostgres = ExpressionSeeded"
| "expression_indexes_of _ = ExpressionNotSeeded"

fun default_fk_actions :: "engine \<Rightarrow> string list" where
  "default_fk_actions OnMysql = [''NO ACTION'', ''RESTRICT'']"
| "default_fk_actions _ = [''NO ACTION'']"

fun comments_of :: "engine \<Rightarrow> comment_support" where
  "comments_of OnSqlite = CommentsUnsupported"
| "comments_of _ = CommentsSupported"

fun common_values_of :: "engine \<Rightarrow> common_values_model" where
  "common_values_of OnPostgres = Sampled"
| "common_values_of _ = ValuesAlwaysEmpty"

fun unanalyzed_count_of :: "engine \<Rightarrow> unanalyzed_count" where
  "unanalyzed_count_of OnMysql = AnyValidEstimate"
| "unanalyzed_count_of _ = ExactlyMinusOne"

fun bool_true_literal :: "engine \<Rightarrow> string" where
  "bool_true_literal OnPostgres = ''true''"
| "bool_true_literal _ = ''1''"

section \<open>Static state\<close>

text \<open>
  The process-wide cells: \<open>SEEDED\<close>, \<open>SEED_CHECKED\<close>, the cached fallback of \<open>current\<close> and
  \<open>SEED_READY\<close>. A \<open>OnceLock\<close> keeps the first value it is set to.
\<close>

record statics =
  sk_seeded :: "engine option"
  sk_checked :: bool
  sk_fallback :: "engine option"
  sk_ready :: bool

definition statics_new :: statics where
  "statics_new = \<lparr>sk_seeded = None, sk_checked = False, sk_fallback = None, sk_ready = False\<rparr>"

definition once_set :: "'a option \<Rightarrow> 'a \<Rightarrow> 'a option" where
  "once_set cell x = (case cell of Some y \<Rightarrow> Some y | None \<Rightarrow> Some x)"

definition record_from_seed :: "string \<Rightarrow> statics \<Rightarrow> statics" where
  "record_from_seed dialect k =
     (case parse_engine dialect of
        Some e \<Rightarrow> k\<lparr>sk_seeded := once_set (sk_seeded k) e\<rparr>
      | None \<Rightarrow> k)"

definition mark_seed_checked :: "statics \<Rightarrow> statics" where
  "mark_seed_checked k = k\<lparr>sk_checked := True\<rparr>"

definition env_engine :: "env_vars \<Rightarrow> engine" where
  "env_engine vars =
     unwrap_or (Option.bind (vars ''ASHURBANIPAL_CONFORMANCE_BACKEND'') parse_engine) OnPostgres"

text \<open>\<open>Backend::current\<close>, with the \<open>debug_assert!\<close> that a test build checks.\<close>

definition current_engine :: "env_vars \<Rightarrow> (statics, engine) gen" where
  "current_engine vars k =
     (if \<not> sk_checked k then None
      else case sk_seeded k of
             Some e \<Rightarrow> Some (e, k)
           | None \<Rightarrow> (let e = unwrap_or (sk_fallback k) (env_engine vars)
                     in Some (e, k\<lparr>sk_fallback := Some e\<rparr>)))"

section \<open>The seed sentinel\<close>

text \<open>The file \<^verbatim>\<open>conformance/seed/VERSION\<close>, included at compile time.\<close>

definition SEED_VERSION :: string where
  "SEED_VERSION = ''5'' @ [CHR 0x0A]"

definition on_world :: "'a probe \<Rightarrow> (statics \<times> world, 'a) gen" where
  "on_world m = (\<lambda>(k, w). map_option (\<lambda>(x, w'). (x, (k, w'))) (m w))"

definition on_statics :: "(statics \<Rightarrow> statics) \<Rightarrow> (statics \<times> world, unit) gen" where
  "on_statics f = (\<lambda>(k, w). Some ((), (f k, w)))"

definition sentinel_row :: "json \<Rightarrow> json" where
  "sentinel_row body = index_at (index_key body ''rows'') 0"

definition engines_agree :: "env_vars \<Rightarrow> string \<Rightarrow> bool" where
  "engines_agree vars dialect =
     (case vars ''ASHURBANIPAL_CONFORMANCE_BACKEND'' of
        None \<Rightarrow> True
      | Some env_backend \<Rightarrow>
          (case (parse_engine env_backend, parse_engine dialect) of
             (Some from_env, Some from_seed) \<Rightarrow> from_env = from_seed
           | _ \<Rightarrow> True))"

definition sentinel_request :: "target \<Rightarrow> http_request" where
  "sentinel_request T =
     probe_request T ''/api/tables/data'' [(''table'', ''_conformance_meta''), (''limit'', ''1'')] None"

definition verify_seed_sentinel :: "env_vars \<Rightarrow> target \<Rightarrow> (statics \<times> world, unit) gen" where
  "verify_seed_sentinel vars T =
     gbind (on_world (send T (sentinel_request T))) (\<lambda>resp.
     gbind (require (200 \<le> rp_status resp \<and> rp_status resp < 300)) (\<lambda>_.
     gbind (reply_json T resp) (\<lambda>body.
     gbind (unwrap_gen (as_str (index_key (sentinel_row body) ''seed_version''))) (\<lambda>seed_version.
     gbind (require (seed_version = trim SEED_VERSION)) (\<lambda>_.
     gbind (case as_str (index_key (sentinel_row body) ''dialect'') of
              None \<Rightarrow> gret ()
            | Some dialect \<Rightarrow>
                gbind (require (engines_agree vars dialect)) (\<lambda>_.
                on_statics (record_from_seed dialect))) (\<lambda>_.
     on_statics mark_seed_checked))))))"

text \<open>\<open>psql\<close> is whether applying the seed through \<^verbatim>\<open>psql\<close> succeeds.\<close>

definition ensure_seed :: "env_vars \<Rightarrow> bool \<Rightarrow> target \<Rightarrow> (statics \<times> world, unit) gen" where
  "ensure_seed vars psql T =
     gbind (if vars ''ASHURBANIPAL_CONFORMANCE_SEED_DSN'' \<noteq> None then require psql else gret ()) (\<lambda>_.
     verify_seed_sentinel vars T)"

text \<open>\<open>TestServer::spawn\<close> of a target that is up: \<open>SEED_READY.get_or_init(..)\<close>, whose cell stays
  empty when the check panics.\<close>

definition spawn :: "env_vars \<Rightarrow> bool \<Rightarrow> target \<Rightarrow> (statics \<times> world, unit) gen" where
  "spawn vars psql T =
     (\<lambda>(k, w).
        if sk_ready k then Some ((), (k, w))
        else gbind (ensure_seed vars psql T) (\<lambda>_. on_statics (\<lambda>k. k\<lparr>sk_ready := True\<rparr>)) (k, w))"

text \<open>
  The tests of one process, in whatever order their calls interleave: each \<open>spawn\<close> meets a target
  and a world of its own; the cell serialises the checks, and the writes of one check, the engine
  before the mark, are one step. A call that panics leaves the cells as they were, since the check
  sets them only after its last assertion.
\<close>

datatype runner_event = Spawned | Current engine | Panicked

inductive runner_step :: "env_vars \<Rightarrow> statics \<Rightarrow> runner_event \<Rightarrow> statics \<Rightarrow> bool" for vars where
  step_spawn: "spawn vars psql T (k, w) = Some ((), (k', w')) \<Longrightarrow> runner_step vars k Spawned k'"
| step_spawn_panic: "spawn vars psql T (k, w) = None \<Longrightarrow> runner_step vars k Panicked k"
| step_current: "current_engine vars k = Some (e, k') \<Longrightarrow> runner_step vars k (Current e) k'"
| step_current_panic: "current_engine vars k = None \<Longrightarrow> runner_step vars k Panicked k"

inductive runner_run :: "env_vars \<Rightarrow> runner_event list \<Rightarrow> statics \<Rightarrow> bool" for vars where
  run_start: "runner_run vars [] statics_new"
| run_step: "runner_run vars es k \<Longrightarrow> runner_step vars k e k' \<Longrightarrow> runner_run vars (es @ [e]) k'"

end
