(* ===== verification/Seed_Text.thy ===== *)
theory Seed_Text
  imports Seed_Rng
begin

text \<open>
  The text the seed generator writes (\<^verbatim>\<open>tools/seed-gen/src/main.rs\<close>): literals of both dialects,
  the rows of an insert statement with their separators, the checksum. The locale \<open>sql_printer\<close> is
  what a row's printing relies on: whatever the value, its text reads back, by the lexer of
  \<^verbatim>\<open>Sql_Lex\<close>, as the string literals it stands for and nothing else, and ends no statement. A row
  is a printer again, and so is an insert statement's list of rows.
\<close>


section \<open>Literals\<close>

definition ANCHOR_TS :: string where
  "ANCHOR_TS = ''2026-07-19 00:00:00+00''"

definition ANCHOR_DATE :: string where
  "ANCHOR_DATE = ''2026-07-19''"

definition ANCHOR_TS_SQLITE :: string where
  "ANCHOR_TS_SQLITE = ''2026-07-19 00:00:00''"

definition q :: "string \<Rightarrow> string" where
  "q s = [squote] @ replace_char squote [squote, squote] s @ [squote]"

text \<open>\<open>'{s}'\<close> in a format string: a literal written with no escape.\<close>

definition squoted :: "string \<Rightarrow> string" where
  "squoted s = [squote] @ s @ [squote]"

definition gen_uuid :: "'s lib \<Rightarrow> ('s, uuid) gen" where
  "gen_uuid L = gmap (lib_uuid L) (fill L 16)"

definition ts_minus_mins :: "int \<Rightarrow> string" where
  "ts_minus_mins mins =
     ''TIMESTAMPTZ '' @ squoted ANCHOR_TS @ '' - interval ''
     @ squoted (int_str mins @ '' minutes'')"

definition date_minus_days :: "int \<Rightarrow> string" where
  "date_minus_days days = ''DATE '' @ squoted ANCHOR_DATE @ '' - '' @ int_str days"

definition ts_minus_days :: "int \<Rightarrow> string" where
  "ts_minus_days days =
     ''TIMESTAMPTZ '' @ squoted ANCHOR_TS @ '' - interval ''
     @ squoted (int_str days @ '' days'')"

text \<open>\<open>o.map(p).unwrap_or_else(|| "NULL".into())\<close>.\<close>

definition or_null :: "('a \<Rightarrow> string) \<Rightarrow> 'a option \<Rightarrow> string" where
  "or_null p o' = (case o' of Some x \<Rightarrow> p x | None \<Rightarrow> ''NULL'')"

definition uuid_sql :: "uuid option \<Rightarrow> string" where
  "uuid_sql o' = or_null squoted o'"

definition int_sql :: "int option \<Rightarrow> string" where
  "int_sql o' = or_null int_str o'"

definition bool_str :: "bool \<Rightarrow> string" where
  "bool_str b = (if b then ''true'' else ''false'')"

text \<open>\<open>{:02x}\<close> of a byte and \<open>{:.2}\<close> of a number of hundredths divided by 100.\<close>

definition byte_hex :: "8 word \<Rightarrow> string" where
  "byte_hex b = [hex_digit (unat b div 16), hex_digit (unat b mod 16)]"

definition hex_text :: "8 word list \<Rightarrow> string" where
  "hex_text bs = concat (map byte_hex bs)"

definition two_digits :: "nat \<Rightarrow> string" where
  "two_digits n = [digit_char (n div 10), digit_char (n mod 10)]"

definition cents_str :: "int \<Rightarrow> string" where
  "cents_str n = int_str (n div 100) @ ''.'' @ two_digits (nat (n mod 100))"

definition bytea_val :: "8 word list \<Rightarrow> string" where
  "bytea_val bs = [backslash] @ ''x'' @ hex_text bs"

definition bytea_lit :: "8 word list \<Rightarrow> string" where
  "bytea_lit bs = squoted (bytea_val bs) @ ''::bytea''"

definition bytea_sql :: "8 word list option \<Rightarrow> string" where
  "bytea_sql o' = or_null bytea_lit o'"

definition sqlite_ts_minus_mins :: "int \<Rightarrow> string" where
  "sqlite_ts_minus_mins mins =
     ''datetime('' @ squoted ANCHOR_TS_SQLITE @ '', ''
     @ squoted (''-'' @ int_str mins @ '' minutes'') @ '')''"

definition sqlite_ts_minus_days :: "int \<Rightarrow> string" where
  "sqlite_ts_minus_days days =
     ''datetime('' @ squoted ANCHOR_TS_SQLITE @ '', ''
     @ squoted (''-'' @ int_str days @ '' days'') @ '')''"

definition sqlite_date_minus_days :: "int \<Rightarrow> string" where
  "sqlite_date_minus_days days =
     ''date('' @ squoted ANCHOR_DATE @ '', ''
     @ squoted (''-'' @ int_str days @ '' days'') @ '')''"

definition sqlite_blob_lit :: "8 word list \<Rightarrow> string" where
  "sqlite_blob_lit bs = ''X'' @ squoted (hex_text bs)"

definition sqlite_blob_sql :: "8 word list option \<Rightarrow> string" where
  "sqlite_blob_sql o' = or_null sqlite_blob_lit o'"

section \<open>The checksum\<close>

definition OFFSET_BASIS :: "64 word" where
  "OFFSET_BASIS = 0xcbf29ce484222325"

definition PRIME :: "64 word" where
  "PRIME = 0x100000001b3"

definition fnv1a64 :: "string \<Rightarrow> 64 word" where
  "fnv1a64 data = foldl (\<lambda>hash byte. xor hash (of_nat (of_char byte)) * PRIME) OFFSET_BASIS data"

text \<open>\<open>{:016x}\<close>: sixteen hexadecimal digits, most significant first.\<close>

definition hex16 :: "64 word \<Rightarrow> string" where
  "hex16 w = map (\<lambda>i. hex_digit (unat w div 16 ^ i mod 16)) (rev [0..<16])"

section \<open>Rows of an insert statement\<close>

text \<open>\<open>if i + 1 == n { ";\n\n" } else { ",\n" }\<close>, and the rows written with it.\<close>

definition row_sep :: "nat \<Rightarrow> nat \<Rightarrow> string" where
  "row_sep i n = (if i + 1 = n then '';'' @ [newline, newline] else '','' @ [newline])"

fun rows_from :: "('a \<Rightarrow> string) \<Rightarrow> nat \<Rightarrow> nat \<Rightarrow> 'a list \<Rightarrow> string" where
  "rows_from p i n [] = []"
| "rows_from p i n (r # rows) = p r @ row_sep i n @ rows_from p (i + 1) n rows"

definition rows_text :: "('a \<Rightarrow> string) \<Rightarrow> 'a list \<Rightarrow> string" where
  "rows_text p rows = rows_from p 0 (length rows) rows"

text \<open>The loop that draws a row and writes it, with a state its rounds share or without.\<close>

definition write_scan ::
  "('c \<Rightarrow> 'a \<Rightarrow> ('s, 'r \<times> 'c) gen) \<Rightarrow> ('r \<Rightarrow> string) \<Rightarrow> 'c \<Rightarrow> 'a list \<Rightarrow> string \<Rightarrow> ('s, string) gen" where
  "write_scan f p c xs out =
     gmap fst (gfold
       (\<lambda>(out, c) (i, x). gbind (f c x) (\<lambda>(r, c'). gret (out @ p r @ row_sep i (length xs), c')))
       (out, c) (zip [0..<length xs] xs))"

definition write_each ::
  "('a \<Rightarrow> ('s, 'r) gen) \<Rightarrow> ('r \<Rightarrow> string) \<Rightarrow> 'a list \<Rightarrow> string \<Rightarrow> ('s, string) gen" where
  "write_each f p xs out =
     gfold (\<lambda>out (i, x). gbind (f x) (\<lambda>r. gret (out @ p r @ row_sep i (length xs))))
       out (zip [0..<length xs] xs)"

lemma upt_first: "[k..<k + length (x # xs)] = k # [Suc k..<Suc k + length xs]"
  by (simp add: upt_conv_Cons del: upt_Suc)

lemma write_scan_from:
  "gmap fst (gfold
     (\<lambda>(out, c) (i, x). gbind (f c x) (\<lambda>(r, c'). gret (out @ p r @ row_sep i n, c')))
     (out, c) (zip [k..<k + length xs] xs))
   = gmap (\<lambda>rows. out @ rows_from p k n rows) (gscan f c xs)"
proof (induction xs arbitrary: k c out)
  case Nil
  then show ?case by simp
next
  case (Cons x xs)
  show ?case
    using Cons.IH [where k = "Suc k"] by (simp only: upt_first) (simp add: split_beta comp_def del: upt_Suc)
qed

lemma write_scan_eq:
  "write_scan f p c xs out = gmap (\<lambda>rows. out @ rows_from p 0 (length xs) rows) (gscan f c xs)"
  unfolding write_scan_def using write_scan_from [where k = 0] by simp

lemma write_each_from:
  "gfold (\<lambda>out (i, x). gbind (f x) (\<lambda>r. gret (out @ p r @ row_sep i n))) out
     (zip [k..<k + length xs] xs)
   = gmap (\<lambda>rows. out @ rows_from p k n rows) (gtraverse f xs)"
proof (induction xs arbitrary: k out)
  case Nil
  then show ?case by simp
next
  case (Cons x xs)
  show ?case
    using Cons.IH [where k = "Suc k"] by (simp only: upt_first) (simp del: upt_Suc)
qed

lemma gmap_cong_len:
  assumes "\<And>rows. length rows = length xs \<Longrightarrow> f rows = g rows"
  shows "gmap f (gtraverse h xs) = gmap g (gtraverse h xs)"
  by (rule ext) (auto simp: gmap_def gbind_def dest!: gtraverse_length intro!: assms
      split: option.splits intro: arg_cong [where f = "\<lambda>x. gret x _"])

lemma write_each_eq:
  "write_each f p xs out = gmap (\<lambda>rows. out @ rows_text p rows) (gtraverse f xs)"
  unfolding write_each_def rows_text_def
  using write_each_from [where k = 0 and n = "length xs"] by (simp cong: gmap_cong_len)

lemma rows_from_join:
  "rows \<noteq> [] \<Longrightarrow> n = i + length rows \<Longrightarrow>
   rows_from p i n rows = str_join ('','' @ [newline]) (map p rows) @ '';'' @ [newline, newline]"
proof (induction rows arbitrary: i)
  case (Cons r rows)
  then show ?case
    by (cases rows) (auto simp: row_sep_def)
qed simp

lemma rows_text_join:
  "rows \<noteq> [] \<Longrightarrow> rows_text p rows = str_join ('','' @ [newline]) (map p rows) @ '';'' @ [newline, newline]"
  by (simp add: rows_text_def rows_from_join)

lemma rows_text_Nil [simp]: "rows_text p [] = []"
  by (simp add: rows_text_def)

section \<open>Reading the text back\<close>

text \<open>
  \<open>spells n vs s\<close>: the text lexes, with no quote left open and no quoted identifier, to the
  string literals \<open>vs\<close> in order, and outside them has \<open>n\<close> semicolons.
\<close>

definition literals :: "tok list \<Rightarrow> string list" where
  "literals toks = concat (map (\<lambda>t. case t of Literal x \<Rightarrow> [x] | _ \<Rightarrow> []) toks)"

definition semicolons :: "tok list \<Rightarrow> nat" where
  "semicolons toks = length (filter (\<lambda>t. t = Raw (CHR '';'')) toks)"

fun unbroken :: "tok \<Rightarrow> bool" where
  "unbroken (Raw c) = True"
| "unbroken (Literal x) = True"
| "unbroken (Quoted x) = False"
| "unbroken Broken = False"

definition spells :: "nat \<Rightarrow> string list \<Rightarrow> string \<Rightarrow> bool" where
  "spells n vs s \<longleftrightarrow>
     (let toks = lex dquote s in list_all unbroken toks \<and> literals toks = vs \<and> semicolons toks = n)"

definition unquoted :: "string \<Rightarrow> bool" where
  "unquoted s \<longleftrightarrow> list_all (\<lambda>c. c \<noteq> squote \<and> c \<noteq> dquote) s"

definition semis :: "string \<Rightarrow> nat" where
  "semis s = length (filter (\<lambda>c. c = CHR '';'') s)"

lemma unquoted_simps [simp]:
  "unquoted []" "unquoted (c # s) \<longleftrightarrow> c \<noteq> squote \<and> c \<noteq> dquote \<and> unquoted s"
  "unquoted (s @ t) \<longleftrightarrow> unquoted s \<and> unquoted t"
  by (auto simp: unquoted_def)

lemma semis_simps [simp]:
  "semis [] = 0" "semis (c # s) = (if c = CHR '';'' then 1 else 0) + semis s"
  "semis (s @ t) = semis s + semis t"
  by (simp_all add: semis_def)

lemma toks_simps [simp]:
  "literals (a @ b) = literals a @ literals b" "literals (map Raw s) = []"
  "semicolons (a @ b) = semicolons a + semicolons b" "semicolons (map Raw s) = semis s"
  "list_all unbroken (map Raw s)"
  by (simp_all add: literals_def semicolons_def semis_def comp_def filter_map list_all_iff)

lemma spells_Nil: "spells 0 [] []"
  by (simp add: spells_def literals_def semicolons_def)

lemma spells_raw:
  assumes "unquoted a" shows "spells (semis a + n) vs (a @ t) \<longleftrightarrow> spells n vs t"
proof -
  have "lex dquote (a @ t) = map Raw a @ lex dquote t"
    using assms by (induction a) (auto simp: unquoted_def)
  then show ?thesis
    by (simp add: spells_def Let_def)
qed

lemma spells_plain: "unquoted a \<Longrightarrow> semis a = 0 \<Longrightarrow> spells n vs (a @ t) \<longleftrightarrow> spells n vs t"
  using spells_raw [of a n vs t] by simp

lemma spells_char [simp]:
  "c \<noteq> squote \<Longrightarrow> c \<noteq> dquote \<Longrightarrow> c \<noteq> CHR '';'' \<Longrightarrow> spells n vs (c # t) \<longleftrightarrow> spells n vs t"
  using spells_plain [of "[c]" n vs t] by simp

lemma spells_semicolon: "spells (Suc n) vs (CHR '';'' # t) \<longleftrightarrow> spells n vs t"
  using spells_raw [of "'';''" n vs t] by simp

lemma spells_q [simp]:
  assumes "not_first squote t" shows "spells n (s # vs) (q s @ t) \<longleftrightarrow> spells n vs t"
proof -
  have "lex dquote (q s @ t) = Literal s # lex dquote t"
    by (simp add: q_def scan_escaped [OF assms, simplified])
  then show ?thesis
    by (simp add: spells_def Let_def literals_def semicolons_def)
qed

definition lit_free :: "string \<Rightarrow> bool" where
  "lit_free s \<longleftrightarrow> list_all (\<lambda>c. c \<noteq> squote) s"

lemma lit_free_simps [simp]:
  "lit_free []" "lit_free (c # s) \<longleftrightarrow> c \<noteq> squote \<and> lit_free s"
  "lit_free (s @ t) \<longleftrightarrow> lit_free s \<and> lit_free t"
  by (auto simp: lit_free_def)

lemma spells_squoted [simp]:
  assumes "lit_free s" "not_first squote t"
  shows "spells n (s # vs) (squoted s @ t) \<longleftrightarrow> spells n vs t"
proof -
  have "squote \<notin> set s" using assms(1) by (auto simp: lit_free_def list_all_iff)
  then show ?thesis
    using spells_q [OF assms(2), of n s vs] by (simp add: q_def squoted_def replace_char_absent)
qed

lemma unquoted_nat_str [simp]: "unquoted (nat_str n)" "semis (nat_str n) = 0"
  using nat_str_digits [of n]
  by (auto simp: unquoted_def semis_def list_all_iff is_digit_def filter_empty_conv)

lemma unquoted_int_str [simp]: "unquoted (int_str i)" "semis (int_str i) = 0"
  by (simp_all add: int_str_def)

lemma digit_char_plain:
  "d < 10 \<Longrightarrow> digit_char d \<noteq> squote \<and> digit_char d \<noteq> dquote \<and> digit_char d \<noteq> CHR '';''"
  using is_digit_digit_char [of d]
  by (auto simp: is_digit_def simp del: is_digit_digit_char of_char_digit_char)

lemma unquoted_two_digits [simp]:
  "n < 100 \<Longrightarrow> unquoted (two_digits n)" "n < 100 \<Longrightarrow> semis (two_digits n) = 0"
  using digit_char_plain [of "n div 10"] digit_char_plain [of "n mod 10"]
  by (simp_all add: two_digits_def less_mult_imp_div_less)

lemma spells_printed [simp]:
  "spells n vs (int_str i @ t) \<longleftrightarrow> spells n vs t"
  "spells n vs (bool_str b @ t) \<longleftrightarrow> spells n vs t"
  "spells n vs (cents_str i @ t) \<longleftrightarrow> spells n vs t"
  by (simp_all add: spells_plain bool_str_def cents_str_def nat_less_iff)

section \<open>Printers\<close>

definition opt_vals :: "('a \<Rightarrow> string list) \<Rightarrow> 'a option \<Rightarrow> string list" where
  "opt_vals vals x = (case x of Some y \<Rightarrow> vals y | None \<Rightarrow> [])"

definition stmts :: "'a list \<Rightarrow> nat" where
  "stmts rows = (if rows = [] then 0 else 1)"

locale sql_printer =
  fixes print :: "'a \<Rightarrow> string" and vals :: "'a \<Rightarrow> string list" and ok :: "'a \<Rightarrow> bool"
  assumes print_spells:
    "ok x \<Longrightarrow> not_first squote t \<Longrightarrow> spells n (vals x @ vs) (print x @ t) \<longleftrightarrow> spells n vs t"
begin

lemma optional:
  "pred_option ok x \<Longrightarrow> not_first squote t \<Longrightarrow>
   spells n (opt_vals vals x @ vs) (or_null print x @ t) \<longleftrightarrow> spells n vs t"
  by (cases x) (auto simp: or_null_def opt_vals_def print_spells)

text \<open>The rows of a statement: one semicolon, unless there are no rows.\<close>

lemma rows_from_spells:
  assumes "list_all ok rows" "not_first squote t" "m = i + length rows"
  shows "spells (stmts rows + n) (concat (map vals rows) @ vs) (rows_from print i m rows @ t)
    \<longleftrightarrow> spells n vs t"
  using assms(1,3)
proof (induction rows arbitrary: i)
  case Nil
  then show ?case by (simp add: stmts_def)
next
  case (Cons r rows)
  let ?rest = "rows_from print (i + 1) m rows @ t"
  have "spells (stmts (r # rows) + n) (vals r @ concat (map vals rows) @ vs)
      (print r @ row_sep i m @ ?rest)
    \<longleftrightarrow> spells (semis (row_sep i m) + (stmts rows + n)) (concat (map vals rows) @ vs)
      (row_sep i m @ ?rest)"
    using Cons.prems by (subst print_spells) (auto simp: row_sep_def stmts_def)
  also have "\<dots> \<longleftrightarrow> spells (stmts rows + n) (concat (map vals rows) @ vs) ?rest"
    by (rule spells_raw) (simp add: row_sep_def)
  also have "\<dots> \<longleftrightarrow> spells n vs t"
    using Cons by simp
  finally show ?case by simp
qed

lemma rows_spells:
  "list_all ok rows \<Longrightarrow> not_first squote t \<Longrightarrow>
   spells (stmts rows + n) (concat (map vals rows) @ vs) (rows_text print rows @ t) \<longleftrightarrow> spells n vs t"
  unfolding rows_text_def by (rule rows_from_spells) auto

end

subsection \<open>The printers of values\<close>

definition no_lits :: "'a \<Rightarrow> string list" where
  "no_lits x = []"

definition always :: "'a \<Rightarrow> bool" where
  "always x = True"

lemma lit_free_int_str [simp]: "lit_free (int_str i)"
  using unquoted_int_str(1) [of i] by (auto simp: unquoted_def lit_free_def list_all_iff)

lemma hex_digit_not_squote: "d < 16 \<Longrightarrow> hex_digit d \<noteq> squote"
  by (simp add: hex_digit_def char_of_eq_iff take_bit_nat_def)

lemma lit_free_hex_text [simp]: "lit_free (hex_text bs)"
proof (induction bs)
  case (Cons b bs)
  have "unat b < 2 ^ LENGTH(8)" by (rule unsigned_less)
  then have "unat b div 16 < 16" by (simp add: less_mult_imp_div_less)
  then have "hex_digit (unat b div 16) \<noteq> squote" "hex_digit (unat b mod 16) \<noteq> squote"
    by (simp_all add: hex_digit_not_squote)
  with Cons show ?case by (simp add: hex_text_def byte_hex_def)
qed (simp add: hex_text_def)

definition offset_lits :: "string \<Rightarrow> string \<Rightarrow> string \<Rightarrow> int \<Rightarrow> string list" where
  "offset_lits anchor pre post n = [anchor, pre @ int_str n @ post]"

definition date_lits :: "int \<Rightarrow> string list" where
  "date_lits n = [ANCHOR_DATE]"

lemma lit_free_bytea_val [simp]: "lit_free (bytea_val bs)"
  by (simp add: bytea_val_def)

lemma anchors_lit_free [simp]:
  "lit_free ANCHOR_TS" "lit_free ANCHOR_DATE" "lit_free ANCHOR_TS_SQLITE"
  by (simp_all add: ANCHOR_TS_def ANCHOR_DATE_def ANCHOR_TS_SQLITE_def)

interpretation text_lit: sql_printer q "\<lambda>s. [s]" always
  by unfold_locales simp

interpretation plain_lit: sql_printer squoted "\<lambda>s. [s]" lit_free
  by unfold_locales simp

interpretation int_lit: sql_printer int_str no_lits always
  by unfold_locales (simp add: no_lits_def)

interpretation cents_lit: sql_printer cents_str no_lits always
  by unfold_locales (simp add: no_lits_def)

interpretation mins_pg: sql_printer ts_minus_mins "offset_lits ANCHOR_TS [] '' minutes''" always
  by unfold_locales (simp add: ts_minus_mins_def offset_lits_def)

interpretation days_pg: sql_printer ts_minus_days "offset_lits ANCHOR_TS [] '' days''" always
  by unfold_locales (simp add: ts_minus_days_def offset_lits_def)

interpretation date_pg: sql_printer date_minus_days date_lits always
  by unfold_locales (simp add: date_minus_days_def date_lits_def)

interpretation bytes_pg: sql_printer bytea_lit "\<lambda>bs. [bytea_val bs]" always
  by unfold_locales (simp add: bytea_lit_def)

interpretation mins_lite:
  sql_printer sqlite_ts_minus_mins "offset_lits ANCHOR_TS_SQLITE ''-'' '' minutes''" always
  by unfold_locales (simp add: sqlite_ts_minus_mins_def offset_lits_def)

interpretation days_lite:
  sql_printer sqlite_ts_minus_days "offset_lits ANCHOR_TS_SQLITE ''-'' '' days''" always
  by unfold_locales (simp add: sqlite_ts_minus_days_def offset_lits_def)

interpretation date_lite:
  sql_printer sqlite_date_minus_days "offset_lits ANCHOR_DATE ''-'' '' days''" always
  by unfold_locales (simp add: sqlite_date_minus_days_def offset_lits_def)

interpretation bytes_lite: sql_printer sqlite_blob_lit "\<lambda>bs. [hex_text bs]" always
  by unfold_locales (simp add: sqlite_blob_lit_def)

lemma always [simp]: "always x" "list_all always xs"
  by (simp_all add: always_def list_all_iff)

lemma opt_always [simp]: "pred_option always o'"
  by (cases o') simp_all

lemma opt_no_lits [simp]: "opt_vals no_lits x = []"
  by (cases x) (simp_all add: opt_vals_def no_lits_def)

lemmas printed =
  uuid_sql_def int_sql_def bytea_sql_def sqlite_blob_sql_def
  text_lit.optional plain_lit.optional int_lit.optional [simplified] cents_lit.optional [simplified]
  mins_pg.print_spells mins_pg.optional days_pg.print_spells date_pg.print_spells bytes_pg.optional
  mins_lite.print_spells mins_lite.optional days_lite.print_spells date_lite.print_spells
  bytes_lite.optional

end
