(* ===== verification/Seed_Data.thy ===== *)
theory Seed_Data
  imports Seed_Text
begin

text \<open>
  The data the seed generator draws for both dialects (\<^verbatim>\<open>tools/seed-gen/src/main.rs\<close>): users,
  orders, sessions and the gateway responses of payments, with the pools they are drawn from, and
  the two tables whose statement is the same text in both dialects (\<open>order_extra\<close> and
  \<open>inventory_locations\<close>). An amount of cents and a percentage are numbers of hundredths, an
  offset is a number of minutes or days before the anchor.
\<close>

section \<open>Sizes and pools\<close>

definition USER_COUNT :: nat where "USER_COUNT = 50"
definition PRODUCT_COUNT :: nat where "PRODUCT_COUNT = 80"
definition EVENT_COUNT :: nat where "EVENT_COUNT = 400"
definition SESSION_COUNT :: nat where "SESSION_COUNT = 120"
definition REVIEWS_PER_PRODUCT_MIN :: int where "REVIEWS_PER_PRODUCT_MIN = 130"
definition REVIEWS_PER_PRODUCT_MAX :: int where "REVIEWS_PER_PRODUCT_MAX = 220"
definition SUPPORT_TICKET_COUNT :: nat where "SUPPORT_TICKET_COUNT = 350"
definition AUDIT_LOG_COUNT :: nat where "AUDIT_LOG_COUNT = 30000"
definition FEATURE_FLAG_COUNT :: nat where "FEATURE_FLAG_COUNT = 6"
definition INVENTORY_COUNT_ROWS :: nat where "INVENTORY_COUNT_ROWS = 40"
definition CARRIER_COUNT :: nat where "CARRIER_COUNT = 6"

lemmas sizes =
  USER_COUNT_def PRODUCT_COUNT_def EVENT_COUNT_def SESSION_COUNT_def REVIEWS_PER_PRODUCT_MIN_def
  REVIEWS_PER_PRODUCT_MAX_def FEATURE_FLAG_COUNT_def
  INVENTORY_COUNT_ROWS_def CARRIER_COUNT_def

definition ROLE_POOL :: "string list" where
  "ROLE_POOL = [''admin'', ''user'', ''user'', ''user'', ''support'', ''moderator'']"

definition STAFF_ROLES :: "string list" where
  "STAFF_ROLES = [''admin'', ''support'', ''moderator'']"

definition ORDER_STATUSES :: "string list" where
  "ORDER_STATUSES =
     [''pending'', ''completed'', ''completed'', ''completed'', ''cancelled'', ''refunded'']"

definition ORDER_TAG_POOL :: "string list" where
  "ORDER_TAG_POOL = [''priority'', ''gift-wrap'', ''backorder'', ''fragile'', ''international'']"

definition SESSION_DEVICES :: "string list" where
  "SESSION_DEVICES = [''desktop'', ''mobile'', ''tablet'', ''bot'']"

definition SESSION_USER_AGENTS :: "string list" where
  "SESSION_USER_AGENTS =
     [''Mozilla/5.0 (Windows NT 10.0; Win64; x64) AppleWebKit/537.36 (KHTML, like Gecko) Chrome/126.0 Safari/537.36'',
      ''Mozilla/5.0 (Macintosh; Intel Mac OS X 14_5) AppleWebKit/605.1.15 (KHTML, like Gecko) Version/17.5 Safari/605.1.15'',
      ''Mozilla/5.0 (X11; Linux x86_64; rv:127.0) Gecko/20100101 Firefox/127.0'',
      ''Mozilla/5.0 (iPhone; CPU iPhone OS 17_5 like Mac OS X) AppleWebKit/605.1.15 (KHTML, like Gecko) Version/17.5 Mobile/15E148 Safari/604.1'',
      ''curl/8.7.1'']"

section \<open>Users\<close>

record gen_user =
  u_id :: uuid
  u_email :: string
  u_full_name :: string
  u_age :: "int option"
  u_is_active :: bool
  u_login_count :: int
  u_metadata :: string
  u_role :: string
  u_last_login_offset_mins :: "int option"
  u_created_offset_days :: int

text \<open>The loop that draws addresses until one is new. It has no bound: \<^const>\<open>None\<close> is a run in
  which every further address has been seen.\<close>

partial_function (option) fresh_email :: "'s lib \<Rightarrow> string set \<Rightarrow> ('s, string) gen" where
  "fresh_email L seen_emails s =
     (case lib_fake L SafeEmail s of
        (candidate, s') \<Rightarrow>
          if candidate \<in> seen_emails then fresh_email L seen_emails s' else Some (candidate, s'))"

definition user_metadata :: "'s lib \<Rightarrow> string \<Rightarrow> ('s, string) gen" where
  "user_metadata L role =
     gbind (random_bool L 50) (\<lambda>prefs.
     gbind (if prefs
            then gmap (\<lambda>dark. '', \"prefs\": {\"theme\": \"'' @ (if dark then ''dark'' else ''light'')
     @ ''\"}'')
                   (random_bool L 50)
            else gret []) (\<lambda>prefs_text.
     gbind (random_bool L 15) (\<lambda>beta.
     gret ((''{\"role\": \"'' @ role @ ''\"'')
       @ prefs_text
       @ (if beta then '', \"beta_features\": [\"new_dashboard\"]'' else [])
       @ ''}''))))"

definition draw_user :: "'s lib \<Rightarrow> string set \<Rightarrow> ('s, gen_user \<times> string set) gen" where
  "draw_user L seen_emails =
     gbind (fake L Name) (\<lambda>full_name.
     gbind (fresh_email L seen_emails) (\<lambda>email.
     gbind (random_bool L 10) (\<lambda>no_age.
     gbind (if no_age then gret None else gmap Some (random_range L U8 (Until 18 75))) (\<lambda>age.
     gbind (choose_from L ROLE_POOL) (\<lambda>role.
     gbind (user_metadata L role) (\<lambda>metadata.
     gbind (gen_uuid L) (\<lambda>i.
     gbind (random_bool L 85) (\<lambda>is_active.
     gbind (random_range L U32 (Until 0 500)) (\<lambda>login_count.
     gbind (random_bool L 15) (\<lambda>never.
     gbind (if never then gret None else gmap Some (random_range L U32 (Until 10 130000)))
       (\<lambda>last_login_offset_mins.
     gbind (random_range L U32 (Until 1 400)) (\<lambda>created_offset_days.
     gret (\<lparr>u_id = i, u_email = email, u_full_name = full_name, u_age = age,
             u_is_active = is_active, u_login_count = login_count, u_metadata = metadata,
             u_role = role, u_last_login_offset_mins = last_login_offset_mins,
             u_created_offset_days = created_offset_days\<rparr>,
           insert email seen_emails)))))))))))))"

definition gen_users :: "'s lib \<Rightarrow> ('s, gen_user list) gen" where
  "gen_users L = gscan (\<lambda>seen_emails _. draw_user L seen_emails) {} [0..<USER_COUNT]"

section \<open>Orders\<close>

record gen_order =
  o_id :: uuid
  o_user_id :: uuid
  o_status :: string
  o_total_cents :: int
  o_discount_pct :: "int option"
  o_tags :: "string list option"
  o_line_items :: "string list"
  o_created_offset_mins :: int

definition line_item :: "'s lib \<Rightarrow> ('s, string) gen" where
  "line_item L =
     gbind (random_range L I32 (Until 1000 9999)) (\<lambda>sku.
     gbind (random_range L I32 (Until 1 4)) (\<lambda>qty.
     gret (''{\"sku\": \"WIDGET-'' @ int_str sku @ ''\", \"qty\": '' @ int_str qty @ ''}'')))"

definition draw_order :: "'s lib \<Rightarrow> gen_user \<Rightarrow> ('s, gen_order) gen" where
  "draw_order L u =
     gbind (choose_from L ORDER_STATUSES) (\<lambda>status.
     gbind (random_range L I32 (Until 300 25000)) (\<lambda>total_cents.
     gbind (random_bool L 30) (\<lambda>discounted.
     gbind (if discounted then gmap Some (random_range L I32 (Until 200 4000)) else gret None)
       (\<lambda>discount_pct.
     gbind (random_bool L 30) (\<lambda>tagged.
     gbind (if tagged
            then gbind (random_range L Usize (Upto 1 2)) (\<lambda>n.
                 gmap Some (sample L ORDER_TAG_POOL (nat n)))
            else gret None) (\<lambda>tags.
     gbind (random_range L I32 (Upto 1 4)) (\<lambda>n_items.
     gbind (gtraverse (\<lambda>_. line_item L) [0..<nat n_items]) (\<lambda>line_items.
     gbind (random_range L U32 (Until 60 288000)) (\<lambda>created_offset_mins.
     gbind (gen_uuid L) (\<lambda>i.
     gret \<lparr>o_id = i, o_user_id = u_id u, o_status = status, o_total_cents = total_cents,
            o_discount_pct = discount_pct, o_tags = tags, o_line_items = line_items,
            o_created_offset_mins = created_offset_mins\<rparr>))))))))))"

definition gen_orders :: "'s lib \<Rightarrow> gen_user list \<Rightarrow> ('s, gen_order list) gen" where
  "gen_orders L users =
     gcollect (\<lambda>u. gbind (random_range L I32 (Until 0 9)) (\<lambda>n_orders.
                   gtraverse (\<lambda>_. draw_order L u) [0..<nat n_orders])) users"

text \<open>The orders of each user in the order they were drawn, and the staff.\<close>

definition index_orders :: "gen_order list \<Rightarrow> uuid \<rightharpoonup> uuid list" where
  "index_orders orders =
     foldl (\<lambda>m r. m(o_user_id r \<mapsto> (case m (o_user_id r) of None \<Rightarrow> [] | Some v \<Rightarrow> v) @ [o_id r]))
       Map.empty orders"

definition staff_of :: "gen_user list \<Rightarrow> gen_user list" where
  "staff_of users = filter (\<lambda>u. u_role u \<in> set STAFF_ROLES) users"

subsection \<open>The rows of order extras\<close>

record extra_row =
  x_order_id :: uuid
  x_message :: "string option"
  x_is_gift :: bool

definition gift_messages :: "string list" where
  "gift_messages =
     [''Happy birthday!'', ''Congrats on the new place.'', ''Thanks for everything.'', ''Enjoy!'']"

definition order_extra_rows :: "'s lib \<Rightarrow> gen_order list \<Rightarrow> ('s, extra_row list) gen" where
  "order_extra_rows L orders =
     gcollect (\<lambda>r.
       gbind (random_bool L 15) (\<lambda>chosen.
       if \<not> chosen then gret []
       else gbind (random_bool L 70) (\<lambda>is_gift.
            gbind (if is_gift then random_bool L 80 else gret False) (\<lambda>with_message.
            gbind (if with_message then gmap Some (choose_from L gift_messages) else gret None)
              (\<lambda>message.
            gret [\<lparr>x_order_id = o_id r, x_message = message, x_is_gift = is_gift\<rparr>]))))) orders"

definition extra_insert :: string where
  "extra_insert =
     ''insert into order_extra (order_id, gift_message, is_gift) values'' @ [newline]"

definition extra_sql :: "extra_row \<Rightarrow> string" where
  "extra_sql r =
     ''    ('' @ squoted (x_order_id r) @ '', '' @ or_null q (x_message r) @ '', ''
     @ bool_str (x_is_gift r) @ '')''"

definition gen_and_write_order_extra ::
  "string \<Rightarrow> 's lib \<Rightarrow> gen_order list \<Rightarrow> ('s, string) gen" where
  "gen_and_write_order_extra out L orders =
     gbind (order_extra_rows L orders) (\<lambda>rows.
     if rows = [] then gret out
     else gret (out
       @ extra_insert
       @ rows_text extra_sql rows))"

section \<open>Sessions\<close>

record gen_session =
  ss_id :: uuid
  ss_started_offset_mins :: int
  ss_ended_offset_mins :: "int option"
  ss_device :: string
  ss_user_agent :: string
  ss_ip :: string
  ss_user_id :: uuid

definition draw_session :: "'s lib \<Rightarrow> gen_user list \<Rightarrow> ('s, gen_session) gen" where
  "draw_session L users =
     gbind (choose_from L users) (\<lambda>user.
     gbind (choose_from L SESSION_DEVICES) (\<lambda>device.
     gbind (choose_from L SESSION_USER_AGENTS) (\<lambda>user_agent.
     gbind (fake L IPv4) (\<lambda>ip.
     gbind (random_range L U32 (Until 300 90000)) (\<lambda>started_offset_mins.
     gbind (random_bool L 20) (\<lambda>open_ended.
     gbind (if open_ended then gret None
            else gbind (random_range L U32 (Until 1 180)) (\<lambda>len.
                 gmap Some (u32_sub started_offset_mins len))) (\<lambda>ended_offset_mins.
     gbind (gen_uuid L) (\<lambda>i.
     gret \<lparr>ss_id = i, ss_started_offset_mins = started_offset_mins,
            ss_ended_offset_mins = ended_offset_mins, ss_device = device,
            ss_user_agent = user_agent, ss_ip = ip, ss_user_id = u_id user\<rparr>))))))))"

definition gen_sessions :: "'s lib \<Rightarrow> gen_user list \<Rightarrow> ('s, gen_session list) gen" where
  "gen_sessions L users = gtraverse (\<lambda>_. draw_session L users) [0..<SESSION_COUNT]"

section \<open>Gateway responses\<close>

definition gateways :: "string list" where
  "gateways = [''stripe'', ''braintree'', ''adyen'']"

definition small_gateway_response :: "'s lib \<Rightarrow> ('s, string) gen" where
  "small_gateway_response L =
     gbind (choose_from L gateways) (\<lambda>gateway.
     gbind (random_range L U64 (Until 100000000 999999999)) (\<lambda>txn_id.
     gret (''{\"gateway\": \"'' @ gateway @ ''\", \"transaction_id\": \"txn_''
     @ int_str txn_id @ ''\"}'')))"

definition decline_codes :: "string list" where
  "decline_codes =
     [''card_declined'', ''insufficient_funds'', ''expired_card'', ''processor_error'',
      ''fraud_suspected'']"

definition gateway_attempt :: "'s lib \<Rightarrow> nat \<Rightarrow> ('s, string) gen" where
  "gateway_attempt L n =
     gbind (choose_from L decline_codes) (\<lambda>code.
     gbind (random_range L U32 (Until 1 5000)) (\<lambda>at_offset.
     gret (''{\"attempt\": '' @ nat_str (n + 1) @ '', \"code\": \"'' @ code
     @ ''\", \"at_offset_mins\": '' @ int_str at_offset @ ''}'')))"

definition large_gateway_response :: "'s lib \<Rightarrow> ('s, string) gen" where
  "large_gateway_response L =
     gbind (choose_from L gateways) (\<lambda>gateway.
     gbind (random_range L U64 (Until 100000000 999999999)) (\<lambda>txn_id.
     gbind (random_range L I32 (Until 40 99)) (\<lambda>score.
     gbind (random_bool L 50) (\<lambda>required.
     gbind (choose_from L [''US'', ''CA'', ''GB'', ''DE'']) (\<lambda>country.
     gbind (random_range L U32 (Until 10000 99999)) (\<lambda>postal.
     gbind (random_range L U32 (Until 1000 9999)) (\<lambda>procref.
     gbind (choose_from L [''visa'', ''mastercard'', ''amex'']) (\<lambda>network.
     gbind (random_range L U32 (Until 100000 999999)) (\<lambda>auth.
     gbind (random_range L I32 (Upto 2 3)) (\<lambda>n_attempts.
     gbind (gtraverse (gateway_attempt L) [0..<nat n_attempts]) (\<lambda>attempts.
     gret (''{\"gateway\": \"'' @ gateway @ ''\", \"transaction_id\": \"txn_''
     @ int_str txn_id @ ''\", \"risk\": {\"score\": '' @ int_str score
     @ '', \"flags\": [\"velocity\", \"mismatched_cvv\"], \"review\": {\"required\": ''
     @ bool_str required @ '', \"reviewer\": null}}, \"attempts\": [''
     @ str_join '', '' attempts @ ''], \"billing_address\": {\"country\": \"'' @ country
     @ ''\", \"postal_code\": \"'' @ int_str postal
     @ ''\"}, \"raw\": {\"processor_ref\": \"ref_'' @ int_str procref
     @ ''\", \"network\": \"'' @ network @ ''\", \"auth_code\": \"'' @ int_str auth
     @ ''\"}}''))))))))))))"

section \<open>Inventory locations\<close>

definition bin_code :: "nat \<Rightarrow> string" where
  "bin_code bin_n = ''A'' @ two_digits bin_n"

definition inventory_pairs :: "(string \<times> string) list" where
  "inventory_pairs =
     concat (map (\<lambda>wh. map (\<lambda>bin_n. (wh, bin_code bin_n)) [1..<5]) [''WH1'', ''WH2''])"

record location_row =
  l_warehouse :: string
  l_bin :: string
  l_labelled :: bool
  l_capacity :: int

definition draw_location :: "'s lib \<Rightarrow> string \<times> string \<Rightarrow> ('s, location_row) gen" where
  "draw_location L pair =
     gbind (random_bool L 70) (\<lambda>labelled.
     gbind (random_range L I32 (Until 20 500)) (\<lambda>capacity.
     gret \<lparr>l_warehouse = fst pair, l_bin = snd pair, l_labelled = labelled,
            l_capacity = capacity\<rparr>))"

definition locations_insert :: string where
  "locations_insert =
     ''insert into inventory_locations (warehouse_code, bin_code, label, capacity) values''
     @ [newline]"

definition location_sql :: "location_row \<Rightarrow> string" where
  "location_sql r =
     (let label = (if l_labelled r
                   then q (''Aisle '' @ l_bin r @ '' '' @ [CHR 0xE2, CHR 0x80, CHR 0x94] @ '' ''
     @ l_warehouse r)
                   else ''NULL'')
      in ''    ('' @ q (l_warehouse r) @ '', '' @ q (l_bin r) @ '', '' @ label @ '', ''
     @ int_str (l_capacity r) @ '')'')"

definition write_inventory_locations ::
  "string \<Rightarrow> 's lib \<Rightarrow> ('s, string \<times> (string \<times> string) list) gen" where
  "write_inventory_locations out L =
     gmap (\<lambda>out. (out, inventory_pairs))
       (write_each (draw_location L) location_sql inventory_pairs (out
         @ locations_insert))"

end
