(* ===== verification/Seed_Schema.thy ===== *)
theory Seed_Schema
  imports Seed_Data
begin

text \<open>
  The fixed text of both seeds (\<^verbatim>\<open>tools/seed-gen/src/main.rs\<close>): headers, table definitions and
  the \<open>analyze\<close> block, copied from the string literals of the source, one element per line.
\<close>

definition header_text :: string where
  "header_text = unlines [
     ''-- GENERATED FILE '' @ [CHR 0xE2, CHR 0x80, CHR 0x94] @ '' do not hand-edit.'',
     ''-- Source: tools/seed-gen (`cargo run` from that directory, output redirected here).'',
     ''-- Realistic, varied data for exercising the Ashurbanipal DB browser: ten tables'',
     ''-- spanning uuid/bigint-identity PKs, enums, numeric/real, arrays, inet, jsonb,'',
     ''-- date/timestamptz, varchar(n), and NULLs throughout, plus single-column FKs'',
     ''-- (including two distinct FK columns from one table to the same target) and one'',
     ''-- deliberately empty table, across three schemas (public, other_schema, warehouse)'',
     ''-- including cross-schema FKs. Idempotent (drops first) so it can be re-run against'',
     ''-- a live dev db.'',
     [],
     ''create extension if not exists pgcrypto;'',
     [],
     ''-- A second schema with its own table, same name pattern as nothing else here '' @ [CHR 0xE2, CHR 0x80, CHR 0x94],
     ''-- the conformance fixture proving every catalog/data query is scoped to'',
     ''-- current_schema() (spec/protocol.md '' @ [CHR 0xC2, CHR 0xA7] @ ''6) rather than enumerating every schema'',
     ''-- on the connection: `decoy_items` must never appear in `/api/tables` (the'',
     ''-- connection's `current_schema()` is `public`), and must be rejected as an'',
     ''-- unknown table if requested directly.'',
     ''drop schema if exists other_schema cascade;'',
     ''create schema other_schema;'',
     ''create table other_schema.decoy_items ('',
     ''    id bigint generated always as identity primary key,'',
     ''    label text not null'',
     '');'',
     ''insert into other_schema.decoy_items (label) values ('decoy-1'), ('decoy-2');'',
     [],
     ''-- A third schema, `warehouse`, whose tables reference `public` (see write_schema());'',
     ''-- created there, after `public`'s tables exist, but dropped up front like'',
     ''-- other_schema '' @ [CHR 0xE2, CHR 0x80, CHR 0x94] @ '' `cascade` covers the ordering either way.'',
     ''drop schema if exists warehouse cascade;'',
     [],
     ''-- New tables are dropped before the originals they reference '' @ [CHR 0xE2, CHR 0x80, CHR 0x94] @ '' `cascade` handles'',
     ''-- dependent constraints/views either way, but this keeps the drop order honest.'',
     ''drop table if exists _conformance_meta cascade;'',
     ''drop table if exists feature_flags cascade;'',
     ''drop table if exists inventory_counts cascade;'',
     ''drop table if exists inventory_locations cascade;'',
     ''drop table if exists audit_log cascade;'',
     ''drop table if exists payments cascade;'',
     ''drop table if exists support_tickets cascade;'',
     ''drop table if exists reviews cascade;'',
     ''drop table if exists saved_reports cascade;'',
     ''drop table if exists sessions cascade;'',
     ''drop table if exists events cascade;'',
     ''drop table if exists order_extra cascade;'',
     ''drop table if exists orders cascade;'',
     ''drop table if exists products cascade;'',
     ''drop table if exists users cascade;'',
     ''drop type if exists ticket_status cascade;'',
     ''drop type if exists payment_status cascade;'',
     ''drop type if exists order_status cascade;'',
     ''drop type if exists product_category cascade;'',
     []]"

definition schema_text :: string where
  "schema_text = unlines [
     ''create type order_status as enum ('pending', 'completed', 'cancelled', 'refunded');'',
     ''create type product_category as enum ('electronics', 'books', 'home', 'toys', 'apparel');'',
     ''create type ticket_status as enum ('open', 'in_progress', 'resolved', 'closed');'',
     ''create type payment_status as enum ('pending', 'succeeded', 'failed', 'refunded');'',
     [],
     ''create table users ('',
     ''    id uuid primary key,'',
     ''    email text not null unique,'',
     ''    full_name text not null,'',
     ''    age smallint,'',
     ''    is_active boolean not null default true,'',
     ''    login_count integer not null default 0,'',
     ''    metadata jsonb not null default '{}','',
     ''    last_login_at timestamptz,'',
     ''    created_at timestamptz not null default now()'',
     '');'',
     [],
     ''create table orders ('',
     ''    id uuid primary key default gen_random_uuid(),'',
     ''    user_id uuid not null references users(id) on delete cascade,'',
     ''    status order_status not null default 'pending','',
     ''    total_cents integer not null,'',
     ''    discount_pct numeric(5,2),'',
     ''    tags text[],'',
     ''    line_items jsonb not null default '[]','',
     ''    created_at timestamptz not null default now()'',
     '');'',
     [],
     ''-- 1:1 detail table: order_id is both this table's own PK and an FK into orders(id).'',
     ''create table order_extra ('',
     ''    order_id uuid primary key references orders(id),'',
     ''    gift_message text,'',
     ''    is_gift boolean not null default false,'',
     ''    created_at timestamptz not null default now()'',
     '');'',
     [],
     ''create table products ('',
     ''    id bigint generated always as identity primary key,'',
     ''    sku varchar(20) not null unique,'',
     ''    name text not null,'',
     ''    category product_category not null,'',
     ''    price numeric(10,2) not null,'',
     ''    weight_kg real,'',
     ''    in_stock boolean not null default true,'',
     ''    description text,'',
     ''    created_on date not null default current_date'',
     '');'',
     [],
     ''create table events ('',
     ''    id bigint generated always as identity primary key,'',
     ''    user_id uuid references users(id) on delete set null on update cascade,'',
     ''    event_type text not null,'',
     ''    payload jsonb not null default '{}','',
     ''    ip_address inet,'',
     ''    duration_ms integer,'',
     ''    occurred_at timestamptz not null default now(),'',
     ''    is_test boolean not null default false'',
     '');'',
     [],
     ''create table sessions ('',
     ''    id uuid primary key default gen_random_uuid(),'',
     ''    user_id uuid not null references users(id),'',
     ''    device_type varchar(20) not null,'',
     ''    user_agent text not null,'',
     ''    ip_address inet,'',
     ''    started_at timestamptz not null,'',
     ''    ended_at timestamptz'',
     '');'',
     [],
     ''create table reviews ('',
     ''    id bigint generated always as identity primary key,'',
     ''    user_id uuid not null references users(id),'',
     ''    product_id bigint not null references products(id),'',
     ''    order_id uuid references orders(id),'',
     ''    rating smallint not null constraint reviews_rating_check check (rating between 1 and 5),'',
     ''    title text,'',
     ''    body text,'',
     ''    is_verified_purchase boolean not null default false,'',
     ''    created_at timestamptz not null default now()'',
     '');'',
     [],
     ''create table support_tickets ('',
     ''    id bigint generated always as identity primary key,'',
     ''    user_id uuid not null references users(id),'',
     ''    assigned_admin_id uuid references users(id),'',
     ''    order_id uuid references orders(id),'',
     ''    subject text not null,'',
     ''    description text not null,'',
     ''    status ticket_status not null default 'open','',
     ''    created_at timestamptz not null,'',
     ''    resolved_at timestamptz'',
     '');'',
     [],
     ''create table payments ('',
     ''    id bigint generated always as identity primary key,'',
     ''    order_id uuid not null references orders(id),'',
     ''    processed_by_user_id uuid references users(id),'',
     ''    related_event_id bigint references events(id),'',
     ''    amount_cents integer not null,'',
     ''    status payment_status not null default 'pending','',
     ''    gateway_response jsonb not null default '{}','',
     ''    created_at timestamptz not null'',
     '');'',
     [],
     ''create table audit_log ('',
     ''    id bigint generated always as identity primary key,'',
     ''    actor_user_id uuid references users(id),'',
     ''    session_id uuid references sessions(id),'',
     ''    event_id bigint references events(id),'',
     ''    action text not null,'',
     ''    details jsonb not null default '{}','',
     ''    occurred_at timestamptz not null'',
     '');'',
     [],
     ''-- Deliberately zero rows (see main()'' @ [squote] @ ''s analyze block) '' @ [CHR 0xE2, CHR 0x80, CHR 0x94] @ '' exercises the UI'' @ [squote] @ ''s'',
     ''-- genuine empty-table state rather than the \"stats not populated yet\" one.'',
     ''create table saved_reports ('',
     ''    id bigint generated always as identity primary key,'',
     ''    name text not null,'',
     ''    is_public boolean not null default false,'',
     ''    created_at timestamptz not null default now()'',
     '');'',
     [],
     ''-- Composite primary key: inventory_counts' (warehouse_code, bin_code) FK'',
     ''-- below references this pair together, never either column alone '' @ [CHR 0xE2, CHR 0x80, CHR 0x94] @ '' the'',
     ''-- conformance fixture for \"composite FKs omit key/references metadata'',
     ''-- entirely\" (spec/protocol.md '' @ [CHR 0xC2, CHR 0xA7] @ ''5.4.1).'',
     ''create table inventory_locations ('',
     ''    warehouse_code varchar(10) not null,'',
     ''    bin_code varchar(10) not null,'',
     ''    label text,'',
     ''    capacity integer not null default 100,'',
     ''    primary key (warehouse_code, bin_code)'',
     '');'',
     [],
     ''-- product_id is an ordinary single-column FK (contrast with the composite'',
     ''-- one below); photo is the bytea fixture.'',
     ''create table inventory_counts ('',
     ''    id bigint generated always as identity primary key,'',
     ''    warehouse_code varchar(10) not null,'',
     ''    bin_code varchar(10) not null,'',
     ''    product_id bigint references products(id),'',
     ''    quantity integer not null,'',
     ''    photo bytea,'',
     ''    counted_at timestamptz not null default now(),'',
     ''    foreign key (warehouse_code, bin_code) references inventory_locations(warehouse_code, bin_code)'',
     '');'',
     [],
     ''-- Deliberately never ANALYZEd (see main()) '' @ [CHR 0xE2, CHR 0x80, CHR 0x94] @ '' the empty-common-values and'',
     ''-- -1-approx_rows conformance fixture.'',
     ''create table feature_flags ('',
     ''    id bigint generated always as identity primary key,'',
     ''    key text not null unique,'',
     ''    enabled boolean not null default true,'',
     ''    rollout_pct smallint,'',
     ''    created_at timestamptz not null default now()'',
     '');'',
     [],
     ''-- Conformance sentinel (conformance/runner reads this when it isn't asked'',
     ''-- to apply the seed itself) '' @ [CHR 0xE2, CHR 0x80, CHR 0x94] @ '' see write_conformance_meta().'',
     ''create table _conformance_meta ('',
     ''    seed_version text not null,'',
     ''    dialect text not null,'',
     ''    checksum text not null,'',
     ''    generated_at timestamptz not null default now()'',
     '');'',
     []]"

definition indexes_text :: string where
  "indexes_text = unlines [
     ''create index users_email_lower_idx on users (lower(email));'',
     ''create index users_active_login_idx on users (is_active, last_login_at) include (login_count);'',
     ''create index orders_pending_idx on orders (user_id) where status = 'pending';'',
     ''create index reviews_product_created_idx on reviews (product_id, created_at);'',
     []]"

definition comments_text :: string where
  "comments_text = unlines [
     ''comment on table users is 'Registered application users.';'',
     ''comment on column users.metadata is 'Free-form per-user preferences and feature flags, stored as JSON.';'',
     [],
     ''comment on table orders is 'Customer orders placed against the product catalog.';'',
     ''comment on column orders.user_id is 'The user who placed this order.';'',
     ''comment on column orders.discount_pct is 'Percentage discount applied at checkout, if any.';'',
     [],
     ''comment on table sessions is 'Login sessions, one row per device/browser session.';'',
     [],
     ''comment on table reviews is 'Product reviews left by users, optionally tied to a verified order.';'',
     [],
     ''comment on table support_tickets is 'Customer support tickets, optionally assigned to a staff user.';'',
     ''comment on column support_tickets.description is 'Full ticket body as submitted by the customer.';'',
     [],
     ''comment on table _conformance_meta is 'Conformance-suite sentinel row; not part of the application schema.';'',
     []]"

definition warehouse_text :: string where
  "warehouse_text = unlines [
     ''create schema warehouse;'',
     [],
     ''create table warehouse.carriers ('',
     ''    id bigint generated always as identity primary key,'',
     ''    name text not null unique,'',
     ''    contact_email text,'',
     ''    is_active boolean not null default true'',
     '');'',
     [],
     ''create table warehouse.shipments ('',
     ''    id bigint generated always as identity primary key,'',
     ''    order_id uuid not null references public.orders(id),'',
     ''    carrier_id bigint references warehouse.carriers(id),'',
     ''    tracking_number varchar(30) not null,'',
     ''    status varchar(20) not null,'',
     ''    shipped_at timestamptz not null,'',
     ''    delivered_at timestamptz'',
     '');'',
     [],
     ''create table warehouse.shipment_events ('',
     ''    id bigint generated always as identity primary key,'',
     ''    shipment_id bigint not null references warehouse.shipments(id),'',
     ''    handled_by_user_id uuid references public.users(id),'',
     ''    event_type varchar(30) not null,'',
     ''    occurred_at timestamptz not null,'',
     ''    notes text'',
     '');'',
     [],
     ''comment on table warehouse.shipments is 'Outbound shipments fulfilling orders placed in the public schema.';'',
     []]"

definition analyze_text :: string where
  "analyze_text = unlines [
     [],
     ''-- pg_class.reltuples is only populated by ANALYZE/autovacuum; without this,'',
     ''-- a freshly seeded dev db shows -1 via /table-counts until autovacuum runs. This'',
     ''-- also matters for saved_reports specifically: it has zero rows by design (an'',
     ''-- empty-table UI state), and without an ANALYZE it wouldn't show up in pg_stats'',
     ''-- at all, which would look like \"never analyzed\" rather than \"genuinely empty\".'',
     ''analyze users;'',
     ''analyze orders;'',
     ''analyze order_extra;'',
     ''analyze products;'',
     ''analyze events;'',
     ''analyze sessions;'',
     ''analyze reviews;'',
     ''analyze support_tickets;'',
     ''analyze payments;'',
     ''analyze audit_log;'',
     ''analyze saved_reports;'',
     ''analyze inventory_locations;'',
     ''analyze inventory_counts;'',
     ''analyze warehouse.carriers;'',
     ''analyze warehouse.shipments;'',
     ''analyze warehouse.shipment_events;'']"

definition sqlite_header_text :: string where
  "sqlite_header_text = unlines [
     ''-- GENERATED FILE '' @ [CHR 0xE2, CHR 0x80, CHR 0x94] @ '' do not hand-edit.'',
     ''-- Source: tools/seed-gen (`cargo run -- sqlite`), applied by `mise run rust:demo-sqlite`.'',
     ''-- A reduced translation of tools/seed-gen's Postgres demo seed: SQLite has no'',
     ''-- schema, enum, uuid, jsonb, array, or inet types and no COMMENT ON, so those'',
     ''-- fixtures are either dropped or flattened to text/blob columns. Real multi-table'',
     ''-- data with FKs, including one composite FK, for exercising the SQLite DbSource '' @ [CHR 0xE2, CHR 0x80, CHR 0x94],
     ''-- not a conformance fixture. Idempotent (drops first).'',
     [],
     ''drop table if exists feature_flags;'',
     ''drop table if exists inventory_counts;'',
     ''drop table if exists inventory_locations;'',
     ''drop table if exists audit_log;'',
     ''drop table if exists payments;'',
     ''drop table if exists support_tickets;'',
     ''drop table if exists reviews;'',
     ''drop table if exists sessions;'',
     ''drop table if exists events;'',
     ''drop table if exists order_extra;'',
     ''drop table if exists orders;'',
     ''drop table if exists products;'',
     ''drop table if exists users;'',
     []]"

definition sqlite_schema_text :: string where
  "sqlite_schema_text = unlines [
     ''create table users ('',
     ''    id text primary key default (lower(hex(randomblob(16)))),'',
     ''    email text not null unique,'',
     ''    full_name text not null,'',
     ''    age integer,'',
     ''    is_active integer not null default 1,'',
     ''    login_count integer not null default 0,'',
     ''    metadata text not null default '{}','',
     ''    last_login_at text,'',
     ''    created_at text not null default (datetime('now'))'',
     '');'',
     [],
     ''create table orders ('',
     ''    id text primary key default (lower(hex(randomblob(16)))),'',
     ''    user_id text not null references users(id),'',
     ''    status text not null default 'pending' check (status in ('pending', 'completed', 'cancelled', 'refunded')),'',
     ''    total_cents integer not null,'',
     ''    discount_pct numeric(5,2),'',
     ''    tags text,'',
     ''    line_items text not null default '[]','',
     ''    created_at text not null default (datetime('now'))'',
     '');'',
     [],
     ''-- 1:1 detail table: order_id is both this table's own PK and an FK into orders(id).'',
     ''create table order_extra ('',
     ''    order_id text primary key references orders(id),'',
     ''    gift_message text,'',
     ''    is_gift integer not null default 0,'',
     ''    created_at text not null default (datetime('now'))'',
     '');'',
     [],
     ''create table products ('',
     ''    id integer primary key autoincrement,'',
     ''    sku varchar(20) not null unique,'',
     ''    name text not null,'',
     ''    category text not null check (category in ('electronics', 'books', 'home', 'toys', 'apparel')),'',
     ''    price numeric(10,2) not null,'',
     ''    weight_kg real,'',
     ''    in_stock integer not null default 1,'',
     ''    description text,'',
     ''    created_on text not null default (date('now'))'',
     '');'',
     [],
     ''create table events ('',
     ''    id integer primary key autoincrement,'',
     ''    user_id text references users(id),'',
     ''    event_type text not null,'',
     ''    payload text not null default '{}','',
     ''    ip_address text,'',
     ''    duration_ms integer,'',
     ''    occurred_at text not null default (datetime('now')),'',
     ''    is_test integer not null default 0'',
     '');'',
     [],
     ''create table sessions ('',
     ''    id text primary key default (lower(hex(randomblob(16)))),'',
     ''    user_id text not null references users(id),'',
     ''    device_type varchar(20) not null,'',
     ''    user_agent text not null,'',
     ''    ip_address text,'',
     ''    started_at text not null,'',
     ''    ended_at text'',
     '');'',
     [],
     ''create table reviews ('',
     ''    id integer primary key autoincrement,'',
     ''    user_id text not null references users(id),'',
     ''    product_id integer not null references products(id),'',
     ''    order_id text references orders(id),'',
     ''    rating integer not null,'',
     ''    title text,'',
     ''    body text,'',
     ''    is_verified_purchase integer not null default 0,'',
     ''    created_at text not null default (datetime('now'))'',
     '');'',
     [],
     ''create table support_tickets ('',
     ''    id integer primary key autoincrement,'',
     ''    user_id text not null references users(id),'',
     ''    assigned_admin_id text references users(id),'',
     ''    order_id text references orders(id),'',
     ''    subject text not null,'',
     ''    description text not null,'',
     ''    status text not null default 'open' check (status in ('open', 'in_progress', 'resolved', 'closed')),'',
     ''    created_at text not null,'',
     ''    resolved_at text'',
     '');'',
     [],
     ''create table payments ('',
     ''    id integer primary key autoincrement,'',
     ''    order_id text not null references orders(id),'',
     ''    processed_by_user_id text references users(id),'',
     ''    related_event_id integer references events(id),'',
     ''    amount_cents integer not null,'',
     ''    status text not null default 'pending' check (status in ('pending', 'succeeded', 'failed', 'refunded')),'',
     ''    gateway_response text not null default '{}','',
     ''    created_at text not null'',
     '');'',
     [],
     ''create table audit_log ('',
     ''    id integer primary key autoincrement,'',
     ''    actor_user_id text references users(id),'',
     ''    session_id text references sessions(id),'',
     ''    event_id integer references events(id),'',
     ''    action text not null,'',
     ''    details text not null default '{}','',
     ''    occurred_at text not null'',
     '');'',
     [],
     ''-- Composite primary key: inventory_counts' (warehouse_code, bin_code) FK'',
     ''-- below references this pair together, never either column alone.'',
     ''create table inventory_locations ('',
     ''    warehouse_code varchar(10) not null,'',
     ''    bin_code varchar(10) not null,'',
     ''    label text,'',
     ''    capacity integer not null default 100,'',
     ''    primary key (warehouse_code, bin_code)'',
     '');'',
     [],
     ''-- product_id is an ordinary single-column FK (contrast with the composite'',
     ''-- one below); photo is the blob fixture.'',
     ''create table inventory_counts ('',
     ''    id integer primary key autoincrement,'',
     ''    warehouse_code varchar(10) not null,'',
     ''    bin_code varchar(10) not null,'',
     ''    product_id integer references products(id),'',
     ''    quantity integer not null,'',
     ''    photo blob,'',
     ''    counted_at text not null default (datetime('now')),'',
     ''    foreign key (warehouse_code, bin_code) references inventory_locations(warehouse_code, bin_code)'',
     '');'',
     [],
     ''create table feature_flags ('',
     ''    id integer primary key autoincrement,'',
     ''    key text not null unique,'',
     ''    enabled integer not null default 1,'',
     ''    rollout_pct integer,'',
     ''    created_at text not null default (datetime('now'))'',
     '');'',
     []]"

definition write_header :: "string \<Rightarrow> string" where
  "write_header out = out @ header_text"

definition write_warehouse_schema :: "string \<Rightarrow> string" where
  "write_warehouse_schema out = out @ warehouse_text"

definition write_schema :: "string \<Rightarrow> string" where
  "write_schema out = write_warehouse_schema (out @ schema_text @ indexes_text @ comments_text)"

definition write_header_sqlite :: "string \<Rightarrow> string" where
  "write_header_sqlite out = out @ sqlite_header_text"

definition write_schema_sqlite :: "string \<Rightarrow> string" where
  "write_schema_sqlite out = out @ sqlite_schema_text"

end
