(* ===== verification/Seed_Postgres.thy ===== *)
theory Seed_Postgres
  imports Seed_Schema
begin

text \<open>
  The PostgreSQL seed (\<^verbatim>\<open>tools/seed-gen/src/main.rs\<close>, \<open>generate_postgres\<close> and what it calls):
  the rows each \<open>write_\<close> function draws, their text, the functions themselves, and \<open>main\<close> for
  this dialect. A function that writes while it draws is \<open>write_each\<close> or \<open>write_scan\<close> over the
  row it draws; the locals a round prints are the fields of its row.
\<close>

section \<open>Rows\<close>

record product_row =
  p_sku :: string
  p_name :: string
  p_category :: string
  p_price :: int
  p_weight :: "int option"
  p_in_stock :: bool
  p_description :: "string option"
  p_created_days_ago :: int

record event_row =
  e_user_id :: "uuid option"
  e_type :: string
  e_path :: string
  e_n :: nat
  e_ip :: string
  e_duration :: "int option"
  e_occurred_mins_ago :: int
  e_is_test :: bool

record review_row =
  r_user_id :: uuid
  r_product_id :: int
  r_order_id :: "uuid option"
  r_rating :: int
  r_title :: "string option"
  r_body :: "string option"
  r_verified :: bool
  r_created_offset_mins :: int

record ticket_row =
  t_user_id :: uuid
  t_assigned :: "uuid option"
  t_order_id :: "uuid option"
  t_subject :: string
  t_description :: string
  t_status :: string
  t_created_offset_mins :: int
  t_resolved_offset_mins :: "int option"

record payment_row =
  y_order_id :: uuid
  y_processed_by :: "uuid option"
  y_related_event :: "int option"
  y_amount_cents :: int
  y_status :: string
  y_gateway_response :: string
  y_offset_mins :: int

record audit_row =
  a_actor :: "uuid option"
  a_session :: "uuid option"
  a_event :: "int option"
  a_action :: string
  a_seq :: nat
  a_occurred_offset_mins :: int

record count_row =
  c_warehouse :: string
  c_bin :: string
  c_product_id :: int
  c_quantity :: int
  c_photo :: "8 word list option"
  c_counted_offset_days :: int

record flag_row =
  f_key :: string
  f_enabled :: bool
  f_rollout :: "int option"
  f_created_days_ago :: int

record carrier_row =
  k_name :: string
  k_email :: string
  k_active :: bool

record shipment_row =
  h_order_id :: uuid
  h_carrier_id :: "int option"
  h_tracking_number :: string
  h_status :: string
  h_shipped_offset_mins :: int
  h_delivered_offset_mins :: "int option"

record shipment_event_row =
  v_shipment_id :: int
  v_handled_by :: "uuid option"
  v_event_type :: string
  v_occurred_offset_mins :: int
  v_notes :: "string option"

section \<open>Pools\<close>

definition categories :: "(string \<times> string \<times> string list) list" where
  "categories =
     [(''electronics'', ''ELEC'', [''Mouse'', ''Keyboard'', ''Monitor'', ''Webcam'', ''Speaker'',
        ''Charger'', ''Router'', ''Headphones'']),
      (''books'', ''BOOK'', [''Programming Guide'', ''Design Handbook'', ''Field Notes'',
        ''Reference Manual'', ''Anthology'']),
      (''home'', ''HOME'', [''Mug'', ''Desk Lamp'', ''Blanket'', ''Organizer'', ''Candle'', ''Planter'']),
      (''toys'', ''TOYS'', [''Building Blocks'', ''Puzzle'', ''Action Figure'', ''Board Game'',
        ''Plush Toy'']),
      (''apparel'', ''APRL'', [''Socks'', ''Jacket'', ''Tote Bag'', ''Cap'', ''Scarf'', ''Gloves''])]"

definition event_types :: "string list" where
  "event_types =
     [''page_view'', ''click'', ''signup'', ''purchase'', ''error'', ''logout'', ''search'',
      ''add_to_cart'']"

definition event_paths :: "string list" where
  "event_paths =
     [''/app/dashboard'', ''/app/settings'', ''/app/billing'', ''/app/profile'', ''/app/search'']"

definition rating_pool :: "int list" where
  "rating_pool = [5, 5, 5, 4, 4, 3, 2, 1]"

definition title_pool :: "string list" where
  "title_pool =
     [''Exceeded expectations'', ''Does the job'', ''Would buy again'', ''Not what I expected'',
      ''Solid value'', ''Mixed feelings'', ''Highly recommend'', ''Fell short'']"

definition ticket_statuses :: "string list" where
  "ticket_statuses =
     [''open'', ''open'', ''in_progress'', ''resolved'', ''resolved'', ''closed'']"

definition ticket_subjects :: "string list" where
  "ticket_subjects =
     [''Order has not arrived'', ''Unable to log in'', ''Requesting a refund'',
      ''Charged twice for one order'', ''Question about my account'', ''Product arrived damaged'',
      ''How do I change my email'', ''App keeps crashing at checkout'', ''Missing item from order'',
      ''Need to update shipping address'']"

definition audit_actions :: "string list" where
  "audit_actions =
     [''user.login'', ''user.logout'', ''user.password_reset'', ''order.created'',
      ''order.status_changed'', ''order.refunded'', ''product.updated'', ''payment.processed'',
      ''payment.failed'', ''permission.changed'', ''export.requested'',
      ''admin.impersonation_started'', ''settings.updated'', ''ticket.assigned'', ''ticket.resolved'']"

definition flag_keys :: "string list" where
  "flag_keys =
     [''new_dashboard'', ''beta_checkout'', ''dark_mode_default'', ''export_v2'', ''inline_editing'',
      ''sibling_health_badges'']"

definition CARRIER_NAMES :: "string list" where
  "CARRIER_NAMES =
     [''Northwind Freight'', ''BlueDart Logistics'', ''Meridian Parcel'', ''Coastal Express'',
      ''Ironclad Shipping'', ''Swift Relay'']"

definition SHIPMENT_STATUS_POOL :: "string list" where
  "SHIPMENT_STATUS_POOL = [''in_transit'', ''delivered'', ''delivered'', ''returned'']"

definition SHIPMENT_EVENT_TYPES :: "string list" where
  "SHIPMENT_EVENT_TYPES =
     [''label_created'', ''picked_up'', ''in_transit'', ''out_for_delivery'', ''delivered'',
      ''exception'']"

section \<open>Draws\<close>

text \<open>\<open>orders_by_user.get(&id).filter(|v| !v.is_empty())\<close>.\<close>

definition nonempty_orders :: "(uuid \<rightharpoonup> uuid list) \<Rightarrow> uuid \<Rightarrow> uuid list option" where
  "nonempty_orders m i = (case m i of Some v \<Rightarrow> if v = [] then None else Some v | None \<Rightarrow> None)"

definition draw_product ::
  "'s lib \<Rightarrow> int list \<Rightarrow> ('s, product_row \<times> int list) gen" where
  "draw_product L counters =
     gbind (random_range L Usize (Until 0 (int (length categories)))) (\<lambda>cat_idx.
     case get_at categories (nat cat_idx) of
       None \<Rightarrow> gfail
     | Some (category, pre, nouns) \<Rightarrow>
     gbind (u32_add (counters ! nat cat_idx) 1) (\<lambda>counter.
     gbind (fake L Buzzword) (\<lambda>buzzword.
     gbind (choose_from L nouns) (\<lambda>noun.
     gbind (random_range L I32 (Until 500 50000)) (\<lambda>price.
     gbind (random_bool L 10) (\<lambda>unweighed.
     gbind (if unweighed then gret None else gmap Some (random_range L I32 (Until 5 1500))) (\<lambda>weight.
     gbind (random_bool L 80) (\<lambda>in_stock.
     gbind (random_bool L 50) (\<lambda>described.
     gbind (if described then gmap Some (fake L (Paragraph 1 3)) else gret None) (\<lambda>description.
     gbind (random_range L U32 (Until 1 400)) (\<lambda>created_days_ago.
     gret (\<lparr>p_sku = pre @ ''-'' @ int_str counter, p_name = buzzword @ '' '' @ noun,
             p_category = category, p_price = price, p_weight = weight, p_in_stock = in_stock,
             p_description = description, p_created_days_ago = created_days_ago\<rparr>,
           counters[nat cat_idx := counter]))))))))))))"

definition product_rows :: "'s lib \<Rightarrow> ('s, product_row list) gen" where
  "product_rows L =
     gscan (\<lambda>counters _. draw_product L counters) [1000, 1000, 1000, 1000, 1000] [0..<PRODUCT_COUNT]"

definition draw_event :: "'s lib \<Rightarrow> gen_user list \<Rightarrow> nat \<Rightarrow> ('s, event_row) gen" where
  "draw_event L users i =
     gbind (random_bool L 12) (\<lambda>anonymous.
     gbind (if anonymous then gret None else gmap (\<lambda>u. Some (u_id u)) (choose_from L users)) (\<lambda>user_id.
     gbind (choose_from L event_types) (\<lambda>event_type.
     gbind (choose_from L event_paths) (\<lambda>path.
     gbind (fake L IPv4) (\<lambda>ip.
     gbind (random_bool L 20) (\<lambda>instant.
     gbind (if instant then gret None else gmap Some (random_range L I32 (Until 5 5000))) (\<lambda>duration.
     gbind (random_range L U32 (Until 1 130000)) (\<lambda>occurred_mins_ago.
     gbind (random_bool L 5) (\<lambda>is_test.
     gret \<lparr>e_user_id = user_id, e_type = event_type, e_path = path, e_n = i, e_ip = ip,
            e_duration = duration, e_occurred_mins_ago = occurred_mins_ago,
            e_is_test = is_test\<rparr>)))))))))"

definition draw_review ::
  "'s lib \<Rightarrow> gen_user list \<Rightarrow> (uuid \<rightharpoonup> uuid list) \<Rightarrow> int \<Rightarrow> ('s, review_row) gen" where
  "draw_review L users orders_by_user product_id =
     gbind (choose_from L users) (\<lambda>user.
     gbind (choose_from L rating_pool) (\<lambda>rating.
     gbind (random_bool L 60) (\<lambda>titled.
     gbind (if titled then gmap Some (choose_from L title_pool) else gret None) (\<lambda>title.
     gbind (random_bool L 75) (\<lambda>with_body.
     gbind (if with_body then gmap Some (fake L (Paragraph 1 3)) else gret None) (\<lambda>body.
     gbind (random_bool L 40) (\<lambda>bought.
     gbind (if bought
            then (case nonempty_orders orders_by_user (u_id user) of
                    Some user_orders \<Rightarrow> gmap (\<lambda>i. (Some i, True)) (choose_from L user_orders)
                  | None \<Rightarrow> gret (None, False))
            else gret (None, False)) (\<lambda>(order_id, verified).
     gbind (random_range L U32 (Until 10 200000)) (\<lambda>created_offset_mins.
     gret \<lparr>r_user_id = u_id user, r_product_id = product_id, r_order_id = order_id,
            r_rating = rating, r_title = title, r_body = body, r_verified = verified,
            r_created_offset_mins = created_offset_mins\<rparr>)))))))))"

definition review_rows ::
  "'s lib \<Rightarrow> gen_user list \<Rightarrow> (uuid \<rightharpoonup> uuid list) \<Rightarrow> ('s, review_row list) gen" where
  "review_rows L users orders_by_user =
     gcollect (\<lambda>product_id.
       gbind (random_range L U32 (Upto REVIEWS_PER_PRODUCT_MIN REVIEWS_PER_PRODUCT_MAX)) (\<lambda>n_reviews.
       gtraverse (\<lambda>_. draw_review L users orders_by_user product_id) [0..<nat n_reviews]))
       (map int [1..<PRODUCT_COUNT + 1])"

definition draw_ticket ::
  "'s lib \<Rightarrow> gen_user list \<Rightarrow> gen_user list \<Rightarrow> (uuid \<rightharpoonup> uuid list) \<Rightarrow> nat \<Rightarrow> ('s, ticket_row) gen" where
  "draw_ticket L users staff_users orders_by_user i =
     gbind (choose_from L users) (\<lambda>user.
     gbind (if staff_users \<noteq> [] then random_bool L 75 else gret False) (\<lambda>assign.
     gbind (if assign then gmap (\<lambda>u. Some (u_id u)) (choose_from L staff_users) else gret None)
       (\<lambda>assigned.
     gbind (random_bool L 50) (\<lambda>about_order.
     gbind (if about_order
            then (case nonempty_orders orders_by_user (u_id user) of
                    Some v \<Rightarrow> gmap Some (choose_from L v)
                  | None \<Rightarrow> gret None)
            else gret None) (\<lambda>order_id.
     gbind (choose_from L ticket_subjects) (\<lambda>subject.
     gbind (if i mod 4 = 0
            then gmap (str_join [newline, newline]) (fake_paragraphs L 3 6)
            else fake L (Paragraph 1 2)) (\<lambda>description.
     gbind (choose_from L ticket_statuses) (\<lambda>status.
     gbind (random_range L U32 (Until 60 300000)) (\<lambda>created_offset_mins.
     gbind (if status \<in> {''resolved'', ''closed''}
            then gmap Some (random_range L U32 (Until 0 created_offset_mins))
            else gret None) (\<lambda>resolved_offset_mins.
     gret \<lparr>t_user_id = u_id user, t_assigned = assigned, t_order_id = order_id,
            t_subject = subject, t_description = description, t_status = status,
            t_created_offset_mins = created_offset_mins,
            t_resolved_offset_mins = resolved_offset_mins\<rparr>))))))))))"

definition primary_status :: "'s lib \<Rightarrow> string \<Rightarrow> ('s, string) gen" where
  "primary_status L status =
     (if status = ''completed''
      then choose_from L [''succeeded'', ''succeeded'', ''succeeded'', ''failed'']
      else if status = ''refunded'' then gret ''succeeded''
      else if status = ''cancelled'' then gret ''failed''
      else choose_from L [''pending'', ''failed''])"

definition refund_of ::
  "'s lib \<Rightarrow> gen_user list \<Rightarrow> gen_order \<Rightarrow> int option \<Rightarrow> int \<Rightarrow> ('s, payment_row list) gen" where
  "refund_of L staff_users r related_event primary_offset =
     gbind (random_range L U32 (Until 1 1000)) (\<lambda>drawn_refund_gap.
     gbind (u32_sub primary_offset (min drawn_refund_gap primary_offset)) (\<lambda>refund_offset.
     gbind (if staff_users \<noteq> []
            then gmap (\<lambda>u. Some (u_id u)) (choose_from L staff_users) else gret None)
       (\<lambda>refund_processed_by.
     gbind (large_gateway_response L) (\<lambda>refund_response.
     gret [\<lparr>y_order_id = o_id r, y_processed_by = refund_processed_by,
             y_related_event = related_event, y_amount_cents = - o_total_cents r,
             y_status = ''refunded'', y_gateway_response = refund_response,
             y_offset_mins = refund_offset\<rparr>]))))"

definition payments_of ::
  "'s lib \<Rightarrow> gen_user list \<Rightarrow> gen_order \<Rightarrow> ('s, payment_row list) gen" where
  "payments_of L staff_users r =
     gbind (if o_status r = ''pending'' then random_bool L 40 else gret False) (\<lambda>unpaid.
     if unpaid then gret []
     else gbind (primary_status L (o_status r)) (\<lambda>status.
     gbind (random_range L U32 (Until 1 2000)) (\<lambda>drawn_gap.
     gbind (u32_sub (o_created_offset_mins r) (min drawn_gap (o_created_offset_mins r)))
       (\<lambda>primary_offset.
     gbind (if status \<in> {''failed'', ''refunded''} \<and> staff_users \<noteq> []
            then random_bool L 50 else gret False) (\<lambda>handled.
     gbind (if handled then gmap (\<lambda>u. Some (u_id u)) (choose_from L staff_users) else gret None)
       (\<lambda>processed_by.
     gbind (random_bool L 30) (\<lambda>with_event.
     gbind (if with_event
            then gmap Some (random_range L I64 (Upto 1 (int EVENT_COUNT))) else gret None)
       (\<lambda>related_event.
     gbind (if status = ''failed'' then large_gateway_response L else small_gateway_response L)
       (\<lambda>response.
     gbind (if o_status r = ''refunded''
            then refund_of L staff_users r related_event primary_offset
            else gret []) (\<lambda>refund.
     gret (\<lparr>y_order_id = o_id r, y_processed_by = processed_by,
             y_related_event = related_event, y_amount_cents = o_total_cents r,
             y_status = status, y_gateway_response = response,
             y_offset_mins = primary_offset\<rparr> # refund)))))))))))"

definition payment_rows ::
  "'s lib \<Rightarrow> gen_order list \<Rightarrow> gen_user list \<Rightarrow> ('s, payment_row list) gen" where
  "payment_rows L orders staff_users = gcollect (payments_of L staff_users) orders"

definition draw_audit ::
  "'s lib \<Rightarrow> gen_user list \<Rightarrow> gen_session list \<Rightarrow> nat \<Rightarrow> ('s, audit_row) gen" where
  "draw_audit L users sessions i =
     gbind (random_bool L 70) (\<lambda>by_user.
     gbind (if by_user then gmap (\<lambda>u. Some (u_id u)) (choose_from L users) else gret None) (\<lambda>actor.
     gbind (random_bool L 40) (\<lambda>in_session.
     gbind (if in_session then gmap (\<lambda>s. Some (ss_id s)) (choose_from L sessions) else gret None)
       (\<lambda>session_id.
     gbind (random_bool L 50) (\<lambda>with_event.
     gbind (if with_event
            then gmap Some (random_range L I64 (Upto 1 (int EVENT_COUNT))) else gret None) (\<lambda>event.
     gbind (choose_from L audit_actions) (\<lambda>action.
     gbind (random_range L U32 (Until 1 500000)) (\<lambda>occurred_offset_mins.
     gret \<lparr>a_actor = actor, a_session = session_id, a_event = event, a_action = action,
            a_seq = i, a_occurred_offset_mins = occurred_offset_mins\<rparr>))))))))"

definition draw_count ::
  "'s lib \<Rightarrow> (string \<times> string) list \<Rightarrow> ('s, count_row) gen" where
  "draw_count L locations =
     gbind (choose_from L locations) (\<lambda>(wh, bin).
     gbind (random_range L I64 (Upto 1 (int PRODUCT_COUNT))) (\<lambda>product_id.
     gbind (random_range L I32 (Until 0 2000)) (\<lambda>quantity.
     gbind (random_bool L 30) (\<lambda>with_photo.
     gbind (if with_photo
            then gbind (random_range L Usize (Until 4 12)) (\<lambda>len. gmap Some (fill L (nat len)))
            else gret None) (\<lambda>photo.
     gbind (random_range L U32 (Until 0 200)) (\<lambda>counted_offset_days.
     gret \<lparr>c_warehouse = wh, c_bin = bin, c_product_id = product_id, c_quantity = quantity,
            c_photo = photo, c_counted_offset_days = counted_offset_days\<rparr>))))))"

definition draw_flag :: "'s lib \<Rightarrow> string \<Rightarrow> ('s, flag_row) gen" where
  "draw_flag L key =
     gbind (random_bool L 60) (\<lambda>enabled.
     gbind (if enabled then gmap Some (random_range L I32 (Upto 0 100)) else gret None) (\<lambda>rollout.
     gbind (random_range L U32 (Until 1 300)) (\<lambda>created_days_ago.
     gret \<lparr>f_key = key, f_enabled = enabled, f_rollout = rollout,
            f_created_days_ago = created_days_ago\<rparr>)))"

text \<open>Shipments exist in this dialect only. \<open>{:09}\<close> pads with zeros.\<close>

definition draw_carrier :: "'s lib \<Rightarrow> string \<Rightarrow> ('s, carrier_row) gen" where
  "draw_carrier L name =
     gbind (fake L SafeEmail) (\<lambda>email.
     gbind (random_bool L 85) (\<lambda>active.
     gret \<lparr>k_name = name, k_email = email, k_active = active\<rparr>))"

definition pad_zeros :: "nat \<Rightarrow> string \<Rightarrow> string" where
  "pad_zeros w s = replicate (w - length s) (CHR ''0'') @ s"

definition shipment_of :: "'s lib \<Rightarrow> gen_order \<Rightarrow> ('s, shipment_row list) gen" where
  "shipment_of L r =
     gbind (if o_status r = ''cancelled'' then gret False else random_bool L 70) (\<lambda>ships.
     if \<not> ships then gret []
     else gbind (random_bool L 90) (\<lambda>carried.
     gbind (if carried
            then gmap Some (random_range L I64 (Upto 1 (int CARRIER_COUNT))) else gret None)
       (\<lambda>carrier_id.
     gbind (random_range L U32 (Until 100000000 999999999)) (\<lambda>tracking.
     gbind (choose_from L SHIPMENT_STATUS_POOL) (\<lambda>status.
     gbind (random_range L U32 (Until 30 2000)) (\<lambda>drawn_gap.
     gbind (u32_sub (o_created_offset_mins r) (min drawn_gap (o_created_offset_mins r)))
       (\<lambda>shipped_offset_mins.
     gbind (if status = ''delivered''
            then gbind (random_range L U32 (Until 60 4000)) (\<lambda>delivery_gap.
                 gmap Some (u32_sub shipped_offset_mins (min delivery_gap shipped_offset_mins)))
            else gret None) (\<lambda>delivered_offset_mins.
     gret [\<lparr>h_order_id = o_id r, h_carrier_id = carrier_id,
             h_tracking_number = ''TRK'' @ pad_zeros 9 (int_str tracking), h_status = status,
             h_shipped_offset_mins = shipped_offset_mins,
             h_delivered_offset_mins = delivered_offset_mins\<rparr>]))))))))"

definition shipment_rows :: "'s lib \<Rightarrow> gen_order list \<Rightarrow> ('s, shipment_row list) gen" where
  "shipment_rows L orders = gcollect (shipment_of L) orders"

definition draw_shipment_event ::
  "'s lib \<Rightarrow> gen_user list \<Rightarrow> int \<Rightarrow> int \<Rightarrow> ('s, shipment_event_row) gen" where
  "draw_shipment_event L staff_users shipment_id shipped_offset_mins =
     gbind (if staff_users \<noteq> [] then random_bool L 40 else gret False) (\<lambda>handled.
     gbind (if handled then gmap (\<lambda>u. Some (u_id u)) (choose_from L staff_users) else gret None)
       (\<lambda>handled_by.
     gbind (choose_from L SHIPMENT_EVENT_TYPES) (\<lambda>event_type.
     gbind (random_range L U32 (Until 0 1500)) (\<lambda>drawn_gap.
     gbind (u32_sub shipped_offset_mins (min drawn_gap shipped_offset_mins)) (\<lambda>occurred_offset_mins.
     gbind (random_bool L 30) (\<lambda>noted.
     gbind (if noted then gmap Some (fake L (Paragraph 1 2)) else gret None) (\<lambda>notes.
     gret \<lparr>v_shipment_id = shipment_id, v_handled_by = handled_by, v_event_type = event_type,
            v_occurred_offset_mins = occurred_offset_mins, v_notes = notes\<rparr>)))))))"

definition shipment_event_rows ::
  "'s lib \<Rightarrow> int list \<Rightarrow> gen_user list \<Rightarrow> ('s, shipment_event_row list) gen" where
  "shipment_event_rows L shipped_offsets_mins staff_users =
     gcollect (\<lambda>(idx, shipped_offset_mins).
       gbind (random_range L I32 (Upto 1 4)) (\<lambda>n_events.
       gtraverse (\<lambda>_. draw_shipment_event L staff_users (int idx + 1) shipped_offset_mins)
         [0..<nat n_events]))
       (zip [0..<length shipped_offsets_mins] shipped_offsets_mins)"

section \<open>Text of a row\<close>

definition user_sql :: "gen_user \<Rightarrow> string" where
  "user_sql u =
     ''    ('' @ squoted (u_id u) @ '', '' @ q (u_email u) @ '', ''
     @ q (u_full_name u) @ '', '' @ or_null int_str (u_age u) @ '', ''
     @ bool_str (u_is_active u) @ '', '' @ int_str (u_login_count u) @ '', ''
     @ q (u_metadata u) @ ''::jsonb, ''
     @ or_null ts_minus_mins (u_last_login_offset_mins u) @ '', ''
     @ ts_minus_days (u_created_offset_days u) @ '')''"

definition tags_sql :: "string list \<Rightarrow> string" where
  "tags_sql t = ''array['' @ str_join '', '' (map q t) @ '']''"

text \<open>\<open>format!("[{}]", items.join(", "))\<close>.\<close>

definition json_items :: "string list \<Rightarrow> string" where
  "json_items xs = ''['' @ str_join '', '' xs @ '']''"

definition order_row_sql :: "gen_order \<Rightarrow> string" where
  "order_row_sql r =
     ''    ('' @ squoted (o_id r) @ '', '' @ squoted (o_user_id r) @ '', ''
     @ squoted (o_status r) @ '', '' @ int_str (o_total_cents r) @ '', ''
     @ or_null cents_str (o_discount_pct r) @ '', '' @ or_null tags_sql (o_tags r)
     @ '', '' @ squoted (json_items (o_line_items r)) @ ''::jsonb, ''
     @ ts_minus_mins (o_created_offset_mins r) @ '')''"

definition product_sql :: "product_row \<Rightarrow> string" where
  "product_sql r =
     ''    ('' @ q (p_sku r) @ '', '' @ q (p_name r) @ '', '' @ q (p_category r)
     @ '', '' @ cents_str (p_price r) @ '', '' @ or_null cents_str (p_weight r) @ '', ''
     @ bool_str (p_in_stock r) @ '', '' @ or_null q (p_description r) @ '', ''
     @ date_minus_days (p_created_days_ago r) @ '')''"

definition event_payload :: "event_row \<Rightarrow> string" where
  "event_payload r = ''{\"path\": \"'' @ e_path r @ ''\", \"n\": '' @ nat_str (e_n r) @ ''}''"

definition event_sql :: "event_row \<Rightarrow> string" where
  "event_sql r =
     ''    ('' @ or_null squoted (e_user_id r) @ '', '' @ q (e_type r) @ '', ''
     @ squoted (event_payload r) @ ''::jsonb, '' @ q (e_ip r) @ ''::inet, ''
     @ or_null int_str (e_duration r) @ '', '' @ ts_minus_mins (e_occurred_mins_ago r)
     @ '', '' @ bool_str (e_is_test r) @ '')''"

definition session_sql :: "gen_session \<Rightarrow> string" where
  "session_sql r =
     ''    ('' @ squoted (ss_id r) @ '', '' @ squoted (ss_user_id r) @ '', ''
     @ q (ss_device r) @ '', '' @ q (ss_user_agent r) @ '', '' @ q (ss_ip r)
     @ ''::inet, '' @ ts_minus_mins (ss_started_offset_mins r) @ '', ''
     @ or_null ts_minus_mins (ss_ended_offset_mins r) @ '')''"

definition review_sql :: "review_row \<Rightarrow> string" where
  "review_sql r =
     ''    ('' @ squoted (r_user_id r) @ '', '' @ int_str (r_product_id r) @ '', ''
     @ uuid_sql (r_order_id r) @ '', '' @ int_str (r_rating r) @ '', ''
     @ or_null q (r_title r) @ '', '' @ or_null q (r_body r) @ '', ''
     @ bool_str (r_verified r) @ '', '' @ ts_minus_mins (r_created_offset_mins r)
     @ '')''"

definition ticket_sql :: "ticket_row \<Rightarrow> string" where
  "ticket_sql r =
     ''    ('' @ squoted (t_user_id r) @ '', '' @ uuid_sql (t_assigned r) @ '', ''
     @ uuid_sql (t_order_id r) @ '', '' @ q (t_subject r) @ '', '' @ q (t_description r)
     @ '', '' @ q (t_status r) @ '', '' @ ts_minus_mins (t_created_offset_mins r)
     @ '', '' @ or_null ts_minus_mins (t_resolved_offset_mins r) @ '')''"

definition payment_sql :: "payment_row \<Rightarrow> string" where
  "payment_sql r =
     ''    ('' @ squoted (y_order_id r) @ '', '' @ uuid_sql (y_processed_by r)
     @ '', '' @ int_sql (y_related_event r) @ '', '' @ int_str (y_amount_cents r)
     @ '', '' @ q (y_status r) @ '', '' @ q (y_gateway_response r) @ ''::jsonb, ''
     @ ts_minus_mins (y_offset_mins r) @ '')''"

definition audit_details :: "audit_row \<Rightarrow> string" where
  "audit_details r = ''{\"seq\": '' @ nat_str (a_seq r) @ ''}''"

definition audit_sql :: "audit_row \<Rightarrow> string" where
  "audit_sql r =
     ''    ('' @ uuid_sql (a_actor r) @ '', '' @ uuid_sql (a_session r) @ '', ''
     @ int_sql (a_event r) @ '', '' @ q (a_action r) @ '', ''
     @ squoted (audit_details r) @ ''::jsonb, ''
     @ ts_minus_mins (a_occurred_offset_mins r) @ '')''"

definition count_sql :: "count_row \<Rightarrow> string" where
  "count_sql r =
     ''    ('' @ q (c_warehouse r) @ '', '' @ q (c_bin r) @ '', ''
     @ int_str (c_product_id r) @ '', '' @ int_str (c_quantity r) @ '', ''
     @ bytea_sql (c_photo r) @ '', '' @ ts_minus_days (c_counted_offset_days r) @ '')''"

definition flag_sql :: "flag_row \<Rightarrow> string" where
  "flag_sql r =
     ''    ('' @ q (f_key r) @ '', '' @ bool_str (f_enabled r) @ '', ''
     @ or_null int_str (f_rollout r) @ '', '' @ date_minus_days (f_created_days_ago r)
     @ '')''"

definition carrier_sql :: "carrier_row \<Rightarrow> string" where
  "carrier_sql r = ''    ('' @ q (k_name r) @ '', '' @ q (k_email r) @ '', ''
     @ bool_str (k_active r) @ '')''"

definition shipment_sql :: "shipment_row \<Rightarrow> string" where
  "shipment_sql r =
     ''    ('' @ squoted (h_order_id r) @ '', '' @ int_sql (h_carrier_id r) @ '', ''
     @ q (h_tracking_number r) @ '', '' @ q (h_status r) @ '', ''
     @ ts_minus_mins (h_shipped_offset_mins r) @ '', ''
     @ or_null ts_minus_mins (h_delivered_offset_mins r) @ '')''"

definition shipment_event_sql :: "shipment_event_row \<Rightarrow> string" where
  "shipment_event_sql r =
     ''    ('' @ int_str (v_shipment_id r) @ '', '' @ uuid_sql (v_handled_by r)
     @ '', '' @ q (v_event_type r) @ '', '' @ ts_minus_mins (v_occurred_offset_mins r)
     @ '', '' @ or_null q (v_notes r) @ '')''"

section \<open>The statements\<close>

text \<open>The head of each statement, which both dialects write alike.\<close>

definition users_insert :: string where
  "users_insert =
     ''insert into users (id, email, full_name, age, is_active, login_count, metadata, last_login_at, created_at) values''
     @ [newline]"

definition orders_insert :: string where
  "orders_insert =
     ''insert into orders (id, user_id, status, total_cents, discount_pct, tags, line_items, created_at) values''
     @ [newline]"

definition products_insert :: string where
  "products_insert =
     ''insert into products (sku, name, category, price, weight_kg, in_stock, description, created_on) values''
     @ [newline]"

definition events_insert :: string where
  "events_insert =
     ''insert into events (user_id, event_type, payload, ip_address, duration_ms, occurred_at, is_test) values''
     @ [newline]"

definition sessions_insert :: string where
  "sessions_insert =
     ''insert into sessions (id, user_id, device_type, user_agent, ip_address, started_at, ended_at) values''
     @ [newline]"

definition reviews_insert :: string where
  "reviews_insert =
     ''insert into reviews (user_id, product_id, order_id, rating, title, body, is_verified_purchase, created_at) values''
     @ [newline]"

definition tickets_insert :: string where
  "tickets_insert =
     ''insert into support_tickets (user_id, assigned_admin_id, order_id, subject, description, status, created_at, resolved_at) values''
     @ [newline]"

definition payments_insert :: string where
  "payments_insert =
     ''insert into payments (order_id, processed_by_user_id, related_event_id, amount_cents, status, gateway_response, created_at) values''
     @ [newline]"

definition audit_insert :: string where
  "audit_insert =
     ''insert into audit_log (actor_user_id, session_id, event_id, action, details, occurred_at) values''
     @ [newline]"

definition counts_insert :: string where
  "counts_insert =
     ''insert into inventory_counts (warehouse_code, bin_code, product_id, quantity, photo, counted_at) values''
     @ [newline]"

definition flags_insert :: string where
  "flags_insert =
     ''insert into feature_flags (key, enabled, rollout_pct, created_at) values''
     @ [newline]"

definition carriers_insert :: string where
  "carriers_insert =
     ''insert into warehouse.carriers (name, contact_email, is_active) values''
     @ [newline]"

definition shipments_insert :: string where
  "shipments_insert =
     ''insert into warehouse.shipments (order_id, carrier_id, tracking_number, status, shipped_at, delivered_at) values''
     @ [newline]"

definition shipment_events_insert :: string where
  "shipment_events_insert =
     ''insert into warehouse.shipment_events (shipment_id, handled_by_user_id, event_type, occurred_at, notes) values''
     @ [newline]"

definition write_users :: "string \<Rightarrow> gen_user list \<Rightarrow> string" where
  "write_users out users =
     out @ users_insert
       @ rows_text user_sql users"

definition write_orders :: "string \<Rightarrow> gen_order list \<Rightarrow> string" where
  "write_orders out orders =
     out @ orders_insert
       @ rows_text order_row_sql orders"

definition write_products :: "string \<Rightarrow> 's lib \<Rightarrow> ('s, string) gen" where
  "write_products out L =
     write_scan (\<lambda>counters _. draw_product L counters) product_sql [1000, 1000, 1000, 1000, 1000]
       [0..<PRODUCT_COUNT] (out
       @ products_insert)"

definition write_events :: "string \<Rightarrow> 's lib \<Rightarrow> gen_user list \<Rightarrow> ('s, string) gen" where
  "write_events out L users =
     write_each (draw_event L users) event_sql [0..<EVENT_COUNT] (out
       @ events_insert)"

definition write_sessions :: "string \<Rightarrow> gen_session list \<Rightarrow> string" where
  "write_sessions out sessions =
     out @ sessions_insert
       @ rows_text session_sql sessions"

definition write_reviews ::
  "string \<Rightarrow> 's lib \<Rightarrow> gen_user list \<Rightarrow> (uuid \<rightharpoonup> uuid list) \<Rightarrow> ('s, string) gen" where
  "write_reviews out L users orders_by_user =
     gbind (review_rows L users orders_by_user) (\<lambda>rows.
     gret (out @ reviews_insert
       @ rows_text review_sql rows))"

definition write_support_tickets ::
  "string \<Rightarrow> 's lib \<Rightarrow> gen_user list \<Rightarrow> gen_user list \<Rightarrow> (uuid \<rightharpoonup> uuid list) \<Rightarrow> ('s, string) gen" where
  "write_support_tickets out L users staff_users orders_by_user =
     write_each (draw_ticket L users staff_users orders_by_user) ticket_sql
       [0..<SUPPORT_TICKET_COUNT] (out
       @ tickets_insert)"

definition write_payments ::
  "string \<Rightarrow> 's lib \<Rightarrow> gen_order list \<Rightarrow> gen_user list \<Rightarrow> ('s, string) gen" where
  "write_payments out L orders staff_users =
     gbind (payment_rows L orders staff_users) (\<lambda>rows.
     gret (out @ payments_insert
       @ rows_text payment_sql rows))"

definition write_audit_log ::
  "string \<Rightarrow> 's lib \<Rightarrow> gen_user list \<Rightarrow> gen_session list \<Rightarrow> ('s, string) gen" where
  "write_audit_log out L users sessions =
     write_each (draw_audit L users sessions) audit_sql [0..<AUDIT_LOG_COUNT] (out
       @ audit_insert)"

definition write_inventory_counts ::
  "string \<Rightarrow> 's lib \<Rightarrow> (string \<times> string) list \<Rightarrow> ('s, string) gen" where
  "write_inventory_counts out L locations =
     write_each (\<lambda>_. draw_count L locations) count_sql [0..<INVENTORY_COUNT_ROWS] (out
       @ counts_insert)"

definition write_feature_flags :: "string \<Rightarrow> 's lib \<Rightarrow> ('s, string) gen" where
  "write_feature_flags out L =
     write_each (draw_flag L) flag_sql
       (take (min (length flag_keys) FEATURE_FLAG_COUNT) flag_keys) (out
       @ flags_insert)"

definition write_carriers :: "string \<Rightarrow> 's lib \<Rightarrow> ('s, string) gen" where
  "write_carriers out L =
     write_each (draw_carrier L) carrier_sql CARRIER_NAMES (out
       @ carriers_insert)"

definition write_shipments ::
  "string \<Rightarrow> 's lib \<Rightarrow> gen_order list \<Rightarrow> ('s, string \<times> int list) gen" where
  "write_shipments out L orders =
     gbind (shipment_rows L orders) (\<lambda>rows.
     gret (out @ shipments_insert
       @ rows_text shipment_sql rows, map h_shipped_offset_mins rows))"

definition write_shipment_events ::
  "string \<Rightarrow> 's lib \<Rightarrow> int list \<Rightarrow> gen_user list \<Rightarrow> ('s, string) gen" where
  "write_shipment_events out L shipped_offsets_mins staff_users =
     gbind (shipment_event_rows L shipped_offsets_mins staff_users) (\<lambda>rows.
     gret (out @ shipment_events_insert
       @ rows_text shipment_event_sql rows))"

text \<open>The file \<^verbatim>\<open>conformance/seed/VERSION\<close>, included at compile time.\<close>

definition CONFORMANCE_VERSION :: string where
  "CONFORMANCE_VERSION = ''5'' @ [newline]"

definition write_conformance_meta :: "string \<Rightarrow> string" where
  "write_conformance_meta out =
     (let checksum = hex16 (fnv1a64 out); version = trim CONFORMANCE_VERSION
      in out @ (''insert into _conformance_meta (seed_version, dialect, checksum) values (''
     @ q version @ '', '' @ squoted ''postgres'' @ '', '' @ q checksum @ '');''
     @ [newline]))"

section \<open>The seed\<close>

definition generate_postgres :: "'s lib \<Rightarrow> ('s, string) gen" where
  "generate_postgres L =
     (let out = write_schema (write_header [])
      in gbind (gen_users L) (\<lambda>users.
         let out = write_users out users
         in gbind (gen_orders L users) (\<lambda>orders.
         let out = write_orders out orders
         in gbind (gen_and_write_order_extra out L orders) (\<lambda>out.
         gbind (write_products out L) (\<lambda>out.
         gbind (write_events out L users) (\<lambda>out.
         gbind (gen_sessions L users) (\<lambda>sessions.
         let out = write_sessions out sessions;
             orders_by_user = index_orders orders;
             staff_users = staff_of users
         in gbind (write_reviews out L users orders_by_user) (\<lambda>out.
         gbind (write_support_tickets out L users staff_users orders_by_user) (\<lambda>out.
         gbind (write_payments out L orders staff_users) (\<lambda>out.
         gbind (write_audit_log out L users sessions) (\<lambda>out.
         gbind (write_inventory_locations out L) (\<lambda>(out, locations).
         gbind (write_inventory_counts out L locations) (\<lambda>out.
         gbind (write_feature_flags out L) (\<lambda>out.
         gbind (write_carriers out L) (\<lambda>out.
         gbind (write_shipments out L orders) (\<lambda>(out, shipped_offsets_mins).
         gbind (write_shipment_events out L shipped_offsets_mins staff_users) (\<lambda>out.
         gret (write_conformance_meta (out @ analyze_text)))))))))))))))))))"

end
