(* ===== verification/Seed_Sqlite.thy ===== *)
theory Seed_Sqlite
  imports Seed_Postgres
begin

text \<open>
  The SQLite seed (\<^verbatim>\<open>tools/seed-gen/src/main.rs\<close>, \<open>generate_sqlite\<close> and its \<open>_sqlite\<close> twins), each
  twin translated from its own lines, and \<open>main\<close>. The twins write the rows of \<^verbatim>\<open>Seed_Postgres\<close>;
  that they draw them alike is proved in \<^verbatim>\<open>Seed_Correct\<close>.
\<close>

section \<open>Draws\<close>

definition draw_product_sqlite ::
  "'s lib \<Rightarrow> int list \<Rightarrow> ('s, product_row \<times> int list) gen" where
  "draw_product_sqlite L counters =
     gbind (random_range L Usize (Until 0 (int (length categories)))) (\<lambda>cat_idx.
     case get_at categories (nat cat_idx) of
       None \<Rightarrow> gfail
     | Some (category, pre, nouns) \<Rightarrow>
     gbind (u32_add (counters ! nat cat_idx) 1) (\<lambda>counter.
     gbind (fake L Buzzword) (\<lambda>buzzword.
     gbind (choose_from L nouns) (\<lambda>noun.
     gbind (random_range L I32 (Until 500 50000)) (\<lambda>price.
     gbind (random_bool L 10) (\<lambda>unweighed.
     gbind (if unweighed then gret None else gmap Some (random_range L I32 (Until 5 1500))) (\<lambda>weight.
     gbind (random_bool L 80) (\<lambda>in_stock.
     gbind (random_bool L 50) (\<lambda>described.
     gbind (if described then gmap Some (fake L (Paragraph 1 3)) else gret None) (\<lambda>description.
     gbind (random_range L U32 (Until 1 400)) (\<lambda>created_days_ago.
     gret (\<lparr>p_sku = pre @ ''-'' @ int_str counter, p_name = buzzword @ '' '' @ noun,
             p_category = category, p_price = price, p_weight = weight, p_in_stock = in_stock,
             p_description = description, p_created_days_ago = created_days_ago\<rparr>,
           counters[nat cat_idx := counter]))))))))))))"

definition product_rows_sqlite :: "'s lib \<Rightarrow> ('s, product_row list) gen" where
  "product_rows_sqlite L =
     gscan (\<lambda>counters _. draw_product_sqlite L counters) [1000, 1000, 1000, 1000, 1000] [0..<PRODUCT_COUNT]"

definition draw_event_sqlite :: "'s lib \<Rightarrow> gen_user list \<Rightarrow> nat \<Rightarrow> ('s, event_row) gen" where
  "draw_event_sqlite L users i =
     gbind (random_bool L 12) (\<lambda>anonymous.
     gbind (if anonymous then gret None else gmap (\<lambda>u. Some (u_id u)) (choose_from L users)) (\<lambda>user_id.
     gbind (choose_from L event_types) (\<lambda>event_type.
     gbind (choose_from L event_paths) (\<lambda>path.
     gbind (fake L IPv4) (\<lambda>ip.
     gbind (random_bool L 20) (\<lambda>instant.
     gbind (if instant then gret None else gmap Some (random_range L I32 (Until 5 5000))) (\<lambda>duration.
     gbind (random_range L U32 (Until 1 130000)) (\<lambda>occurred_mins_ago.
     gbind (random_bool L 5) (\<lambda>is_test.
     gret \<lparr>e_user_id = user_id, e_type = event_type, e_path = path, e_n = i, e_ip = ip,
            e_duration = duration, e_occurred_mins_ago = occurred_mins_ago,
            e_is_test = is_test\<rparr>)))))))))"

definition draw_review_sqlite ::
  "'s lib \<Rightarrow> gen_user list \<Rightarrow> (uuid \<rightharpoonup> uuid list) \<Rightarrow> int \<Rightarrow> ('s, review_row) gen" where
  "draw_review_sqlite L users orders_by_user product_id =
     gbind (choose_from L users) (\<lambda>user.
     gbind (choose_from L rating_pool) (\<lambda>rating.
     gbind (random_bool L 60) (\<lambda>titled.
     gbind (if titled then gmap Some (choose_from L title_pool) else gret None) (\<lambda>title.
     gbind (random_bool L 75) (\<lambda>with_body.
     gbind (if with_body then gmap Some (fake L (Paragraph 1 3)) else gret None) (\<lambda>body.
     gbind (random_bool L 40) (\<lambda>bought.
     gbind (if bought
            then (case nonempty_orders orders_by_user (u_id user) of
                    Some user_orders \<Rightarrow> gmap (\<lambda>i. (Some i, True)) (choose_from L user_orders)
                  | None \<Rightarrow> gret (None, False))
            else gret (None, False)) (\<lambda>(order_id, verified).
     gbind (random_range L U32 (Until 10 200000)) (\<lambda>created_offset_mins.
     gret \<lparr>r_user_id = u_id user, r_product_id = product_id, r_order_id = order_id,
            r_rating = rating, r_title = title, r_body = body, r_verified = verified,
            r_created_offset_mins = created_offset_mins\<rparr>)))))))))"

definition review_rows_sqlite ::
  "'s lib \<Rightarrow> gen_user list \<Rightarrow> (uuid \<rightharpoonup> uuid list) \<Rightarrow> ('s, review_row list) gen" where
  "review_rows_sqlite L users orders_by_user =
     gcollect (\<lambda>product_id.
       gbind (random_range L U32 (Upto REVIEWS_PER_PRODUCT_MIN REVIEWS_PER_PRODUCT_MAX)) (\<lambda>n_reviews.
       gtraverse (\<lambda>_. draw_review_sqlite L users orders_by_user product_id) [0..<nat n_reviews]))
       (map int [1..<PRODUCT_COUNT + 1])"

definition draw_ticket_sqlite ::
  "'s lib \<Rightarrow> gen_user list \<Rightarrow> gen_user list \<Rightarrow> (uuid \<rightharpoonup> uuid list) \<Rightarrow> nat \<Rightarrow> ('s, ticket_row) gen" where
  "draw_ticket_sqlite L users staff_users orders_by_user i =
     gbind (choose_from L users) (\<lambda>user.
     gbind (if staff_users \<noteq> [] then random_bool L 75 else gret False) (\<lambda>assign.
     gbind (if assign then gmap (\<lambda>u. Some (u_id u)) (choose_from L staff_users) else gret None)
       (\<lambda>assigned.
     gbind (random_bool L 50) (\<lambda>about_order.
     gbind (if about_order
            then (case nonempty_orders orders_by_user (u_id user) of
                    Some v \<Rightarrow> gmap Some (choose_from L v)
                  | None \<Rightarrow> gret None)
            else gret None) (\<lambda>order_id.
     gbind (choose_from L ticket_subjects) (\<lambda>subject.
     gbind (if i mod 4 = 0
            then gmap (str_join [newline, newline]) (fake_paragraphs L 3 6)
            else fake L (Paragraph 1 2)) (\<lambda>description.
     gbind (choose_from L ticket_statuses) (\<lambda>status.
     gbind (random_range L U32 (Until 60 300000)) (\<lambda>created_offset_mins.
     gbind (if status \<in> {''resolved'', ''closed''}
            then gmap Some (random_range L U32 (Until 0 created_offset_mins))
            else gret None) (\<lambda>resolved_offset_mins.
     gret \<lparr>t_user_id = u_id user, t_assigned = assigned, t_order_id = order_id,
            t_subject = subject, t_description = description, t_status = status,
            t_created_offset_mins = created_offset_mins,
            t_resolved_offset_mins = resolved_offset_mins\<rparr>))))))))))"

definition primary_status_sqlite :: "'s lib \<Rightarrow> string \<Rightarrow> ('s, string) gen" where
  "primary_status_sqlite L status =
     (if status = ''completed''
      then choose_from L [''succeeded'', ''succeeded'', ''succeeded'', ''failed'']
      else if status = ''refunded'' then gret ''succeeded''
      else if status = ''cancelled'' then gret ''failed''
      else choose_from L [''pending'', ''failed''])"

definition refund_of_sqlite ::
  "'s lib \<Rightarrow> gen_user list \<Rightarrow> gen_order \<Rightarrow> int option \<Rightarrow> int \<Rightarrow> ('s, payment_row list) gen" where
  "refund_of_sqlite L staff_users r related_event primary_offset =
     gbind (random_range L U32 (Until 1 1000)) (\<lambda>drawn_refund_gap.
     gbind (u32_sub primary_offset (min drawn_refund_gap primary_offset)) (\<lambda>refund_offset.
     gbind (if staff_users \<noteq> []
            then gmap (\<lambda>u. Some (u_id u)) (choose_from L staff_users) else gret None)
       (\<lambda>refund_processed_by.
     gbind (large_gateway_response L) (\<lambda>refund_response.
     gret [\<lparr>y_order_id = o_id r, y_processed_by = refund_processed_by,
             y_related_event = related_event, y_amount_cents = - o_total_cents r,
             y_status = ''refunded'', y_gateway_response = refund_response,
             y_offset_mins = refund_offset\<rparr>]))))"

definition payments_of_sqlite ::
  "'s lib \<Rightarrow> gen_user list \<Rightarrow> gen_order \<Rightarrow> ('s, payment_row list) gen" where
  "payments_of_sqlite L staff_users r =
     gbind (if o_status r = ''pending'' then random_bool L 40 else gret False) (\<lambda>unpaid.
     if unpaid then gret []
     else gbind (primary_status_sqlite L (o_status r)) (\<lambda>status.
     gbind (random_range L U32 (Until 1 2000)) (\<lambda>drawn_gap.
     gbind (u32_sub (o_created_offset_mins r) (min drawn_gap (o_created_offset_mins r)))
       (\<lambda>primary_offset.
     gbind (if status \<in> {''failed'', ''refunded''} \<and> staff_users \<noteq> []
            then random_bool L 50 else gret False) (\<lambda>handled.
     gbind (if handled then gmap (\<lambda>u. Some (u_id u)) (choose_from L staff_users) else gret None)
       (\<lambda>processed_by.
     gbind (random_bool L 30) (\<lambda>with_event.
     gbind (if with_event
            then gmap Some (random_range L I64 (Upto 1 (int EVENT_COUNT))) else gret None)
       (\<lambda>related_event.
     gbind (if status = ''failed'' then large_gateway_response L else small_gateway_response L)
       (\<lambda>response.
     gbind (if o_status r = ''refunded''
            then refund_of_sqlite L staff_users r related_event primary_offset
            else gret []) (\<lambda>refund.
     gret (\<lparr>y_order_id = o_id r, y_processed_by = processed_by,
             y_related_event = related_event, y_amount_cents = o_total_cents r,
             y_status = status, y_gateway_response = response,
             y_offset_mins = primary_offset\<rparr> # refund)))))))))))"

definition payment_rows_sqlite ::
  "'s lib \<Rightarrow> gen_order list \<Rightarrow> gen_user list \<Rightarrow> ('s, payment_row list) gen" where
  "payment_rows_sqlite L orders staff_users = gcollect (payments_of_sqlite L staff_users) orders"

definition draw_audit_sqlite ::
  "'s lib \<Rightarrow> gen_user list \<Rightarrow> gen_session list \<Rightarrow> nat \<Rightarrow> ('s, audit_row) gen" where
  "draw_audit_sqlite L users sessions i =
     gbind (random_bool L 70) (\<lambda>by_user.
     gbind (if by_user then gmap (\<lambda>u. Some (u_id u)) (choose_from L users) else gret None) (\<lambda>actor.
     gbind (random_bool L 40) (\<lambda>in_session.
     gbind (if in_session then gmap (\<lambda>s. Some (ss_id s)) (choose_from L sessions) else gret None)
       (\<lambda>session_id.
     gbind (random_bool L 50) (\<lambda>with_event.
     gbind (if with_event
            then gmap Some (random_range L I64 (Upto 1 (int EVENT_COUNT))) else gret None) (\<lambda>event.
     gbind (choose_from L audit_actions) (\<lambda>action.
     gbind (random_range L U32 (Until 1 500000)) (\<lambda>occurred_offset_mins.
     gret \<lparr>a_actor = actor, a_session = session_id, a_event = event, a_action = action,
            a_seq = i, a_occurred_offset_mins = occurred_offset_mins\<rparr>))))))))"

definition draw_count_sqlite ::
  "'s lib \<Rightarrow> (string \<times> string) list \<Rightarrow> ('s, count_row) gen" where
  "draw_count_sqlite L locations =
     gbind (choose_from L locations) (\<lambda>(wh, bin).
     gbind (random_range L I64 (Upto 1 (int PRODUCT_COUNT))) (\<lambda>product_id.
     gbind (random_range L I32 (Until 0 2000)) (\<lambda>quantity.
     gbind (random_bool L 30) (\<lambda>with_photo.
     gbind (if with_photo
            then gbind (random_range L Usize (Until 4 12)) (\<lambda>len. gmap Some (fill L (nat len)))
            else gret None) (\<lambda>photo.
     gbind (random_range L U32 (Until 0 200)) (\<lambda>counted_offset_days.
     gret \<lparr>c_warehouse = wh, c_bin = bin, c_product_id = product_id, c_quantity = quantity,
            c_photo = photo, c_counted_offset_days = counted_offset_days\<rparr>))))))"

definition draw_flag_sqlite :: "'s lib \<Rightarrow> string \<Rightarrow> ('s, flag_row) gen" where
  "draw_flag_sqlite L key =
     gbind (random_bool L 60) (\<lambda>enabled.
     gbind (if enabled then gmap Some (random_range L I32 (Upto 0 100)) else gret None) (\<lambda>rollout.
     gbind (random_range L U32 (Until 1 300)) (\<lambda>created_days_ago.
     gret \<lparr>f_key = key, f_enabled = enabled, f_rollout = rollout,
            f_created_days_ago = created_days_ago\<rparr>)))"

section \<open>Text of a row\<close>

definition user_sql_lite :: "gen_user \<Rightarrow> string" where
  "user_sql_lite u =
     ''    ('' @ squoted (u_id u) @ '', '' @ q (u_email u) @ '', ''
     @ q (u_full_name u) @ '', '' @ or_null int_str (u_age u) @ '', ''
     @ bool_str (u_is_active u) @ '', '' @ int_str (u_login_count u) @ '', ''
     @ q (u_metadata u) @ '', ''
     @ or_null sqlite_ts_minus_mins (u_last_login_offset_mins u) @ '', ''
     @ sqlite_ts_minus_days (u_created_offset_days u) @ '')''"

definition json_strings :: "string list \<Rightarrow> string" where
  "json_strings t = json_items (map (\<lambda>s. [dquote] @ s @ [dquote]) t)"

definition tags_sql_lite :: "string list \<Rightarrow> string" where
  "tags_sql_lite t = q (json_strings t)"

definition order_row_sql_lite :: "gen_order \<Rightarrow> string" where
  "order_row_sql_lite r =
     ''    ('' @ squoted (o_id r) @ '', '' @ squoted (o_user_id r) @ '', ''
     @ squoted (o_status r) @ '', '' @ int_str (o_total_cents r) @ '', ''
     @ or_null cents_str (o_discount_pct r) @ '', '' @ or_null tags_sql_lite (o_tags r)
     @ '', '' @ q (json_items (o_line_items r)) @ '', ''
     @ sqlite_ts_minus_mins (o_created_offset_mins r) @ '')''"

definition product_sql_lite :: "product_row \<Rightarrow> string" where
  "product_sql_lite r =
     ''    ('' @ q (p_sku r) @ '', '' @ q (p_name r) @ '', '' @ q (p_category r)
     @ '', '' @ cents_str (p_price r) @ '', '' @ or_null cents_str (p_weight r) @ '', ''
     @ bool_str (p_in_stock r) @ '', '' @ or_null q (p_description r) @ '', ''
     @ sqlite_date_minus_days (p_created_days_ago r) @ '')''"

definition event_sql_lite :: "event_row \<Rightarrow> string" where
  "event_sql_lite r =
     ''    ('' @ or_null squoted (e_user_id r) @ '', '' @ q (e_type r) @ '', ''
     @ squoted (event_payload r) @ '', '' @ q (e_ip r) @ '', ''
     @ or_null int_str (e_duration r) @ '', ''
     @ sqlite_ts_minus_mins (e_occurred_mins_ago r) @ '', '' @ bool_str (e_is_test r)
     @ '')''"

definition session_sql_lite :: "gen_session \<Rightarrow> string" where
  "session_sql_lite r =
     ''    ('' @ squoted (ss_id r) @ '', '' @ squoted (ss_user_id r) @ '', ''
     @ q (ss_device r) @ '', '' @ q (ss_user_agent r) @ '', '' @ q (ss_ip r) @ '', ''
     @ sqlite_ts_minus_mins (ss_started_offset_mins r) @ '', ''
     @ or_null sqlite_ts_minus_mins (ss_ended_offset_mins r) @ '')''"

definition review_sql_lite :: "review_row \<Rightarrow> string" where
  "review_sql_lite r =
     ''    ('' @ squoted (r_user_id r) @ '', '' @ int_str (r_product_id r) @ '', ''
     @ uuid_sql (r_order_id r) @ '', '' @ int_str (r_rating r) @ '', ''
     @ or_null q (r_title r) @ '', '' @ or_null q (r_body r) @ '', ''
     @ bool_str (r_verified r) @ '', '' @ sqlite_ts_minus_mins (r_created_offset_mins r)
     @ '')''"

definition ticket_sql_lite :: "ticket_row \<Rightarrow> string" where
  "ticket_sql_lite r =
     ''    ('' @ squoted (t_user_id r) @ '', '' @ uuid_sql (t_assigned r) @ '', ''
     @ uuid_sql (t_order_id r) @ '', '' @ q (t_subject r) @ '', '' @ q (t_description r)
     @ '', '' @ q (t_status r) @ '', '' @ sqlite_ts_minus_mins (t_created_offset_mins r)
     @ '', '' @ or_null sqlite_ts_minus_mins (t_resolved_offset_mins r) @ '')''"

definition payment_sql_lite :: "payment_row \<Rightarrow> string" where
  "payment_sql_lite r =
     ''    ('' @ squoted (y_order_id r) @ '', '' @ uuid_sql (y_processed_by r)
     @ '', '' @ int_sql (y_related_event r) @ '', '' @ int_str (y_amount_cents r)
     @ '', '' @ q (y_status r) @ '', '' @ q (y_gateway_response r) @ '', ''
     @ sqlite_ts_minus_mins (y_offset_mins r) @ '')''"

definition audit_sql_lite :: "audit_row \<Rightarrow> string" where
  "audit_sql_lite r =
     ''    ('' @ uuid_sql (a_actor r) @ '', '' @ uuid_sql (a_session r) @ '', ''
     @ int_sql (a_event r) @ '', '' @ q (a_action r) @ '', ''
     @ squoted (audit_details r) @ '', ''
     @ sqlite_ts_minus_mins (a_occurred_offset_mins r) @ '')''"

definition count_sql_lite :: "count_row \<Rightarrow> string" where
  "count_sql_lite r =
     ''    ('' @ q (c_warehouse r) @ '', '' @ q (c_bin r) @ '', ''
     @ int_str (c_product_id r) @ '', '' @ int_str (c_quantity r) @ '', ''
     @ sqlite_blob_sql (c_photo r) @ '', ''
     @ sqlite_ts_minus_days (c_counted_offset_days r) @ '')''"

definition flag_sql_lite :: "flag_row \<Rightarrow> string" where
  "flag_sql_lite r =
     ''    ('' @ q (f_key r) @ '', '' @ bool_str (f_enabled r) @ '', ''
     @ or_null int_str (f_rollout r) @ '', ''
     @ sqlite_date_minus_days (f_created_days_ago r) @ '')''"

section \<open>The statements\<close>

definition write_users_sqlite :: "string \<Rightarrow> gen_user list \<Rightarrow> string" where
  "write_users_sqlite out users =
     out @ users_insert
       @ rows_text user_sql_lite users"

definition write_orders_sqlite :: "string \<Rightarrow> gen_order list \<Rightarrow> string" where
  "write_orders_sqlite out orders =
     out @ orders_insert
       @ rows_text order_row_sql_lite orders"

definition write_products_sqlite :: "string \<Rightarrow> 's lib \<Rightarrow> ('s, string) gen" where
  "write_products_sqlite out L =
     write_scan (\<lambda>counters _. draw_product_sqlite L counters) product_sql_lite [1000, 1000, 1000, 1000, 1000]
       [0..<PRODUCT_COUNT] (out
       @ products_insert)"

definition write_events_sqlite :: "string \<Rightarrow> 's lib \<Rightarrow> gen_user list \<Rightarrow> ('s, string) gen" where
  "write_events_sqlite out L users =
     write_each (draw_event_sqlite L users) event_sql_lite [0..<EVENT_COUNT] (out
       @ events_insert)"

definition write_sessions_sqlite :: "string \<Rightarrow> gen_session list \<Rightarrow> string" where
  "write_sessions_sqlite out sessions =
     out @ sessions_insert
       @ rows_text session_sql_lite sessions"

definition write_reviews_sqlite ::
  "string \<Rightarrow> 's lib \<Rightarrow> gen_user list \<Rightarrow> (uuid \<rightharpoonup> uuid list) \<Rightarrow> ('s, string) gen" where
  "write_reviews_sqlite out L users orders_by_user =
     gbind (review_rows_sqlite L users orders_by_user) (\<lambda>rows.
     gret (out @ reviews_insert
       @ rows_text review_sql_lite rows))"

definition write_support_tickets_sqlite ::
  "string \<Rightarrow> 's lib \<Rightarrow> gen_user list \<Rightarrow> gen_user list \<Rightarrow> (uuid \<rightharpoonup> uuid list) \<Rightarrow> ('s, string) gen" where
  "write_support_tickets_sqlite out L users staff_users orders_by_user =
     write_each (draw_ticket_sqlite L users staff_users orders_by_user) ticket_sql_lite
       [0..<SUPPORT_TICKET_COUNT] (out
       @ tickets_insert)"

definition write_payments_sqlite ::
  "string \<Rightarrow> 's lib \<Rightarrow> gen_order list \<Rightarrow> gen_user list \<Rightarrow> ('s, string) gen" where
  "write_payments_sqlite out L orders staff_users =
     gbind (payment_rows_sqlite L orders staff_users) (\<lambda>rows.
     gret (out @ payments_insert
       @ rows_text payment_sql_lite rows))"

definition write_audit_log_sqlite ::
  "string \<Rightarrow> 's lib \<Rightarrow> gen_user list \<Rightarrow> gen_session list \<Rightarrow> ('s, string) gen" where
  "write_audit_log_sqlite out L users sessions =
     write_each (draw_audit_sqlite L users sessions) audit_sql_lite [0..<AUDIT_LOG_COUNT] (out
       @ audit_insert)"

definition write_inventory_counts_sqlite ::
  "string \<Rightarrow> 's lib \<Rightarrow> (string \<times> string) list \<Rightarrow> ('s, string) gen" where
  "write_inventory_counts_sqlite out L locations =
     write_each (\<lambda>_. draw_count_sqlite L locations) count_sql_lite [0..<INVENTORY_COUNT_ROWS] (out
       @ counts_insert)"

definition write_feature_flags_sqlite :: "string \<Rightarrow> 's lib \<Rightarrow> ('s, string) gen" where
  "write_feature_flags_sqlite out L =
     write_each (draw_flag_sqlite L) flag_sql_lite
       (take (min (length flag_keys) FEATURE_FLAG_COUNT) flag_keys) (out
       @ flags_insert)"

section \<open>The seed\<close>

definition generate_sqlite :: "'s lib \<Rightarrow> ('s, string) gen" where
  "generate_sqlite L =
     (let out = write_schema_sqlite (write_header_sqlite [])
      in gbind (gen_users L) (\<lambda>users.
         let out = write_users_sqlite out users
         in gbind (gen_orders L users) (\<lambda>orders.
         let out = write_orders_sqlite out orders
         in gbind (gen_and_write_order_extra out L orders) (\<lambda>out.
         gbind (write_products_sqlite out L) (\<lambda>out.
         gbind (write_events_sqlite out L users) (\<lambda>out.
         gbind (gen_sessions L users) (\<lambda>sessions.
         let out = write_sessions_sqlite out sessions;
             orders_by_user = index_orders orders;
             staff_users = staff_of users
         in gbind (write_reviews_sqlite out L users orders_by_user) (\<lambda>out.
         gbind (write_support_tickets_sqlite out L users staff_users orders_by_user) (\<lambda>out.
         gbind (write_payments_sqlite out L orders staff_users) (\<lambda>out.
         gbind (write_audit_log_sqlite out L users sessions) (\<lambda>out.
         gbind (write_inventory_locations out L) (\<lambda>(out, locations).
         gbind (write_inventory_counts_sqlite out L locations) (\<lambda>out.
         write_feature_flags_sqlite out L)))))))))))))"

text \<open>
  \<open>main\<close>: the dialect is the first argument, PostgreSQL without one. \<open>seeded\<close> is
  \<open>StdRng::seed_from_u64\<close>, of \<^verbatim>\<open>rand\<close>. A run prints, or exits with a message, or does not return.
\<close>

definition SEED :: "64 word" where
  "SEED = 20260716"

datatype run = Printed string | Exited nat string

definition main :: "'s lib \<Rightarrow> (64 word \<Rightarrow> 's) \<Rightarrow> string option \<Rightarrow> run option" where
  "main L seeded arg =
     (let dialect = (case arg of Some a \<Rightarrow> a | None \<Rightarrow> ''postgres''); rng = seeded SEED
      in if dialect = ''postgres'' then map_option (\<lambda>(out, _). Printed out) (generate_postgres L rng)
         else if dialect = ''sqlite'' then map_option (\<lambda>(out, _). Printed out) (generate_sqlite L rng)
         else Some (Exited 1 (''unknown dialect '' @ debug_str dialect
     @ '' (expected \"postgres\" or \"sqlite\")'' @ [newline])))"

end
