(* ===== verification/Seed_Refine.thy ===== *)
theory Seed_Refine
  imports Seed_Sqlite
begin

text \<open>
  What the two seeds have in common. \<open>draw_seed\<close> is the specification of both: it draws the rows
  of every table and writes nothing. The generators, which interleave drawing and writing, refine
  it: each is \<open>draw_seed\<close> followed by printing its rows in its dialect, and the PostgreSQL one by
  the rows of the shipping schema.
\<close>

section \<open>The twins draw alike\<close>

lemma product_row_twin: "draw_product_sqlite L = draw_product L"
  by (rule ext) (simp add: draw_product_sqlite_def draw_product_def)

lemma product_rows_twin: "product_rows_sqlite L = product_rows L"
  by (simp add: product_rows_sqlite_def product_rows_def product_row_twin)

lemma event_row_twin: "draw_event_sqlite L = draw_event L"
  by (intro ext) (simp add: draw_event_sqlite_def draw_event_def)

lemma review_rows_twin: "review_rows_sqlite L = review_rows L"
  by (intro ext)
    (simp add: review_rows_sqlite_def review_rows_def draw_review_sqlite_def draw_review_def)

lemma ticket_row_twin: "draw_ticket_sqlite L = draw_ticket L"
  by (intro ext) (simp add: draw_ticket_sqlite_def draw_ticket_def)

lemma primary_status_twin: "primary_status_sqlite L = primary_status L"
  by (rule ext) (simp add: primary_status_sqlite_def primary_status_def)

lemma refund_of_twin: "refund_of_sqlite L = refund_of L"
  unfolding fun_eq_iff refund_of_sqlite_def refund_of_def by simp

lemma payments_of_twin: "payments_of_sqlite L = payments_of L"
  unfolding fun_eq_iff payments_of_sqlite_def payments_of_def primary_status_twin refund_of_twin by simp

lemma payment_rows_twin: "payment_rows_sqlite L = payment_rows L"
  by (intro ext) (simp add: payment_rows_sqlite_def payment_rows_def payments_of_twin)

lemma audit_row_twin: "draw_audit_sqlite L = draw_audit L"
  by (intro ext) (simp add: draw_audit_sqlite_def draw_audit_def)

lemma count_row_twin: "draw_count_sqlite L = draw_count L"
  by (intro ext) (simp add: draw_count_sqlite_def draw_count_def)

lemma flag_row_twin: "draw_flag_sqlite L = draw_flag L"
  by (intro ext) (simp add: draw_flag_sqlite_def draw_flag_def)

lemmas twins =
  product_row_twin event_row_twin review_rows_twin ticket_row_twin payment_rows_twin
  audit_row_twin count_row_twin flag_row_twin

section \<open>A seed without its text\<close>

record seed_data =
  sd_users :: "gen_user list"
  sd_orders :: "gen_order list"
  sd_extras :: "extra_row list"
  sd_products :: "product_row list"
  sd_events :: "event_row list"
  sd_sessions :: "gen_session list"
  sd_reviews :: "review_row list"
  sd_tickets :: "ticket_row list"
  sd_payments :: "payment_row list"
  sd_audit :: "audit_row list"
  sd_locations :: "location_row list"
  sd_counts :: "count_row list"
  sd_flags :: "flag_row list"

definition draw_seed :: "'s lib \<Rightarrow> ('s, seed_data) gen" where
  "draw_seed L =
     gbind (gen_users L) (\<lambda>users.
     gbind (gen_orders L users) (\<lambda>orders.
     gbind (order_extra_rows L orders) (\<lambda>extras.
     gbind (product_rows L) (\<lambda>products.
     gbind (gtraverse (draw_event L users) [0..<EVENT_COUNT]) (\<lambda>events.
     gbind (gen_sessions L users) (\<lambda>sessions.
     gbind (review_rows L users (index_orders orders)) (\<lambda>reviews.
     gbind (gtraverse (draw_ticket L users (staff_of users) (index_orders orders))
              [0..<SUPPORT_TICKET_COUNT]) (\<lambda>tickets.
     gbind (payment_rows L orders (staff_of users)) (\<lambda>payments.
     gbind (gtraverse (draw_audit L users sessions) [0..<AUDIT_LOG_COUNT]) (\<lambda>audit.
     gbind (gtraverse (draw_location L) inventory_pairs) (\<lambda>locations.
     gbind (gtraverse (\<lambda>_. draw_count L inventory_pairs) [0..<INVENTORY_COUNT_ROWS]) (\<lambda>counts.
     gbind (gtraverse (draw_flag L) flag_keys) (\<lambda>flags.
     gret \<lparr>sd_users = users, sd_orders = orders, sd_extras = extras, sd_products = products,
            sd_events = events, sd_sessions = sessions, sd_reviews = reviews,
            sd_tickets = tickets, sd_payments = payments, sd_audit = audit,
            sd_locations = locations, sd_counts = counts, sd_flags = flags\<rparr>)))))))))))))"

record shipping_data =
  sh_carriers :: "carrier_row list"
  sh_shipments :: "shipment_row list"
  sh_events :: "shipment_event_row list"

definition draw_shipping :: "'s lib \<Rightarrow> seed_data \<Rightarrow> ('s, shipping_data) gen" where
  "draw_shipping L d =
     gbind (gtraverse (draw_carrier L) CARRIER_NAMES) (\<lambda>carriers.
     gbind (shipment_rows L (sd_orders d)) (\<lambda>shipments.
     gbind (shipment_event_rows L (map h_shipped_offset_mins shipments) (staff_of (sd_users d)))
       (\<lambda>events.
     gret \<lparr>sh_carriers = carriers, sh_shipments = shipments, sh_events = events\<rparr>)))"

definition extra_text :: "extra_row list \<Rightarrow> string" where
  "extra_text rows = (if rows = [] then [] else extra_insert @ rows_text extra_sql rows)"

definition sqlite_body :: "seed_data \<Rightarrow> string" where
  "sqlite_body d =
     users_insert @ rows_text user_sql_lite (sd_users d)
     @ orders_insert @ rows_text order_row_sql_lite (sd_orders d)
     @ extra_text (sd_extras d)
     @ products_insert @ rows_text product_sql_lite (sd_products d)
     @ events_insert @ rows_text event_sql_lite (sd_events d)
     @ sessions_insert @ rows_text session_sql_lite (sd_sessions d)
     @ reviews_insert @ rows_text review_sql_lite (sd_reviews d)
     @ tickets_insert @ rows_text ticket_sql_lite (sd_tickets d)
     @ payments_insert @ rows_text payment_sql_lite (sd_payments d)
     @ audit_insert @ rows_text audit_sql_lite (sd_audit d)
     @ locations_insert @ rows_text location_sql (sd_locations d)
     @ counts_insert @ rows_text count_sql_lite (sd_counts d)
     @ flags_insert @ rows_text flag_sql_lite (sd_flags d)"

definition postgres_body :: "seed_data \<Rightarrow> shipping_data \<Rightarrow> string" where
  "postgres_body d h =
     users_insert @ rows_text user_sql (sd_users d)
     @ orders_insert @ rows_text order_row_sql (sd_orders d)
     @ extra_text (sd_extras d)
     @ products_insert @ rows_text product_sql (sd_products d)
     @ events_insert @ rows_text event_sql (sd_events d)
     @ sessions_insert @ rows_text session_sql (sd_sessions d)
     @ reviews_insert @ rows_text review_sql (sd_reviews d)
     @ tickets_insert @ rows_text ticket_sql (sd_tickets d)
     @ payments_insert @ rows_text payment_sql (sd_payments d)
     @ audit_insert @ rows_text audit_sql (sd_audit d)
     @ locations_insert @ rows_text location_sql (sd_locations d)
     @ counts_insert @ rows_text count_sql (sd_counts d)
     @ flags_insert @ rows_text flag_sql (sd_flags d)
     @ carriers_insert @ rows_text carrier_sql (sh_carriers h)
     @ shipments_insert @ rows_text shipment_sql (sh_shipments h)
     @ shipment_events_insert @ rows_text shipment_event_sql (sh_events h)"

definition sqlite_text :: "seed_data \<Rightarrow> string" where
  "sqlite_text d = sqlite_header_text @ sqlite_schema_text @ sqlite_body d"

definition postgres_text :: "seed_data \<Rightarrow> shipping_data \<Rightarrow> string" where
  "postgres_text d h =
     write_conformance_meta
       (write_schema (write_header []) @ postgres_body d h @ analyze_text)"

section \<open>A writer is its rows and their text\<close>

lemma gscan_length: "gscan f c xs s = Some (ys, s') \<Longrightarrow> length ys = length xs"
  by (induction xs arbitrary: c s ys)
    (auto simp: gret_def gbind_Some gmap_Some split: prod.splits)

lemma gscan_cong_len:
  assumes "\<And>rows. length rows = length xs \<Longrightarrow> f rows = g rows"
  shows "gmap f (gscan h c xs) = gmap g (gscan h c xs)"
  by (rule ext) (auto simp: gmap_def gbind_def dest!: gscan_length intro!: assms
      split: option.splits intro: arg_cong [where f = "\<lambda>x. gret x _"])

lemma write_scan_text:
  "write_scan f p c xs out = gmap (\<lambda>rows. out @ rows_text p rows) (gscan f c xs)"
  unfolding write_scan_eq rows_text_def by (rule gscan_cong_len) simp

lemma write_products_eq:
  "write_products out L =
     gmap (\<lambda>rows. out @ products_insert @ rows_text product_sql rows) (product_rows L)"
  by (simp add: write_products_def write_scan_text product_rows_def)

lemma write_products_sqlite_eq:
  "write_products_sqlite out L =
     gmap (\<lambda>rows. out @ products_insert @ rows_text product_sql_lite rows) (product_rows L)"
  by (simp add: write_products_sqlite_def write_scan_text product_rows_def twins)

lemma order_extra_eq:
  "gen_and_write_order_extra out L orders =
     gmap (\<lambda>rows. out @ extra_text rows) (order_extra_rows L orders)"
  unfolding gen_and_write_order_extra_def extra_text_def gmap_def
  by (rule arg_cong [where f = "gbind _"]) (rule ext, simp)

lemma all_flag_keys: "take (min (length flag_keys) FEATURE_FLAG_COUNT) flag_keys = flag_keys"
  by (simp add: flag_keys_def FEATURE_FLAG_COUNT_def)

lemmas writers =
  write_users_def write_orders_def order_extra_eq write_products_eq write_events_def
  write_sessions_def write_reviews_def write_support_tickets_def write_payments_def
  write_audit_log_def write_inventory_locations_def write_inventory_counts_def
  write_feature_flags_def write_carriers_def write_shipments_def write_shipment_events_def

lemmas writers_lite =
  write_users_sqlite_def write_orders_sqlite_def order_extra_eq write_products_sqlite_eq
  write_events_sqlite_def write_sessions_sqlite_def write_reviews_sqlite_def
  write_support_tickets_sqlite_def write_payments_sqlite_def write_audit_log_sqlite_def
  write_inventory_locations_def write_inventory_counts_sqlite_def write_feature_flags_sqlite_def

section \<open>Refinement\<close>

lemma sqlite_refines: "generate_sqlite L = gmap sqlite_text (draw_seed L)"
  unfolding generate_sqlite_def draw_seed_def
  by (simp add: writers_lite write_each_eq twins all_flag_keys sqlite_text_def sqlite_body_def
      write_schema_sqlite_def write_header_sqlite_def Let_def gmap_def)

lemma postgres_refines:
  "generate_postgres L =
     gbind (draw_seed L) (\<lambda>d. gmap (postgres_text d) (draw_shipping L d))"
  unfolding generate_postgres_def draw_seed_def
  by (simp add: writers write_each_eq all_flag_keys postgres_text_def postgres_body_def
      draw_shipping_def Let_def gmap_def)

end
