(* ===== verification/Seed_Wf.thy ===== *)
theory Seed_Wf
  imports Seed_Refine
begin

text \<open>
  The rows the specification \<open>draw_seed\<close> draws. \<open>seed_typed\<close>: every row satisfies what its table
  declares (enumerations, checks, lengths, unique columns, the ranges of its numbers).
  \<open>seed_linked\<close>: every reference points at a row of its table, and at a sensible one (an order of
  the same user, a member of the staff), and times are in order. Both hold of every run, and every
  run returns, if the libraries keep to \<open>lib_ok\<close> and the address faker is not confined to fewer
  addresses than there are users (\<open>productive\<close>).
\<close>

section \<open>Addresses\<close>

definition email_state :: "'s lib \<Rightarrow> nat \<Rightarrow> 's \<Rightarrow> 's" where
  "email_state L n s = ((\<lambda>s. snd (lib_fake L SafeEmail s)) ^^ n) s"

definition email_at :: "'s lib \<Rightarrow> nat \<Rightarrow> 's \<Rightarrow> string" where
  "email_at L n s = fst (lib_fake L SafeEmail (email_state L n s))"

definition productive :: "'s lib \<Rightarrow> bool" where
  "productive L \<longleftrightarrow>
     (\<forall>seen s. finite seen \<longrightarrow> card seen < USER_COUNT \<longrightarrow> (\<exists>n. email_at L n s \<notin> seen))"

lemma email_state_Suc:
  "email_state L (Suc n) s = email_state L n (snd (lib_fake L SafeEmail s))"
  by (simp only: email_state_def funpow_Suc_right o_apply)

lemma email_at_Suc: "email_at L (Suc n) s = email_at L n (snd (lib_fake L SafeEmail s))"
  by (simp add: email_at_def email_state_Suc)

lemma email_0 [simp]:
  "email_state L 0 s = s" "email_at L 0 s = fst (lib_fake L SafeEmail s)"
  by (simp_all add: email_state_def email_at_def)

lemma fresh_email_at:
  "(\<And>m. m < n \<Longrightarrow> email_at L m s \<in> seen) \<Longrightarrow> email_at L n s \<notin> seen \<Longrightarrow>
   fresh_email L seen s = Some (email_at L n s, email_state L (Suc n) s)"
proof (induction n arbitrary: s)
  case 0
  then show ?case
    by (simp add: fresh_email.simps [of L seen s] email_state_Suc split_beta)
next
  case (Suc n)
  let ?s = "snd (lib_fake L SafeEmail s)"
  have "fresh_email L seen ?s = Some (email_at L n ?s, email_state L (Suc n) ?s)"
    using Suc.prems by (intro Suc.IH) (auto simp: email_at_Suc [symmetric])
  moreover have "fst (lib_fake L SafeEmail s) \<in> seen"
    using Suc.prems(1) [of 0] by simp
  ultimately show ?case
    by (simp add: fresh_email.simps [of L seen s] email_at_Suc email_state_Suc split_beta)
qed

lemma fresh_email_ends: "fresh_email L seen s = Some r \<Longrightarrow> \<exists>n. email_at L n s \<notin> seen"
proof (rule fresh_email.raw_induct [where P = "\<lambda>L seen s r. \<exists>n. email_at L n s \<notin> seen"])
  fix f :: "'s lib \<Rightarrow> string set \<Rightarrow> 's \<Rightarrow> (string \<times> 's) option" and L seen s r
  assume IH: "\<And>L seen s r. f L seen s = Some r \<Longrightarrow> \<exists>n. email_at L n s \<notin> seen"
    and eq: "(case lib_fake L SafeEmail s of (candidate, s') \<Rightarrow>
        if candidate \<in> seen then f L seen s' else Some (candidate, s')) = Some r"
  show "\<exists>n. email_at L n s \<notin> seen"
  proof (cases "fst (lib_fake L SafeEmail s) \<in> seen")
    case True
    with eq have "f L seen (snd (lib_fake L SafeEmail s)) = Some r" by (simp add: split_beta)
    from IH [OF this] show ?thesis by (metis email_at_Suc)
  next
    case False
    then show ?thesis by (metis email_0(2))
  qed
qed

text \<open>The loop returns exactly when some later draw is new, and then the first such.\<close>

lemma fresh_email_iff:
  "fresh_email L seen s =
     (if \<exists>n. email_at L n s \<notin> seen
      then (let n = LEAST n. email_at L n s \<notin> seen in Some (email_at L n s, email_state L (Suc n) s))
      else None)"
proof (cases "\<exists>n. email_at L n s \<notin> seen")
  case True
  then have "email_at L (LEAST n. email_at L n s \<notin> seen) s \<notin> seen" by (rule LeastI_ex)
  moreover have "email_at L m s \<in> seen" if "m < (LEAST n. email_at L n s \<notin> seen)" for m
    using not_less_Least [OF that] by simp
  ultimately show ?thesis
    using True by (simp add: fresh_email_at Let_def)
next
  case False
  then show ?thesis
    using fresh_email_ends [of L seen s] by (cases "fresh_email L seen s") auto
qed

lemma yields_fresh_email:
  assumes "productive L" "finite seen" "card seen < USER_COUNT" "\<And>e. e \<notin> seen \<Longrightarrow> P e"
  shows "yields (fresh_email L seen) P"
  unfolding yields_def
proof
  fix s
  have ex: "\<exists>n. email_at L n s \<notin> seen" using assms(1-3) by (simp add: productive_def)
  then have "P (email_at L (LEAST n. email_at L n s \<notin> seen) s)"
    by (intro assms(4)) (rule LeastI_ex)
  with ex show "\<exists>x s'. fresh_email L seen s = Some (x, s') \<and> P x"
    by (simp add: fresh_email_iff Let_def)
qed

section \<open>Users\<close>

definition uuid_ok :: "uuid \<Rightarrow> bool" where
  "uuid_ok i \<longleftrightarrow> list_all uuid_char i"

lemma yields_uuid [draws]: "lib_ok L \<Longrightarrow> (\<And>i. uuid_ok i \<Longrightarrow> P i) \<Longrightarrow> yields (gen_uuid L) P"
  unfolding gen_uuid_def by (intro draws) (auto simp: lib_ok_def uuid_ok_def)

lemma yields_metadata [draws]: "(\<And>t. P t) \<Longrightarrow> yields (user_metadata L role) P"
  unfolding user_metadata_def by (intro draws)

definition user_ok :: "gen_user \<Rightarrow> bool" where
  "user_ok u \<longleftrightarrow>
     uuid_ok (u_id u) \<and> pred_option (\<lambda>a. 18 \<le> a \<and> a < 75) (u_age u)
     \<and> 0 \<le> u_login_count u \<and> u_login_count u < 500 \<and> u_role u \<in> set ROLE_POOL
     \<and> pred_option (\<lambda>m. 10 \<le> m \<and> m < 130000) (u_last_login_offset_mins u)
     \<and> 1 \<le> u_created_offset_days u \<and> u_created_offset_days u < 400"

definition users_ok :: "gen_user list \<Rightarrow> bool" where
  "users_ok users \<longleftrightarrow>
     length users = USER_COUNT \<and> distinct (map u_email users) \<and> list_all user_ok users"

lemma pools_nonempty [simp]:
  "ROLE_POOL \<noteq> []" "ORDER_STATUSES \<noteq> []" "SESSION_DEVICES \<noteq> []" "SESSION_USER_AGENTS \<noteq> []"
  "gateways \<noteq> []" "decline_codes \<noteq> []" "gift_messages \<noteq> []" "event_types \<noteq> []"
  "event_paths \<noteq> []" "rating_pool \<noteq> []" "title_pool \<noteq> []" "ticket_subjects \<noteq> []"
  "ticket_statuses \<noteq> []" "audit_actions \<noteq> []" "inventory_pairs \<noteq> []"
  "SHIPMENT_STATUS_POOL \<noteq> []" "SHIPMENT_EVENT_TYPES \<noteq> []"
  by (simp_all add: ROLE_POOL_def ORDER_STATUSES_def SESSION_DEVICES_def SESSION_USER_AGENTS_def
      gateways_def decline_codes_def gift_messages_def event_types_def event_paths_def
      rating_pool_def title_pool_def ticket_subjects_def ticket_statuses_def audit_actions_def
      inventory_pairs_def SHIPMENT_STATUS_POOL_def SHIPMENT_EVENT_TYPES_def)

lemma yields_user:
  assumes "lib_ok L" "productive L" "finite seen" "card seen < USER_COUNT"
  shows "yields (draw_user L seen)
    (\<lambda>(u, seen'). user_ok u \<and> u_email u \<notin> seen \<and> seen' = insert (u_email u) seen)"
  unfolding draw_user_def
  by (intro draws yields_fresh_email assms) (auto simp: user_ok_def)

lemma yields_users:
  assumes "lib_ok L" "productive L"
  shows "yields (gen_users L) users_ok"
proof -
  let ?I = "\<lambda>seen us. seen = u_email ` set us \<and> distinct (map u_email us) \<and> list_all user_ok us"
  have "yields (gscan (\<lambda>seen _. draw_user L seen) {} [0..<USER_COUNT])
      (\<lambda>us. \<exists>seen. ?I seen us \<and> length us = length [0..<USER_COUNT])"
  proof (rule yields_scan)
    fix seen us and x :: nat
    assume I: "?I seen us" and "length us < length [0..<USER_COUNT]"
    then have "finite seen" "card seen < USER_COUNT"
      using card_length [of "map u_email us"] by auto
    then show "yields (draw_user L seen) (\<lambda>(u, seen'). ?I seen' (us @ [u]))"
      by (rule yields_mono [OF yields_user [OF assms]]) (use I in auto)
  qed auto
  then show ?thesis
    unfolding gen_users_def by (rule yields_mono) (auto simp: users_ok_def)
qed

section \<open>Loops that push any number of rows\<close>

lemma yields_groups:
  assumes "\<And>x. x \<in> set xs \<Longrightarrow> yields (f x) (P x)"
  shows "yields (gcollect f xs) (\<lambda>ys. \<exists>gs. ys = concat gs \<and> list_all2 P xs gs)"
  unfolding gcollect_def by (rule yields_gmap, rule yields_mono [OF yields_traverse [OF assms]]) auto

lemma groups_member:
  "list_all2 P xs gs \<Longrightarrow> y \<in> set (concat gs) \<Longrightarrow> \<exists>x \<in> set xs. \<exists>g \<in> set gs. P x g \<and> y \<in> set g"
  by (induction rule: list_all2_induct) auto

lemma yields_all:
  assumes "\<And>x. x \<in> set xs \<Longrightarrow> yields (f x) P"
  shows "yields (gtraverse f xs) (\<lambda>ys. length ys = length xs \<and> list_all P ys)"
  using yields_traverse_all [OF assms] by (simp add: list_all_iff)

section \<open>Optional draws\<close>

text \<open>Rules that cut the paths of a round at its optional parts.\<close>

lemma cut_opt_range:
  assumes "lib_ok L" "\<not> span_empty sp" "\<And>x. pred_option (in_span sp) x \<Longrightarrow> yields (f x) Q"
  shows "yields (gbind (if b then gmap Some (random_range L ty sp) else gret None) f) Q"
  by (intro draws assms(1,2)) (simp_all add: assms(3))

lemma cut_opt_id:
  assumes "lib_ok L" "b \<Longrightarrow> xs \<noteq> []"
    and "\<And>x. (x \<noteq> None \<longrightarrow> b) \<Longrightarrow> pred_option (\<lambda>i. i \<in> u_id ` set xs) x \<Longrightarrow> yields (f x) Q"
  shows "yields (gbind (if b then gmap (\<lambda>u. Some (u_id u)) (choose_from L xs) else gret None) f) Q"
  by (intro draws assms(1,2)) (simp_all add: assms(3))

lemma cut_flag:
  assumes "\<And>x. (x \<longrightarrow> b) \<Longrightarrow> yields (f x) Q"
  shows "yields (gbind (if b then random_bool L p else gret False) f) Q"
  by (intro draws) (simp_all add: assms)

lemma cut_if:
  assumes "\<And>R. (\<And>x. R x) \<Longrightarrow> yields m R" "\<And>R. (\<And>x. R x) \<Longrightarrow> yields n R" "\<And>x. yields (f x) Q"
  shows "yields (gbind (if b then m else n) f) Q"
  by (intro yields_gbind yields_if assms)

lemmas steps =
  cut_flag cut_opt_range cut_opt_id
  yields_gbind [OF yields_bool] yields_gbind [OF yields_range] yields_gbind [OF yields_choose]
  yields_gbind [OF yields_u32_sub]

section \<open>Orders\<close>

lemma yields_line_item: "lib_ok L \<Longrightarrow> yields (line_item L) lit_free"
  unfolding line_item_def by (intro draws) auto

definition order_ok :: "gen_user list \<Rightarrow> gen_order \<Rightarrow> bool" where
  "order_ok users r \<longleftrightarrow>
     uuid_ok (o_id r) \<and> o_user_id r \<in> u_id ` set users \<and> o_status r \<in> set ORDER_STATUSES
     \<and> 300 \<le> o_total_cents r \<and> o_total_cents r < 25000
     \<and> pred_option (\<lambda>d. 200 \<le> d \<and> d < 4000) (o_discount_pct r)
     \<and> pred_option (\<lambda>t. t \<noteq> [] \<and> set t \<subseteq> set ORDER_TAG_POOL) (o_tags r)
     \<and> 1 \<le> length (o_line_items r) \<and> length (o_line_items r) \<le> 4
     \<and> list_all lit_free (o_line_items r)
     \<and> 60 \<le> o_created_offset_mins r \<and> o_created_offset_mins r < 288000"

lemma yields_line_items:
  assumes "lib_ok L" "\<And>ys. length ys = n \<Longrightarrow> list_all lit_free ys \<Longrightarrow> P ys"
  shows "yields (gtraverse (\<lambda>_. line_item L) [0..<n]) P"
  by (rule yields_mono [OF yields_all [where P = lit_free]])
    (use assms yields_line_item in auto)

lemma yields_order:
  assumes "lib_ok L" "u \<in> set users"
  shows "yields (draw_order L u) (order_ok users)"
  unfolding draw_order_def
  by (intro draws yields_line_items assms)
    (use assms in \<open>auto simp: order_ok_def ORDER_TAG_POOL_def\<close>)

definition orders_ok :: "gen_user list \<Rightarrow> gen_order list \<Rightarrow> bool" where
  "orders_ok users orders \<longleftrightarrow>
     list_all (order_ok users) orders \<and> length orders \<le> 8 * length users"

lemma groups_length:
  "list_all2 (\<lambda>x g. length g \<le> n) xs gs \<Longrightarrow> length (concat gs) \<le> n * length xs"
  by (induction rule: list_all2_induct) auto

lemma yields_orders:
  assumes "lib_ok L" shows "yields (gen_orders L users) (orders_ok users)"
proof -
  let ?P = "\<lambda>u g. list_all (order_ok users) g \<and> length g \<le> 8"
  have "yields (gbind (random_range L I32 (Until 0 9)) (\<lambda>n.
      gtraverse (\<lambda>_. draw_order L u) [0..<nat n])) (?P u)" if "u \<in> set users" for u
    by (intro draws assms)
      (auto intro!: yields_mono [OF yields_all] yields_order assms that)
  then have "yields (gen_orders L users) (\<lambda>ys. \<exists>gs. ys = concat gs \<and> list_all2 ?P users gs)"
    unfolding gen_orders_def by (rule yields_groups)
  then show ?thesis
  proof (rule yields_mono)
    fix ys assume "\<exists>gs. ys = concat gs \<and> list_all2 ?P users gs"
    then obtain gs where gs: "ys = concat gs" "list_all2 ?P users gs" by blast
    then have "length ys \<le> 8 * length users"
      by (auto intro!: groups_length elim: list_all2_mono)
    moreover have "list_all (order_ok users) ys"
      using groups_member [OF gs(2)] by (auto simp: gs(1) list_all_iff)
    ultimately show "orders_ok users ys" by (simp add: orders_ok_def)
  qed
qed

subsection \<open>The index of orders by user\<close>

lemma index_orders_get:
  "index_orders orders i =
     (let v = map o_id (filter (\<lambda>r. o_user_id r = i) orders) in if v = [] then None else Some v)"
proof (induction orders rule: rev_induct)
  case Nil
  then show ?case by (simp add: index_orders_def)
next
  case (snoc r orders)
  have "index_orders (orders @ [r]) =
      (index_orders orders)(o_user_id r \<mapsto>
        (case index_orders orders (o_user_id r) of None \<Rightarrow> [] | Some v \<Rightarrow> v) @ [o_id r])"
    by (simp add: index_orders_def)
  with snoc show ?case by (auto simp: Let_def)
qed

definition own_order :: "gen_order list \<Rightarrow> uuid \<Rightarrow> uuid \<Rightarrow> bool" where
  "own_order orders user i \<longleftrightarrow> (\<exists>r \<in> set orders. o_id r = i \<and> o_user_id r = user)"

lemma nonempty_orders_own:
  "nonempty_orders (index_orders orders) user = Some v \<Longrightarrow> v \<noteq> []"
  "nonempty_orders (index_orders orders) user = Some v \<Longrightarrow> i \<in> set v \<Longrightarrow> own_order orders user i"
  by (auto simp: nonempty_orders_def index_orders_get Let_def own_order_def split: if_splits)

section \<open>Order extras\<close>

definition extra_of :: "gen_order \<Rightarrow> extra_row list \<Rightarrow> bool" where
  "extra_of r xs \<longleftrightarrow>
     xs = [] \<or> (\<exists>x. xs = [x] \<and> x_order_id x = o_id r
       \<and> pred_option (\<lambda>m. x_is_gift x \<and> m \<in> set gift_messages) (x_message x))"

text \<open>At most one row per order, in the order of the orders.\<close>

definition extras_ok :: "gen_order list \<Rightarrow> extra_row list \<Rightarrow> bool" where
  "extras_ok orders extras \<longleftrightarrow> (\<exists>gs. extras = concat gs \<and> list_all2 extra_of orders gs)"

lemma yields_extras: "lib_ok L \<Longrightarrow> yields (order_extra_rows L orders) (extras_ok orders)"
  unfolding order_extra_rows_def extras_ok_def
  by (rule yields_groups, intro draws) (auto simp: extra_of_def)

lemma extras_subseq:
  "list_all2 extra_of orders gs \<Longrightarrow> subseq (map x_order_id (concat gs)) (map o_id orders)"
  by (induction rule: list_all2_induct) (auto simp: extra_of_def)

section \<open>Products\<close>

definition product_ok :: "product_row \<Rightarrow> bool" where
  "product_ok r \<longleftrightarrow>
     length (p_sku r) \<le> 20 \<and> p_category r \<in> fst ` set categories
     \<and> 500 \<le> p_price r \<and> p_price r < 50000
     \<and> pred_option (\<lambda>w. 5 \<le> w \<and> w < 1500) (p_weight r)
     \<and> 1 \<le> p_created_days_ago r \<and> p_created_days_ago r < 400"

definition products_ok :: "product_row list \<Rightarrow> bool" where
  "products_ok rows \<longleftrightarrow>
     length rows = PRODUCT_COUNT \<and> distinct (map p_sku rows) \<and> list_all product_ok rows"

definition sku_prefix :: "nat \<Rightarrow> string" where
  "sku_prefix k = fst (snd (categories ! k))"

lemma length_categories [simp]: "length categories = 5"
  by (simp add: categories_def)

lemma five_cases: "(k :: nat) < 5 \<Longrightarrow> k = 0 \<or> k = 1 \<or> k = 2 \<or> k = 3 \<or> k = 4"
  by arith

lemma sku_prefix_values:
  "sku_prefix 0 = ''ELEC''" "sku_prefix 1 = ''BOOK''" "sku_prefix 2 = ''HOME''"
  "sku_prefix 3 = ''TOYS''" "sku_prefix 4 = ''APRL''" "sku_prefix (Suc 0) = ''BOOK''"
  by (simp_all add: sku_prefix_def categories_def)

lemma sku_inject:
  assumes "k < 5" "j < 5" "sku_prefix k @ CHR ''-'' # x = sku_prefix j @ CHR ''-'' # y"
  shows "k = j \<and> x = y"
  using five_cases [OF assms(1)] five_cases [OF assms(2)] assms(3)
  by (elim disjE) (simp_all add: sku_prefix_values)

lemma length_nat_str: "0 < k \<Longrightarrow> n < 10 ^ k \<Longrightarrow> length (nat_str n) \<le> k"
proof (induction n arbitrary: k rule: nat_str.induct)
  case (1 n)
  show ?case
  proof (cases "n < 10")
    case True
    with 1 show ?thesis by (subst nat_str.simps) simp
  next
    case False
    with "1.prems" obtain j where k: "k = Suc j" "0 < j" by (cases k; cases "k - 1") auto
    then have "n div 10 < 10 ^ j" using "1.prems"(2) by (simp add: less_mult_imp_div_less mult.commute)
    with False k "1.IH" have "length (nat_str (n div 10)) \<le> j" by simp
    with False k show ?thesis by (subst nat_str.simps) simp
  qed
qed

definition sku_of :: "int list \<Rightarrow> product_row \<Rightarrow> bool" where
  "sku_of counters r \<longleftrightarrow>
     (\<exists>k c. k < 5 \<and> 1000 < c \<and> c \<le> counters ! k \<and> p_sku r = sku_prefix k @ ''-'' @ int_str c)"

lemma category_at:
  assumes "k < 5" "categories ! k = (c, pre, nouns)"
  shows "c \<in> fst ` set categories" "pre = sku_prefix k" "nouns \<noteq> []" "length pre = 4"
proof -
  show "c \<in> fst ` set categories"
    using assms by (metis fst_conv image_eqI length_categories nth_mem)
  show "pre = sku_prefix k" using assms(2) by (simp add: sku_prefix_def)
  then show "length pre = 4"
    using five_cases [OF assms(1)] by (auto simp: sku_prefix_values)
  show "nouns \<noteq> []"
    using five_cases [OF assms(1)] assms(2) by (auto simp: categories_def)
qed

definition counters_ok :: "int list \<Rightarrow> nat \<Rightarrow> bool" where
  "counters_ok counters n \<longleftrightarrow>
     length counters = 5 \<and> (\<forall>k < 5. 1000 \<le> counters ! k \<and> counters ! k \<le> 1000 + int n)"

lemma yields_product:
  assumes "lib_ok L" "counters_ok counters n" "n < PRODUCT_COUNT"
  shows "yields (draw_product L counters)
    (\<lambda>(r, c'). product_ok r \<and> (\<exists>k < 5. c' = counters[k := counters ! k + 1]
       \<and> p_sku r = sku_prefix k @ ''-'' @ int_str (counters ! k + 1)))"
  unfolding draw_product_def
proof (intro yields_gbind yields_range assms(1), goal_cases)
  case 1
  then show ?case by simp
next
  case (2 i)
  then have k: "nat i < 5" by auto
  obtain c pre nouns where cat: "categories ! nat i = (c, pre, nouns)" by (metis prod_cases3)
  then have get: "get_at categories (nat i) = Some (c, pre, nouns)" using k by simp
  note at = category_at [OF k cat]
  have cnt: "1000 \<le> counters ! nat i" "counters ! nat i \<le> 1079"
    using assms(2,3) k unfolding counters_ok_def PRODUCT_COUNT_def by force+
  then have "length (int_str (counters ! nat i + 1)) \<le> 4"
    by (auto simp: int_str_def intro: length_nat_str)
  then show ?case
    unfolding get option.case prod.case using at k cnt
    by (intro draws assms(1)) (auto simp: product_ok_def)
qed

lemma counters_step:
  assumes "counters_ok counters n" "k < 5"
  shows "counters_ok (counters[k := counters ! k + 1]) (Suc n)"
  using assms unfolding counters_ok_def by (auto simp: nth_list_update)

lemma sku_of_step:
  assumes "sku_of counters r" "length counters = 5"
  shows "sku_of (counters[k := counters ! k + 1]) r"
proof -
  obtain j c where j: "j < 5" "1000 < c" "c \<le> counters ! j" "p_sku r = sku_prefix j @ ''-'' @ int_str c"
    using assms(1) unfolding sku_of_def by blast
  then have "c \<le> counters[k := counters ! k + 1] ! j"
    using assms(2) by (cases "j = k") simp_all
  with j show ?thesis unfolding sku_of_def by blast
qed

lemma sku_new:
  assumes "sku_of counters r" "k < 5" "0 \<le> counters ! k"
    "p_sku r = sku_prefix k @ ''-'' @ int_str (counters ! k + 1)"
  shows False
proof -
  obtain j c where j: "j < 5" "1000 < c" "c \<le> counters ! j" "p_sku r = sku_prefix j @ ''-'' @ int_str c"
    using assms(1) unfolding sku_of_def by blast
  with assms have "j = k \<and> int_str c = int_str (counters ! k + 1)"
    by (intro sku_inject) auto
  with j assms(3) show False by (simp add: int_str_inject)
qed

lemma yields_products:
  assumes "lib_ok L" shows "yields (product_rows L) products_ok"
proof -
  let ?I = "\<lambda>counters rows. counters_ok counters (length rows) \<and> distinct (map p_sku rows)
      \<and> list_all product_ok rows \<and> list_all (sku_of counters) rows"
  have "yields (gscan (\<lambda>counters _. draw_product L counters) [1000, 1000, 1000, 1000, 1000] [0..<PRODUCT_COUNT])
      (\<lambda>rows. \<exists>c. ?I c rows \<and> length rows = length [0..<PRODUCT_COUNT])"
  proof (rule yields_scan)
    show "?I [1000, 1000, 1000, 1000, 1000] []"
      by (auto simp: counters_ok_def dest: five_cases)
  next
    fix counters rows and x :: nat
    assume I: "?I counters rows" and len: "length rows < length [0..<PRODUCT_COUNT]"
    show "yields (draw_product L counters) (\<lambda>(r, c'). ?I c' (rows @ [r]))"
    proof (rule yields_mono [OF yields_product [OF assms]])
      show "counters_ok counters (length rows)" "length rows < PRODUCT_COUNT"
        using I len by auto
    next
      fix p
      assume "case p of (r, c') \<Rightarrow> product_ok r \<and> (\<exists>k < 5. c' = counters[k := counters ! k + 1]
          \<and> p_sku r = sku_prefix k @ ''-'' @ int_str (counters ! k + 1))"
      then obtain r k where p: "p = (r, counters[k := counters ! k + 1])" and k: "k < 5"
        and r: "product_ok r" "p_sku r = sku_prefix k @ ''-'' @ int_str (counters ! k + 1)"
        by (cases p) auto
      let ?c = "counters[k := counters ! k + 1]"
      have len5: "length counters = 5" and low: "1000 \<le> counters ! k"
        using I k by (auto simp: counters_ok_def)
      have "p_sku r \<noteq> p_sku r'" if "r' \<in> set rows" for r'
        using I that k low r(2) sku_new [of counters r' k] by (auto simp: list_all_iff)
      moreover have "list_all (sku_of ?c) rows"
        using I len5 by (auto simp: list_all_iff intro: sku_of_step)
      moreover have "sku_of ?c r"
        unfolding sku_of_def using k low len5 r(2)
        by (intro exI [of _ k] exI [of _ "counters ! k + 1"]) auto
      moreover have "counters_ok ?c (Suc (length rows))"
        using I k by (intro counters_step) auto
      ultimately show "case p of (r, c') \<Rightarrow> ?I c' (rows @ [r])"
        using I p r(1) by auto
    qed
  qed
  then show ?thesis
    unfolding product_rows_def by (rule yields_mono) (auto simp: products_ok_def)
qed

section \<open>Events and sessions\<close>

definition event_ok :: "gen_user list \<Rightarrow> event_row \<Rightarrow> bool" where
  "event_ok users r \<longleftrightarrow>
     pred_option (\<lambda>i. i \<in> u_id ` set users \<and> lit_free i) (e_user_id r)
     \<and> e_type r \<in> set event_types \<and> e_path r \<in> set event_paths
     \<and> pred_option (\<lambda>m. 5 \<le> m \<and> m < 5000) (e_duration r)
     \<and> 1 \<le> e_occurred_mins_ago r \<and> e_occurred_mins_ago r < 130000"

lemma uuid_lit_free: "uuid_ok i \<Longrightarrow> lit_free i"
  by (auto simp: uuid_ok_def lit_free_def list_all_iff uuid_char_def is_digit_def)

lemma users_id: "list_all user_ok users \<Longrightarrow> u \<in> set users \<Longrightarrow> lit_free (u_id u)"
  by (auto simp: list_all_iff user_ok_def intro: uuid_lit_free)

lemma yields_event:
  assumes "lib_ok L" "users \<noteq> []" "list_all user_ok users"
  shows "yields (draw_event L users i) (\<lambda>r. event_ok users r \<and> e_n r = i)"
  unfolding draw_event_def
  by (intro draws assms) (use users_id [OF assms(3)] in \<open>auto simp: event_ok_def\<close>)

definition session_ok :: "gen_user list \<Rightarrow> gen_session \<Rightarrow> bool" where
  "session_ok users r \<longleftrightarrow>
     uuid_ok (ss_id r) \<and> ss_user_id r \<in> u_id ` set users \<and> ss_device r \<in> set SESSION_DEVICES
     \<and> 300 \<le> ss_started_offset_mins r \<and> ss_started_offset_mins r < 90000
     \<and> pred_option (\<lambda>e. 0 < e \<and> e < ss_started_offset_mins r) (ss_ended_offset_mins r)"

lemma yields_session:
  assumes "lib_ok L" "users \<noteq> []"
  shows "yields (draw_session L users) (session_ok users)"
  unfolding draw_session_def by (intro draws assms) (auto simp: session_ok_def)

lemma yields_sessions:
  assumes "lib_ok L" "users \<noteq> []"
  shows "yields (gen_sessions L users)
    (\<lambda>rows. length rows = SESSION_COUNT \<and> list_all (session_ok users) rows)"
  unfolding gen_sessions_def
  by (rule yields_mono [OF yields_all [OF yields_session [OF assms]]]) auto

section \<open>Reviews\<close>

definition review_ok :: "gen_user list \<Rightarrow> gen_order list \<Rightarrow> int \<Rightarrow> review_row \<Rightarrow> bool" where
  "review_ok users orders product_id r \<longleftrightarrow>
     r_user_id r \<in> u_id ` set users \<and> r_product_id r = product_id
     \<and> pred_option (own_order orders (r_user_id r)) (r_order_id r)
     \<and> r_verified r = (r_order_id r \<noteq> None) \<and> 1 \<le> r_rating r \<and> r_rating r \<le> 5
     \<and> 10 \<le> r_created_offset_mins r \<and> r_created_offset_mins r < 200000"

lemma yields_review:
  assumes "lib_ok L" "users \<noteq> []"
  shows "yields (draw_review L users (index_orders orders) product_id)
    (review_ok users orders product_id)"
  unfolding draw_review_def
  by (intro draws yields_gbind assms)
    (auto simp: split_beta review_ok_def rating_pool_def intro!: draws assms
      dest: nonempty_orders_own)

text \<open>Between 130 and 220 reviews of each product.\<close>

definition reviews_ok :: "gen_user list \<Rightarrow> gen_order list \<Rightarrow> review_row list \<Rightarrow> bool" where
  "reviews_ok users orders rows \<longleftrightarrow>
     (\<exists>gs. rows = concat gs
        \<and> list_all2 (\<lambda>p g. 130 \<le> length g \<and> length g \<le> 220 \<and> list_all (review_ok users orders p) g)
            (map int [1..<PRODUCT_COUNT + 1]) gs)"

lemma yields_reviews:
  assumes "lib_ok L" "users \<noteq> []"
  shows "yields (review_rows L users (index_orders orders)) (reviews_ok users orders)"
  unfolding review_rows_def reviews_ok_def
proof (rule yields_groups, intro yields_gbind yields_range assms(1), goal_cases)
  case (2 p n)
  then show ?case
    by (intro yields_mono [OF yields_all [OF yields_review [OF assms]]])
      (auto simp: REVIEWS_PER_PRODUCT_MIN_def REVIEWS_PER_PRODUCT_MAX_def)
qed (simp add: REVIEWS_PER_PRODUCT_MIN_def REVIEWS_PER_PRODUCT_MAX_def)

lemma groups_bounds:
  "list_all2 (\<lambda>x g. a \<le> length g \<and> length g \<le> b \<and> P x g) xs gs \<Longrightarrow>
   a * length xs \<le> length (concat gs) \<and> length (concat gs) \<le> b * length xs"
  by (induction rule: list_all2_induct) auto

lemma reviews_count:
  assumes "reviews_ok users orders rows"
  shows "10400 \<le> length rows \<and> length rows \<le> 17600"
proof -
  obtain gs where gs: "rows = concat gs"
    "list_all2 (\<lambda>p g. 130 \<le> length g \<and> length g \<le> 220 \<and> list_all (review_ok users orders p) g)
       (map int [1..<PRODUCT_COUNT + 1]) gs"
    using assms by (auto simp: reviews_ok_def)
  show ?thesis
    using groups_bounds [OF gs(2)] gs(1) by (simp add: PRODUCT_COUNT_def)
qed

section \<open>Support tickets\<close>

definition ticket_ok :: "gen_user list \<Rightarrow> gen_order list \<Rightarrow> ticket_row \<Rightarrow> bool" where
  "ticket_ok users orders r \<longleftrightarrow>
     t_user_id r \<in> u_id ` set users \<and> pred_option (\<lambda>i. i \<in> u_id ` set (staff_of users)) (t_assigned r)
     \<and> pred_option (own_order orders (t_user_id r)) (t_order_id r)
     \<and> t_subject r \<in> set ticket_subjects \<and> t_status r \<in> set ticket_statuses
     \<and> 60 \<le> t_created_offset_mins r \<and> t_created_offset_mins r < 300000
     \<and> (t_resolved_offset_mins r \<noteq> None \<longleftrightarrow> t_status r \<in> {''resolved'', ''closed''})
     \<and> pred_option (\<lambda>m. 0 \<le> m \<and> m < t_created_offset_mins r) (t_resolved_offset_mins r)"

lemma yields_ticket:
  assumes "lib_ok L" "users \<noteq> []"
  shows "yields (draw_ticket L users (staff_of users) (index_orders orders) i) (ticket_ok users orders)"
  unfolding draw_ticket_def
  by (intro draws assms) (auto simp: ticket_ok_def dest: nonempty_orders_own)

section \<open>Payments\<close>

lemma yields_attempts:
  assumes "lib_ok L" "\<And>ts. P ts" shows "yields (gtraverse (gateway_attempt L) ns) P"
proof (rule yields_mono [OF yields_traverse [where P = "\<lambda>_ _. True"]])
  show "yields (gateway_attempt L n) (\<lambda>_. True)" for n
    unfolding gateway_attempt_def by (intro draws assms(1)) simp_all
qed (rule assms(2))

lemma yields_large [draws]:
  assumes "lib_ok L" "\<And>t. P t" shows "yields (large_gateway_response L) P"
  unfolding large_gateway_response_def by (intro draws yields_attempts assms) simp_all

lemma yields_small [draws]:
  assumes "lib_ok L" "\<And>t. P t" shows "yields (small_gateway_response L) P"
  unfolding small_gateway_response_def by (intro draws assms) simp_all

text \<open>
  A first payment; the refund of a refunded order. Staff process failed payments and refunds only.
\<close>

definition payment_ok :: "gen_user list \<Rightarrow> gen_order \<Rightarrow> payment_row \<Rightarrow> bool" where
  "payment_ok users r y \<longleftrightarrow>
     y_order_id y = o_id r \<and> y_amount_cents y = o_total_cents r
     \<and> y_status y \<in> {''pending'', ''succeeded'', ''failed''}
     \<and> pred_option (\<lambda>i. i \<in> u_id ` set (staff_of users) \<and> y_status y = ''failed'') (y_processed_by y)
     \<and> pred_option (\<lambda>e. 1 \<le> e \<and> e \<le> int EVENT_COUNT) (y_related_event y)
     \<and> 0 \<le> y_offset_mins y \<and> y_offset_mins y < o_created_offset_mins r"

definition refund_ok :: "gen_user list \<Rightarrow> payment_row \<Rightarrow> payment_row \<Rightarrow> bool" where
  "refund_ok users y z \<longleftrightarrow>
     y_order_id z = y_order_id y \<and> y_amount_cents z = - y_amount_cents y
     \<and> y_status z = ''refunded'' \<and> y_related_event z = y_related_event y
     \<and> pred_option (\<lambda>i. i \<in> u_id ` set (staff_of users)) (y_processed_by z)
     \<and> 0 \<le> y_offset_mins z \<and> y_offset_mins z \<le> y_offset_mins y"

definition payments_ok :: "gen_user list \<Rightarrow> gen_order \<Rightarrow> payment_row list \<Rightarrow> bool" where
  "payments_ok users r ys \<longleftrightarrow>
     (ys = [] \<and> o_status r = ''pending'')
     \<or> (\<exists>y. ys = [y] \<and> o_status r \<noteq> ''refunded'' \<and> payment_ok users r y)
     \<or> (\<exists>y z. ys = [y, z] \<and> o_status r = ''refunded'' \<and> payment_ok users r y \<and> refund_ok users y z)"

lemma yields_primary_status [draws]:
  assumes "lib_ok L" "\<And>st. st \<in> {''pending'', ''succeeded'', ''failed''} \<Longrightarrow> P st"
  shows "yields (primary_status L status) P"
  unfolding primary_status_def by (intro draws assms(1)) (use assms(2) in auto)

lemma yields_payments_of:
  assumes "lib_ok L" "order_ok users r"
  shows "yields (payments_of L (staff_of users) r) (payments_ok users r)"
proof -
  have c: "60 \<le> o_created_offset_mins r" using assms(2) by (simp add: order_ok_def)
  have refund: "yields (if o_status r = ''refunded'' then refund_of L (staff_of users) r ev off else gret []) R"
    if "0 \<le> off" "o_status r \<noteq> ''refunded'' \<Longrightarrow> R []"
      "\<And>z. o_status r = ''refunded'' \<Longrightarrow> y_order_id z = o_id r \<Longrightarrow> y_amount_cents z = - o_total_cents r
        \<Longrightarrow> y_status z = ''refunded'' \<Longrightarrow> y_related_event z = ev
        \<Longrightarrow> pred_option (\<lambda>i. i \<in> u_id ` set (staff_of users)) (y_processed_by z)
        \<Longrightarrow> 0 \<le> y_offset_mins z \<Longrightarrow> y_offset_mins z \<le> off \<Longrightarrow> R [z]" for ev off R
    unfolding refund_of_def
    by (intro yields_if steps yields_gbind [OF yields_large] yields_gret that assms(1))
      (use that(1) in auto)
  show ?thesis
    unfolding payments_of_def
    by (intro steps yields_if yields_gbind [OF yields_primary_status] yields_gbind [OF refund]
        cut_if [OF yields_large [OF assms(1)] yields_small [OF assms(1)]] yields_gret assms(1))
      (use c in \<open>auto simp: payments_ok_def payment_ok_def refund_ok_def EVENT_COUNT_def
        elim: option.pred_mono_strong\<close>)
qed

definition all_payments_ok :: "gen_user list \<Rightarrow> gen_order list \<Rightarrow> payment_row list \<Rightarrow> bool" where
  "all_payments_ok users orders rows \<longleftrightarrow>
     (\<exists>gs. rows = concat gs \<and> list_all2 (payments_ok users) orders gs)"

lemma yields_payments:
  assumes "lib_ok L" "list_all (order_ok users) orders"
  shows "yields (payment_rows L orders (staff_of users)) (all_payments_ok users orders)"
  unfolding payment_rows_def all_payments_ok_def
  by (rule yields_groups) (use assms in \<open>auto simp: list_all_iff intro: yields_payments_of\<close>)

section \<open>Audit log, inventory and flags\<close>

definition audit_ok :: "gen_user list \<Rightarrow> gen_session list \<Rightarrow> audit_row \<Rightarrow> bool" where
  "audit_ok users sessions r \<longleftrightarrow>
     pred_option (\<lambda>i. i \<in> u_id ` set users) (a_actor r)
     \<and> pred_option (\<lambda>i. i \<in> ss_id ` set sessions) (a_session r)
     \<and> pred_option (\<lambda>e. 1 \<le> e \<and> e \<le> int EVENT_COUNT) (a_event r)
     \<and> a_action r \<in> set audit_actions
     \<and> 1 \<le> a_occurred_offset_mins r \<and> a_occurred_offset_mins r < 500000"

lemma yields_audit:
  assumes "lib_ok L" "users \<noteq> []" "sessions \<noteq> []"
  shows "yields (draw_audit L users sessions i) (audit_ok users sessions)"
  unfolding draw_audit_def
  by (intro draws assms) (auto simp: audit_ok_def EVENT_COUNT_def)

definition location_ok :: "location_row \<Rightarrow> bool" where
  "location_ok r \<longleftrightarrow> 20 \<le> l_capacity r \<and> l_capacity r < 500"

definition locations_ok :: "location_row list \<Rightarrow> bool" where
  "locations_ok rows \<longleftrightarrow>
     map (\<lambda>r. (l_warehouse r, l_bin r)) rows = inventory_pairs \<and> list_all location_ok rows"

lemma yields_locations:
  assumes "lib_ok L" shows "yields (gtraverse (draw_location L) inventory_pairs) locations_ok"
proof (rule yields_mono [OF yields_traverse
      [where P = "\<lambda>p r. (l_warehouse r, l_bin r) = p \<and> location_ok r"]])
  show "yields (draw_location L p) (\<lambda>r. (l_warehouse r, l_bin r) = p \<and> location_ok r)" for p
    unfolding draw_location_def by (intro draws assms) (auto simp: location_ok_def)
next
  fix rows :: "location_row list"
  assume "list_all2 (\<lambda>p r. (l_warehouse r, l_bin r) = p \<and> location_ok r) inventory_pairs rows"
  then have "map (\<lambda>r. (l_warehouse r, l_bin r)) rows = inventory_pairs \<and> list_all location_ok rows"
    by (induction rule: list_all2_induct) auto
  then show "locations_ok rows" by (simp add: locations_ok_def)
qed

lemma inventory_pairs_distinct: "distinct inventory_pairs" "length inventory_pairs = 8"
  by (simp_all add: inventory_pairs_def bin_code_def two_digits_def digit_char_def upt_rec)

definition count_ok :: "count_row \<Rightarrow> bool" where
  "count_ok r \<longleftrightarrow>
     (c_warehouse r, c_bin r) \<in> set inventory_pairs
     \<and> 1 \<le> c_product_id r \<and> c_product_id r \<le> int PRODUCT_COUNT
     \<and> 0 \<le> c_quantity r \<and> c_quantity r < 2000
     \<and> pred_option (\<lambda>b. 4 \<le> length b \<and> length b < 12) (c_photo r)
     \<and> 0 \<le> c_counted_offset_days r \<and> c_counted_offset_days r < 200"

lemma yields_count:
  assumes "lib_ok L" shows "yields (draw_count L inventory_pairs) count_ok"
  unfolding draw_count_def
  by (intro draws assms) (auto simp: split_beta count_ok_def PRODUCT_COUNT_def intro!: draws assms)

definition flag_ok :: "flag_row \<Rightarrow> bool" where
  "flag_ok r \<longleftrightarrow>
     (f_rollout r \<noteq> None \<longleftrightarrow> f_enabled r) \<and> pred_option (\<lambda>n. 0 \<le> n \<and> n \<le> 100) (f_rollout r)
     \<and> 1 \<le> f_created_days_ago r \<and> f_created_days_ago r < 300"

definition flags_ok :: "flag_row list \<Rightarrow> bool" where
  "flags_ok rows \<longleftrightarrow> map f_key rows = flag_keys \<and> list_all flag_ok rows"

lemma yields_flags:
  assumes "lib_ok L" shows "yields (gtraverse (draw_flag L) flag_keys) flags_ok"
proof (rule yields_mono [OF yields_traverse [where P = "\<lambda>k r. f_key r = k \<and> flag_ok r"]])
  show "yields (draw_flag L k) (\<lambda>r. f_key r = k \<and> flag_ok r)" for k
    unfolding draw_flag_def by (intro draws assms) (auto simp: flag_ok_def)
next
  fix rows assume "list_all2 (\<lambda>k r. f_key r = k \<and> flag_ok r) flag_keys rows"
  then have "map f_key rows = flag_keys \<and> list_all flag_ok rows"
    by (induction rule: list_all2_induct) auto
  then show "flags_ok rows" by (simp add: flags_ok_def)
qed

lemma flag_keys_distinct: "distinct flag_keys"
  by (simp add: flag_keys_def)

section \<open>The whole seed\<close>

text \<open>Every row satisfies what its table declares.\<close>

definition seed_typed :: "seed_data \<Rightarrow> bool" where
  "seed_typed d \<longleftrightarrow>
     users_ok (sd_users d) \<and> products_ok (sd_products d)
     \<and> length (sd_events d) = EVENT_COUNT \<and> length (sd_sessions d) = SESSION_COUNT
     \<and> length (sd_tickets d) = SUPPORT_TICKET_COUNT \<and> length (sd_audit d) = AUDIT_LOG_COUNT
     \<and> locations_ok (sd_locations d) \<and> length (sd_counts d) = INVENTORY_COUNT_ROWS
     \<and> list_all count_ok (sd_counts d) \<and> flags_ok (sd_flags d)"

text \<open>Every reference points at a row of its table, and a sensible one.\<close>

definition seed_linked :: "seed_data \<Rightarrow> bool" where
  "seed_linked d \<longleftrightarrow>
     (let users = sd_users d; orders = sd_orders d
      in orders_ok users orders \<and> extras_ok orders (sd_extras d)
         \<and> list_all (event_ok users) (sd_events d) \<and> list_all (session_ok users) (sd_sessions d)
         \<and> reviews_ok users orders (sd_reviews d) \<and> list_all (ticket_ok users orders) (sd_tickets d)
         \<and> all_payments_ok users orders (sd_payments d)
         \<and> list_all (audit_ok users (sd_sessions d)) (sd_audit d))"

lemma yields_seed:
  assumes "lib_ok L" "productive L"
  shows "yields (draw_seed L) (\<lambda>d. seed_typed d \<and> seed_linked d)"
  unfolding draw_seed_def
proof (rule yields_cut [OF yields_users [OF assms]], goal_cases)
  case (1 users)
  then have u: "users \<noteq> []" "list_all user_ok users"
    by (auto simp: users_ok_def USER_COUNT_def)
  show ?case
  proof (rule yields_cut [OF yields_orders [OF assms(1)]], goal_cases)
    case (1 orders)
    then have o': "list_all (order_ok users) orders" by (simp add: orders_ok_def)
    note ticket = yields_all [OF yields_ticket [OF assms(1) u(1), of orders]]
    note event = yields_all [where P = "event_ok users" and xs = "[0..<EVENT_COUNT]" and f = "draw_event L users"]
    show ?case
    proof (intro yields_cut [OF yields_extras [OF assms(1)]] yields_cut [OF yields_products [OF assms(1)]]
        yields_cut [OF event] yields_cut [OF yields_sessions [OF assms(1) u(1)]]
        yields_cut [OF yields_reviews [OF assms(1) u(1)]] yields_cut [OF ticket]
        yields_cut [OF yields_payments [OF assms(1) o']], goal_cases)
      case (1 extras products i)
      show ?case by (rule yields_mono [OF yields_event [OF assms(1) u]]) simp
    next
      case (2 extras products events sessions reviews tickets payments)
      then have s: "sessions \<noteq> []" by (auto simp: SESSION_COUNT_def)
      show ?case
        by (intro yields_cut [OF yields_all [OF yields_audit [OF assms(1) u(1) s]]]
            yields_cut [OF yields_locations [OF assms(1)]]
            yields_cut [OF yields_all [OF yields_count [OF assms(1)]]]
            yields_cut [OF yields_flags [OF assms(1)]] yields_gret)
          (use 2 \<open>users_ok users\<close> \<open>orders_ok users orders\<close> in
            \<open>simp add: seed_typed_def seed_linked_def\<close>)
    qed
  qed
qed

section \<open>Shipping\<close>

text \<open>A cancelled order never ships; another ships at most once, after it was placed, and is
  delivered after it shipped.\<close>

definition shipment_ok :: "gen_order \<Rightarrow> shipment_row \<Rightarrow> bool" where
  "shipment_ok r h \<longleftrightarrow>
     h_order_id h = o_id r \<and> o_status r \<noteq> ''cancelled''
     \<and> pred_option (\<lambda>c. 1 \<le> c \<and> c \<le> int CARRIER_COUNT) (h_carrier_id h)
     \<and> length (h_tracking_number h) = 12 \<and> h_status h \<in> set SHIPMENT_STATUS_POOL
     \<and> 0 \<le> h_shipped_offset_mins h \<and> h_shipped_offset_mins h < o_created_offset_mins r
     \<and> (h_delivered_offset_mins h \<noteq> None \<longleftrightarrow> h_status h = ''delivered'')
     \<and> pred_option (\<lambda>m. 0 \<le> m \<and> m \<le> h_shipped_offset_mins h) (h_delivered_offset_mins h)"

definition shipments_of :: "gen_order \<Rightarrow> shipment_row list \<Rightarrow> bool" where
  "shipments_of r hs \<longleftrightarrow> hs = [] \<or> (\<exists>h. hs = [h] \<and> shipment_ok r h)"

definition shipment_event_ok :: "gen_user list \<Rightarrow> nat \<times> int \<Rightarrow> shipment_event_row \<Rightarrow> bool" where
  "shipment_event_ok users p v \<longleftrightarrow>
     v_shipment_id v = int (fst p) + 1
     \<and> pred_option (\<lambda>i. i \<in> u_id ` set (staff_of users)) (v_handled_by v)
     \<and> v_event_type v \<in> set SHIPMENT_EVENT_TYPES
     \<and> 0 \<le> v_occurred_offset_mins v \<and> v_occurred_offset_mins v \<le> snd p"

definition shipping_ok :: "seed_data \<Rightarrow> shipping_data \<Rightarrow> bool" where
  "shipping_ok d h \<longleftrightarrow>
     map k_name (sh_carriers h) = CARRIER_NAMES
     \<and> (\<exists>gs. sh_shipments h = concat gs \<and> list_all2 shipments_of (sd_orders d) gs)
     \<and> (\<exists>gs. sh_events h = concat gs
          \<and> list_all2 (\<lambda>p g. 1 \<le> length g \<and> length g \<le> 4
               \<and> list_all (shipment_event_ok (sd_users d) p) g)
              (zip [0..<length (sh_shipments h)] (map h_shipped_offset_mins (sh_shipments h))) gs)"

lemma length_tracking:
  assumes "100000000 \<le> i" "i < 999999999"
  shows "length (pad_zeros 9 (int_str i)) = 9"
proof -
  have "length (nat_str (nat i)) \<le> 9" using assms by (intro length_nat_str) auto
  with assms show ?thesis by (simp add: pad_zeros_def int_str_def)
qed

lemma yields_shipment:
  assumes "lib_ok L" "order_ok users r"
  shows "yields (shipment_of L r) (shipments_of r)"
proof -
  have c: "60 \<le> o_created_offset_mins r" using assms(2) by (simp add: order_ok_def)
  show ?thesis
    unfolding shipment_of_def
    by (intro draws assms(1))
      (use c in \<open>auto simp: shipments_of_def shipment_ok_def CARRIER_COUNT_def length_tracking\<close>)
qed

lemma yields_shipment_event:
  assumes "lib_ok L" "0 \<le> off"
  shows "yields (draw_shipment_event L (staff_of users) (int n + 1) off) (shipment_event_ok users (n, off))"
  unfolding draw_shipment_event_def
  by (intro draws assms(1)) (use assms(2) in \<open>auto simp: shipment_event_ok_def\<close>)

lemma yields_shipping:
  assumes "lib_ok L" "list_all (order_ok (sd_users d)) (sd_orders d)"
  shows "yields (draw_shipping L d) (shipping_ok d)"
  unfolding draw_shipping_def
proof (rule yields_cut [OF yields_traverse [where P = "\<lambda>n r. k_name r = n"]], goal_cases)
  case (1 n)
  show ?case unfolding draw_carrier_def by (intro draws) simp
next
  case (2 carriers)
  then have carriers: "map k_name carriers = CARRIER_NAMES"
    by (induction rule: list_all2_induct) auto
  have ships: "yields (shipment_rows L (sd_orders d))
      (\<lambda>hs. \<exists>gs. hs = concat gs \<and> list_all2 shipments_of (sd_orders d) gs)"
    unfolding shipment_rows_def
    by (rule yields_groups) (use assms in \<open>auto simp: list_all_iff intro: yields_shipment\<close>)
  show ?case
  proof (rule yields_cut [OF ships], goal_cases)
    case (1 hs)
    then obtain gs where gs: "hs = concat gs" "list_all2 shipments_of (sd_orders d) gs" by blast
    let ?zs = "zip [0..<length hs] (map h_shipped_offset_mins hs)"
    let ?P = "\<lambda>p g. 1 \<le> length g \<and> length g \<le> 4 \<and> list_all (shipment_event_ok (sd_users d) p) g"
    have off: "0 \<le> h_shipped_offset_mins h" if "h \<in> set hs" for h
      using groups_member [OF gs(2), of h] that unfolding gs(1)
      by (auto simp: shipments_of_def shipment_ok_def)
    have "yields (shipment_event_rows L (map h_shipped_offset_mins hs) (staff_of (sd_users d)))
        (\<lambda>vs. \<exists>gs. vs = concat gs \<and> list_all2 ?P ?zs gs)"
      unfolding shipment_event_rows_def length_map
    proof (rule yields_groups)
      fix p assume "p \<in> set ?zs"
      then have "(fst p, snd p) \<in> set ?zs" by simp
      then have "snd p \<in> set (map h_shipped_offset_mins hs)" by (rule set_zip_rightD)
      with off have "0 \<le> snd p" by auto
      then show "yields (case p of (idx, off) \<Rightarrow> gbind (random_range L I32 (Upto 1 4)) (\<lambda>n.
          gtraverse (\<lambda>_. draw_shipment_event L (staff_of (sd_users d)) (int idx + 1) off) [0..<nat n])) (?P p)"
        by (cases p)
          (auto intro!: steps assms(1) yields_mono [OF yields_all [OF yields_shipment_event [OF assms(1)]]])
    qed
    then show ?case
      by (rule yields_cut, intro yields_gret) (use carriers gs in \<open>auto simp: shipping_ok_def\<close>)
  qed
qed

end
