(* ===== verification/Seed_Read.thy ===== *)
theory Seed_Read
  imports Seed_Wf
begin

text \<open>
  Both seeds read back. Each row's text is a \<open>sql_printer\<close>: it stands for the literals \<open>..._vals\<close>
  of the row, whatever text the fakers returned, and so does the list of statements of a seed. The
  values of a row are the same in both dialects up to how a time, a list of tags and bytes are
  written.
\<close>

section \<open>The literals of a row\<close>

abbreviation (input) pg_mins :: "int \<Rightarrow> string list" where
  "pg_mins \<equiv> offset_lits ANCHOR_TS [] '' minutes''"

abbreviation (input) pg_days :: "int \<Rightarrow> string list" where
  "pg_days \<equiv> offset_lits ANCHOR_TS [] '' days''"

abbreviation (input) pg_date :: "int \<Rightarrow> string list" where
  "pg_date \<equiv> date_lits"

abbreviation (input) lite_mins :: "int \<Rightarrow> string list" where
  "lite_mins \<equiv> offset_lits ANCHOR_TS_SQLITE ''-'' '' minutes''"

abbreviation (input) lite_days :: "int \<Rightarrow> string list" where
  "lite_days \<equiv> offset_lits ANCHOR_TS_SQLITE ''-'' '' days''"

abbreviation (input) lite_date :: "int \<Rightarrow> string list" where
  "lite_date \<equiv> offset_lits ANCHOR_DATE ''-'' '' days''"

abbreviation (input) single :: "string \<Rightarrow> string list" where
  "single \<equiv> \<lambda>s. [s]"

definition user_vals :: "(int \<Rightarrow> string list) \<Rightarrow> (int \<Rightarrow> string list) \<Rightarrow> gen_user \<Rightarrow> string list" where
  "user_vals mins days u =
     [u_id u, u_email u, u_full_name u, u_metadata u]
     @ opt_vals mins (u_last_login_offset_mins u) @ days (u_created_offset_days u)"

definition order_vals ::
  "(string list \<Rightarrow> string list) \<Rightarrow> (int \<Rightarrow> string list) \<Rightarrow> gen_order \<Rightarrow> string list" where
  "order_vals tags mins r =
     [o_id r, o_user_id r, o_status r] @ opt_vals tags (o_tags r) @ [json_items (o_line_items r)]
     @ mins (o_created_offset_mins r)"

definition extra_vals :: "extra_row \<Rightarrow> string list" where
  "extra_vals r = x_order_id r # opt_vals single (x_message r)"

definition product_vals :: "(int \<Rightarrow> string list) \<Rightarrow> product_row \<Rightarrow> string list" where
  "product_vals date r =
     [p_sku r, p_name r, p_category r] @ opt_vals single (p_description r) @ date (p_created_days_ago r)"

definition event_vals :: "(int \<Rightarrow> string list) \<Rightarrow> event_row \<Rightarrow> string list" where
  "event_vals mins r =
     opt_vals single (e_user_id r) @ [e_type r, event_payload r, e_ip r] @ mins (e_occurred_mins_ago r)"

definition session_vals :: "(int \<Rightarrow> string list) \<Rightarrow> gen_session \<Rightarrow> string list" where
  "session_vals mins r =
     [ss_id r, ss_user_id r, ss_device r, ss_user_agent r, ss_ip r]
     @ mins (ss_started_offset_mins r) @ opt_vals mins (ss_ended_offset_mins r)"

definition review_vals :: "(int \<Rightarrow> string list) \<Rightarrow> review_row \<Rightarrow> string list" where
  "review_vals mins r =
     r_user_id r # opt_vals single (r_order_id r) @ opt_vals single (r_title r)
     @ opt_vals single (r_body r) @ mins (r_created_offset_mins r)"

definition ticket_vals :: "(int \<Rightarrow> string list) \<Rightarrow> ticket_row \<Rightarrow> string list" where
  "ticket_vals mins r =
     t_user_id r # opt_vals single (t_assigned r) @ opt_vals single (t_order_id r)
     @ [t_subject r, t_description r, t_status r]
     @ mins (t_created_offset_mins r) @ opt_vals mins (t_resolved_offset_mins r)"

definition payment_vals :: "(int \<Rightarrow> string list) \<Rightarrow> payment_row \<Rightarrow> string list" where
  "payment_vals mins r =
     y_order_id r # opt_vals single (y_processed_by r) @ [y_status r, y_gateway_response r]
     @ mins (y_offset_mins r)"

definition audit_vals :: "(int \<Rightarrow> string list) \<Rightarrow> audit_row \<Rightarrow> string list" where
  "audit_vals mins r =
     opt_vals single (a_actor r) @ opt_vals single (a_session r) @ [a_action r, audit_details r]
     @ mins (a_occurred_offset_mins r)"

definition location_vals :: "location_row \<Rightarrow> string list" where
  "location_vals r =
     [l_warehouse r, l_bin r]
     @ (if l_labelled r then [''Aisle '' @ l_bin r @ '' '' @ [CHR 0xE2, CHR 0x80, CHR 0x94] @ '' ''
     @ l_warehouse r] else [])"

definition count_vals ::
  "(8 word list \<Rightarrow> string list) \<Rightarrow> (int \<Rightarrow> string list) \<Rightarrow> count_row \<Rightarrow> string list" where
  "count_vals bytes days r =
     [c_warehouse r, c_bin r] @ opt_vals bytes (c_photo r) @ days (c_counted_offset_days r)"

definition flag_vals :: "(int \<Rightarrow> string list) \<Rightarrow> flag_row \<Rightarrow> string list" where
  "flag_vals date r = f_key r # date (f_created_days_ago r)"

definition carrier_vals :: "carrier_row \<Rightarrow> string list" where
  "carrier_vals r = [k_name r, k_email r]"

definition shipment_vals :: "(int \<Rightarrow> string list) \<Rightarrow> shipment_row \<Rightarrow> string list" where
  "shipment_vals mins r =
     [h_order_id r, h_tracking_number r, h_status r] @ mins (h_shipped_offset_mins r)
     @ opt_vals mins (h_delivered_offset_mins r)"

definition shipment_event_vals :: "(int \<Rightarrow> string list) \<Rightarrow> shipment_event_row \<Rightarrow> string list" where
  "shipment_event_vals mins r =
     opt_vals single (v_handled_by r) @ v_event_type r # mins (v_occurred_offset_mins r)
     @ opt_vals single (v_notes r)"

section \<open>The literals written with no escape\<close>

definition user_text :: "gen_user \<Rightarrow> bool" where
  "user_text u \<longleftrightarrow> lit_free (u_id u)"

definition order_clean :: "gen_order \<Rightarrow> bool" where
  "order_clean r \<longleftrightarrow>
     lit_free (o_id r) \<and> lit_free (o_user_id r) \<and> lit_free (o_status r)
     \<and> lit_free (json_items (o_line_items r))"

definition extra_text_ok :: "extra_row \<Rightarrow> bool" where
  "extra_text_ok r \<longleftrightarrow> lit_free (x_order_id r)"

definition event_text :: "event_row \<Rightarrow> bool" where
  "event_text r \<longleftrightarrow> pred_option lit_free (e_user_id r) \<and> lit_free (event_payload r)"

definition session_text :: "gen_session \<Rightarrow> bool" where
  "session_text r \<longleftrightarrow> lit_free (ss_id r) \<and> lit_free (ss_user_id r)"

definition review_text :: "review_row \<Rightarrow> bool" where
  "review_text r \<longleftrightarrow> lit_free (r_user_id r) \<and> pred_option lit_free (r_order_id r)"

definition ticket_text :: "ticket_row \<Rightarrow> bool" where
  "ticket_text r \<longleftrightarrow>
     lit_free (t_user_id r) \<and> pred_option lit_free (t_assigned r) \<and> pred_option lit_free (t_order_id r)"

definition payment_text :: "payment_row \<Rightarrow> bool" where
  "payment_text r \<longleftrightarrow> lit_free (y_order_id r) \<and> pred_option lit_free (y_processed_by r)"

definition audit_text :: "audit_row \<Rightarrow> bool" where
  "audit_text r \<longleftrightarrow> pred_option lit_free (a_actor r) \<and> pred_option lit_free (a_session r)"

definition shipment_text :: "shipment_row \<Rightarrow> bool" where
  "shipment_text r \<longleftrightarrow> lit_free (h_order_id r)"

definition shipment_event_text :: "shipment_event_row \<Rightarrow> bool" where
  "shipment_event_text r \<longleftrightarrow> pred_option lit_free (v_handled_by r)"

lemma lit_free_nat_str [simp]: "lit_free (nat_str n)"
  using lit_free_int_str [of "int n"] by (simp add: int_str_def)

lemma audit_details_free [simp]: "lit_free (audit_details r)"
  by (simp add: audit_details_def)

section \<open>Rows are printers\<close>

interpretation tags_pg: sql_printer tags_sql "\<lambda>t. t" always
proof
  fix t :: "string list" and rest n vs
  assume rest: "not_first squote rest"
  have "spells n (t @ vs) (str_join '', '' (map q t) @ CHR '']'' # rest) \<longleftrightarrow> spells n vs rest"
    by (induction t rule: induct_list012) simp_all
  then show "spells n (t @ vs) (tags_sql t @ rest) \<longleftrightarrow> spells n vs rest"
    by (simp add: tags_sql_def)
qed

interpretation tags_lite: sql_printer tags_sql_lite
  "\<lambda>t. [json_strings t]" always
  by unfold_locales (simp add: tags_sql_lite_def)

lemmas row_printed = printed tags_pg.optional tags_lite.optional

interpretation user_pg: sql_printer user_sql "user_vals pg_mins pg_days" user_text
  by unfold_locales (simp add: user_sql_def user_vals_def user_text_def row_printed)

interpretation user_lite: sql_printer user_sql_lite "user_vals lite_mins lite_days" user_text
  by unfold_locales (simp add: user_sql_lite_def user_vals_def user_text_def row_printed)

interpretation order_pg: sql_printer order_row_sql
  "order_vals (\<lambda>t. t) pg_mins" order_clean
  by unfold_locales (simp add: order_row_sql_def order_vals_def order_clean_def row_printed)

interpretation order_lite: sql_printer order_row_sql_lite
  "order_vals (\<lambda>t. [json_strings t]) lite_mins" order_clean
  by unfold_locales (simp add: order_row_sql_lite_def order_vals_def order_clean_def row_printed)

interpretation product_pg: sql_printer product_sql
  "product_vals pg_date" always
  by unfold_locales (simp add: product_sql_def product_vals_def row_printed)

interpretation product_lite: sql_printer product_sql_lite
  "product_vals lite_date" always
  by unfold_locales (simp add: product_sql_lite_def product_vals_def row_printed)

interpretation event_pg: sql_printer event_sql
  "event_vals pg_mins" event_text
  by unfold_locales (simp add: event_sql_def event_vals_def event_text_def row_printed)

interpretation event_lite: sql_printer event_sql_lite
  "event_vals lite_mins" event_text
  by unfold_locales (simp add: event_sql_lite_def event_vals_def event_text_def row_printed)

interpretation session_pg: sql_printer session_sql
  "session_vals pg_mins" session_text
  by unfold_locales (simp add: session_sql_def session_vals_def session_text_def row_printed)

interpretation session_lite: sql_printer session_sql_lite
  "session_vals lite_mins" session_text
  by unfold_locales (simp add: session_sql_lite_def session_vals_def session_text_def row_printed)

interpretation review_pg: sql_printer review_sql
  "review_vals pg_mins" review_text
  by unfold_locales (simp add: review_sql_def review_vals_def review_text_def row_printed)

interpretation review_lite: sql_printer review_sql_lite
  "review_vals lite_mins" review_text
  by unfold_locales (simp add: review_sql_lite_def review_vals_def review_text_def row_printed)

interpretation ticket_pg: sql_printer ticket_sql
  "ticket_vals pg_mins" ticket_text
  by unfold_locales (simp add: ticket_sql_def ticket_vals_def ticket_text_def row_printed)

interpretation ticket_lite: sql_printer ticket_sql_lite
  "ticket_vals lite_mins" ticket_text
  by unfold_locales (simp add: ticket_sql_lite_def ticket_vals_def ticket_text_def row_printed)

interpretation payment_pg: sql_printer payment_sql
  "payment_vals pg_mins" payment_text
  by unfold_locales (simp add: payment_sql_def payment_vals_def payment_text_def row_printed)

interpretation payment_lite: sql_printer payment_sql_lite
  "payment_vals lite_mins" payment_text
  by unfold_locales (simp add: payment_sql_lite_def payment_vals_def payment_text_def row_printed)

interpretation audit_pg: sql_printer audit_sql
  "audit_vals pg_mins" audit_text
  by unfold_locales (simp add: audit_sql_def audit_vals_def audit_text_def row_printed)

interpretation audit_lite: sql_printer audit_sql_lite
  "audit_vals lite_mins" audit_text
  by unfold_locales (simp add: audit_sql_lite_def audit_vals_def audit_text_def row_printed)

interpretation count_pg: sql_printer count_sql
  "count_vals (\<lambda>bs. [bytea_val bs]) pg_days" always
  by unfold_locales (simp add: count_sql_def count_vals_def row_printed)

interpretation count_lite: sql_printer count_sql_lite
  "count_vals (\<lambda>bs. [hex_text bs]) lite_days" always
  by unfold_locales (simp add: count_sql_lite_def count_vals_def row_printed)

interpretation flag_pg: sql_printer flag_sql
  "flag_vals pg_date" always
  by unfold_locales (simp add: flag_sql_def flag_vals_def row_printed)

interpretation flag_lite: sql_printer flag_sql_lite
  "flag_vals lite_date" always
  by unfold_locales (simp add: flag_sql_lite_def flag_vals_def row_printed)

interpretation extra_printer: sql_printer extra_sql
  extra_vals extra_text_ok
  by unfold_locales (simp add: extra_sql_def extra_vals_def extra_text_ok_def row_printed)

interpretation location_printer: sql_printer location_sql
  location_vals always
  by unfold_locales (simp add: location_sql_def location_vals_def Let_def row_printed)

interpretation carrier_printer: sql_printer carrier_sql
  carrier_vals always
  by unfold_locales (simp add: carrier_sql_def carrier_vals_def row_printed)

interpretation shipment_printer: sql_printer shipment_sql
  "shipment_vals pg_mins" shipment_text
  by unfold_locales (simp add: shipment_sql_def shipment_vals_def shipment_text_def row_printed)

interpretation shipment_event_printer: sql_printer shipment_event_sql
  "shipment_event_vals pg_mins" shipment_event_text
  by unfold_locales (simp add: shipment_event_sql_def shipment_event_vals_def shipment_event_text_def row_printed)

section \<open>Statements\<close>

lemmas inserts =
  users_insert_def orders_insert_def extra_insert_def products_insert_def events_insert_def
  sessions_insert_def reviews_insert_def tickets_insert_def payments_insert_def audit_insert_def
  locations_insert_def counts_insert_def flags_insert_def carriers_insert_def shipments_insert_def
  shipment_events_insert_def

lemma insert_first [simp]:
  "not_first squote (users_insert @ t)" "not_first squote (orders_insert @ t)"
  "not_first squote (extra_insert @ t)" "not_first squote (products_insert @ t)"
  "not_first squote (events_insert @ t)" "not_first squote (sessions_insert @ t)"
  "not_first squote (reviews_insert @ t)" "not_first squote (tickets_insert @ t)"
  "not_first squote (payments_insert @ t)" "not_first squote (audit_insert @ t)"
  "not_first squote (locations_insert @ t)" "not_first squote (counts_insert @ t)"
  "not_first squote (flags_insert @ t)" "not_first squote (carriers_insert @ t)"
  "not_first squote (shipments_insert @ t)" "not_first squote (shipment_events_insert @ t)"
  by (simp_all add: inserts)

lemma insert_spells [simp]:
  "spells n vs (users_insert @ t) \<longleftrightarrow> spells n vs t" "spells n vs (orders_insert @ t) \<longleftrightarrow> spells n vs t"
  "spells n vs (extra_insert @ t) \<longleftrightarrow> spells n vs t" "spells n vs (products_insert @ t) \<longleftrightarrow> spells n vs t"
  "spells n vs (events_insert @ t) \<longleftrightarrow> spells n vs t" "spells n vs (sessions_insert @ t) \<longleftrightarrow> spells n vs t"
  "spells n vs (reviews_insert @ t) \<longleftrightarrow> spells n vs t" "spells n vs (tickets_insert @ t) \<longleftrightarrow> spells n vs t"
  "spells n vs (payments_insert @ t) \<longleftrightarrow> spells n vs t" "spells n vs (audit_insert @ t) \<longleftrightarrow> spells n vs t"
  "spells n vs (locations_insert @ t) \<longleftrightarrow> spells n vs t" "spells n vs (counts_insert @ t) \<longleftrightarrow> spells n vs t"
  "spells n vs (flags_insert @ t) \<longleftrightarrow> spells n vs t" "spells n vs (carriers_insert @ t) \<longleftrightarrow> spells n vs t"
  "spells n vs (shipments_insert @ t) \<longleftrightarrow> spells n vs t"
  "spells n vs (shipment_events_insert @ t) \<longleftrightarrow> spells n vs t"
  by (simp_all add: inserts)

lemma extras_spells:
  assumes "list_all extra_text_ok rows" "not_first squote t"
  shows "spells (stmts rows + n) (concat (map extra_vals rows) @ vs) (extra_text rows @ t)
    \<longleftrightarrow> spells n vs t"
  using extra_printer.rows_spells [OF assms, of n vs]
  by (cases "rows = []") (simp_all add: extra_text_def stmts_def del: spells_char)

lemma extra_text_first [simp]: "not_first squote t \<Longrightarrow> not_first squote (extra_text rows @ t)"
  by (simp add: extra_text_def)

definition lite_literals :: "seed_data \<Rightarrow> string list" where
  "lite_literals d =
     concat (map (user_vals lite_mins lite_days) (sd_users d))
     @ concat (map (order_vals (\<lambda>t. [json_strings t]) lite_mins) (sd_orders d))
     @ concat (map extra_vals (sd_extras d))
     @ concat (map (product_vals lite_date) (sd_products d))
     @ concat (map (event_vals lite_mins) (sd_events d))
     @ concat (map (session_vals lite_mins) (sd_sessions d))
     @ concat (map (review_vals lite_mins) (sd_reviews d))
     @ concat (map (ticket_vals lite_mins) (sd_tickets d))
     @ concat (map (payment_vals lite_mins) (sd_payments d))
     @ concat (map (audit_vals lite_mins) (sd_audit d))
     @ concat (map location_vals (sd_locations d))
     @ concat (map (count_vals (\<lambda>bs. [hex_text bs]) lite_days) (sd_counts d))
     @ concat (map (flag_vals lite_date) (sd_flags d))"

definition pg_literals :: "seed_data \<Rightarrow> shipping_data \<Rightarrow> string list" where
  "pg_literals d h =
     concat (map (user_vals pg_mins pg_days) (sd_users d))
     @ concat (map (order_vals (\<lambda>t. t) pg_mins) (sd_orders d))
     @ concat (map extra_vals (sd_extras d))
     @ concat (map (product_vals pg_date) (sd_products d))
     @ concat (map (event_vals pg_mins) (sd_events d))
     @ concat (map (session_vals pg_mins) (sd_sessions d))
     @ concat (map (review_vals pg_mins) (sd_reviews d))
     @ concat (map (ticket_vals pg_mins) (sd_tickets d))
     @ concat (map (payment_vals pg_mins) (sd_payments d))
     @ concat (map (audit_vals pg_mins) (sd_audit d))
     @ concat (map location_vals (sd_locations d))
     @ concat (map (count_vals (\<lambda>bs. [bytea_val bs]) pg_days) (sd_counts d))
     @ concat (map (flag_vals pg_date) (sd_flags d))
     @ concat (map carrier_vals (sh_carriers h))
     @ concat (map (shipment_vals pg_mins) (sh_shipments h))
     @ concat (map (shipment_event_vals pg_mins) (sh_events h))"

definition seed_stmts :: "seed_data \<Rightarrow> nat" where
  "seed_stmts d =
     stmts (sd_users d) + (stmts (sd_orders d) + (stmts (sd_extras d) + (stmts (sd_products d)
     + (stmts (sd_events d) + (stmts (sd_sessions d) + (stmts (sd_reviews d) + (stmts (sd_tickets d)
     + (stmts (sd_payments d) + (stmts (sd_audit d) + (stmts (sd_locations d) + (stmts (sd_counts d)
     + stmts (sd_flags d))))))))))))"

definition shipping_stmts :: "shipping_data \<Rightarrow> nat" where
  "shipping_stmts h = stmts (sh_carriers h) + (stmts (sh_shipments h) + stmts (sh_events h))"

definition seed_text_ok :: "seed_data \<Rightarrow> bool" where
  "seed_text_ok d \<longleftrightarrow>
     list_all user_text (sd_users d) \<and> list_all order_clean (sd_orders d)
     \<and> list_all extra_text_ok (sd_extras d) \<and> list_all event_text (sd_events d)
     \<and> list_all session_text (sd_sessions d) \<and> list_all review_text (sd_reviews d)
     \<and> list_all ticket_text (sd_tickets d) \<and> list_all payment_text (sd_payments d)
     \<and> list_all audit_text (sd_audit d)"

lemmas seed_rows_lite =
  user_lite.rows_spells order_lite.rows_spells extras_spells product_lite.rows_spells
  event_lite.rows_spells session_lite.rows_spells review_lite.rows_spells ticket_lite.rows_spells
  payment_lite.rows_spells audit_lite.rows_spells location_printer.rows_spells
  count_lite.rows_spells flag_lite.rows_spells

lemmas seed_rows_pg =
  user_pg.rows_spells order_pg.rows_spells extras_spells product_pg.rows_spells
  event_pg.rows_spells session_pg.rows_spells review_pg.rows_spells ticket_pg.rows_spells
  payment_pg.rows_spells audit_pg.rows_spells location_printer.rows_spells
  count_pg.rows_spells flag_pg.rows_spells carrier_printer.rows_spells
  shipment_printer.rows_spells shipment_event_printer.rows_spells

lemma sqlite_body_spells:
  assumes "seed_text_ok d" "not_first squote t"
  shows "spells (seed_stmts d + n) (lite_literals d @ vs) (sqlite_body d @ t) \<longleftrightarrow> spells n vs t"
  using assms
  by (simp add: seed_text_ok_def sqlite_body_def lite_literals_def seed_stmts_def add.assoc seed_rows_lite)

lemma postgres_body_spells:
  assumes "seed_text_ok d" "list_all shipment_text (sh_shipments h)"
    "list_all shipment_event_text (sh_events h)" "not_first squote t"
  shows "spells (seed_stmts d + shipping_stmts h + n) (pg_literals d h @ vs) (postgres_body d h @ t)
    \<longleftrightarrow> spells n vs t"
  using assms
  by (simp add: seed_text_ok_def postgres_body_def pg_literals_def seed_stmts_def shipping_stmts_def
      add.assoc seed_rows_pg)

end
