(* ===== verification/Seed_Correct.thy ===== *)
theory Seed_Correct
  imports Seed_Read
begin

text \<open>
  The properties of the seed generator: both generators return, with rows that satisfy their
  schema and refer to each other; whatever text the fakers return, the statements read back as
  exactly those rows; the sentinel row carries the checksum of everything before it. \<open>counter_lib\<close>
  is a library that keeps to \<open>lib_ok\<close> and \<open>productive\<close>.
\<close>

section \<open>Rows that hold in a seed are printed safely\<close>

lemma lit_free_join: "list_all lit_free xs \<Longrightarrow> lit_free (json_items xs)"
proof -
  assume "list_all lit_free xs"
  then have "lit_free (str_join '', '' xs)" by (induction xs rule: induct_list012) auto
  then show ?thesis by (simp add: json_items_def)
qed

lemma pools_lit_free:
  "x \<in> set ORDER_STATUSES \<Longrightarrow> lit_free x" "x \<in> set event_paths \<Longrightarrow> lit_free x"
  by (auto simp: ORDER_STATUSES_def event_paths_def)

lemma option_lit_free: "pred_option P x \<Longrightarrow> (\<And>i. P i \<Longrightarrow> lit_free i) \<Longrightarrow> pred_option lit_free x"
  by (cases x) auto

lemma staff_users: "i \<in> u_id ` set (staff_of users) \<Longrightarrow> i \<in> u_id ` set users"
  by (auto simp: staff_of_def)

lemma ids_lit_free:
  assumes "seed_typed d" "seed_linked d"
  shows "i \<in> u_id ` set (sd_users d) \<Longrightarrow> lit_free i"
    and "i \<in> u_id ` set (staff_of (sd_users d)) \<Longrightarrow> lit_free i"
    and "r \<in> set (sd_orders d) \<Longrightarrow> lit_free (o_id r)"
    and "own_order (sd_orders d) u i \<Longrightarrow> lit_free i"
    and "i \<in> ss_id ` set (sd_sessions d) \<Longrightarrow> lit_free i"
proof -
  show users: "lit_free i" if "i \<in> u_id ` set (sd_users d)" for i
    using assms(1) that users_id by (auto simp: seed_typed_def users_ok_def)
  show "lit_free i" if "i \<in> u_id ` set (staff_of (sd_users d))" for i
    using users staff_users [OF that] by blast
  show orders: "lit_free (o_id r)" if "r \<in> set (sd_orders d)" for r
    using assms(2) that
    by (auto simp: seed_linked_def Let_def orders_ok_def order_ok_def list_all_iff intro: uuid_lit_free)
  show "lit_free i" if "own_order (sd_orders d) u i" for u i
    using orders that by (auto simp: own_order_def)
  show "lit_free i" if "i \<in> ss_id ` set (sd_sessions d)" for i
    using assms(2) that
    by (auto simp: seed_linked_def Let_def session_ok_def list_all_iff intro: uuid_lit_free)
qed

lemma seed_text_ok:
  assumes "seed_typed d" "seed_linked d" shows "seed_text_ok d"
  unfolding seed_text_ok_def
proof (intro conjI)
  note ids = ids_lit_free [OF assms]
  have L: "orders_ok (sd_users d) (sd_orders d)" "extras_ok (sd_orders d) (sd_extras d)"
    "list_all (event_ok (sd_users d)) (sd_events d)" "list_all (session_ok (sd_users d)) (sd_sessions d)"
    "reviews_ok (sd_users d) (sd_orders d) (sd_reviews d)"
    "list_all (ticket_ok (sd_users d) (sd_orders d)) (sd_tickets d)"
    "all_payments_ok (sd_users d) (sd_orders d) (sd_payments d)"
    "list_all (audit_ok (sd_users d) (sd_sessions d)) (sd_audit d)"
    using assms(2) by (simp_all add: seed_linked_def Let_def)
  show "list_all user_text (sd_users d)"
    using ids(1) by (simp add: list_all_iff user_text_def)
  show "list_all order_clean (sd_orders d)"
    using L(1) ids(1,3) pools_lit_free(1) lit_free_join
    by (auto simp: orders_ok_def order_ok_def order_clean_def list_all_iff)
  show "list_all extra_text_ok (sd_extras d)"
    using L(2) ids(3)
    by (fastforce simp: extras_ok_def list_all_iff extra_of_def extra_text_ok_def dest!: groups_member)
  show "list_all event_text (sd_events d)"
    using L(3) pools_lit_free(2)
    by (auto simp: list_all_iff event_ok_def event_text_def event_payload_def elim: option_lit_free)
  show "list_all session_text (sd_sessions d)"
    using L(4) ids(1,5) by (auto simp: list_all_iff session_ok_def session_text_def)
  show "list_all review_text (sd_reviews d)"
    using L(5) ids(1,4)
    by (fastforce simp: reviews_ok_def list_all_iff review_ok_def review_text_def
        dest!: groups_member elim: option_lit_free)
  show "list_all ticket_text (sd_tickets d)"
    using L(6) ids(1,2,4)
    by (auto simp: list_all_iff ticket_ok_def ticket_text_def elim!: option_lit_free)
  show "list_all payment_text (sd_payments d)"
    using L(7) ids(2,3)
    by (fastforce simp: all_payments_ok_def list_all_iff payments_ok_def payment_ok_def refund_ok_def
        payment_text_def dest!: groups_member elim: option_lit_free)
  show "list_all audit_text (sd_audit d)"
    using L(8) ids(1,5)
    by (auto simp: list_all_iff audit_ok_def audit_text_def elim!: option_lit_free)
qed

lemma shipping_text:
  assumes "seed_typed d" "seed_linked d" "shipping_ok d h"
  shows "list_all shipment_text (sh_shipments h)" "list_all shipment_event_text (sh_events h)"
proof -
  note ids = ids_lit_free [OF assms(1,2)]
  obtain gs where gs: "sh_shipments h = concat gs" "list_all2 shipments_of (sd_orders d) gs"
    using assms(3) by (auto simp: shipping_ok_def)
  show "list_all shipment_text (sh_shipments h)"
    unfolding list_all_iff gs(1)
  proof
    fix r assume "r \<in> set (concat gs)"
    from groups_member [OF gs(2) this] show "shipment_text r"
      using ids(3) by (auto simp: shipments_of_def shipment_ok_def shipment_text_def)
  qed
  obtain vs where vs: "sh_events h = concat vs"
    "list_all2 (\<lambda>p g. 1 \<le> length g \<and> length g \<le> 4 \<and> list_all (shipment_event_ok (sd_users d) p) g)
       (zip [0..<length (sh_shipments h)] (map h_shipped_offset_mins (sh_shipments h))) vs"
    using assms(3) unfolding shipping_ok_def by blast
  show "list_all shipment_event_text (sh_events h)"
    unfolding list_all_iff vs(1)
  proof
    fix v assume "v \<in> set (concat vs)"
    from groups_member [OF vs(2) this] show "shipment_event_text v"
      using ids(2)
      by (auto simp: list_all_iff shipment_event_ok_def shipment_event_text_def elim!: option_lit_free)
  qed
qed

section \<open>A library that keeps to its contract\<close>

definition counter_lib :: "nat lib" where
  "counter_lib =
     \<lparr>lib_bool = (\<lambda>p s. (even s, Suc s)),
      lib_range = (\<lambda>ty sp s. (case sp of Until a b \<Rightarrow> a | Upto a b \<Rightarrow> a, Suc s)),
      lib_index = (\<lambda>n s. (s mod n, Suc s)),
      lib_sample = (\<lambda>n k s. ([0..<min k n], Suc s)),
      lib_fill = (\<lambda>n s. (replicate n (of_nat s), Suc s)),
      lib_uuid = hex_text,
      lib_fake = (\<lambda>k s. (nat_str s, Suc s)),
      lib_paragraphs = (\<lambda>a b s. ([nat_str s], Suc s))\<rparr>"

lemma hex_digit_uuid: "d < 16 \<Longrightarrow> uuid_char (hex_digit d)"
proof -
  assume "d < 16"
  then have "d < 10 \<or> d = 10 \<or> d = 11 \<or> d = 12 \<or> d = 13 \<or> d = 14 \<or> d = 15" by arith
  then show ?thesis
    by (auto simp: uuid_char_def hex_digit_def is_digit_def take_bit_nat_def char_of_eq_iff)
qed

lemma byte_digits: "unat (b :: 8 word) div 16 < 16" "unat (b :: 8 word) mod 16 < 16"
proof -
  have "unat b < 2 ^ LENGTH(8)" by (rule unsigned_less)
  then show "unat b div 16 < 16" by (simp add: less_mult_imp_div_less)
qed simp

lemma hex_text_uuid: "list_all uuid_char (hex_text bs)"
  by (induction bs) (simp_all add: hex_text_def byte_hex_def hex_digit_uuid byte_digits)

lemma counter_lib_ok: "lib_ok counter_lib"
  unfolding lib_ok_def counter_lib_def
  by (auto simp: hex_text_uuid min_def split: span.splits)

lemma counter_emails: "email_at counter_lib n s = nat_str (s + n)"
proof -
  have "email_state counter_lib n s = s + n"
    by (induction n arbitrary: s) (simp_all add: email_state_Suc, simp_all add: counter_lib_def)
  then show ?thesis by (simp add: email_at_def counter_lib_def)
qed

lemma counter_productive: "productive counter_lib"
  unfolding productive_def
proof (intro allI impI)
  fix seen :: "string set" and s :: nat
  assume "finite seen"
  moreover have "inj (\<lambda>n. email_at counter_lib n s)"
    by (rule injI) (simp add: counter_emails)
  ultimately show "\<exists>n. email_at counter_lib n s \<notin> seen"
    using finite_imageD [of "\<lambda>n. email_at counter_lib n s" UNIV] finite_subset [of "range (\<lambda>n. email_at counter_lib n s)" seen]
    by (metis image_subsetI infinite_UNIV_nat)
qed

section \<open>Statements and hexadecimal digits\<close>

lemma seed_stmts_value:
  assumes "seed_typed d" "seed_linked d"
  shows "seed_stmts d = 10 + stmts (sd_orders d) + stmts (sd_extras d) + stmts (sd_payments d)"
proof -
  have "sd_users d \<noteq> []" "sd_products d \<noteq> []" "sd_events d \<noteq> []" "sd_sessions d \<noteq> []"
    "sd_tickets d \<noteq> []" "sd_audit d \<noteq> []" "sd_locations d \<noteq> []" "sd_counts d \<noteq> []" "sd_flags d \<noteq> []"
    using assms(1) unfolding seed_typed_def
    by (auto simp: users_ok_def products_ok_def locations_ok_def flags_ok_def sizes
        SUPPORT_TICKET_COUNT_def AUDIT_LOG_COUNT_def inventory_pairs_def flag_keys_def)
  moreover have "sd_reviews d \<noteq> []"
    using assms(2) reviews_count [of "sd_users d" "sd_orders d" "sd_reviews d"]
    by (auto simp: seed_linked_def Let_def)
  ultimately show ?thesis by (simp add: seed_stmts_def stmts_def)
qed

definition hex_val :: "char \<Rightarrow> nat" where
  "hex_val c = (if is_digit c then digit_val c else of_char c - 87)"

definition hex_num :: "string \<Rightarrow> nat" where
  "hex_num s = foldl (\<lambda>n c. 16 * n + hex_val c) 0 s"

fun bytes_of_hex :: "string \<Rightarrow> 8 word list option" where
  "bytes_of_hex [] = Some []"
| "bytes_of_hex [c] = None"
| "bytes_of_hex (c # d # s) =
     map_option (Cons (word_of_nat (16 * hex_val c + hex_val d))) (bytes_of_hex s)"

lemma hex_val_digit: "d < 16 \<Longrightarrow> hex_val (hex_digit d) = d"
  by (auto simp: hex_val_def hex_digit_def is_digit_def digit_val_def take_bit_nat_def)

lemma bytes_of_hex_text: "bytes_of_hex (hex_text bs) = Some bs"
proof (induction bs)
  case (Cons b bs)
  have "16 * hex_val (hex_digit (unat b div 16)) + hex_val (hex_digit (unat b mod 16)) = unat b"
    by (simp only: hex_val_digit byte_digits mult_div_mod_eq)
  with Cons show ?case by (simp add: hex_text_def byte_hex_def)
qed (simp add: hex_text_def)

lemma hex_num_digits:
  "hex_num (map (\<lambda>i. hex_digit (n div 16 ^ i mod 16)) (rev [0..<k])) = n mod 16 ^ k"
proof (induction k arbitrary: n)
  case 0
  then show ?case by (simp add: hex_num_def)
next
  case (Suc k)
  have "map (\<lambda>i. hex_digit (n div 16 ^ i mod 16)) (rev [0..<Suc k])
      = map (\<lambda>i. hex_digit (n div 16 div 16 ^ i mod 16)) (rev [0..<k]) @ [hex_digit (n mod 16)]"
    by (simp add: upt_conv_Cons map_Suc_upt [symmetric] rev_map comp_def div_mult2_eq
        del: upt_Suc map_Suc_upt)
  then have "hex_num (map (\<lambda>i. hex_digit (n div 16 ^ i mod 16)) (rev [0..<Suc k]))
      = 16 * (n div 16 mod 16 ^ k) + n mod 16"
    using Suc.IH [of "n div 16"] by (simp add: hex_num_def hex_val_digit)
  then show ?case by (simp add: mod_mult2_eq)
qed

lemma hex16_num: "hex_num (hex16 w) = unat w"
proof -
  have "unat w < 2 ^ LENGTH(64)" by (rule unsigned_less)
  then have "unat w mod 16 ^ 16 = unat w" by simp
  then show ?thesis unfolding hex16_def hex_num_digits .
qed

text \<open>FNV-1a over numbers: the reference the word version is compared with.\<close>

definition fnv_reference :: "string \<Rightarrow> nat" where
  "fnv_reference data =
     foldl (\<lambda>h c. xor h (of_char c) * 0x100000001b3 mod 2 ^ 64) 0xcbf29ce484222325 data"

lemma fnv_step:
  "unat (xor h (of_nat (of_char c)) * PRIME) = xor (unat h) (of_char c) * 0x100000001b3 mod 2 ^ 64"
proof -
  have b: "(of_char c :: nat) < 256" by simp
  have "take_bit 64 (of_char c :: nat) = of_char c"
    by (rule take_bit_nat_eq_self, rule less_trans [OF b]) simp
  then have "unat (of_nat (of_char c) :: 64 word) = of_char c"
    by (simp add: unsigned_of_nat)
  then show ?thesis by (simp add: unat_word_ariths(2) PRIME_def unsigned_xor_eq)
qed

lemma fnv1a64_reference: "unat (fnv1a64 data) = fnv_reference data"
proof -
  have "unat (foldl (\<lambda>h c. xor h (of_nat (of_char c)) * PRIME) w data)
      = foldl (\<lambda>h c. xor h (of_char c) * 0x100000001b3 mod 2 ^ 64) (unat w) data" for w
    by (induction data arbitrary: w) (simp_all only: foldl.simps fnv_step)
  then show ?thesis by (simp add: fnv1a64_def fnv_reference_def OFFSET_BASIS_def)
qed

lemma yields_generate_sqlite:
  assumes "lib_ok L" "productive L"
  shows "yields (generate_sqlite L) (\<lambda>out. \<exists>d. out = sqlite_text d \<and> seed_typed d \<and> seed_linked d)"
  unfolding sqlite_refines
  by (intro yields_gmap, rule yields_mono [OF yields_seed [OF assms]]) blast

lemma yields_generate_postgres:
  assumes "lib_ok L" "productive L"
  shows "yields (generate_postgres L)
    (\<lambda>out. \<exists>d h. out = postgres_text d h \<and> seed_typed d \<and> seed_linked d \<and> shipping_ok d h)"
  unfolding postgres_refines
proof (rule yields_cut [OF yields_seed [OF assms]])
  fix d assume d: "seed_typed d \<and> seed_linked d"
  then have "list_all (order_ok (sd_users d)) (sd_orders d)"
    by (simp add: seed_linked_def Let_def orders_ok_def)
  from yields_shipping [OF assms(1) this]
  show "yields (gmap (postgres_text d) (draw_shipping L d))
      (\<lambda>out. \<exists>d h. out = postgres_text d h \<and> seed_typed d \<and> seed_linked d \<and> shipping_ok d h)"
    by (intro yields_gmap, elim yields_mono) (use d in blast)
qed

section \<open>Properties\<close>

text \<open>C17: whatever the fakers return, the SQLite generator returns, and with a seed whose
  rows satisfy what their tables declare: the number of rows, unique addresses and product codes,
  numbers in their ranges, statuses of their enumerations; and whose references point at rows of
  the seed: a review or ticket names an order of its own user, a payment its order's amount, an
  assignee a member of the staff, and no session ends before it starts.\<close>

theorem generate_sqlite_correct:
  assumes "lib_ok L" "productive L"
  shows "\<exists>d s'. generate_sqlite L s = Some (sqlite_text d, s') \<and> seed_typed d \<and> seed_linked d"
  using yieldsD [OF yields_generate_sqlite [OF assms], of s] by blast

theorem generate_sqlite_correct_witness:
  "\<exists>d s'. generate_sqlite counter_lib 7 = Some (sqlite_text d, s') \<and> seed_typed d \<and> seed_linked d"
  by (rule generate_sqlite_correct [OF counter_lib_ok counter_productive])

text \<open>C13: the PostgreSQL generator returns, with such a seed and a shipping schema that
  fits it: only orders that were not cancelled ship, at most once and after they were placed,
  they are delivered no earlier than shipped, and each shipment has one to four events, handled
  by staff, none before it shipped.\<close>

theorem generate_postgres_correct:
  assumes "lib_ok L" "productive L"
  shows "\<exists>d h s'. generate_postgres L s = Some (postgres_text d h, s')
    \<and> seed_typed d \<and> seed_linked d \<and> shipping_ok d h"
  using yieldsD [OF yields_generate_postgres [OF assms], of s] by blast

theorem generate_postgres_correct_witness:
  "\<exists>d h s'. generate_postgres counter_lib 7 = Some (postgres_text d h, s')
    \<and> seed_typed d \<and> seed_linked d \<and> shipping_ok d h"
  by (rule generate_postgres_correct [OF counter_lib_ok counter_productive])

text \<open>C14: both generators refine one specification, which draws the rows of every
  table and writes nothing: from any state of the random generator, each returns exactly when the
  specification does, with the text of the same rows in its own dialect and the same state, the
  PostgreSQL one then drawing the shipping schema. So the twins never drift apart.\<close>

theorem generators_refine:
  "generate_sqlite L = gmap sqlite_text (draw_seed L)
   \<and> generate_postgres L = gbind (draw_seed L) (\<lambda>d. gmap (postgres_text d) (draw_shipping L d))"
  by (rule conjI [OF sqlite_refines postgres_refines])

text \<open>C16: whatever text the fakers return, the statements of the SQLite seed lex to the
  rows' values: no literal ends early or swallows what follows, and the statements end where a
  table's rows do. A table without orders, extras or payments has no statement end.\<close>

theorem sqlite_seed_reads_back:
  assumes "lib_ok L" "productive L"
  shows "\<exists>d s'. generate_sqlite L s = Some (sqlite_header_text @ sqlite_schema_text @ sqlite_body d, s')
    \<and> spells (10 + stmts (sd_orders d) + stmts (sd_extras d) + stmts (sd_payments d))
        (lite_literals d) (sqlite_body d)"
proof -
  obtain d s' where d: "draw_seed L s = Some (d, s')" "seed_typed d" "seed_linked d"
    using yieldsD [OF yields_seed [OF assms], of s] by blast
  then have "spells (seed_stmts d + 0) (lite_literals d @ []) (sqlite_body d @ [])"
    by (subst sqlite_body_spells) (simp_all add: seed_text_ok spells_Nil)
  with d show ?thesis
    by (auto simp: sqlite_refines gmap_Some sqlite_text_def seed_stmts_value)
qed

theorem sqlite_seed_reads_back_witness:
  "\<exists>d s'. generate_sqlite counter_lib 7
      = Some (sqlite_header_text @ sqlite_schema_text @ sqlite_body d, s')
    \<and> spells (10 + stmts (sd_orders d) + stmts (sd_extras d) + stmts (sd_payments d))
        (lite_literals d) (sqlite_body d)"
  by (rule sqlite_seed_reads_back [OF counter_lib_ok counter_productive])

text \<open>C15: the statements of the PostgreSQL seed read back in the same way; its body lies between its schema and the
  \<open>analyze\<close> block, under the sentinel row.\<close>

theorem postgres_seed_reads_back:
  assumes "lib_ok L" "productive L"
  shows "\<exists>d h s'. generate_postgres L s
      = Some (write_conformance_meta
          (write_schema (write_header []) @ postgres_body d h @ analyze_text), s')
    \<and> spells (10 + stmts (sd_orders d) + stmts (sd_extras d) + stmts (sd_payments d) + shipping_stmts h)
        (pg_literals d h) (postgres_body d h)"
proof -
  obtain d s1 where d: "draw_seed L s = Some (d, s1)" "seed_typed d" "seed_linked d"
    using yieldsD [OF yields_seed [OF assms], of s] by blast
  then have "list_all (order_ok (sd_users d)) (sd_orders d)"
    by (simp add: seed_linked_def Let_def orders_ok_def)
  then obtain h s2 where h: "draw_shipping L d s1 = Some (h, s2)" "shipping_ok d h"
    using yieldsD [OF yields_shipping [OF assms(1)], of d s1] by blast
  have "spells (seed_stmts d + shipping_stmts h + 0) (pg_literals d h @ []) (postgres_body d h @ [])"
    using d h by (subst postgres_body_spells) (simp_all add: seed_text_ok shipping_text spells_Nil)
  with d h show ?thesis
    by (auto simp: postgres_refines gbind_Some gmap_Some postgres_text_def seed_stmts_value)
qed

theorem postgres_seed_reads_back_witness:
  "\<exists>d h s'. generate_postgres counter_lib 7
      = Some (write_conformance_meta
          (write_schema (write_header []) @ postgres_body d h @ analyze_text), s')
    \<and> spells (10 + stmts (sd_orders d) + stmts (sd_extras d) + stmts (sd_payments d) + shipping_stmts h)
        (pg_literals d h) (postgres_body d h)"
  by (rule postgres_seed_reads_back [OF counter_lib_ok counter_productive])

text \<open>C19: the unbounded loop that draws a new address ends exactly when some later
  draw has not been seen, and then with the first such and the state after it.\<close>

theorem fresh_email_terminates_iff:
  "fresh_email L seen s =
     (if \<exists>n. email_at L n s \<notin> seen
      then (let n = LEAST n. email_at L n s \<notin> seen in Some (email_at L n s, email_state L (Suc n) s))
      else None)"
  by (rule fresh_email_iff)

text \<open>C18: under any argument that is Unicode text (\<open>std::env::args\<close> panics on any other, before the
  program reads it) a run of the program ends: with a printed seed when the argument names a dialect or
  is missing, and otherwise with exit code 1 and no seed.\<close>

theorem main_returns:
  assumes "lib_ok L" "productive L"
  shows "\<exists>r. main L seeded arg = Some r
    \<and> ((\<exists>m. r = Exited 1 m) \<longleftrightarrow> (\<exists>a. arg = Some a \<and> a \<notin> {''postgres'', ''sqlite''}))
    \<and> ((\<exists>out. r = Printed out) \<longleftrightarrow> arg \<in> {None, Some ''postgres'', Some ''sqlite''})"
proof -
  obtain x where x: "generate_sqlite L (seeded SEED) = Some x"
    using yieldsD [OF yields_generate_sqlite [OF assms]] by blast
  obtain y where y: "generate_postgres L (seeded SEED) = Some y"
    using yieldsD [OF yields_generate_postgres [OF assms]] by blast
  consider (pg) "arg \<in> {None, Some ''postgres''}" | (lite) "arg = Some ''sqlite''"
    | (other) a where "arg = Some a" "a \<notin> {''postgres'', ''sqlite''}"
    by (cases arg) auto
  then show ?thesis
  proof cases
    case pg
    then have "main L seeded arg = Some (Printed (fst y))"
      unfolding main_def Let_def by (auto simp only: y option.case option.map case_prod_beta simp_thms if_True)
    with pg show ?thesis by auto
  next
    case lite
    then have "main L seeded arg = Some (Printed (fst x))"
      unfolding main_def Let_def by (simp only: x option.case option.map case_prod_beta) simp
    with lite show ?thesis by auto
  next
    case other
    then have "\<exists>m. main L seeded arg = Some (Exited 1 m)"
      unfolding main_def Let_def by (simp only: option.case) auto
    with other show ?thesis by auto
  qed
qed

theorem main_returns_witness:
  "\<exists>r. main counter_lib (\<lambda>w. unat w) (Some ''mysql'') = Some r
    \<and> ((\<exists>m. r = Exited 1 m) \<longleftrightarrow> (\<exists>a. Some ''mysql'' = Some a \<and> a \<notin> {''postgres'', ''sqlite''}))
    \<and> ((\<exists>out. r = Printed out) \<longleftrightarrow> Some ''mysql'' \<in> {None, Some ''postgres'', Some ''sqlite''})"
  by (rule main_returns [OF counter_lib_ok counter_productive])

text \<open>The sentinel row is one statement whose literals are the seed's version,
  the dialect and sixteen hexadecimal digits that denote the FNV-1a hash, computed over numbers
  modulo \<open>2^64\<close>, of everything written before it.\<close>

theorem conformance_meta_correct:
  "\<exists>stmt c. write_conformance_meta out = out @ stmt \<and> spells 1 [''5'', ''postgres'', c] stmt
    \<and> length c = 16 \<and> hex_num c = fnv_reference out"
proof -
  have version: "trim CONFORMANCE_VERSION = ''5''" by code_simp
  let ?c = "hex16 (fnv1a64 out)"
  let ?stmt = "''insert into _conformance_meta (seed_version, dialect, checksum) values (''
    @ q ''5'' @ '', '' @ squoted ''postgres'' @ '', '' @ q ?c @ '');'' @ [newline]"
  have "spells 1 [''5'', ''postgres'', ?c] ?stmt"
    by (simp add: spells_semicolon spells_Nil)
  moreover have "write_conformance_meta out = out @ ?stmt"
    by (simp add: write_conformance_meta_def version Let_def)
  moreover have "length ?c = 16" by (simp add: hex16_def)
  moreover have "hex_num ?c = fnv_reference out" by (simp add: hex16_num fnv1a64_reference)
  ultimately show ?thesis by blast
qed

text \<open>A photo's literal reads back as one literal in both dialects, and its digits
  decode to the same bytes.\<close>

theorem photo_round_trip:
  "\<exists>h. bytes_of_hex h = Some bs
    \<and> lex dquote (sqlite_blob_lit bs) = [Raw (CHR ''X''), Literal h]
    \<and> lex dquote (bytea_lit bs) = Literal ([backslash] @ ''x'' @ h) # map Raw ''::bytea''"
proof (intro exI [of _ "hex_text bs"] conjI bytes_of_hex_text)
  have free: "replace_char squote [squote, squote] (hex_text bs) = hex_text bs"
    using lit_free_hex_text [of bs] by (intro replace_char_absent) (auto simp: lit_free_def list_all_iff)
  show "lex dquote (sqlite_blob_lit bs) = [Raw (CHR ''X''), Literal (hex_text bs)]"
    using scan_escaped [of squote "[]" "hex_text bs"]
    by (simp add: sqlite_blob_lit_def squoted_def free)
  show "lex dquote (bytea_lit bs) = Literal ([backslash] @ ''x'' @ hex_text bs) # map Raw ''::bytea''"
    using scan_escaped [of squote "''::bytea''" "backslash # CHR ''x'' # hex_text bs"]
    by (simp add: bytea_lit_def bytea_val_def squoted_def free)
qed

end
