(* ===== verification/Conf_Engine.thy ===== *)
theory Conf_Engine
  imports Conf_Harness Seed_Correct
begin

text \<open>
  The static state of the conformance runner: whatever the order in which the tests of a process
  call \<open>TestServer::spawn\<close> and \<open>Backend::current\<close>, they see one engine; and the sentinel row that the
  seed generator writes is one the runner accepts.
\<close>

section \<open>What a spawn does to the cells\<close>

definition env_agrees :: "env_vars \<Rightarrow> engine \<Rightarrow> bool" where
  "env_agrees vars e \<longleftrightarrow>
     (\<forall>b e'. vars ''ASHURBANIPAL_CONFORMANCE_BACKEND'' = Some b \<and> parse_engine b = Some e' \<longrightarrow> e' = e)"

definition checked_cells :: "env_vars \<Rightarrow> statics \<Rightarrow> statics \<Rightarrow> bool" where
  "checked_cells vars k k' \<longleftrightarrow>
     sk_checked k' \<and> sk_ready k' \<and> sk_fallback k' = sk_fallback k
     \<and> (sk_seeded k' = sk_seeded k
        \<or> (\<exists>e. sk_seeded k = None \<and> sk_seeded k' = Some e \<and> env_agrees vars e))"

lemma engines_agree_env:
  "engines_agree vars dialect \<Longrightarrow> parse_engine dialect = Some e \<Longrightarrow> env_agrees vars e"
  by (auto simp: engines_agree_def env_agrees_def split: option.splits)

lemma record_checked:
  assumes "engines_agree vars dialect"
  shows "checked_cells vars k ((mark_seed_checked (record_from_seed dialect k))\<lparr>sk_ready := True\<rparr>)"
  using engines_agree_env [OF assms]
  by (auto simp: checked_cells_def mark_seed_checked_def record_from_seed_def once_set_def split: option.splits)

lemma unrecorded_checked: "checked_cells vars k ((mark_seed_checked k)\<lparr>sk_ready := True\<rparr>)"
  by (simp add: checked_cells_def mark_seed_checked_def)

lemma require_Some: "require b s = Some (u, s') \<longleftrightarrow> b \<and> s' = s"
  by (auto simp: require_def gret_def gfail_def)

lemma unwrap_gen_Some_iff: "unwrap_gen v s = Some (x, s') \<longleftrightarrow> v = Some x \<and> s' = s"
  by (auto simp: unwrap_gen_def gret_def gfail_def split: option.splits)

lemma on_world_Some:
  "on_world m s = Some (x, s') \<longleftrightarrow> (\<exists>k w w'. s = (k, w) \<and> m w = Some (x, w') \<and> s' = (k, w'))"
  by (cases s) (auto simp: on_world_def)

lemma on_statics_Some:
  "on_statics f s = Some (u, s') \<longleftrightarrow> (\<exists>k w. s = (k, w) \<and> s' = (f k, w))"
  by (cases s) (auto simp: on_statics_def)

lemmas run_Some = gbind_Some require_Some unwrap_gen_Some_iff on_world_Some on_statics_Some

lemma verify_cells:
  assumes "verify_seed_sentinel vars T (k, w) = Some (u, (k', w'))"
  shows "checked_cells vars k (k'\<lparr>sk_ready := True\<rparr>)"
  using assms unfolding verify_seed_sentinel_def
  by (auto simp: run_Some reply_json_def gret_def record_checked unrecorded_checked split: option.splits)

lemma spawn_cells:
  assumes "spawn vars psql T (k, w) = Some (u, (k', w'))"
  shows "if sk_ready k then k' = k else checked_cells vars k k'"
proof (cases "sk_ready k")
  case False
  then obtain s where "gbind (if vars ''ASHURBANIPAL_CONFORMANCE_SEED_DSN'' \<noteq> None then require psql else gret ())
      (\<lambda>_. verify_seed_sentinel vars T) (k, w) = Some ((), s)" "k' = (fst s)\<lparr>sk_ready := True\<rparr>"
    using assms by (auto simp: spawn_def ensure_seed_def run_Some)
  then show ?thesis
    using verify_cells [of vars T k w "()" "fst s" "snd s"] False
    by (auto simp: run_Some gret_def split: if_splits)
qed (use assms in \<open>simp add: spawn_def\<close>)

section \<open>One engine\<close>

definition cells_inv :: "env_vars \<Rightarrow> runner_event list \<Rightarrow> statics \<Rightarrow> bool" where
  "cells_inv vars es k \<longleftrightarrow>
     sk_checked k = sk_ready k
     \<and> (sk_checked k \<longrightarrow> Spawned \<in> set es)
     \<and> (\<forall>e. sk_seeded k = Some e \<longrightarrow> env_agrees vars e)
     \<and> (\<forall>e. sk_fallback k = Some e \<longrightarrow> e = env_engine vars)
     \<and> (\<forall>e. Current e \<in> set es \<longrightarrow>
          sk_checked k \<and> (sk_seeded k = Some e \<or> (sk_seeded k = None \<and> sk_fallback k = Some e)))"

lemma env_engine_agrees: "env_agrees vars (env_engine vars)"
  by (auto simp: env_agrees_def env_engine_def unwrap_or_def)

lemma spawn_inv:
  assumes "cells_inv vars es k" "spawn vars psql T (k, w) = Some (u, (k', w'))"
  shows "cells_inv vars (es @ [Spawned]) k'"
proof (cases "sk_ready k")
  case True
  then show ?thesis using assms spawn_cells [OF assms(2)] by (auto simp: cells_inv_def)
next
  case False
  then have "checked_cells vars k k'" using spawn_cells [OF assms(2)] by simp
  then show ?thesis using assms(1) False by (auto simp: cells_inv_def checked_cells_def)
qed

lemma current_inv:
  assumes "cells_inv vars es k" "current_engine vars k = Some (e, k')"
  shows "cells_inv vars (es @ [Current e]) k'"
proof -
  have "sk_checked k" using assms(2) by (auto simp: current_engine_def split: if_splits)
  moreover have "(sk_seeded k = Some e \<and> k' = k)
      \<or> (sk_seeded k = None \<and> e = env_engine vars \<and> k' = k\<lparr>sk_fallback := Some e\<rparr>)"
    using assms unfolding current_engine_def cells_inv_def
    by (auto simp: unwrap_or_def Let_def split: if_splits option.splits)
  ultimately show ?thesis using assms(1) by (auto simp: cells_inv_def)
qed

lemma panic_inv: "cells_inv vars es k \<Longrightarrow> cells_inv vars (es @ [Panicked]) k"
  by (auto simp: cells_inv_def)

lemma step_inv:
  assumes "runner_step vars k e k'" "cells_inv vars es k"
  shows "cells_inv vars (es @ [e]) k'"
  using assms(1)
proof cases
  case (step_spawn psql T w w')
  then show ?thesis using spawn_inv [OF assms(2)] by simp
next
  case step_current
  then show ?thesis using current_inv [OF assms(2)] by simp
qed (use panic_inv [OF assms(2)] in simp_all)

lemma run_inv: "runner_run vars es k \<Longrightarrow> cells_inv vars es k"
proof (induction rule: runner_run.induct)
  case run_start
  then show ?case by (simp add: cells_inv_def statics_new_def)
qed (rule step_inv)

text \<open>C20: In any interleaving of the tests' calls, \<open>Backend::current\<close> answers only after a target was
  checked, all its answers are the same engine, and that engine is the one the environment names
  when it names one.\<close>

theorem engine_is_final:
  assumes "runner_run vars (es @ [Current e]) k"
  shows "Spawned \<in> set es \<and> (\<forall>e'. Current e' \<in> set es \<longrightarrow> e' = e)
    \<and> (\<forall>b e'. vars ''ASHURBANIPAL_CONFORMANCE_BACKEND'' = Some b \<and> parse_engine b = Some e' \<longrightarrow> e' = e)"
proof -
  have inv: "cells_inv vars (es @ [Current e]) k" by (rule run_inv [OF assms])
  then have "Spawned \<in> set es" unfolding cells_inv_def by auto
  moreover have "e' = e" if "Current e' \<in> set es" for e'
  proof -
    have "sk_seeded k = Some a \<or> (sk_seeded k = None \<and> sk_fallback k = Some a)"
      if "Current a \<in> set (es @ [Current e])" for a
      using inv that unfolding cells_inv_def by blast
    from this [of e'] this [of e] that show ?thesis by auto
  qed
  moreover have "env_agrees vars e"
    using inv env_engine_agrees [of vars] unfolding cells_inv_def by auto
  ultimately show ?thesis by (simp add: env_agrees_def)
qed

section \<open>The generated seed\<close>

definition sentinel_target :: target where
  "sentinel_target =
     \<lparr>tg_send = (\<lambda>req w. (Answered \<lparr>hr_status = 200, hr_headers = Map.empty,
        hr_body = BData \<lparr>td_columns = [], td_rows = [Map.empty], td_total_approx = 1\<rparr>\<rparr>, w)),
      tg_origin = ''http://127.0.0.1:4000'', tg_mount = ''/__ashurbanipal'', tg_health = (\<lambda>_ _. False),
      tg_json = (\<lambda>_. JsObj [''rows'' \<mapsto> JsArr [JsObj [''seed_version'' \<mapsto> JsStr ''5'',
        ''dialect'' \<mapsto> JsStr ''postgres'']]])\<rparr>"

lemma parse_postgres: "parse_engine ''postgres'' = Some OnPostgres"
  by (simp add: parse_engine_def trim_def trim_start_def trim_end_def trim_by.simps ws1_def ws2_def ws3_def
      to_ascii_lowercase_def to_lower_char_def)

lemma seed_version_text: "trim SEED_VERSION = ''5''"
  by code_simp

lemma meta_literals:
  assumes "write_conformance_meta out = out @ stmt" "spells 1 [v, d, c] stmt"
  shows "v = ''5'' \<and> d = ''postgres''"
proof -
  obtain c' where "spells 1 [''5'', ''postgres'', c'] stmt"
    using conformance_meta_correct [of out] assms(1) by auto
  with assms(2) show ?thesis by (auto simp: spells_def Let_def)
qed

text \<open>C21: A target that serves the sentinel row as the seed generator wrote it passes the runner's
  seed check, and the runner then tests it as PostgreSQL: the generator's version, dialect and quoting
  are the ones the runner compares with.\<close>

theorem runner_accepts_generated_seed:
  assumes "write_conformance_meta out = out @ stmt" "spells 1 [v, d, c] stmt"
    and "tg_send T (sentinel_request T) w = (Answered r, w')" "hr_status r = 200"
    and "body_json T (hr_body r) = Some J"
    and "index_key (sentinel_row J) ''seed_version'' = JsStr v" "index_key (sentinel_row J) ''dialect'' = JsStr d"
    and "vars ''ASHURBANIPAL_CONFORMANCE_SEED_DSN'' = None \<or> psql"
    and "env_agrees vars OnPostgres"
  shows "\<exists>k. spawn vars psql T (statics_new, w) = Some ((), (k, w'))
    \<and> current_engine vars k = Some (OnPostgres, k)"
proof -
  have vd: "v = ''5''" "d = ''postgres''" using meta_literals [OF assms(1,2)] by auto
  have agree: "engines_agree vars ''postgres''"
    using assms(9) by (auto simp: engines_agree_def env_agrees_def parse_postgres split: option.splits)
  let ?k = "statics_new\<lparr>sk_seeded := Some OnPostgres, sk_checked := True\<rparr>"
  have "send T (sentinel_request T) w
      = Some (\<lparr>rp_status = 200, rp_headers = hr_headers r, rp_body = Some (hr_body r)\<rparr>, w')"
    using assms(3,4) by (simp add: send_def)
  then have "verify_seed_sentinel vars T (statics_new, w) = Some ((), (?k, w'))"
    unfolding verify_seed_sentinel_def
    by (simp add: gbind_def on_world_def require_def gret_def reply_json_def unwrap_gen_def assms(5,6,7) vd
        seed_version_text agree on_statics_def record_from_seed_def parse_postgres once_set_def
        mark_seed_checked_def statics_new_def)
  then have "spawn vars psql T (statics_new, w) = Some ((), (?k\<lparr>sk_ready := True\<rparr>, w'))"
    using assms(8)
    by (auto simp: spawn_def ensure_seed_def gbind_def require_def gret_def on_statics_def statics_new_def)
  then show ?thesis by (auto simp: current_engine_def statics_new_def)
qed

lemma sentinel_spawn:
  "\<exists>stmt c. write_conformance_meta [] = stmt \<and> spells 1 [''5'', ''postgres'', c] stmt"
  using conformance_meta_correct [of "[]"] by auto

lemma runner_accepts_generated_seed_witness:
  "\<exists>k. spawn Map.empty False sentinel_target (statics_new, \<lambda>_. []) = Some ((), (k, \<lambda>_. []))
    \<and> current_engine Map.empty k = Some (OnPostgres, k)"
proof -
  obtain c where "spells 1 [''5'', ''postgres'', c] (write_conformance_meta [])" using sentinel_spawn by auto
  then show ?thesis
    using runner_accepts_generated_seed [of "[]" "write_conformance_meta []" "''5''" "''postgres''" c
        sentinel_target "\<lambda>_. []"]
    by (simp add: sentinel_target_def body_json_def sentinel_row_def get_at_def env_agrees_def)
qed

lemma sentinel_spawned:
  "\<exists>k. spawn Map.empty False sentinel_target (statics_new, \<lambda>_. []) = Some ((), (k, \<lambda>_. []))
    \<and> current_engine Map.empty k = Some (OnPostgres, k)"
  by (simp add: spawn_def statics_new_def ensure_seed_def verify_seed_sentinel_def gbind_def on_world_def send_def
      sentinel_target_def require_def gret_def reply_json_def unwrap_gen_def body_json_def sentinel_row_def
      get_at_def seed_version_text engines_agree_def on_statics_def record_from_seed_def parse_postgres
      once_set_def mark_seed_checked_def current_engine_def)

lemma engine_is_final_witness:
  "\<exists>k. runner_run Map.empty ([Spawned] @ [Current OnPostgres]) k \<and> Spawned \<in> set [Spawned]"
proof -
  obtain k where k: "spawn Map.empty False sentinel_target (statics_new, \<lambda>_. []) = Some ((), (k, \<lambda>_. []))"
    "current_engine Map.empty k = Some (OnPostgres, k)"
    using sentinel_spawned by blast
  have "runner_run Map.empty ([] @ [Spawned]) k"
    by (rule run_step [OF run_start step_spawn]) (rule k(1))
  then have "runner_run Map.empty ([Spawned] @ [Current OnPostgres]) k"
    using run_step [OF _ step_current] k(2) by fastforce
  then show ?thesis using engine_is_final [of Map.empty "[Spawned]" OnPostgres k] by blast
qed

end
