(* ===== verification/Conf_Suites.thy ===== *)
theory Conf_Suites
  imports Conf_Harness
begin

text \<open>
  Conformance suites whose outcome does not depend on the seeded rows: \<^verbatim>\<open>sources.rs\<close>,
  \<^verbatim>\<open>labelled_siblings.rs\<close> and \<^verbatim>\<open>html_and_siblings.rs\<close> of \<^verbatim>\<open>conformance/runner\<close>, test by test, as
  computations against a target, and the one test of \<^verbatim>\<open>two_source.rs\<close> that compares answers
  with each other. \<open>tokio::join!\<close> sends two requests at once; here they reach the server in one
  order or the other.
\<close>

section \<open>The registered sources\<close>

definition get_json :: "target \<Rightarrow> string \<Rightarrow> (string \<times> string) list \<Rightarrow> json probe" where
  "get_json T path query = gbind (get_path T path query) (reply_json T)"

definition source_listed :: "json \<Rightarrow> bool" where
  "source_listed source \<longleftrightarrow> as_str (index_key source ''name'') \<noteq> None \<and> json_get source ''backend'' = None"

definition lists_exactly_the_one_registered_source :: "target \<Rightarrow> unit probe" where
  "lists_exactly_the_one_registered_source T =
     gbind (get_json T ''/api/sources'' []) (\<lambda>body.
     gbind (unwrap_gen (as_array (index_key body ''sources''))) (\<lambda>sources.
     gbind (if length sources \<noteq> 1 then gret () else assert_exact (length sources) 1) (\<lambda>_.
     gmap (\<lambda>_. ()) (gtraverse (\<lambda>source. require (source_listed source)) sources))))"

definition explicit_default_source_matches_the_implicit_default :: "target \<Rightarrow> unit probe" where
  "explicit_default_source_matches_the_implicit_default T =
     gbind (get_json T ''/api/sources'' []) (\<lambda>sources.
     gbind (unwrap_gen (as_str (index_key sources ''default''))) (\<lambda>name.
     gbind (unwrap_gen (as_array (index_key sources ''sources''))) (\<lambda>entries.
     gbind (require (JsObj [''name'' \<mapsto> JsStr name] \<in> set entries)) (\<lambda>_.
     gbind (get_json T ''/api/tables'' []) (\<lambda>implicit.
     gbind (get_json T ''/api/tables'' [(''source'', name)]) (\<lambda>explicit.
     assert_exact explicit implicit))))))"

definition evil_sources :: "string list" where
  "evil_sources =
     [[], ''nonexistent_source'', ''primary\"; drop schema public cascade; --'',
      ''primary'' @ [squote] @ '' OR '' @ [squote] @ ''1'' @ [squote] @ ''=''
     @ [squote] @ ''1'']"

definition rejected_on_every_route :: "target \<Rightarrow> string \<Rightarrow> unit probe" where
  "rejected_on_every_route T evil =
     gbind (get_path T ''/api/schemas'' [(''source'', evil)]) (\<lambda>resp.
     gbind (assert_problem_code T resp 400 ''unknown_source'') (\<lambda>_.
     gbind (get_path T ''/api/tables'' [(''source'', evil)]) (\<lambda>resp.
     gbind (assert_status resp 400) (\<lambda>_.
     gbind (get_path T ''/api/table-counts'' [(''source'', evil)]) (\<lambda>resp.
     gbind (assert_status resp 400) (\<lambda>_.
     gbind (get_path T ''/api/tables/data'' [(''source'', evil), (''table'', ''users'')]) (\<lambda>resp.
     gbind (assert_status resp 400) (\<lambda>_.
     gbind (get_path T ''/api/tables/common-values''
       [(''source'', evil), (''table'', ''users''), (''column'', ''email'')]) (\<lambda>resp.
     assert_status resp 400)))))))))"

definition unrecognized_source_values_are_rejected_cleanly_on_every_route :: "target \<Rightarrow> unit probe" where
  "unrecognized_source_values_are_rejected_cleanly_on_every_route T =
     gmap (\<lambda>_. ()) (gtraverse (rejected_on_every_route T) evil_sources)"

definition every_sources_response_carries_the_protocol_version_header :: "target \<Rightarrow> unit probe" where
  "every_sources_response_carries_the_protocol_version_header T =
     gbind (get_path T ''/api/sources'' []) (\<lambda>resp.
     assert_exact (header_text_of resp ''x-ashurbanipal-protocol'') (Some ''1''))"

section \<open>Two sources\<close>

definition sources_if_two_or_more :: "target \<Rightarrow> json option probe" where
  "sources_if_two_or_more T =
     gbind (get_json T ''/api/sources'' []) (\<lambda>body.
     gbind (unwrap_gen (as_array (index_key body ''sources''))) (\<lambda>sources.
     gret (if length sources < 2 then None else Some body)))"

definition fetch_tables :: "target \<Rightarrow> string option \<Rightarrow> json probe" where
  "fetch_tables T source =
     get_json T ''/api/tables'' (case source of None \<Rightarrow> [] | Some s \<Rightarrow> [(''source'', s)])"

definition concurrently :: "bool \<Rightarrow> 'a probe \<Rightarrow> 'b probe \<Rightarrow> ('a \<times> 'b) probe" where
  "concurrently left_first m1 m2 =
     (if left_first then gbind m1 (\<lambda>x. gmap (\<lambda>y. (x, y)) m2)
      else gbind m2 (\<lambda>y. gmap (\<lambda>x. (x, y)) m1))"

definition api_sources_default_matches_default_resolution :: "bool \<Rightarrow> target \<Rightarrow> unit probe" where
  "api_sources_default_matches_default_resolution left_first T =
     gbind (sources_if_two_or_more T) (\<lambda>found.
     case found of
       None \<Rightarrow> gret ()
     | Some body \<Rightarrow>
         gbind (unwrap_gen (as_str (index_key body ''default''))) (\<lambda>name.
         gbind (concurrently left_first (fetch_tables T None) (fetch_tables T (Some name)))
           (\<lambda>(default_tables, explicit_default_tables).
         assert_exact explicit_default_tables default_tables)))"

section \<open>Labelled siblings\<close>

definition UNREACHABLE :: string where
  "UNREACHABLE = ''http://127.0.0.1:9/__ashurbanipal''"

text \<open>A test of this suite skips itself where the target reports no instance.\<close>

definition labelled_siblings :: "target \<Rightarrow> json option probe" where
  "labelled_siblings T =
     gbind (get_json T ''/api/siblings'' []) (\<lambda>body.
     gret (if index_key body ''instance'' = JsNull then None else Some body))"

definition with_labelled :: "target \<Rightarrow> (json \<Rightarrow> unit probe) \<Rightarrow> unit probe" where
  "with_labelled T test =
     gbind (labelled_siblings T) (\<lambda>body. case body of None \<Rightarrow> gret () | Some b \<Rightarrow> test b)"

definition instance_is_echoed_as_configured :: "target \<Rightarrow> unit probe" where
  "instance_is_echoed_as_configured T =
     with_labelled T (\<lambda>body. assert_exact (index_key body ''instance'')
       (JsObj [''name'' \<mapsto> JsStr ''conformance'', ''label'' \<mapsto> JsStr ''a'']))"

definition labelled_entry :: "string \<Rightarrow> string \<Rightarrow> bool \<Rightarrow> json" where
  "labelled_entry name label healthy =
     JsObj [''name'' \<mapsto> JsStr name, ''label'' \<mapsto> JsStr label, ''base_url'' \<mapsto> JsStr UNREACHABLE,
            ''healthy'' \<mapsto> JsBool healthy]"

definition this_instance_is_listed_healthy_without_a_check :: "target \<Rightarrow> unit probe" where
  "this_instance_is_listed_healthy_without_a_check T =
     with_labelled T (\<lambda>body. assert_exact (index_at (index_key body ''siblings'') 0)
       (labelled_entry ''conformance'' ''a'' True))"

definition labels_are_echoed_in_configuration_order :: "target \<Rightarrow> unit probe" where
  "labels_are_echoed_in_configuration_order T =
     with_labelled T (\<lambda>body. assert_exact (index_key body ''siblings'')
       (JsArr [labelled_entry ''conformance'' ''a'' True, labelled_entry ''conformance'' ''b'' False,
               labelled_entry ''other'' ''a'' False, labelled_entry ''other'' ''a'' False]))"

definition a_duplicate_is_kept_and_warned_once :: "target \<Rightarrow> unit probe" where
  "a_duplicate_is_kept_and_warned_once T =
     with_labelled T (\<lambda>body.
       gbind (unwrap_gen (as_array (index_key body ''warnings''))) (\<lambda>warnings.
       gbind (require (length warnings = 1)) (\<lambda>_.
       require (case as_str (index_at (JsArr warnings) 0) of Some t \<Rightarrow> t \<noteq> [] | None \<Rightarrow> False))))"

section \<open>The page\<close>

definition fetch_page :: "target \<Rightarrow> string option \<Rightarrow> http_reply probe" where
  "fetch_page T accept_encoding =
     gbind (send T (probe_request T [] [] accept_encoding)) (\<lambda>resp.
     gbind (assert_status resp 200) (\<lambda>_.
     gret resp))"

definition header_values :: "http_reply \<Rightarrow> string \<Rightarrow> string list" where
  "header_values resp name =
     (case header_text_of resp name of
        None \<Rightarrow> []
      | Some v \<Rightarrow> map (\<lambda>v. to_ascii_lowercase (trim v)) (split_on (CHR '','') v))"

definition root_serves_the_embedded_dbviewer_html :: "target \<Rightarrow> unit probe" where
  "root_serves_the_embedded_dbviewer_html T =
     gbind (get_path T [] []) (\<lambda>resp.
     gbind (assert_status resp 200) (\<lambda>_.
     gbind (require (contains ''text/html'' (unwrap_or (header_text_of resp ''content-type'') []))) (\<lambda>_.
     gbind (page_bytes resp) (\<lambda>body.
     require (contains ''id=\"tables\"'' body)))))"

definition dbviewer_html_does_not_hardcode_the_api_base :: "target \<Rightarrow> unit probe" where
  "dbviewer_html_does_not_hardcode_the_api_base T =
     gbind (get_path T [] []) (\<lambda>resp.
     gbind (page_bytes resp) (\<lambda>body.
     require (\<not> contains (''\"'' @ url T [] @ ''/api\"'') body)))"

text \<open>\<open>gunzip\<close> is the decoder the test calls (\<^verbatim>\<open>flate2\<close>, third-party).\<close>

definition page_is_gzipped_when_accepted_and_decodes_to_the_same_bytes ::
  "(string \<Rightarrow> string option) \<Rightarrow> target \<Rightarrow> unit probe" where
  "page_is_gzipped_when_accepted_and_decodes_to_the_same_bytes gunzip T =
     gbind (fetch_page T None) (\<lambda>plain.
     gbind (require (rp_headers plain ''content-encoding'' = None)) (\<lambda>_.
     gbind (page_bytes plain) (\<lambda>plain.
     gbind (fetch_page T (Some ''gzip'')) (\<lambda>gzipped.
     gbind (assert_exact (header_values gzipped ''content-encoding'') [''gzip'']) (\<lambda>_.
     gbind (require (''accept-encoding'' \<in> set (header_values gzipped ''vary''))) (\<lambda>_.
     gbind (page_bytes gzipped) (\<lambda>compressed.
     gbind (require (length compressed < length plain div 2)) (\<lambda>_.
     gbind (unwrap_gen (gunzip compressed)) (\<lambda>decoded.
     require (decoded = plain))))))))))"

definition compressed_for :: "target \<Rightarrow> string \<Rightarrow> unit probe" where
  "compressed_for T accept =
     gbind (fetch_page T (Some accept)) (\<lambda>resp. require (rp_headers resp ''content-encoding'' \<noteq> None))"

definition not_gzip_for :: "target \<Rightarrow> string \<Rightarrow> unit probe" where
  "not_gzip_for T accept =
     gbind (fetch_page T (Some accept)) (\<lambda>resp.
     require (header_values resp ''content-encoding'' \<noteq> [''gzip'']))"

definition plain_for :: "target \<Rightarrow> string \<Rightarrow> unit probe" where
  "plain_for T accept =
     gbind (fetch_page T (Some accept)) (\<lambda>resp. require (rp_headers resp ''content-encoding'' = None))"

definition page_encoding_follows_accept_encoding_q_values :: "target \<Rightarrow> unit probe" where
  "page_encoding_follows_accept_encoding_q_values T =
     gbind (gtraverse (compressed_for T)
       [''GZIP'', ''gzip;q=0.5'', ''*;q=0, gzip'', ''gzip, deflate, br, zstd'']) (\<lambda>_.
     gbind (gtraverse (not_gzip_for T) [''gzip;q=0'', ''gzip;q=0, *'']) (\<lambda>_.
     gmap (\<lambda>_. ()) (gtraverse (plain_for T) [[], ''identity''])))"

definition siblings_endpoint_returns_empty_list_by_default :: "target \<Rightarrow> unit probe" where
  "siblings_endpoint_returns_empty_list_by_default T =
     gbind (get_json T ''/api/siblings'' []) (\<lambda>body.
     case json_get body ''instance'' of
       Some v \<Rightarrow> if v \<noteq> JsNull then gret () else assert_exact body (JsObj [''siblings'' \<mapsto> JsArr []])
     | None \<Rightarrow> assert_exact body (JsObj [''siblings'' \<mapsto> JsArr []]))"

definition unknown_path_under_mount_is_404 :: "target \<Rightarrow> unit probe" where
  "unknown_path_under_mount_is_404 T =
     gbind (get_path T ''/api/not-a-real-route'' []) (\<lambda>resp. assert_status resp 404)"

end
