(* ===== verification/Demo.thy ===== *)
theory Demo
  imports Http Sql_Lex "HOL-Library.Multiset" "HOL-Library.List_Lexorder" "HOL-Library.Char_ord" "HOL-Library.Product_Lexorder"
begin

text \<open>
  The configuration the demo hosts start with (\<^verbatim>\<open>axum/examples/demo.rs\<close>,
  \<^verbatim>\<open>actix-web/examples/demo.rs\<close>): the TOML text that \<open>siblings_toml\<close> writes from the environment
  variables. \<open>label ("NAME")\<close> of the code is a variable that is set and not empty. The rest of the
  hosts is set-up of the frameworks and the database pools.
\<close>

section \<open>The text\<close>

definition label_var :: "env_vars \<Rightarrow> string \<Rightarrow> string option" where
  "label_var vars var = (case vars var of Some [] \<Rightarrow> None | v \<Rightarrow> v)"

definition siblings_header :: string where
  "siblings_header = ''['' @ ''[siblings]]''"

definition sibling_entry :: "string \<Rightarrow> string option \<Rightarrow> string \<Rightarrow> string" where
  "sibling_entry name label base =
     (let label = (case label of None \<Rightarrow> [] | Some l \<Rightarrow> ''label = '' @ debug_str l @ [newline])
      in siblings_header @ [newline] @ ''name = '' @ debug_str name @ [newline] @ label @ ''base_url = \"''
     @ base @ ''/__ashurbanipal\"'' @ [newline] @ ''health_path = \"/health\"''
     @ [newline])"

definition instance_entry :: "string \<Rightarrow> string" where
  "instance_entry l = ''[instance]'' @ [newline] @ ''name = \"demo\"'' @ [newline] @ ''label = ''
     @ debug_str l @ [newline]"

text \<open>\<open>dedup_by(|a, b| a.0 == b.0)\<close>: an element goes when its label is the last one kept.\<close>

fun dedup_labels :: "(string \<times> nat) list \<Rightarrow> (string \<times> nat) list" where
  "dedup_labels (a # b # ds) =
     (if fst b = fst a then dedup_labels (a # ds) else a # dedup_labels (b # ds))"
| "dedup_labels ds = ds"

definition demos_of :: "string option \<Rightarrow> u16 \<Rightarrow> u16 option \<Rightarrow> string option \<Rightarrow> (string \<times> nat) list" where
  "demos_of own port sibling_port label =
     (let demos = (case own of None \<Rightarrow> [] | Some l \<Rightarrow> [(l, unat port)]);
          demos = (case (sibling_port, label) of (Some p, Some l) \<Rightarrow> demos @ [(l, unat p)] | _ \<Rightarrow> demos)
      in dedup_labels (sort demos))"

definition localhost :: "nat \<Rightarrow> string" where
  "localhost p = ''http://localhost:'' @ nat_str p"

definition demo_entries :: "(string \<times> nat) list \<Rightarrow> string" where
  "demo_entries demos =
     concat (map (\<lambda>(l, p). sibling_entry ''demo'' (Some l) (localhost p)) demos)
     @ concat (map (\<lambda>name. concat (map (\<lambda>(l, p). sibling_entry name (Some l) ''http://127.0.0.1:9'') demos))
         [''search'', ''analytics'', ''inventory''])"

definition unlabelled_demo :: "u16 option \<Rightarrow> string option \<Rightarrow> string" where
  "unlabelled_demo sibling_port label =
     (case (sibling_port, label) of
        (Some p, None) \<Rightarrow> sibling_entry (''demo-'' @ nat_str (unat p)) None (localhost (unat p))
      | _ \<Rightarrow> [])"

definition mistakes :: "(string \<times> nat) list \<Rightarrow> string" where
  "mistakes demos =
     (case demos of [] \<Rightarrow> [] | (l, _) # _ \<Rightarrow> sibling_entry ''search'' (Some l) ''http://127.0.0.1:9'')
     @ sibling_entry ''audit'' None ''http://audit-dev.invalid:9''
     @ sibling_entry ''audit'' None ''http://audit-int.invalid:9''"

definition CONFORMANCE_LABELLED_SIBLINGS :: string where
  "CONFORMANCE_LABELLED_SIBLINGS =
     unlines [[],
       ''[instance]'',
       ''name = \"conformance\"'',
       ''label = \"a\"'',
       [],
       siblings_header,
       ''name = \"conformance\"'',
       ''label = \"a\"'',
       ''base_url = \"http://127.0.0.1:9/__ashurbanipal\"'',
       ''health_path = \"/health\"'',
       [],
       siblings_header,
       ''name = \"conformance\"'',
       ''label = \"b\"'',
       ''base_url = \"http://127.0.0.1:9/__ashurbanipal\"'',
       ''health_path = \"/health\"'',
       [],
       siblings_header,
       ''name = \"other\"'',
       ''label = \"a\"'',
       ''base_url = \"http://127.0.0.1:9/__ashurbanipal\"'',
       ''health_path = \"/health\"'',
       [],
       siblings_header,
       ''name = \"other\"'',
       ''label = \"a\"'',
       ''base_url = \"http://127.0.0.1:9/__ashurbanipal\"'',
       ''health_path = \"/health\"'']"

definition siblings_toml_axum :: "env_vars \<Rightarrow> u16 \<Rightarrow> u16 option \<Rightarrow> string" where
  "siblings_toml_axum vars port sibling_port =
     (if vars ''CONFORMANCE_LABELLED_SIBLINGS'' \<noteq> None then CONFORMANCE_LABELLED_SIBLINGS
      else let own = label_var vars ''INSTANCE_LABEL'';
               toml = (case own of None \<Rightarrow> [] | Some l \<Rightarrow> instance_entry l);
               demos = demos_of own port sibling_port (label_var vars ''SIBLING_LABEL'');
               toml = toml @ unlabelled_demo sibling_port (label_var vars ''SIBLING_LABEL'');
               toml = toml @ demo_entries demos
           in if vars ''SIBLING_MISTAKES'' \<noteq> None then toml @ mistakes demos else toml)"

definition siblings_toml_actix :: "env_vars \<Rightarrow> u16 \<Rightarrow> u16 option \<Rightarrow> string" where
  "siblings_toml_actix vars port sibling_port =
     (if vars ''CONFORMANCE_LABELLED_SIBLINGS'' \<noteq> None then CONFORMANCE_LABELLED_SIBLINGS
      else let own = label_var vars ''INSTANCE_LABEL'';
               toml = (case own of None \<Rightarrow> [] | Some l \<Rightarrow> instance_entry l);
               demos = demos_of own port sibling_port (label_var vars ''SIBLING_LABEL'');
               toml = toml @ unlabelled_demo sibling_port (label_var vars ''SIBLING_LABEL'')
           in toml @ demo_entries demos)"

text \<open>\<open>PORT\<close> and \<open>SIBLING_PORT\<close>, and the configuration of a demo host.\<close>

definition port_var :: "env_vars \<Rightarrow> string \<Rightarrow> u16 option" where
  "port_var vars var = map_option of_nat (Option.bind (vars var) (parse_uint 65535))"

definition demo_config ::
  "(string \<Rightarrow> string + config) \<Rightarrow> (env_vars \<Rightarrow> u16 \<Rightarrow> u16 option \<Rightarrow> string) \<Rightarrow> env_vars \<Rightarrow> config_error + config" where
  "demo_config de siblings_toml vars =
     (let port = unwrap_or (port_var vars ''PORT'') 4000;
          sibling_port = port_var vars ''SIBLING_PORT''
      in from_toml de (''enabled = true'' @ [newline] @ siblings_toml vars port sibling_port))"

section \<open>Both demos of a pair show one grid\<close>

lemma dedup_labels_simps [simp]: "dedup_labels [] = []" "dedup_labels [d] = [d]"
  by simp_all

lemma demos_of_pair:
  "demos_of (Some l1) p1 (Some p2) (Some l2) = demos_of (Some l2) p2 (Some p1) (Some l1)"
proof -
  have "mset [(l1, unat p1), (l2, unat p2)] = mset [(l2, unat p2), (l1, unat p1)]"
    by (simp add: add_mset_commute)
  then have "sorted_list_of_multiset (mset [(l1, unat p1), (l2, unat p2)])
      = sorted_list_of_multiset (mset [(l2, unat p2), (l1, unat p1)])" by (rule arg_cong)
  then have "sort [(l1, unat p1), (l2, unat p2)] = sort [(l2, unat p2), (l1, unat p1)]"
    by (simp only: sorted_list_of_multiset_mset)
  then show ?thesis by (simp only: demos_of_def Let_def option.case prod.case append.simps)
qed

lemma dedup_labels_set: "set (dedup_labels ds) \<subseteq> set ds"
  by (induction ds rule: dedup_labels.induct) auto

lemma dedup_labels_labels: "fst ` set (dedup_labels ds) = fst ` set ds"
  by (induction ds rule: dedup_labels.induct) (auto split: if_splits)

lemma dedup_labels_distinct: "sorted ds \<Longrightarrow> distinct (map fst (dedup_labels ds))"
proof (induction ds rule: dedup_labels.induct)
  case (1 a b ds)
  show ?case
  proof (cases "fst b = fst a")
    case True
    then show ?thesis using 1 by auto
  next
    case False
    have "fst a < fst d" if "d \<in> set (b # ds)" for d
    proof -
      have "a \<le> b" "b \<le> d" using "1.prems" that by auto
      then show ?thesis using False by (cases a; cases b; cases d) (auto simp: less_eq_prod_def)
    qed
    then have "fst a \<notin> fst ` set (dedup_labels (b # ds))" unfolding dedup_labels_labels by force
    then show ?thesis using 1 False by simp
  qed
qed auto

text \<open>Two demos started as a pair, each with its own label and the other's port and label, write
  the same list of siblings after their own \<^verbatim>\<open>[instance]\<close> table: one \<^verbatim>\<open>demo\<close> entry for each
  label, their own among them, then the three services under each label; no label is repeated.\<close>

theorem demo_pair_shows_one_grid:
  assumes "vars1 ''CONFORMANCE_LABELLED_SIBLINGS'' = None" "vars2 ''CONFORMANCE_LABELLED_SIBLINGS'' = None"
    and "label_var vars1 ''INSTANCE_LABEL'' = Some l1" "label_var vars1 ''SIBLING_LABEL'' = Some l2"
    and "label_var vars2 ''INSTANCE_LABEL'' = Some l2" "label_var vars2 ''SIBLING_LABEL'' = Some l1"
    and "(vars1 ''SIBLING_MISTAKES'' = None) = (vars2 ''SIBLING_MISTAKES'' = None)"
  shows "\<exists>demos. distinct (map fst demos) \<and> fst ` set demos = {l1, l2} \<and> set demos \<subseteq> {(l1, unat p1), (l2, unat p2)}
    \<and> siblings_toml_axum vars1 p1 (Some p2) = instance_entry l1 @ demo_entries demos
        @ (if vars1 ''SIBLING_MISTAKES'' = None then [] else mistakes demos)
    \<and> siblings_toml_axum vars2 p2 (Some p1) = instance_entry l2 @ demo_entries demos
        @ (if vars1 ''SIBLING_MISTAKES'' = None then [] else mistakes demos)
    \<and> siblings_toml_actix vars1 p1 (Some p2) = instance_entry l1 @ demo_entries demos
    \<and> siblings_toml_actix vars2 p2 (Some p1) = instance_entry l2 @ demo_entries demos"
proof (intro exI conjI)
  let ?d = "demos_of (Some l1) p1 (Some p2) (Some l2)"
  have d: "?d = dedup_labels (sort [(l1, unat p1), (l2, unat p2)])" by (simp add: demos_of_def)
  show "distinct (map fst ?d)" unfolding d by (rule dedup_labels_distinct [OF sorted_sort])
  show "fst ` set ?d = {l1, l2}" unfolding d dedup_labels_labels set_sort by simp
  show "set ?d \<subseteq> {(l1, unat p1), (l2, unat p2)}"
    using dedup_labels_set [of "sort [(l1, unat p1), (l2, unat p2)]"] unfolding d set_sort by simp
qed (use assms in \<open>simp_all add: siblings_toml_axum_def siblings_toml_actix_def unlabelled_demo_def Let_def
    demos_of_pair [of l2 p2 p1 l1]\<close>)

lemma demo_pair_shows_one_grid_witness:
  "\<exists>demos. distinct (map fst demos) \<and> fst ` set demos = {''dev'', ''int''}
    \<and> siblings_toml_axum [''INSTANCE_LABEL'' \<mapsto> ''dev'', ''SIBLING_LABEL'' \<mapsto> ''int''] 4000 (Some 4001)
        = instance_entry ''dev'' @ demo_entries demos
    \<and> siblings_toml_axum [''INSTANCE_LABEL'' \<mapsto> ''int'', ''SIBLING_LABEL'' \<mapsto> ''dev''] 4001 (Some 4000)
        = instance_entry ''int'' @ demo_entries demos"
  using demo_pair_shows_one_grid [of "[''INSTANCE_LABEL'' \<mapsto> ''dev'', ''SIBLING_LABEL'' \<mapsto> ''int'']"
      "[''INSTANCE_LABEL'' \<mapsto> ''int'', ''SIBLING_LABEL'' \<mapsto> ''dev'']" "''dev''" "''int''" 4000 4001]
  by (auto simp: label_var_def)

end
