(* ===== verification/Axum.thy ===== *)
theory Axum
  imports Http
begin

text \<open>
  \<open>axum/src/routes.rs\<close>: the router, its handlers and their error responses. \<open>Json\<close> and \<open>Html\<close>
  answer 200 with their content type; a \<open>Result\<close> answers with whichever side it holds.
\<close>

section \<open>Responses\<close>

definition json_axum :: "body \<Rightarrow> http_answer" where
  "json_axum b = Answered \<lparr>hr_status = 200, hr_headers = [''content-type'' \<mapsto> ''application/json''], hr_body = b\<rparr>"

definition error_axum :: "api_error \<Rightarrow> http_answer" where
  "error_axum e =
     (let (status, code, title) =
            (case e of
               BadRequest msg \<Rightarrow> (400, ''invalid_parameter'', msg)
             | Db err \<Rightarrow> problem err)
      in case status_from_u16 status of
           None \<Rightarrow> Aborted
         | Some http_status \<Rightarrow>
             Answered \<lparr>hr_status = http_status,
               hr_headers = [''content-type'' \<mapsto> ''application/problem+json''],
               hr_body = BProblem (problem_details_new status code title)\<rparr>)"

definition result_axum :: "body outcome \<Rightarrow> http_answer" where
  "result_axum r =
     (case r of
        Panic \<Rightarrow> Aborted
      | Done (Inr b) \<Rightarrow> json_axum b
      | Done (Inl e) \<Rightarrow> error_axum (Db e))"

definition stamp_axum :: "http_answer \<Rightarrow> http_answer" where
  "stamp_axum a =
     (case a of
        Answered r \<Rightarrow> Answered (r\<lparr>hr_headers :=
          (hr_headers r)(PROTOCOL_HEADER \<mapsto> PROTOCOL_VERSION, ''x-content-type-options'' \<mapsto> ''nosniff'')\<rparr>)
      | _ \<Rightarrow> a)"

text \<open>The \<open>Query\<close> extractor: a rejection answers before the handler runs.\<close>

definition query_axum ::
  "env \<Rightarrow> ((string \<times> string) list \<Rightarrow> rejection + 'p) \<Rightarrow> ('p \<Rightarrow> body act) \<Rightarrow> http_request \<Rightarrow> world \<Rightarrow> http_answer \<times> world" where
  "query_axum env decode handler req w =
     (case map_err (\<lambda>r. BadRequest (e_reject_axum env r)) (decode (rq_query req)) of
        Inl e \<Rightarrow> (error_axum e, w)
      | Inr p \<Rightarrow> (let (r, w') = handler p w in (result_axum r, w')))"

section \<open>Handlers\<close>

definition serve_html_axum :: "env \<Rightarrow> http_request \<Rightarrow> http_answer" where
  "serve_html_axum env req =
     (let html = (\<lambda>page extra. Answered \<lparr>hr_status = 200,
            hr_headers = extra(''content-type'' \<mapsto> ''text/html; charset=utf-8''), hr_body = BPage page\<rparr>)
      in if accepts_gzip (List.map_filter header_to_str (rq_accept req))
         then html (gzip_page env (e_page env)) [''vary'' \<mapsto> ''accept-encoding'', ''content-encoding'' \<mapsto> ''gzip'']
         else html (e_page env) [''vary'' \<mapsto> ''accept-encoding''])"

definition list_sources_axum :: "app_state \<Rightarrow> body outcome" where
  "list_sources_axum st = outcome_then (from_sources (st_sources st)) (\<lambda>r. Done (Inr (BSources r)))"

definition list_schemas_axum :: "env \<Rightarrow> app_state \<Rightarrow> source_params \<Rightarrow> body act" where
  "list_schemas_axum env st params =
     act_then (resolve st (sp_source params)) (\<lambda>source.
     act_then (on_source env source ds_list_schemas) (\<lambda>listing.
     act_return (BSchemas (from_schema_listing listing))))"

definition list_tables_axum :: "env \<Rightarrow> app_state \<Rightarrow> schema_params \<Rightarrow> body act" where
  "list_tables_axum env st params =
     act_then (resolve st (cp_source params)) (\<lambda>source.
     act_then (on_source env source (\<lambda>s. ds_list_tables s (cp_schema params))) (\<lambda>tables.
     act_return (BTables \<lparr>tr_tables = tables\<rparr>)))"

definition table_counts_axum :: "env \<Rightarrow> app_state \<Rightarrow> schema_params \<Rightarrow> body act" where
  "table_counts_axum env st params =
     act_then (resolve st (cp_source params)) (\<lambda>source.
     act_then (on_source env source (\<lambda>s. ds_table_counts s (cp_schema params))) (\<lambda>counts.
     act_return (BCounts (from_counts counts))))"

definition table_data_axum :: "env \<Rightarrow> app_state \<Rightarrow> data_params \<Rightarrow> body act" where
  "table_data_axum env st params =
     act_then (resolve st (dp_source params)) (\<lambda>source.
     act_then (act_of (query_opts_of (e_de_filter env) params (cfg_limits (st_config st)))) (\<lambda>opts.
     act_then (on_source env source (\<lambda>s. ds_query_table s (dp_schema params) (dp_table params) opts)) (\<lambda>page.
     act_return (BData page))))"

definition table_join_axum :: "env \<Rightarrow> app_state \<Rightarrow> join_params \<Rightarrow> body act" where
  "table_join_axum env st params =
     act_then (resolve st (jp_source params)) (\<lambda>source.
     act_then (act_of (join_request (e_de_join env) (e_de_filter env) params (cfg_limits (st_config st)))) (\<lambda>(spec, opts).
     act_then (on_source env source (\<lambda>s. ds_query_join s (jp_schema params) spec opts)) (\<lambda>page.
     act_return (BJoin page))))"

definition common_values_axum :: "env \<Rightarrow> app_state \<Rightarrow> common_values_params \<Rightarrow> body act" where
  "common_values_axum env st params =
     act_then (resolve st (vp_source params)) (\<lambda>source.
     act_then (on_source env source (\<lambda>s. ds_common_values s (vp_schema params) (vp_table params) (vp_column params))) (\<lambda>vs.
     act_return (BValues (from_common_values vs))))"

definition referenced_by_axum :: "env \<Rightarrow> app_state \<Rightarrow> table_params \<Rightarrow> body act" where
  "referenced_by_axum env st params =
     act_then (resolve st (tp_source params)) (\<lambda>source.
     act_then (on_source env source (\<lambda>s. ds_referenced_by s (tp_schema params) (tp_table params))) (\<lambda>rows.
     act_return (BReferenced \<lparr>rx_referenced_by = rows\<rparr>)))"

definition structure_axum :: "env \<Rightarrow> app_state \<Rightarrow> table_params \<Rightarrow> body act" where
  "structure_axum env st params =
     act_then (resolve st (tp_source params)) (\<lambda>source.
     act_then (on_source env source (\<lambda>s. ds_structure s (tp_schema params) (tp_table params))) (\<lambda>info.
     act_return (BStructure info)))"

definition siblings_axum :: "app_state \<Rightarrow> http_request \<Rightarrow> body outcome" where
  "siblings_axum st req = Done (Inr (BSiblings (fst (check_siblings (rq_health req) (st_siblings st)))))"

section \<open>The router\<close>

definition router_axum :: "config \<Rightarrow> (string \<times> source_handle) list \<Rightarrow> mount" where
  "router_axum cfg sources =
     (if \<not> is_enabled cfg then NoRoutes
      else if sources = [] then MountPanic
      else Serving \<lparr>st_config = cfg, st_sources = sources, st_siblings = siblings_view cfg\<rparr>)"

definition api_routes_axum ::
  "env \<Rightarrow> app_state \<Rightarrow> (string \<times> (http_request \<Rightarrow> world \<Rightarrow> http_answer \<times> world)) list" where
  "api_routes_axum env st =
     [(''/__ashurbanipal/api/sources'', \<lambda>req w. (result_axum (list_sources_axum st), w)),
      (''/__ashurbanipal/api/schemas'', query_axum env decode_source_params (list_schemas_axum env st)),
      (''/__ashurbanipal/api/tables'', query_axum env decode_schema_params (list_tables_axum env st)),
      (''/__ashurbanipal/api/table-counts'', query_axum env decode_schema_params (table_counts_axum env st)),
      (''/__ashurbanipal/api/tables/data'', query_axum env decode_data_params (table_data_axum env st)),
      (''/__ashurbanipal/api/tables/common-values'', query_axum env decode_common_values_params (common_values_axum env st)),
      (''/__ashurbanipal/api/tables/referenced-by'', query_axum env decode_table_params (referenced_by_axum env st)),
      (''/__ashurbanipal/api/tables/structure'', query_axum env decode_table_params (structure_axum env st)),
      (''/__ashurbanipal/api/tables/join'', query_axum env decode_join_params (table_join_axum env st)),
      (''/__ashurbanipal/api/siblings'', \<lambda>req w. (result_axum (siblings_axum st req), w))]"

text \<open>A GET on the built router.\<close>

definition handle_axum :: "env \<Rightarrow> mount \<Rightarrow> http_request \<Rightarrow> world \<Rightarrow> http_answer \<times> world" where
  "handle_axum env m req w =
     (case m of
        Serving st \<Rightarrow>
          if rq_path req = ''/__ashurbanipal'' then (serve_html_axum env req, w)
          else (case map_of (api_routes_axum env st) (rq_path req) of
                  None \<Rightarrow> (Unmatched, w)
                | Some route \<Rightarrow> (let (a, w') = route req w in (stamp_axum a, w')))
      | _ \<Rightarrow> (Unmatched, w))"

end
