(* ===== verification/Actix.thy ===== *)
theory Actix
  imports Http
begin

text \<open>
  \<open>actix-web/src/routes.rs\<close>: the shared state, the scopes, the handlers and their error responses.
  A scope takes the paths under its prefix, up to a segment boundary; a resource takes exactly
  its own path in the scope.
\<close>

section \<open>Responses\<close>

definition json_actix :: "body \<Rightarrow> http_answer" where
  "json_actix b = Answered \<lparr>hr_status = 200, hr_headers = [''content-type'' \<mapsto> ''application/json''], hr_body = b\<rparr>"

definition problem_actix :: "api_error \<Rightarrow> u16 \<times> string \<times> string" where
  "problem_actix e =
     (case e of
        BadRequest msg \<Rightarrow> (400, ''invalid_parameter'', msg)
      | Db err \<Rightarrow> problem err)"

definition error_actix :: "api_error \<Rightarrow> http_answer" where
  "error_actix e =
     (let (status, code, title) = problem_actix e
      in case status_from_u16 status of
           None \<Rightarrow> Aborted
         | Some http_status \<Rightarrow>
             Answered \<lparr>hr_status = http_status,
               hr_headers = [''content-type'' \<mapsto> ''application/problem+json''],
               hr_body = BProblem (problem_details_new status code title)\<rparr>)"

definition result_actix :: "body outcome \<Rightarrow> http_answer" where
  "result_actix r =
     (case r of
        Panic \<Rightarrow> Aborted
      | Done (Inr b) \<Rightarrow> json_actix b
      | Done (Inl e) \<Rightarrow> error_actix (Db e))"

definition stamp_actix :: "http_answer \<Rightarrow> http_answer" where
  "stamp_actix a =
     (case a of
        Answered r \<Rightarrow> Answered (r\<lparr>hr_headers :=
          (hr_headers r)(PROTOCOL_HEADER \<mapsto> PROTOCOL_VERSION, ''x-content-type-options'' \<mapsto> ''nosniff'')\<rparr>)
      | _ \<Rightarrow> a)"

definition query_error_handler :: "env \<Rightarrow> rejection \<Rightarrow> api_error" where
  "query_error_handler env r = BadRequest (e_reject_actix env r)"

text \<open>The \<open>Query\<close> extractor with the configured error handler.\<close>

definition query_actix ::
  "env \<Rightarrow> ((string \<times> string) list \<Rightarrow> rejection + 'p) \<Rightarrow> ('p \<Rightarrow> body act) \<Rightarrow> http_request \<Rightarrow> world \<Rightarrow> http_answer \<times> world" where
  "query_actix env decode handler req w =
     (case decode (rq_query req) of
        Inl r \<Rightarrow> (error_actix (query_error_handler env r), w)
      | Inr p \<Rightarrow> (let (r, w') = handler p w in (result_actix r, w')))"

section \<open>Handlers\<close>

definition serve_html_actix :: "env \<Rightarrow> http_request \<Rightarrow> http_answer" where
  "serve_html_actix env req =
     (let resp = [''content-type'' \<mapsto> ''text/html; charset=utf-8'', ''vary'' \<mapsto> ''accept-encoding'']
      in if accepts_gzip (List.map_filter header_to_str (rq_accept req))
         then Answered \<lparr>hr_status = 200, hr_headers = resp(''content-encoding'' \<mapsto> ''gzip''),
                hr_body = BPage (gzip_page env (e_page env))\<rparr>
         else Answered \<lparr>hr_status = 200, hr_headers = resp, hr_body = BPage (e_page env)\<rparr>)"

definition list_sources_actix :: "app_state \<Rightarrow> body outcome" where
  "list_sources_actix st = outcome_then (from_sources (st_sources st)) (\<lambda>r. Done (Inr (BSources r)))"

definition list_schemas_actix :: "env \<Rightarrow> app_state \<Rightarrow> source_params \<Rightarrow> body act" where
  "list_schemas_actix env st params =
     act_then (resolve st (sp_source params)) (\<lambda>source.
     act_then (on_source env source ds_list_schemas) (\<lambda>listing.
     act_return (BSchemas (from_schema_listing listing))))"

definition list_tables_actix :: "env \<Rightarrow> app_state \<Rightarrow> schema_params \<Rightarrow> body act" where
  "list_tables_actix env st params =
     act_then (resolve st (cp_source params)) (\<lambda>source.
     act_then (on_source env source (\<lambda>s. ds_list_tables s (cp_schema params))) (\<lambda>tables.
     act_return (BTables \<lparr>tr_tables = tables\<rparr>)))"

definition table_counts_actix :: "env \<Rightarrow> app_state \<Rightarrow> schema_params \<Rightarrow> body act" where
  "table_counts_actix env st params =
     act_then (resolve st (cp_source params)) (\<lambda>source.
     act_then (on_source env source (\<lambda>s. ds_table_counts s (cp_schema params))) (\<lambda>counts.
     act_return (BCounts (from_counts counts))))"

definition table_data_actix :: "env \<Rightarrow> app_state \<Rightarrow> data_params \<Rightarrow> body act" where
  "table_data_actix env st params =
     act_then (resolve st (dp_source params)) (\<lambda>source.
     act_then (act_of (query_opts_of (e_de_filter env) params (cfg_limits (st_config st)))) (\<lambda>opts.
     act_then (on_source env source (\<lambda>s. ds_query_table s (dp_schema params) (dp_table params) opts)) (\<lambda>page.
     act_return (BData page))))"

definition table_join_actix :: "env \<Rightarrow> app_state \<Rightarrow> join_params \<Rightarrow> body act" where
  "table_join_actix env st params =
     act_then (resolve st (jp_source params)) (\<lambda>source.
     act_then (act_of (join_request (e_de_join env) (e_de_filter env) params (cfg_limits (st_config st)))) (\<lambda>(spec, opts).
     act_then (on_source env source (\<lambda>s. ds_query_join s (jp_schema params) spec opts)) (\<lambda>page.
     act_return (BJoin page))))"

definition common_values_actix :: "env \<Rightarrow> app_state \<Rightarrow> common_values_params \<Rightarrow> body act" where
  "common_values_actix env st params =
     act_then (resolve st (vp_source params)) (\<lambda>source.
     act_then (on_source env source (\<lambda>s. ds_common_values s (vp_schema params) (vp_table params) (vp_column params))) (\<lambda>vs.
     act_return (BValues (from_common_values vs))))"

definition referenced_by_actix :: "env \<Rightarrow> app_state \<Rightarrow> table_params \<Rightarrow> body act" where
  "referenced_by_actix env st params =
     act_then (resolve st (tp_source params)) (\<lambda>source.
     act_then (on_source env source (\<lambda>s. ds_referenced_by s (tp_schema params) (tp_table params))) (\<lambda>rows.
     act_return (BReferenced \<lparr>rx_referenced_by = rows\<rparr>)))"

definition structure_actix :: "env \<Rightarrow> app_state \<Rightarrow> table_params \<Rightarrow> body act" where
  "structure_actix env st params =
     act_then (resolve st (tp_source params)) (\<lambda>source.
     act_then (on_source env source (\<lambda>s. ds_structure s (tp_schema params) (tp_table params))) (\<lambda>info.
     act_return (BStructure info)))"

definition siblings_actix :: "app_state \<Rightarrow> http_request \<Rightarrow> body outcome" where
  "siblings_actix st req = Done (Inr (BSiblings (fst (check_siblings (rq_health req) (st_siblings st)))))"

section \<open>State and service\<close>

text \<open>\<open>app_state\<close> asserts, whether enabled or not it builds the state; \<open>None\<close> is the panic.\<close>

definition app_state_actix :: "config \<Rightarrow> (string \<times> source_handle) list \<Rightarrow> app_state option" where
  "app_state_actix cfg sources =
     (if \<not> is_enabled cfg \<or> sources \<noteq> []
      then Some \<lparr>st_config = cfg, st_sources = sources, st_siblings = siblings_view cfg\<rparr>
      else None)"

definition scope_rest :: "string \<Rightarrow> string \<Rightarrow> string option" where
  "scope_rest p path =
     (let rest = drop (length p) path
      in if prefix p path \<and> (rest = [] \<or> hd rest = CHR ''/'') then Some rest else None)"

definition api_resources_actix ::
  "env \<Rightarrow> app_state \<Rightarrow> (string \<times> (http_request \<Rightarrow> world \<Rightarrow> http_answer \<times> world)) list" where
  "api_resources_actix env st =
     [(''/sources'', \<lambda>req w. (result_actix (list_sources_actix st), w)),
      (''/schemas'', query_actix env decode_source_params (list_schemas_actix env st)),
      (''/tables'', query_actix env decode_schema_params (list_tables_actix env st)),
      (''/table-counts'', query_actix env decode_schema_params (table_counts_actix env st)),
      (''/tables/data'', query_actix env decode_data_params (table_data_actix env st)),
      (''/tables/common-values'', query_actix env decode_common_values_params (common_values_actix env st)),
      (''/tables/referenced-by'', query_actix env decode_table_params (referenced_by_actix env st)),
      (''/tables/structure'', query_actix env decode_table_params (structure_actix env st)),
      (''/tables/join'', query_actix env decode_join_params (table_join_actix env st)),
      (''/siblings'', \<lambda>req w. (result_actix (siblings_actix st req), w))]"

text \<open>A GET on the service of the state.\<close>

definition handle_actix :: "env \<Rightarrow> app_state \<Rightarrow> http_request \<Rightarrow> world \<Rightarrow> http_answer \<times> world" where
  "handle_actix env st req w =
     (if \<not> is_enabled (st_config st) then (Unmatched, w)
      else (case scope_rest ''/__ashurbanipal'' (rq_path req) of
              None \<Rightarrow> (Unmatched, w)
            | Some rest \<Rightarrow>
                if rest = [] then (serve_html_actix env req, w)
                else (case scope_rest ''/api'' rest of
                        None \<Rightarrow> (Unmatched, w)
                      | Some sub \<Rightarrow>
                          (case map_of (api_resources_actix env st) sub of
                             None \<Rightarrow> (Unmatched, w)
                           | Some resource \<Rightarrow> (let (a, w') = resource req w in (stamp_actix a, w'))))))"

end
