(* ===== verification/Routes_Correct.thy ===== *)
theory Routes_Correct
  imports Axum Actix
begin

text \<open>
  The adapters: they agree, a disabled host answers nothing, every API answer has the documented
  form, and a server over sources of the three backends answers every sequence of requests
  without a panic and keeps each pool's discipline throughout.
\<close>

section \<open>The two adapters\<close>

lemma json_same: "json_actix = json_axum"
  by (rule ext) (simp add: json_actix_def json_axum_def)

lemma error_same: "error_actix = error_axum"
  by (rule ext) (simp add: error_actix_def error_axum_def problem_actix_def)

lemma result_same: "result_actix = result_axum"
  by (rule ext) (simp add: result_actix_def result_axum_def json_same error_same split: outcome.split sum.split)

lemma stamp_same: "stamp_actix = stamp_axum"
  by (rule ext) (simp add: stamp_actix_def stamp_axum_def)

text \<open>What axum would be if it worded a rejected query string as actix-web does.\<close>

abbreviation as_actix :: "env \<Rightarrow> env" where
  "as_actix env \<equiv> env\<lparr>e_reject_axum := e_reject_actix env\<rparr>"

lemma query_same: "query_actix env decode handler = query_axum (as_actix env) decode handler"
  by (intro ext)
    (simp add: query_actix_def query_axum_def query_error_handler_def error_same result_same split: sum.split)

lemma html_same: "serve_html_actix env req = serve_html_axum env req"
  by (simp add: serve_html_actix_def serve_html_axum_def fun_upd_twist)

lemma handlers_same:
  "list_sources_actix = list_sources_axum" "list_schemas_actix = list_schemas_axum"
  "list_tables_actix = list_tables_axum" "table_counts_actix = table_counts_axum"
  "table_data_actix = table_data_axum" "table_join_actix = table_join_axum"
  "common_values_actix = common_values_axum" "referenced_by_actix = referenced_by_axum"
  "structure_actix = structure_axum" "siblings_actix = siblings_axum"
  by (intro ext; simp add: list_sources_actix_def list_sources_axum_def list_schemas_actix_def list_schemas_axum_def
      list_tables_actix_def list_tables_axum_def table_counts_actix_def table_counts_axum_def
      table_data_actix_def table_data_axum_def table_join_actix_def table_join_axum_def
      common_values_actix_def common_values_axum_def referenced_by_actix_def referenced_by_axum_def
      structure_actix_def structure_axum_def siblings_actix_def siblings_axum_def)+

text \<open>The wording is not the handlers' business.\<close>

lemma on_source_wording: "on_source (env\<lparr>e_reject_axum := f\<rparr>) = on_source env"
  by (intro ext) (simp add: on_source_def)

lemma handlers_wording:
  "list_schemas_axum (env\<lparr>e_reject_axum := f\<rparr>) = list_schemas_axum env"
  "list_tables_axum (env\<lparr>e_reject_axum := f\<rparr>) = list_tables_axum env"
  "table_counts_axum (env\<lparr>e_reject_axum := f\<rparr>) = table_counts_axum env"
  "table_data_axum (env\<lparr>e_reject_axum := f\<rparr>) = table_data_axum env"
  "table_join_axum (env\<lparr>e_reject_axum := f\<rparr>) = table_join_axum env"
  "common_values_axum (env\<lparr>e_reject_axum := f\<rparr>) = common_values_axum env"
  "referenced_by_axum (env\<lparr>e_reject_axum := f\<rparr>) = referenced_by_axum env"
  "structure_axum (env\<lparr>e_reject_axum := f\<rparr>) = structure_axum env"
  by (intro ext; simp add: list_schemas_axum_def list_tables_axum_def table_counts_axum_def table_data_axum_def
      table_join_axum_def common_values_axum_def referenced_by_axum_def structure_axum_def on_source_wording)+

lemma html_wording: "serve_html_axum (env\<lparr>e_reject_axum := f\<rparr>) = serve_html_axum env"
  by (intro ext) (simp add: serve_html_axum_def gzip_page_def)

definition api_prefix :: string where
  "api_prefix = ''/__ashurbanipal/api''"

lemma routes_prefixed:
  "api_routes_axum (as_actix env) st = map (\<lambda>(p, f). (api_prefix @ p, f)) (api_resources_actix env st)"
  by (simp add: api_routes_axum_def api_resources_actix_def api_prefix_def handlers_same handlers_wording query_same
      result_same)

lemma map_of_prefixed:
  "map_of (map (\<lambda>(k, v). (pre @ k, v)) ps) path =
     (if prefix pre path then map_of ps (drop (length pre) path) else None)"
  by (induction ps) (auto simp: prefix_def)

lemma resource_slash:
  "map_of (api_resources_actix env st) sub = Some f \<Longrightarrow> sub \<noteq> [] \<and> hd sub = CHR ''/''"
  by (auto simp: api_resources_actix_def split: if_splits)

lemma scope_nested:
  "scope_rest ''/__ashurbanipal'' path = Some rest \<Longrightarrow> path = ''/__ashurbanipal'' @ rest \<and> (rest = [] \<or> hd rest = CHR ''/'')"
  by (auto simp: scope_rest_def Let_def prefix_def split: if_splits)

text \<open>The path a resource of actix-web answers is the path axum's route has.\<close>

lemma dispatch_same:
  "(case scope_rest ''/__ashurbanipal'' path of
      None \<Rightarrow> None
    | Some rest \<Rightarrow>
        (case scope_rest ''/api'' rest of None \<Rightarrow> None | Some sub \<Rightarrow> map_of (api_resources_actix env st) sub))
   = map_of (api_routes_axum (as_actix env) st) path"
proof (cases "prefix api_prefix path")
  case True
  then obtain sub where path: "path = ''/__ashurbanipal'' @ ''/api'' @ sub"
    by (auto simp: prefix_def api_prefix_def)
  have outer: "scope_rest ''/__ashurbanipal'' path = Some (''/api'' @ sub)"
    by (simp add: path scope_rest_def Let_def)
  have inner: "scope_rest ''/api'' (''/api'' @ sub) = (if sub = [] \<or> hd sub = CHR ''/'' then Some sub else None)"
    by (simp add: scope_rest_def Let_def)
  have "map_of (api_routes_axum (as_actix env) st) path = map_of (api_resources_actix env st) sub"
  proof -
    have "path = api_prefix @ sub" by (simp add: path api_prefix_def)
    then show ?thesis by (simp add: routes_prefixed map_of_prefixed)
  qed
  with resource_slash [where env = env and st = st and sub = sub] show ?thesis
    by (cases "map_of (api_resources_actix env st) sub") (auto simp: outer inner [simplified])
next
  case False
  have "scope_rest ''/api'' rest = None" if "scope_rest ''/__ashurbanipal'' path = Some rest" for rest
    using False scope_nested [OF that] by (auto simp: scope_rest_def Let_def prefix_def api_prefix_def)
  then show ?thesis
    using False by (auto simp: routes_prefixed map_of_prefixed split: option.split)
qed

lemma route_not_html: "map_of (api_routes_axum env st) ''/__ashurbanipal'' = None"
  by (simp add: api_routes_axum_def)

lemma handle_same:
  assumes "is_enabled (st_config st)"
  shows "handle_actix env st req w = handle_axum (as_actix env) (Serving st) req w"
proof (cases "scope_rest ''/__ashurbanipal'' (rq_path req)")
  case None
  have "rq_path req \<noteq> ''/__ashurbanipal''"
    using None by (auto simp: scope_rest_def Let_def)
  with None dispatch_same [where path = "rq_path req" and env = env and st = st] assms show ?thesis
    by (simp add: handle_actix_def handle_axum_def)
next
  case (Some rest)
  have html: "rq_path req = ''/__ashurbanipal'' \<longleftrightarrow> rest = []"
    using scope_nested [OF Some] by auto
  show ?thesis
    using Some dispatch_same [where path = "rq_path req" and env = env and st = st] assms
    by (auto simp: handle_actix_def handle_axum_def html html_same html_wording stamp_same split: option.splits)
qed

text \<open>The answer to a query string that is rejected with the text \<open>title\<close>.\<close>

definition rejected_answer :: "string \<Rightarrow> http_answer" where
  "rejected_answer title = Answered \<lparr>hr_status = 400,
     hr_headers = [''content-type'' \<mapsto> ''application/problem+json'', ''x-ashurbanipal-protocol'' \<mapsto> ''1'',
       ''x-content-type-options'' \<mapsto> ''nosniff''],
     hr_body = BProblem (problem_details_new 400 ''invalid_parameter'' title)\<rparr>"

lemma rejected_stamped: "stamp_axum (error_axum (BadRequest title)) = rejected_answer title"
  by (simp add: stamp_axum_def error_axum_def status_from_u16_def rejected_answer_def PROTOCOL_HEADER_def
      PROTOCOL_VERSION_def)

text \<open>The same answer, or both refuse the query string, each in its own words.\<close>

definition reworded :: "env \<Rightarrow> world \<Rightarrow> http_answer \<times> world \<Rightarrow> http_answer \<times> world \<Rightarrow> bool" where
  "reworded env w a b \<longleftrightarrow> b = a
     \<or> (\<exists>r. a = (error_axum (BadRequest (e_reject_axum env r)), w)
          \<and> b = (error_axum (BadRequest (e_reject_actix env r)), w))"

lemma reworded_refl [simp]: "reworded env w a a"
  by (simp add: reworded_def)

lemma query_wording [simp]:
  "reworded env w (query_axum env decode handler req w) (query_axum (as_actix env) decode handler req w)"
  by (cases "decode (rq_query req)") (auto simp: reworded_def query_axum_def)

lemma routes_wording:
  "list_all2 (\<lambda>(path, f) (path', g). path' = path \<and> (\<forall>req w. reworded env w (f req w) (g req w)))
     (api_routes_axum env st) (api_routes_axum (as_actix env) st)"
  by (simp add: api_routes_axum_def handlers_wording)

lemma map_of_related:
  "list_all2 (\<lambda>(k, x) (k', y). k' = k \<and> P x y) xs ys \<Longrightarrow> rel_option P (map_of xs k) (map_of ys k)"
  by (induction xs ys rule: list_all2_induct) auto

lemma handle_wording:
  "handle_axum (as_actix env) m req w = handle_axum env m req w
   \<or> (\<exists>r. handle_axum env m req w = (rejected_answer (e_reject_axum env r), w)
        \<and> handle_axum (as_actix env) m req w = (rejected_answer (e_reject_actix env r), w))"
proof (cases m)
  case (Serving st)
  have "rel_option (\<lambda>f g. \<forall>req w. reworded env w (f req w) (g req w))
      (map_of (api_routes_axum env st) (rq_path req)) (map_of (api_routes_axum (as_actix env) st) (rq_path req))"
    by (rule map_of_related [OF routes_wording])
  then show ?thesis
  proof (cases rule: option.rel_cases)
    case (Some f g)
    then consider "g req w = f req w"
      | r where "f req w = (error_axum (BadRequest (e_reject_axum env r)), w)"
          "g req w = (error_axum (BadRequest (e_reject_actix env r)), w)"
      unfolding reworded_def by blast
    then show ?thesis
      by cases (use Some Serving in \<open>auto simp: handle_axum_def html_wording rejected_stamped\<close>)
  qed (simp_all add: Serving handle_axum_def html_wording)
qed (simp_all add: handle_axum_def)

section \<open>The form of an answer\<close>

definition is_problem :: "body \<Rightarrow> bool" where
  "is_problem b \<longleftrightarrow> (\<exists>p. b = BProblem p)"

text \<open>An API answer: JSON with status 200, or a problem response whose body repeats its status.\<close>

definition api_answer :: "http_response \<Rightarrow> bool" where
  "api_answer r \<longleftrightarrow>
     hr_headers r PROTOCOL_HEADER = Some PROTOCOL_VERSION
     \<and> hr_headers r ''x-content-type-options'' = Some ''nosniff''
     \<and> (if is_problem (hr_body r)
        then (hr_status r = 400 \<or> hr_status r = 500)
          \<and> hr_headers r ''content-type'' = Some ''application/problem+json''
          \<and> (\<exists>code title. hr_body r = BProblem (problem_details_new (hr_status r) code title))
        else hr_status r = 200 \<and> hr_headers r ''content-type'' = Some ''application/json'')"

text \<open>The same before the headers are stamped, for an answer that is not a panic.\<close>

definition plain_answer :: "http_answer \<Rightarrow> bool" where
  "plain_answer a \<longleftrightarrow>
     (case a of
        Answered r \<Rightarrow>
          (if is_problem (hr_body r)
           then (hr_status r = 400 \<or> hr_status r = 500)
             \<and> hr_headers r ''content-type'' = Some ''application/problem+json''
             \<and> (\<exists>code title. hr_body r = BProblem (problem_details_new (hr_status r) code title))
           else hr_status r = 200 \<and> hr_headers r ''content-type'' = Some ''application/json'')
      | _ \<Rightarrow> True)"

lemma status_400_500: "status_code e = (s, c) \<Longrightarrow> s = 400 \<or> s = 500"
  by (cases e) auto

lemma error_form: "\<exists>r. error_axum e = Answered r \<and> plain_answer (Answered r) \<and> is_problem (hr_body r)"
proof -
  obtain s c t where p: "(case e of BadRequest msg \<Rightarrow> (400, ''invalid_parameter'', msg) | Db err \<Rightarrow> problem err) = (s, c, t)"
    by (metis prod_cases3)
  have "s = 400 \<or> s = 500"
    using p by (cases e) (auto simp: problem_def split: prod.splits dest: status_400_500)
  then have "status_from_u16 s = Some s" by (auto simp: status_from_u16_def)
  with p \<open>s = 400 \<or> s = 500\<close> show ?thesis
    by (simp add: error_axum_def plain_answer_def is_problem_def) blast
qed

lemma result_form:
  assumes "\<And>b. r = Done (Inr b) \<Longrightarrow> \<not> is_problem b"
  shows "plain_answer (result_axum r)"
proof (cases r rule: meets_cases_outcome)
  case (2 e)
  with error_form [of "Db e"] show ?thesis by (auto simp: result_axum_def)
next
  case (3 b)
  with assms show ?thesis by (simp add: result_axum_def json_axum_def plain_answer_def)
qed (simp add: result_axum_def plain_answer_def)

lemma stamp_form: "plain_answer a \<Longrightarrow> stamp_axum a = Answered r \<Longrightarrow> api_answer r"
  by (cases a)
    (auto simp: stamp_axum_def plain_answer_def api_answer_def PROTOCOL_HEADER_def PROTOCOL_VERSION_def)

text \<open>No handler returns a problem body as its result.\<close>

definition returns :: "('a \<Rightarrow> bool) \<Rightarrow> 'a act \<Rightarrow> bool" where
  "returns Q m \<longleftrightarrow> (\<forall>w x. fst (m w) = Done (Inr x) \<longrightarrow> Q x)"

lemma returns_then: "(\<And>x. returns Q (f x)) \<Longrightarrow> returns Q (act_then m f)"
  by (auto simp: returns_def act_then_def split: prod.splits outcome.splits sum.splits)

lemma returns_return: "Q x \<Longrightarrow> returns Q (act_return x)"
  by (simp add: returns_def act_return_def act_of_def)

lemmas handler_defs = list_schemas_axum_def list_tables_axum_def table_counts_axum_def table_data_axum_def
  table_join_axum_def common_values_axum_def referenced_by_axum_def structure_axum_def

lemma handlers_return:
  "returns (\<lambda>b. \<not> is_problem b) (list_schemas_axum env st p1)"
  "returns (\<lambda>b. \<not> is_problem b) (list_tables_axum env st p2)"
  "returns (\<lambda>b. \<not> is_problem b) (table_counts_axum env st p3)"
  "returns (\<lambda>b. \<not> is_problem b) (table_data_axum env st p4)"
  "returns (\<lambda>b. \<not> is_problem b) (table_join_axum env st p5)"
  "returns (\<lambda>b. \<not> is_problem b) (common_values_axum env st p6)"
  "returns (\<lambda>b. \<not> is_problem b) (referenced_by_axum env st p7)"
  "returns (\<lambda>b. \<not> is_problem b) (structure_axum env st p8)"
  unfolding handler_defs case_prod_beta
  by ((rule returns_then)+, rule returns_return, simp add: is_problem_def)+

lemma query_form:
  assumes "\<And>p. returns (\<lambda>b. \<not> is_problem b) (handler p)"
  shows "plain_answer (fst (query_axum env decode handler req w))"
proof (cases "decode (rq_query req)")
  case (Inl r)
  with error_form [of "BadRequest (e_reject_axum env r)"] show ?thesis by (auto simp: query_axum_def)
next
  case (Inr p)
  have "plain_answer (result_axum (fst (handler p w)))"
    by (rule result_form) (use assms [of p] in \<open>auto simp: returns_def\<close>)
  with Inr show ?thesis by (simp add: query_axum_def Let_def case_prod_beta)
qed

lemma route_form:
  assumes "map_of (api_routes_axum env st) path = Some route"
  shows "plain_answer (fst (route req w))"
proof -
  have fixed: "plain_answer (result_axum (list_sources_axum st))" "plain_answer (result_axum (siblings_axum st req))"
    by (rule result_form; auto simp: list_sources_axum_def siblings_axum_def is_problem_def)+
  have "(path, route) \<in> set (api_routes_axum env st)"
    using assms by (rule map_of_SomeD)
  then show ?thesis
    unfolding api_routes_axum_def set_simps insert_iff
    by (elim disjE emptyE) (auto intro!: query_form handlers_return fixed)
qed

section \<open>Requests against the sources\<close>

text \<open>\<open>m\<close> keeps every pool's invariant, does not panic, and its result satisfies \<open>Q\<close>.\<close>

definition act_ok :: "(nat \<Rightarrow> history \<Rightarrow> bool) \<Rightarrow> ('a \<Rightarrow> bool) \<Rightarrow> 'a act \<Rightarrow> bool" where
  "act_ok I Q m \<longleftrightarrow>
     (\<forall>w. (\<forall>n. I n (w n)) \<longrightarrow>
        fst (m w) \<noteq> Panic \<and> (\<forall>n. I n (snd (m w) n)) \<and> (\<forall>x. fst (m w) = Done (Inr x) \<longrightarrow> Q x))"

lemma act_ok_of: "r \<noteq> Panic \<Longrightarrow> (\<And>x. r = Done (Inr x) \<Longrightarrow> Q x) \<Longrightarrow> act_ok I Q (act_of r)"
  by (simp add: act_ok_def act_of_def)

lemma act_ok_return: "Q x \<Longrightarrow> act_ok I Q (act_return x)"
  by (simp add: act_ok_def act_return_def act_of_def)

lemma act_ok_then:
  assumes "act_ok I R m" "\<And>x. R x \<Longrightarrow> act_ok I Q (f x)"
  shows "act_ok I Q (act_then m f)"
  unfolding act_ok_def
proof (intro allI impI)
  fix w
  assume w: "\<forall>n. I n (w n)"
  obtain r w' where m: "m w = (r, w')" by force
  with assms(1) w have ok: "r \<noteq> Panic" "\<forall>n. I n (w' n)" "\<And>x. r = Done (Inr x) \<Longrightarrow> R x"
    by (auto simp: act_ok_def)
  show "fst (act_then m f w) \<noteq> Panic \<and> (\<forall>n. I n (snd (act_then m f w) n))
      \<and> (\<forall>x. fst (act_then m f w) = Done (Inr x) \<longrightarrow> Q x)"
  proof (cases r rule: meets_cases_outcome)
    case (3 x)
    with assms(2) [OF ok(3)] ok(2) m show ?thesis by (simp add: act_then_def act_ok_def)
  qed (use m ok in \<open>simp_all add: act_then_def\<close>)
qed

lemma act_ok_source:
  assumes "keeps (I (src_pool src)) {} (m (src_ops src)) N Q" "contract (e_dbs env (src_pool src))"
  shows "act_ok I Q (on_source env src m)"
  unfolding act_ok_def
proof (intro allI impI)
  fix w
  assume w: "\<forall>n. I n (w n)"
  have "meets (\<lambda>x h. I (src_pool src) h \<and> {} \<union> N x \<subseteq> texts h \<and> Q x) (\<lambda>_. I (src_pool src))
      (m (src_ops src) (e_dbs env (src_pool src)) (w (src_pool src)))"
    by (rule tripleD [OF keepsD [OF assms(1) subset_refl] assms(2)]) (simp add: w)
  then show "fst (on_source env src m w) \<noteq> Panic \<and> (\<forall>n. I n (snd (on_source env src m w) n))
      \<and> (\<forall>x. fst (on_source env src m w) = Done (Inr x) \<longrightarrow> Q x)"
    by (cases rule: meets_cases) (auto simp: on_source_def w)
qed

text \<open>Every registered source is safe for the invariant of its pool.\<close>

definition mounted_safely ::
  "env \<Rightarrow> (nat \<Rightarrow> u32 set \<Rightarrow> history \<Rightarrow> bool) \<Rightarrow> (nat \<Rightarrow> u32) \<Rightarrow> (string \<times> source_handle) list \<Rightarrow> bool" where
  "mounted_safely env disc catalog sources \<longleftrightarrow>
     sources \<noteq> [] \<and> (\<forall>(name, s) \<in> set sources.
       safe_source (src_ops s) (disc (src_pool s)) (catalog (src_pool s)) \<and> contract (e_dbs env (src_pool s)))"

lemma resolve_ok:
  assumes "mounted_safely env disc catalog (st_sources st)"
  shows "act_ok I (\<lambda>s. safe_source (src_ops s) (disc (src_pool s)) (catalog (src_pool s))
      \<and> contract (e_dbs env (src_pool s))) (resolve st requested)"
proof -
  have ne: "st_sources st \<noteq> []"
    and safe: "\<And>name s. (name, s) \<in> set (st_sources st) \<Longrightarrow>
        safe_source (src_ops s) (disc (src_pool s)) (catalog (src_pool s)) \<and> contract (e_dbs env (src_pool s))"
    using assms by (auto simp: mounted_safely_def)
  show ?thesis
    unfolding resolve_def
  proof (rule act_ok_of)
    show "resolve_source (st_sources st) requested \<noteq> Panic"
      using ne by (auto simp: resolve_source_def default_source_def split: option.splits list.splits)
    fix s
    assume "resolve_source (st_sources st) requested = Done (Inr s)"
    then have "\<exists>name. (name, s) \<in> set (st_sources st)"
      using ne by (cases "st_sources st")
        (auto simp: resolve_source_def default_source_def dest!: find_Some_mem split: option.splits if_splits)
    with safe show "safe_source (src_ops s) (disc (src_pool s)) (catalog (src_pool s))
        \<and> contract (e_dbs env (src_pool s))" by blast
  qed
qed

text \<open>What a served body promises of its rows.\<close>

definition body_ok :: "limits \<Rightarrow> body \<Rightarrow> bool" where
  "body_ok lim b \<longleftrightarrow>
     (case b of
        BData t \<Rightarrow> page_wf t
      | BJoin j \<Rightarrow> \<exists>limit \<le> l_max_page_size lim. join_wf limit j
      | BSchemas s \<Rightarrow> set_option (sx_default s) \<subseteq> sc_name ` set (sx_schemas s)
      | _ \<Rightarrow> True)"

text \<open>The timeouts the statements of a pool may run under.\<close>

definition timeouts :: "limits \<Rightarrow> u32 \<Rightarrow> u32 set" where
  "timeouts lim catalog = {catalog, l_query_timeout_secs lim}"

lemma list_route_ok:
  assumes "mounted_safely env disc catalog (st_sources st)" "cfg_limits (st_config st) = lim"
  shows "act_ok (\<lambda>n. disc n (timeouts lim (catalog n))) (body_ok lim) (list_schemas_axum env st p1)"
    "act_ok (\<lambda>n. disc n (timeouts lim (catalog n))) (body_ok lim) (list_tables_axum env st p2)"
    "act_ok (\<lambda>n. disc n (timeouts lim (catalog n))) (body_ok lim) (table_counts_axum env st p3)"
    "act_ok (\<lambda>n. disc n (timeouts lim (catalog n))) (body_ok lim) (common_values_axum env st p4)"
    "act_ok (\<lambda>n. disc n (timeouts lim (catalog n))) (body_ok lim) (referenced_by_axum env st p5)"
    "act_ok (\<lambda>n. disc n (timeouts lim (catalog n))) (body_ok lim) (structure_axum env st p6)"
  unfolding handler_defs
  by (rule act_ok_then [OF resolve_ok [OF assms(1)]], elim conjE,
      rule act_ok_then, rule act_ok_source,
      (erule safe_source.list_schemas safe_source.list_tables safe_source.table_counts
         safe_source.common_values safe_source.referenced_by safe_source.structure_of;
       simp add: timeouts_def),
      assumption, rule act_ok_return,
      force simp: body_ok_def from_schema_listing_def)+

lemma data_route_ok:
  assumes "mounted_safely env disc catalog (st_sources st)" "cfg_limits (st_config st) = lim"
    and "l_max_page_size lim \<noteq> 0"
  shows "act_ok (\<lambda>n. disc n (timeouts lim (catalog n))) (body_ok lim) (table_data_axum env st p)"
  unfolding table_data_axum_def
proof (rule act_ok_then [OF resolve_ok [OF assms(1)]], elim conjE)
  fix s :: source_handle
  assume s: "safe_source (src_ops s) (disc (src_pool s)) (catalog (src_pool s))" "contract (e_dbs env (src_pool s))"
  show "act_ok (\<lambda>n. disc n (timeouts lim (catalog n))) (body_ok lim)
      (act_then (act_of (query_opts_of (e_de_filter env) p (cfg_limits (st_config st)))) (\<lambda>opts.
       act_then (on_source env s (\<lambda>s. ds_query_table s (dp_schema p) (dp_table p) opts)) (\<lambda>page.
       act_return (BData page))))"
  proof (rule act_ok_then [where R = "\<lambda>opts. q_timeout_secs opts = l_query_timeout_secs lim"], rule act_ok_of)
    show "query_opts_of (e_de_filter env) p (cfg_limits (st_config st)) \<noteq> Panic"
      using assms(2,3) by (auto simp: query_opts_of_def clamp_limit_cases)
    fix opts
    show "query_opts_of (e_de_filter env) p (cfg_limits (st_config st)) = Done (Inr opts) \<Longrightarrow>
        q_timeout_secs opts = l_query_timeout_secs lim"
      using assms(2) by (auto simp: query_opts_of_def)
    assume t: "q_timeout_secs opts = l_query_timeout_secs lim"
    show "act_ok (\<lambda>n. disc n (timeouts lim (catalog n))) (body_ok lim)
        (act_then (on_source env s (\<lambda>s. ds_query_table s (dp_schema p) (dp_table p) opts)) (\<lambda>page. act_return (BData page)))"
      by (rule act_ok_then [where R = page_wf], rule act_ok_source, rule safe_source.query_table [OF s(1)],
          simp_all add: timeouts_def t s(2))
        (rule act_ok_return; simp add: body_ok_def)
  qed
qed

lemma join_route_ok:
  assumes "mounted_safely env disc catalog (st_sources st)" "cfg_limits (st_config st) = lim"
    and "l_max_page_size lim \<noteq> 0"
  shows "act_ok (\<lambda>n. disc n (timeouts lim (catalog n))) (body_ok lim) (table_join_axum env st p)"
  unfolding table_join_axum_def
proof (rule act_ok_then [OF resolve_ok [OF assms(1)]], elim conjE)
  fix s :: source_handle
  assume s: "safe_source (src_ops s) (disc (src_pool s)) (catalog (src_pool s))" "contract (e_dbs env (src_pool s))"
  let ?good = "\<lambda>(spec, opts). wf_spec spec \<and> jo_timeout_secs opts = l_query_timeout_secs lim
      \<and> jo_limit opts \<le> l_max_page_size lim"
  show "act_ok (\<lambda>n. disc n (timeouts lim (catalog n))) (body_ok lim)
      (act_then (act_of (join_request (e_de_join env) (e_de_filter env) p (cfg_limits (st_config st)))) (\<lambda>(spec, opts).
       act_then (on_source env s (\<lambda>s. ds_query_join s (jp_schema p) spec opts)) (\<lambda>page.
       act_return (BJoin page))))"
  proof (rule act_ok_then [where R = ?good], rule act_ok_of)
    show "join_request (e_de_join env) (e_de_filter env) p (cfg_limits (st_config st)) \<noteq> Panic"
      using assms(2,3) by (auto simp: join_request_def clamp_limit_cases)
    fix so
    show "join_request (e_de_join env) (e_de_filter env) p (cfg_limits (st_config st)) = Done (Inr so) \<Longrightarrow> ?good so"
      using assms(2) by (auto simp: join_request_def parse_join_ok dest: clamp_limit_range)
    assume "?good so"
    then obtain spec opts where so: "so = (spec, opts)" and good: "wf_spec spec"
      "jo_timeout_secs opts = l_query_timeout_secs lim" "jo_limit opts \<le> l_max_page_size lim"
      by (cases so) auto
    have "act_ok (\<lambda>n. disc n (timeouts lim (catalog n))) (body_ok lim)
        (act_then (on_source env s (\<lambda>s. ds_query_join s (jp_schema p) spec opts)) (\<lambda>page. act_return (BJoin page)))"
      by (rule act_ok_then [where R = "join_wf (jo_limit opts)"], rule act_ok_source, rule safe_source.query_join [OF s(1)],
          simp_all add: timeouts_def good s(2))
        (rule act_ok_return, use good(3) in \<open>auto simp: body_ok_def\<close>)
    then show "act_ok (\<lambda>n. disc n (timeouts lim (catalog n))) (body_ok lim)
        (case so of (spec, opts) \<Rightarrow>
         act_then (on_source env s (\<lambda>s. ds_query_join s (jp_schema p) spec opts)) (\<lambda>page. act_return (BJoin page)))"
      by (simp add: so)
  qed
qed

lemma query_ok:
  assumes "\<And>p. act_ok I Q (handler p)" "\<forall>n. I n (w n)"
  shows "fst (query_axum env decode handler req w) \<noteq> Aborted
    \<and> (\<forall>n. I n (snd (query_axum env decode handler req w) n))
    \<and> (\<forall>r. fst (query_axum env decode handler req w) = Answered r \<longrightarrow> is_problem (hr_body r) \<or> Q (hr_body r))"
proof (cases "decode (rq_query req)")
  case (Inl r)
  with error_form [of "BadRequest (e_reject_axum env r)"] assms(2) show ?thesis
    by (auto simp: query_axum_def)
next
  case (Inr p)
  obtain r w' where run: "handler p w = (r, w')" by force
  have ok: "r \<noteq> Panic" "\<forall>n. I n (w' n)" "\<And>x. r = Done (Inr x) \<Longrightarrow> Q x"
    using assms(1) [of p] assms(2) run by (auto simp: act_ok_def)
  have "result_axum r \<noteq> Aborted \<and> (\<forall>a. result_axum r = Answered a \<longrightarrow> is_problem (hr_body a) \<or> Q (hr_body a))"
  proof (cases r rule: meets_cases_outcome)
    case (2 e)
    with error_form [of "Db e"] show ?thesis by (auto simp: result_axum_def)
  next
    case (3 x)
    with ok(3) show ?thesis by (simp add: result_axum_def json_axum_def)
  qed (use ok(1) in simp)
  with ok(2) run Inr show ?thesis by (simp add: query_axum_def)
qed

text \<open>What a request leaves: no panic, the pools' invariants, and an answer of the documented form.\<close>

definition served_ok :: "(nat \<Rightarrow> history \<Rightarrow> bool) \<Rightarrow> limits \<Rightarrow> http_answer \<times> world \<Rightarrow> bool" where
  "served_ok I lim aw \<longleftrightarrow>
     fst aw \<noteq> Aborted \<and> (\<forall>n. I n (snd aw n))
     \<and> (\<forall>r. fst aw = Answered r \<longrightarrow> (case hr_body r of
            BPage _ \<Rightarrow> hr_status r = 200
          | b \<Rightarrow> api_answer r \<and> (is_problem b \<or> body_ok lim b)))"

lemma route_ok:
  assumes "mounted_safely env disc catalog (st_sources st)" "cfg_limits (st_config st) = lim"
    and "l_max_page_size lim \<noteq> 0" "map_of (api_routes_axum env st) path = Some route"
    and "\<forall>n. disc n (timeouts lim (catalog n)) (w n)"
  shows "fst (route req w) \<noteq> Aborted \<and> (\<forall>n. disc n (timeouts lim (catalog n)) (snd (route req w) n))
    \<and> (\<forall>r. fst (route req w) = Answered r \<longrightarrow> is_problem (hr_body r) \<or> body_ok lim (hr_body r))"
proof -
  have "st_sources st \<noteq> []" using assms(1) by (simp add: mounted_safely_def)
  then have fixed:
    "\<exists>r. result_axum (list_sources_axum st) = Answered r \<and> body_ok lim (hr_body r)"
    "\<exists>r. result_axum (siblings_axum st req) = Answered r \<and> body_ok lim (hr_body r)"
    by (auto simp: list_sources_axum_def siblings_axum_def from_sources_def default_source_def result_axum_def
        json_axum_def body_ok_def split: list.split)
  note ok = list_route_ok [OF assms(1,2)] data_route_ok [OF assms(1-3)] join_route_ok [OF assms(1-3)]
  note q = query_ok [where I = "\<lambda>n. disc n (timeouts lim (catalog n))" and Q = "body_ok lim" and w = w
      and req = req and env = env, OF _ assms(5)]
  have "(path, route) \<in> set (api_routes_axum env st)"
    using assms(4) by (rule map_of_SomeD)
  then show ?thesis
    unfolding api_routes_axum_def set_simps insert_iff prod.inject
    by (elim disjE emptyE conjE; hypsubst)
      ((rule q, rule ok) | (use fixed assms(5) in \<open>force\<close>))+
qed

text \<open>The paths the browser serves.\<close>

definition documented_paths :: "string list" where
  "documented_paths = ''/__ashurbanipal'' # map ((@) ''/__ashurbanipal/api'')
     [''/sources'', ''/schemas'', ''/tables'', ''/table-counts'', ''/tables/data'', ''/tables/common-values'',
      ''/tables/referenced-by'', ''/tables/structure'', ''/tables/join'', ''/siblings'']"

lemma result_matched: "result_axum r \<noteq> Unmatched"
proof (cases r rule: meets_cases_outcome)
  case (2 e)
  with error_form [of "Db e"] show ?thesis by (auto simp: result_axum_def)
qed (simp_all add: result_axum_def json_axum_def)

lemma query_matched: "fst (query_axum env decode handler req w) \<noteq> Unmatched"
proof (cases "decode (rq_query req)")
  case (Inl r)
  with error_form [of "BadRequest (e_reject_axum env r)"] show ?thesis by (auto simp: query_axum_def)
next
  case (Inr p)
  with result_matched show ?thesis by (simp add: query_axum_def Let_def case_prod_beta)
qed

lemma route_matched:
  assumes "map_of (api_routes_axum env st) path = Some route"
  shows "fst (route req w) \<noteq> Unmatched"
proof -
  have "(path, route) \<in> set (api_routes_axum env st)" using assms by (rule map_of_SomeD)
  then show ?thesis
    unfolding api_routes_axum_def set_simps insert_iff
    by (elim disjE emptyE) (auto simp: query_matched result_matched)
qed

lemma paths_of_routes: "set documented_paths = insert ''/__ashurbanipal'' (fst ` set (api_routes_axum env st))"
  unfolding documented_paths_def api_routes_axum_def by simp

lemma serving_matched:
  "fst (handle_axum env (Serving st) req w) = Unmatched \<longleftrightarrow> rq_path req \<notin> set documented_paths"
proof (cases "rq_path req = ''/__ashurbanipal''")
  case True
  then show ?thesis
    by (simp add: handle_axum_def serve_html_axum_def Let_def documented_paths_def)
next
  case False
  show ?thesis
  proof (cases "map_of (api_routes_axum env st) (rq_path req)")
    case None
    then have "rq_path req \<notin> fst ` set (api_routes_axum env st)" by (simp add: map_of_eq_None_iff)
    with False None show ?thesis by (simp add: handle_axum_def paths_of_routes [of env st])
  next
    case (Some route)
    then have "rq_path req \<in> fst ` set (api_routes_axum env st)" by (force dest: map_of_SomeD)
    moreover have "stamp_axum a \<noteq> Unmatched" if "a \<noteq> Unmatched" for a
      using that by (cases a) (simp_all add: stamp_axum_def)
    ultimately show ?thesis
      using False Some route_matched [OF Some, of req w]
      by (simp add: handle_axum_def paths_of_routes [of env st] Let_def case_prod_beta)
  qed
qed

lemma serving_ok:
  assumes "mounted_safely env disc catalog (st_sources st)" "cfg_limits (st_config st) = lim"
    and "l_max_page_size lim \<noteq> 0" "\<forall>n. disc n (timeouts lim (catalog n)) (w n)"
  shows "served_ok (\<lambda>n. disc n (timeouts lim (catalog n))) lim (handle_axum env (Serving st) req w)"
proof (cases "rq_path req = ''/__ashurbanipal''")
  case True
  with assms(4) show ?thesis
    by (simp add: handle_axum_def served_ok_def serve_html_axum_def Let_def)
next
  case False
  show ?thesis
  proof (cases "map_of (api_routes_axum env st) (rq_path req)")
    case None
    with False assms(4) show ?thesis by (simp add: handle_axum_def served_ok_def)
  next
    case (Some route)
    obtain a w' where run: "route req w = (a, w')" by force
    have ok: "a \<noteq> Aborted" "\<forall>n. disc n (timeouts lim (catalog n)) (w' n)"
      "\<And>r. a = Answered r \<Longrightarrow> is_problem (hr_body r) \<or> body_ok lim (hr_body r)"
      using route_ok [OF assms(1-3) Some assms(4), of req] run by auto
    have form: "plain_answer a" using route_form [OF Some, of req w] run by simp
    have "stamp_axum a \<noteq> Aborted" using ok(1) by (cases a) (simp_all add: stamp_axum_def)
    moreover have "case hr_body r of BPage _ \<Rightarrow> hr_status r = 200 | b \<Rightarrow> api_answer r \<and> (is_problem b \<or> body_ok lim b)"
      if r: "stamp_axum a = Answered r" for r
    proof -
      have api: "api_answer r" by (rule stamp_form [OF form r])
      obtain r0 where "a = Answered r0" "hr_body r = hr_body r0"
        using r by (cases a) (auto simp: stamp_axum_def)
      with ok(3) [of r0] have "is_problem (hr_body r) \<or> body_ok lim (hr_body r)" by simp
      with api show ?thesis by (cases "hr_body r") (auto simp: api_answer_def is_problem_def)
    qed
    ultimately show ?thesis
      using False Some run ok(2) by (simp add: handle_axum_def served_ok_def)
  qed
qed

lemma serve_all_ok:
  assumes "\<And>req w. \<forall>n. I n (w n) \<Longrightarrow> served_ok I lim (handle req w)" "\<forall>n. I n (w n)"
  shows "(\<forall>a \<in> set (fst (serve_all handle reqs w)). \<exists>w. served_ok I lim (a, w))
    \<and> (\<forall>n. I n (snd (serve_all handle reqs w) n))"
  using assms(2)
proof (induction reqs arbitrary: w)
  case Nil
  then show ?case by simp
next
  case (Cons q qs)
  obtain a w' where q: "handle q w = (a, w')" by force
  with assms(1) [OF Cons.prems, of q] have ok: "served_ok I lim (a, w')" by simp
  then have "\<forall>n. I n (w' n)" by (simp add: served_ok_def)
  from Cons.IH [OF this] ok q show ?case
    by (cases "serve_all handle qs w'") auto
qed

lemma serve_all_answers:
  assumes "\<And>req w. \<forall>n. I n (w n) \<Longrightarrow> served_ok I lim (handle req w)"
    and "\<And>req w. fst (handle req w) = Unmatched \<longleftrightarrow> rq_path req \<notin> set documented_paths"
    and "\<forall>n. I n (w n)"
  shows "list_all2 (\<lambda>req a. (\<exists>r. a = Answered r) \<longleftrightarrow> rq_path req \<in> set documented_paths)
    reqs (fst (serve_all handle reqs w))"
  using assms(3)
proof (induction reqs arbitrary: w)
  case Nil
  then show ?case by simp
next
  case (Cons q qs)
  obtain a w' where q: "handle q w = (a, w')" by force
  with assms(1) [OF Cons.prems, of q] have ok: "a \<noteq> Aborted" "\<forall>n. I n (w' n)"
    by (simp_all add: served_ok_def)
  from assms(2) [of q w] ok(1) q have "(\<exists>r. a = Answered r) \<longleftrightarrow> rq_path q \<in> set documented_paths"
    by (cases a) auto
  with Cons.IH [OF ok(2)] q show ?case
    by (cases "serve_all handle qs w'") auto
qed

section \<open>The three backends\<close>

datatype backend =
    SqliteBackend "fk_groups \<Rightarrow> fk_groups"
  | PostgresBackend "fk_candidates \<Rightarrow> fk_candidates"
  | MysqlBackend "fk_candidates \<Rightarrow> fk_candidates"

text \<open>A backend wrapped in a \<open>Source\<close>, the discipline of its pool and its catalog timeout.\<close>

fun backend_ops :: "backend \<Rightarrow> db_source" where
  "backend_ops (SqliteBackend ord) = source_ops (source_new (sqlite_source ord))"
| "backend_ops (PostgresBackend ord) = source_ops (source_new (pg_source ord))"
| "backend_ops (MysqlBackend ord) = source_ops (source_new (my_source ord))"

fun backend_sane :: "backend \<Rightarrow> u32 set \<Rightarrow> history \<Rightarrow> bool" where
  "backend_sane (SqliteBackend _) T h = (conn_run T h Idle \<and> guarded sqlite_guard h)"
| "backend_sane (PostgresBackend _) T h =
     (tx_run (set_timeout_sql ` T) {} h Closed \<and> guarded (stmt_guard pg_statement) h)"
| "backend_sane (MysqlBackend _) T h =
     (tx_run {} {VERSION_SQL} h Closed \<and> guarded (stmt_guard (my_statement T)) h)"

fun backend_catalog :: "backend \<Rightarrow> u32" where
  "backend_catalog (SqliteBackend _) = CATALOG_TIMEOUT_SECS"
| "backend_catalog (PostgresBackend _) = CATALOG_TIMEOUT_SECS_pg"
| "backend_catalog (MysqlBackend _) = CATALOG_TIMEOUT_SECS_my"

lemma backend_safe: "safe_source (backend_ops b) (backend_sane b) (backend_catalog b)"
proof (cases b)
  case (SqliteBackend ord)
  have "backend_sane b = (\<lambda>T. sane T Idle)"
    by (intro ext) (simp add: SqliteBackend sane_def)
  with sqlite.wrapped [of ord] show ?thesis by (simp add: SqliteBackend)
next
  case (PostgresBackend ord)
  have "backend_sane b = (\<lambda>T. pg_state T Closed)"
    by (intro ext) (simp add: PostgresBackend tx_sane_def)
  with pgs.wrapped [of ord] show ?thesis by (simp add: PostgresBackend)
next
  case (MysqlBackend ord)
  have "backend_sane b = (\<lambda>T. my_state T Closed)"
    by (intro ext) (simp add: MysqlBackend tx_sane_def)
  with mys.wrapped [of ord] show ?thesis by (simp add: MysqlBackend)
qed

text \<open>Every registered source is one of the backends over its pool, and every pool's database is
  within sqlx's contract.\<close>

definition registered :: "env \<Rightarrow> (nat \<Rightarrow> backend) \<Rightarrow> (string \<times> source_handle) list \<Rightarrow> bool" where
  "registered env kind sources \<longleftrightarrow>
     (\<forall>(name, s) \<in> set sources. src_ops s = backend_ops (kind (src_pool s)))
     \<and> (\<forall>n. contract (e_dbs env n))"

lemma registered_safely:
  "registered env kind sources \<Longrightarrow> sources \<noteq> [] \<Longrightarrow>
   mounted_safely env (\<lambda>n. backend_sane (kind n)) (\<lambda>n. backend_catalog (kind n)) sources"
  by (auto simp: registered_def mounted_safely_def backend_safe)

text \<open>One GET of an enabled server.\<close>

lemma enabled_serves:
  assumes "is_enabled cfg" "sources \<noteq> []" "l_max_page_size (cfg_limits cfg) \<noteq> 0"
    and "registered env kind sources"
    and "\<forall>n. backend_sane (kind n) (timeouts (cfg_limits cfg) (backend_catalog (kind n))) (w n)"
  shows "served_ok (\<lambda>n. backend_sane (kind n) (timeouts (cfg_limits cfg) (backend_catalog (kind n))))
    (cfg_limits cfg) (handle_axum env (router_axum cfg sources) req w)"
proof -
  let ?st = "\<lparr>st_config = cfg, st_sources = sources, st_siblings = siblings_view cfg\<rparr>"
  have "mounted_safely env (\<lambda>n. backend_sane (kind n)) (\<lambda>n. backend_catalog (kind n)) (st_sources ?st)"
    using registered_safely [OF assms(4,2)] by simp
  from serving_ok [OF this _ assms(3,5)] assms(1,2) show ?thesis
    by (simp add: router_axum_def)
qed

section \<open>A server to run them on\<close>

definition example_env :: env where
  "example_env = \<lparr>e_dbs = (\<lambda>n. if n = 0 then users_db else if n = 1 then pg_users_db else maria_users_db),
     e_de_filter = (\<lambda>_. Inr []), e_de_join = (\<lambda>_. Inl ''bad''), e_reject_axum = (\<lambda>_. ''Failed to deserialize query string''),
     e_reject_actix = (\<lambda>_. ''Query deserialize error''),
     e_page = ''<html>'', e_gzip = id\<rparr>"

definition example_kind :: "nat \<Rightarrow> backend" where
  "example_kind n = (if n = 0 then SqliteBackend id else if n = 1 then PostgresBackend id else MysqlBackend id)"

definition example_sources :: "(string \<times> source_handle) list" where
  "example_sources = map (\<lambda>n. (nat_str n, \<lparr>src_ops = backend_ops (example_kind n), src_pool = n\<rparr>)) [0, 1, 2]"

definition example_config :: config where
  "example_config = config_default\<lparr>cfg_enabled := True\<rparr>"

definition get :: "string \<Rightarrow> (string \<times> string) list \<Rightarrow> http_request" where
  "get path query = \<lparr>rq_path = path, rq_query = query, rq_accept = [''gzip''], rq_health = (\<lambda>_ _. False)\<rparr>"

section \<open>Properties\<close>

text \<open>C10: the two adapters are the same server but for one text: for every configuration and list of
  sources, the state of actix-web panics while being built exactly when axum's router does, when enabled
  with no source. Otherwise every GET is answered alike, to status, headers and body, and leaves the
  databases alike, or is refused by both with the same 400 problem, before any database is asked, whose
  title is each framework's own wording of why the query string is rejected; so actix-web answers as axum
  would with actix-web's wording. Paths are matched alike although one nests scopes and the other lists
  whole paths.\<close>

theorem adapters_agree:
  "case app_state_actix cfg sources of
     None \<Rightarrow> router_axum cfg sources = MountPanic
   | Some st \<Rightarrow> router_axum cfg sources \<noteq> MountPanic
       \<and> (\<forall>req w.
            let axum = handle_axum env (router_axum cfg sources) req w; actix = handle_actix env st req w
            in actix = axum
               \<or> (\<exists>r. axum = (rejected_answer (e_reject_axum env r), w) \<and> actix = (rejected_answer (e_reject_actix env r), w)))
       \<and> handle_actix env st = handle_axum (env\<lparr>e_reject_axum := e_reject_actix env\<rparr>) (router_axum cfg sources)"
proof -
  have built: "app_state_actix cfg sources = None \<and> router_axum cfg sources = MountPanic
      \<or> (\<exists>st. app_state_actix cfg sources = Some st \<and> router_axum cfg sources \<noteq> MountPanic
           \<and> handle_actix env st = handle_axum (as_actix env) (router_axum cfg sources))"
    using handle_same [of "\<lparr>st_config = cfg, st_sources = sources, st_siblings = siblings_view cfg\<rparr>" env]
    by (cases "is_enabled cfg") (auto simp: app_state_actix_def router_axum_def handle_actix_def handle_axum_def intro!: ext)
  then show ?thesis
    using handle_wording [of env "router_axum cfg sources"] by (elim disjE exE conjE) (simp_all add: Let_def)
qed

text \<open>C29: the kill switch: a host that does not enable the browser gets no routes, even without a
  source to browse, and whatever is requested nothing is answered and no database is asked.\<close>

theorem disabled_serves_nothing:
  assumes "\<not> is_enabled cfg"
  shows "router_axum cfg sources = NoRoutes
    \<and> serve_all (handle_axum env (router_axum cfg sources)) reqs w = (map (\<lambda>_. Unmatched) reqs, w)"
proof -
  have "serve_all (handle_axum env NoRoutes) reqs w = (map (\<lambda>_. Unmatched) reqs, w)" for w
    by (induction reqs arbitrary: w) (simp_all add: handle_axum_def)
  with assms show ?thesis by (simp add: router_axum_def)
qed

lemma disabled_serves_nothing_witness:
  "\<not> is_enabled config_default
   \<and> serve_all (handle_axum example_env (router_axum config_default []))
        [get ''/__ashurbanipal/api/tables'' []] (\<lambda>_. []) = ([Unmatched], \<lambda>_. [])"
proof -
  have off: "\<not> is_enabled config_default" by (simp add: config_default_def is_enabled_def)
  note disabled_serves_nothing [OF off, of "[]" example_env "[get ''/__ashurbanipal/api/tables'' []]" "\<lambda>_. []"]
  with off show ?thesis unfolding list.map by blast
qed

text \<open>C12: every answer of an API route, whatever the databases do, carries the protocol version and
  \<open>nosniff\<close>; it is JSON with status 200, or a problem document as \<open>application/problem+json\<close>
  with status 400 or 500 that its body repeats. A rejected query string is such a problem too.\<close>

theorem api_answers_documented:
  assumes "rq_path req \<noteq> ''/__ashurbanipal''"
    and "fst (handle_axum env m req w) = Answered r"
  shows "api_answer r"
proof -
  obtain st where m: "m = Serving st"
    using assms(2) by (cases m) (auto simp: handle_axum_def)
  with assms obtain route where route: "map_of (api_routes_axum env st) (rq_path req) = Some route"
    by (auto simp: handle_axum_def split: option.splits)
  have "stamp_axum (fst (route req w)) = Answered r"
    using assms route by (simp add: handle_axum_def m Let_def case_prod_beta)
  then show ?thesis by (rule stamp_form [OF route_form [OF route]])
qed

lemma api_answers_documented_witness:
  "\<exists>r. fst (handle_axum example_env (router_axum example_config example_sources)
         (get ''/__ashurbanipal/api/tables/data'' []) (\<lambda>_. [])) = Answered r
     \<and> hr_status r = 400 \<and> api_answer r"
proof -
  have "decode_data_params [] = Inl (MissingField ''table'')"
    by (simp add: decode_data_params_def required_def)
  then obtain r where r: "fst (handle_axum example_env (router_axum example_config example_sources)
      (get ''/__ashurbanipal/api/tables/data'' []) (\<lambda>_. [])) = Answered r" and s: "hr_status r = 400"
    by (simp add: handle_axum_def router_axum_def example_config_def config_default_def is_enabled_def
        example_sources_def get_def api_routes_axum_def query_axum_def error_axum_def status_from_u16_def stamp_axum_def)
  have "api_answer r"
    by (rule api_answers_documented [OF _ r]) (simp add: get_def)
  with r s show ?thesis by blast
qed

text \<open>C1: end to end, from the query string to the statements: an enabled server over sources of the
  three backends, with a positive maximum page size, whatever its databases answer within sqlx's
  contract. Every sequence of GETs is answered without a panic; every answer is the page, or a
  documented API answer whose rows have exactly the reported columns and whose joins hold at
  most the maximum page size of rows; and the history of every pool keeps its discipline
  throughout: connections come back disarmed, transactions end, timeouts bound every statement but
  MySQL's version query by the catalog's or the configured one, and only names the database itself reported are written
  into SQL.\<close>

theorem server_safe:
  assumes "is_enabled cfg" "sources \<noteq> []" "l_max_page_size (cfg_limits cfg) \<noteq> 0"
    and "registered env kind sources"
  shows "let (answers, w) = serve_all (handle_axum env (router_axum cfg sources)) reqs (\<lambda>_. [])
    in (\<forall>a \<in> set answers. a \<noteq> Aborted)
     \<and> (\<forall>r. Answered r \<in> set answers \<longrightarrow> (case hr_body r of
            BPage _ \<Rightarrow> hr_status r = 200
          | b \<Rightarrow> api_answer r \<and> (is_problem b \<or> body_ok (cfg_limits cfg) b)))
     \<and> (\<forall>n. backend_sane (kind n) {backend_catalog (kind n), l_query_timeout_secs (cfg_limits cfg)} (w n))"
proof -
  let ?I = "\<lambda>n. backend_sane (kind n) (timeouts (cfg_limits cfg) (backend_catalog (kind n)))"
  let ?h = "handle_axum env (router_axum cfg sources)"
  have "served_ok ?I (cfg_limits cfg) (?h req w)" if "\<forall>n. ?I n (w n)" for req w
    by (rule enabled_serves [OF assms that])
  moreover have "\<forall>n. ?I n []"
    using safe_source.start [OF backend_safe] by blast
  ultimately have "(\<forall>a \<in> set (fst (serve_all ?h reqs (\<lambda>_. []))). \<exists>w. served_ok ?I (cfg_limits cfg) (a, w))
      \<and> (\<forall>n. ?I n (snd (serve_all ?h reqs (\<lambda>_. [])) n))"
    by (rule serve_all_ok)
  then show ?thesis
    by (force simp: served_ok_def timeouts_def case_prod_beta Let_def)
qed

lemma example_registered: "registered example_env example_kind example_sources"
proof -
  have "contract users_db" by (simp add: users_db_def contract_db_of)
  then show ?thesis
    by (simp add: registered_def example_env_def example_sources_def pg_users_db_contract maria_users_db_contract)
qed

lemma server_safe_witness:
  "is_enabled example_config \<and> example_sources \<noteq> [] \<and> l_max_page_size (cfg_limits example_config) \<noteq> 0
   \<and> registered example_env example_kind example_sources
   \<and> Aborted \<notin> set (fst (serve_all (handle_axum example_env (router_axum example_config example_sources))
        [get ''/__ashurbanipal/api/tables/data'' [(''table'', ''users'')],
         get ''/__ashurbanipal/api/tables'' [(''source'', ''1'')],
         get ''/__ashurbanipal/api/schemas'' [(''source'', ''2'')]] (\<lambda>_. [])))"
proof -
  have cfg: "is_enabled example_config" "l_max_page_size (cfg_limits example_config) \<noteq> 0"
    by (simp_all add: example_config_def config_default_def limits_default_def is_enabled_def)
  have src: "example_sources \<noteq> []" by (simp add: example_sources_def)
  show ?thesis
    using server_safe [OF cfg(1) src cfg(2) example_registered,
        of "[get ''/__ashurbanipal/api/tables/data'' [(''table'', ''users'')],
         get ''/__ashurbanipal/api/tables'' [(''source'', ''1'')],
         get ''/__ashurbanipal/api/schemas'' [(''source'', ''2'')]]"]
      cfg src example_registered
    by (auto simp: Let_def case_prod_beta)
qed

text \<open>C11: an enabled server is live: of any sequence of GETs, each is answered exactly when its path
  is one of the eleven documented ones, whatever the databases do and whatever was asked before;
  no request hangs on an earlier one's failure.\<close>

theorem documented_paths_answered:
  assumes "is_enabled cfg" "sources \<noteq> []" "l_max_page_size (cfg_limits cfg) \<noteq> 0"
    and "registered env kind sources"
  shows "list_all2 (\<lambda>req a. (\<exists>r. a = Answered r) \<longleftrightarrow> rq_path req \<in> set documented_paths)
    reqs (fst (serve_all (handle_axum env (router_axum cfg sources)) reqs (\<lambda>_. [])))"
proof (rule serve_all_answers)
  show "\<forall>n. backend_sane (kind n) (timeouts (cfg_limits cfg) (backend_catalog (kind n))) []"
    using safe_source.start [OF backend_safe] by blast
  show "fst (handle_axum env (router_axum cfg sources) req w) = Unmatched \<longleftrightarrow> rq_path req \<notin> set documented_paths"
    for req w
    using assms(1,2) serving_matched by (simp add: router_axum_def)
qed (rule enabled_serves [OF assms])

lemma documented_paths_answered_witness:
  "\<exists>r. fst (serve_all (handle_axum example_env (router_axum example_config example_sources))
       [get ''/__ashurbanipal/api/tables'' []] (\<lambda>_. [])) = [Answered r]"
proof -
  have cfg: "is_enabled example_config" "l_max_page_size (cfg_limits example_config) \<noteq> 0"
    by (simp_all add: example_config_def config_default_def limits_default_def is_enabled_def)
  have src: "example_sources \<noteq> []" by (simp add: example_sources_def)
  have path: "rq_path (get ''/__ashurbanipal/api/tables'' []) \<in> set documented_paths"
    by (simp add: get_def documented_paths_def)
  show ?thesis
    using documented_paths_answered [OF cfg(1) src cfg(2) example_registered,
        of "[get ''/__ashurbanipal/api/tables'' []]"] path
    by (auto simp: list_all2_Cons1)
qed

end
