(* ===== verification/Conf_Correct.thy ===== *)
theory Conf_Correct
  imports Conf_Suites Demo Routes_Correct Seed_Correct
begin

text \<open>
  The conformance suite and the program: both adapters pass the suites of \<^verbatim>\<open>Conf_Suites\<close>; the
  harness settles on one engine; and the seed that the generator writes is the one it accepts.
\<close>

section \<open>A server as a target\<close>

definition axum_target ::
  "env \<Rightarrow> config \<Rightarrow> (string \<times> source_handle) list \<Rightarrow> (nat \<Rightarrow> string \<Rightarrow> bool) \<Rightarrow> (body \<Rightarrow> json) \<Rightarrow> string \<Rightarrow> target" where
  "axum_target env cfg sources health js origin =
     \<lparr>tg_send = handle_axum env (router_axum cfg sources), tg_origin = origin,
      tg_mount = ''/__ashurbanipal'', tg_health = health, tg_json = js\<rparr>"

definition actix_target ::
  "env \<Rightarrow> config \<Rightarrow> (string \<times> source_handle) list \<Rightarrow> (nat \<Rightarrow> string \<Rightarrow> bool) \<Rightarrow> (body \<Rightarrow> json) \<Rightarrow> string \<Rightarrow> target" where
  "actix_target env cfg sources health js origin =
     \<lparr>tg_send = (case app_state_actix cfg sources of Some st \<Rightarrow> handle_actix env st | None \<Rightarrow> (\<lambda>req w. (Aborted, w))),
      tg_origin = origin, tg_mount = ''/__ashurbanipal'', tg_health = health, tg_json = js\<rparr>"

text \<open>actix-web is axum with actix-web's wording of a rejected query string.\<close>

lemma actix_target_eq:
  assumes "is_enabled cfg" "sources \<noteq> []"
  shows "actix_target env cfg sources health js origin = axum_target (as_actix env) cfg sources health js origin"
proof -
  have "handle_actix env \<lparr>st_config = cfg, st_sources = sources, st_siblings = siblings_view cfg\<rparr>
      = handle_axum (as_actix env) (Serving \<lparr>st_config = cfg, st_sources = sources, st_siblings = siblings_view cfg\<rparr>)"
    using assms by (intro ext handle_same) simp
  then show ?thesis using assms by (simp add: actix_target_def axum_target_def app_state_actix_def router_axum_def)
qed

lemma either_target:
  assumes "is_enabled cfg" "sources \<noteq> []"
    and "T = axum_target env cfg sources health js origin \<or> T = actix_target env cfg sources health js origin"
  obtains env' where "T = axum_target env' cfg sources health js origin"
    "e_page env' = e_page env" "e_gzip env' = e_gzip env" "e_dbs env' = e_dbs env"
    "e_de_join env' = e_de_join env" "e_de_filter env' = e_de_filter env"
  using assms(3) that [of env] that [of "as_actix env"] by (auto simp: actix_target_eq [OF assms(1,2)])

definition served :: "config \<Rightarrow> (string \<times> source_handle) list \<Rightarrow> app_state" where
  "served cfg sources = \<lparr>st_config = cfg, st_sources = sources, st_siblings = siblings_view cfg\<rparr>"

lemma target_send:
  "is_enabled cfg \<Longrightarrow> sources \<noteq> [] \<Longrightarrow>
   tg_send (axum_target env cfg sources health js origin) = handle_axum env (Serving (served cfg sources))"
  by (simp add: axum_target_def router_axum_def served_def)

lemma request_fields [simp]:
  "rq_path (probe_request (axum_target env cfg sources health js origin) p qs a) = ''/__ashurbanipal'' @ p"
  "rq_query (probe_request T p qs a) = qs"
  "rq_accept (probe_request T p qs a) = (case a of None \<Rightarrow> [] | Some v \<Rightarrow> [v])"
  "rq_health (probe_request T p qs a) = tg_health T"
  by (simp_all add: probe_request_def axum_target_def)

lemma require_True [simp]: "require True = gret ()"
  by (simp add: require_def)

lemma unwrap_gen_Some [simp]: "unwrap_gen (Some x) = gret x"
  by (simp add: unwrap_gen_def)

lemma gtraverse_unit:
  "(\<And>x. x \<in> set xs \<Longrightarrow> f x = gret ()) \<Longrightarrow> gmap (\<lambda>_. ()) (gtraverse f xs) = gret ()"
proof (induction xs)
  case (Cons x xs)
  then show ?case by (simp add: gmap_def)
qed simp

section \<open>An unknown source\<close>

definition unknown_source :: "string \<Rightarrow> http_answer" where
  "unknown_source name = stamp_axum (error_axum (Db (not_allowed Source (''source '' @ debug_str name))))"

lemma resolve_unknown:
  assumes "name \<notin> fst ` set (st_sources st)"
  shows "resolve st (Some name) = act_of (Done (Inl (not_allowed Source (''source '' @ debug_str name))))"
proof -
  have "find (\<lambda>s. fst s = name) (st_sources st) = None"
    using assms by (force simp: find_None_iff)
  then show ?thesis by (simp add: resolve_def resolve_source_def)
qed

lemma act_then_error [simp]: "act_then (act_of (Done (Inl e))) f w = (Done (Inl e), w)"
  by (simp add: act_then_def act_of_def)

lemma handle_route:
  assumes "map_of (api_routes_axum env st) (rq_path req) = Some route"
  shows "handle_axum env (Serving st) req w = (let (a, w') = route req w in (stamp_axum a, w'))"
proof -
  have "rq_path req \<noteq> ''/__ashurbanipal''" using assms route_not_html by auto
  then show ?thesis using assms by (simp add: handle_axum_def)
qed

lemma routes:
  "map_of (api_routes_axum env st) (''/__ashurbanipal'' @ ''/api/sources'') =
     Some (\<lambda>req w. (result_axum (list_sources_axum st), w))"
  "map_of (api_routes_axum env st) (''/__ashurbanipal'' @ ''/api/schemas'') =
     Some (query_axum env decode_source_params (list_schemas_axum env st))"
  "map_of (api_routes_axum env st) (''/__ashurbanipal'' @ ''/api/tables'') =
     Some (query_axum env decode_schema_params (list_tables_axum env st))"
  "map_of (api_routes_axum env st) (''/__ashurbanipal'' @ ''/api/table-counts'') =
     Some (query_axum env decode_schema_params (table_counts_axum env st))"
  "map_of (api_routes_axum env st) (''/__ashurbanipal'' @ ''/api/tables/data'') =
     Some (query_axum env decode_data_params (table_data_axum env st))"
  "map_of (api_routes_axum env st) (''/__ashurbanipal'' @ ''/api/tables/common-values'') =
     Some (query_axum env decode_common_values_params (common_values_axum env st))"
  "map_of (api_routes_axum env st) (''/__ashurbanipal'' @ ''/api/siblings'') =
     Some (\<lambda>req w. (result_axum (siblings_axum st req), w))"
  "map_of (api_routes_axum env st) (''/__ashurbanipal'' @ ''/api/not-a-real-route'') = None"
  by (simp_all add: api_routes_axum_def)

lemma decoded:
  "decode_source_params [(''source'', n)] = Inr \<lparr>sp_source = Some n\<rparr>"
  "decode_schema_params [(''source'', n)] = Inr \<lparr>cp_schema = None, cp_source = Some n\<rparr>"
  "decode_data_params [(''source'', n), (''table'', t)] =
     Inr \<lparr>dp_schema = None, dp_source = Some n, dp_table = t, dp_filter = None, dp_limit = None,
          dp_offset = None, dp_sort = None, dp_order = None\<rparr>"
  "decode_common_values_params [(''source'', n), (''table'', t), (''column'', c)] =
     Inr \<lparr>vp_schema = None, vp_source = Some n, vp_table = t, vp_column = c\<rparr>"
  by (simp_all add: decode_source_params_def decode_schema_params_def decode_data_params_def
      data_fields_def decode_common_values_params_def required_def numeric_field_def decode_fields.simps)

definition source_queries :: "string \<Rightarrow> (string \<times> (string \<times> string) list) list" where
  "source_queries name =
     [(''/api/schemas'', [(''source'', name)]), (''/api/tables'', [(''source'', name)]),
      (''/api/table-counts'', [(''source'', name)]),
      (''/api/tables/data'', [(''source'', name), (''table'', ''users'')]),
      (''/api/tables/common-values'', [(''source'', name), (''table'', ''users''), (''column'', ''email'')])]"

lemma route_error:
  assumes "map_of (api_routes_axum env st) (''/__ashurbanipal'' @ path) = Some (query_axum env decode handler)"
    and "decode query = Inr p" "handler p w = (Done (Inl e), w)"
    and "rq_path req = ''/__ashurbanipal'' @ path" "rq_query req = query"
  shows "handle_axum env (Serving st) req w = (stamp_axum (error_axum (Db e)), w)"
proof -
  have "query_axum env decode handler req w = (error_axum (Db e), w)"
    unfolding query_axum_def using assms(2,3,5) by (simp add: result_axum_def)
  then show ?thesis
    using handle_route [of env st req "query_axum env decode handler" w] assms(1,4) by simp
qed

lemma unknown_source_answers:
  assumes name: "name \<notin> fst ` set (st_sources st)"
    and "(path, query) \<in> set (source_queries name)"
    and req: "rq_path req = ''/__ashurbanipal'' @ path" "rq_query req = query"
  shows "handle_axum env (Serving st) req w = (unknown_source name, w)"
proof -
  note handlers = list_schemas_axum_def list_tables_axum_def table_counts_axum_def
    table_data_axum_def common_values_axum_def resolve_unknown [OF name]
  consider "path = ''/api/schemas''" "query = [(''source'', name)]"
    | "path = ''/api/tables''" "query = [(''source'', name)]"
    | "path = ''/api/table-counts''" "query = [(''source'', name)]"
    | "path = ''/api/tables/data''" "query = [(''source'', name), (''table'', ''users'')]"
    | "path = ''/api/tables/common-values''"
      "query = [(''source'', name), (''table'', ''users''), (''column'', ''email'')]"
    using assms(2) unfolding source_queries_def by fastforce
  then have "handle_axum env (Serving st) req w
      = (stamp_axum (error_axum (Db (not_allowed Source (''source '' @ debug_str name)))), w)"
  proof cases
    case 1
    show ?thesis by (rule route_error [OF routes(2) decoded(1)]) (simp_all add: 1 req handlers)
  next
    case 2
    show ?thesis by (rule route_error [OF routes(3) decoded(2)]) (simp_all add: 2 req handlers)
  next
    case 3
    show ?thesis by (rule route_error [OF routes(4) decoded(2)]) (simp_all add: 3 req handlers)
  next
    case 4
    show ?thesis by (rule route_error [OF routes(5) decoded(3)]) (simp_all add: 4 req handlers)
  next
    case 5
    show ?thesis by (rule route_error [OF routes(6) decoded(4)]) (simp_all add: 5 req handlers)
  qed
  then show ?thesis by (simp add: unknown_source_def)
qed

definition refused_reply :: "string \<Rightarrow> string \<Rightarrow> http_reply" where
  "refused_reply code title =
     \<lparr>rp_status = 400,
      rp_headers = [''content-type'' \<mapsto> ''application/problem+json'', PROTOCOL_HEADER \<mapsto> PROTOCOL_VERSION,
        ''x-content-type-options'' \<mapsto> ''nosniff''],
      rp_body = Some (BProblem (problem_details_new 400 code title))\<rparr>"

lemma send_refused:
  assumes "tg_send T req = (\<lambda>w. (stamp_axum (error_axum e), w))"
    and "(case e of BadRequest msg \<Rightarrow> (400, ''invalid_parameter'', msg) | Db err \<Rightarrow> problem err) = (400, code, title)"
  shows "send T req = gret (refused_reply code title)"
  by (rule ext)
    (simp add: send_def assms error_axum_def status_from_u16_def stamp_axum_def gret_def refused_reply_def)

lemma refused_problem:
  "assert_problem_code T (refused_reply code title) 400 code = gret ()"
  "assert_status (refused_reply code title) 400 = gret ()"
  by (simp_all add: assert_problem_code_def refused_reply_def header_text_of_def header_to_str_def
      PROTOCOL_HEADER_def unwrap_or_def reply_json_def body_json_def problem_json_def problem_details_new_def
      assert_status_def)

definition unknown_source_reply :: "string \<Rightarrow> http_reply" where
  "unknown_source_reply name =
     refused_reply ''unknown_source'' (db_error_text (not_allowed Source (''source '' @ debug_str name)))"

lemma send_unknown_source:
  assumes "tg_send T req = (\<lambda>w. (unknown_source name, w))"
  shows "send T req = gret (unknown_source_reply name)"
  unfolding unknown_source_reply_def
  by (rule send_refused [OF assms [unfolded unknown_source_def]]) (simp add: problem_def not_allowed_def)

lemma unknown_source_rejected:
  assumes on: "is_enabled cfg" "sources \<noteq> []" and name: "name \<notin> fst ` set sources"
  shows "rejected_on_every_route (axum_target env cfg sources health js origin) name = gret ()"
proof -
  let ?T = "axum_target env cfg sources health js origin"
  have "get_path ?T path query = gret (unknown_source_reply name)"
    if "(path, query) \<in> set (source_queries name)"
    for path query
    unfolding get_path_def
    by (rule send_unknown_source, unfold target_send [OF on], rule ext,
        rule unknown_source_answers [OF _ that])
      (use name in \<open>simp_all add: served_def\<close>)
  then show ?thesis
    by (simp add: rejected_on_every_route_def unknown_source_reply_def refused_problem source_queries_def)
qed

section \<open>The other suites\<close>

definition json_reply :: "body \<Rightarrow> http_reply" where
  "json_reply b =
     \<lparr>rp_status = 200,
      rp_headers = [''content-type'' \<mapsto> ''application/json'', PROTOCOL_HEADER \<mapsto> PROTOCOL_VERSION,
        ''x-content-type-options'' \<mapsto> ''nosniff''],
      rp_body = Some b\<rparr>"

lemma route_json:
  assumes on: "is_enabled cfg" "sources \<noteq> []"
    and "map_of (api_routes_axum env (served cfg sources)) (''/__ashurbanipal'' @ path)
      = Some (\<lambda>req w. (result_axum (f req), w))"
    and "f (probe_request (axum_target env cfg sources health js origin) path query None) = Done (Inr b)"
  shows "get_path (axum_target env cfg sources health js origin) path query = gret (json_reply b)"
proof (rule ext)
  fix w
  let ?T = "axum_target env cfg sources health js origin"
  let ?r = "probe_request ?T path query None"
  have "handle_axum env (Serving (served cfg sources)) ?r w = (stamp_axum (json_axum b), w)"
    using handle_route [of env "served cfg sources" ?r "\<lambda>req w. (result_axum (f req), w)" w] assms(3,4)
    by (simp add: result_axum_def)
  then have "tg_send ?T ?r w = (stamp_axum (json_axum b), w)"
    by (simp only: target_send [OF on])
  then show "get_path ?T path query w = gret (json_reply b) w"
    by (simp add: get_path_def send_def json_axum_def stamp_axum_def json_reply_def gret_def)
qed

lemma get_sources:
  assumes on: "is_enabled cfg" "sources \<noteq> []"
  shows "get_path (axum_target env cfg sources health js origin) ''/api/sources'' [] =
    gret (json_reply (BSources \<lparr>sr_sources = map (\<lambda>(name, _). \<lparr>se_name = name\<rparr>) sources,
      sr_default = fst (hd sources)\<rparr>))"
  by (rule route_json [OF on routes(1)])
    (use on in \<open>simp add: list_sources_axum_def from_sources_def default_source_def served_def split: list.split\<close>)

lemma get_siblings:
  assumes on: "is_enabled cfg" "sources \<noteq> []"
  shows "get_path (axum_target env cfg sources health js origin) ''/api/siblings'' [] =
    gret (json_reply (BSiblings (fst (check_siblings health (siblings_view cfg)))))"
  by (rule route_json [OF on routes(7)]) (simp add: siblings_axum_def served_def axum_target_def)

lemma reply_json_simps [simp]:
  "reply_json T (json_reply (BSources r)) = gret (sources_json r)"
  "reply_json T (json_reply (BSiblings r')) = gret (siblings_json r')"
  by (simp_all add: reply_json_def json_reply_def body_json_def)

lemma sources_tests:
  assumes on: "is_enabled cfg" "sources \<noteq> []"
  shows "lists_exactly_the_one_registered_source (axum_target env cfg sources health js origin) = gret ()"
    and "every_sources_response_carries_the_protocol_version_header (axum_target env cfg sources health js origin) = gret ()"
proof -
  have "gmap (\<lambda>_. ()) (gtraverse (\<lambda>source. require (source_listed source))
      (map (\<lambda>e. JsObj [''name'' \<mapsto> JsStr (se_name e)]) entries)) = (gret () :: unit probe)" for entries :: "source_entry list"
    by (rule gtraverse_unit) (auto simp: source_listed_def)
  then show "lists_exactly_the_one_registered_source (axum_target env cfg sources health js origin) = gret ()"
    by (simp add: lists_exactly_the_one_registered_source_def get_json_def get_sources [OF on]
        sources_json_def assert_exact_def del: map_map)
  show "every_sources_response_carries_the_protocol_version_header (axum_target env cfg sources health js origin) = gret ()"
    by (simp add: every_sources_response_carries_the_protocol_version_header_def get_sources [OF on]
        json_reply_def header_text_of_def header_to_str_def PROTOCOL_HEADER_def PROTOCOL_VERSION_def assert_exact_def)
qed

lemma unrecognized_test:
  assumes "is_enabled cfg" "sources \<noteq> []" "set evil_sources \<inter> fst ` set sources = {}"
  shows "unrecognized_source_values_are_rejected_cleanly_on_every_route
    (axum_target env cfg sources health js origin) = gret ()"
  unfolding unrecognized_source_values_are_rejected_cleanly_on_every_route_def
  by (rule gtraverse_unit) (use assms in \<open>auto intro!: unknown_source_rejected\<close>)

lemma unknown_path_test:
  assumes on: "is_enabled cfg" "sources \<noteq> []"
  shows "unknown_path_under_mount_is_404 (axum_target env cfg sources health js origin) = gret ()"
proof -
  let ?T = "axum_target env cfg sources health js origin"
  have "tg_send ?T (probe_request ?T ''/api/not-a-real-route'' [] None) = (\<lambda>w. (Unmatched, w))"
    unfolding target_send [OF on]
    using routes(8) [of env "served cfg sources"] by (intro ext) (simp add: handle_axum_def)
  then show ?thesis
    by (intro ext) (simp add: unknown_path_under_mount_is_404_def get_path_def send_def gbind_def
        assert_status_def)
qed

text \<open>An absent \<open>source\<close> and the default's name are one request.\<close>

lemma default_source_request:
  assumes on: "is_enabled cfg" "sources \<noteq> []"
  shows "get_path (axum_target env cfg sources health js origin) ''/api/tables'' [(''source'', fst (hd sources))]
    = get_path (axum_target env cfg sources health js origin) ''/api/tables'' []"
proof -
  let ?st = "served cfg sources"
  have resolved: "resolve ?st (Some (fst (hd sources))) = resolve ?st None"
    using on(2) by (cases sources) (simp_all add: resolve_def resolve_source_def default_source_def served_def)
  have none: "decode_schema_params [] = Inr \<lparr>cp_schema = None, cp_source = None\<rparr>"
    by (simp add: decode_schema_params_def decode_fields.simps)
  let ?T = "axum_target env cfg sources health js origin"
  have same: "query_axum env decode_schema_params (list_tables_axum env ?st)
        (probe_request ?T ''/api/tables'' [(''source'', fst (hd sources))] None) w
      = query_axum env decode_schema_params (list_tables_axum env ?st) (probe_request ?T ''/api/tables'' [] None) w" for w
    unfolding query_axum_def request_fields decoded(2) none by (simp add: list_tables_axum_def resolved)
  show ?thesis
    by (intro ext) (simp only: get_path_def send_def target_send [OF on] handle_route
        [where route = "query_axum env decode_schema_params (list_tables_axum env ?st)"]
        request_fields routes(3) Let_def same)
qed

subsection \<open>The page\<close>

definition page_reply :: "env \<Rightarrow> bool \<Rightarrow> http_reply" where
  "page_reply env gz =
     \<lparr>rp_status = 200,
      rp_headers = (if gz then [''vary'' \<mapsto> ''accept-encoding'', ''content-encoding'' \<mapsto> ''gzip'',
                                ''content-type'' \<mapsto> ''text/html; charset=utf-8'']
                    else [''vary'' \<mapsto> ''accept-encoding'', ''content-type'' \<mapsto> ''text/html; charset=utf-8'']),
      rp_body = Some (BPage (if gz then e_gzip env (e_page env) else e_page env))\<rparr>"

lemma fetched:
  assumes on: "is_enabled cfg" "sources \<noteq> []"
  shows "fetch_page (axum_target env cfg sources health js origin) a = gret (page_reply env
    (accepts_gzip (List.map_filter header_to_str (case a of None \<Rightarrow> [] | Some v \<Rightarrow> [v]))))"
  by (rule ext)
    (simp add: fetch_page_def send_def target_send [OF on] handle_axum_def served_def serve_html_axum_def
      Let_def gbind_def gret_def assert_status_def require_def page_reply_def gzip_page_def)

lemma read_headers:
  "List.map_filter header_to_str [''gzip''] = [''gzip'']" "List.map_filter header_to_str [''GZIP''] = [''GZIP'']"
  "List.map_filter header_to_str [''gzip;q=0.5''] = [''gzip;q=0.5'']"
  "List.map_filter header_to_str [''*;q=0, gzip''] = [''*;q=0, gzip'']"
  "List.map_filter header_to_str [''gzip, deflate, br, zstd''] = [''gzip, deflate, br, zstd'']"
  "List.map_filter header_to_str [''gzip;q=0''] = [''gzip;q=0'']"
  "List.map_filter header_to_str [''gzip;q=0, *''] = [''gzip;q=0, *'']"
  "List.map_filter header_to_str [[]] = [[]]" "List.map_filter header_to_str [''identity''] = [''identity'']"
  "List.map_filter header_to_str [] = []"
  by (simp_all add: header_to_str_def List.map_filter_def)

lemma encodings:
  "accepts_gzip [''gzip'']" "accepts_gzip [''GZIP'']" "accepts_gzip [''gzip;q=0.5'']"
  "accepts_gzip [''*;q=0, gzip'']" "accepts_gzip [''gzip, deflate, br, zstd'']"
  "\<not> accepts_gzip [''gzip;q=0'']" "\<not> accepts_gzip [''gzip;q=0, *'']" "\<not> accepts_gzip [[]]"
  "\<not> accepts_gzip [''identity'']" "\<not> accepts_gzip []"
  by (simp_all add: reads_gzip)

lemma page_headers:
  "assert_status (page_reply env gz) 200 = gret ()"
  "rp_headers (page_reply env gz) ''content-encoding'' = (if gz then Some ''gzip'' else None)"
  "header_text_of (page_reply env gz) ''content-type'' = Some ''text/html; charset=utf-8''"
  "page_bytes (page_reply env gz) = gret (if gz then e_gzip env (e_page env) else e_page env)"
  by (simp_all add: page_reply_def assert_status_def header_text_of_def header_to_str_def page_bytes_def)

lemma page_header_values:
  "header_values (page_reply env True) ''content-encoding'' = [''gzip'']"
  "header_values (page_reply env True) ''vary'' = [''accept-encoding'']"
  "header_values (page_reply env False) ''content-encoding'' = []"
  by (simp_all add: header_values_def header_text_of_def page_reply_def header_to_str_def ws1_def ws2_def
      ws3_def trim_def trim_start_def trim_end_def trim_by.simps to_ascii_lowercase_def to_lower_char_def)

lemma fetched_as:
  assumes on: "is_enabled cfg" "sources \<noteq> []"
  shows "fetch_page (axum_target env cfg sources health js origin) None = gret (page_reply env False)"
    and "a \<in> {''gzip'', ''GZIP'', ''gzip;q=0.5'', ''*;q=0, gzip'', ''gzip, deflate, br, zstd''} \<Longrightarrow>
      fetch_page (axum_target env cfg sources health js origin) (Some a) = gret (page_reply env True)"
    and "a \<in> {''gzip;q=0'', ''gzip;q=0, *'', [], ''identity''} \<Longrightarrow>
      fetch_page (axum_target env cfg sources health js origin) (Some a) = gret (page_reply env False)"
  by (auto simp only: fetched [OF on] option.case read_headers encodings HOL.simp_thms insert_iff empty_iff)

lemma get_page:
  assumes on: "is_enabled cfg" "sources \<noteq> []"
  shows "get_path (axum_target env cfg sources health js origin) [] [] = gret (page_reply env False)"
proof (rule ext)
  fix w
  have "\<not> accepts_gzip (List.map_filter header_to_str [])" by (simp only: read_headers encodings) simp
  then show "get_path (axum_target env cfg sources health js origin) [] [] w = gret (page_reply env False) w"
    by (simp add: get_path_def send_def target_send [OF on] handle_axum_def served_def serve_html_axum_def
      Let_def gret_def page_reply_def gzip_page_def)
qed

lemma page_tests:
  assumes on: "is_enabled cfg" "sources \<noteq> []"
  shows "contains ''id=\"tables\"'' (e_page env) \<Longrightarrow>
      root_serves_the_embedded_dbviewer_html (axum_target env cfg sources health js origin) = gret ()"
    and "dbviewer_html_does_not_hardcode_the_api_base (axum_target env cfg sources health js origin)
      = require (\<not> contains (''\"'' @ origin @ ''/__ashurbanipal/api\"'') (e_page env))"
    and "gunzip (e_gzip env (e_page env)) = Some (e_page env) \<Longrightarrow>
      length (e_gzip env (e_page env)) < length (e_page env) div 2 \<Longrightarrow>
      page_is_gzipped_when_accepted_and_decodes_to_the_same_bytes gunzip
        (axum_target env cfg sources health js origin) = gret ()"
    and "page_encoding_follows_accept_encoding_q_values (axum_target env cfg sources health js origin) = gret ()"
proof -
  let ?T = "axum_target env cfg sources health js origin"
  have "contains ''text/html'' ''text/html; charset=utf-8''" by code_simp
  then show "contains ''id=\"tables\"'' (e_page env) \<Longrightarrow> root_serves_the_embedded_dbviewer_html ?T = gret ()"
    by (simp add: root_serves_the_embedded_dbviewer_html_def get_page [OF on] page_headers unwrap_or_def)
  show "dbviewer_html_does_not_hardcode_the_api_base ?T
      = require (\<not> contains (''\"'' @ origin @ ''/__ashurbanipal/api\"'') (e_page env))"
    unfolding dbviewer_html_does_not_hardcode_the_api_base_def get_page [OF on]
    by (simp add: page_headers url_def mount_root_def axum_target_def)
  show "page_is_gzipped_when_accepted_and_decodes_to_the_same_bytes gunzip ?T = gret ()"
    if "gunzip (e_gzip env (e_page env)) = Some (e_page env)"
      "length (e_gzip env (e_page env)) < length (e_page env) div 2"
    using that fetched_as(2) [OF on, of "''gzip''"]
    by (simp add: page_is_gzipped_when_accepted_and_decodes_to_the_same_bytes_def fetched_as(1) [OF on]
        page_headers page_header_values assert_exact_def)
  have "compressed_for ?T a = gret ()"
    if "a \<in> {''GZIP'', ''gzip;q=0.5'', ''*;q=0, gzip'', ''gzip, deflate, br, zstd''}" for a
    using fetched_as(2) [OF on, of a] that by (auto simp: compressed_for_def page_headers)
  moreover have "not_gzip_for ?T a = gret ()" if "a \<in> {''gzip;q=0'', ''gzip;q=0, *''}" for a
    using fetched_as(3) [OF on, of a] that by (auto simp: not_gzip_for_def page_header_values)
  moreover have "plain_for ?T a = gret ()" if "a \<in> {[], ''identity''}" for a
    using fetched_as(3) [OF on, of a] that by (auto simp: plain_for_def page_headers)
  ultimately show "page_encoding_follows_accept_encoding_q_values ?T = gret ()"
    by (simp add: page_encoding_follows_accept_encoding_q_values_def)
qed

subsection \<open>The same request twice\<close>

definition asked_twice :: "target \<Rightarrow> unit probe" where
  "asked_twice T =
     gbind (get_json T ''/api/tables'' []) (\<lambda>x. gbind (get_json T ''/api/tables'' []) (\<lambda>y. assert_exact y x))"

lemma default_source_tests:
  assumes on: "is_enabled cfg" "sources \<noteq> []"
  shows "explicit_default_source_matches_the_implicit_default (axum_target env cfg sources health js origin)
      = asked_twice (axum_target env cfg sources health js origin)"
    and "api_sources_default_matches_default_resolution left_first (axum_target env cfg sources health js origin)
      = (if length sources < 2 then gret () else asked_twice (axum_target env cfg sources health js origin))"
proof -
  let ?T = "axum_target env cfg sources health js origin"
  have same: "get_json ?T ''/api/tables'' [(''source'', fst (hd sources))] = get_json ?T ''/api/tables'' []"
    by (simp only: get_json_def default_source_request [OF on])
  have listed: "JsObj [''name'' \<mapsto> JsStr (fst (hd sources))]
      \<in> set (map (\<lambda>e. JsObj [''name'' \<mapsto> JsStr (se_name e)]) (map (\<lambda>(name, _). \<lparr>se_name = name\<rparr>) sources))"
    using on(2) by (cases sources) (auto split: prod.splits)
  have sources: "get_json ?T ''/api/sources'' [] = gret (JsObj
      [''sources'' \<mapsto> JsArr (map (\<lambda>e. JsObj [''name'' \<mapsto> JsStr (se_name e)])
          (map (\<lambda>(name, _). \<lparr>se_name = name\<rparr>) sources)),
       ''default'' \<mapsto> JsStr (fst (hd sources))])"
    by (simp add: get_json_def get_sources [OF on] sources_json_def del: map_map)
  show "explicit_default_source_matches_the_implicit_default ?T = asked_twice ?T"
    unfolding explicit_default_source_matches_the_implicit_default_def sources
    using listed by (simp add: same asked_twice_def del: map_map)
  have swap: "assert_exact x y = (assert_exact y x :: unit probe)" for x y :: json
    by (simp add: assert_exact_def eq_commute)
  have "gbind (concurrently left_first (fetch_tables ?T None) (fetch_tables ?T (Some (fst (hd sources)))))
      (\<lambda>(x, y). assert_exact y x) = asked_twice ?T"
    by (cases left_first) (simp_all add: concurrently_def fetch_tables_def same asked_twice_def swap)
  then show "api_sources_default_matches_default_resolution left_first ?T
      = (if length sources < 2 then gret () else asked_twice ?T)"
    unfolding api_sources_default_matches_default_resolution_def sources_if_two_or_more_def sources
    by simp
qed

lemma default_siblings_test:
  assumes on: "is_enabled cfg" "sources \<noteq> []" and none: "cfg_instance cfg = None" "cfg_siblings cfg = []"
  shows "siblings_endpoint_returns_empty_list_by_default (axum_target env cfg sources health js origin) = gret ()"
proof -
  have "fst (check_siblings health (siblings_view cfg)) = \<lparr>sg_instance = None, sg_siblings = [], sg_warnings = []\<rparr>"
    using none by (simp add: siblings_view_def check_siblings_def Let_def)
  then show ?thesis
    by (simp add: siblings_endpoint_returns_empty_list_by_default_def get_json_def get_siblings [OF on]
        siblings_json_def opt_field_def assert_exact_def)
qed

subsection \<open>The labelled siblings\<close>

text \<open>What the TOML text \<^const>\<open>CONFORMANCE_LABELLED_SIBLINGS\<close> denotes.\<close>

definition labelled_sibling :: "string \<Rightarrow> string \<Rightarrow> sibling" where
  "labelled_sibling name label =
     \<lparr>sb_name = name, sb_base_url = UNREACHABLE, sb_health_path = ''/health'', sb_label = Some label\<rparr>"

definition labelled_config :: config where
  "labelled_config = config_default\<lparr>cfg_enabled := True,
     cfg_instance := Some \<lparr>in_name = ''conformance'', in_label = ''a''\<rparr>,
     cfg_siblings := [labelled_sibling ''conformance'' ''a'', labelled_sibling ''conformance'' ''b'',
       labelled_sibling ''other'' ''a'', labelled_sibling ''other'' ''a'']\<rparr>"

lemma labelled_view:
  "siblings_view labelled_config = \<lparr>v_instance = cfg_instance labelled_config,
     v_siblings = cfg_siblings labelled_config,
     v_warnings = [duplicate_warning (labelled_sibling ''other'' ''a'')]\<rparr>"
  by (simp add: siblings_view_def labelled_config_def labelled_sibling_def view_step_def unwrap_or_def Let_def)

lemma unreachable_health: "health_url UNREACHABLE ''/health'' = Some ''http://127.0.0.1:9/health''"
  by code_simp

lemma labelled_body:
  assumes "\<forall>i. \<not> health i ''http://127.0.0.1:9/health''"
  shows "fst (check_siblings health (siblings_view labelled_config)) =
    \<lparr>sg_instance = cfg_instance labelled_config,
     sg_siblings = map (\<lambda>(name, label, healthy).
         \<lparr>ss_name = name, ss_label = Some label, ss_base_url = UNREACHABLE, ss_healthy = healthy\<rparr>)
       [(''conformance'', ''a'', True), (''conformance'', ''b'', False), (''other'', ''a'', False),
        (''other'', ''a'', False)],
     sg_warnings = [duplicate_warning (labelled_sibling ''other'' ''a'')]\<rparr>"
  using assms unfolding labelled_view
  by (simp add: check_siblings_def check_one_def is_instance_def sibling_is_def labelled_config_def
      labelled_sibling_def unreachable_health)

lemma labelled_tests:
  assumes "sources \<noteq> []" "\<forall>i. \<not> health i ''http://127.0.0.1:9/health''"
    and T_def: "T = axum_target env labelled_config sources health js origin"
  shows "\<exists>body. labelled_siblings T = gret (Some body)"
    and "instance_is_echoed_as_configured T = gret ()"
    and "this_instance_is_listed_healthy_without_a_check T = gret ()"
    and "labels_are_echoed_in_configuration_order T = gret ()"
    and "a_duplicate_is_kept_and_warned_once T = gret ()"
    and "siblings_endpoint_returns_empty_list_by_default T = gret ()"
proof -
  have on: "is_enabled labelled_config" by (simp add: labelled_config_def is_enabled_def)
  define entry where "entry = (\<lambda>(name, label, healthy). labelled_entry name label healthy)"
  define body where "body = JsObj
    [''siblings'' \<mapsto> JsArr (map entry
       [(''conformance'', ''a'', True), (''conformance'', ''b'', False), (''other'', ''a'', False),
        (''other'', ''a'', False)]),
     ''warnings'' \<mapsto> JsArr [JsStr (duplicate_warning (labelled_sibling ''other'' ''a''))],
     ''instance'' \<mapsto> JsObj [''name'' \<mapsto> JsStr ''conformance'', ''label'' \<mapsto> JsStr ''a'']]"
  have "siblings_json (fst (check_siblings health (siblings_view labelled_config))) = body"
    unfolding labelled_body [of health, OF assms(2)] body_def
    by (simp add: siblings_json_def opt_field_def status_json_def instance_json_def labelled_config_def
        entry_def labelled_entry_def fun_upd_twist)
  then have got: "get_json T ''/api/siblings'' [] = gret body"
    by (simp add: T_def get_json_def get_siblings [OF on assms(1)])
  have warned: "duplicate_warning (labelled_sibling ''other'' ''a'') \<noteq> []"
    by (simp add: duplicate_warning_def labelled_sibling_def)
  have found: "labelled_siblings T = gret (Some body)"
    by (simp add: labelled_siblings_def got body_def)
  then show "\<exists>body. labelled_siblings T = gret (Some body)" by blast
  show "instance_is_echoed_as_configured T = gret ()"
    "this_instance_is_listed_healthy_without_a_check T = gret ()"
    "labels_are_echoed_in_configuration_order T = gret ()"
    "a_duplicate_is_kept_and_warned_once T = gret ()"
    "siblings_endpoint_returns_empty_list_by_default T = gret ()"
    unfolding instance_is_echoed_as_configured_def this_instance_is_listed_healthy_without_a_check_def
      labels_are_echoed_in_configuration_order_def a_duplicate_is_kept_and_warned_once_def
      siblings_endpoint_returns_empty_list_by_default_def with_labelled_def found got
    by (simp_all add: body_def assert_exact_def entry_def get_at_def warned)
qed

section \<open>Properties\<close>

text \<open>C22: Both adapters pass the suites whose outcome does not depend on the rows. \<^verbatim>\<open>sources.rs\<close>,
  for any sources none of which bears an injection-shaped name; the tests of
  the default source, there and in \<^verbatim>\<open>two_source.rs\<close>, fail only where the plain request for
  the tables is answered differently when sent twice. \<^verbatim>\<open>html_and_siblings.rs\<close>, for a page
  that shows the tables and a gzip encoder that halves it and decodes back; its test for a
  hard-coded API base looks for the base with the server's origin in front, and nothing else.\<close>

theorem conformance_suites_pass:
  assumes on: "is_enabled cfg" "sources \<noteq> []" and names: "set evil_sources \<inter> fst ` set sources = {}"
    and page: "contains ''id=\"tables\"'' (e_page env)"
    and gzip: "gunzip (e_gzip env (e_page env)) = Some (e_page env)"
      "length (e_gzip env (e_page env)) < length (e_page env) div 2"
    and T: "T = axum_target env cfg sources health js origin \<or> T = actix_target env cfg sources health js origin"
  shows "lists_exactly_the_one_registered_source T = gret ()
    \<and> every_sources_response_carries_the_protocol_version_header T = gret ()
    \<and> unrecognized_source_values_are_rejected_cleanly_on_every_route T = gret ()
    \<and> explicit_default_source_matches_the_implicit_default T = asked_twice T
    \<and> api_sources_default_matches_default_resolution left_first T
        = (if length sources < 2 then gret () else asked_twice T)
    \<and> root_serves_the_embedded_dbviewer_html T = gret ()
    \<and> page_is_gzipped_when_accepted_and_decodes_to_the_same_bytes gunzip T = gret ()
    \<and> page_encoding_follows_accept_encoding_q_values T = gret ()
    \<and> dbviewer_html_does_not_hardcode_the_api_base T
        = require (\<not> contains (''\"'' @ origin @ ''/__ashurbanipal/api\"'') (e_page env))
    \<and> (cfg_instance cfg = None \<longrightarrow> cfg_siblings cfg = [] \<longrightarrow>
        siblings_endpoint_returns_empty_list_by_default T = gret ())
    \<and> unknown_path_under_mount_is_404 T = gret ()"
proof -
  obtain env' where T: "T = axum_target env' cfg sources health js origin"
    and same: "e_page env' = e_page env" "e_gzip env' = e_gzip env"
    by (rule either_target [OF on T])
  show ?thesis unfolding T
    by (intro conjI impI sources_tests [OF on] unrecognized_test [OF on names] default_source_tests [OF on]
        page_tests [OF on, where env = env', unfolded same] page gzip default_siblings_test [OF on]
        unknown_path_test [OF on])
qed

text \<open>A page that hard-codes its API base, and passes all the same.\<close>

definition plain_page :: string where
  "plain_page = ''<div id=\"tables\"></div><script>const API = \"/__ashurbanipal/api\"</script>''"

definition page_env :: env where
  "page_env = example_env\<lparr>e_page := plain_page, e_gzip := take 4\<rparr>"

definition page_gunzip :: "string \<Rightarrow> string option" where
  "page_gunzip s = (if s = take 4 plain_page then Some plain_page else None)"

lemma conformance_suites_pass_witness:
  "\<exists>T. T = axum_target page_env example_config example_sources (\<lambda>_ _. False) (\<lambda>_. JsNull) ''http://127.0.0.1:4000''
    \<and> unrecognized_source_values_are_rejected_cleanly_on_every_route T = gret ()
    \<and> page_is_gzipped_when_accepted_and_decodes_to_the_same_bytes page_gunzip T = gret ()
    \<and> contains (''\"/__ashurbanipal/api\"'') (e_page page_env)
    \<and> dbviewer_html_does_not_hardcode_the_api_base T = gret ()"
proof -
  let ?T = "axum_target page_env example_config example_sources (\<lambda>_ _. False) (\<lambda>_. JsNull) ''http://127.0.0.1:4000''"
  have on: "is_enabled example_config" "example_sources \<noteq> []"
    by (simp_all add: example_config_def config_default_def is_enabled_def example_sources_def)
  have names: "set evil_sources \<inter> fst ` set example_sources = {}" by code_simp
  have page: "contains ''id=\"tables\"'' (e_page page_env)"
    and free: "\<not> contains (''\"'' @ ''http://127.0.0.1:4000'' @ ''/__ashurbanipal/api\"'') (e_page page_env)"
    and coded: "contains (''\"/__ashurbanipal/api\"'') (e_page page_env)"
    by (code_simp)+
  have gzip: "page_gunzip (e_gzip page_env (e_page page_env)) = Some (e_page page_env)"
    "length (e_gzip page_env (e_page page_env)) < length (e_page page_env) div 2"
    by (simp_all add: page_env_def page_gunzip_def plain_page_def)
  show ?thesis
    using conformance_suites_pass [where cfg = example_config and sources = example_sources and env = page_env
        and gunzip = page_gunzip and T = ?T, OF on names page gzip disjI1 [OF refl]] free coded
    by (simp add: require_def)
qed

text \<open>C25: Both demo hosts, told to start with the labelled siblings, have a configuration under which
  both adapters pass \<^verbatim>\<open>labelled_siblings.rs\<close>, and without skipping any of it: the TOML decoder
  being one that reads the text as the configuration it denotes, and nothing listening on port 9.\<close>

theorem labelled_siblings_suite_passes:
  assumes "de (''enabled = true'' @ [newline] @ CONFORMANCE_LABELLED_SIBLINGS) = Inr labelled_config"
    and "vars ''CONFORMANCE_LABELLED_SIBLINGS'' \<noteq> None" and "sources \<noteq> []"
    and "\<forall>i. \<not> health i ''http://127.0.0.1:9/health''"
  shows "demo_config de siblings_toml_axum vars = Inr labelled_config
    \<and> demo_config de siblings_toml_actix vars = Inr labelled_config
    \<and> (\<forall>T \<in> {axum_target env labelled_config sources health js origin,
              actix_target env labelled_config sources health js origin}.
        (\<exists>body. labelled_siblings T = gret (Some body))
        \<and> instance_is_echoed_as_configured T = gret ()
        \<and> this_instance_is_listed_healthy_without_a_check T = gret ()
        \<and> labels_are_echoed_in_configuration_order T = gret ()
        \<and> a_duplicate_is_kept_and_warned_once T = gret ()
        \<and> siblings_endpoint_returns_empty_list_by_default T = gret ())"
proof (intro conjI)
  show "demo_config de siblings_toml_axum vars = Inr labelled_config"
    "demo_config de siblings_toml_actix vars = Inr labelled_config"
    using assms(1,2) by (simp_all add: demo_config_def siblings_toml_axum_def siblings_toml_actix_def
        from_toml_def Let_def)
  have "is_enabled labelled_config" by (simp add: labelled_config_def is_enabled_def)
  note same = actix_target_eq [OF this assms(3), of env health js origin]
  show "\<forall>T \<in> {axum_target env labelled_config sources health js origin,
              actix_target env labelled_config sources health js origin}.
        (\<exists>body. labelled_siblings T = gret (Some body))
        \<and> instance_is_echoed_as_configured T = gret ()
        \<and> this_instance_is_listed_healthy_without_a_check T = gret ()
        \<and> labels_are_echoed_in_configuration_order T = gret ()
        \<and> a_duplicate_is_kept_and_warned_once T = gret ()
        \<and> siblings_endpoint_returns_empty_list_by_default T = gret ()"
    unfolding same
    using labelled_tests [where health = health, OF assms(3,4) refl] by blast
qed

lemma labelled_siblings_suite_passes_witness:
  "demo_config (\<lambda>s. if s = ''enabled = true'' @ [newline] @ CONFORMANCE_LABELLED_SIBLINGS then Inr labelled_config else Inl ''toml'')
      siblings_toml_axum [''CONFORMANCE_LABELLED_SIBLINGS'' \<mapsto> ''1''] = Inr labelled_config
    \<and> labels_are_echoed_in_configuration_order
        (actix_target example_env labelled_config example_sources (\<lambda>_ _. False) (\<lambda>_. JsNull) ''http://127.0.0.1:4000'')
      = gret ()"
proof -
  have "example_sources \<noteq> []" by (simp add: example_sources_def)
  then show ?thesis
    using labelled_siblings_suite_passes [of "\<lambda>s. if s = ''enabled = true'' @ [newline] @ CONFORMANCE_LABELLED_SIBLINGS
        then Inr labelled_config else Inl ''toml''" "[''CONFORMANCE_LABELLED_SIBLINGS'' \<mapsto> ''1'']" example_sources
        "\<lambda>_ _. False" example_env "\<lambda>_. JsNull" "''http://127.0.0.1:4000''"]
    by simp
qed

end
