(* ===== verification/Serde.thy ===== *)
theory Serde
  imports Join_Spec
begin

text \<open>
  What the derived \<open>Deserialize\<close> of the \<open>join\<close> and \<open>filter\<close> parameters (the attributes in
  \<^verbatim>\<open>core/src/join.rs\<close> and \<^verbatim>\<open>core/src/filter.rs\<close>) makes of a JSON value. The reader of JSON text
  (\<open>serde_json\<close>, third-party) is the parameter \<open>read\<close>: the value a text denotes, or the text its
  error displays. An object is a list of its members in the order of the text, as the derived
  visitor meets them; a number with a fraction, an exponent or out of the range of \<open>u64\<close> and \<open>i64\<close> is
  a float, of which no field here has the type.
\<close>

datatype jdoc =
    DNull
  | DBool bool
  | DInt int
  | DFloat string
  | DStr string
  | DArr "jdoc list"
  | DObj "(string \<times> jdoc) list"

section \<open>Values\<close>

definition de_string :: "jdoc \<Rightarrow> string option" where
  "de_string d = (case d of DStr s \<Rightarrow> Some s | _ \<Rightarrow> None)"

definition de_bool :: "jdoc \<Rightarrow> bool option" where
  "de_bool d = (case d of DBool b \<Rightarrow> Some b | _ \<Rightarrow> None)"

definition de_usize :: "jdoc \<Rightarrow> nat option" where
  "de_usize d = (case d of DInt n \<Rightarrow> if 0 \<le> n \<and> n < 2 ^ 64 then Some (nat n) else None | _ \<Rightarrow> None)"

definition de_option :: "(jdoc \<Rightarrow> 'a option) \<Rightarrow> jdoc \<Rightarrow> 'a option option" where
  "de_option f d = (if d = DNull then Some None else map_option Some (f d))"

definition de_vec :: "(jdoc \<Rightarrow> 'a option) \<Rightarrow> jdoc \<Rightarrow> 'a list option" where
  "de_vec f d = (case d of DArr ds \<Rightarrow> those (map f ds) | _ \<Rightarrow> None)"

text \<open>A unit variant is its name, or an object whose one member has that name and is null.\<close>

definition de_variant :: "(string \<times> 'a) list \<Rightarrow> jdoc \<Rightarrow> 'a option" where
  "de_variant variants d =
     (case d of
        DStr s \<Rightarrow> map_of variants s
      | DObj [(s, v)] \<Rightarrow> if v = DNull then map_of variants s else None
      | _ \<Rightarrow> None)"

section \<open>Structs\<close>

text \<open>
  The visitor of a struct under \<open>deny_unknown_fields\<close>. From an object: every member is a known field
  and none comes twice; a field may be missing when it has a default or is an \<open>Option\<close>. From an array:
  the fields in order, of which only those at the end that have a default may be missing.
\<close>

datatype presence = Required | Optional | Defaulted

fun object_fields :: "string list \<Rightarrow> (string \<rightharpoonup> jdoc) \<Rightarrow> (string \<times> jdoc) list \<Rightarrow> (string \<rightharpoonup> jdoc) option" where
  "object_fields known seen [] = Some seen"
| "object_fields known seen ((k, d) # ds) =
     (if k \<notin> set known \<or> seen k \<noteq> None then None else object_fields known (seen(k \<mapsto> d)) ds)"

fun array_fields :: "(string \<times> presence) list \<Rightarrow> jdoc list \<Rightarrow> (string \<rightharpoonup> jdoc) option" where
  "array_fields [] ds = (if ds = [] then Some Map.empty else None)"
| "array_fields ((k, p) # fs) [] = (if p = Defaulted then array_fields fs [] else None)"
| "array_fields ((k, p) # fs) (d # ds) = map_option (\<lambda>m. m(k \<mapsto> d)) (array_fields fs ds)"

definition struct_fields :: "(string \<times> presence) list \<Rightarrow> jdoc \<Rightarrow> (string \<rightharpoonup> jdoc) option" where
  "struct_fields fs d =
     (case d of
        DObj ds \<Rightarrow> object_fields (map fst fs) Map.empty ds
      | DArr ds \<Rightarrow> array_fields fs ds
      | _ \<Rightarrow> None)"

definition required_in :: "(string \<rightharpoonup> jdoc) \<Rightarrow> string \<Rightarrow> (jdoc \<Rightarrow> 'a option) \<Rightarrow> 'a option" where
  "required_in m k f = Option.bind (m k) f"

definition default_in :: "(string \<rightharpoonup> jdoc) \<Rightarrow> string \<Rightarrow> 'a \<Rightarrow> (jdoc \<Rightarrow> 'a option) \<Rightarrow> 'a option" where
  "default_in m k x f = (case m k of None \<Rightarrow> Some x | Some d \<Rightarrow> f d)"

definition option_in :: "(string \<rightharpoonup> jdoc) \<Rightarrow> string \<Rightarrow> (jdoc \<Rightarrow> 'a option) \<Rightarrow> 'a option option" where
  "option_in m k f = default_in m k None (de_option f)"

section \<open>The join parameter\<close>

definition de_join_type :: "jdoc \<Rightarrow> join_type option" where
  "de_join_type = de_variant [(''inner'', Inner), (''left'', Left)]"

definition de_column_pos :: "jdoc \<Rightarrow> column_pos option" where
  "de_column_pos d =
     Option.bind (struct_fields [(''join'', Required), (''column'', Required)] d) (\<lambda>m.
     Option.bind (required_in m ''join'' de_usize) (\<lambda>join.
     Option.bind (required_in m ''column'' de_string) (\<lambda>column.
     Some \<lparr>pos_join = join, pos_column = column\<rparr>)))"

definition de_on_pair :: "jdoc \<Rightarrow> on_pair option" where
  "de_on_pair d =
     Option.bind (struct_fields [(''left'', Required), (''right'', Required)] d) (\<lambda>m.
     Option.bind (required_in m ''left'' de_column_pos) (\<lambda>left.
     Option.bind (required_in m ''right'' de_string) (\<lambda>right.
     Some \<lparr>on_left = left, on_right = right\<rparr>)))"

definition de_join_entry :: "jdoc \<Rightarrow> join_entry option" where
  "de_join_entry d =
     Option.bind (struct_fields [(''type'', Required), (''table'', Required), (''on'', Required)] d) (\<lambda>m.
     Option.bind (required_in m ''type'' de_join_type) (\<lambda>kind.
     Option.bind (required_in m ''table'' de_string) (\<lambda>table.
     Option.bind (required_in m ''on'' (de_vec de_on_pair)) (\<lambda>pairs.
     Some \<lparr>je_kind = kind, je_table = table, je_on = pairs\<rparr>))))"

definition de_join_spec :: "jdoc \<Rightarrow> join_spec option" where
  "de_join_spec d =
     Option.bind (struct_fields [(''table'', Required), (''joins'', Required), (''columns'', Defaulted)] d) (\<lambda>m.
     Option.bind (required_in m ''table'' de_string) (\<lambda>table.
     Option.bind (required_in m ''joins'' (de_vec de_join_entry)) (\<lambda>joins.
     Option.bind (option_in m ''columns'' (de_vec de_column_pos)) (\<lambda>columns.
     Some \<lparr>js_table = table, js_joins = joins, js_columns = columns\<rparr>))))"

section \<open>The filter parameter\<close>

definition de_logic :: "jdoc \<Rightarrow> logic option" where
  "de_logic = de_variant [(''AND'', And), (''OR'', Or)]"

definition de_filter_op :: "jdoc \<Rightarrow> filter_op option" where
  "de_filter_op = de_variant (map (\<lambda>op. (as_wire op, op)) [Eq, Ne, Gt, Lt, Ge, Le, Like, Ilike, IsNull, IsNotNull])"

definition de_condition :: "jdoc \<Rightarrow> condition option" where
  "de_condition d =
     Option.bind (struct_fields [(''logic'', Optional), (''not'', Defaulted), (''column'', Required),
       (''op'', Required), (''value'', Optional), (''join'', Defaulted)] d) (\<lambda>m.
     Option.bind (option_in m ''logic'' de_logic) (\<lambda>logic.
     Option.bind (default_in m ''not'' False de_bool) (\<lambda>negated.
     Option.bind (required_in m ''column'' de_string) (\<lambda>column.
     Option.bind (required_in m ''op'' de_filter_op) (\<lambda>op.
     Option.bind (option_in m ''value'' de_string) (\<lambda>value.
     Option.bind (option_in m ''join'' de_usize) (\<lambda>join.
     Some \<lparr>c_logic = logic, c_not = negated, c_column = column, c_op = op, c_value = value,
           c_join = join\<rparr>)))))))"

definition de_conditions :: "jdoc \<Rightarrow> condition list option" where
  "de_conditions = de_vec de_condition"

text \<open>\<open>serde_json::from_str\<close>: \<open>shape\<close> is the text of an error of the visitors.\<close>

definition from_str :: "(string \<Rightarrow> string + jdoc) \<Rightarrow> (string \<Rightarrow> string) \<Rightarrow> (jdoc \<Rightarrow> 'a option) \<Rightarrow> string \<Rightarrow> string + 'a" where
  "from_str read shape de raw =
     (case read raw of
        Inl e \<Rightarrow> Inl e
      | Inr d \<Rightarrow> (case de d of Some x \<Rightarrow> Inr x | None \<Rightarrow> Inl (shape raw)))"

text \<open>A reader gives a text the value it denotes, or, where it denotes none, an error in words of its own.\<close>

definition reads_as :: "'e + 'a \<Rightarrow> 'a option \<Rightarrow> bool" where
  "reads_as r v \<longleftrightarrow> (case v of None \<Rightarrow> isl r | Some x \<Rightarrow> r = Inr x)"

lemma reads_as_simps [simp]: "reads_as r None \<longleftrightarrow> isl r" "reads_as r (Some x) \<longleftrightarrow> r = Inr x"
  by (simp_all add: reads_as_def)

section \<open>What a client writes\<close>

text \<open>The documented form of a request: objects with the documented keys (\<^verbatim>\<open>spec/protocol.md\<close>, 5.11.1
  and 5.4.2), an absent part left out.\<close>

definition column_pos_doc :: "column_pos \<Rightarrow> jdoc" where
  "column_pos_doc c = DObj [(''join'', DInt (int (pos_join c))), (''column'', DStr (pos_column c))]"

definition on_pair_doc :: "on_pair \<Rightarrow> jdoc" where
  "on_pair_doc p = DObj [(''left'', column_pos_doc (on_left p)), (''right'', DStr (on_right p))]"

definition join_type_doc :: "join_type \<Rightarrow> jdoc" where
  "join_type_doc t = DStr (case t of Inner \<Rightarrow> ''inner'' | Left \<Rightarrow> ''left'')"

definition join_entry_doc :: "join_entry \<Rightarrow> jdoc" where
  "join_entry_doc e =
     DObj [(''type'', join_type_doc (je_kind e)), (''table'', DStr (je_table e)),
           (''on'', DArr (map on_pair_doc (je_on e)))]"

definition join_doc :: "join_spec \<Rightarrow> jdoc" where
  "join_doc s =
     DObj ([(''table'', DStr (js_table s)), (''joins'', DArr (map join_entry_doc (js_joins s)))]
       @ (case js_columns s of None \<Rightarrow> [] | Some cs \<Rightarrow> [(''columns'', DArr (map column_pos_doc cs))]))"

definition condition_doc :: "condition \<Rightarrow> jdoc" where
  "condition_doc c =
     DObj ((case c_logic c of None \<Rightarrow> [] | Some l \<Rightarrow> [(''logic'', DStr (case l of And \<Rightarrow> ''AND'' | Or \<Rightarrow> ''OR''))])
       @ (if c_not c then [(''not'', DBool True)] else [])
       @ [(''column'', DStr (c_column c)), (''op'', DStr (as_wire (c_op c)))]
       @ (case c_value c of None \<Rightarrow> [] | Some v \<Rightarrow> [(''value'', DStr v)])
       @ (case c_join c of None \<Rightarrow> [] | Some j \<Rightarrow> [(''join'', DInt (int j))]))"

text \<open>Positions are \<open>usize\<close> values.\<close>

definition usize_pos :: "column_pos \<Rightarrow> bool" where
  "usize_pos c \<longleftrightarrow> pos_join c < 2 ^ 64"

definition usize_join :: "join_spec \<Rightarrow> bool" where
  "usize_join s \<longleftrightarrow>
     list_all (\<lambda>e. list_all (\<lambda>p. usize_pos (on_left p)) (je_on e)) (js_joins s)
     \<and> (case js_columns s of None \<Rightarrow> True | Some cs \<Rightarrow> list_all usize_pos cs)"

definition usize_filter :: "condition list \<Rightarrow> bool" where
  "usize_filter cs \<longleftrightarrow> list_all (\<lambda>c. case c_join c of None \<Rightarrow> True | Some j \<Rightarrow> j < 2 ^ 64) cs"

named_theorems serde

lemmas [serde] = struct_fields_def required_in_def default_in_def option_in_def de_option_def de_string_def
  de_bool_def de_vec_def

lemma de_usize_int [serde]: "de_usize (DInt (int n)) = (if n < 2 ^ 64 then Some n else None)"
  by (simp add: de_usize_def)

lemma those_map_some: "(\<And>x. x \<in> set xs \<Longrightarrow> f (g x) = Some x) \<Longrightarrow> those (map f (map g xs)) = Some xs"
  by (induction xs) simp_all

lemma de_column_pos_doc [simp]: "usize_pos c \<Longrightarrow> de_column_pos (column_pos_doc c) = Some c"
  by (simp add: de_column_pos_def column_pos_doc_def usize_pos_def serde)

lemma de_on_pair_doc [simp]: "usize_pos (on_left p) \<Longrightarrow> de_on_pair (on_pair_doc p) = Some p"
  by (simp add: de_on_pair_def on_pair_doc_def serde)

lemma de_join_type_doc [simp]: "de_join_type (join_type_doc t) = Some t"
  by (cases t) (simp_all add: de_join_type_def join_type_doc_def de_variant_def)

lemma de_join_entry_doc [simp]:
  assumes "list_all (\<lambda>p. usize_pos (on_left p)) (je_on e)"
  shows "de_join_entry (join_entry_doc e) = Some e"
proof -
  have "those (map de_on_pair (map on_pair_doc (je_on e))) = Some (je_on e)"
    using assms by (intro those_map_some) (simp add: list_all_iff)
  then show ?thesis by (simp add: de_join_entry_def join_entry_doc_def serde del: map_map)
qed

lemma de_join_spec_doc:
  assumes "usize_join s"
  shows "de_join_spec (join_doc s) = Some s"
proof -
  have "those (map de_join_entry (map join_entry_doc (js_joins s))) = Some (js_joins s)"
    using assms by (intro those_map_some) (simp add: usize_join_def list_all_iff)
  moreover have "those (map de_column_pos (map column_pos_doc cs)) = Some cs" if "js_columns s = Some cs" for cs
    using assms that by (intro those_map_some) (simp add: usize_join_def list_all_iff)
  ultimately show ?thesis
    by (cases "js_columns s") (simp_all add: de_join_spec_def join_doc_def serde del: map_map)
qed

lemma de_filter_op_wire [simp]: "de_filter_op (DStr (as_wire op)) = Some op"
  by (cases op) (simp_all add: de_filter_op_def de_variant_def)

lemma de_condition_doc:
  "(case c_join c of None \<Rightarrow> True | Some j \<Rightarrow> j < 2 ^ 64) \<Longrightarrow> de_condition (condition_doc c) = Some c"
  by (cases "c_logic c"; cases "c_not c"; cases "c_value c"; cases "c_join c")
    (auto simp: de_condition_def condition_doc_def serde de_logic_def de_variant_def split: logic.splits)

lemma de_conditions_doc:
  assumes "usize_filter cs"
  shows "de_conditions (DArr (map condition_doc cs)) = Some cs"
proof -
  have "those (map de_condition (map condition_doc cs)) = Some cs"
    using assms by (intro those_map_some) (simp add: usize_filter_def list_all_iff de_condition_doc)
  then show ?thesis by (simp add: de_conditions_def serde del: map_map)
qed

section \<open>Other forms\<close>

text \<open>The same requests with every object written as the array of its values, the names of variants
  as keys of a null, and null for what is absent.\<close>

definition column_pos_seq :: "column_pos \<Rightarrow> jdoc" where
  "column_pos_seq c = DArr [DInt (int (pos_join c)), DStr (pos_column c)]"

definition on_pair_seq :: "on_pair \<Rightarrow> jdoc" where
  "on_pair_seq p = DArr [column_pos_seq (on_left p), DStr (on_right p)]"

definition join_type_key :: "join_type \<Rightarrow> jdoc" where
  "join_type_key t = DObj [(case t of Inner \<Rightarrow> ''inner'' | Left \<Rightarrow> ''left'', DNull)]"

definition join_entry_seq :: "join_entry \<Rightarrow> jdoc" where
  "join_entry_seq e = DArr [join_type_key (je_kind e), DStr (je_table e), DArr (map on_pair_seq (je_on e))]"

definition join_seq :: "join_spec \<Rightarrow> jdoc" where
  "join_seq s =
     DArr [DStr (js_table s), DArr (map join_entry_seq (js_joins s)),
           case js_columns s of None \<Rightarrow> DNull | Some cs \<Rightarrow> DArr (map column_pos_seq cs)]"

definition null_or :: "('a \<Rightarrow> jdoc) \<Rightarrow> 'a option \<Rightarrow> jdoc" where
  "null_or f x = (case x of None \<Rightarrow> DNull | Some y \<Rightarrow> f y)"

definition condition_seq :: "condition \<Rightarrow> jdoc" where
  "condition_seq c =
     DArr [null_or (\<lambda>l. DObj [(case l of And \<Rightarrow> ''AND'' | Or \<Rightarrow> ''OR'', DNull)]) (c_logic c), DBool (c_not c),
           DStr (c_column c), DObj [(as_wire (c_op c), DNull)], null_or DStr (c_value c),
           null_or (\<lambda>j. DInt (int j)) (c_join c)]"

lemma de_column_pos_seq [simp]: "usize_pos c \<Longrightarrow> de_column_pos (column_pos_seq c) = Some c"
  by (simp add: de_column_pos_def column_pos_seq_def usize_pos_def serde)

lemma de_on_pair_seq [simp]: "usize_pos (on_left p) \<Longrightarrow> de_on_pair (on_pair_seq p) = Some p"
  by (simp add: de_on_pair_def on_pair_seq_def serde)

lemma de_join_type_key [simp]: "de_join_type (join_type_key t) = Some t"
  by (cases t) (simp_all add: de_join_type_def join_type_key_def de_variant_def)

lemma de_join_entry_seq [simp]:
  assumes "list_all (\<lambda>p. usize_pos (on_left p)) (je_on e)"
  shows "de_join_entry (join_entry_seq e) = Some e"
proof -
  have "those (map de_on_pair (map on_pair_seq (je_on e))) = Some (je_on e)"
    using assms by (intro those_map_some) (simp add: list_all_iff)
  then show ?thesis by (simp add: de_join_entry_def join_entry_seq_def serde del: map_map)
qed

lemma de_join_spec_seq:
  assumes "usize_join s"
  shows "de_join_spec (join_seq s) = Some s"
proof -
  have "those (map de_join_entry (map join_entry_seq (js_joins s))) = Some (js_joins s)"
    using assms by (intro those_map_some) (simp add: usize_join_def list_all_iff)
  moreover have "those (map de_column_pos (map column_pos_seq cs)) = Some cs" if "js_columns s = Some cs" for cs
    using assms that by (intro those_map_some) (simp add: usize_join_def list_all_iff)
  ultimately show ?thesis
    by (cases "js_columns s") (simp_all add: de_join_spec_def join_seq_def serde del: map_map)
qed

lemma de_filter_op_key [simp]: "de_filter_op (DObj [(as_wire op, DNull)]) = Some op"
  by (cases op) (simp_all add: de_filter_op_def de_variant_def)

lemma de_condition_seq:
  "(case c_join c of None \<Rightarrow> True | Some j \<Rightarrow> j < 2 ^ 64) \<Longrightarrow> de_condition (condition_seq c) = Some c"
  by (cases "c_logic c"; cases "c_value c"; cases "c_join c")
    (auto simp: de_condition_def condition_seq_def null_or_def serde de_logic_def de_variant_def split: logic.splits)

lemma de_conditions_seq:
  assumes "usize_filter cs"
  shows "de_conditions (DArr (map condition_seq cs)) = Some cs"
proof -
  have "those (map de_condition (map condition_seq cs)) = Some cs"
    using assms by (intro those_map_some) (simp add: usize_filter_def list_all_iff de_condition_seq)
  then show ?thesis by (simp add: de_conditions_def serde del: map_map)
qed

section \<open>Properties\<close>

text \<open>C36: A join written in the documented form is read back as itself: of a text that denotes the object
  of a join, \<open>JoinSpec::parse\<close> returns that join, and it does exactly when the text has at most 8192
  bytes and the join has two to four tables, one to three pairs that refer back in every entry, and
  columns, if any, that are not empty and do not repeat.\<close>

theorem documented_join_read_back:
  assumes "read raw = Inr (join_doc s)" "usize_join s"
  shows "parse_join (from_str read shape de_join_spec) raw = Inr s' \<longleftrightarrow>
    s' = s \<and> length raw \<le> MAX_JOIN_BYTES \<and> wf_spec s"
  using de_join_spec_doc [OF assms(2)] assms(1) by (auto simp: parse_join_ok from_str_def)

definition example_join :: join_spec where
  "example_join = \<lparr>js_table = ''orders'',
     js_joins = [\<lparr>je_kind = Left, je_table = ''users'',
       je_on = [\<lparr>on_left = \<lparr>pos_join = 0, pos_column = ''user_id''\<rparr>, on_right = ''id''\<rparr>]\<rparr>],
     js_columns = None\<rparr>"

lemma documented_join_read_back_witness:
  "parse_join (from_str (\<lambda>_. Inr (join_doc example_join)) id de_join_spec) ''{...}'' = Inr example_join"
proof -
  have "usize_join example_join" "wf_spec example_join"
    by (simp_all add: example_join_def usize_join_def usize_pos_def wf_spec_def wf_entry_def
        MAX_TABLES_def MAX_PAIRS_def)
  then show ?thesis
    using documented_join_read_back [of "\<lambda>_. Inr (join_doc example_join)" "''{...}''" example_join id example_join]
    by (simp add: MAX_JOIN_BYTES_def)
qed

text \<open>C37: A filter written in the documented form is read back as itself: of a text that denotes the array
  of a list of conditions, the parsers return that list, and they do exactly when the text has at
  most 8192 bytes and the list is one of at most ten conditions of the documented shape, positions
  being allowed on the join route only.\<close>

theorem documented_filter_read_back:
  assumes "read raw = Inr (DArr (map condition_doc cs))" "usize_filter cs"
  shows "(parse (from_str read shape de_conditions) raw = Inr cs' \<longleftrightarrow>
      cs' = cs \<and> length raw \<le> MAX_FILTER_BYTES \<and> wf_filter False cs)
    \<and> (parse_for_join (from_str read shape de_conditions) raw = Inr cs' \<longleftrightarrow>
      cs' = cs \<and> length raw \<le> MAX_FILTER_BYTES \<and> wf_filter True cs)"
  using de_conditions_doc [OF assms(2)] assms(1)
  by (auto simp: parse_def parse_for_join_def parse_inner_ok from_str_def)

definition example_filter :: "condition list" where
  "example_filter = [\<lparr>c_logic = None, c_not = True, c_column = ''status'', c_op = Eq,
     c_value = Some ''completed'', c_join = None\<rparr>]"

lemma documented_filter_read_back_witness:
  "parse (from_str (\<lambda>_. Inr (DArr (map condition_doc example_filter))) id de_conditions) ''[...]''
    = Inr example_filter"
proof -
  have "usize_filter example_filter" "wf_filter False example_filter"
    by (simp_all add: example_filter_def usize_filter_def wf_filter_def wf_condition_def MAX_CONDITIONS_def
        takes_value_def)
  then show ?thesis
    using documented_filter_read_back [of "\<lambda>_. Inr (DArr (map condition_doc example_filter))" "''[...]''"
        example_filter id example_filter]
    by (simp add: MAX_FILTER_BYTES_def)
qed

text \<open>C34: The decoders read every request as itself not only in its documented form but also with arrays
  in the place of its objects, with a null under its name for a variant, and with null for what is
  absent, for joins and filters alike: more than the documented shape is accepted.\<close>

theorem undocumented_forms_accepted:
  "(usize_join s \<longrightarrow> de_join_spec (join_doc s) = Some s \<and> de_join_spec (join_seq s) = Some s)
   \<and> (usize_filter cs \<longrightarrow> de_conditions (DArr (map condition_doc cs)) = Some cs
         \<and> de_conditions (DArr (map condition_seq cs)) = Some cs)"
  by (simp add: de_join_spec_seq de_join_spec_doc de_conditions_seq de_conditions_doc)

lemma undocumented_forms_accepted_witness:
  "de_join_spec (join_seq example_join) = Some example_join
   \<and> de_conditions (DArr (map condition_seq example_filter)) = Some example_filter"
proof -
  have "usize_join example_join" "usize_filter example_filter"
    by (simp_all add: example_join_def usize_join_def usize_pos_def example_filter_def usize_filter_def)
  then show ?thesis
    using undocumented_forms_accepted [of example_join example_filter] by simp
qed

end
