(* ===== verification/Conf_Reject.thy ===== *)
theory Conf_Reject
  imports Conf_Correct Serde
begin

text \<open>
  The tests of \<^verbatim>\<open>conformance/runner\<close> whose requests are refused before a source is asked, or that look at
  the protocol header alone: from \<^verbatim>\<open>join.rs\<close>, \<^verbatim>\<open>filter_dsl.rs\<close>, \<^verbatim>\<open>table_data.rs\<close>, \<^verbatim>\<open>structure.rs\<close>,
  \<^verbatim>\<open>referenced_by.rs\<close> and \<^verbatim>\<open>schemas.rs\<close>. They go through the whole of a request: the decoding of its query,
  the derived decoders of its JSON, the validation, and the problem document of the adapter. How the
  runner writes a JSON value is the parameter \<open>write\<close>, how the server reads a text the parameter
  \<open>read\<close>; what they do on the texts of the tests is the hypothesis \<open>reads_rejects\<close>.
\<close>

section \<open>JSON values of the tests\<close>

text \<open>\<open>serde_json::Map\<close> without the feature \<open>preserve_order\<close> (it is off in \<^verbatim>\<open>Cargo.lock\<close>): the members of a
  value are in the order of their keys, and so is the text written of it.\<close>

fun map_insert :: "string \<Rightarrow> jdoc \<Rightarrow> (string \<times> jdoc) list \<Rightarrow> (string \<times> jdoc) list" where
  "map_insert k v [] = [(k, v)]"
| "map_insert k v ((k', v') # ms) =
     (if k = k' then (k, v) # ms
      else if k < k' then (k, v) # (k', v') # ms
      else (k', v') # map_insert k v ms)"

definition json_object :: "(string \<times> jdoc) list \<Rightarrow> jdoc" where
  "json_object ms = DObj (fold (\<lambda>(k, v). map_insert k v) ms [])"

definition orders_users :: "string \<Rightarrow> jdoc" where
  "orders_users kind =
     json_object [(''table'', DStr ''orders''),
       (''joins'', DArr [json_object [(''type'', DStr kind), (''table'', DStr ''users''),
         (''on'', DArr [json_object [(''left'', json_object [(''join'', DInt 0), (''column'', DStr ''user_id'')]),
           (''right'', DStr ''id'')]])]])]"

definition orders_extra :: "string \<Rightarrow> jdoc" where
  "orders_extra kind =
     json_object [(''table'', DStr ''orders''),
       (''joins'', DArr [json_object [(''type'', DStr kind), (''table'', DStr ''order_extra''),
         (''on'', DArr [json_object [(''left'', json_object [(''join'', DInt 0), (''column'', DStr ''id'')]),
           (''right'', DStr ''order_id'')]])]]),
       (''columns'', DArr [json_object [(''join'', DInt 0), (''column'', DStr ''id'')],
         json_object [(''join'', DInt 1), (''column'', DStr ''order_id'')]])]"

text \<open>\<open>value[key]\<close> and \<open>value[i]\<close>, read and assigned through, and a member removed and put back under
  another name.\<close>

fun doc_key :: "jdoc \<Rightarrow> string \<Rightarrow> jdoc" where
  "doc_key (DObj ms) k = (case map_of ms k of Some v \<Rightarrow> v | None \<Rightarrow> DNull)"
| "doc_key d k = DNull"

fun doc_index :: "jdoc \<Rightarrow> nat \<Rightarrow> jdoc" where
  "doc_index (DArr ds) i = (if i < length ds then ds ! i else DNull)"
| "doc_index d i = DNull"

fun set_key :: "string \<Rightarrow> jdoc \<Rightarrow> jdoc \<Rightarrow> jdoc" where
  "set_key k v (DObj ms) = DObj (map_insert k v ms)"
| "set_key k v d = d"

fun set_index :: "nat \<Rightarrow> jdoc \<Rightarrow> jdoc \<Rightarrow> jdoc" where
  "set_index i v (DArr ds) = DArr (ds[i := v])"
| "set_index i v d = d"

fun rename_key :: "string \<Rightarrow> string \<Rightarrow> jdoc \<Rightarrow> jdoc" where
  "rename_key k k' (DObj ms) =
     (case map_of ms k of
        None \<Rightarrow> DObj ms
      | Some v \<Rightarrow> DObj (map_insert k' v (filter (\<lambda>m. fst m \<noteq> k) ms)))"
| "rename_key k k' d = d"

definition upper_key :: jdoc where
  "upper_key = rename_key ''table'' ''TABLE'' (orders_extra ''left'')"

definition in_key :: "string \<Rightarrow> (jdoc \<Rightarrow> jdoc) \<Rightarrow> jdoc \<Rightarrow> jdoc" where
  "in_key k f d = set_key k (f (doc_key d k)) d"

definition in_index :: "nat \<Rightarrow> (jdoc \<Rightarrow> jdoc) \<Rightarrow> jdoc \<Rightarrow> jdoc" where
  "in_index i f d = set_index i (f (doc_index d i)) d"

definition in_entry :: "(jdoc \<Rightarrow> jdoc) \<Rightarrow> jdoc \<Rightarrow> jdoc" where
  "in_entry f = in_key ''joins'' (in_index 0 f)"

definition in_pair :: "(jdoc \<Rightarrow> jdoc) \<Rightarrow> jdoc \<Rightarrow> jdoc" where
  "in_pair f = in_entry (in_key ''on'' (in_index 0 f))"

definition nested_upper_key :: jdoc where
  "nested_upper_key = in_entry (rename_key ''type'' ''Type'') (orders_extra ''left'')"

definition oversize_join :: jdoc where
  "oversize_join = set_key ''table'' (DStr (replicate 9000 (CHR ''t''))) (orders_users ''left'')"

text \<open>\<open>orders_users("left")["joins"][0]\<close>.\<close>

definition users_entry :: jdoc where
  "users_entry = doc_index (doc_key (orders_users ''left'') ''joins'') 0"

text \<open>The joins of \<open>invalid_join_structures_are_rejected\<close>: those before the one whose columns refer to a
  position out of range, that one, and the one after it.\<close>

definition wrong_structures :: "jdoc list" where
  "wrong_structures =
     (let pair = json_object [(''left'', json_object [(''join'', DInt 0), (''column'', DStr ''id'')]),
            (''right'', DStr ''order_id'')];
          id_column = json_object [(''join'', DInt 0), (''column'', DStr ''id'')]
      in map (\<lambda>f. f (orders_extra ''left''))
           [in_pair (in_key ''left'' (set_key ''join'' (DInt 1))),
            in_pair (in_key ''left'' (set_key ''join'' (DInt 2))),
            in_entry (set_key ''on'' (DArr [pair, pair, pair, pair])),
            in_entry (set_key ''on'' (DArr [])),
            in_entry (set_key ''type'' (DStr ''right'')),
            in_entry (set_key ''type'' (DStr ''LEFT'')),
            in_pair (set_key ''op'' (DStr ''>'')),
            set_key ''joins'' (DArr []),
            set_key ''columns'' (DArr []),
            set_key ''columns'' (DArr [id_column, id_column])])"

definition bad_column_join :: jdoc where
  "bad_column_join = set_key ''columns'' (DArr [json_object [(''join'', DInt 5), (''column'', DStr ''id'')]]) (orders_extra ''left'')"

definition five_tables_join :: jdoc where
  "five_tables_join =
     (let entry = doc_index (doc_key (orders_extra ''left'') ''joins'') 0
      in set_key ''joins'' (DArr [entry, entry, entry, entry]) (orders_extra ''left''))"

definition unknown_table_join :: jdoc where
  "unknown_table_join = json_object [(''table'', DStr ''no_such_table''), (''joins'', DArr [])]"

definition nested_2000 :: string where
  "nested_2000 = replicate 2000 (CHR ''['') @ replicate 2000 (CHR '']'')"

definition malformed_joins :: "string list" where
  "malformed_joins = [''not json'', ''[]'', (''\"orders\"''), ''{}'', (''{\"table\":\"orders\"}'')]"

section \<open>The tests\<close>

definition get_join :: "target \<Rightarrow> (jdoc \<Rightarrow> string) \<Rightarrow> jdoc \<Rightarrow> (string \<times> string) list \<Rightarrow> http_reply probe" where
  "get_join T write join extra = get_path T ''/api/tables/join'' ((''join'', write join) # extra)"

definition fetch_filtered :: "target \<Rightarrow> string \<Rightarrow> string \<Rightarrow> http_reply probe" where
  "fetch_filtered T table raw = get_path T ''/api/tables/data'' [(''table'', table), (''filter'', raw)]"

definition is_refused_join :: "target \<Rightarrow> (jdoc \<Rightarrow> string) \<Rightarrow> jdoc \<Rightarrow> unit probe" where
  "is_refused_join T write join =
     gbind (get_join T write join []) (\<lambda>resp.
     assert_problem_code T resp 400 ''invalid_join'')"

definition invalid_join_structures_are_rejected :: "target \<Rightarrow> (jdoc \<Rightarrow> string) \<Rightarrow> unit probe" where
  "invalid_join_structures_are_rejected T write =
     gmap (\<lambda>_. ()) (gtraverse (is_refused_join T write) (wrong_structures @ bad_column_join # [five_tables_join]))"

definition malformed_join_values_are_rejected :: "target \<Rightarrow> unit probe" where
  "malformed_join_values_are_rejected T =
     gbind (gtraverse (\<lambda>raw.
       gbind (get_path T ''/api/tables/join'' [(''join'', raw)]) (\<lambda>resp.
       assert_problem_code T resp 400 ''invalid_join'')) malformed_joins) (\<lambda>_.
     gbind (get_path T ''/api/tables/join'' [(''join'', nested_2000)]) (\<lambda>resp.
     assert_problem_code T resp 400 ''invalid_join''))"

definition join_keys_are_matched_exactly :: "target \<Rightarrow> (jdoc \<Rightarrow> string) \<Rightarrow> unit probe" where
  "join_keys_are_matched_exactly T write =
     gmap (\<lambda>_. ()) (gtraverse (is_refused_join T write) [upper_key, nested_upper_key])"

definition surrogate_join :: "(jdoc \<Rightarrow> string) \<Rightarrow> string" where
  "surrogate_join write = (''{\"table\":\"orders'' @ [backslash] @ ''ud800\",\"joins\":[''
     @ write users_entry @ '']}'')"

definition repeated_join :: "(jdoc \<Rightarrow> string) \<Rightarrow> string" where
  "repeated_join write = (''{\"table\":\"no_such_table\",\"table\":\"orders\",\"joins\":[''
     @ write users_entry @ '']}'')"

definition answered_or_refused :: "http_reply \<Rightarrow> unit probe" where
  "answered_or_refused resp = require (rp_status resp = 200 \<or> rp_status resp = 400)"

definition unnamed_malformed_join_is_not_a_server_error :: "target \<Rightarrow> (jdoc \<Rightarrow> string) \<Rightarrow> unit probe" where
  "unnamed_malformed_join_is_not_a_server_error T write =
     gmap (\<lambda>_. ()) (gtraverse (\<lambda>raw.
       gbind (get_path T ''/api/tables/join'' [(''join'', raw)]) answered_or_refused)
       [surrogate_join write, repeated_join write])"

definition missing_join_is_an_invalid_parameter :: "target \<Rightarrow> unit probe" where
  "missing_join_is_an_invalid_parameter T =
     gbind (get_path T ''/api/tables/join'' []) (\<lambda>resp.
     assert_problem_code T resp 400 ''invalid_parameter'')"

definition oversize_join_is_rejected :: "target \<Rightarrow> (jdoc \<Rightarrow> string) \<Rightarrow> unit probe" where
  "oversize_join_is_rejected T write =
     is_refused_join T write oversize_join"

definition dsl_text_in_filter_param_is_rejected :: "target \<Rightarrow> unit probe" where
  "dsl_text_in_filter_param_is_rejected T =
     gbind (fetch_filtered T ''orders'' ''status = completed'') (\<lambda>resp.
     assert_problem_code T resp 400 ''invalid_filter'')"

definition deeply_nested_filter_is_rejected :: "target \<Rightarrow> unit probe" where
  "deeply_nested_filter_is_rejected T =
     gbind (fetch_filtered T ''orders'' nested_2000) (\<lambda>resp.
     assert_problem_code T resp 400 ''invalid_filter'')"

definition malformed_filters :: "string list" where
  "malformed_filters =
     [(''[{\"column\":\"status\",\"op\":\"=\",\"value\":\"'' @ [backslash]
     @ ''ud800\"}]''),
      (''[{\"column\":\"nope\",\"column\":\"status\",\"op\":\"IS NULL\"}]'')]"

definition unnamed_malformed_filter_is_not_a_server_error :: "target \<Rightarrow> unit probe" where
  "unnamed_malformed_filter_is_not_a_server_error T =
     gmap (\<lambda>_. ()) (gtraverse (\<lambda>raw.
       gbind (fetch_filtered T ''orders'' raw) answered_or_refused) malformed_filters)"

definition invalid_order_value_is_rejected :: "target \<Rightarrow> unit probe" where
  "invalid_order_value_is_rejected T =
     gbind (get_path T ''/api/tables/data'' [(''table'', ''users''), (''order'', ''sideways'')]) (\<lambda>resp.
     assert_problem_code T resp 400 ''invalid_parameter'')"

definition unknown_source_is_rejected_structure :: "target \<Rightarrow> unit probe" where
  "unknown_source_is_rejected_structure T =
     gbind (get_path T ''/api/tables/structure'' [(''table'', ''users''), (''source'', ''no_such_source'')]) (\<lambda>resp.
     assert_status resp 400)"

definition unknown_source_is_rejected_referenced_by :: "target \<Rightarrow> unit probe" where
  "unknown_source_is_rejected_referenced_by T =
     gbind (get_path T ''/api/tables/referenced-by'' [(''table'', ''users''), (''source'', ''no_such_source'')]) (\<lambda>resp.
     assert_status resp 400)"

text \<open>The header of every response, whatever its status.\<close>

definition carries_version :: "http_reply \<Rightarrow> unit probe" where
  "carries_version resp = assert_exact (header_text_of resp ''x-ashurbanipal-protocol'') (Some ''1'')"

definition every_schemas_response_carries_the_protocol_version_header :: "target \<Rightarrow> unit probe" where
  "every_schemas_response_carries_the_protocol_version_header T =
     gbind (get_path T ''/api/schemas'' []) carries_version"

definition every_structure_response_carries_the_protocol_version_header :: "target \<Rightarrow> unit probe" where
  "every_structure_response_carries_the_protocol_version_header T =
     gmap (\<lambda>_. ()) (gtraverse (\<lambda>query.
       gbind (get_path T ''/api/tables/structure'' query) carries_version)
       [[(''table'', ''users'')], [(''table'', ''nope'')]])"

definition every_referrer_response_carries_the_protocol_version_header :: "target \<Rightarrow> unit probe" where
  "every_referrer_response_carries_the_protocol_version_header T =
     gmap (\<lambda>_. ()) (gtraverse (\<lambda>query.
       gbind (get_path T ''/api/tables/referenced-by'' query) carries_version)
       [[(''table'', ''users'')], [(''table'', ''nope'')]])"

definition every_join_response_carries_the_protocol_version_header :: "target \<Rightarrow> (jdoc \<Rightarrow> string) \<Rightarrow> unit probe" where
  "every_join_response_carries_the_protocol_version_header T write =
     gbind (get_join T write (orders_users ''left'') [(''limit'', ''1'')]) (\<lambda>ok.
     gbind (get_join T write unknown_table_join []) (\<lambda>bad.
     gmap (\<lambda>_. ()) (gtraverse carries_version [ok, bad])))"

section \<open>What the texts denote\<close>

definition refused_join :: "(string \<Rightarrow> string + jdoc) \<Rightarrow> string \<Rightarrow> bool" where
  "refused_join read raw \<longleftrightarrow>
     MAX_JOIN_BYTES < length raw \<or> (case read raw of
        Inl _ \<Rightarrow> True
      | Inr d \<Rightarrow> (case de_join_spec d of None \<Rightarrow> True | Some s \<Rightarrow> \<not> wf_spec s))"

definition refused_filter :: "(string \<Rightarrow> string + jdoc) \<Rightarrow> string \<Rightarrow> bool" where
  "refused_filter read raw \<longleftrightarrow> (case read raw of Inl _ \<Rightarrow> True | Inr d \<Rightarrow> de_conditions d = None)"

text \<open>Neither text nested 2000 deep nor a lone surrogate is read, the rest is read as what it writes;
  what \<open>serde_json\<close> writes of the oversize join is longer than its name.\<close>

definition reads_rejects :: "(string \<Rightarrow> string + jdoc) \<Rightarrow> (jdoc \<Rightarrow> string) \<Rightarrow> bool" where
  "reads_rejects read write \<longleftrightarrow>
     isl (read ''not json'') \<and> read ''[]'' = Inr (DArr []) \<and> read (''\"orders\"'') = Inr (DStr ''orders'')
     \<and> read ''{}'' = Inr (DObj []) \<and> read (''{\"table\":\"orders\"}'') = Inr (DObj [(''table'', DStr ''orders'')])
     \<and> isl (read nested_2000) \<and> isl (read ''status = completed'')
     \<and> read (write upper_key) = Inr upper_key \<and> read (write nested_upper_key) = Inr nested_upper_key
     \<and> isl (read (surrogate_join write))
     \<and> read (repeated_join write) = Inr (DObj [(''table'', DStr ''no_such_table''), (''table'', DStr ''orders''),
          (''joins'', DArr [users_entry])])
     \<and> (\<forall>d \<in> set (five_tables_join # wrong_structures). read (write d) = Inr d)
     \<and> 9000 < length (write oversize_join)
     \<and> isl (read (malformed_filters ! 0))
     \<and> read (malformed_filters ! 1) = Inr (DArr [DObj [(''column'', DStr ''nope''), (''column'', DStr ''status''),
          (''op'', DStr ''IS NULL'')]])"

lemma join_docs:
  "upper_key = DObj [(''TABLE'', DStr ''orders''),
     (''columns'', DArr [DObj [(''column'', DStr ''id''), (''join'', DInt 0)],
        DObj [(''column'', DStr ''order_id''), (''join'', DInt 1)]]),
     (''joins'', DArr [DObj [(''on'', DArr [DObj [(''left'', DObj [(''column'', DStr ''id''), (''join'', DInt 0)]),
           (''right'', DStr ''order_id'')]]), (''table'', DStr ''order_extra''), (''type'', DStr ''left'')]])]"
  "nested_upper_key = DObj [
     (''columns'', DArr [DObj [(''column'', DStr ''id''), (''join'', DInt 0)],
        DObj [(''column'', DStr ''order_id''), (''join'', DInt 1)]]),
     (''joins'', DArr [DObj [(''Type'', DStr ''left''),
        (''on'', DArr [DObj [(''left'', DObj [(''column'', DStr ''id''), (''join'', DInt 0)]),
           (''right'', DStr ''order_id'')]]), (''table'', DStr ''order_extra'')]]),
     (''table'', DStr ''orders'')]"
  by code_simp+

lemma wrong_structures_refused:
  "\<forall>d \<in> set (five_tables_join # wrong_structures). case de_join_spec d of None \<Rightarrow> True | Some s \<Rightarrow> \<not> wf_spec s"
  by code_simp

lemma refused_joins:
  assumes "reads_rejects read write"
  shows "\<forall>raw \<in> set malformed_joins. refused_join read raw" "refused_join read nested_2000"
    "\<forall>d \<in> set [upper_key, nested_upper_key]. refused_join read (write d)"
    "\<forall>raw \<in> set [surrogate_join write, repeated_join write]. refused_join read raw"
    "refused_join read (write oversize_join)"
  using assms by (auto simp: reads_rejects_def refused_join_def malformed_joins_def de_join_spec_def de_join_entry_def
      serde join_docs MAX_JOIN_BYTES_def isl_def)

lemma refused_structures:
  assumes "reads_rejects read write" "d \<in> set (five_tables_join # wrong_structures)"
  shows "refused_join read (write d)"
proof -
  have "read (write d) = Inr d" using assms unfolding reads_rejects_def by blast
  with bspec [OF wrong_structures_refused assms(2)] show ?thesis by (simp add: refused_join_def)
qed

lemma refused_filters:
  assumes "reads_rejects read write"
  shows "\<forall>raw \<in> set malformed_filters. refused_filter read raw" "refused_filter read nested_2000"
    "refused_filter read ''status = completed''"
  using assms by (auto simp: reads_rejects_def refused_filter_def malformed_filters_def de_conditions_def
      de_condition_def serde isl_def)

section \<open>Refused requests\<close>

lemma gtraverse_gret: "(\<And>x. x \<in> set xs \<Longrightarrow> f x = gret ()) \<Longrightarrow> gtraverse f xs = gret (map (\<lambda>_. ()) xs)"
  by (induction xs) (simp_all add: gmap_def)

lemma gtraverse_but_one:
  assumes "\<And>x. x \<in> set (y # xs) \<Longrightarrow> f x = gret ()"
  shows "gmap (\<lambda>_. ()) (gtraverse f (xs @ b # [y])) = f b"
  using assms
proof (induction xs)
  case (Cons x xs)
  have "gmap (\<lambda>_. ()) (gtraverse f (xs @ b # [y])) = f b" by (rule Cons.IH) (use Cons.prems in auto)
  with Cons.prems [of x] show ?case by (simp add: gmap_def)
qed (simp add: gmap_def)

lemma more_routes:
  "map_of (api_routes_axum env st) (''/__ashurbanipal'' @ ''/api/tables/referenced-by'') =
     Some (query_axum env decode_table_params (referenced_by_axum env st))"
  "map_of (api_routes_axum env st) (''/__ashurbanipal'' @ ''/api/tables/structure'') =
     Some (query_axum env decode_table_params (structure_axum env st))"
  "map_of (api_routes_axum env st) (''/__ashurbanipal'' @ ''/api/tables/join'') =
     Some (query_axum env decode_join_params (table_join_axum env st))"
  by (simp_all add: api_routes_axum_def)

lemma more_decoded:
  "decode_table_params [(''table'', t), (''source'', n)] =
     Inr \<lparr>tp_schema = None, tp_source = Some n, tp_table = t\<rparr>"
  "decode_join_params [(''join'', j)] =
     Inr \<lparr>jp_schema = None, jp_source = None, jp_join = j, jp_filter = None, jp_limit = None,
          jp_offset = None, jp_sort = None, jp_sort_join = None, jp_order = None\<rparr>"
  "decode_data_params [(''table'', t), (''filter'', f)] =
     Inr \<lparr>dp_schema = None, dp_source = None, dp_table = t, dp_filter = Some f, dp_limit = None,
          dp_offset = None, dp_sort = None, dp_order = None\<rparr>"
  "decode_data_params [(''table'', t), (''order'', d)] =
     Inr \<lparr>dp_schema = None, dp_source = None, dp_table = t, dp_filter = None, dp_limit = None,
          dp_offset = None, dp_sort = None, dp_order = Some d\<rparr>"
  "\<exists>r. decode_join_params [] = Inl r"
  by (simp_all add: decode_table_params_def decode_join_params_def decode_data_params_def data_fields_def
      required_def numeric_field_def decode_fields.simps)

lemma resolve_default:
  "st_sources st \<noteq> [] \<Longrightarrow> resolve st None = act_of (Done (Inr (snd (hd (st_sources st)))))"
  by (cases "st_sources st") (simp_all add: resolve_def resolve_source_def default_source_def)

lemma act_then_done [simp]: "act_then (act_of (Done (Inr x))) f = f x"
  by (rule ext) (simp add: act_then_def act_of_def)

lemma refused_join_error:
  assumes "refused_join read raw"
  shows "\<exists>e. parse_join (from_str read shape de_join_spec) raw = Inl e"
proof (rule ccontr)
  assume "\<not> ?thesis"
  then obtain s where "parse_join (from_str read shape de_join_spec) raw = Inr s"
    by (cases "parse_join (from_str read shape de_join_spec) raw") auto
  with assms show False by (auto simp: parse_join_ok refused_join_def from_str_def split: sum.splits option.splits)
qed

lemma refused_filter_error:
  assumes "refused_filter read raw"
  shows "\<exists>e. parse (from_str read shape de_conditions) raw = Inl e"
  using assms by (auto simp: refused_filter_def parse_def parse_inner_def from_str_def split: sum.splits)

text \<open>A route whose handler ends in an error of status 400, whatever the databases do.\<close>

lemma get_refused:
  assumes on: "is_enabled cfg" "sources \<noteq> []"
    and "map_of (api_routes_axum env (served cfg sources)) (''/__ashurbanipal'' @ path)
      = Some (query_axum env decode handler)"
    and "decode query = Inr p" "\<And>w. handler p w = (Done (Inl e), w)" "status_code e = (400, code)"
  shows "get_path (axum_target env cfg sources health js origin) path query = gret (refused_reply code (db_error_text e))"
  unfolding get_path_def
proof (rule send_refused)
  show "tg_send (axum_target env cfg sources health js origin)
      (probe_request (axum_target env cfg sources health js origin) path query None)
    = (\<lambda>w. (stamp_axum (error_axum (Db e)), w))"
    unfolding target_send [OF on]
    by (rule ext, rule route_error [OF assms(3,4,5)]) simp_all
qed (simp add: problem_def assms(6))

definition serde_decoders :: "env \<Rightarrow> (string \<Rightarrow> string + jdoc) \<Rightarrow> (string \<Rightarrow> string) \<Rightarrow> bool" where
  "serde_decoders env read shape \<longleftrightarrow>
     e_de_join env = from_str read shape de_join_spec \<and> e_de_filter env = from_str read shape de_conditions"

lemma get_refused_join:
  assumes on: "is_enabled cfg" "sources \<noteq> []" and "serde_decoders env read shape" "refused_join read raw"
  shows "\<exists>t. get_path (axum_target env cfg sources health js origin) ''/api/tables/join'' [(''join'', raw)]
    = gret (refused_reply ''invalid_join'' t)"
proof -
  obtain e where e: "parse_join (e_de_join env) raw = Inl e"
    using assms(3) refused_join_error [OF assms(4), of shape] by (auto simp: serde_decoders_def)
  show ?thesis
    by (rule exI, rule get_refused [OF on more_routes(3) more_decoded(2), where e = "BadJoin (join_error_text e)"])
      (use on e in \<open>simp_all add: table_join_axum_def resolve_default served_def join_request_def\<close>)
qed

lemma get_refused_filter:
  assumes on: "is_enabled cfg" "sources \<noteq> []" and "serde_decoders env read shape" "refused_filter read raw" "trim raw \<noteq> []"
  shows "\<exists>t. fetch_filtered (axum_target env cfg sources health js origin) table raw
    = gret (refused_reply ''invalid_filter'' t)"
proof -
  obtain e where e: "parse (e_de_filter env) raw = Inl e"
    using assms(3) refused_filter_error [OF assms(4), of shape] by (auto simp: serde_decoders_def)
  show ?thesis
    unfolding fetch_filtered_def
    by (rule exI, rule get_refused [OF on routes(5) more_decoded(3), where e = "FilterParse (filter_error_text e)"])
      (use on e assms(5) in \<open>simp_all add: table_data_axum_def resolve_default served_def query_opts_of_def parse_filter_def\<close>)
qed

lemma get_refused_order:
  assumes on: "is_enabled cfg" "sources \<noteq> []" and "l_max_page_size (cfg_limits cfg) \<noteq> 0"
  shows "\<exists>t. get_path (axum_target env cfg sources health js origin) ''/api/tables/data''
      [(''table'', table), (''order'', ''sideways'')] = gret (refused_reply ''invalid_parameter'' t)"
proof -
  obtain t where t: "is_descending (Some ''sideways'') = Inl (BadParameter t)" by (simp add: is_descending_def)
  show ?thesis
    by (rule exI, rule get_refused [OF on routes(5) more_decoded(4), where e = "BadParameter t"])
      (use assms t in \<open>simp_all add: table_data_axum_def resolve_default served_def query_opts_of_def parse_filter_def
        clamp_limit_cases\<close>)
qed

lemma get_missing_join:
  assumes on: "is_enabled cfg" "sources \<noteq> []"
  shows "\<exists>t. get_path (axum_target env cfg sources health js origin) ''/api/tables/join'' []
    = gret (refused_reply ''invalid_parameter'' t)"
proof -
  obtain r where r: "decode_join_params [] = Inl r" using more_decoded(5) by blast
  let ?T = "axum_target env cfg sources health js origin"
  have "handle_axum env (Serving (served cfg sources)) (probe_request ?T ''/api/tables/join'' [] None) w
      = (stamp_axum (error_axum (BadRequest (e_reject_axum env r))), w)" for w
    using handle_route [of env "served cfg sources" "probe_request ?T ''/api/tables/join'' [] None"
        "query_axum env decode_join_params (table_join_axum env (served cfg sources))" w] more_routes(3)
    by (simp add: query_axum_def r)
  then have "tg_send ?T (probe_request ?T ''/api/tables/join'' [] None)
      = (\<lambda>w. (stamp_axum (error_axum (BadRequest (e_reject_axum env r))), w))"
    unfolding target_send [OF on] by (intro ext)
  from send_refused [OF this] show ?thesis by (auto simp: get_path_def)
qed

lemma get_unknown_source:
  assumes on: "is_enabled cfg" "sources \<noteq> []" and "name \<notin> fst ` set sources"
    and "path \<in> {''/api/tables/structure'', ''/api/tables/referenced-by''}"
  shows "get_path (axum_target env cfg sources health js origin) path [(''table'', table), (''source'', name)]
    = gret (unknown_source_reply name)"
proof -
  have unknown: "resolve (served cfg sources) (Some name) = act_of (Done (Inl (not_allowed Source (''source '' @ debug_str name))))"
    by (rule resolve_unknown) (simp add: served_def assms(3))
  consider "path = ''/api/tables/structure''" | "path = ''/api/tables/referenced-by''" using assms(4) by blast
  then show ?thesis
  proof cases
    case 1
    show ?thesis unfolding 1 unknown_source_reply_def
      by (rule get_refused [OF on more_routes(2) more_decoded(1)])
        (simp_all add: structure_axum_def unknown not_allowed_def)
  next
    case 2
    show ?thesis unfolding 2 unknown_source_reply_def
      by (rule get_refused [OF on more_routes(1) more_decoded(1)])
        (simp_all add: referenced_by_axum_def unknown not_allowed_def)
  qed
qed

lemma answered_refused [simp]: "answered_or_refused (refused_reply code t) = gret ()"
  by (simp add: answered_or_refused_def refused_reply_def)

lemma trim_bracketed:
  "trim (CHR ''['' # CHR ''['' # CHR ''['' # m @ [CHR '']'', CHR '']'', CHR '']'']) \<noteq> []"
  by (simp add: trim_def trim_start_def trim_end_def ws1_def ws2_def ws3_def)

lemma trim_filters: "trim nested_2000 \<noteq> []" "trim ''status = completed'' \<noteq> []" "\<forall>raw \<in> set malformed_filters. trim raw \<noteq> []"
proof -
  have n: "nested_2000 = CHR ''['' # CHR ''['' # CHR ''['' # (replicate 1997 (CHR ''['') @ replicate 1997 (CHR '']''))
      @ [CHR '']'', CHR '']'', CHR '']'']"
    using replicate_add [of 3 1997 "CHR ''[''"] replicate_add [of 1997 3 "CHR '']''"]
    by (simp add: nested_2000_def numeral_3_eq_3)
  show "trim nested_2000 \<noteq> []" unfolding n by (rule trim_bracketed)
  show "trim ''status = completed'' \<noteq> []" by code_simp
  show "\<forall>raw \<in> set malformed_filters. trim raw \<noteq> []" by code_simp
qed

section \<open>The header of every response\<close>

definition passes :: "(world \<Rightarrow> bool) \<Rightarrow> unit probe \<Rightarrow> bool" where
  "passes I m \<longleftrightarrow> (\<forall>w. I w \<longrightarrow> (\<exists>w'. m w = Some ((), w') \<and> I w'))"

lemma passes_then: "passes I m \<Longrightarrow> passes I n \<Longrightarrow> passes I (gbind m (\<lambda>_. n))"
  by (fastforce simp: passes_def gbind_def)

lemma passes_all: "(\<And>x. x \<in> set xs \<Longrightarrow> passes I (f x)) \<Longrightarrow> passes I (gmap (\<lambda>_. ()) (gtraverse f xs))"
proof (induction xs)
  case Nil
  then show ?case by (simp add: passes_def gmap_def gbind_def gret_def)
next
  case (Cons x xs)
  have "passes I (gbind (f x) (\<lambda>_. gmap (\<lambda>_. ()) (gtraverse f xs)))"
    using Cons by (intro passes_then) simp_all
  moreover have "gmap (\<lambda>_. ()) (gtraverse f (x # xs)) = gbind (f x) (\<lambda>_. gmap (\<lambda>_. ()) (gtraverse f xs))"
    by (simp add: gmap_def)
  ultimately show ?case by simp
qed

text \<open>A world in which every pool's history keeps its backend's discipline.\<close>

definition sane_world :: "config \<Rightarrow> (nat \<Rightarrow> backend) \<Rightarrow> world \<Rightarrow> bool" where
  "sane_world cfg kind w \<longleftrightarrow>
     (\<forall>n. backend_sane (kind n) (timeouts (cfg_limits cfg) (backend_catalog (kind n))) (w n))"

lemma get_carries_version:
  assumes "is_enabled cfg" "sources \<noteq> []" "l_max_page_size (cfg_limits cfg) \<noteq> 0" "registered env kind sources"
    and path: "''/__ashurbanipal'' @ path \<in> set documented_paths" "path \<noteq> []"
    and T: "T = axum_target env cfg sources health js origin"
    and "sane_world cfg kind w"
  shows "\<exists>r w'. get_path T path query w = Some (r, w') \<and> carries_version r = gret () \<and> sane_world cfg kind w'"
proof -
  let ?st = "served cfg sources" and ?req = "probe_request T path query None"
  have router: "router_axum cfg sources = Serving ?st" using assms(1,2) by (simp add: router_axum_def served_def)
  have rq: "rq_path ?req = ''/__ashurbanipal'' @ path" by (simp add: T)
  obtain route where route: "map_of (api_routes_axum env ?st) (rq_path ?req) = Some route"
  proof -
    have "rq_path ?req \<in> fst ` set (api_routes_axum env ?st)"
      using path unfolding rq paths_of_routes [of env ?st] by blast
    then show ?thesis using that by (cases "map_of (api_routes_axum env ?st) (rq_path ?req)") (auto simp: map_of_eq_None_iff)
  qed
  obtain a w' where run: "route ?req w = (a, w')" by force
  then have handled: "handle_axum env (router_axum cfg sources) ?req w = (stamp_axum a, w')"
    using handle_route [OF route] by (simp add: router)
  then have ok: "stamp_axum a \<noteq> Aborted" "sane_world cfg kind w'"
    using enabled_serves [OF assms(1-4), of w ?req] assms(8) by (simp_all add: sane_world_def served_ok_def)
  moreover have "a \<noteq> Unmatched" using route_matched [OF route, of ?req w] run by simp
  ultimately obtain r where r: "stamp_axum a = Answered r" by (cases a) (simp_all add: stamp_axum_def)
  have "plain_answer a" using route_form [OF route, of ?req w] run by simp
  then have "api_answer r" using r by (rule stamp_form)
  with handled r ok show ?thesis
    by (simp add: get_path_def send_def T axum_target_def carries_version_def header_text_of_def api_answer_def
        PROTOCOL_HEADER_def PROTOCOL_VERSION_def header_to_str_def assert_exact_def)
qed

text \<open>The routes that the header tests ask.\<close>

lemma header_paths:
  "''/__ashurbanipal'' @ ''/api/schemas'' \<in> set documented_paths"
  "''/__ashurbanipal'' @ ''/api/tables/structure'' \<in> set documented_paths"
  "''/__ashurbanipal'' @ ''/api/tables/referenced-by'' \<in> set documented_paths"
  "''/__ashurbanipal'' @ ''/api/tables/join'' \<in> set documented_paths"
  by (simp_all add: documented_paths_def)

lemma get_passes:
  assumes "\<And>w. sane_world cfg kind w \<Longrightarrow>
    \<exists>r w'. get_path T path query w = Some (r, w') \<and> carries_version r = gret () \<and> sane_world cfg kind w'"
  shows "passes (sane_world cfg kind) (gbind (get_path T path query) carries_version)"
  unfolding passes_def
proof (intro allI impI)
  fix w assume "sane_world cfg kind w"
  from assms [OF this] show "\<exists>w'. gbind (get_path T path query) carries_version w = Some ((), w') \<and> sane_world cfg kind w'"
    by (auto simp: gbind_def gret_def)
qed

lemma two_replies_pass:
  assumes "\<And>query w. sane_world cfg kind w \<Longrightarrow>
    \<exists>r w'. get_path T path query w = Some (r, w') \<and> carries_version r = gret () \<and> sane_world cfg kind w'"
  shows "passes (sane_world cfg kind) (gbind (get_path T path q1) (\<lambda>ok. gbind (get_path T path q2) (\<lambda>bad.
    gmap (\<lambda>_. ()) (gtraverse carries_version [ok, bad]))))"
  unfolding passes_def
proof (intro allI impI)
  fix w assume "sane_world cfg kind w"
  then obtain ok w1 where 1: "get_path T path q1 w = Some (ok, w1)" "carries_version ok = gret ()" "sane_world cfg kind w1"
    using assms by blast
  then obtain bad w2 where 2: "get_path T path q2 w1 = Some (bad, w2)" "carries_version bad = gret ()" "sane_world cfg kind w2"
    using assms by blast
  show "\<exists>w'. gbind (get_path T path q1) (\<lambda>ok. gbind (get_path T path q2) (\<lambda>bad.
      gmap (\<lambda>_. ()) (gtraverse carries_version [ok, bad]))) w = Some ((), w') \<and> sane_world cfg kind w'"
    using 1 2 by (simp add: gbind_def gmap_def gret_def)
qed

section \<open>Properties\<close>

text \<open>C23: Both adapters refuse the requests of the conformance suite that are wrong in themselves, with status
  400 and the documented code, and without asking a database: a join that is not JSON, not of the
  documented shape, with a key in another case, too long or missing; a filter that is not a filter; an
  order that is none; and a source that is not registered. They pass eleven of the tests that send them,
  for decoders that are the derived ones over any reader of JSON that reads these texts as the values
  they write. The twelfth, \<open>invalid_join_structures_are_rejected\<close>, sends one request of another kind: of its
  twelve joins, eleven are refused likewise, but the one that asks for the column position 5 is well formed, and
  refused only by the plan, once the tables and their columns have been read from the database. So this test
  is shown to be as good as its request for that join, whose outcome rests on the database.\<close>

theorem refused_requests_suites_pass:
  assumes on: "is_enabled cfg" "sources \<noteq> []" "l_max_page_size (cfg_limits cfg) \<noteq> 0"
    and name: "''no_such_source'' \<notin> fst ` set sources"
    and serde: "serde_decoders env read shape" "reads_rejects read write"
    and T: "T = axum_target env cfg sources health js origin \<or> T = actix_target env cfg sources health js origin"
  shows "malformed_join_values_are_rejected T = gret ()
    \<and> (\<forall>d \<in> set (five_tables_join # wrong_structures). is_refused_join T write d = gret ())
    \<and> invalid_join_structures_are_rejected T write = is_refused_join T write bad_column_join
    \<and> join_keys_are_matched_exactly T write = gret ()
    \<and> unnamed_malformed_join_is_not_a_server_error T write = gret ()
    \<and> missing_join_is_an_invalid_parameter T = gret ()
    \<and> oversize_join_is_rejected T write = gret ()
    \<and> dsl_text_in_filter_param_is_rejected T = gret ()
    \<and> deeply_nested_filter_is_rejected T = gret ()
    \<and> unnamed_malformed_filter_is_not_a_server_error T = gret ()
    \<and> invalid_order_value_is_rejected T = gret ()
    \<and> unknown_source_is_rejected_structure T = gret ()
    \<and> unknown_source_is_rejected_referenced_by T = gret ()"
proof -
  obtain env' where T: "T = axum_target env' cfg sources health js origin"
    and same: "e_de_join env' = e_de_join env" "e_de_filter env' = e_de_filter env"
    by (rule either_target [OF on(1,2) T])
  have serde: "serde_decoders env' read shape" "reads_rejects read write"
    using serde by (simp_all add: serde_decoders_def same)
  have join: "\<exists>t. get_path T ''/api/tables/join'' [(''join'', raw)] = gret (refused_reply ''invalid_join'' t)"
    if "refused_join read raw" for raw
    unfolding T by (rule get_refused_join [OF on(1,2) serde(1) that])
  have filter: "\<exists>t. fetch_filtered T table raw = gret (refused_reply ''invalid_filter'' t)"
    if "refused_filter read raw" "trim raw \<noteq> []" for table raw
    unfolding T by (rule get_refused_filter [OF on(1,2) serde(1) that])
  note tests = malformed_join_values_are_rejected_def join_keys_are_matched_exactly_def
    invalid_join_structures_are_rejected_def
    unnamed_malformed_join_is_not_a_server_error_def missing_join_is_an_invalid_parameter_def
    oversize_join_is_rejected_def dsl_text_in_filter_param_is_rejected_def deeply_nested_filter_is_rejected_def
    unnamed_malformed_filter_is_not_a_server_error_def invalid_order_value_is_rejected_def
    unknown_source_is_rejected_structure_def unknown_source_is_rejected_referenced_by_def
  have joins: "gbind (get_path T ''/api/tables/join'' [(''join'', raw)])
      (\<lambda>resp. assert_problem_code T resp 400 ''invalid_join'') = gret ()"
    "gbind (get_path T ''/api/tables/join'' [(''join'', raw)]) answered_or_refused = gret ()"
    if "refused_join read raw" for raw
    using join [OF that] by (auto simp: refused_problem)
  have filters: "gbind (fetch_filtered T table raw) (\<lambda>resp. assert_problem_code T resp 400 ''invalid_filter'') = gret ()"
    "gbind (fetch_filtered T table raw) answered_or_refused = gret ()"
    if "refused_filter read raw" "trim raw \<noteq> []" for table raw
    using filter [OF that, of table] by (auto simp: refused_problem)
  have is_refused: "is_refused_join T write d = gret ()" if "refused_join read (write d)" for d
    unfolding is_refused_join_def get_join_def by (rule joins(1) [OF that])
  note rj = refused_joins [OF serde(2)] and rf = refused_filters [OF serde(2)]
  show ?thesis
    unfolding tests
  proof (intro conjI)
    show "gbind (get_path T ''/api/tables/join'' []) (\<lambda>resp. assert_problem_code T resp 400 ''invalid_parameter'') = gret ()"
      using get_missing_join [OF on(1,2), of env' health js origin] by (auto simp: T refused_problem)
    show "gbind (get_path T ''/api/tables/data'' [(''table'', ''users''), (''order'', ''sideways'')])
        (\<lambda>resp. assert_problem_code T resp 400 ''invalid_parameter'') = gret ()"
      using get_refused_order [OF on, of env' health js origin "''users''"] by (auto simp: T refused_problem)
    show "gbind (get_path T ''/api/tables/structure'' [(''table'', ''users''), (''source'', ''no_such_source'')])
        (\<lambda>resp. assert_status resp 400) = gret ()"
      "gbind (get_path T ''/api/tables/referenced-by'' [(''table'', ''users''), (''source'', ''no_such_source'')])
        (\<lambda>resp. assert_status resp 400) = gret ()"
      by (simp_all add: T get_unknown_source [OF on(1,2) name] unknown_source_reply_def refused_problem)
    show "\<forall>d \<in> set (five_tables_join # wrong_structures). is_refused_join T write d = gret ()"
      using is_refused refused_structures [OF serde(2)] by blast
    show "gmap (\<lambda>_. ()) (gtraverse (is_refused_join T write) (wrong_structures @ bad_column_join # [five_tables_join]))
        = is_refused_join T write bad_column_join"
      by (rule gtraverse_but_one, rule is_refused, rule refused_structures [OF serde(2)])
  qed (use rj rf trim_filters in \<open>simp_all add: joins is_refused filters gtraverse_gret\<close>)
qed

text \<open>A writer and a reader of JSON that do on these texts what the hypothesis asks.\<close>

fun comma_separated :: "string list \<Rightarrow> string" where
  "comma_separated [] = []"
| "comma_separated [s] = s"
| "comma_separated (s # ss) = s @ '','' @ comma_separated ss"

fun json_text :: "jdoc \<Rightarrow> string" where
  "json_text DNull = ''null''"
| "json_text (DBool b) = (if b then ''true'' else ''false'')"
| "json_text (DInt n) = (if n < 0 then ''-'' @ nat_str (nat (- n)) else nat_str (nat n))"
| "json_text (DFloat s) = s"
| "json_text (DStr s) = [dquote] @ s @ [dquote]"
| "json_text (DArr ds) = ''['' @ comma_separated (map json_text ds) @ '']''"
| "json_text (DObj ms) =
     ''{'' @ comma_separated (map (\<lambda>(k, d). [dquote] @ k @ [dquote] @ '':'' @ json_text d) ms) @ ''}''"

definition readings :: "(string \<times> jdoc) list" where
  "readings =
     map (\<lambda>d. (json_text d, d)) (five_tables_join # wrong_structures) @
     [(''[]'', DArr []), ((''\"orders\"''), DStr ''orders''), (''{}'', DObj []),
      ((''{\"table\":\"orders\"}''), DObj [(''table'', DStr ''orders'')]),
      (json_text upper_key, upper_key), (json_text nested_upper_key, nested_upper_key),
      (repeated_join json_text, DObj [(''table'', DStr ''no_such_table''), (''table'', DStr ''orders''),
         (''joins'', DArr [users_entry])]),
      (malformed_filters ! 1, DArr [DObj [(''column'', DStr ''nope''), (''column'', DStr ''status''),
         (''op'', DStr ''IS NULL'')]])]"

definition reading :: "string \<Rightarrow> string + jdoc" where
  "reading raw = (case map_of readings raw of Some d \<Rightarrow> Inr d | None \<Rightarrow> Inl ''not read'')"

lemma distinct_readings: "distinct (map fst readings)"
  by code_simp

lemma other_texts: "surrogate_join json_text \<notin> fst ` set readings" "malformed_filters ! 0 \<notin> fst ` set readings"
    "''not json'' \<notin> fst ` set readings" "''status = completed'' \<notin> fst ` set readings"
  by code_simp+

lemma short_readings: "\<forall>t \<in> fst ` set readings. length t < 1000"
  by code_simp

lemma reading_member: "(t, d) \<in> set readings \<Longrightarrow> reading t = Inr d"
  using distinct_readings by (simp add: reading_def)

lemma reading_other: "t \<notin> fst ` set readings \<Longrightarrow> isl (reading t)"
  by (simp add: reading_def map_of_eq_None_iff [THEN iffD2])

lemma oversize_text: "9000 < length (json_text oversize_join)"
  by (simp add: oversize_join_def orders_users_def json_object_def)

lemma reads_rejects_example: "reads_rejects reading json_text"
proof -
  have "length nested_2000 = 4000" by (simp add: nested_2000_def)
  then have "nested_2000 \<notin> fst ` set readings" using short_readings by fastforce
  note others = reading_other [OF this] other_texts [THEN reading_other]
  have members: "reading ''[]'' = Inr (DArr [])" "reading (''\"orders\"'') = Inr (DStr ''orders'')"
    "reading ''{}'' = Inr (DObj [])" "reading (''{\"table\":\"orders\"}'') = Inr (DObj [(''table'', DStr ''orders'')])"
    "reading (json_text upper_key) = Inr upper_key" "reading (json_text nested_upper_key) = Inr nested_upper_key"
    "reading (repeated_join json_text) = Inr (DObj [(''table'', DStr ''no_such_table''), (''table'', DStr ''orders''),
       (''joins'', DArr [users_entry])])"
    "reading (malformed_filters ! 1) = Inr (DArr [DObj [(''column'', DStr ''nope''), (''column'', DStr ''status''),
       (''op'', DStr ''IS NULL'')]])"
    by (rule reading_member; simp only: readings_def set_append Un_iff list.set insert_iff simp_thms)+
  have structures: "\<forall>d \<in> set (five_tables_join # wrong_structures). reading (json_text d) = Inr d"
    by (intro ballI reading_member) (simp only: readings_def set_append set_map Un_iff, blast)
  show ?thesis
    unfolding reads_rejects_def by (intro conjI others members structures oversize_text)
qed

definition reading_env :: env where
  "reading_env = example_env\<lparr>e_de_join := from_str reading id de_join_spec,
     e_de_filter := from_str reading id de_conditions\<rparr>"

lemma example_enabled:
  "is_enabled example_config" "example_sources \<noteq> []" "l_max_page_size (cfg_limits example_config) \<noteq> 0"
  by (simp_all add: example_config_def config_default_def limits_default_def is_enabled_def example_sources_def)

lemma refused_requests_suites_pass_witness:
  "\<exists>T. T = actix_target reading_env example_config example_sources (\<lambda>_ _. False) (\<lambda>_. JsNull) ''http://127.0.0.1:4000''
    \<and> malformed_join_values_are_rejected T = gret () \<and> join_keys_are_matched_exactly T json_text = gret ()
    \<and> deeply_nested_filter_is_rejected T = gret () \<and> unknown_source_is_rejected_structure T = gret ()"
proof -
  have name: "''no_such_source'' \<notin> fst ` set example_sources" by code_simp
  have serde: "serde_decoders reading_env reading id" by (simp add: serde_decoders_def reading_env_def)
  show ?thesis
    using refused_requests_suites_pass [OF example_enabled name serde reads_rejects_example disjI2 [OF refl],
        of "\<lambda>_ _. False" "\<lambda>_. JsNull" "''http://127.0.0.1:4000''"]
    by blast
qed

text \<open>C24: The tests of the suites that look at the protocol header alone pass on both adapters over any of the
  backends, whatever the databases hold and however they fail: no answer of a listing, a structure, the
  referrers of a table or a join, good or bad, is without the header, and each leaves every pool's
  connection as its backend's discipline has it.\<close>

theorem header_tests_pass:
  assumes on: "is_enabled cfg" "sources \<noteq> []" "l_max_page_size (cfg_limits cfg) \<noteq> 0"
    and "registered env kind sources"
    and T: "T = axum_target env cfg sources health js origin \<or> T = actix_target env cfg sources health js origin"
  shows "passes (sane_world cfg kind) (every_schemas_response_carries_the_protocol_version_header T)
    \<and> passes (sane_world cfg kind) (every_structure_response_carries_the_protocol_version_header T)
    \<and> passes (sane_world cfg kind) (every_referrer_response_carries_the_protocol_version_header T)
    \<and> passes (sane_world cfg kind) (every_join_response_carries_the_protocol_version_header T write)"
proof -
  obtain env' where T: "T = axum_target env' cfg sources health js origin" and dbs: "e_dbs env' = e_dbs env"
    by (rule either_target [OF on(1,2) T])
  have reg: "registered env' kind sources" using assms(4) by (simp add: registered_def dbs)
  have asked: "\<exists>r w'. get_path T path query w = Some (r, w') \<and> carries_version r = gret () \<and> sane_world cfg kind w'"
    if "''/__ashurbanipal'' @ path \<in> set documented_paths" "path \<noteq> []" "sane_world cfg kind w" for path query w
    using get_carries_version [OF on reg that(1,2) T that(3)] .
  note one = get_passes [OF asked]
  show ?thesis
  proof (intro conjI)
    show "passes (sane_world cfg kind) (every_schemas_response_carries_the_protocol_version_header T)"
      unfolding every_schemas_response_carries_the_protocol_version_header_def
      by (rule one [OF header_paths(1)]) simp_all
    show "passes (sane_world cfg kind) (every_structure_response_carries_the_protocol_version_header T)"
      unfolding every_structure_response_carries_the_protocol_version_header_def
      by (rule passes_all, rule one [OF header_paths(2)]) simp_all
    show "passes (sane_world cfg kind) (every_referrer_response_carries_the_protocol_version_header T)"
      unfolding every_referrer_response_carries_the_protocol_version_header_def
      by (rule passes_all, rule one [OF header_paths(3)]) simp_all
    show "passes (sane_world cfg kind) (every_join_response_carries_the_protocol_version_header T write)"
      unfolding every_join_response_carries_the_protocol_version_header_def get_join_def
      by (rule two_replies_pass, rule asked [OF header_paths(4)]) simp_all
  qed
qed

lemma header_tests_pass_witness:
  "\<exists>T. T = axum_target example_env example_config example_sources (\<lambda>_ _. False) (\<lambda>_. JsNull) ''http://127.0.0.1:4000''
    \<and> (\<exists>w. every_structure_response_carries_the_protocol_version_header T (\<lambda>_. []) = Some ((), w))
    \<and> (\<exists>w. every_join_response_carries_the_protocol_version_header T json_text (\<lambda>_. []) = Some ((), w))"
proof -
  have "sane_world example_config example_kind (\<lambda>_. [])"
    unfolding sane_world_def using safe_source.start [OF backend_safe] by blast
  then show ?thesis
    using header_tests_pass [OF example_enabled example_registered disjI1 [OF refl],
        of "\<lambda>_ _. False" "\<lambda>_. JsNull" "''http://127.0.0.1:4000''" json_text]
    unfolding passes_def by blast
qed

end
