(* ===== verification/Unit_Join.thy ===== *)
theory Unit_Join
  imports Serde Join_Correct
begin

text \<open>
  The unit tests of \<^verbatim>\<open>core/src/join.rs\<close> (its module \<open>tests\<close>) over the model: a test is true when it
  passes, that is when none of its assertions fails and nothing it unwraps is an error. The JSON
  texts are those of the tests; what the reader of JSON text makes of them is a hypothesis
  (\<open>reads_tests\<close>).
\<close>

section \<open>Fixtures\<close>

definition col :: "string \<Rightarrow> string \<Rightarrow> column_class \<Rightarrow> col_meta" where
  "col name ty class = \<lparr>cm_name = name, cm_type_name = ty, cm_class = class, cm_collation = None,
     cm_key = None, cm_references = None, cm_comment = None\<rparr>"

definition orders :: table_meta where
  "orders = \<lparr>tm_name = ''orders'',
     tm_columns = [col ''id'' ''uuid'' Uuid, col ''user_id'' ''uuid'' Uuid, col ''status'' ''text'' Text,
       col ''tags'' ''ARRAY'' Array]\<rparr>"

definition users :: table_meta where
  "users = \<lparr>tm_name = ''users'', tm_columns = [col ''id'' ''uuid'' Uuid, col ''email'' ''text'' Text]\<rparr>"

definition opts :: join_opts where
  "opts = \<lparr>jo_limit = 10, jo_offset = 0, jo_sort = None, jo_sort_join = None, jo_descending = False,
     jo_timeout_secs = 5, jo_filter = None\<rparr>"

definition test_dialect :: dialect where
  "test_dialect = \<lparr>d_quote = quote_ident, d_cast_text = (\<lambda>c. c @ ''::text''), d_numbered = True, d_ilike = Native\<rparr>"

definition JOIN :: string where
  "JOIN = ''{\"table\":\"orders\",\"joins\":[{\"type\":\"left\",\"table\":\"users\",''
     @ [newline]
     @ ''        \"on\":[{\"left\":{\"join\":0,\"column\":\"user_id\"},\"right\":\"id\"}]}]}''"

section \<open>Structure\<close>

text \<open>\<open>unwrap\<close> of a result, and \<open>let Err(DbError::BadJoin(msg)) = plan(..) else\<close>.\<close>

fun with_ok :: "'e + 'a \<Rightarrow> ('a \<Rightarrow> bool) \<Rightarrow> bool" where
  "with_ok (Inl e) f = False"
| "with_ok (Inr x) f = f x"

definition fails_with :: "'a outcome \<Rightarrow> (db_error \<Rightarrow> bool) \<Rightarrow> bool" where
  "fails_with r f \<longleftrightarrow> (case r of Done (Inl e) \<Rightarrow> f e | _ \<Rightarrow> False)"

definition bad_join :: "'a outcome \<Rightarrow> (string \<Rightarrow> bool) \<Rightarrow> bool" where
  "bad_join r f \<longleftrightarrow> fails_with r (\<lambda>e. case e of BadJoin msg \<Rightarrow> f msg | _ \<Rightarrow> False)"

type_synonym parser = "string \<Rightarrow> join_error + join_spec"

definition parses_a_valid_join :: "parser \<Rightarrow> bool" where
  "parses_a_valid_join parse_spec \<longleftrightarrow>
     with_ok (parse_spec JOIN) (\<lambda>spec.
       table_names spec = [''orders'', ''users''] \<and> je_kind (js_joins spec ! 0) = Left)"

definition structural_cases :: "string list" where
  "structural_cases = [
     ''not json'',
     ''[]'',
     ''{\"table\":\"o\",\"joins\":[]}'',
     ''{\"table\":\"o\",\"joins\":[{\"type\":\"right\",\"table\":\"u\",\"on\":[{\"left\":{\"join\":0,\"column\":\"a\"},\"right\":\"b\"}]}]}'',
     ''{\"table\":\"o\",\"joins\":[{\"type\":\"LEFT\",\"table\":\"u\",\"on\":[{\"left\":{\"join\":0,\"column\":\"a\"},\"right\":\"b\"}]}]}'',
     ''{\"table\":\"o\",\"joins\":[{\"type\":\"left\",\"table\":\"u\",\"on\":[]}]}'',
     ''{\"table\":\"o\",\"joins\":[{\"type\":\"left\",\"table\":\"u\",\"on\":[{\"left\":{\"join\":1,\"column\":\"a\"},\"right\":\"b\"}]}]}'',
     ''{\"table\":\"o\",\"joins\":[{\"type\":\"left\",\"table\":\"u\",\"on\":[{\"left\":{\"join\":0,\"column\":\"a\"},\"right\":\"b\",\"op\":\">\"}]}]}'',
     ''{\"table\":\"o\",\"joins\":[{\"type\":\"left\",\"table\":\"u\",\"on\":[{\"left\":{\"join\":-1,\"column\":\"a\"},\"right\":\"b\"}]}]}'',
     ''{\"table\":\"o\",\"joins\":[{\"type\":\"left\",\"table\":\"u\",\"on\":[{\"left\":{\"join\":0,\"column\":\"a\"},\"right\":\"b\"}]}],\"columns\":[]}'',
     ''{\"table\":\"o\",\"joins\":[{\"type\":\"left\",\"table\":\"u\",\"on\":[{\"left\":{\"join\":0,\"column\":\"a\"},\"right\":\"b\"}]}],\"columns\":[{\"join\":0,\"column\":\"a\"},{\"join\":0,\"column\":\"a\"}]}'']"

definition rejects_structural_violations :: "parser \<Rightarrow> bool" where
  "rejects_structural_violations parse_spec \<longleftrightarrow> list_all (\<lambda>raw. isl (parse_spec raw)) structural_cases"

definition pair_text :: string where
  "pair_text = ''{\"left\":{\"join\":0,\"column\":\"a\"},\"right\":\"b\"}''"

definition four_pairs :: string where
  "four_pairs = ''{\"table\":\"o\",\"joins\":[{\"type\":\"left\",\"table\":\"u\",\"on\":[''
     @ pair_text @ '','' @ pair_text @ '','' @ pair_text @ '','' @ pair_text @ '']}]}''"

definition entry_text :: string where
  "entry_text = ''{\"type\":\"left\",\"table\":\"u\",\"on\":['' @ pair_text @ '']}''"

definition five_tables :: string where
  "five_tables = ''{\"table\":\"o\",\"joins\":['' @ entry_text @ '','' @ entry_text @ '',''
     @ entry_text @ '','' @ entry_text @ '']}''"

definition four_tables :: string where
  "four_tables = ''{\"table\":\"o\",\"joins\":['' @ entry_text @ '','' @ entry_text @ '',''
     @ entry_text @ '']}''"

definition long_join :: string where
  "long_join = ''{\"table\":\"'' @ replicate MAX_JOIN_BYTES (CHR ''t'') @ ''\",\"joins\":[]}''"

definition caps_tables_and_pairs_and_bytes :: "parser \<Rightarrow> bool" where
  "caps_tables_and_pairs_and_bytes parse_spec \<longleftrightarrow>
     isl (parse_spec four_pairs) \<and> isl (parse_spec five_tables) \<and> \<not> isl (parse_spec four_tables)
     \<and> isl (parse_spec long_join)"

section \<open>Planning\<close>

text \<open>The assignments to \<open>spec.joins[0].on[0]\<close>.\<close>

definition change_pair :: "(on_pair \<Rightarrow> on_pair) \<Rightarrow> join_spec \<Rightarrow> join_spec" where
  "change_pair f spec =
     (let entry = js_joins spec ! 0
      in spec\<lparr>js_joins := (js_joins spec)[0 := entry\<lparr>je_on := (je_on entry)[0 := f (je_on entry ! 0)]\<rparr>]\<rparr>)"

definition set_left_column :: "string \<Rightarrow> on_pair \<Rightarrow> on_pair" where
  "set_left_column column p = p\<lparr>on_left := (on_left p)\<lparr>pos_column := column\<rparr>\<rparr>"

definition set_right :: "string \<Rightarrow> on_pair \<Rightarrow> on_pair" where
  "set_right column p = p\<lparr>on_right := column\<rparr>"

definition set_column :: "nat \<Rightarrow> (col_meta \<Rightarrow> col_meta) \<Rightarrow> table_meta \<Rightarrow> table_meta" where
  "set_column i f t = t\<lparr>tm_columns := (tm_columns t)[i := f (tm_columns t ! i)]\<rparr>"

definition plan_rejects_unknown_names_and_incompatible_pairs :: "parser \<Rightarrow> bool" where
  "plan_rejects_unknown_names_and_incompatible_pairs parse_spec \<longleftrightarrow>
     with_ok (parse_spec JOIN) (\<lambda>spec.
       let bad_name = change_pair (set_right ''nope\"; drop'') spec;
           cross = change_pair (set_left_column ''status'') spec;
           arr = change_pair (set_left_column ''tags'') spec
       in bad_join (make_plan bad_name [orders, users] opts) (\<lambda>_. True)
          \<and> bad_join (make_plan cross [orders, users] opts) (\<lambda>msg.
              contains ''orders.status (text)'' msg \<and> contains ''users.id (uuid)'' msg)
          \<and> bad_join (make_plan arr [orders, users] opts) (\<lambda>_. True))"

definition only_a_text_column_reports_its_collation :: bool where
  "only_a_text_column_reports_its_collation \<longleftrightarrow>
     (let text = (col ''name'' ''varchar(20)'' Text)\<lparr>cm_collation := Some ''utf8mb4_bin''\<rparr>;
          doc = (col ''doc'' ''json'' Json)\<lparr>cm_collation := Some ''utf8mb4_bin''\<rparr>
      in ci_collation (column_info_of text) = Some ''utf8mb4_bin'' \<and> ci_collation (column_info_of doc) = None)"

definition a_float_key_says_why_it_cannot_join :: "parser \<Rightarrow> bool" where
  "a_float_key_says_why_it_cannot_join parse_spec \<longleftrightarrow>
     (let o1 = orders\<lparr>tm_columns := tm_columns orders @ [col ''score'' ''double precision'' Float]\<rparr>
      in with_ok (parse_spec JOIN) (\<lambda>spec.
         bad_join (make_plan (change_pair (set_left_column ''score'') spec) [o1, users] opts) (\<lambda>msg.
           contains ''orders.score (double precision)'' msg
           \<and> contains ''floating-point values are not compared exactly'' msg)))"

definition enum_classes_pair_only_when_equal :: "parser \<Rightarrow> bool" where
  "enum_classes_pair_only_when_equal parse_spec \<longleftrightarrow>
     (let a = set_column 2 (\<lambda>_. col ''status'' ''USER-DEFINED'' (Enum ''public.status'')) orders;
          b = set_column 1 (\<lambda>_. col ''kind'' ''USER-DEFINED'' (Enum ''public.kind'')) users;
          same = set_column 1 (\<lambda>_. col ''kind'' ''USER-DEFINED'' (Enum ''public.status'')) users
      in with_ok (parse_spec JOIN) (\<lambda>spec.
         let spec = change_pair (\<lambda>p. set_right ''kind'' (set_left_column ''status'' p)) spec
         in bad_join (make_plan spec [a, b] opts) (\<lambda>_. True)
            \<and> (case make_plan spec [a, same] opts of Done r \<Rightarrow> \<not> isl r | Panic \<Rightarrow> False)))"

definition text_collation_clash_is_rejected :: "parser \<Rightarrow> bool" where
  "text_collation_clash_is_rejected parse_spec \<longleftrightarrow>
     (let a = set_column 2 (\<lambda>c. c\<lparr>cm_collation := Some ''utf8mb4_bin''\<rparr>) orders;
          b = set_column 1 (\<lambda>c. c\<lparr>cm_collation := Some ''utf8mb4_general_ci''\<rparr>) users
      in with_ok (parse_spec JOIN) (\<lambda>spec.
         bad_join (make_plan (change_pair (\<lambda>p. set_right ''email'' (set_left_column ''status'' p)) spec) [a, b] opts)
           (contains ''collation'')))"

definition labels_are_unique_and_stable :: bool where
  "labels_are_unique_and_stable \<longleftrightarrow>
     assign_labels [(0, ''id''), (1, ''id''), (1, ''email''), (0, ''id_1'')] = [''id_0'', ''id_1_2'', ''email'', ''id_1'']
     \<and> assign_labels [(0, ''id''), (1, ''id''), (1, ''email'')] = [''id_0'', ''id_1'', ''email'']"

definition sorted_and_filtered :: join_opts where
  "sorted_and_filtered = opts\<lparr>jo_sort := Some ''email'', jo_sort_join := Some 1,
     jo_filter := Some [
       \<lparr>c_logic = None, c_not = False, c_column = ''email'', c_op = Eq, c_value = Some ''a@b.c'', c_join = Some 1\<rparr>,
       \<lparr>c_logic = Some Or, c_not = True, c_column = ''status'', c_op = IsNull, c_value = None, c_join = None\<rparr>]\<rparr>"

definition builds_sql_from_catalog_names_only :: "parser \<Rightarrow> bool" where
  "builds_sql_from_catalog_names_only parse_spec \<longleftrightarrow>
     with_ok (parse_spec JOIN) (\<lambda>spec.
       case make_plan spec [orders, users] sorted_and_filtered of
         Done (Inr p) \<Rightarrow>
           (let (sql, values) = build_select p test_dialect (Some ''public'')
            in prefix ''t0.\"id\"::text as c0, '' sql
               \<and> contains '' from \"public\".\"orders\" t0 left join \"public\".\"users\" t1 on t1.\"id\" = t0.\"user_id\"'' sql
               \<and> contains '' where (t1.\"email\"::text = $3) OR (NOT (t0.\"status\"::text IS NULL))'' sql
               \<and> suffix '' order by t1.\"email\" asc limit $1 offset $2'' sql
               \<and> values = [''a@b.c''])
       | _ \<Rightarrow> False)"

definition filter_and_sort_positions_are_range_checked :: "parser \<Rightarrow> bool" where
  "filter_and_sort_positions_are_range_checked parse_spec \<longleftrightarrow>
     with_ok (parse_spec JOIN) (\<lambda>spec.
       let out_of_join = opts\<lparr>jo_filter := Some [
             \<lparr>c_logic = None, c_not = False, c_column = ''id'', c_op = IsNull, c_value = None, c_join = Some 2\<rparr>]\<rparr>;
           no_sort = opts\<lparr>jo_sort_join := Some 1\<rparr>;
           no_column = opts\<lparr>jo_sort := Some ''email''\<rparr>
       in fails_with (make_plan spec [orders, users] out_of_join) (\<lambda>e. case e of FilterParse _ \<Rightarrow> True | _ \<Rightarrow> False)
          \<and> fails_with (make_plan spec [orders, users] no_sort) (\<lambda>e. case e of BadParameter _ \<Rightarrow> True | _ \<Rightarrow> False)
          \<and> fails_with (make_plan spec [orders, users] no_column) (\<lambda>e. case e of NotAllowed _ \<Rightarrow> True | _ \<Rightarrow> False))"

section \<open>What the texts denote\<close>

definition pair_doc :: "int \<Rightarrow> (string \<times> jdoc) list \<Rightarrow> jdoc" where
  "pair_doc pos extra =
     DObj ([(''left'', DObj [(''join'', DInt pos), (''column'', DStr ''a'')]), (''right'', DStr ''b'')] @ extra)"

definition entry_doc :: "string \<Rightarrow> jdoc list \<Rightarrow> jdoc" where
  "entry_doc kind pairs = DObj [(''type'', DStr kind), (''table'', DStr ''u''), (''on'', DArr pairs)]"

definition spec_doc :: "jdoc list \<Rightarrow> (string \<times> jdoc) list \<Rightarrow> jdoc" where
  "spec_doc joins extra = DObj ([(''table'', DStr ''o''), (''joins'', DArr joins)] @ extra)"

definition column_a :: jdoc where
  "column_a = DObj [(''join'', DInt 0), (''column'', DStr ''a'')]"

definition JOIN_spec :: join_spec where
  "JOIN_spec = \<lparr>js_table = ''orders'',
     js_joins = [\<lparr>je_kind = Left, je_table = ''users'',
       je_on = [\<lparr>on_left = \<lparr>pos_join = 0, pos_column = ''user_id''\<rparr>, on_right = ''id''\<rparr>]\<rparr>],
     js_columns = None\<rparr>"

definition structural_docs :: "jdoc list" where
  "structural_docs = [
     DArr [],
     spec_doc [] [],
     spec_doc [entry_doc ''right'' [pair_doc 0 []]] [],
     spec_doc [entry_doc ''LEFT'' [pair_doc 0 []]] [],
     spec_doc [entry_doc ''left'' []] [],
     spec_doc [entry_doc ''left'' [pair_doc 1 []]] [],
     spec_doc [entry_doc ''left'' [pair_doc 0 [(''op'', DStr ''>'')]]] [],
     spec_doc [entry_doc ''left'' [pair_doc (- 1) []]] [],
     spec_doc [entry_doc ''left'' [pair_doc 0 []]] [(''columns'', DArr [])],
     spec_doc [entry_doc ''left'' [pair_doc 0 []]] [(''columns'', DArr [column_a, column_a])]]"

definition test_readings :: "(string \<times> jdoc option) list" where
  "test_readings =
     (JOIN, Some (join_doc JOIN_spec)) # zip structural_cases (None # map Some structural_docs)
     @ [(four_pairs, Some (spec_doc [entry_doc ''left'' (replicate 4 (pair_doc 0 []))] [])),
        (five_tables, Some (spec_doc (replicate 4 (entry_doc ''left'' [pair_doc 0 []])) [])),
        (four_tables, Some (spec_doc (replicate 3 (entry_doc ''left'' [pair_doc 0 []])) []))]"

definition reads_tests :: "(string \<Rightarrow> string + jdoc) \<Rightarrow> bool" where
  "reads_tests read \<longleftrightarrow> list_all (\<lambda>(text, v). reads_as (read text) v) test_readings"

abbreviation parser_of :: "(string \<Rightarrow> string + jdoc) \<Rightarrow> (string \<Rightarrow> string) \<Rightarrow> parser" where
  "parser_of read shape \<equiv> parse_join (from_str read shape de_join_spec)"

definition rejected :: "string + jdoc \<Rightarrow> bool" where
  "rejected r = (case r of Inl _ \<Rightarrow> True | Inr d \<Rightarrow> (case de_join_spec d of None \<Rightarrow> True | Some s \<Rightarrow> \<not> wf_spec s))"

lemma isl_parser_of: "rejected (read raw) \<Longrightarrow> isl (parser_of read shape raw)"
  by (cases "parser_of read shape raw")
    (auto simp: rejected_def from_str_def parse_join_ok split: option.splits sum.splits)

lemma not_isl_parser_of:
  assumes "\<not> rejected (read raw)" "length raw \<le> MAX_JOIN_BYTES"
  shows "\<not> isl (parser_of read shape raw)"
proof -
  from assms(1) obtain s where "from_str read shape de_join_spec raw = Inr s" "wf_spec s"
    by (auto simp: rejected_def from_str_def split: sum.splits option.splits)
  with assms(2) have "parser_of read shape raw = Inr s" by (simp add: parse_join_ok)
  then show ?thesis by simp
qed

lemmas unit_docs = pair_doc_def entry_doc_def spec_doc_def column_a_def structural_docs_def

lemma structural_docs_rejected: "list_all (\<lambda>d. rejected (Inr d)) structural_docs"
  by (simp add: unit_docs rejected_def de_join_spec_def de_join_entry_def de_on_pair_def de_column_pos_def
      de_join_type_def de_variant_def de_usize_def serde wf_spec_def wf_entry_def MAX_TABLES_def MAX_PAIRS_def)

lemma reads_tests_simps:
  assumes "reads_tests read"
  shows "read JOIN = Inr (join_doc JOIN_spec)"
    and "list_all (\<lambda>(text, v). reads_as (read text) v) (zip structural_cases (None # map Some structural_docs))"
    and "read four_pairs = Inr (spec_doc [entry_doc ''left'' (replicate 4 (pair_doc 0 []))] [])"
    and "read five_tables = Inr (spec_doc (replicate 4 (entry_doc ''left'' [pair_doc 0 []])) [])"
    and "read four_tables = Inr (spec_doc (replicate 3 (entry_doc ''left'' [pair_doc 0 []])) [])"
  using assms by (simp_all add: reads_tests_def test_readings_def)

section \<open>The tests pass\<close>

lemma digit_text [simp]: "nat_str 0 = ''0''" "nat_str (Suc 0) = ''1''" "nat_str 2 = ''2''" "nat_str 3 = ''3''"
  "nat_str (Suc (Suc 0)) = ''2''" "nat_str (Suc (Suc (Suc 0))) = ''3''" "nat_str (Suc (Suc (Suc (Suc 0)))) = ''4''"
  "nat_str (Suc (Suc (Suc (Suc (Suc 0))))) = ''5''"
  by code_simp+

lemmas decoders = de_join_spec_def de_join_entry_def de_on_pair_def de_column_pos_def de_join_type_def
  de_variant_def de_usize_def serde wf_spec_def wf_entry_def MAX_TABLES_def MAX_PAIRS_def

lemma parse_JOIN:
  assumes "reads_tests read"
  shows "parser_of read shape JOIN = Inr JOIN_spec"
proof -
  have "length JOIN \<le> MAX_JOIN_BYTES" by (simp add: JOIN_def MAX_JOIN_BYTES_def)
  moreover have "usize_join JOIN_spec" by (simp add: JOIN_spec_def usize_join_def usize_pos_def)
  moreover have "wf_spec JOIN_spec" by (simp add: JOIN_spec_def wf_spec_def wf_entry_def MAX_TABLES_def MAX_PAIRS_def)
  ultimately show ?thesis
    using reads_tests_simps(1) [OF assms] by (simp add: parse_join_ok from_str_def de_join_spec_doc)
qed

lemma structural_cases_pass:
  assumes "reads_tests read"
  shows "rejects_structural_violations (parser_of read shape)"
proof -
  have len: "length structural_cases = Suc (length structural_docs)"
    by (simp add: structural_cases_def structural_docs_def)
  have "list_all (\<lambda>v. \<forall>r. reads_as r v \<longrightarrow> rejected r) (None # map Some structural_docs)"
    using structural_docs_rejected by (auto simp: rejected_def list_all_iff split: sum.splits)
  then have "list_all (\<lambda>raw. rejected (read raw)) structural_cases"
    using reads_tests_simps(2) [OF assms] len by (auto simp: list_all_length)
  then show ?thesis
    unfolding rejects_structural_violations_def list_all_iff by (blast intro: isl_parser_of)
qed

lemma caps_pass:
  assumes "reads_tests read"
  shows "caps_tables_and_pairs_and_bytes (parser_of read shape)"
proof -
  have "isl (parser_of read shape four_pairs)" "isl (parser_of read shape five_tables)"
    by (rule isl_parser_of, simp add: reads_tests_simps [OF assms] rejected_def unit_docs decoders numeral_eq_Suc)+
  moreover have "length four_tables \<le> MAX_JOIN_BYTES"
    by (simp add: four_tables_def entry_text_def pair_text_def MAX_JOIN_BYTES_def)
  then have "\<not> isl (parser_of read shape four_tables)"
    by (intro not_isl_parser_of) (simp_all add: reads_tests_simps [OF assms] rejected_def unit_docs decoders
        numeral_eq_Suc less_Suc_eq)
  moreover have "isl (parser_of read shape long_join)"
    by (simp add: parse_join_def long_join_def)
  ultimately show ?thesis by (simp add: caps_tables_and_pairs_and_bytes_def)
qed

lemmas planning = JOIN_spec_def orders_def users_def opts_def col_def change_pair_def set_left_column_def
  set_right_def set_column_def make_plan_def resolve_pair_def index_panic_def join_column_index_def
  column_index_def check_pair_def is_joinable_def bad_join_def fails_with_def describe_def unjoinable_def
  resolve_selection_def resolve_condition_def resolve_sort_def get_at_def takes_value_def not_allowed_def

lemma plan_rejects_pass:
  "reads_tests read \<Longrightarrow> plan_rejects_unknown_names_and_incompatible_pairs (parser_of read shape)"
  by (simp add: plan_rejects_unknown_names_and_incompatible_pairs_def parse_JOIN planning)

lemma collation_reported_pass: "only_a_text_column_reports_its_collation"
  by (simp add: only_a_text_column_reports_its_collation_def column_info_of_def col_def wire_collation_def)

lemma float_key_pass: "reads_tests read \<Longrightarrow> a_float_key_says_why_it_cannot_join (parser_of read shape)"
  by (simp add: a_float_key_says_why_it_cannot_join_def parse_JOIN planning)

lemma enum_classes_pass: "reads_tests read \<Longrightarrow> enum_classes_pair_only_when_equal (parser_of read shape)"
  by (simp add: enum_classes_pair_only_when_equal_def parse_JOIN planning)

lemma collation_clash_pass: "reads_tests read \<Longrightarrow> text_collation_clash_is_rejected (parser_of read shape)"
  by (simp add: text_collation_clash_is_rejected_def parse_JOIN planning)

lemma labels_pass: "labels_are_unique_and_stable"
  by (simp add: labels_are_unique_and_stable_def assign_labels_def suffixed_def fresh_label.simps Let_def)

lemma positions_pass: "reads_tests read \<Longrightarrow> filter_and_sort_positions_are_range_checked (parser_of read shape)"
  by (simp add: filter_and_sort_positions_are_range_checked_def parse_JOIN planning)

lemma sorted_and_filtered_plan:
  "make_plan JOIN_spec [orders, users] sorted_and_filtered = Done (Inr
     \<lparr>p_tables = [orders, users], p_kinds = [Left], p_ons = [[(0, 1, 0)]],
      p_selection = [(0, 0), (0, 1), (0, 2), (0, 3), (1, 0), (1, 1)],
      p_labels = [''id_0'', ''user_id'', ''status'', ''tags'', ''id_1'', ''email''],
      p_filter = [\<lparr>rc_logic = None, rc_not = False, rc_op = Eq, rc_value = Some ''a@b.c'', rc_pos = 1, rc_col = 1\<rparr>,
        \<lparr>rc_logic = Some Or, rc_not = True, rc_op = IsNull, rc_value = None, rc_pos = 0, rc_col = 2\<rparr>],
      p_sort = Some (1, 1), p_descending = False\<rparr>)"
  by (simp add: planning sorted_and_filtered_def assign_labels_def suffixed_def fresh_label.simps Let_def upt_rec)

lemmas sql_text = build_select_def select_list_def alias_of_def column_at_def table_at_def from_item_def
  join_clause_def on_sql_def where_sql_def order_sql_def condition_sql_def condition_text_def placeholder_def
  joiner_def wrap_not_def test_dialect_def orders_def users_def col_def quote_ident_def

lemma builds_sql_pass: "reads_tests read \<Longrightarrow> builds_sql_from_catalog_names_only (parser_of read shape)"
  by (simp add: builds_sql_from_catalog_names_only_def parse_JOIN sorted_and_filtered_plan del: contains.simps)
    (simp add: sql_text suffix_def)

text \<open>The unit tests of \<^verbatim>\<open>core/src/join.rs\<close> pass, for any reader of JSON text that reads the texts of
  the tests.\<close>

theorem join_unit_tests_pass:
  assumes "reads_tests read"
  shows "parses_a_valid_join (parser_of read shape)
    \<and> rejects_structural_violations (parser_of read shape)
    \<and> caps_tables_and_pairs_and_bytes (parser_of read shape)
    \<and> plan_rejects_unknown_names_and_incompatible_pairs (parser_of read shape)
    \<and> only_a_text_column_reports_its_collation
    \<and> a_float_key_says_why_it_cannot_join (parser_of read shape)
    \<and> enum_classes_pair_only_when_equal (parser_of read shape)
    \<and> text_collation_clash_is_rejected (parser_of read shape)
    \<and> labels_are_unique_and_stable
    \<and> builds_sql_from_catalog_names_only (parser_of read shape)
    \<and> filter_and_sort_positions_are_range_checked (parser_of read shape)"
  using assms structural_cases_pass caps_pass plan_rejects_pass collation_reported_pass float_key_pass
    enum_classes_pass collation_clash_pass labels_pass builds_sql_pass positions_pass
  by (simp add: parses_a_valid_join_def parse_JOIN) (simp add: JOIN_spec_def table_names_def)

definition read_tests :: "string \<Rightarrow> string + jdoc" where
  "read_tests text = (case map_of test_readings text of Some (Some d) \<Rightarrow> Inr d | _ \<Rightarrow> Inl ''no value'')"

lemma distinct_test_texts: "distinct (map fst test_readings)"
  by (simp add: test_readings_def structural_cases_def structural_docs_def JOIN_def four_pairs_def five_tables_def
      four_tables_def entry_text_def pair_text_def)

lemma reads_tests_example: "reads_tests read_tests"
  using distinct_test_texts by (auto simp: reads_tests_def read_tests_def list_all_iff reads_as_def split: option.split)

end
