(* ===== verification/Unit_Core.thy ===== *)
theory Unit_Core
  imports Siblings Page_Encoding Serde
begin

text \<open>
  The unit tests of \<^verbatim>\<open>core/src\<close> that need no database, over the model: those of \<^verbatim>\<open>config.rs\<close>,
  \<^verbatim>\<open>siblings.rs\<close>, \<^verbatim>\<open>page_encoding.rs\<close>, \<^verbatim>\<open>protocol_wire.rs\<close> and \<^verbatim>\<open>db/mod.rs\<close>. A test is true when it
  passes. What the TOML decoder makes of the texts of the tests is a hypothesis (\<open>reads_config_tests\<close>), as
  is what the JSON decoders make of theirs (\<open>reads_wire_tests\<close>).
\<close>

section \<open>Support\<close>

text \<open>\<open>str::replace\<close>.\<close>

function str_replace :: "string \<Rightarrow> string \<Rightarrow> string \<Rightarrow> string" where
  "str_replace n r [] = []"
| "str_replace n r (c # s) =
     (if n \<noteq> [] \<and> prefix n (c # s) then r @ str_replace n r (drop (length n) (c # s))
      else c # str_replace n r s)"
  by pat_completeness auto
termination by (relation "measure (\<lambda>(n, r, s). length s)") auto

text \<open>\<open>unwrap\<close>, \<open>is_err\<close> and \<open>matches!\<close>.\<close>

fun passes_with :: "'e + 'a \<Rightarrow> ('a \<Rightarrow> bool) \<Rightarrow> bool" where
  "passes_with (Inl e) f = False"
| "passes_with (Inr x) f = f x"

definition bad_parameter :: "'a outcome \<Rightarrow> bool" where
  "bad_parameter r \<longleftrightarrow> (case r of Done (Inl (BadParameter _)) \<Rightarrow> True | _ \<Rightarrow> False)"

definition returns_with :: "'a outcome \<Rightarrow> ('a \<Rightarrow> bool) \<Rightarrow> bool" where
  "returns_with r f \<longleftrightarrow> (case r of Done (Inr x) \<Rightarrow> f x | _ \<Rightarrow> False)"

section \<open>Configuration\<close>

type_synonym config_reader = "string \<Rightarrow> config_error + config"

definition disabled_by_default :: bool where
  "disabled_by_default \<longleftrightarrow> \<not> is_enabled config_default"

definition disabled_when_config_absent :: "config_reader \<Rightarrow> bool" where
  "disabled_when_config_absent read \<longleftrightarrow> passes_with (read []) (\<lambda>cfg. \<not> is_enabled cfg)"

definition enabled_when_explicitly_set :: "config_reader \<Rightarrow> bool" where
  "enabled_when_explicitly_set read \<longleftrightarrow> passes_with (read ''enabled = true'') is_enabled"

definition defaults_applied :: "config_reader \<Rightarrow> bool" where
  "defaults_applied read \<longleftrightarrow>
     passes_with (read ''enabled = true'') (\<lambda>cfg.
       l_default_page_size (cfg_limits cfg) = 50 \<and> l_max_page_size (cfg_limits cfg) = 100
       \<and> l_query_timeout_secs (cfg_limits cfg) = 5 \<and> cfg_siblings cfg = [] \<and> cfg_instance cfg = None)"

definition LABELLED :: string where
  "LABELLED = ([newline] @ ''        [instance]'' @ [newline] @ ''        name = \"orders\"''
     @ [newline] @ ''        label = \"dev\"'' @ [newline, newline] @ ''        ''
     @ ''['' @ ''[siblings]]'' @ [newline] @ ''        name = \"orders\"'' @ [newline]
     @ ''        label = \"dev\"'' @ [newline]
     @ ''        base_url = \"http://orders-dev/__ashurbanipal\"'' @ [newline]
     @ ''        health_path = \"/health\"'' @ [newline, newline] @ ''        ''
     @ ''['' @ ''[siblings]]'' @ [newline] @ ''        name = \"orders\"'' @ [newline]
     @ ''        label = \"int\"'' @ [newline]
     @ ''        base_url = \"http://orders-int/__ashurbanipal\"'' @ [newline]
     @ ''        health_path = \"/health\"'' @ [newline, newline] @ ''        ''
     @ ''['' @ ''[siblings]]'' @ [newline] @ ''        name = \"billing\"'' @ [newline]
     @ ''        base_url = \"http://billing/__ashurbanipal\"'' @ [newline]
     @ ''        health_path = \"/health\"'' @ [newline] @ ''    '')"

definition parses_instance_and_labels :: "config_reader \<Rightarrow> bool" where
  "parses_instance_and_labels read \<longleftrightarrow>
     passes_with (read LABELLED) (\<lambda>cfg.
       cfg_instance cfg = Some \<lparr>in_name = ''orders'', in_label = ''dev''\<rparr>
       \<and> sb_label (cfg_siblings cfg ! 1) = Some ''int''
       \<and> sb_label (cfg_siblings cfg ! 2) = None
       \<and> v_warnings (siblings_view cfg) = [])"

definition only_the_matching_name_and_label_is_this_instance :: "config_reader \<Rightarrow> bool" where
  "only_the_matching_name_and_label_is_this_instance read \<longleftrightarrow>
     passes_with (read LABELLED) (\<lambda>cfg.
       let v = siblings_view cfg in map (is_instance v) (v_siblings v) = [True, False, False])"

definition nothing_is_this_instance_without_an_instance :: "config_reader \<Rightarrow> bool" where
  "nothing_is_this_instance_without_an_instance read \<longleftrightarrow>
     passes_with (read (str_replace ''[instance]'' ''[unused]'' LABELLED)) (\<lambda>cfg.
       let v = siblings_view cfg in \<not> list_ex (is_instance v) (v_siblings v))"

text \<open>\<open>as_mut().unwrap()\<close> panics without an instance.\<close>

definition instance_with_an_empty_label_is_ignored_with_a_warning :: "config_reader \<Rightarrow> bool" where
  "instance_with_an_empty_label_is_ignored_with_a_warning read \<longleftrightarrow>
     passes_with (read LABELLED) (\<lambda>cfg.
       case cfg_instance cfg of
         None \<Rightarrow> False
       | Some i \<Rightarrow>
           (let v = siblings_view (cfg\<lparr>cfg_instance := Some (i\<lparr>in_label := []\<rparr>)\<rparr>)
            in v_instance v = None
               \<and> v_warnings v = [''instance needs a non-empty name and label; ignored'']))"

definition empty_sibling_label_is_unlabelled_with_a_warning :: "config_reader \<Rightarrow> bool" where
  "empty_sibling_label_is_unlabelled_with_a_warning read \<longleftrightarrow>
     passes_with (read (str_replace (''label = \"int\"'') (''label = \"\"'') LABELLED)) (\<lambda>cfg.
       let v = siblings_view cfg
       in sb_label (v_siblings v ! 1) = None
          \<and> v_warnings v = [(''sibling \"orders\" has an empty label; treated as unlabelled'')])"

definition duplicates_are_all_kept_with_one_warning :: "config_reader \<Rightarrow> bool" where
  "duplicates_are_all_kept_with_one_warning read \<longleftrightarrow>
     passes_with (read (str_replace (''label = \"int\"'') (''label = \"dev\"'') LABELLED)) (\<lambda>cfg.
       let third = cfg_siblings cfg ! 2;
           v = siblings_view (cfg\<lparr>cfg_siblings := cfg_siblings cfg @ [third, third]\<rparr>)
       in length (v_siblings v) = 5
          \<and> v_warnings v = [(''two siblings share the name \"orders\" and the label \"dev\"''),
                            (''two siblings share the name \"billing\" and no label'')])"

section \<open>Health checks, the page, sources\<close>

definition health_url_resolves_against_origin :: bool where
  "health_url_resolves_against_origin \<longleftrightarrow>
     health_url ''https://billing.internal.vpn/__ashurbanipal'' ''/health''
       = Some ''https://billing.internal.vpn/health''
     \<and> health_url ''http://localhost:4001/__ashurbanipal'' ''/healthz'' = Some ''http://localhost:4001/healthz''
     \<and> health_url ''not-a-url'' ''/health'' = None"

definition gzip_cases :: "(string list \<times> bool) list" where
  "gzip_cases = [
     ([], False), ([''''], False), ([''gzip''], True), ([''GZIP''], True), ([''x-gzip''], True),
     ([''gzip, deflate, br, zstd''], True), ([''br'', ''gzip''], True), ([''gzip;q=0''], False),
     ([''gzip; q=0.000''], False), ([''gzip;q=0.5''], True), ([''br''], False), ([''identity''], False),
     ([''*''], True), ([''*;q=0''], False), ([''gzip;q=0, *''], False), ([''*;q=0, gzip''], True),
     ([''gzip;q=abc''], False)]"

definition accepts_gzip_follows_q_values :: bool where
  "accepts_gzip_follows_q_values \<longleftrightarrow> list_all (\<lambda>(headers, want). accepts_gzip headers = want) gzip_cases"

definition quote_ident_doubles_embedded_quotes :: bool where
  "quote_ident_doubles_embedded_quotes \<longleftrightarrow>
     quote_ident ''users'' = (''\"users\"'')
     \<and> quote_ident (''foo\"bar'') = (''\"foo\"\"bar\"'')
     \<and> quote_ident (''a\"; drop table users; --'') = (''\"a\"\"; drop table users; --\"'')"

definition test_sources :: "string list \<Rightarrow> (string \<times> string) list" where
  "test_sources names = map (\<lambda>n. (n, n)) names"

definition resolve_source_absent_picks_first_registered :: bool where
  "resolve_source_absent_picks_first_registered \<longleftrightarrow>
     returns_with (resolve_source (test_sources [''primary'', ''reporting'']) None) (\<lambda>s. s = ''primary'')"

definition resolve_source_present_finds_exact_match :: bool where
  "resolve_source_present_finds_exact_match \<longleftrightarrow>
     returns_with (resolve_source (test_sources [''primary'', ''reporting'']) (Some ''reporting'')) (\<lambda>s. s = ''reporting'')"

definition resolve_source_unknown_name_is_rejected :: bool where
  "resolve_source_unknown_name_is_rejected \<longleftrightarrow>
     (case resolve_source (test_sources [''primary'', ''reporting'']) (Some ''bogus'') of
        Done (Inl (NotAllowed d)) \<Rightarrow> na_kind d = Source \<and> kind_code (na_kind d) = ''unknown_source''
      | _ \<Rightarrow> False)"

definition resolve_source_is_case_sensitive :: bool where
  "resolve_source_is_case_sensitive \<longleftrightarrow>
     (case resolve_source (test_sources [''primary'']) (Some ''Primary'') of
        Done (Inl (NotAllowed _)) \<Rightarrow> True | _ \<Rightarrow> False)"

section \<open>Parameters\<close>

text \<open>\<open>from_value\<close> of an object of strings is the decoder over its members.\<close>

definition out_of_range_limit_and_offset_saturate_instead_of_failing :: bool where
  "out_of_range_limit_and_offset_saturate_instead_of_failing \<longleftrightarrow>
     passes_with (decode_data_params [(''limit'', ''-5''), (''offset'', ''99999999999''), (''table'', ''t'')]) (\<lambda>p.
       dp_limit p = Some 0 \<and> dp_offset p = Some (- 1))
     \<and> isl (decode_data_params [(''limit'', ''ten''), (''table'', ''t'')])"

definition query_opts_clamps_the_limit_and_treats_a_blank_or_empty_filter_as_none ::
  "(string \<Rightarrow> string + condition list) \<Rightarrow> bool" where
  "query_opts_clamps_the_limit_and_treats_a_blank_or_empty_filter_as_none de_filter \<longleftrightarrow>
     passes_with (decode_data_params [(''filter'', '' ''), (''limit'', ''0''), (''table'', ''t'')]) (\<lambda>p.
       returns_with (query_opts_of de_filter p limits_default) (\<lambda>o1. q_limit o1 = 1 \<and> q_filter o1 = None))
     \<and> passes_with (decode_data_params [(''filter'', ''[]''), (''table'', ''t'')]) (\<lambda>p.
       returns_with (query_opts_of de_filter p limits_default) (\<lambda>o1. q_filter o1 = None))"

definition sort_join_text :: string where
  "sort_join_text = (''{\"table\":\"a\",\"joins\":[{\"type\":\"left\",\"table\":\"b\",\"on\":[{\"left\":{\"join\":0,\"column\":\"id\"},\"right\":\"a_id\"}]}]}'')"

definition a_bad_order_or_sort_join_is_a_bad_parameter ::
  "(string \<Rightarrow> string + join_spec) \<Rightarrow> (string \<Rightarrow> string + condition list) \<Rightarrow> bool" where
  "a_bad_order_or_sort_join_is_a_bad_parameter de_join de_filter \<longleftrightarrow>
     passes_with (decode_data_params [(''order'', ''up''), (''table'', ''t'')]) (\<lambda>p.
       bad_parameter (query_opts_of de_filter p limits_default))
     \<and> passes_with (decode_join_params [(''join'', sort_join_text), (''sort_join'', ''first'')]) (\<lambda>p.
       bad_parameter (join_request de_join de_filter p limits_default))"

section \<open>What the texts denote\<close>

definition billing :: sibling where
  "billing = \<lparr>sb_name = ''billing'', sb_base_url = ''http://billing/__ashurbanipal'', sb_health_path = ''/health'',
     sb_label = None\<rparr>"

definition orders_sibling :: "string \<Rightarrow> string \<Rightarrow> sibling" where
  "orders_sibling label host =
     \<lparr>sb_name = ''orders'', sb_base_url = ''http://'' @ host @ ''/__ashurbanipal'', sb_health_path = ''/health'',
      sb_label = Some label\<rparr>"

definition labelled_config :: "instance_info option \<Rightarrow> string \<Rightarrow> config" where
  "labelled_config inst label = config_default\<lparr>cfg_instance := inst,
     cfg_siblings := [orders_sibling ''dev'' ''orders-dev'', orders_sibling label ''orders-int'', billing]\<rparr>"

definition orders_dev :: "instance_info option" where
  "orders_dev = Some \<lparr>in_name = ''orders'', in_label = ''dev''\<rparr>"

definition config_readings :: "(string \<times> config) list" where
  "config_readings = [
     ([], config_default),
     (''enabled = true'', (config_default\<lparr>cfg_enabled := True\<rparr>)),
     (LABELLED, (labelled_config orders_dev ''int'')),
     (str_replace ''[instance]'' ''[unused]'' LABELLED, (labelled_config None ''int'')),
     (str_replace (''label = \"int\"'') (''label = \"\"'') LABELLED, (labelled_config orders_dev [])),
     (str_replace (''label = \"int\"'') (''label = \"dev\"'') LABELLED, (labelled_config orders_dev ''dev''))]"

definition reads_config_tests :: "config_reader \<Rightarrow> bool" where
  "reads_config_tests read \<longleftrightarrow> list_all (\<lambda>(text, cfg). read text = Inr cfg) config_readings"

definition reads_wire_tests :: "(string \<Rightarrow> string + jdoc) \<Rightarrow> bool" where
  "reads_wire_tests read \<longleftrightarrow>
     read ''[]'' = Inr (DArr [])
     \<and> read sort_join_text = Inr (join_doc \<lparr>js_table = ''a'',
         js_joins = [\<lparr>je_kind = Left, je_table = ''b'',
           je_on = [\<lparr>on_left = \<lparr>pos_join = 0, pos_column = ''id''\<rparr>, on_right = ''a_id''\<rparr>]\<rparr>],
         js_columns = None\<rparr>)"

section \<open>The tests pass\<close>

lemma reads_config_tests_simps:
  assumes "reads_config_tests read"
  shows "read [] = Inr config_default" "read ''enabled = true'' = Inr (config_default\<lparr>cfg_enabled := True\<rparr>)"
    and "read LABELLED = Inr (labelled_config orders_dev ''int'')"
    and "read (str_replace ''[instance]'' ''[unused]'' LABELLED) = Inr (labelled_config None ''int'')"
    and "read (str_replace (''label = \"int\"'') (''label = \"\"'') LABELLED) = Inr (labelled_config orders_dev [])"
    and "read (str_replace (''label = \"int\"'') (''label = \"dev\"'') LABELLED) = Inr (labelled_config orders_dev ''dev'')"
  using assms by (simp_all add: reads_config_tests_def config_readings_def
      del: str_replace.simps)

lemma debug_names [simp]: "debug_str ''orders'' = (''\"orders\"'')" "debug_str ''billing'' = (''\"billing\"'')"
  "debug_str ''dev'' = (''\"dev\"'')"
  by code_simp+

lemmas config_values = labelled_config_def orders_dev_def orders_sibling_def billing_def config_default_def
  siblings_view_def view_step_def duplicate_warning_def unwrap_or_def is_instance_def sibling_is_def

lemma config_tests_pass:
  assumes "reads_config_tests read"
  shows "disabled_by_default" "disabled_when_config_absent read" "enabled_when_explicitly_set read"
    "defaults_applied read" "parses_instance_and_labels read"
    "only_the_matching_name_and_label_is_this_instance read"
    "nothing_is_this_instance_without_an_instance read"
    "instance_with_an_empty_label_is_ignored_with_a_warning read"
    "empty_sibling_label_is_unlabelled_with_a_warning read"
    "duplicates_are_all_kept_with_one_warning read"
  by (simp_all add: disabled_by_default_def disabled_when_config_absent_def enabled_when_explicitly_set_def
      defaults_applied_def parses_instance_and_labels_def only_the_matching_name_and_label_is_this_instance_def
      nothing_is_this_instance_without_an_instance_def instance_with_an_empty_label_is_ignored_with_a_warning_def
      empty_sibling_label_is_unlabelled_with_a_warning_def duplicates_are_all_kept_with_one_warning_def
      reads_config_tests_simps [OF assms] config_values limits_default_def is_enabled_def Let_def
      del: str_replace.simps)

lemma health_url_test_passes: "health_url_resolves_against_origin"
  by (simp add: health_url_resolves_against_origin_def health_url_def)

lemma gzip_test_passes: "accepts_gzip_follows_q_values"
  by (simp add: accepts_gzip_follows_q_values_def gzip_cases_def reads_gzip)

lemma source_tests_pass: "quote_ident_doubles_embedded_quotes" "resolve_source_absent_picks_first_registered"
  "resolve_source_present_finds_exact_match" "resolve_source_unknown_name_is_rejected" "resolve_source_is_case_sensitive"
  by (simp_all add: quote_ident_doubles_embedded_quotes_def resolve_source_absent_picks_first_registered_def
      resolve_source_present_finds_exact_match_def resolve_source_unknown_name_is_rejected_def
      resolve_source_is_case_sensitive_def resolve_source_def test_sources_def returns_with_def default_source_def
      not_allowed_def quote_ident_def)

lemmas read_number = saturating_u32_def parse_uint_def parse_int_def parse_digits_def is_digit_def digits_val_def
  digit_val_def

lemmas read_fields = decode_data_params_def decode_join_params_def data_fields_def decode_fields.simps required_def
  numeric_field_def

lemma read_numbers: "saturating_u32 ''-5'' = Some 0" "saturating_u32 ''99999999999'' = Some (- 1)"
  "saturating_u32 ''ten'' = None" "saturating_u32 ''0'' = Some 0"
  by (simp_all add: read_number)

lemma saturate_test_passes: "out_of_range_limit_and_offset_saturate_instead_of_failing"
  by (simp add: out_of_range_limit_and_offset_saturate_instead_of_failing_def read_fields read_numbers)

lemma clamp_test_passes:
  assumes "reads_wire_tests read"
  shows "query_opts_clamps_the_limit_and_treats_a_blank_or_empty_filter_as_none (from_str read shape de_conditions)"
  using assms
  by (simp add: query_opts_clamps_the_limit_and_treats_a_blank_or_empty_filter_as_none_def read_fields read_numbers
      query_opts_of_def parse_filter_def clamp_limit_def clamp_u32_def is_descending_def limits_default_def unwrap_or_def
      returns_with_def reads_wire_tests_def parse_def parse_inner_def from_str_def de_conditions_def serde
      MAX_FILTER_BYTES_def MAX_CONDITIONS_def trim_def trim_start_def trim_end_def trim_by.simps ws1_def ws2_def ws3_def)

lemma bad_parameter_test_passes:
  assumes "reads_wire_tests read"
  shows "a_bad_order_or_sort_join_is_a_bad_parameter (from_str read shape de_join_spec) de_filter"
proof -
  let ?s = "\<lparr>js_table = ''a'', js_joins = [\<lparr>je_kind = Left, je_table = ''b'',
    je_on = [\<lparr>on_left = \<lparr>pos_join = 0, pos_column = ''id''\<rparr>, on_right = ''a_id''\<rparr>]\<rparr>], js_columns = None\<rparr>"
  have "usize_join ?s" "wf_spec ?s"
    by (simp_all add: usize_join_def usize_pos_def wf_spec_def wf_entry_def MAX_TABLES_def MAX_PAIRS_def)
  moreover have "length sort_join_text \<le> MAX_JOIN_BYTES" by (simp add: sort_join_text_def MAX_JOIN_BYTES_def)
  ultimately have "parse_join (from_str read shape de_join_spec) sort_join_text = Inr ?s"
    using assms by (simp add: parse_join_ok from_str_def reads_wire_tests_def de_join_spec_doc)
  then show ?thesis
    by (simp add: a_bad_order_or_sort_join_is_a_bad_parameter_def read_fields bad_parameter_def query_opts_of_def
        join_request_def parse_filter_def clamp_limit_def clamp_u32_def is_descending_def parse_sort_join_def
        limits_default_def unwrap_or_def read_number)
qed

text \<open>The unit tests of \<^verbatim>\<open>config.rs\<close>, \<^verbatim>\<open>siblings.rs\<close>, \<^verbatim>\<open>page_encoding.rs\<close>, \<^verbatim>\<open>protocol_wire.rs\<close> and
  \<^verbatim>\<open>db/mod.rs\<close> pass, for any decoders that read the texts of the tests.\<close>

theorem core_unit_tests_pass:
  assumes "reads_config_tests toml" "reads_wire_tests read"
  shows "(disabled_by_default \<and> disabled_when_config_absent toml \<and> enabled_when_explicitly_set toml
       \<and> defaults_applied toml \<and> parses_instance_and_labels toml
      \<and> only_the_matching_name_and_label_is_this_instance toml
      \<and> nothing_is_this_instance_without_an_instance toml
      \<and> instance_with_an_empty_label_is_ignored_with_a_warning toml
      \<and> empty_sibling_label_is_unlabelled_with_a_warning toml
      \<and> duplicates_are_all_kept_with_one_warning toml)
    \<and> health_url_resolves_against_origin
    \<and> accepts_gzip_follows_q_values
    \<and> (quote_ident_doubles_embedded_quotes \<and> resolve_source_absent_picks_first_registered
      \<and> resolve_source_present_finds_exact_match \<and> resolve_source_unknown_name_is_rejected
      \<and> resolve_source_is_case_sensitive)
    \<and> out_of_range_limit_and_offset_saturate_instead_of_failing
    \<and> query_opts_clamps_the_limit_and_treats_a_blank_or_empty_filter_as_none (from_str read shape de_conditions)
    \<and> a_bad_order_or_sort_join_is_a_bad_parameter (from_str read shape de_join_spec) (from_str read shape de_conditions)"
  using config_tests_pass [OF assms(1)] health_url_test_passes
    gzip_test_passes source_tests_pass saturate_test_passes clamp_test_passes [OF assms(2)]
    bad_parameter_test_passes [OF assms(2)]
  by blast

definition read_config_tests :: config_reader where
  "read_config_tests text = (case map_of config_readings text of Some cfg \<Rightarrow> Inr cfg | None \<Rightarrow> Inl (Toml []))"

definition read_wire_tests :: "string \<Rightarrow> string + jdoc" where
  "read_wire_tests text =
     (if text = ''[]'' then Inr (DArr [])
      else Inr (join_doc \<lparr>js_table = ''a'',
         js_joins = [\<lparr>je_kind = Left, je_table = ''b'',
           je_on = [\<lparr>on_left = \<lparr>pos_join = 0, pos_column = ''id''\<rparr>, on_right = ''a_id''\<rparr>]\<rparr>],
         js_columns = None\<rparr>))"

text \<open>The texts differ in their length or in how often a letter comes.\<close>

definition text_key :: "string \<Rightarrow> nat \<times> nat" where
  "text_key t = (length t, length (filter (\<lambda>c. c = CHR ''v'') t))"

lemma distinct_mapI: "distinct (map f xs) \<Longrightarrow> distinct xs"
  by (simp add: distinct_map)

lemma text_keys:
  "text_key LABELLED = (508, 3)"
  "text_key (str_replace ''[instance]'' ''[unused]'' LABELLED) = (506, 3)"
  "text_key (str_replace (''label = \"int\"'') (''label = \"\"'') LABELLED) = (505, 3)"
  "text_key (str_replace (''label = \"int\"'') (''label = \"dev\"'') LABELLED) = (508, 4)"
  by code_simp+

lemma distinct_config_texts: "distinct (map fst config_readings)"
proof -
  have "distinct (map text_key (map fst config_readings))"
    by (simp add: config_readings_def text_keys del: str_replace.simps) (simp add: text_key_def)
  then show ?thesis by (rule distinct_mapI)
qed

lemma reads_config_tests_example: "reads_config_tests read_config_tests"
  using distinct_config_texts by (auto simp: reads_config_tests_def read_config_tests_def list_all_iff)

lemma reads_wire_tests_example: "reads_wire_tests read_wire_tests"
  by (simp add: reads_wire_tests_def read_wire_tests_def sort_join_text_def)

end
