(* ===== verification/Unit_Backends.thy ===== *)
theory Unit_Backends
  imports Postgres Mysql Sqlite Serde
begin

text \<open>
  The unit tests of the backends that need no database, over the model: the column classes of
  \<^verbatim>\<open>sqlite.rs\<close>, \<^verbatim>\<open>postgres.rs\<close> and \<^verbatim>\<open>mysql.rs\<close>, the predicate of a partial index, and the runner of
  \<^verbatim>\<open>postgres.rs\<close> over the shared fixtures of the filter builder
  (\<^verbatim>\<open>spec/fixtures/filter-builder-tests.json\<close>), every case of which is here in the order of the file. The
  JSON reader and the JSON writer are parameters; what they make of the fixtures is a hypothesis
  (\<open>reads_fixtures\<close>).
\<close>

section \<open>Column classes and predicates\<close>

definition column_classes_follow_data_type_pg :: bool where
  "column_classes_follow_data_type_pg \<longleftrightarrow>
     list_all (\<lambda>(data_type, expected). column_class_pg data_type [] [] False = expected)
       [(''integer'', Number), (''numeric'', Number), (''timestamp with time zone'', Temporal), (''real'', Float),
        (''double precision'', Float), (''json'', Json), (''jsonb'', Json), (''ARRAY'', Array), (''money'', Other),
        (''interval'', Other)]
     \<and> column_class_pg ''USER-DEFINED'' ''public'' ''mood'' True = Enum ''public.mood''
     \<and> column_class_pg ''USER-DEFINED'' ''public'' ''citext'' False = Text
     \<and> column_class_pg ''USER-DEFINED'' ''public'' ''geometry'' False = Other"

definition column_classes_follow_data_type_my :: bool where
  "column_classes_follow_data_type_my \<longleftrightarrow>
     column_class_my ''bigint'' ''bigint'' = Number
     \<and> column_class_my ''VARCHAR'' ''varchar(20)'' = Text
     \<and> column_class_my ''datetime'' ''datetime'' = Temporal
     \<and> column_class_my ''enum'' (''enum('' @ [squote] @ ''a'' @ [squote] @ '','' @ [squote] @ ''b'' @ [squote]
     @ '')'') = Enum (''enum('' @ [squote] @ ''a'' @ [squote] @ '','' @ [squote] @ ''b'' @ [squote]
     @ '')'')
     \<and> column_class_my ''json'' ''json'' = Json
     \<and> column_class_my ''double'' ''double'' = Float
     \<and> column_class_my ''uuid'' ''uuid'' = Uuid
     \<and> column_class_my ''geometry'' ''geometry'' = Other"

definition column_classes_follow_declared_names_then_affinity :: bool where
  "column_classes_follow_declared_names_then_affinity \<longleftrightarrow>
     list_all (\<lambda>(declared, expected). column_class_sqlite declared = expected)
       [(''INTEGER'', Number), (''bigint'', Number), (''DECIMAL(10,2)'', Number), (''VARCHAR(20)'', Text),
        (''TEXT'', Text), (''BLOB'', Binary), (''REAL'', Float), (''DOUBLE PRECISION'', Float), (''UUID'', Uuid),
        (''BOOLEAN'', Boolean), (''DATETIME'', Temporal), (''TIMESTAMP(6)'', Temporal), (''TIME'', Time),
        (''JSON'', Json), ([], Untyped)]"

definition partial_index_predicate_finds_the_top_level_where_only :: bool where
  "partial_index_predicate_finds_the_top_level_where_only \<longleftrightarrow>
     partial_index_predicate (''CREATE INDEX i ON t(a) WHERE status = '' @ [squote] @ ''open'' @ [squote]) = Some (''status = '' @ [squote] @ ''open'' @ [squote])
     \<and> partial_index_predicate (''CREATE INDEX i ON t(a)'' @ [newline] @ ''where'' @ [newline] @ ''  b > 1'') = Some ''b > 1''
     \<and> partial_index_predicate (''CREATE INDEX i ON t(a) WHERE note = '' @ [squote] @ '' where '' @ [squote]) = Some (''note = '' @ [squote] @ '' where '' @ [squote])
     \<and> partial_index_predicate (''CREATE INDEX i ON t(a || '' @ [squote] @ '' where '' @ [squote] @ '')'') = None
     \<and> partial_index_predicate ''CREATE INDEX i ON t(lower(a) )'' = None"

section \<open>The fixture runner\<close>

record fixture_case =
  fx_name :: string
  fx_table :: string
  fx_conditions :: "jdoc option"
  fx_raw :: "string option"
  fx_expect :: "(string \<times> string list) option"
  fx_expect_error :: "string option"

text \<open>\<open>None\<close> where the runner panics.\<close>

definition seed_columns :: "string \<Rightarrow> string list option" where
  "seed_columns table =
     (if table = ''users''
      then Some [''id'', ''email'', ''full_name'', ''age'', ''is_active'', ''login_count'', ''metadata'',
                 ''last_login_at'', ''created_at'']
      else if table = ''orders''
      then Some [''id'', ''user_id'', ''status'', ''total_cents'', ''discount_pct'', ''tags'', ''line_items'',
                 ''created_at'']
      else if table = ''products''
      then Some [''id'', ''sku'', ''name'', ''category'', ''price'', ''weight_kg'', ''in_stock'', ''description'',
                 ''created_on'']
      else None)"

text \<open>The digits are parsed as a \<open>u32\<close> and unwrapped; the sum is checked for overflow, as in a test build.\<close>

function shift_placeholders :: "nat \<Rightarrow> string \<Rightarrow> string option" where
  "shift_placeholders by_n [] = Some []"
| "shift_placeholders by_n (c # s) =
     (if c \<noteq> CHR ''$'' then map_option ((#) c) (shift_placeholders by_n s)
      else (case parse_uint 4294967295 (takeWhile is_digit s) of
              None \<Rightarrow> None
            | Some n \<Rightarrow>
                if 4294967295 < n + by_n then None
                else map_option (\<lambda>rest. ''$'' @ nat_str (n + by_n) @ rest)
                       (shift_placeholders by_n (dropWhile is_digit s))))"
  by pat_completeness auto
termination by (relation "measure (\<lambda>(n, s). length s)") (auto simp: le_imp_less_Suc length_dropWhile_le)

definition expected_clause :: "string \<Rightarrow> string option" where
  "expected_clause wanted =
     (if wanted = [] then Some [] else map_option (\<lambda>w. '' where '' @ w) (shift_placeholders 2 wanted))"

definition fixture_text :: "(jdoc \<Rightarrow> string) \<Rightarrow> fixture_case \<Rightarrow> string option" where
  "fixture_text write fixture =
     (case fx_raw fixture of
        Some raw \<Rightarrow> Some raw
      | None \<Rightarrow> map_option write (fx_conditions fixture))"

definition built :: "fixture_case \<Rightarrow> condition list \<Rightarrow> (db_error + (string \<times> string list)) option" where
  "built fixture conditions = map_option (build_where_clause_pg conditions) (seed_columns (fx_table fixture))"

definition fixture_result :: "fixture_case \<Rightarrow> filter_error + condition list \<Rightarrow> bool" where
  "fixture_result fixture parsed \<longleftrightarrow>
     (case (fx_expect fixture, fx_expect_error fixture) of
        (Some (wanted, expected_values), None) \<Rightarrow>
          (case parsed of
             Inl _ \<Rightarrow> False
           | Inr conditions \<Rightarrow>
               (case built fixture conditions of
                  Some (Inr (clause, values)) \<Rightarrow> Some clause = expected_clause wanted \<and> values = expected_values
                | _ \<Rightarrow> False))
      | (None, Some kind) \<Rightarrow>
          (if kind = ''unknown_column''
           then (case parsed of
                   Inl _ \<Rightarrow> False
                 | Inr conditions \<Rightarrow>
                     (case built fixture conditions of Some (Inl (NotAllowed _)) \<Rightarrow> True | _ \<Rightarrow> False))
           else isl parsed)
      | _ \<Rightarrow> False)"

definition fixture_passes ::
  "(string \<Rightarrow> filter_error + condition list) \<Rightarrow> (jdoc \<Rightarrow> string) \<Rightarrow> fixture_case \<Rightarrow> bool" where
  "fixture_passes parse_text write fixture \<longleftrightarrow>
     (case fixture_text write fixture of
        None \<Rightarrow> False
      | Some raw \<Rightarrow> fixture_result fixture (parse_text raw))"

definition filter_builder_fixtures ::
  "(string \<Rightarrow> filter_error + condition list) \<Rightarrow> (jdoc \<Rightarrow> string) \<Rightarrow> fixture_case list \<Rightarrow> bool" where
  "filter_builder_fixtures parse_text write cases \<longleftrightarrow>
     cases \<noteq> [] \<and> list_all (fixture_passes parse_text write) cases"

section \<open>The fixtures\<close>

definition fixture_condition :: "string option \<Rightarrow> bool \<Rightarrow> string \<Rightarrow> string \<Rightarrow> string option \<Rightarrow> jdoc" where
  "fixture_condition logic negated column op value =
     DObj ([(''column'', DStr column)]
       @ (case logic of None \<Rightarrow> [] | Some l \<Rightarrow> [(''logic'', DStr l)])
       @ (if negated then [(''not'', DBool True)] else [])
       @ [(''op'', DStr op)]
       @ (case value of None \<Rightarrow> [] | Some v \<Rightarrow> [(''value'', DStr v)]))"

definition fixtures_accepted :: "fixture_case list" where
  "fixtures_accepted = [
     \<lparr>fx_name = ''eq-single'', fx_table = ''orders'',
      fx_conditions = Some (DArr [fixture_condition (None) False (''status'') (''='') (Some (''completed''))]), fx_raw = None,
      fx_expect = Some (''(\"status\"::text = $1)'', [''completed'']),
      fx_expect_error = None\<rparr>,
     \<lparr>fx_name = ''and-pair'', fx_table = ''orders'',
      fx_conditions = Some (DArr [fixture_condition (None) False (''total_cents'') (''>='') (Some (''1'')),
        fixture_condition (Some (''AND'')) False (''discount_pct'') (''<='') (Some (''100''))]), fx_raw = None,
      fx_expect = Some (''(\"total_cents\"::text >= $1) AND (\"discount_pct\"::text <= $2)'', [''1'', ''100'']),
      fx_expect_error = None\<rparr>,
     \<lparr>fx_name = ''or-pair'', fx_table = ''orders'',
      fx_conditions = Some (DArr [fixture_condition (None) False (''status'') (''='') (Some (''completed'')),
        fixture_condition (Some (''OR'')) False (''status'') (''='') (Some (''pending''))]), fx_raw = None,
      fx_expect = Some (''(\"status\"::text = $1) OR (\"status\"::text = $2)'', [''completed'', ''pending'']),
      fx_expect_error = None\<rparr>,
     \<lparr>fx_name = ''precedence-and-or'', fx_table = ''products'',
      fx_conditions = Some (DArr [fixture_condition (None) False (''category'') (''='') (Some (''electronics'')),
        fixture_condition (Some (''AND'')) False (''created_on'') (''>'') (Some (''2016-01-01'')),
        fixture_condition (Some (''OR'')) False (''in_stock'') (''='') (Some (''true''))]), fx_raw = None,
      fx_expect = Some (''(\"category\"::text = $1) AND (\"created_on\"::text > $2) OR (\"in_stock\"::text = $3)'', [''electronics'', ''2016-01-01'', ''true'']),
      fx_expect_error = None\<rparr>,
     \<lparr>fx_name = ''not-wraps-fragment'', fx_table = ''orders'',
      fx_conditions = Some (DArr [fixture_condition (None) True (''status'') (''='') (Some (''completed''))]), fx_raw = None,
      fx_expect = Some (''(NOT (\"status\"::text = $1))'', [''completed'']),
      fx_expect_error = None\<rparr>,
     \<lparr>fx_name = ''is-null'', fx_table = ''users'',
      fx_conditions = Some (DArr [fixture_condition (None) False (''last_login_at'') (''IS NULL'') (None)]), fx_raw = None,
      fx_expect = Some (''(\"last_login_at\"::text IS NULL)'', []),
      fx_expect_error = None\<rparr>,
     \<lparr>fx_name = ''is-not-null'', fx_table = ''users'',
      fx_conditions = Some (DArr [fixture_condition (None) False (''last_login_at'') (''IS NOT NULL'') (None)]), fx_raw = None,
      fx_expect = Some (''(\"last_login_at\"::text IS NOT NULL)'', []),
      fx_expect_error = None\<rparr>,
     \<lparr>fx_name = ''not-is-null'', fx_table = ''users'',
      fx_conditions = Some (DArr [fixture_condition (None) True (''last_login_at'') (''IS NULL'') (None)]), fx_raw = None,
      fx_expect = Some (''(NOT (\"last_login_at\"::text IS NULL))'', []),
      fx_expect_error = None\<rparr>,
     \<lparr>fx_name = ''like'', fx_table = ''users'',
      fx_conditions = Some (DArr [fixture_condition (None) False (''full_name'') (''LIKE'') (Some (''%Dach%''))]), fx_raw = None,
      fx_expect = Some (''(\"full_name\"::text LIKE $1)'', [''%Dach%'']),
      fx_expect_error = None\<rparr>,
     \<lparr>fx_name = ''ilike'', fx_table = ''users'',
      fx_conditions = Some (DArr [fixture_condition (None) False (''full_name'') (''ILIKE'') (Some (''%dach%''))]), fx_raw = None,
      fx_expect = Some (''(\"full_name\"::text ILIKE $1)'', [''%dach%'']),
      fx_expect_error = None\<rparr>,
     \<lparr>fx_name = ''remaining-comparison-ops'', fx_table = ''orders'',
      fx_conditions = Some (DArr [fixture_condition (None) False (''total_cents'') (''!='') (Some (''0'')),
        fixture_condition (Some (''AND'')) False (''total_cents'') (''>'') (Some (''1'')),
        fixture_condition (Some (''AND'')) False (''total_cents'') (''<'') (Some (''999999''))]), fx_raw = None,
      fx_expect = Some (''(\"total_cents\"::text != $1) AND (\"total_cents\"::text > $2) AND (\"total_cents\"::text < $3)'', [''0'', ''1'', ''999999'']),
      fx_expect_error = None\<rparr>,
     \<lparr>fx_name = ''injection-value-is-bound'', fx_table = ''orders'',
      fx_conditions = Some (DArr [fixture_condition (None) False (''status'') (''='') (Some ([squote] @ ''; DROP TABLE users; --''))]), fx_raw = None,
      fx_expect = Some (''(\"status\"::text = $1)'', [[squote] @ ''; DROP TABLE users; --'']),
      fx_expect_error = None\<rparr>,
     \<lparr>fx_name = ''empty-string-value'', fx_table = ''users'',
      fx_conditions = Some (DArr [fixture_condition (None) False (''email'') (''='') (Some ([]))]), fx_raw = None,
      fx_expect = Some (''(\"email\"::text = $1)'', [[]]),
      fx_expect_error = None\<rparr>,
     \<lparr>fx_name = ''empty-array-is-no-filter'', fx_table = ''users'',
      fx_conditions = Some (DArr []), fx_raw = None,
      fx_expect = Some ([], []),
      fx_expect_error = None\<rparr>,
     \<lparr>fx_name = ''ten-conditions-at-limit'', fx_table = ''orders'',
      fx_conditions = Some (DArr [fixture_condition (None) False (''total_cents'') (''='') (Some (''1'')),
        fixture_condition (Some (''AND'')) False (''total_cents'') (''='') (Some (''1'')),
        fixture_condition (Some (''AND'')) False (''total_cents'') (''='') (Some (''1'')),
        fixture_condition (Some (''AND'')) False (''total_cents'') (''='') (Some (''1'')),
        fixture_condition (Some (''AND'')) False (''total_cents'') (''='') (Some (''1'')),
        fixture_condition (Some (''AND'')) False (''total_cents'') (''='') (Some (''1'')),
        fixture_condition (Some (''AND'')) False (''total_cents'') (''='') (Some (''1'')),
        fixture_condition (Some (''AND'')) False (''total_cents'') (''='') (Some (''1'')),
        fixture_condition (Some (''AND'')) False (''total_cents'') (''='') (Some (''1'')),
        fixture_condition (Some (''AND'')) False (''total_cents'') (''='') (Some (''1''))]), fx_raw = None,
      fx_expect = Some (''(\"total_cents\"::text = $1) AND (\"total_cents\"::text = $2) AND (\"total_cents\"::text = $3) AND (\"total_cents\"::text = $4) AND (\"total_cents\"::text = $5) AND (\"total_cents\"::text = $6) AND (\"total_cents\"::text = $7) AND (\"total_cents\"::text = $8) AND (\"total_cents\"::text = $9) AND (\"total_cents\"::text = $10)'', [''1'', ''1'', ''1'', ''1'', ''1'', ''1'', ''1'', ''1'', ''1'', ''1'']),
      fx_expect_error = None\<rparr>]"

definition fixtures_unknown :: "fixture_case list" where
  "fixtures_unknown = [
     \<lparr>fx_name = ''unknown-column'', fx_table = ''users'',
      fx_conditions = Some (DArr [fixture_condition (None) False (''pg_sleep'') (''='') (Some (''1''))]), fx_raw = None,
      fx_expect = None,
      fx_expect_error = Some (''unknown_column'')\<rparr>,
     \<lparr>fx_name = ''not-does-not-bypass-allow-list'', fx_table = ''users'',
      fx_conditions = Some (DArr [fixture_condition (None) True (''pg_sleep'') (''='') (Some (''1''))]), fx_raw = None,
      fx_expect = None,
      fx_expect_error = Some (''unknown_column'')\<rparr>,
     \<lparr>fx_name = ''known-column-wrong-table'', fx_table = ''users'',
      fx_conditions = Some (DArr [fixture_condition (None) False (''total_cents'') (''='') (Some (''1''))]), fx_raw = None,
      fx_expect = None,
      fx_expect_error = Some (''unknown_column'')\<rparr>]"

definition fixtures_rejected :: "fixture_case list" where
  "fixtures_rejected = [
     \<lparr>fx_name = ''bad-op'', fx_table = ''users'',
      fx_conditions = Some (DArr [fixture_condition (None) False (''email'') ('';DROP'') (Some (''x''))]), fx_raw = None,
      fx_expect = None,
      fx_expect_error = Some (''bad_op'')\<rparr>,
     \<lparr>fx_name = ''bad-op-case-sensitive'', fx_table = ''users'',
      fx_conditions = Some (DArr [fixture_condition (None) False (''email'') (''like'') (Some (''x''))]), fx_raw = None,
      fx_expect = None,
      fx_expect_error = Some (''bad_op'')\<rparr>,
     \<lparr>fx_name = ''bad-logic'', fx_table = ''users'',
      fx_conditions = Some (DArr [fixture_condition (None) False (''email'') (''='') (Some (''a'')),
        fixture_condition (Some (''XOR'')) False (''email'') (''='') (Some (''b''))]), fx_raw = None,
      fx_expect = None,
      fx_expect_error = Some (''bad_logic'')\<rparr>,
     \<lparr>fx_name = ''missing-value'', fx_table = ''users'',
      fx_conditions = Some (DArr [fixture_condition (None) False (''email'') (''='') (None)]), fx_raw = None,
      fx_expect = None,
      fx_expect_error = Some (''missing_value'')\<rparr>,
     \<lparr>fx_name = ''unexpected-value'', fx_table = ''users'',
      fx_conditions = Some (DArr [fixture_condition (None) False (''last_login_at'') (''IS NULL'') (Some (''x''))]), fx_raw = None,
      fx_expect = None,
      fx_expect_error = Some (''unexpected_value'')\<rparr>,
     \<lparr>fx_name = ''missing-logic'', fx_table = ''users'',
      fx_conditions = Some (DArr [fixture_condition (None) False (''email'') (''='') (Some (''a'')),
        fixture_condition (None) False (''email'') (''='') (Some (''b''))]), fx_raw = None,
      fx_expect = None,
      fx_expect_error = Some (''missing_logic'')\<rparr>,
     \<lparr>fx_name = ''unexpected-logic-on-first'', fx_table = ''users'',
      fx_conditions = Some (DArr [fixture_condition (Some (''AND'')) False (''email'') (''='') (Some (''a''))]), fx_raw = None,
      fx_expect = None,
      fx_expect_error = Some (''unexpected_logic'')\<rparr>,
     \<lparr>fx_name = ''eleven-conditions'', fx_table = ''orders'',
      fx_conditions = Some (DArr [fixture_condition (None) False (''total_cents'') (''='') (Some (''1'')),
        fixture_condition (Some (''AND'')) False (''total_cents'') (''='') (Some (''1'')),
        fixture_condition (Some (''AND'')) False (''total_cents'') (''='') (Some (''1'')),
        fixture_condition (Some (''AND'')) False (''total_cents'') (''='') (Some (''1'')),
        fixture_condition (Some (''AND'')) False (''total_cents'') (''='') (Some (''1'')),
        fixture_condition (Some (''AND'')) False (''total_cents'') (''='') (Some (''1'')),
        fixture_condition (Some (''AND'')) False (''total_cents'') (''='') (Some (''1'')),
        fixture_condition (Some (''AND'')) False (''total_cents'') (''='') (Some (''1'')),
        fixture_condition (Some (''AND'')) False (''total_cents'') (''='') (Some (''1'')),
        fixture_condition (Some (''AND'')) False (''total_cents'') (''='') (Some (''1'')),
        fixture_condition (Some (''AND'')) False (''total_cents'') (''='') (Some (''1''))]), fx_raw = None,
      fx_expect = None,
      fx_expect_error = Some (''too_many_conditions'')\<rparr>,
     \<lparr>fx_name = ''oversize'', fx_table = ''users'',
      fx_conditions = Some (DArr [fixture_condition (None) False (''email'') (''='') (Some (replicate 8300 (CHR ''x'')))]), fx_raw = None,
      fx_expect = None,
      fx_expect_error = Some (''oversize'')\<rparr>,
     \<lparr>fx_name = ''unknown-field'', fx_table = ''users'',
      fx_conditions = Some (DArr [DObj [(''column'', DStr (''email'')), (''extra'', DStr (''x'')), (''op'', DStr (''='')), (''value'', DStr (''a''))]]), fx_raw = None,
      fx_expect = None,
      fx_expect_error = Some (''malformed'')\<rparr>,
     \<lparr>fx_name = ''dsl-text-not-json'', fx_table = ''users'',
      fx_conditions = None, fx_raw = Some (''status = completed''),
      fx_expect = None,
      fx_expect_error = Some (''malformed'')\<rparr>,
     \<lparr>fx_name = ''json-object-not-array'', fx_table = ''users'',
      fx_conditions = None, fx_raw = Some (''{\"column\":\"email\",\"op\":\"=\",\"value\":\"a\"}''),
      fx_expect = None,
      fx_expect_error = Some (''malformed'')\<rparr>,
     \<lparr>fx_name = ''truncated-json'', fx_table = ''users'',
      fx_conditions = None, fx_raw = Some (''[{\"column\":\"email\",''),
      fx_expect = None,
      fx_expect_error = Some (''malformed'')\<rparr>,
     \<lparr>fx_name = ''null-array-elements'', fx_table = ''users'',
      fx_conditions = None, fx_raw = Some (''[null,null,null]''),
      fx_expect = None,
      fx_expect_error = Some (''malformed'')\<rparr>]"

definition FIXTURES :: "fixture_case list" where
  "FIXTURES = fixtures_accepted @ fixtures_unknown @ fixtures_rejected"

section \<open>What the readers make of them\<close>

text \<open>Conditions are written as a text that reads back as them, and that is longer than a filter may be in
  the case \<open>oversize\<close> only. Of the raw texts two are not JSON.\<close>

definition raw_readings :: "(string \<times> jdoc option) list" where
  "raw_readings = [
     (''status = completed'', None),
     ((''{\"column\":\"email\",\"op\":\"=\",\"value\":\"a\"}''), Some (fixture_condition None False ''email'' ''='' (Some ''a''))),
     ((''[{\"column\":\"email\",''), None),
     (''[null,null,null]'', Some (DArr [DNull, DNull, DNull]))]"

definition reads_fixtures :: "(string \<Rightarrow> string + jdoc) \<Rightarrow> (jdoc \<Rightarrow> string) \<Rightarrow> bool" where
  "reads_fixtures read write \<longleftrightarrow>
     list_all (\<lambda>(text, v). reads_as (read text) v) raw_readings
     \<and> list_all (\<lambda>fixture. case fx_conditions fixture of
            None \<Rightarrow> True
          | Some d \<Rightarrow> read (write d) = Inr d
              \<and> (MAX_FILTER_BYTES < length (write d)) = (fx_name fixture = ''oversize'')) FIXTURES"

section \<open>The tests pass\<close>

lemma pg_classes_pass: "column_classes_follow_data_type_pg"
  by (simp add: column_classes_follow_data_type_pg_def column_class_pg_def)

lemma lowered_varchar: "char_of (118 :: nat) = CHR ''v''" "char_of (97 :: nat) = CHR ''a''"
  "char_of (114 :: nat) = CHR ''r''" "char_of (99 :: nat) = CHR ''c''" "char_of (104 :: nat) = CHR ''h''"
  by code_simp+

lemma my_classes_pass: "column_classes_follow_data_type_my"
  by (simp add: column_classes_follow_data_type_my_def column_class_my_def to_ascii_lowercase_def to_lower_char_def
      lowered_varchar)

lemma sqlite_classes_pass: "column_classes_follow_declared_names_then_affinity"
  by code_simp

lemma predicates_pass: "partial_index_predicate_finds_the_top_level_where_only"
  by code_simp

text \<open>A fixture with conditions, with the reading of its text put in.\<close>

definition reading_passes :: "fixture_case \<Rightarrow> bool" where
  "reading_passes fixture \<longleftrightarrow>
     (case fx_conditions fixture of
        None \<Rightarrow> False
      | Some d \<Rightarrow>
          fixture_result fixture (parse (\<lambda>_. case de_conditions d of Some cs \<Rightarrow> Inr cs | None \<Rightarrow> Inl []) []))"

lemma digit_text_pg [simp]: "nat_str 3 = ''3''" "nat_str (Suc (Suc (Suc 0))) = ''3''" "nat_str 4 = ''4''" "nat_str 5 = ''5''" "nat_str 6 = ''6''"
  "nat_str 7 = ''7''" "nat_str 8 = ''8''" "nat_str 9 = ''9''" "nat_str 10 = ''10''" "nat_str 11 = ''11''" "nat_str 12 = ''12''"
  by code_simp+

lemma parse_digit_text [simp]: "parse_uint 4294967295 ''1'' = Some 1" "parse_uint 4294967295 ''2'' = Some 2"
  "parse_uint 4294967295 ''3'' = Some 3" "parse_uint 4294967295 ''4'' = Some 4" "parse_uint 4294967295 ''5'' = Some 5"
  "parse_uint 4294967295 ''6'' = Some 6" "parse_uint 4294967295 ''7'' = Some 7" "parse_uint 4294967295 ''8'' = Some 8"
  "parse_uint 4294967295 ''9'' = Some 9" "parse_uint 4294967295 ''10'' = Some 10"
  by (simp_all add: parse_uint_def parse_digits_def is_digit_def digits_val_def digit_val_def)

lemmas fixture_values = reading_passes_def fixture_result_def built_def seed_columns_def
  expected_clause_def fixture_condition_def de_conditions_def de_condition_def de_logic_def de_filter_op_def
  de_variant_def serde parse_def parse_inner_def MAX_FILTER_BYTES_def MAX_CONDITIONS_def check_condition_def
  takes_value_def build_where_clause_pg_def where_condition_pg_def find_allowed_def quote_ident_def is_digit_def not_allowed_def

lemma accepted_pass: "list_all reading_passes fixtures_accepted"
  by (simp add: fixtures_accepted_def fixture_values)

lemma unknown_pass: "list_all reading_passes fixtures_unknown"
  by (simp add: fixtures_unknown_def fixture_values)

definition is_raw :: "fixture_case \<Rightarrow> bool" where
  "is_raw fixture \<longleftrightarrow> fx_conditions fixture = None \<or> fx_name fixture = ''oversize''"

lemma rejected_pass: "list_all (\<lambda>fixture. is_raw fixture \<or> reading_passes fixture) fixtures_rejected"
  by (simp add: fixtures_rejected_def is_raw_def fixture_values)

lemma no_raw: "list_all (\<lambda>fixture. fx_raw fixture = None \<or> fx_conditions fixture = None) FIXTURES"
  by (simp add: FIXTURES_def fixtures_accepted_def fixtures_unknown_def fixtures_rejected_def)

lemma same_result:
  assumes "\<And>x. r = Inr x \<longleftrightarrow> r' = Inr x"
  shows "(\<exists>x. r = Inr x \<and> r' = Inr x) \<or> (\<exists>e e'. r = Inl e \<and> r' = Inl e')"
proof (cases r)
  case (Inl e)
  then have "r' \<noteq> Inr x" for x using assms by simp
  then show ?thesis using Inl by (cases r') blast+
next
  case (Inr x)
  then have "r' = Inr x" using assms by simp
  then show ?thesis using Inr by blast
qed

lemma fixture_result_error:
  "fixture_result fixture (Inl e) \<longleftrightarrow> fixture_result fixture (Inl (FilterError []))"
  unfolding fixture_result_def by (simp split: option.splits)

lemma reading_passes_text:
  assumes "reading_passes fixture" "fx_conditions fixture = Some d" "fx_raw fixture = None"
    and "read (write d) = Inr d" "length (write d) \<le> MAX_FILTER_BYTES"
  shows "fixture_passes (parse (from_str read shape de_conditions)) write fixture"
proof -
  let ?r = "parse (from_str read shape de_conditions) (write d)"
  let ?r' = "parse (\<lambda>_. case de_conditions d of Some cs \<Rightarrow> Inr cs | None \<Rightarrow> Inl []) []"
  have "?r = Inr cs \<longleftrightarrow> ?r' = Inr cs" for cs
    using assms(4,5) by (auto simp: parse_def parse_inner_ok from_str_def split: option.splits)
  then consider (ok) cs where "?r = Inr cs" "?r' = Inr cs" | (err) e e' where "?r = Inl e" "?r' = Inl e'"
    using same_result [of ?r ?r'] by blast
  then have "fixture_result fixture ?r = fixture_result fixture ?r'"
    using fixture_result_error [of fixture] by cases metis+
  moreover have "fixture_result fixture ?r'" using assms(1,2) unfolding reading_passes_def by simp
  ultimately show ?thesis using assms(2,3) by (simp add: fixture_passes_def fixture_text_def)
qed

lemma oversize_case:
  "list_all (\<lambda>fixture. fx_name fixture \<noteq> ''oversize''
    \<or> fx_expect fixture = None \<and> fx_expect_error fixture = Some ''oversize'') FIXTURES"
  by (simp add: FIXTURES_def fixtures_accepted_def fixtures_unknown_def fixtures_rejected_def)

definition unreadable :: "jdoc option \<Rightarrow> bool" where
  "unreadable v \<longleftrightarrow> (case v of None \<Rightarrow> True | Some d \<Rightarrow> de_conditions d = None)"

definition raw_case :: "fixture_case \<Rightarrow> bool" where
  "raw_case fixture \<longleftrightarrow>
     (case fx_raw fixture of
        None \<Rightarrow> False
      | Some raw \<Rightarrow> (case map_of raw_readings raw of None \<Rightarrow> False | Some r \<Rightarrow> unreadable r)
          \<and> fx_expect fixture = None \<and> fx_expect_error fixture = Some ''malformed'')"

lemma raw_cases: "list_all (\<lambda>fixture. fx_conditions fixture \<noteq> None \<or> raw_case fixture) FIXTURES"
  by (simp add: FIXTURES_def fixtures_accepted_def fixtures_unknown_def fixtures_rejected_def raw_case_def
      raw_readings_def unreadable_def fixture_condition_def de_conditions_def de_condition_def serde)

lemma raw_pass:
  assumes "reads_fixtures read write"
  shows "list_all (\<lambda>fixture. is_raw fixture \<longrightarrow>
    fixture_passes (parse (from_str read shape de_conditions)) write fixture) FIXTURES"
proof -
  have texts: "list_all (\<lambda>(text, v). reads_as (read text) v) raw_readings" using assms by (simp add: reads_fixtures_def)
  have "fixture_passes (parse (from_str read shape de_conditions)) write fixture"
    if mem: "fixture \<in> set FIXTURES" and d: "fx_conditions fixture = None" for fixture
  proof -
    obtain raw r kind where raw: "fx_raw fixture = Some raw" "map_of raw_readings raw = Some r" "unreadable r"
      "fx_expect fixture = None" "fx_expect_error fixture = Some kind" "kind \<noteq> ''unknown_column''"
      using raw_cases mem d unfolding list_all_iff raw_case_def by (fastforce split: option.splits)
    have "reads_as (read raw) r" using texts map_of_SomeD [OF raw(2)] by (auto simp: list_all_iff)
    then have "isl (parse (from_str read shape de_conditions) raw)"
      using raw(3) by (cases "parse (from_str read shape de_conditions) raw")
        (auto simp: parse_def parse_inner_ok from_str_def unreadable_def reads_as_def split: sum.splits option.splits)
    then show ?thesis using raw by (simp add: fixture_passes_def fixture_result_def fixture_text_def)
  qed
  moreover have "fixture_passes (parse (from_str read shape de_conditions)) write fixture"
    if mem: "fixture \<in> set FIXTURES" and d: "fx_conditions fixture = Some d" "fx_name fixture = ''oversize''" for fixture d
  proof -
    have "MAX_FILTER_BYTES < length (write d)"
      using assms mem d by (auto simp: reads_fixtures_def list_all_iff)
    moreover have "fx_raw fixture = None" using no_raw mem d by (auto simp: list_all_iff)
    moreover have "fx_expect fixture = None \<and> fx_expect_error fixture = Some ''oversize''"
      using oversize_case mem d by (auto simp: list_all_iff)
    ultimately show ?thesis using d by (simp add: fixture_passes_def fixture_result_def fixture_text_def parse_def parse_inner_def)
  qed
  ultimately show ?thesis by (auto simp: list_all_iff is_raw_def)
qed

text \<open>The unit tests of the backends that need no database pass; among them the runner over the shared
  fixtures of the filter builder, for any JSON reader and writer that read and write the fixtures.\<close>

theorem backend_unit_tests_pass:
  assumes "reads_fixtures read write"
  shows "column_classes_follow_data_type_pg \<and> column_classes_follow_data_type_my
    \<and> column_classes_follow_declared_names_then_affinity
    \<and> partial_index_predicate_finds_the_top_level_where_only
    \<and> filter_builder_fixtures (parse (from_str read shape de_conditions)) write FIXTURES"
proof -
  have "fixture_passes (parse (from_str read shape de_conditions)) write fixture"
    if mem: "fixture \<in> set FIXTURES" for fixture
  proof (cases "is_raw fixture")
    case True
    with raw_pass [OF assms] mem show ?thesis by (simp add: list_all_iff)
  next
    case False
    then obtain d where d: "fx_conditions fixture = Some d" "fx_name fixture \<noteq> ''oversize''"
      by (auto simp: is_raw_def)
    have "reading_passes fixture"
      using accepted_pass unknown_pass rejected_pass mem False by (auto simp: FIXTURES_def list_all_iff)
    moreover have "fx_raw fixture = None"
      using no_raw mem d by (auto simp: list_all_iff)
    moreover have "read (write d) = Inr d" "length (write d) \<le> MAX_FILTER_BYTES"
      using assms mem d by (auto simp: reads_fixtures_def list_all_iff)
    ultimately show ?thesis using d by (intro reading_passes_text)
  qed
  then have "filter_builder_fixtures (parse (from_str read shape de_conditions)) write FIXTURES"
    by (simp add: filter_builder_fixtures_def list_all_iff) (simp add: FIXTURES_def fixtures_accepted_def)
  then show ?thesis using pg_classes_pass my_classes_pass sqlite_classes_pass predicates_pass by blast
qed

text \<open>A reader and a writer: conditions are written as as many ones as there are conditions before them in
  the file, after a padding where they are long.\<close>

definition fixture_docs :: "jdoc list" where
  "fixture_docs = List.map_filter fx_conditions FIXTURES"

fun long_value :: "jdoc \<Rightarrow> bool" where
  "long_value (DArr [DObj [c, p, (k, DStr v)]]) = (MAX_FILTER_BYTES < length v)"
| "long_value d = False"

definition write_fixture :: "jdoc \<Rightarrow> string" where
  "write_fixture d =
     replicate (if long_value d then Suc MAX_FILTER_BYTES else 0) (CHR ''x'')
     @ replicate (case find_position (\<lambda>x. x = d) fixture_docs of Some i \<Rightarrow> i | None \<Rightarrow> 0) (CHR ''1'')"

definition read_fixture :: "string \<Rightarrow> string + jdoc" where
  "read_fixture text =
     (case map_of raw_readings text of
        Some (Some d) \<Rightarrow> Inr d
      | Some None \<Rightarrow> Inl ''no value''
      | None \<Rightarrow> Inr (fixture_docs ! length (filter (\<lambda>c. c = CHR ''1'') text)))"

lemma long_values:
  "list_all (\<lambda>fixture. case fx_conditions fixture of None \<Rightarrow> True
    | Some d \<Rightarrow> long_value d = (fx_name fixture = ''oversize'')) FIXTURES"
  by (simp add: FIXTURES_def fixtures_accepted_def fixtures_unknown_def fixtures_rejected_def fixture_condition_def
      MAX_FILTER_BYTES_def)

lemma length_FIXTURES: "length FIXTURES = 32"
  by (simp add: FIXTURES_def fixtures_accepted_def fixtures_unknown_def fixtures_rejected_def)

lemma ones_not_raw:
  assumes "set raw \<subseteq> {CHR ''x'', CHR ''1''}"
  shows "map_of raw_readings raw = None"
proof (cases raw)
  case Nil
  then show ?thesis by (simp add: raw_readings_def)
next
  case (Cons c t)
  then have "c = CHR ''x'' \<or> c = CHR ''1''" using assms by simp
  then show ?thesis using Cons by (elim disjE) (simp_all add: raw_readings_def)
qed

lemma reads_fixture: "reads_fixtures read_fixture write_fixture"
proof -
  have "read_fixture (write_fixture d) = Inr d
      \<and> (MAX_FILTER_BYTES < length (write_fixture d)) = (fx_name fixture = ''oversize'')"
    if mem: "fixture \<in> set FIXTURES" and d: "fx_conditions fixture = Some d" for fixture d
  proof -
    have "d \<in> set fixture_docs" using mem d by (force simp: fixture_docs_def List.map_filter_def)
    then obtain i where i: "find_position (\<lambda>x. x = d) fixture_docs = Some i"
      by (cases "find_position (\<lambda>x. x = d) fixture_docs") (auto simp: find_position_None)
    have at: "i < length fixture_docs" "fixture_docs ! i = d" using find_position_Some [OF i] by simp_all
    have "length fixture_docs \<le> length FIXTURES" by (simp add: fixture_docs_def List.map_filter_def)
    then have "i \<le> MAX_FILTER_BYTES" using at(1) length_FIXTURES by (simp add: MAX_FILTER_BYTES_def)
    moreover have "long_value d = (fx_name fixture = ''oversize'')" using long_values mem d by (auto simp: list_all_iff)
    moreover have "map_of raw_readings (write_fixture d) = None"
      by (rule ones_not_raw) (auto simp: write_fixture_def)
    ultimately show ?thesis using at by (simp add: write_fixture_def read_fixture_def i)
  qed
  moreover have "list_all (\<lambda>(text, v). reads_as (read_fixture text) v) raw_readings"
    by (simp add: raw_readings_def read_fixture_def)
  ultimately show ?thesis by (auto simp: reads_fixtures_def list_all_iff split: option.splits)
qed

end
