(* ===== verification/Unit_Routes.thy ===== *)
theory Unit_Routes
  imports Conf_Correct Unit_Core
begin

text \<open>
  The unit tests of the two adapters (\<^verbatim>\<open>axum/src/routes.rs\<close>, \<^verbatim>\<open>actix-web/src/routes.rs\<close>) over the model: a
  router or a service over stub sources whose operations panic, but for listing one table. A test
  is a probe of the server; it passes when it returns from any history. \<open>should_panic\<close> is
  that the mount panicked.
\<close>

section \<open>Stubs and requests\<close>

definition stub_source :: "string \<Rightarrow> db_source" where
  "stub_source name = \<lparr>
     ds_list_schemas = io_panic,
     ds_list_tables = (\<lambda>_. io_return [\<lparr>ti_name = name, ti_comment = None\<rparr>]),
     ds_table_counts = (\<lambda>_. io_panic), ds_query_table = (\<lambda>_ _ _. io_panic),
     ds_common_values = (\<lambda>_ _ _. io_panic), ds_referenced_by = (\<lambda>_ _. io_panic),
     ds_query_join = (\<lambda>_ _ _. io_panic), ds_structure = (\<lambda>_ _. io_panic)\<rparr>"

definition never_queried :: db_source where
  "never_queried = \<lparr>
     ds_list_schemas = io_panic, ds_list_tables = (\<lambda>_. io_panic),
     ds_table_counts = (\<lambda>_. io_panic), ds_query_table = (\<lambda>_ _ _. io_panic),
     ds_common_values = (\<lambda>_ _ _. io_panic), ds_referenced_by = (\<lambda>_ _. io_panic),
     ds_query_join = (\<lambda>_ _ _. io_panic), ds_structure = (\<lambda>_ _. io_panic)\<rparr>"

definition one_stub :: "db_source \<Rightarrow> (string \<times> source_handle) list" where
  "one_stub s = [(''primary'', \<lparr>src_ops = s, src_pool = 0\<rparr>)]"

text \<open>Nothing listens on port 9, so a health check there fails.\<close>

definition refused :: "nat \<Rightarrow> string \<Rightarrow> bool" where
  "refused i u = False"

definition tables_json :: "tables_response \<Rightarrow> json" where
  "tables_json r =
     JsObj [''tables'' \<mapsto> JsArr (map (\<lambda>t. JsObj (opt_field ''comment'' (map_option JsStr (ti_comment t))
       [''name'' \<mapsto> JsStr (ti_name t)])) (tr_tables r))]"

definition body_of_tables :: "body \<Rightarrow> json" where
  "body_of_tables b = (case b of BTables r \<Rightarrow> tables_json r | _ \<Rightarrow> JsNull)"

abbreviation axum_app :: "env \<Rightarrow> config \<Rightarrow> (string \<times> source_handle) list \<Rightarrow> target" where
  "axum_app env cfg sources \<equiv> axum_target env cfg sources refused body_of_tables []"

abbreviation actix_app :: "env \<Rightarrow> config \<Rightarrow> (string \<times> source_handle) list \<Rightarrow> target" where
  "actix_app env cfg sources \<equiv> actix_target env cfg sources refused body_of_tables []"

definition app_get_json :: "target \<Rightarrow> string \<Rightarrow> (string \<times> string) list \<Rightarrow> json probe" where
  "app_get_json app path query =
     gbind (get_path app path query) (\<lambda>r.
     gbind (assert_status r 200) (\<lambda>_. reply_json app r))"

definition loaded :: "config_error + config \<Rightarrow> (config \<Rightarrow> 'a probe) \<Rightarrow> 'a probe" where
  "loaded r f = (case r of Inl _ \<Rightarrow> gfail | Inr cfg \<Rightarrow> f cfg)"

section \<open>axum\<close>

definition router_panics_on_empty_sources_when_enabled :: "config_reader \<Rightarrow> bool" where
  "router_panics_on_empty_sources_when_enabled read \<longleftrightarrow>
     passes_with (read ''enabled = true'') (\<lambda>cfg. router_axum cfg [] = MountPanic)"

definition router_disabled_never_reaches_the_empty_sources_check :: bool where
  "router_disabled_never_reaches_the_empty_sources_check \<longleftrightarrow> router_axum config_default [] \<noteq> MountPanic"

definition LABELLED_axum :: string where
  "LABELLED_axum = [newline] @ ''        enabled = true'' @ [newline, newline]
     @ ''        [instance]'' @ [newline] @ ''        name = \"orders\"'' @ [newline]
     @ ''        label = \"dev\"'' @ [newline, newline] @ ''        ''
     @ ''['' @ ''[siblings]]'' @ [newline] @ ''        name = \"orders\"'' @ [newline]
     @ ''        label = \"dev\"'' @ [newline]
     @ ''        base_url = \"http://127.0.0.1:9/__ashurbanipal\"'' @ [newline]
     @ ''        health_path = \"/health\"'' @ [newline, newline] @ ''        ''
     @ ''['' @ ''[siblings]]'' @ [newline] @ ''        name = \"orders\"'' @ [newline]
     @ ''        label = \"int\"'' @ [newline]
     @ ''        base_url = \"http://127.0.0.1:9/__ashurbanipal\"'' @ [newline]
     @ ''        health_path = \"/health\"'' @ [newline, newline] @ ''        ''
     @ ''['' @ ''[siblings]]'' @ [newline] @ ''        name = \"billing\"'' @ [newline]
     @ ''        base_url = \"http://127.0.0.1:9/__ashurbanipal\"'' @ [newline]
     @ ''        health_path = \"/health\"'' @ [newline] @ ''    ''"

definition listed_sibling :: "string \<Rightarrow> string option \<Rightarrow> bool \<Rightarrow> json" where
  "listed_sibling name label healthy =
     JsObj (opt_field ''label'' (map_option JsStr label)
       [''name'' \<mapsto> JsStr name, ''base_url'' \<mapsto> JsStr ''http://127.0.0.1:9/__ashurbanipal'',
        ''healthy'' \<mapsto> JsBool healthy])"

definition siblings_report_this_instance_axum :: "env \<Rightarrow> config_reader \<Rightarrow> unit probe" where
  "siblings_report_this_instance_axum env read =
     loaded (read LABELLED_axum) (\<lambda>cfg.
     gbind (app_get_json (axum_app env cfg (one_stub (stub_source []))) ''/api/siblings'' []) (\<lambda>body.
     assert_exact body (JsObj [
       ''instance'' \<mapsto> JsObj [''name'' \<mapsto> JsStr ''orders'', ''label'' \<mapsto> JsStr ''dev''],
       ''siblings'' \<mapsto> JsArr [listed_sibling ''orders'' (Some ''dev'') True,
         listed_sibling ''orders'' (Some ''int'') False, listed_sibling ''billing'' None False]])))"

definition sibling_config_mistakes_axum :: "env \<Rightarrow> config_reader \<Rightarrow> unit probe" where
  "sibling_config_mistakes_axum env read =
     loaded (read (str_replace (''label = \"int\"'') (''label = \"dev\"'') LABELLED_axum)) (\<lambda>cfg.
     gbind (app_get_json (axum_app env cfg (one_stub (stub_source []))) ''/api/siblings'' []) (\<lambda>body.
     gbind (unwrap_gen (as_array (index_key body ''siblings''))) (\<lambda>siblings.
     gbind (assert_exact (length siblings) 3) (\<lambda>_.
     assert_exact (index_key body ''warnings'')
       (JsArr [JsStr (''two siblings share the name \"orders\" and the label \"dev\"'')])))))"

definition one_router_holds_sources_of_different_types :: "env \<Rightarrow> config_reader \<Rightarrow> unit probe" where
  "one_router_holds_sources_of_different_types env read =
     loaded (read ''enabled = true'') (\<lambda>cfg.
     let app = axum_app env cfg
           [(''a'', \<lparr>src_ops = source_ops (source_new (stub_source ''users'')), src_pool = 0\<rparr>),
            (''b'', \<lparr>src_ops = source_ops (source_new (stub_source ''orders'')), src_pool = 1\<rparr>)]
     in gbind (app_get_json app ''/api/sources'' []) (\<lambda>body.
        gbind (assert_exact body (JsObj [
          ''sources'' \<mapsto> JsArr [JsObj [''name'' \<mapsto> JsStr ''a''], JsObj [''name'' \<mapsto> JsStr ''b'']],
          ''default'' \<mapsto> JsStr ''a''])) (\<lambda>_.
        gmap (\<lambda>_. ()) (gtraverse (\<lambda>(source, table).
          gbind (app_get_json app ''/api/tables'' [(''source'', source)]) (\<lambda>body.
          assert_exact body (JsObj [''tables'' \<mapsto> JsArr [JsObj [''name'' \<mapsto> JsStr table]]])))
          [(''a'', ''users''), (''b'', ''orders'')]))))"

section \<open>actix-web\<close>

definition app_state_panics_on_empty_sources_when_enabled :: "config_reader \<Rightarrow> bool" where
  "app_state_panics_on_empty_sources_when_enabled read \<longleftrightarrow>
     passes_with (read ''enabled = true'') (\<lambda>cfg. app_state_actix cfg [] = None)"

definition disabled_with_no_sources_404s_instead_of_panicking :: "env \<Rightarrow> unit probe" where
  "disabled_with_no_sources_404s_instead_of_panicking env =
     gbind (get_path (actix_app env config_default []) [] []) (\<lambda>r. assert_status r 404)"

definition disabled_config :: string where
  "disabled_config = [newline] @ ''            enabled = false'' @ [newline] @ ''        ''"

definition disabled_config_404s_html_and_api_routes :: "env \<Rightarrow> config_reader \<Rightarrow> unit probe" where
  "disabled_config_404s_html_and_api_routes env read =
     loaded (read disabled_config) (\<lambda>cfg.
     let app = actix_app env cfg (one_stub never_queried)
     in gbind (get_path app [] []) (\<lambda>html.
        gbind (assert_status html 404) (\<lambda>_.
        gbind (get_path app ''/api/schemas'' []) (\<lambda>api.
        assert_status api 404))))"

definition LABELLED_actix :: string where
  "LABELLED_actix = [newline] @ ''        enabled = true'' @ [newline, newline]
     @ ''        [instance]'' @ [newline] @ ''        name = \"orders\"'' @ [newline]
     @ ''        label = \"dev\"'' @ [newline, newline] @ ''        ''
     @ ''['' @ ''[siblings]]'' @ [newline] @ ''        name = \"orders\"'' @ [newline]
     @ ''        label = \"dev\"'' @ [newline]
     @ ''        base_url = \"http://127.0.0.1:9/__ashurbanipal\"'' @ [newline]
     @ ''        health_path = \"/health\"'' @ [newline, newline] @ ''        ''
     @ ''['' @ ''[siblings]]'' @ [newline] @ ''        name = \"orders\"'' @ [newline]
     @ ''        label = \"int\"'' @ [newline]
     @ ''        base_url = \"http://127.0.0.1:9/__ashurbanipal\"'' @ [newline]
     @ ''        health_path = \"/health\"'' @ [newline, newline] @ ''        ''
     @ ''['' @ ''[siblings]]'' @ [newline] @ ''        name = \"billing\"'' @ [newline]
     @ ''        base_url = \"http://127.0.0.1:9/__ashurbanipal\"'' @ [newline]
     @ ''        health_path = \"/health\"'' @ [newline] @ ''    ''"

definition siblings_report_this_instance_actix :: "env \<Rightarrow> config_reader \<Rightarrow> unit probe" where
  "siblings_report_this_instance_actix env read =
     loaded (read LABELLED_actix) (\<lambda>cfg.
     gbind (get_json (actix_app env cfg (one_stub never_queried)) ''/api/siblings'' []) (\<lambda>body.
     assert_exact body (JsObj [
       ''instance'' \<mapsto> JsObj [''name'' \<mapsto> JsStr ''orders'', ''label'' \<mapsto> JsStr ''dev''],
       ''siblings'' \<mapsto> JsArr [listed_sibling ''orders'' (Some ''dev'') True,
         listed_sibling ''orders'' (Some ''int'') False, listed_sibling ''billing'' None False]])))"

definition sibling_config_mistakes_actix :: "env \<Rightarrow> config_reader \<Rightarrow> unit probe" where
  "sibling_config_mistakes_actix env read =
     loaded (read (str_replace (''label = \"int\"'') (''label = \"dev\"'') LABELLED_actix)) (\<lambda>cfg.
     gbind (get_json (actix_app env cfg (one_stub never_queried)) ''/api/siblings'' []) (\<lambda>body.
     gbind (unwrap_gen (as_array (index_key body ''siblings''))) (\<lambda>siblings.
     gbind (assert_exact (length siblings) 3) (\<lambda>_.
     assert_exact (index_key body ''warnings'')
       (JsArr [JsStr (''two siblings share the name \"orders\" and the label \"dev\"'')])))))"

section \<open>What the texts denote\<close>

definition routes_sibling :: "string \<Rightarrow> string option \<Rightarrow> sibling" where
  "routes_sibling name label = \<lparr>sb_name = name, sb_base_url = ''http://127.0.0.1:9/__ashurbanipal'',
     sb_health_path = ''/health'', sb_label = label\<rparr>"

definition routes_config :: "string \<Rightarrow> config" where
  "routes_config label = \<lparr>cfg_enabled = True, cfg_limits = limits_default,
     cfg_instance = Some \<lparr>in_name = ''orders'', in_label = ''dev''\<rparr>,
     cfg_siblings = [routes_sibling ''orders'' (Some ''dev''), routes_sibling ''orders'' (Some label),
       routes_sibling ''billing'' None]\<rparr>"

definition reads_routes_tests :: "config_reader \<Rightarrow> bool" where
  "reads_routes_tests read \<longleftrightarrow>
     read ''enabled = true'' = Inr (config_default\<lparr>cfg_enabled := True\<rparr>)
     \<and> read disabled_config = Inr config_default
     \<and> read LABELLED_axum = Inr (routes_config ''int'')
     \<and> read (str_replace (''label = \"int\"'') (''label = \"dev\"'') LABELLED_axum) = Inr (routes_config ''dev'')"

section \<open>The tests pass\<close>

lemma LABELLED_actix_eq: "LABELLED_actix = LABELLED_axum"
  by (simp only: LABELLED_actix_def LABELLED_axum_def)

lemma stub_siblings_body:
  "siblings_json (fst (check_siblings refused (siblings_view (routes_config ''int'')))) = JsObj [
       ''instance'' \<mapsto> JsObj [''name'' \<mapsto> JsStr ''orders'', ''label'' \<mapsto> JsStr ''dev''],
       ''siblings'' \<mapsto> JsArr [listed_sibling ''orders'' (Some ''dev'') True,
         listed_sibling ''orders'' (Some ''int'') False, listed_sibling ''billing'' None False]]"
  by (simp add: siblings_json_def check_siblings_def siblings_view_def view_step_def routes_config_def
      routes_sibling_def unwrap_or_def check_one_def is_instance_def sibling_is_def health_url_def refused_def
      instance_json_def status_json_def listed_sibling_def opt_field_def fun_upd_twist)

lemma stub_mistakes_body:
  "siblings_json (fst (check_siblings refused (siblings_view (routes_config ''dev'')))) = JsObj [
       ''instance'' \<mapsto> JsObj [''name'' \<mapsto> JsStr ''orders'', ''label'' \<mapsto> JsStr ''dev''],
       ''warnings'' \<mapsto> JsArr [JsStr (''two siblings share the name \"orders\" and the label \"dev\"'')],
       ''siblings'' \<mapsto> JsArr [listed_sibling ''orders'' (Some ''dev'') True,
         listed_sibling ''orders'' (Some ''dev'') True, listed_sibling ''billing'' None False]]"
  by (simp add: siblings_json_def check_siblings_def siblings_view_def view_step_def routes_config_def
      routes_sibling_def unwrap_or_def check_one_def is_instance_def sibling_is_def health_url_def refused_def
      instance_json_def status_json_def listed_sibling_def opt_field_def fun_upd_twist duplicate_warning_def)

lemma enabled_routes: "is_enabled (routes_config label)" "one_stub s \<noteq> []"
  by (simp_all add: is_enabled_def routes_config_def one_stub_def)

lemma axum_siblings_test:
  "reads_routes_tests read \<Longrightarrow> siblings_report_this_instance_axum env read = gret ()"
  by (simp add: siblings_report_this_instance_axum_def loaded_def reads_routes_tests_def app_get_json_def
      get_siblings enabled_routes assert_status_def stub_siblings_body assert_exact_def) (simp add: json_reply_def)

lemma axum_mistakes_test:
  "reads_routes_tests read \<Longrightarrow> sibling_config_mistakes_axum env read = gret ()"
  by (simp add: sibling_config_mistakes_axum_def loaded_def reads_routes_tests_def app_get_json_def
      get_siblings enabled_routes assert_status_def stub_mistakes_body assert_exact_def) (simp add: json_reply_def)

lemma actix_siblings_test:
  "reads_routes_tests read \<Longrightarrow> siblings_report_this_instance_actix env read = gret ()"
  by (simp add: siblings_report_this_instance_actix_def loaded_def reads_routes_tests_def LABELLED_actix_eq
      actix_target_eq get_json_def get_siblings enabled_routes stub_siblings_body assert_exact_def)

lemma actix_mistakes_test:
  "reads_routes_tests read \<Longrightarrow> sibling_config_mistakes_actix env read = gret ()"
  by (simp add: sibling_config_mistakes_actix_def loaded_def reads_routes_tests_def LABELLED_actix_eq
      actix_target_eq get_json_def get_siblings enabled_routes stub_mistakes_body assert_exact_def)

lemma mount_tests:
  assumes "reads_routes_tests read"
  shows "router_panics_on_empty_sources_when_enabled read" "router_disabled_never_reaches_the_empty_sources_check"
    "app_state_panics_on_empty_sources_when_enabled read"
  using assms by (simp_all add: router_panics_on_empty_sources_when_enabled_def reads_routes_tests_def router_axum_def
      router_disabled_never_reaches_the_empty_sources_check_def app_state_panics_on_empty_sources_when_enabled_def
      app_state_actix_def is_enabled_def config_default_def)

text \<open>A disabled actix-web service takes no path.\<close>

lemma disabled_get_path:
  assumes "\<not> is_enabled cfg"
  shows "get_path (actix_app env cfg sources) path query = gret \<lparr>rp_status = 404, rp_headers = Map.empty, rp_body = None\<rparr>"
  using assms by (intro ext) (simp add: get_path_def send_def actix_target_def app_state_actix_def handle_actix_def gret_def)

lemma disabled_tests:
  "disabled_with_no_sources_404s_instead_of_panicking env = gret ()"
  "reads_routes_tests read \<Longrightarrow> disabled_config_404s_html_and_api_routes env read = gret ()"
  by (simp_all add: disabled_with_no_sources_404s_instead_of_panicking_def reads_routes_tests_def loaded_def
      disabled_config_404s_html_and_api_routes_def disabled_get_path is_enabled_def config_default_def assert_status_def)

lemma stub_tables:
  assumes on: "is_enabled cfg" and n: "find (\<lambda>s. fst s = n) sources
    = Some (n, \<lparr>src_ops = source_ops (source_new (stub_source table)), src_pool = k\<rparr>)"
  shows "get_path (axum_app env cfg sources) ''/api/tables'' [(''source'', n)] =
    gret (json_reply (BTables \<lparr>tr_tables = [\<lparr>ti_name = table, ti_comment = None\<rparr>]\<rparr>))"
proof (rule ext)
  fix w
  let ?T = "axum_app env cfg sources"
  let ?r = "probe_request ?T ''/api/tables'' [(''source'', n)] None"
  let ?st = "served cfg sources"
  have ne: "sources \<noteq> []" using n by auto
  have "list_tables_axum env ?st \<lparr>cp_schema = None, cp_source = Some n\<rparr> w
      = (Done (Inr (BTables \<lparr>tr_tables = [\<lparr>ti_name = table, ti_comment = None\<rparr>]\<rparr>)), w)"
    by (simp add: list_tables_axum_def resolve_def resolve_source_def served_def n act_then_def act_of_def
        on_source_def source_ops_def source_new_def erase_def stub_source_def io_return_def act_return_def Let_def)
  then have "query_axum env decode_schema_params (list_tables_axum env ?st) ?r w
      = (json_axum (BTables \<lparr>tr_tables = [\<lparr>ti_name = table, ti_comment = None\<rparr>]\<rparr>), w)"
    unfolding query_axum_def by (simp add: decoded(2) result_axum_def)
  then have "handle_axum env (Serving ?st) ?r w
      = (stamp_axum (json_axum (BTables \<lparr>tr_tables = [\<lparr>ti_name = table, ti_comment = None\<rparr>]\<rparr>)), w)"
    using handle_route [of env ?st ?r "query_axum env decode_schema_params (list_tables_axum env ?st)" w]
      routes(3) [of env ?st] by simp
  then have "tg_send ?T ?r w
      = (stamp_axum (json_axum (BTables \<lparr>tr_tables = [\<lparr>ti_name = table, ti_comment = None\<rparr>]\<rparr>)), w)"
    by (simp only: target_send [OF on ne])
  then show "get_path ?T ''/api/tables'' [(''source'', n)] w
      = gret (json_reply (BTables \<lparr>tr_tables = [\<lparr>ti_name = table, ti_comment = None\<rparr>]\<rparr>)) w"
    by (simp add: get_path_def send_def json_axum_def stamp_axum_def json_reply_def gret_def)
qed

lemma reply_tables_json:
  "reply_json (axum_app env cfg sources) (json_reply (BTables r)) = gret (tables_json r)"
  by (simp add: reply_json_def json_reply_def body_json_def axum_target_def body_of_tables_def)

lemma two_sources_test:
  "reads_routes_tests read \<Longrightarrow> one_router_holds_sources_of_different_types env read = gret ()"
  by (simp add: one_router_holds_sources_of_different_types_def loaded_def reads_routes_tests_def app_get_json_def
      get_sources is_enabled_def stub_tables reply_tables_json assert_status_def Let_def gmap_def)
    (simp add: json_reply_def sources_json_def assert_exact_def tables_json_def opt_field_def)

text \<open>The unit tests of both adapters pass, for any TOML decoder that reads the texts of the tests.\<close>

theorem route_unit_tests_pass:
  assumes "reads_routes_tests read"
  shows "router_panics_on_empty_sources_when_enabled read
    \<and> router_disabled_never_reaches_the_empty_sources_check
    \<and> siblings_report_this_instance_axum env read = gret ()
    \<and> sibling_config_mistakes_axum env read = gret ()
    \<and> one_router_holds_sources_of_different_types env read = gret ()
    \<and> app_state_panics_on_empty_sources_when_enabled read
    \<and> disabled_with_no_sources_404s_instead_of_panicking env = gret ()
    \<and> disabled_config_404s_html_and_api_routes env read = gret ()
    \<and> siblings_report_this_instance_actix env read = gret ()
    \<and> sibling_config_mistakes_actix env read = gret ()"
  using mount_tests [OF assms] axum_siblings_test [OF assms] axum_mistakes_test [OF assms]
    two_sources_test [OF assms] disabled_tests(1) disabled_tests(2) [OF assms] actix_siblings_test [OF assms]
    actix_mistakes_test [OF assms] by blast

definition read_routes_tests :: config_reader where
  "read_routes_tests t =
     (if t = ''enabled = true'' then Inr (config_default\<lparr>cfg_enabled := True\<rparr>)
      else if t = disabled_config then Inr config_default
      else if t = LABELLED_axum then Inr (routes_config ''int'')
      else Inr (routes_config ''dev''))"

lemma routes_text_keys:
  "text_key disabled_config = (37, 0)" "text_key LABELLED_axum = (538, 2)"
  "text_key (str_replace (''label = \"int\"'') (''label = \"dev\"'') LABELLED_axum) = (538, 3)"
  "text_key ''enabled = true'' = (14, 0)"
  by code_simp+

lemma routes_texts_differ:
  "distinct [''enabled = true'', disabled_config, LABELLED_axum, str_replace (''label = \"int\"'') (''label = \"dev\"'') LABELLED_axum]"
  by (rule distinct_mapI [of text_key]) (simp only: list.map routes_text_keys, simp)

end
