(* ===== verification/Unit_Tests.thy ===== *)
theory Unit_Tests
  imports Unit_Join Unit_Core Unit_Backends Unit_Routes
begin

text \<open>
  The unit tests of the crates, together: those of \<^verbatim>\<open>core/src\<close> that need no database
  (\<open>Unit_Join\<close>, \<open>Unit_Core\<close>, \<open>Unit_Backends\<close>) and those of the two adapters (\<open>Unit_Routes\<close>).
\<close>

definition core_unit_tests :: "config_reader \<Rightarrow> (string \<Rightarrow> string + join_spec) \<Rightarrow> (string \<Rightarrow> string + condition list) \<Rightarrow> bool" where
  "core_unit_tests toml de_join de_filter \<longleftrightarrow>
     disabled_by_default \<and> disabled_when_config_absent toml \<and> enabled_when_explicitly_set toml
     \<and> defaults_applied toml \<and> parses_instance_and_labels toml
     \<and> only_the_matching_name_and_label_is_this_instance toml
     \<and> nothing_is_this_instance_without_an_instance toml
     \<and> instance_with_an_empty_label_is_ignored_with_a_warning toml
     \<and> empty_sibling_label_is_unlabelled_with_a_warning toml
     \<and> duplicates_are_all_kept_with_one_warning toml
     \<and> health_url_resolves_against_origin
     \<and> accepts_gzip_follows_q_values
     \<and> quote_ident_doubles_embedded_quotes
     \<and> resolve_source_absent_picks_first_registered
     \<and> resolve_source_present_finds_exact_match
     \<and> resolve_source_unknown_name_is_rejected
     \<and> resolve_source_is_case_sensitive
     \<and> out_of_range_limit_and_offset_saturate_instead_of_failing
     \<and> query_opts_clamps_the_limit_and_treats_a_blank_or_empty_filter_as_none de_filter
     \<and> a_bad_order_or_sort_join_is_a_bad_parameter de_join de_filter"

definition join_unit_tests :: "parser \<Rightarrow> bool" where
  "join_unit_tests parse_spec \<longleftrightarrow>
     parses_a_valid_join parse_spec
     \<and> rejects_structural_violations parse_spec
     \<and> caps_tables_and_pairs_and_bytes parse_spec
     \<and> plan_rejects_unknown_names_and_incompatible_pairs parse_spec
     \<and> only_a_text_column_reports_its_collation
     \<and> a_float_key_says_why_it_cannot_join parse_spec
     \<and> enum_classes_pair_only_when_equal parse_spec
     \<and> text_collation_clash_is_rejected parse_spec
     \<and> labels_are_unique_and_stable
     \<and> builds_sql_from_catalog_names_only parse_spec
     \<and> filter_and_sort_positions_are_range_checked parse_spec"

definition backend_unit_tests :: "(string \<Rightarrow> filter_error + condition list) \<Rightarrow> (jdoc \<Rightarrow> string) \<Rightarrow> bool" where
  "backend_unit_tests parse_text write \<longleftrightarrow>
     column_classes_follow_data_type_pg \<and> column_classes_follow_data_type_my
     \<and> column_classes_follow_declared_names_then_affinity
     \<and> partial_index_predicate_finds_the_top_level_where_only
     \<and> filter_builder_fixtures parse_text write FIXTURES"

definition adapter_unit_tests :: "env \<Rightarrow> config_reader \<Rightarrow> bool" where
  "adapter_unit_tests env toml \<longleftrightarrow>
     router_panics_on_empty_sources_when_enabled toml
     \<and> router_disabled_never_reaches_the_empty_sources_check
     \<and> siblings_report_this_instance_axum env toml = gret ()
     \<and> sibling_config_mistakes_axum env toml = gret ()
     \<and> one_router_holds_sources_of_different_types env toml = gret ()
     \<and> app_state_panics_on_empty_sources_when_enabled toml
     \<and> disabled_with_no_sources_404s_instead_of_panicking env = gret ()
     \<and> disabled_config_404s_html_and_api_routes env toml = gret ()
     \<and> siblings_report_this_instance_actix env toml = gret ()
     \<and> sibling_config_mistakes_actix env toml = gret ()"

text \<open>The unit tests of the crates that need no database pass, those of the decoders themselves left out: 20 of the core's smaller modules, 11 of
  joins, those of the backends with the 32 shared fixtures of the filter builder, and 10 of the two
  adapters, whatever the databases hold, for any TOML and JSON decoders that read the texts of the
  tests as the values they write.\<close>

theorem unit_tests_pass:
  assumes "reads_config_tests toml" "reads_wire_tests wire" "reads_tests joins"
    and "reads_fixtures fixtures write" "reads_routes_tests routes_toml"
  shows "core_unit_tests toml (from_str wire shape de_join_spec) (from_str wire shape de_conditions)
    \<and> join_unit_tests (parse_join (from_str joins shape de_join_spec))
    \<and> backend_unit_tests (parse (from_str fixtures shape de_conditions)) write
    \<and> adapter_unit_tests env routes_toml"
  unfolding core_unit_tests_def join_unit_tests_def backend_unit_tests_def adapter_unit_tests_def
  using core_unit_tests_pass [OF assms(1,2)] join_unit_tests_pass [OF assms(3)]
    backend_unit_tests_pass [OF assms(4)] route_unit_tests_pass [OF assms(5)]
  by blast

lemma unit_tests_pass_witness:
  "core_unit_tests read_config_tests (from_str read_wire_tests id de_join_spec) (from_str read_wire_tests id de_conditions)
   \<and> join_unit_tests (parse_join (from_str read_tests id de_join_spec))
   \<and> backend_unit_tests (parse (from_str read_fixture id de_conditions)) write_fixture
   \<and> (\<forall>env. adapter_unit_tests env read_routes_tests)"
proof -
  have "reads_routes_tests read_routes_tests"
    using routes_texts_differ by (auto simp: reads_routes_tests_def read_routes_tests_def)
  then show ?thesis
    using unit_tests_pass [OF reads_config_tests_example reads_wire_tests_example reads_tests_example reads_fixture]
    by blast
qed

end
