(* ===== verification/Spec2Isabelle.thy ===== *)
theory Spec2Isabelle
  imports Server_Correct Sqlite_Catalog Conf_Engine Conf_Reject Unit_Tests
begin

text \<open>
  \<^bold>\<open>Ashurbanipal: the Rust implementation.\<close>

  Ashurbanipal is a read-only database browser a host service embeds. This development models
  the Rust crates under \<^verbatim>\<open>src/implementations/rust\<close>, the framework-independent core and its two
  adapters, the generator of the seed databases under \<^verbatim>\<open>src/tools/seed-gen\<close>, and the harness of
  the conformance suite under \<^verbatim>\<open>src/conformance/runner\<close> with the tests whose outcome does not depend
  on the rows of a database. A GET request becomes parameters (\<^verbatim>\<open>protocol_wire.rs\<close>), is validated into options
  (\<^verbatim>\<open>filter.rs\<close>, \<^verbatim>\<open>join.rs\<close>), resolved to a source (\<^verbatim>\<open>db/mod.rs\<close>), and run by the source's backend
  as a sequence of SQL statements; its rows become a response, an error a problem document.

  \<^bold>\<open>Theories, in the order the parts use each other.\<close>

  \<^item> \<^verbatim>\<open>Rust_Prelude\<close>, \<^verbatim>\<open>Rust_Strings\<close>: results as sums, option and list operations, and the
    operations of \<open>str\<close> the code calls, on UTF-8 bytes. \<^verbatim>\<open>Run_Grouping\<close>: the locale
    \<open>run_grouping\<close> of merging neighbouring rows with one key, which five operations share.
  \<^item> \<^verbatim>\<open>Filter_Ast\<close> (\<^verbatim>\<open>core/src/filter.rs\<close>), \<^verbatim>\<open>Join_Spec\<close>, \<^verbatim>\<open>Join_Plan\<close>, \<^verbatim>\<open>Join_Correct\<close>
    (\<^verbatim>\<open>core/src/join.rs\<close>): requests, their structural validation, the planner and the rendering of
    the join statement. Proved: exactly what each parser accepts; labels are distinct and found
    early; the planner never indexes out of range and its plans are well-formed; the statement
    text does not depend on the filter's values.
  \<^item> \<^verbatim>\<open>Serde\<close>: what the derived \<open>Deserialize\<close> of the join and filter parameters makes of a JSON
    value, struct by struct. Proved: a request in its documented form is read back as itself, and so is
    the same request with arrays in place of its objects.
  \<^item> \<^verbatim>\<open>Sql_Lex\<close>: a lexer of SQL up to quoting, and the locale \<open>identifier_quoting\<close>: a quoted name
    reads back as one token. \<^verbatim>\<open>piece\<close> is the safety of a statement text: it lexes to allowed
    identifiers, plain characters and one placeholder per bound value.
  \<^item> \<^verbatim>\<open>Db_Types\<close> (\<^verbatim>\<open>core/src/db/mod.rs\<close>): shared records, errors and their responses, sources.
  \<^item> \<^verbatim>\<open>Engine\<close>: the boundary to sqlx. An operation of type \<open>'a io\<close> runs against any database that
    answers a request from the history of all earlier ones; \<open>contract\<close> is the documented shape of
    an answer. \<open>keeps\<close> is the total correctness used throughout: from any history that
    satisfies an invariant, no panic, and the invariant again.
  \<^item> \<^verbatim>\<open>Backend\<close>, \<^verbatim>\<open>Where_Builder\<close>, \<^verbatim>\<open>Tx_Protocol\<close>: what the backends share; the locales
    \<open>where_builder\<close> (a filter renderer equals the reference text) and \<open>transactional\<close> (statements
    inside a transaction), and the step relation \<open>tx_step\<close> of a pool's transactions.
  \<^item> \<^verbatim>\<open>Request_Log\<close>: which requests an operation adds to the history (\<open>sends\<close>, a rule per construct), how
    many transactions it begins, and the rows that a statement was answered with.
  \<^item> \<^verbatim>\<open>Sqlite\<close>, \<^verbatim>\<open>Sqlite_Protocol\<close>, \<^verbatim>\<open>Sqlite_Correct\<close>, \<^verbatim>\<open>Sqlite_Catalog\<close>
    (\<^verbatim>\<open>core/src/db/sqlite.rs\<close>): every operation; the step relation \<open>conn_step\<close> of a pooled connection
    and its progress handler; safety of every operation; catalog readers.
  \<^item> \<^verbatim>\<open>Server_Catalog\<close>, \<^verbatim>\<open>Postgres\<close>, \<^verbatim>\<open>Postgres_Correct\<close>, \<^verbatim>\<open>Mysql\<close>, \<^verbatim>\<open>Mysql_Correct\<close>,
    \<^verbatim>\<open>Server_Correct\<close> (\<^verbatim>\<open>core/src/db/postgres.rs\<close>, \<^verbatim>\<open>core/src/db/mysql.rs\<close>): the same for the
    servers; what both files write alike is modelled once. An operation of PostgreSQL is exactly one
    transaction; one of MySQL is the version query at most, which has no timeout, and then at most one
    transaction.
  \<^item> \<^verbatim>\<open>Wire\<close> (\<^verbatim>\<open>core/src/protocol_wire.rs\<close>): query parameters, limits, options, response values.
  \<^item> \<^verbatim>\<open>Siblings\<close> (\<^verbatim>\<open>core/src/config.rs\<close>, \<^verbatim>\<open>core/src/siblings.rs\<close>), \<^verbatim>\<open>Page_Encoding\<close>
    (\<^verbatim>\<open>core/src/page_encoding.rs\<close>): the host's configuration, health checks, and Accept-Encoding, which is
    read as RFC 9110 says where it is well-formed.
  \<^item> \<^verbatim>\<open>Sources\<close> (\<^verbatim>\<open>core/src/db/source.rs\<close> and the trait of \<^verbatim>\<open>db/mod.rs\<close>): the locale
    \<open>safe_source\<close> is what \<open>DbSource\<close> promises, interpreted on the three backends.
  \<^item> \<^verbatim>\<open>Http\<close>, \<^verbatim>\<open>Axum\<close>, \<^verbatim>\<open>Actix\<close>, \<^verbatim>\<open>Routes_Correct\<close> (\<^verbatim>\<open>axum/src/routes.rs\<close>,
    \<^verbatim>\<open>actix-web/src/routes.rs\<close>): both adapters, definition by definition; they agree but for the wording
    with which each framework rejects a query string, every answer is documented, and a server over any mix of backends is safe and live on every sequence of
    requests (\<open>server_safe\<close>, \<open>documented_paths_answered\<close>), which composes all of the above.
  \<^item> \<^verbatim>\<open>Seed_Rng\<close>, \<^verbatim>\<open>Seed_Text\<close>, \<^verbatim>\<open>Seed_Data\<close>, \<^verbatim>\<open>Seed_Schema\<close>, \<^verbatim>\<open>Seed_Postgres\<close>,
    \<^verbatim>\<open>Seed_Sqlite\<close> (\<^verbatim>\<open>tools/seed-gen/src/main.rs\<close>): the seed generator, function by function, as
    computations over the state of its random generator. A function of the source that draws rows
    and prints them is a draw (\<open>draw_review\<close>), a printer (\<open>review_sql\<close>) and the loop around both
    (\<open>write_reviews\<close>); the \<open>_sqlite\<close> twins are definitions of their own, as they are in the source.
  \<^item> \<^verbatim>\<open>Seed_Refine\<close>: \<open>draw_seed\<close>, the specification that draws every table and writes nothing, which
    both generators refine. \<^verbatim>\<open>Seed_Wf\<close>: what holds of the rows (\<open>seed_typed\<close>, \<open>seed_linked\<close>,
    \<open>shipping_ok\<close>), by the rules of total correctness \<open>yields\<close>. \<^verbatim>\<open>Seed_Read\<close>: the locale
    \<open>sql_printer\<close> on every printer, so that each statement reads back as its rows' values.
    \<^verbatim>\<open>Seed_Correct\<close>: the properties of the program, down to its sentinel row and checksum.
  \<^item> \<^verbatim>\<open>Demo\<close> (\<^verbatim>\<open>axum/examples/demo.rs\<close>, \<^verbatim>\<open>actix-web/examples/demo.rs\<close>): the configuration a demo
    host writes from its environment; two demos of a pair show one grid.
  \<^item> \<^verbatim>\<open>Conf_Harness\<close>, \<^verbatim>\<open>Conf_Suites\<close> (\<^verbatim>\<open>conformance/runner\<close>: \<^verbatim>\<open>assert.rs\<close>, \<^verbatim>\<open>backend.rs\<close>, \<^verbatim>\<open>common.rs\<close>,
    \<^verbatim>\<open>sources.rs\<close>, \<^verbatim>\<open>labelled_siblings.rs\<close>, \<^verbatim>\<open>html_and_siblings.rs\<close>, part of \<^verbatim>\<open>two_source.rs\<close>): a test
    is a computation over the world of a target, the process-wide cells a step relation.
    \<^verbatim>\<open>Conf_Engine\<close>: the tests of a process see one engine, and the generated seed is accepted.
    \<^verbatim>\<open>Conf_Correct\<close>: both adapters pass these suites, the labelled one under the demos' configuration.
    \<^verbatim>\<open>Conf_Reject\<close>: of the suites over the seeded rows (\<^verbatim>\<open>join.rs\<close>, \<^verbatim>\<open>filter_dsl.rs\<close>, \<^verbatim>\<open>table_data.rs\<close>,
    \<^verbatim>\<open>structure.rs\<close>, \<^verbatim>\<open>referenced_by.rs\<close>, \<^verbatim>\<open>schemas.rs\<close>) the tests whose requests are refused before a
    database is asked, and those of the protocol header; they compose \<open>Serde\<close>, the validation and both
    adapters, and pass.
  \<^item> \<^verbatim>\<open>Unit_Join\<close>, \<^verbatim>\<open>Unit_Core\<close>, \<^verbatim>\<open>Unit_Backends\<close>, \<^verbatim>\<open>Unit_Routes\<close>, \<^verbatim>\<open>Unit_Tests\<close>: the unit tests of the
    crates that need no database (the \<open>tests\<close> modules of \<^verbatim>\<open>join.rs\<close>, \<^verbatim>\<open>config.rs\<close>, \<^verbatim>\<open>siblings.rs\<close>,
    \<^verbatim>\<open>page_encoding.rs\<close>, \<^verbatim>\<open>protocol_wire.rs\<close>, \<^verbatim>\<open>db/mod.rs\<close> and both \<^verbatim>\<open>routes.rs\<close>, the pure tests of the
    backends), one definition per test, and the 32 fixtures of \<^verbatim>\<open>spec/fixtures/filter-builder-tests.json\<close>.
    They are evaluated on the model, which checks it against the values its authors expect; the tests of the
    TOML decoder alone (\<open>parses_full_config\<close>, \<open>instance_missing_a_label_does_not_parse\<close>) are left out.

  \<^bold>\<open>Reading the model.\<close> A \<open>Result\<close> is a sum with the error left; code that can panic
  (an index, \<open>expect\<close>, \<open>clamp\<close>) returns an \<open>outcome\<close>, whose \<open>Panic\<close> the safety theorems exclude.
  \<open>u32\<close> values are 32-bit words. The iteration order of a hash map is a parameter \<open>ord\<close>.
  No fuel is used. Two loops have no bound in their text: the search for a free label, which is
  shown to take the first free suffix, and the draw of a new address in the seed generator, a
  \<open>partial_function\<close>, of which it is proved exactly when it ends.

  \<^bold>\<open>Parameters.\<close> sqlx and the databases (\<open>database\<close> under \<open>contract\<close>), the JSON, TOML and form
  decoders (of JSON, in \<^verbatim>\<open>Serde\<close>, only the reader of the text), the HTTP client of the health checks, the gzip encoder, the embedded page, and how each
  framework words a rejected query string. Nothing is assumed of them but \<open>contract\<close>. For the seed
  generator \<^verbatim>\<open>rand\<close>, \<^verbatim>\<open>fake\<close> and \<^verbatim>\<open>uuid\<close> are the record \<open>lib\<close>: \<open>lib_ok\<close> says that draws stay in
  their range and how a UUID prints, \<open>productive\<close> that the address faker is not confined for ever to
  fewer addresses than there are users; the text a faker returns is arbitrary. The generator's
  argument is text: \<open>std::env::args\<close> panics on one that is not Unicode, before the program reads it. Its
  \<open>u32\<close> and \<open>i32\<close> values are integers, with the checks of its subtractions and additions written out.
  For the suites the HTTP client is the function \<open>send\<close>, and the decoder of a gzip page a parameter.

  \<^bold>\<open>Not modelled.\<close> The meaning of a SQL statement: a database may answer anything of the right
  shape. Serialisation of a response to JSON text, which is derived code. Requests other than GET
  and paths outside the routes, which the frameworks answer. That the seed's UUIDs
  are distinct, which is a matter of chance. The tests of the conformance runner that read the
  seeded rows (their outcome is the outcome of SQL on them), and the start of the demo process it
  tests; the set-up of pools and listeners in the demos; the integration tests, and the unit tests of the
  backends over a seeded database, which run against live databases; the ports in other languages and the frontend.
\<close>

end
